(* ===== verification/Prelude.thy ===== *)
theory Prelude
  imports Main "HOL-Library.Word"
begin

text \<open>
  Shared ground of the development: the machine types of the ARM Cortex-M7 port (32-bit
  \<^verbatim>\<open>int\<close>, \<^verbatim>\<open>long\<close> and pointers), the error numbers of the kernel, faults that a C expression
  can raise, bit fields of 32-bit registers, and the interface \<open>reg_bank\<close> of a register bank
  that holds one configuration per pin, line or channel. Every driver of \<^verbatim>\<open>arch/arm/mach-stm32\<close> updates its
  registers by read-modify-write of such fields.
  A group of macros of one header, such as the bits of a register, is a datatype with the names of the macros and a function
  that gives their values.
\<close>

unbundle bit_operations_syntax

section \<open>Machine types, error numbers and faults\<close>

type_synonym u8 = "8 word"
type_synonym u16 = "16 word"
type_synonym u32 = "32 word"

definition ENOENT :: int where [simp]: "ENOENT = 2"
definition EINTR :: int where [simp]: "EINTR = 4"
definition ENOMEM :: int where [simp]: "ENOMEM = 12"
definition EBUSY :: int where [simp]: "EBUSY = 16"
definition EEXIST :: int where [simp]: "EEXIST = 17"
definition ENODEV :: int where [simp]: "ENODEV = 19"
definition EINVAL :: int where [simp]: "EINVAL = 22"

text \<open>
  What the C program leaves undefined and the model makes a value: a division whose divisor is
  zero, an access to an array behind its end, and a call of or an access through a null pointer.
  \<open>NestedChain\<close> is a chained interrupt handler that runs below another one, where the code would recurse,
  \<open>BugOn\<close> a failed \<^verbatim>\<open>BUG_ON\<close>.
\<close>

datatype fault = DivByZero | OutOfBounds | NullCall | NestedChain | BugOn

named_theorems soc_simps \<open>reads of a register after an update of the chip state\<close>
named_theorems bit_field \<open>bit fields of registers\<close>

section \<open>Bit fields of a register\<close>

text \<open>
  \<open>field w i r\<close> is the \<open>w\<close>-bit field of \<open>r\<close> that starts at bit \<open>i\<close>; \<open>set_field w i v r\<close> is what
  the C code computes with \<^verbatim>\<open>r &= ~(MASK << i); r |= v << i\<close>. The value is not masked there: a
  value wider than the field runs into the neighbouring bits.
\<close>

definition field :: "nat \<Rightarrow> nat \<Rightarrow> u32 \<Rightarrow> u32" where
  "field w i r = take_bit w (drop_bit i r)"

definition set_field :: "nat \<Rightarrow> nat \<Rightarrow> u32 \<Rightarrow> u32 \<Rightarrow> u32" where
  "set_field w i v r = (r AND NOT (push_bit i (mask w))) OR push_bit i v"

lemma bit_u32_less: "bit (r :: u32) n \<Longrightarrow> n < 32"
  by (drule bit_imp_le_length) simp

lemma bit_field_iff [bit_field]: "bit (field w i r) n \<longleftrightarrow> n < w \<and> bit r (i + n)"
  by (simp add: field_def bit_take_bit_iff bit_drop_bit_eq)

lemma bit_set_field_iff [bit_field]:
  "bit (set_field w i v r) n \<longleftrightarrow>
     n < 32 \<and> (bit r n \<and> \<not> (i \<le> n \<and> n < i + w) \<or> i \<le> n \<and> bit v (n - i))"
  by (auto simp: set_field_def bit_simps dest: bit_u32_less)

lemma bit_clear_bit: "bit ((r :: u32) AND NOT (push_bit k 1)) n \<longleftrightarrow> n \<noteq> k \<and> bit r n"
  by (auto simp: bit_simps dest: bit_u32_less)

lemma bit_or_bit: "bit ((r :: u32) OR push_bit k 1) n \<longleftrightarrow> bit r n \<or> n = k \<and> k < 32"
  by (auto simp: bit_simps dest: bit_u32_less)

lemma bit_push_one: "bit (push_bit k 1 :: u32) n \<longleftrightarrow> n = k \<and> k < 32"
  using bit_or_bit [of 0 k n] by (simp only: or.left_neutral bit_0_eq) simp

lemma take_bit_bit_bound: "take_bit w v = v \<Longrightarrow> bit (v :: u32) n \<Longrightarrow> n < w"
  by (metis bit_take_bit_iff)

lemma field_set_field_same: "i + w \<le> 32 \<Longrightarrow> field w i (set_field w i v r) = take_bit w v"
  by (rule bit_word_eqI) (auto simp: bit_field bit_take_bit_iff)

lemma field_set_field_other:
  assumes "take_bit w v = v" and "i + w \<le> j \<or> j + w' \<le> i"
  shows "field w' j (set_field w i v r) = field w' j r"
  by (rule bit_word_eqI)
    (use assms in \<open>auto simp: bit_field dest: bit_u32_less take_bit_bit_bound\<close>)

lemma set_field_overwrite:
  assumes "take_bit w v' = v'"
  shows "set_field w i v (set_field w i v' r) = set_field w i v r"
proof (rule bit_word_eqI)
  fix n
  show "bit (set_field w i v (set_field w i v' r)) n = bit (set_field w i v r) n"
    using take_bit_bit_bound [OF assms, of "n - i"] by (auto simp: bit_field)
qed

lemma set_field_commute:
  assumes "take_bit w v = v" "take_bit w' v' = v'" "i + w \<le> j \<or> j + w' \<le> i"
  shows "set_field w i v (set_field w' j v' r) = set_field w' j v' (set_field w i v r)"
proof (rule bit_word_eqI)
  fix n
  show "bit (set_field w i v (set_field w' j v' r)) n = bit (set_field w' j v' (set_field w i v r)) n"
    using take_bit_bit_bound [OF assms(1), of "n - i"] take_bit_bit_bound [OF assms(2), of "n - j"]
      assms(3) by (auto simp: bit_field)
qed

text \<open>The read-modify-write as the source writes it, with its masks as numbers.\<close>

lemma set_field_c:
  "set_field (Suc 0) i v r = (r AND NOT (push_bit i 0x1)) OR push_bit i v"
  "set_field 2 i v r = (r AND NOT (push_bit i 0x3)) OR push_bit i v"
  "set_field 4 i v r = (r AND NOT (push_bit i 0xF)) OR push_bit i v"
  by (simp_all add: set_field_def mask_eq_exp_minus_1)

lemma mod_add_inj:
  assumes "(d + i) mod n = (d + j) mod n" "i < n" "j < (n :: nat)"
  shows "i = j"
proof -
  have "i mod n = j mod n" using assms(1) by (simp add: nat_mod_eq_iff)
  then show ?thesis using assms(2,3) by simp
qed

lemma unat_u32_less: "unat (x :: u32) < 2 ^ 32"
  by (rule order_less_le_trans [OF unsigned_less]) simp

lemma unat_and_mask: "unat (x AND mask n :: u32) = unat x mod 2 ^ n"
  by (metis take_bit_eq_mask take_bit_eq_mod unsigned_take_bit_eq)

lemma take_bit_u32_self: "unat (w :: u32) < 2 ^ n \<Longrightarrow> take_bit n w = w"
  by (simp add: word_unat_eq_iff unsigned_take_bit_eq take_bit_nat_eq_self)

lemma map_sum_eq_Inr [simp]: "map_sum f g x = Inr y \<longleftrightarrow> (\<exists>z. x = Inr z \<and> y = g z)"
  by (cases x) auto

section \<open>Banks of registers\<close>

text \<open>
  The interface a driver relies on when it configures one of many pins, lines or channels: a bank
  is read at an index, and an operation on index \<open>i\<close> has its effect \<open>eff\<close> on what is read at \<open>i\<close>
  and none on what is read at any other index. A sequence of operations then acts on every index
  as the subsequence of operations on that index, whatever is interleaved with it.
\<close>

locale reg_bank =
  fixes rd :: "'r \<Rightarrow> 'i \<Rightarrow> 'w"
    and wr :: "'i \<Rightarrow> 'v \<Rightarrow> 'r \<Rightarrow> 'r"
    and idx :: "'i \<Rightarrow> bool"
    and ok :: "'v \<Rightarrow> bool"
    and eff :: "'v \<Rightarrow> 'w \<Rightarrow> 'w"
  assumes rd_wr_same: "idx i \<Longrightarrow> ok v \<Longrightarrow> rd (wr i v r) i = eff v (rd r i)"
    and rd_wr_other: "idx i \<Longrightarrow> ok v \<Longrightarrow> idx j \<Longrightarrow> i \<noteq> j \<Longrightarrow> rd (wr i v r) j = rd r j"
begin

lemma rd_wr: "idx i \<Longrightarrow> ok v \<Longrightarrow> idx j \<Longrightarrow>
    rd (wr i v r) j = (if i = j then eff v (rd r j) else rd r j)"
  by (simp add: rd_wr_same rd_wr_other)

lemma rd_fold:
  assumes "\<forall>(i, v) \<in> set ops. idx i \<and> ok v" and "idx j"
  shows "rd (fold (\<lambda>(i, v). wr i v) ops r) j = fold (\<lambda>(i, v). if i = j then eff v else id) ops (rd r j)"
  using assms(1)
proof (induction ops arbitrary: r)
  case (Cons op ops)
  then show ?case by (cases op) (auto simp: rd_wr assms(2))
qed simp

lemma rd_fold_distinct:
  assumes "\<forall>(i, v) \<in> set ops. idx i \<and> ok v" and "idx j" and "distinct (map fst ops)"
  shows "rd (fold (\<lambda>(i, v). wr i v) ops r) j =
    (case map_of ops j of None \<Rightarrow> rd r j | Some v \<Rightarrow> eff v (rd r j))"
proof -
  have "fold (\<lambda>(i, v). if i = j then eff v else id) ops x =
      (case map_of ops j of None \<Rightarrow> x | Some v \<Rightarrow> eff v x)" for x
    using assms(3)
  proof (induction ops arbitrary: x)
    case (Cons op ops)
    then show ?case
      by (cases op) (auto simp: map_of_eq_None_iff [THEN iffD2] split: option.splits)
  qed simp
  then show ?thesis using rd_fold [OF assms(1,2)] by simp
qed

lemma rd_fold_untouched:
  assumes "\<forall>(i, v) \<in> set ops. idx i \<and> ok v" and "idx j" and "j \<notin> fst ` set ops"
  shows "rd (fold (\<lambda>(i, v). wr i v) ops r) j = rd r j"
proof -
  have "fold (\<lambda>(i, v). if i = j then eff v else id) ops x = x" for x
    using assms(3) by (induction ops arbitrary: x) force+
  then show ?thesis using rd_fold [OF assms(1,2)] by simp
qed

end

text \<open>Equal-width fields side by side in one register are such a bank.\<close>

interpretation fields: reg_bank
  "\<lambda>r i. field w (w * i) r" "\<lambda>i v. set_field w (w * i) v" "\<lambda>i. w * i + w \<le> 32"
  "\<lambda>v. take_bit w v = v" "\<lambda>v _. v" for w :: nat
proof
  fix i :: nat and v r :: u32 assume "w * i + w \<le> 32" "take_bit w v = v"
  then show "field w (w * i) (set_field w (w * i) v r) = v"
    by (simp add: field_set_field_same)
next
  fix i j :: nat and v r :: u32 assume *: "take_bit w v = v" "i \<noteq> j"
  have "w * i + w \<le> w * j \<or> w * j + w \<le> w * i"
    using * by (metis Suc_leI add.commute linorder_neqE_nat mult_Suc_right mult_le_mono2)
  with * show "field w (w * j) (set_field w (w * i) v r) = field w (w * j) r"
    by (simp add: field_set_field_other)
qed

end
