(* ===== verification/Soc.thy ===== *)
theory Soc
  imports Prelude
begin

text \<open>
  The chip as the drivers see it: the register maps of the peripherals that
  \<^verbatim>\<open>arch/arm/mach-stm32\<close> programs, the build configuration (\<^verbatim>\<open>CONFIG_\<close> symbols) that selects code,
  and the board identification of \<^verbatim>\<open>stm32_platform.c\<close>. The register structures are those of a
  build for anything but the STM32F1 (\<^verbatim>\<open>CONFIG_ARCH_STM32F1\<close> unset), as this port is built.
  Reserved words of the maps, which no code touches, are left out.
\<close>

section \<open>Register maps\<close>

record rcc_regs =
  rcc_cr :: u32
  rcc_pllcfgr :: u32
  rcc_cfgr :: u32
  rcc_cir :: u32
  rcc_ahb1rstr :: u32
  rcc_ahb2rstr :: u32
  rcc_ahb3rstr :: u32
  rcc_apb1rstr :: u32
  rcc_apb2rstr :: u32
  rcc_ahb1enr :: u32
  rcc_ahb2enr :: u32
  rcc_ahb3enr :: u32
  rcc_apb1enr :: u32
  rcc_apb2enr :: u32
  rcc_ahb1lpenr :: u32
  rcc_ahb2lpenr :: u32
  rcc_ahb3lpenr :: u32
  rcc_apb1lpenr :: u32
  rcc_apb2lpenr :: u32
  rcc_bdcr :: u32
  rcc_csr :: u32
  rcc_sscgr :: u32
  rcc_plli2scfgr :: u32
  rcc_pllsaicfgr :: u32
  rcc_dckcfgr :: u32
  rcc_dckcfgr2 :: u32

text \<open>\<^verbatim>\<open>afr[2]\<close> is the pair \<open>gpio_afrl\<close> (pins 0 to 7) and \<open>gpio_afrh\<close> (pins 8 to 15).\<close>

record gpio_regs =
  gpio_moder :: u32
  gpio_otyper :: u32
  gpio_ospeedr :: u32
  gpio_pupdr :: u32
  gpio_idr :: u32
  gpio_odr :: u32
  gpio_bsrrl :: u16
  gpio_bsrrh :: u16
  gpio_lckr :: u32
  gpio_afrl :: u32
  gpio_afrh :: u32

record dma_ch_regs =
  dma_cr :: u32
  dma_ndtr :: u32
  dma_par :: u32
  dma_m0ar :: u32
  dma_m1ar :: u32
  dma_fcr :: u32

text \<open>
  The streams \<^verbatim>\<open>s[8]\<close> are read and written at an index below 8 only (it is always
  \<^verbatim>\<open>ch % STM32F2_DMA_CH_NUM_DMA1\<close>).
\<close>

record dma_regs =
  dma_lisr :: u32
  dma_hisr :: u32
  dma_lifcr :: u32
  dma_hifcr :: u32
  dma_s :: "nat \<Rightarrow> dma_ch_regs"

record exti_regs =
  exti_imr :: u32
  exti_emr :: u32
  exti_rtsr :: u32
  exti_ftsr :: u32
  exti_swier :: u32
  exti_pr :: u32

record tim_regs =
  tim_cr1 :: u16
  tim_cr2 :: u16
  tim_smcr :: u16
  tim_dier :: u16
  tim_sr :: u16
  tim_egr :: u16
  tim_cnt :: u32
  tim_psc :: u16
  tim_arr :: u32

record systick_regs =
  systick_ctrl :: u32
  systick_load :: u32
  systick_val :: u32

text \<open>
  The chip: one register block per peripheral; the GPIO ports are found by their base address,
  as in the source. \<open>exticr\<close> is the array of four \<^verbatim>\<open>SYSCFG_EXTICR\<close> registers, accessed below index 4 only, \<open>syscfg_pmc\<close> the
  peripheral mode register of the same block, \<open>ltdc_gcr\<close> the control register of the LCD controller. Of the timer, only the
  registers that the code touches and those that it reads its settings from are listed.
\<close>

record soc =
  rcc :: rcc_regs
  gpio :: "u32 \<Rightarrow> gpio_regs"
  dma1 :: dma_regs
  dma2 :: dma_regs
  exti :: exti_regs
  syscfg_pmc :: u32
  exticr :: "nat \<Rightarrow> u32"
  tim2 :: tim_regs
  systick :: systick_regs
  ltdc_gcr :: u32

text \<open>A concrete chip, all registers zero, on which the witnesses are evaluated.\<close>

definition rcc0 :: rcc_regs where
  "rcc0 = \<lparr>rcc_cr = 0, rcc_pllcfgr = 0, rcc_cfgr = 0, rcc_cir = 0, rcc_ahb1rstr = 0, rcc_ahb2rstr = 0,
     rcc_ahb3rstr = 0, rcc_apb1rstr = 0, rcc_apb2rstr = 0, rcc_ahb1enr = 0, rcc_ahb2enr = 0,
     rcc_ahb3enr = 0, rcc_apb1enr = 0, rcc_apb2enr = 0, rcc_ahb1lpenr = 0, rcc_ahb2lpenr = 0,
     rcc_ahb3lpenr = 0, rcc_apb1lpenr = 0, rcc_apb2lpenr = 0, rcc_bdcr = 0, rcc_csr = 0,
     rcc_sscgr = 0, rcc_plli2scfgr = 0, rcc_pllsaicfgr = 0, rcc_dckcfgr = 0, rcc_dckcfgr2 = 0\<rparr>"

definition gpio0 :: gpio_regs where
  "gpio0 = \<lparr>gpio_moder = 0, gpio_otyper = 0, gpio_ospeedr = 0, gpio_pupdr = 0, gpio_idr = 0,
     gpio_odr = 0, gpio_bsrrl = 0, gpio_bsrrh = 0, gpio_lckr = 0, gpio_afrl = 0, gpio_afrh = 0\<rparr>"

definition dma0 :: dma_regs where
  "dma0 = \<lparr>dma_lisr = 0, dma_hisr = 0, dma_lifcr = 0, dma_hifcr = 0,
     dma_s = (\<lambda>_. \<lparr>dma_cr = 0, dma_ndtr = 0, dma_par = 0, dma_m0ar = 0, dma_m1ar = 0, dma_fcr = 0\<rparr>)\<rparr>"

definition soc0 :: soc where
  "soc0 = \<lparr>rcc = rcc0, gpio = (\<lambda>_. gpio0), dma1 = dma0, dma2 = dma0,
     exti = \<lparr>exti_imr = 0, exti_emr = 0, exti_rtsr = 0, exti_ftsr = 0, exti_swier = 0, exti_pr = 0\<rparr>,
     syscfg_pmc = 0, exticr = (\<lambda>_. 0),
     tim2 = \<lparr>tim_cr1 = 0, tim_cr2 = 0, tim_smcr = 0, tim_dier = 0, tim_sr = 0, tim_egr = 0,
       tim_cnt = 0, tim_psc = 0, tim_arr = 0\<rparr>,
     systick = \<lparr>systick_ctrl = 0, systick_load = 0, systick_val = 0\<rparr>, ltdc_gcr = 0\<rparr>"

section \<open>Build configuration\<close>

datatype config =
    CONFIG_ARCH_STM32F7
  | CONFIG_STM32_USART1 | CONFIG_STM32_USART2 | CONFIG_STM32_USART3 | CONFIG_STM32_USART4
  | CONFIG_STM32_USART5 | CONFIG_STM32_USART6 | CONFIG_STM32_USART7 | CONFIG_STM32_USART8
  | CONFIG_STM32_MAC
  | CONFIG_STM32_SPI2 | CONFIG_STM32_SPI4 | CONFIG_STM32_SPI5
  | CONFIG_I2C_STM32F7
  | CONFIG_STM32_I2C1 | CONFIG_STM32_I2C2 | CONFIG_STM32_I2C3 | CONFIG_STM32_I2C4
  | CONFIG_MMC_ARMMMCI | CONFIG_STM32_SD
  | CONFIG_STM32_USB_OTG_FS | CONFIG_STM32_USB_OTG_HS
  | CONFIG_GPIOLIB | CONFIG_GPIO_SYSFS
  | CONFIG_STM32_FB | CONFIG_STM32F7_DISCO_FB
  | CONFIG_STM32_DMA
  | CONFIG_STM32_GPIO | CONFIG_STM32_GPIO_INT

type_synonym kconfig = "config \<Rightarrow> bool"

text \<open>The configuration the repository ships in \<^verbatim>\<open>linux-stm32f7-master/.config\<close>.\<close>

definition board_config :: kconfig where
  "board_config c \<longleftrightarrow> c \<in> set [CONFIG_ARCH_STM32F7, CONFIG_STM32_USART6, CONFIG_STM32_MAC,
     CONFIG_MMC_ARMMMCI, CONFIG_STM32_SD, CONFIG_STM32_USB_OTG_FS, CONFIG_STM32F7_DISCO_FB,
     CONFIG_STM32_DMA]"

text \<open>Its \<^verbatim>\<open>CONFIG_HZ\<close>.\<close>

definition HZ :: u32 where "HZ = 100"

section \<open>Platforms and devices\<close>

definition PLATFORM_STM32_STM3220G_EVAL :: int where "PLATFORM_STM32_STM3220G_EVAL = 0"
definition PLATFORM_STM32_STM3240G_EVAL :: int where "PLATFORM_STM32_STM3240G_EVAL = 1"
definition PLATFORM_STM32_STM_SOM :: int where "PLATFORM_STM32_STM_SOM = 2"
definition PLATFORM_STM32_STM_STM32F439_SOM :: int where "PLATFORM_STM32_STM_STM32F439_SOM = 3"
definition PLATFORM_STM32_STM_DISCO :: int where "PLATFORM_STM32_STM_DISCO = 4"
definition PLATFORM_STM32_STM_STM32F7_SOM :: int where "PLATFORM_STM32_STM_STM32F7_SOM = 5"
definition PLATFORM_STM32_STM32F7_DISCO :: int where "PLATFORM_STM32_STM32F7_DISCO = 6"

lemmas platform_defs [simp] =
  PLATFORM_STM32_STM3220G_EVAL_def PLATFORM_STM32_STM3240G_EVAL_def PLATFORM_STM32_STM_SOM_def
  PLATFORM_STM32_STM_STM32F439_SOM_def PLATFORM_STM32_STM_DISCO_def
  PLATFORM_STM32_STM_STM32F7_SOM_def PLATFORM_STM32_STM32F7_DISCO_def

datatype device =
  DEVICE_STM32F207IG | DEVICE_STM32F407IG | DEVICE_STM32F437II | DEVICE_STM32F439II
  | DEVICE_STM32F746NG

text \<open>\<open>stm32_platform\<close> is the static variable that \<^verbatim>\<open>stm32_platform_parse\<close> sets from the
  \<^verbatim>\<open>stm32_platform=\<close> boot argument; it starts as \<open>stm32_platform_default\<close>.\<close>

definition stm32_platform_default :: int where
  "stm32_platform_default = PLATFORM_STM32_STM3220G_EVAL"

definition stm32_platform_parse :: "string \<Rightarrow> int \<Rightarrow> int" where
  "stm32_platform_parse s stm32_platform =
     (if s = ''stm3220g-eval'' then PLATFORM_STM32_STM3220G_EVAL
      else if s = ''stm3240g-eval'' then PLATFORM_STM32_STM3240G_EVAL
      else if s = ''stm-som'' then PLATFORM_STM32_STM_SOM
      else if s = ''stm32f4x9-som'' then PLATFORM_STM32_STM_STM32F439_SOM
      else if s = ''stm32f7-som'' then PLATFORM_STM32_STM_STM32F7_SOM
      else if s = ''stm32f7-disco'' then PLATFORM_STM32_STM32F7_DISCO
      else if s = ''stm-disco'' then PLATFORM_STM32_STM_DISCO
      else stm32_platform)"

definition stm32_device_get :: "int \<Rightarrow> device" where
  "stm32_device_get stm32_platform =
     (if stm32_platform = PLATFORM_STM32_STM3220G_EVAL then DEVICE_STM32F207IG
      else if stm32_platform = PLATFORM_STM32_STM3240G_EVAL then DEVICE_STM32F407IG
      else if stm32_platform = PLATFORM_STM32_STM_SOM then DEVICE_STM32F437II
      else if stm32_platform = PLATFORM_STM32_STM_STM32F439_SOM
            \<or> stm32_platform = PLATFORM_STM32_STM_DISCO then DEVICE_STM32F439II
      else if stm32_platform = PLATFORM_STM32_STM_STM32F7_SOM
            \<or> stm32_platform = PLATFORM_STM32_STM32F7_DISCO then DEVICE_STM32F746NG
      else DEVICE_STM32F207IG)"

text \<open>Parsing never leaves the range of known platforms.\<close>

definition known_platform :: "int \<Rightarrow> bool" where
  "known_platform p \<longleftrightarrow> 0 \<le> p \<and> p \<le> 6"

lemma known_platform_parse: "known_platform p \<Longrightarrow> known_platform (stm32_platform_parse s p)"
  by (simp add: known_platform_def stm32_platform_parse_def)

end
