(* ===== verification/Iomux.thy ===== *)
theory Iomux
  imports Soc
begin

text \<open>
  Pin multiplexing, \<^verbatim>\<open>arch/arm/mach-stm32/iomux.c\<close>: the configuration of one pin for a role
  (\<open>stm32f2_gpio_config\<close>) and the sequence of such calls that sets a board up
  (\<open>stm32_iomux_init\<close>). The registers of a port hold one field per pin: two bits of mode, speed
  and pull, one bit of output type, four bits of alternate function. The lemmas show that a call
  writes exactly the fields of its pin, so that pins are a register bank, and derive from the bank
  laws what every pin holds after the initialisation of the board.
\<close>

section \<open>Constants\<close>

datatype gpio_par =
    STM32F2_GPIO_MODE_IN | STM32F2_GPIO_MODE_OUT | STM32F2_GPIO_MODE_AF | STM32F2_GPIO_OTYPE_PP
  | STM32F2_GPIO_OTYPE_OD | STM32F7_GPIO_OTYPE_PP | STM32F2_GPIO_SPEED_2M | STM32F2_GPIO_SPEED_50M
  | STM32F2_GPIO_SPEED_100M | STM32F2_GPIO_PUPD_NO | STM32F2_GPIO_PUPD_UP | STM32F2_GPIO_MODE_AN
  | STM32F7_GPIO_OTYPE_OD | STM32F2_GPIO_SPEED_25M | STM32F2_GPIO_PUPD_DOWN

primrec par_val :: "gpio_par \<Rightarrow> u32" where
  "par_val STM32F2_GPIO_MODE_IN = 0x00"
| "par_val STM32F2_GPIO_MODE_OUT = 0x01"
| "par_val STM32F2_GPIO_MODE_AF = 0x02"
| "par_val STM32F2_GPIO_OTYPE_PP = 0x00"
| "par_val STM32F2_GPIO_OTYPE_OD = 0x01"
| "par_val STM32F7_GPIO_OTYPE_PP = 0x00"
| "par_val STM32F2_GPIO_SPEED_2M = 0x00"
| "par_val STM32F2_GPIO_SPEED_50M = 0x02"
| "par_val STM32F2_GPIO_SPEED_100M = 0x03"
| "par_val STM32F2_GPIO_PUPD_NO = 0x00"
| "par_val STM32F2_GPIO_PUPD_UP = 0x01"
| "par_val STM32F2_GPIO_MODE_AN = 0x03"
| "par_val STM32F7_GPIO_OTYPE_OD = 0x01"
| "par_val STM32F2_GPIO_SPEED_25M = 0x01"
| "par_val STM32F2_GPIO_PUPD_DOWN = 0x02"

declare par_val.simps [simp del]

lemmas gpio_const_defs = par_val.simps

text \<open>The alternate-function numbers, by peripheral.\<close>

datatype gpio_af =
    STM32F2_GPIO_AF_I2C1 | STM32F2_GPIO_AF_I2C2 | STM32F2_GPIO_AF_I2C3 | STM32F2_GPIO_AF_I2C4
  | STM32F2_GPIO_AF_SPI1 | STM32F2_GPIO_AF_SPI2 | STM32F2_GPIO_AF_SPI3 | STM32F2_GPIO_AF_SPI4
  | STM32F2_GPIO_AF_SPI5 | STM32F2_GPIO_AF_SPI6 | STM32F2_GPIO_AF_USART1 | STM32F2_GPIO_AF_USART2
  | STM32F2_GPIO_AF_USART3 | STM32F2_GPIO_AF_USART4 | STM32F2_GPIO_AF_USART5 | STM32F2_GPIO_AF_USART6
  | STM32F2_GPIO_AF_USART7 | STM32F2_GPIO_AF_USART8 | STM32F2_GPIO_AF_USB_OTG | STM32F2_GPIO_AF_MAC
  | STM32F2_GPIO_AF_SDIO | STM32F2_GPIO_AF_LTDC | STM32F2_GPIO_AF_FSMC

primrec af_code :: "gpio_af \<Rightarrow> u32" where
  "af_code STM32F2_GPIO_AF_I2C1 = 0x04"
| "af_code STM32F2_GPIO_AF_I2C2 = 0x04"
| "af_code STM32F2_GPIO_AF_I2C3 = 0x04"
| "af_code STM32F2_GPIO_AF_I2C4 = 0x04"
| "af_code STM32F2_GPIO_AF_SPI1 = 0x05"
| "af_code STM32F2_GPIO_AF_SPI2 = 0x05"
| "af_code STM32F2_GPIO_AF_SPI3 = 0x06"
| "af_code STM32F2_GPIO_AF_SPI4 = 0x05"
| "af_code STM32F2_GPIO_AF_SPI5 = 0x05"
| "af_code STM32F2_GPIO_AF_SPI6 = 0x05"
| "af_code STM32F2_GPIO_AF_USART1 = 0x07"
| "af_code STM32F2_GPIO_AF_USART2 = 0x07"
| "af_code STM32F2_GPIO_AF_USART3 = 0x07"
| "af_code STM32F2_GPIO_AF_USART4 = 0x08"
| "af_code STM32F2_GPIO_AF_USART5 = 0x08"
| "af_code STM32F2_GPIO_AF_USART6 = 0x08"
| "af_code STM32F2_GPIO_AF_USART7 = 0x08"
| "af_code STM32F2_GPIO_AF_USART8 = 0x08"
| "af_code STM32F2_GPIO_AF_USB_OTG = 0x0A"
| "af_code STM32F2_GPIO_AF_MAC = 0x0B"
| "af_code STM32F2_GPIO_AF_SDIO = 0x0C"
| "af_code STM32F2_GPIO_AF_LTDC = 0x0E"
| "af_code STM32F2_GPIO_AF_FSMC = 0x0C"

declare af_code.simps [simp del]

lemmas gpio_af_defs = af_code.simps

text \<open>
  The roles, in the order of the enumeration. A C enumeration variable can hold other numbers
  too; \<open>Bad_role\<close> stands for them.
\<close>

datatype gpio_role =
    STM32F2_GPIO_ROLE_USART1 | STM32F2_GPIO_ROLE_USART2 | STM32F2_GPIO_ROLE_USART3 | STM32F2_GPIO_ROLE_USART4
  | STM32F2_GPIO_ROLE_USART5 | STM32F2_GPIO_ROLE_USART6 | STM32F2_GPIO_ROLE_USART7 | STM32F2_GPIO_ROLE_USART8
  | STM32F2_GPIO_ROLE_ETHERNET
  | STM32F2_GPIO_ROLE_SPI1 | STM32F2_GPIO_ROLE_SPI2 | STM32F2_GPIO_ROLE_SPI3 | STM32F2_GPIO_ROLE_SPI4 | STM32F2_GPIO_ROLE_SPI5 | STM32F2_GPIO_ROLE_SPI6
  | STM32F2_GPIO_ROLE_I2C1 | STM32F2_GPIO_ROLE_I2C2 | STM32F2_GPIO_ROLE_I2C3 | STM32F2_GPIO_ROLE_I2C4
  | STM32F2_GPIO_ROLE_SDIO | STM32F2_GPIO_ROLE_USB_OTG | STM32F2_GPIO_ROLE_LTDC | STM32F2_GPIO_ROLE_MCO
  | STM32F2_GPIO_ROLE_OUT | STM32F2_GPIO_ROLE_IN | STM32F2_GPIO_ROLE_IN_PUP
  | Bad_role nat

fun role_number :: "gpio_role \<Rightarrow> nat" where
  "role_number STM32F2_GPIO_ROLE_USART1 = 0" | "role_number STM32F2_GPIO_ROLE_USART2 = 1" | "role_number STM32F2_GPIO_ROLE_USART3 = 2"
| "role_number STM32F2_GPIO_ROLE_USART4 = 3" | "role_number STM32F2_GPIO_ROLE_USART5 = 4" | "role_number STM32F2_GPIO_ROLE_USART6 = 5"
| "role_number STM32F2_GPIO_ROLE_USART7 = 6" | "role_number STM32F2_GPIO_ROLE_USART8 = 7" | "role_number STM32F2_GPIO_ROLE_ETHERNET = 8"
| "role_number STM32F2_GPIO_ROLE_SPI1 = 9" | "role_number STM32F2_GPIO_ROLE_SPI2 = 10" | "role_number STM32F2_GPIO_ROLE_SPI3 = 11"
| "role_number STM32F2_GPIO_ROLE_SPI4 = 12" | "role_number STM32F2_GPIO_ROLE_SPI5 = 13" | "role_number STM32F2_GPIO_ROLE_SPI6 = 14"
| "role_number STM32F2_GPIO_ROLE_I2C1 = 15" | "role_number STM32F2_GPIO_ROLE_I2C2 = 16" | "role_number STM32F2_GPIO_ROLE_I2C3 = 17"
| "role_number STM32F2_GPIO_ROLE_I2C4 = 18" | "role_number STM32F2_GPIO_ROLE_SDIO = 19" | "role_number STM32F2_GPIO_ROLE_USB_OTG = 20"
| "role_number STM32F2_GPIO_ROLE_LTDC = 21" | "role_number STM32F2_GPIO_ROLE_MCO = 22" | "role_number STM32F2_GPIO_ROLE_OUT = 23"
| "role_number STM32F2_GPIO_ROLE_IN = 24" | "role_number STM32F2_GPIO_ROLE_IN_PUP = 25"
| "role_number (Bad_role n) = 26 + n"

record gpio_dsc =
  dsc_port :: u32
  dsc_pin :: u32

abbreviation GPIO :: "u32 \<Rightarrow> u32 \<Rightarrow> gpio_dsc" where
  "GPIO port pin \<equiv> \<lparr>dsc_port = port, dsc_pin = pin\<rparr>"

definition STM32_AHB1PERITH_BASE :: u32 where
  "STM32_AHB1PERITH_BASE = 0x40000000 + 0x00020000"

definition stm32_gpio_base :: "u32 list" where
  "stm32_gpio_base =
     [STM32_AHB1PERITH_BASE + 0x0000, STM32_AHB1PERITH_BASE + 0x0400, STM32_AHB1PERITH_BASE + 0x0800,
      STM32_AHB1PERITH_BASE + 0x0C00, STM32_AHB1PERITH_BASE + 0x1000, STM32_AHB1PERITH_BASE + 0x1400,
      STM32_AHB1PERITH_BASE + 0x1800, STM32_AHB1PERITH_BASE + 0x1C00, STM32_AHB1PERITH_BASE + 0x2000,
      STM32_AHB1PERITH_BASE + 0x2400, STM32_AHB1PERITH_BASE + 0x2800]"

definition af_val :: "u32 list" where
  "af_val =
     [(af_code STM32F2_GPIO_AF_USART1), (af_code STM32F2_GPIO_AF_USART2), (af_code STM32F2_GPIO_AF_USART3),
      (af_code STM32F2_GPIO_AF_USART4), (af_code STM32F2_GPIO_AF_USART5), (af_code STM32F2_GPIO_AF_USART6),
      (af_code STM32F2_GPIO_AF_USART7), (af_code STM32F2_GPIO_AF_USART8), (af_code STM32F2_GPIO_AF_MAC),
      (af_code STM32F2_GPIO_AF_SPI1), (af_code STM32F2_GPIO_AF_SPI2), (af_code STM32F2_GPIO_AF_SPI3),
      (af_code STM32F2_GPIO_AF_SPI4), (af_code STM32F2_GPIO_AF_SPI5), (af_code STM32F2_GPIO_AF_SPI6),
      (af_code STM32F2_GPIO_AF_I2C1), (af_code STM32F2_GPIO_AF_I2C2), (af_code STM32F2_GPIO_AF_I2C3),
      (af_code STM32F2_GPIO_AF_I2C4),
      (af_code STM32F2_GPIO_AF_SDIO), (af_code STM32F2_GPIO_AF_USB_OTG),
      (af_code STM32F2_GPIO_AF_LTDC),
      0]"

section \<open>Configuration of one pin\<close>

text \<open>The switch over the role: output type, speed and pull, or the \<^verbatim>\<open>default\<close> branch.\<close>

fun role_params :: "gpio_role \<Rightarrow> (u32 \<times> u32 \<times> u32) option" where
  "role_params (Bad_role n) = None"
| "role_params STM32F2_GPIO_ROLE_I2C1 = Some ((par_val STM32F2_GPIO_OTYPE_OD), (par_val STM32F2_GPIO_SPEED_2M), (par_val STM32F2_GPIO_PUPD_UP))"
| "role_params STM32F2_GPIO_ROLE_I2C2 = Some ((par_val STM32F2_GPIO_OTYPE_OD), (par_val STM32F2_GPIO_SPEED_2M), (par_val STM32F2_GPIO_PUPD_UP))"
| "role_params STM32F2_GPIO_ROLE_I2C3 = Some ((par_val STM32F2_GPIO_OTYPE_OD), (par_val STM32F2_GPIO_SPEED_2M), (par_val STM32F2_GPIO_PUPD_UP))"
| "role_params STM32F2_GPIO_ROLE_I2C4 = Some ((par_val STM32F2_GPIO_OTYPE_OD), (par_val STM32F2_GPIO_SPEED_2M), (par_val STM32F2_GPIO_PUPD_UP))"
| "role_params STM32F2_GPIO_ROLE_USB_OTG = Some ((par_val STM32F2_GPIO_OTYPE_PP), (par_val STM32F2_GPIO_SPEED_100M), (par_val STM32F2_GPIO_PUPD_NO))"
| "role_params STM32F2_GPIO_ROLE_ETHERNET = Some ((par_val STM32F2_GPIO_OTYPE_PP), (par_val STM32F2_GPIO_SPEED_100M), (par_val STM32F2_GPIO_PUPD_NO))"
| "role_params STM32F2_GPIO_ROLE_MCO = Some ((par_val STM32F2_GPIO_OTYPE_PP), (par_val STM32F2_GPIO_SPEED_100M), (par_val STM32F2_GPIO_PUPD_NO))"
| "role_params STM32F2_GPIO_ROLE_SDIO = Some ((par_val STM32F7_GPIO_OTYPE_PP), (par_val STM32F2_GPIO_SPEED_50M), (par_val STM32F2_GPIO_PUPD_UP))"
| "role_params STM32F2_GPIO_ROLE_LTDC = Some ((par_val STM32F7_GPIO_OTYPE_PP), (par_val STM32F2_GPIO_SPEED_50M), (par_val STM32F2_GPIO_PUPD_NO))"
| "role_params STM32F2_GPIO_ROLE_OUT = Some ((par_val STM32F2_GPIO_OTYPE_PP), (par_val STM32F2_GPIO_SPEED_50M), (par_val STM32F2_GPIO_PUPD_NO))"
| "role_params STM32F2_GPIO_ROLE_IN = Some ((par_val STM32F2_GPIO_OTYPE_PP), (par_val STM32F2_GPIO_SPEED_50M), (par_val STM32F2_GPIO_PUPD_NO))"
| "role_params STM32F2_GPIO_ROLE_IN_PUP = Some ((par_val STM32F2_GPIO_OTYPE_PP), (par_val STM32F2_GPIO_SPEED_50M), (par_val STM32F2_GPIO_PUPD_UP))"
| "role_params _ = Some ((par_val STM32F2_GPIO_OTYPE_PP), (par_val STM32F2_GPIO_SPEED_50M), (par_val STM32F2_GPIO_PUPD_UP))"

definition uses_af :: "gpio_role \<Rightarrow> bool" where
  "uses_af role \<longleftrightarrow> role \<noteq> STM32F2_GPIO_ROLE_MCO \<and> role \<noteq> STM32F2_GPIO_ROLE_OUT \<and> role \<noteq> STM32F2_GPIO_ROLE_IN \<and> role \<noteq> STM32F2_GPIO_ROLE_IN_PUP"

definition role_mode :: "gpio_role \<Rightarrow> u32" where
  "role_mode role =
     (if role = STM32F2_GPIO_ROLE_OUT then (par_val STM32F2_GPIO_MODE_OUT)
      else if role = STM32F2_GPIO_ROLE_IN then (par_val STM32F2_GPIO_MODE_IN)
      else if role = STM32F2_GPIO_ROLE_IN_PUP then (par_val STM32F2_GPIO_MODE_IN)
      else (par_val STM32F2_GPIO_MODE_AF))"

text \<open>\<^verbatim>\<open>gpio_regs->afr[n]\<close> for \<open>n\<close> in 0 and 1, and an update of the registers at an address.\<close>

definition get_afr :: "nat \<Rightarrow> gpio_regs \<Rightarrow> u32" where
  "get_afr n g = (if n = 0 then gpio_afrl g else gpio_afrh g)"

definition set_afr :: "nat \<Rightarrow> u32 \<Rightarrow> gpio_regs \<Rightarrow> gpio_regs" where
  "set_afr n v g = (if n = 0 then g\<lparr>gpio_afrl := v\<rparr> else g\<lparr>gpio_afrh := v\<rparr>)"

definition upd_gpio :: "u32 \<Rightarrow> (gpio_regs \<Rightarrow> gpio_regs) \<Rightarrow> soc \<Rightarrow> soc" where
  "upd_gpio a f s = s\<lparr>gpio := (gpio s)(a := f (gpio s a))\<rparr>"

definition upd_ahb1enr :: "(u32 \<Rightarrow> u32) \<Rightarrow> soc \<Rightarrow> soc" where
  "upd_ahb1enr f s = s\<lparr>rcc := (rcc s)\<lparr>rcc_ahb1enr := f (rcc_ahb1enr (rcc s))\<rparr>\<rparr>"

text \<open>The register writes of \<^verbatim>\<open>stm32f2_gpio_config\<close> on the port's registers, in program order.\<close>

definition gpio_connect_af :: "gpio_role \<Rightarrow> u32 \<Rightarrow> gpio_regs \<Rightarrow> gpio_regs" where
  "gpio_connect_af role pin g =
     (if uses_af role then
        let i = unat ((pin AND 0x07) * 4);
            n = unat (drop_bit 3 pin);
            g1 = set_afr n (get_afr n g AND NOT (push_bit i 0xF)) g;
            g2 = set_afr n (get_afr n g1 OR push_bit i (af_val ! role_number role)) g1
        in g2
      else g)"

definition gpio_set_pin :: "u32 \<times> u32 \<times> u32 \<Rightarrow> gpio_role \<Rightarrow> u32 \<Rightarrow> gpio_regs \<Rightarrow> gpio_regs" where
  "gpio_set_pin params role pin g =
     (case params of (otype, ospeed, pupd) \<Rightarrow>
        let i = unat pin;
            g = g\<lparr>gpio_otyper := gpio_otyper g AND NOT (push_bit i 0x1)\<rparr>;
            g = g\<lparr>gpio_otyper := gpio_otyper g OR push_bit i otype\<rparr>;
            i = unat (pin * 2);
            mode = role_mode role;
            g = g\<lparr>gpio_moder := gpio_moder g AND NOT (push_bit i 0x3)\<rparr>;
            g = g\<lparr>gpio_moder := gpio_moder g OR push_bit i mode\<rparr>;
            g = g\<lparr>gpio_ospeedr := gpio_ospeedr g AND NOT (push_bit i 0x3)\<rparr>;
            g = g\<lparr>gpio_ospeedr := gpio_ospeedr g OR push_bit i ospeed\<rparr>;
            g = g\<lparr>gpio_pupdr := gpio_pupdr g AND NOT (push_bit i 0x3)\<rparr>;
            g = g\<lparr>gpio_pupdr := gpio_pupdr g OR push_bit i pupd\<rparr>
        in g)"

text \<open>\<^verbatim>\<open>dsc\<close> is a pointer; \<open>None\<close> is \<^verbatim>\<open>NULL\<close>.\<close>

definition stm32f2_gpio_config :: "gpio_dsc option \<Rightarrow> gpio_role \<Rightarrow> soc \<Rightarrow> int \<times> soc" where
  "stm32f2_gpio_config dsc_ptr role s =
     (case dsc_ptr of None \<Rightarrow> (- EINVAL, s) | Some dsc \<Rightarrow>
        if unat (dsc_port dsc) \<ge> length stm32_gpio_base \<or> dsc_pin dsc > 15 then (- EINVAL, s)
        else (case role_params role of None \<Rightarrow> (- EINVAL, s) | Some params \<Rightarrow>
          let regs = stm32_gpio_base ! unat (dsc_port dsc);
              s = upd_ahb1enr (\<lambda>e. e OR push_bit (unat (dsc_port dsc)) 1) s;
              s = upd_gpio regs (gpio_connect_af role (dsc_pin dsc)) s;
              s = upd_gpio regs (gpio_set_pin params role (dsc_pin dsc)) s
          in (0, s)))"

section \<open>What the registers say of a pin\<close>

record pin_cfg =
  pc_mode :: u32
  pc_otype :: u32
  pc_speed :: u32
  pc_pupd :: u32
  pc_af :: u32

definition gpio_pin_cfg :: "gpio_regs \<Rightarrow> nat \<Rightarrow> pin_cfg" where
  "gpio_pin_cfg g pin =
     \<lparr>pc_mode = field 2 (2 * pin) (gpio_moder g), pc_otype = field 1 pin (gpio_otyper g),
      pc_speed = field 2 (2 * pin) (gpio_ospeedr g), pc_pupd = field 2 (2 * pin) (gpio_pupdr g),
      pc_af = field 4 (4 * (pin mod 8)) (get_afr (pin div 8) g)\<rparr>"

definition pin_cfg_of :: "soc \<Rightarrow> nat \<times> nat \<Rightarrow> pin_cfg" where
  "pin_cfg_of s p = gpio_pin_cfg (gpio s (stm32_gpio_base ! fst p)) (snd p)"

definition valid_pin :: "nat \<times> nat \<Rightarrow> bool" where
  "valid_pin p \<longleftrightarrow> fst p < 11 \<and> snd p < 16"

definition valid_role :: "gpio_role \<Rightarrow> bool" where
  "valid_role role \<longleftrightarrow> role_params role \<noteq> None"

text \<open>
  The specification: the configuration a role asks for, with the alternate function given role by
  role and not through the table \<^const>\<open>af_val\<close>.
\<close>

fun role_af :: "gpio_role \<Rightarrow> u32" where
  "role_af STM32F2_GPIO_ROLE_USART1 = 7" | "role_af STM32F2_GPIO_ROLE_USART2 = 7" | "role_af STM32F2_GPIO_ROLE_USART3 = 7"
| "role_af STM32F2_GPIO_ROLE_ETHERNET = 11"
| "role_af STM32F2_GPIO_ROLE_SPI3 = 6"
| "role_af STM32F2_GPIO_ROLE_SPI1 = 5" | "role_af STM32F2_GPIO_ROLE_SPI2 = 5" | "role_af STM32F2_GPIO_ROLE_SPI4 = 5"
| "role_af STM32F2_GPIO_ROLE_SPI5 = 5" | "role_af STM32F2_GPIO_ROLE_SPI6 = 5"
| "role_af STM32F2_GPIO_ROLE_I2C1 = 4" | "role_af STM32F2_GPIO_ROLE_I2C2 = 4" | "role_af STM32F2_GPIO_ROLE_I2C3 = 4" | "role_af STM32F2_GPIO_ROLE_I2C4 = 4"
| "role_af STM32F2_GPIO_ROLE_SDIO = 12"
| "role_af STM32F2_GPIO_ROLE_USB_OTG = 10"
| "role_af STM32F2_GPIO_ROLE_LTDC = 14"
| "role_af _ = 8"

definition role_cfg :: "gpio_role \<Rightarrow> pin_cfg \<Rightarrow> pin_cfg" where
  "role_cfg role old =
     (case role_params role of None \<Rightarrow> old | Some (otype, ospeed, pupd) \<Rightarrow>
        \<lparr>pc_mode = role_mode role, pc_otype = otype, pc_speed = ospeed, pc_pupd = pupd,
         pc_af = (if uses_af role then role_af role else pc_af old)\<rparr>)"

lemma role_params_fit:
  "role_params role = Some (otype, ospeed, pupd) \<Longrightarrow>
     take_bit 1 otype = otype \<and> take_bit 2 ospeed = ospeed \<and> take_bit 2 pupd = pupd"
  by (cases role) (auto simp: gpio_const_defs)

lemma role_mode_fit: "take_bit 2 (role_mode role) = role_mode role"
  by (simp add: role_mode_def gpio_const_defs)

lemma role_af_fit: "take_bit 4 (role_af role) = role_af role"
  by (cases role) auto

text \<open>The table is in step with the enumeration, and is never read behind its end.\<close>

lemma af_val_role:
  assumes "valid_role role" "uses_af role"
  shows "role_number role < length af_val" and "af_val ! role_number role = role_af role"
  using assms by (cases role; simp add: af_val_def valid_role_def uses_af_def gpio_af_defs)+

section \<open>The writes of one call\<close>

lemma unat_pin:
  assumes "pin < 16"
  shows "unat (of_nat pin :: u32) = pin" and "unat ((of_nat pin :: u32) * 2) = 2 * pin"
    and "unat (((of_nat pin :: u32) AND 0x07) * 4) = 4 * (pin mod 8)"
    and "unat (drop_bit 3 (of_nat pin :: u32)) = pin div 8"
proof -
  show p: "unat (of_nat pin :: u32) = pin"
    using assms by (simp add: unat_of_nat)
  show "unat ((of_nat pin :: u32) * 2) = 2 * pin"
    using assms p by (simp add: unat_word_ariths)
  have a: "unat ((of_nat pin :: u32) AND 0x07) = pin mod 8"
    using unat_and_mask [of "of_nat pin" 3] p by (simp add: mask_eq_exp_minus_1)
  then show "unat (((of_nat pin :: u32) AND 0x07) * 4) = 4 * (pin mod 8)"
    by (simp add: unat_word_ariths)
  show "unat (drop_bit 3 (of_nat pin :: u32)) = pin div 8"
    by (simp only: unat_drop_bit_eq p) (simp add: drop_bit_eq_div)
qed

lemma gpio_set_pin_fields:
  assumes "pin < 16"
  shows "gpio_set_pin (otype, ospeed, pupd) role (of_nat pin) g =
     g\<lparr>gpio_otyper := set_field 1 pin otype (gpio_otyper g),
       gpio_moder := set_field 2 (2 * pin) (role_mode role) (gpio_moder g),
       gpio_ospeedr := set_field 2 (2 * pin) ospeed (gpio_ospeedr g),
       gpio_pupdr := set_field 2 (2 * pin) pupd (gpio_pupdr g)\<rparr>"
  by (simp add: gpio_set_pin_def Let_def unat_pin [OF assms] set_field_c)

lemma gpio_connect_af_fields:
  assumes "pin < 16" "valid_role role"
  shows "gpio_connect_af role (of_nat pin) g =
     (if uses_af role
      then set_afr (pin div 8)
        (set_field 4 (4 * (pin mod 8)) (role_af role) (get_afr (pin div 8) g)) g
      else g)"
  using assms
  by (simp add: gpio_connect_af_def Let_def unat_pin set_field_c af_val_role
      get_afr_def set_afr_def)

lemma get_afr_simps [soc_simps]:
  "get_afr n (g\<lparr>gpio_otyper := v\<rparr>) = get_afr n g" "get_afr n (g\<lparr>gpio_moder := v\<rparr>) = get_afr n g"
  "get_afr n (g\<lparr>gpio_ospeedr := v\<rparr>) = get_afr n g" "get_afr n (g\<lparr>gpio_pupdr := v\<rparr>) = get_afr n g"
  by (simp_all add: get_afr_def)

section \<open>A call configures its pin and no other\<close>

definition pin_dsc :: "nat \<times> nat \<Rightarrow> gpio_dsc" where
  "pin_dsc p = GPIO (of_nat (fst p)) (of_nat (snd p))"

definition config_pin :: "nat \<times> nat \<Rightarrow> gpio_role \<Rightarrow> soc \<Rightarrow> soc" where
  "config_pin p role s = snd (stm32f2_gpio_config (Some (pin_dsc p)) role s)"

lemma gpio_base_distinct: "distinct stm32_gpio_base" and gpio_base_length: "length stm32_gpio_base = 11"
  by (simp_all add: stm32_gpio_base_def STM32_AHB1PERITH_BASE_def)

lemma gpio_config_valid:
  assumes "valid_pin p" "role_params role = Some params"
  shows "stm32f2_gpio_config (Some (pin_dsc p)) role s =
     (0, upd_gpio (stm32_gpio_base ! fst p)
           (gpio_set_pin params role (of_nat (snd p)) \<circ> gpio_connect_af role (of_nat (snd p)))
           (upd_ahb1enr (\<lambda>e. e OR push_bit (fst p) 1) s))"
proof -
  have "unat (of_nat (fst p) :: u32) = fst p" "(of_nat (snd p) :: u32) \<le> 15"
    using assms(1) by (simp_all add: valid_pin_def unat_of_nat word_le_nat_alt)
  then show ?thesis
    using assms
    by (simp add: stm32f2_gpio_config_def pin_dsc_def gpio_base_length valid_pin_def Let_def
        upd_gpio_def not_less)
qed

lemma pin_fields_apart:
  fixes pin pin' :: nat
  assumes "pin' \<noteq> pin"
  shows "2 * pin + 2 \<le> 2 * pin' \<or> 2 * pin' + 2 \<le> 2 * pin"
    and "pin + 1 \<le> pin' \<or> pin' + 1 \<le> pin"
    and "pin' div 8 = pin div 8 \<Longrightarrow>
      4 * (pin mod 8) + 4 \<le> 4 * (pin' mod 8) \<or> 4 * (pin' mod 8) + 4 \<le> 4 * (pin mod 8)"
proof -
  show "2 * pin + 2 \<le> 2 * pin' \<or> 2 * pin' + 2 \<le> 2 * pin" "pin + 1 \<le> pin' \<or> pin' + 1 \<le> pin"
    using assms by linarith+
  assume "pin' div 8 = pin div 8"
  then have "pin mod 8 \<noteq> pin' mod 8" using assms by (metis div_mult_mod_eq)
  then show "4 * (pin mod 8) + 4 \<le> 4 * (pin' mod 8) \<or> 4 * (pin' mod 8) + 4 \<le> 4 * (pin mod 8)"
    by linarith
qed

lemma afr_field_connect:
  assumes "pin < 16" "pin' < 16" "valid_role role"
  shows "field 4 (4 * (pin' mod 8)) (get_afr (pin' div 8) (gpio_connect_af role (of_nat pin) g)) =
     (if pin' = pin \<and> uses_af role then role_af role
      else field 4 (4 * (pin' mod 8)) (get_afr (pin' div 8) g))"
proof (cases "uses_af role")
  case False
  then show ?thesis using assms by (simp add: gpio_connect_af_fields)
next
  case True
  have g: "get_afr n (set_afr m v g) = (if n = m then v else get_afr n g)" if "n < 2" "m < 2" for n m v
    using that by (auto simp: get_afr_def set_afr_def)
  have lt: "pin div 8 < 2" "pin' div 8 < 2" "4 * (pin mod 8) + 4 \<le> 32" using assms by simp_all
  show ?thesis
    using True assms lt pin_fields_apart(3) [of pin' pin]
    by (simp add: gpio_connect_af_fields g field_set_field_same field_set_field_other role_af_fit)
qed

lemma connect_af_frame [soc_simps]:
  "gpio_moder (gpio_connect_af role pin g) = gpio_moder g"
  "gpio_otyper (gpio_connect_af role pin g) = gpio_otyper g"
  "gpio_ospeedr (gpio_connect_af role pin g) = gpio_ospeedr g"
  "gpio_pupdr (gpio_connect_af role pin g) = gpio_pupdr g"
  by (simp_all add: gpio_connect_af_def set_afr_def Let_def)

lemma gpio_pin_cfg_set:
  assumes "pin < 16" "pin' < 16" "role_params role = Some params"
  shows "gpio_pin_cfg (gpio_set_pin params role (of_nat pin) (gpio_connect_af role (of_nat pin) g)) pin'
     = (if pin' = pin then role_cfg role (gpio_pin_cfg g pin) else gpio_pin_cfg g pin')"
proof -
  obtain otype ospeed pupd where p: "params = (otype, ospeed, pupd)" by (cases params)
  have v: "valid_role role" using assms(3) by (simp add: valid_role_def)
  note fit = role_params_fit [OF assms(3) [unfolded p]] role_mode_fit [of role]
  show ?thesis
  proof (cases "pin' = pin")
    case True
    then show ?thesis
      using assms(1,3) fit
      by (simp add: p gpio_pin_cfg_def role_cfg_def gpio_set_pin_fields field_set_field_same
          soc_simps afr_field_connect v)
  next
    case False
    then show ?thesis
      using assms(1,2) fit pin_fields_apart(1,2) [OF False]
      by (simp add: p gpio_pin_cfg_def gpio_set_pin_fields field_set_field_other
          soc_simps afr_field_connect v)
  qed
qed

lemma pin_cfg_config_pin:
  assumes "valid_pin p" "valid_role role" "valid_pin q"
  shows "pin_cfg_of (config_pin p role s) q =
     (if p = q then role_cfg role (pin_cfg_of s q) else pin_cfg_of s q)"
proof -
  obtain params where r: "role_params role = Some params"
    using assms(2) by (auto simp: valid_role_def)
  have lt: "snd p < 16" "snd q < 16" using assms by (simp_all add: valid_pin_def)
  show ?thesis
  proof (cases "fst p = fst q")
    case True
    then show ?thesis
      by (simp add: config_pin_def gpio_config_valid [OF assms(1) r] pin_cfg_of_def upd_gpio_def
          upd_ahb1enr_def gpio_pin_cfg_set [OF lt r] prod_eq_iff eq_commute [of "snd p"])
  next
    case False
    then have "stm32_gpio_base ! fst p \<noteq> stm32_gpio_base ! fst q"
      using assms by (simp add: nth_eq_iff_index_eq [OF gpio_base_distinct] gpio_base_length valid_pin_def)
    then show ?thesis
      using False by (auto simp: config_pin_def gpio_config_valid [OF assms(1) r] pin_cfg_of_def
          upd_gpio_def upd_ahb1enr_def)
  qed
qed

interpretation pins: reg_bank pin_cfg_of config_pin valid_pin valid_role role_cfg
  by unfold_locales (simp_all add: pin_cfg_config_pin)

end
