(* ===== verification/Iomux_Init.thy ===== *)
theory Iomux_Init
  imports Iomux
begin

text \<open>
  The initialisation of the pins, \<^verbatim>\<open>stm32_iomux_init\<close> of \<^verbatim>\<open>iomux.c\<close>: one definition per block of
  the function that a \<^verbatim>\<open>CONFIG_\<close> symbol guards, each the list of calls of
  \<^const>\<open>stm32f2_gpio_config\<close> the block makes, in order. \<^verbatim>\<open>CONFIG_STM32_SPI1\<close>, \<^verbatim>\<open>SPI3\<close> and \<^verbatim>\<open>SPI6\<close>
  stop the compilation (\<^verbatim>\<open>#error\<close>) and have no symbol in the model. The theorems say what every
  pin holds afterwards, for any configuration and then for the one that the repository ships.
\<close>

section \<open>The calls, block by block\<close>

type_synonym gpio_call = "gpio_dsc \<times> gpio_role"

definition gpio_config_all :: "gpio_call list \<Rightarrow> soc \<Rightarrow> soc" where
  "gpio_config_all calls s =
     fold (\<lambda>(dsc, role) s. snd (stm32f2_gpio_config (Some dsc) role s)) calls s"

abbreviation guarded :: "bool \<Rightarrow> 'a list \<Rightarrow> 'a list" where
  "guarded b xs \<equiv> (if b then xs else [])"

definition iomux_usart_f7 :: "kconfig \<Rightarrow> gpio_call list" where
  "iomux_usart_f7 cfg =
     guarded (cfg CONFIG_STM32_USART1) [(GPIO 1 6, STM32F2_GPIO_ROLE_USART1), (GPIO 0 10, STM32F2_GPIO_ROLE_USART1)] @
     guarded (cfg CONFIG_STM32_USART3) [(GPIO 2 10, STM32F2_GPIO_ROLE_USART3), (GPIO 2 11, STM32F2_GPIO_ROLE_USART3)] @
     guarded (cfg CONFIG_STM32_USART6) [(GPIO 2 6, STM32F2_GPIO_ROLE_USART6), (GPIO 2 7, STM32F2_GPIO_ROLE_USART6)] @
     guarded (cfg CONFIG_STM32_USART7) [(GPIO 5 7, STM32F2_GPIO_ROLE_USART7), (GPIO 5 6, STM32F2_GPIO_ROLE_USART7)]"

definition iomux_usart_f2 :: "kconfig \<Rightarrow> gpio_call list" where
  "iomux_usart_f2 cfg =
     guarded (cfg CONFIG_STM32_USART1) [(GPIO 0 9, STM32F2_GPIO_ROLE_USART1), (GPIO 0 10, STM32F2_GPIO_ROLE_USART1)] @
     guarded (cfg CONFIG_STM32_USART3) [(GPIO 2 10, STM32F2_GPIO_ROLE_USART3), (GPIO 2 11, STM32F2_GPIO_ROLE_USART3)]"

definition mii_gpio :: "gpio_dsc list" where
  "mii_gpio =
     [GPIO 0 1, GPIO 0 2, GPIO 0 7,
      GPIO 1 5, GPIO 1 8,
      GPIO 2 1, GPIO 2 2, GPIO 2 3, GPIO 2 4, GPIO 2 5,
      GPIO 6 11, GPIO 6 13, GPIO 6 14,
      GPIO 7 2, GPIO 7 3, GPIO 7 6, GPIO 7 7,
      GPIO 8 10]"

definition rmii_gpio :: "gpio_dsc list" where
  "rmii_gpio =
     [GPIO 0 1, GPIO 0 2, GPIO 0 7,
      GPIO 2 1, GPIO 2 4, GPIO 2 5,
      GPIO 6 11, GPIO 6 13, GPIO 6 14]"

definition iomux_mac :: "kconfig \<Rightarrow> int \<Rightarrow> gpio_call list" where
  "iomux_mac cfg platform =
     guarded (cfg CONFIG_STM32_MAC)
       (if platform = PLATFORM_STM32_STM_SOM \<or> platform = PLATFORM_STM32_STM_DISCO \<or>
           platform = PLATFORM_STM32_STM_STM32F439_SOM \<or> platform = PLATFORM_STM32_STM_STM32F7_SOM \<or>
           platform = PLATFORM_STM32_STM32F7_DISCO
        then map (\<lambda>d. (d, STM32F2_GPIO_ROLE_ETHERNET)) rmii_gpio
        else map (\<lambda>d. (d, STM32F2_GPIO_ROLE_ETHERNET)) mii_gpio)"

definition iomux_spi :: "kconfig \<Rightarrow> gpio_call list" where
  "iomux_spi cfg =
     guarded (cfg CONFIG_STM32_SPI2)
       [(GPIO 8 1, STM32F2_GPIO_ROLE_SPI2), (GPIO 1 14, STM32F2_GPIO_ROLE_SPI2), (GPIO 1 15, STM32F2_GPIO_ROLE_SPI2), (GPIO 1 9, STM32F2_GPIO_ROLE_OUT)] @
     guarded (cfg CONFIG_STM32_SPI4)
       [(GPIO 4 2, STM32F2_GPIO_ROLE_SPI4), (GPIO 4 5, STM32F2_GPIO_ROLE_SPI4), (GPIO 4 6, STM32F2_GPIO_ROLE_SPI4), (GPIO 4 4, STM32F2_GPIO_ROLE_OUT)] @
     guarded (cfg CONFIG_STM32_SPI5)
       [(GPIO 7 6, STM32F2_GPIO_ROLE_SPI5), (GPIO 5 8, STM32F2_GPIO_ROLE_SPI5), (GPIO 5 9, STM32F2_GPIO_ROLE_SPI5), (GPIO 7 5, STM32F2_GPIO_ROLE_OUT)]"

definition iomux_i2c :: "kconfig \<Rightarrow> int \<Rightarrow> gpio_call list" where
  "iomux_i2c cfg platform =
     (let som = (platform = PLATFORM_STM32_STM_STM32F439_SOM \<or>
                 platform = PLATFORM_STM32_STM_STM32F7_SOM) in
     guarded (cfg CONFIG_STM32_I2C1)
       [(if som then GPIO 1 8 else GPIO 1 9, STM32F2_GPIO_ROLE_I2C1), (if som then GPIO 1 7 else GPIO 1 8, STM32F2_GPIO_ROLE_I2C1)] @
     guarded (cfg CONFIG_STM32_I2C2) [(GPIO 1 10, STM32F2_GPIO_ROLE_I2C2), (GPIO 1 11, STM32F2_GPIO_ROLE_I2C2)] @
     guarded (cfg CONFIG_STM32_I2C3) [(GPIO 0 8, STM32F2_GPIO_ROLE_I2C3), (GPIO 2 9, STM32F2_GPIO_ROLE_I2C3)] @
     guarded (cfg CONFIG_STM32_I2C4) [(GPIO 7 11, STM32F2_GPIO_ROLE_I2C4), (GPIO 7 12, STM32F2_GPIO_ROLE_I2C4)])"

definition iomux_sdcard :: "kconfig \<Rightarrow> int \<Rightarrow> gpio_call list" where
  "iomux_sdcard cfg platform =
     guarded (cfg CONFIG_MMC_ARMMMCI)
       (map (\<lambda>d. (d, STM32F2_GPIO_ROLE_SDIO))
          [GPIO 2 8, GPIO 2 9, GPIO 2 10, GPIO 2 11, GPIO 2 12, GPIO 3 2] @
        guarded (platform = PLATFORM_STM32_STM32F7_DISCO) [(GPIO 2 13, STM32F2_GPIO_ROLE_IN_PUP)])"

definition iomux_otg_fs_pins :: "kconfig \<Rightarrow> int \<Rightarrow> gpio_call list" where
  "iomux_otg_fs_pins cfg platform =
     guarded (cfg CONFIG_STM32_USB_OTG_FS)
       (map (\<lambda>d. (d, STM32F2_GPIO_ROLE_USB_OTG)) [GPIO 0 11, GPIO 0 12, GPIO 0 9, GPIO 0 10] @
        guarded (platform = PLATFORM_STM32_STM32F7_DISCO) [(GPIO 3 5, STM32F2_GPIO_ROLE_OUT)])"

text \<open>After its last call the block drives PD5 low, which switches VBUS of the USB port on.\<close>

definition iomux_otg_fs :: "kconfig \<Rightarrow> int \<Rightarrow> soc \<Rightarrow> soc" where
  "iomux_otg_fs cfg platform s =
     (let s = gpio_config_all (iomux_otg_fs_pins cfg platform) s in
      if cfg CONFIG_STM32_USB_OTG_FS \<and> platform = PLATFORM_STM32_STM32F7_DISCO
      then upd_gpio (stm32_gpio_base ! 3) (\<lambda>g. g\<lparr>gpio_odr := gpio_odr g AND NOT (push_bit 5 1)\<rparr>) s
      else s)"

definition iomux_otg_hs :: "kconfig \<Rightarrow> int \<Rightarrow> gpio_call list" where
  "iomux_otg_hs cfg platform =
     guarded (cfg CONFIG_STM32_USB_OTG_HS)
       (map (\<lambda>d. (d, STM32F2_GPIO_ROLE_USB_OTG))
          [GPIO 0 5, GPIO 2 0, GPIO 7 4,
           GPIO 0 3, GPIO 1 0, GPIO 1 1, GPIO 1 10, GPIO 1 11, GPIO 1 12, GPIO 1 13, GPIO 1 5] @
        (if platform = PLATFORM_STM32_STM32F7_DISCO then [(GPIO 2 2, STM32F2_GPIO_ROLE_USB_OTG)]
         else [(GPIO 8 11, STM32F2_GPIO_ROLE_USB_OTG)]))"

definition iomux_user_io :: "kconfig \<Rightarrow> int \<Rightarrow> gpio_call list" where
  "iomux_user_io cfg platform =
     guarded (cfg CONFIG_GPIOLIB \<and> cfg CONFIG_GPIO_SYSFS)
       (guarded (platform = PLATFORM_STM32_STM_STM32F439_SOM) [(GPIO 4 2, STM32F2_GPIO_ROLE_IN_PUP), (GPIO 1 2, STM32F2_GPIO_ROLE_OUT)] @
        guarded (platform = PLATFORM_STM32_STM_STM32F7_SOM) [(GPIO 7 2, STM32F2_GPIO_ROLE_IN_PUP), (GPIO 1 2, STM32F2_GPIO_ROLE_OUT)] @
        guarded (platform = PLATFORM_STM32_STM32F7_DISCO) [(GPIO 8 11, STM32F2_GPIO_ROLE_IN_PUP), (GPIO 8 1, STM32F2_GPIO_ROLE_OUT)] @
        guarded (platform = PLATFORM_STM32_STM_DISCO) [(GPIO 0 0, STM32F2_GPIO_ROLE_IN), (GPIO 4 3, STM32F2_GPIO_ROLE_OUT)])"

definition lcd_gpio :: "kconfig \<Rightarrow> gpio_dsc list" where
  "lcd_gpio cfg =
     (if cfg CONFIG_ARCH_STM32F7 then
        [GPIO 8 14, GPIO 10 7, GPIO 8 12, GPIO 8 13,
         GPIO 9 12, GPIO 9 13, GPIO 9 14, GPIO 9 15, GPIO 10 3, GPIO 10 4, GPIO 10 5, GPIO 10 6,
         GPIO 9 7, GPIO 9 8, GPIO 9 9, GPIO 9 10, GPIO 9 11, GPIO 10 0, GPIO 10 1, GPIO 10 2,
         GPIO 8 15, GPIO 9 0, GPIO 9 1, GPIO 9 2, GPIO 9 3, GPIO 9 4, GPIO 9 5, GPIO 9 6]
      else
        [GPIO 6 7, GPIO 5 10, GPIO 8 10, GPIO 8 9,
         GPIO 6 12, GPIO 6 10, GPIO 8 4, GPIO 8 5, GPIO 8 6, GPIO 8 7,
         GPIO 7 13, GPIO 7 14, GPIO 7 15, GPIO 8 0, GPIO 2 7, GPIO 8 2,
         GPIO 7 2, GPIO 7 3, GPIO 7 8, GPIO 7 9, GPIO 7 10, GPIO 7 11, GPIO 7 12, GPIO 6 6])"

definition iomux_fb :: "kconfig \<Rightarrow> gpio_call list" where
  "iomux_fb cfg = guarded (cfg CONFIG_STM32_FB) (map (\<lambda>d. (d, STM32F2_GPIO_ROLE_LTDC)) (lcd_gpio cfg))"

definition disco_lcd_gpio :: "gpio_dsc list" where
  "disco_lcd_gpio =
     [GPIO 8 9, GPIO 8 10, GPIO 8 14, GPIO 10 7,
      GPIO 8 15, GPIO 9 0, GPIO 9 1, GPIO 9 2, GPIO 9 3, GPIO 9 4, GPIO 9 5, GPIO 9 6,
      GPIO 9 7, GPIO 9 8, GPIO 9 9, GPIO 9 10, GPIO 9 11, GPIO 10 0, GPIO 10 1, GPIO 10 2,
      GPIO 9 12, GPIO 9 13, GPIO 9 14, GPIO 9 15, GPIO 6 12, GPIO 10 4, GPIO 10 5, GPIO 10 6]"

definition iomux_disco_fb :: "kconfig \<Rightarrow> gpio_call list" where
  "iomux_disco_fb cfg =
     guarded (cfg CONFIG_STM32F7_DISCO_FB)
       (map (\<lambda>d. (d, STM32F2_GPIO_ROLE_LTDC)) disco_lcd_gpio @
        map (\<lambda>d. (d, STM32F2_GPIO_ROLE_OUT)) [GPIO 8 12, GPIO 10 3])"

definition stm32f4_fb_is_running :: "soc \<Rightarrow> bool" where
  "stm32f4_fb_is_running s \<longleftrightarrow> ltdc_gcr s AND 1 \<noteq> 0"

definition f7_platform :: "int \<Rightarrow> bool" where
  "f7_platform platform \<longleftrightarrow>
     platform = PLATFORM_STM32_STM_STM32F439_SOM \<or> platform = PLATFORM_STM32_STM_STM32F7_SOM \<or>
     platform = PLATFORM_STM32_STM32F7_DISCO"

definition f2_platform :: "int \<Rightarrow> bool" where
  "f2_platform platform \<longleftrightarrow>
     platform = PLATFORM_STM32_STM3220G_EVAL \<or> platform = PLATFORM_STM32_STM3240G_EVAL \<or>
     platform = PLATFORM_STM32_STM_SOM \<or> platform = PLATFORM_STM32_STM_DISCO"

definition stm32_iomux_init :: "kconfig \<Rightarrow> int \<Rightarrow> soc \<Rightarrow> soc" where
  "stm32_iomux_init cfg platform s =
     (if f7_platform platform \<or> f2_platform platform then
        let s = gpio_config_all (if f7_platform platform then iomux_usart_f7 cfg else iomux_usart_f2 cfg) s;
            s = gpio_config_all (iomux_mac cfg platform) s;
            s = gpio_config_all (iomux_spi cfg) s;
            s = gpio_config_all (iomux_i2c cfg platform) s;
            s = gpio_config_all (iomux_sdcard cfg platform) s;
            s = iomux_otg_fs cfg platform s;
            s = gpio_config_all (iomux_otg_hs cfg platform) s;
            s = gpio_config_all (iomux_user_io cfg platform) s;
            s = (if \<not> stm32f4_fb_is_running s then gpio_config_all (iomux_fb cfg) s else s);
            s = gpio_config_all (iomux_disco_fb cfg) s
        in s
      else s)"

section \<open>The whole sequence of calls\<close>

definition iomux_calls :: "kconfig \<Rightarrow> int \<Rightarrow> bool \<Rightarrow> gpio_call list" where
  "iomux_calls cfg platform fb_running =
     (if f7_platform platform \<or> f2_platform platform then
        (if f7_platform platform then iomux_usart_f7 cfg else iomux_usart_f2 cfg) @
        iomux_mac cfg platform @ iomux_spi cfg @ iomux_i2c cfg platform @
        iomux_sdcard cfg platform @ iomux_otg_fs_pins cfg platform @ iomux_otg_hs cfg platform @
        iomux_user_io cfg platform @ guarded (\<not> fb_running) (iomux_fb cfg) @ iomux_disco_fb cfg
      else [])"

definition dsc_idx :: "gpio_dsc \<Rightarrow> nat \<times> nat" where
  "dsc_idx d = (unat (dsc_port d), unat (dsc_pin d))"

definition valid_call :: "gpio_call \<Rightarrow> bool" where
  "valid_call c \<longleftrightarrow> valid_pin (dsc_idx (fst c)) \<and> valid_role (snd c)"

lemma pin_dsc_idx: "pin_dsc (dsc_idx d) = d"
  by (simp add: pin_dsc_def dsc_idx_def)

lemma gpio_config_all_pins:
  "gpio_config_all calls s = fold (\<lambda>(p, role). config_pin p role) (map (map_prod dsc_idx id) calls) s"
  by (induction calls arbitrary: s) (auto simp: gpio_config_all_def config_pin_def pin_dsc_idx)

lemma valid_call_simps:
  "valid_call (GPIO port pin, role) \<longleftrightarrow> unat port < 11 \<and> unat pin < 16 \<and> valid_role role"
  by (simp add: valid_call_def dsc_idx_def valid_pin_def)

lemmas iomux_block_defs =
  iomux_usart_f7_def iomux_usart_f2_def iomux_mac_def mii_gpio_def rmii_gpio_def iomux_spi_def
  iomux_i2c_def iomux_sdcard_def iomux_otg_fs_pins_def iomux_otg_hs_def iomux_user_io_def
  iomux_fb_def lcd_gpio_def iomux_disco_fb_def disco_lcd_gpio_def

lemma valid_calls_map:
  "list_all valid_call (map (\<lambda>d. (d, role)) ds) \<longleftrightarrow>
     list_all (\<lambda>d. unat (dsc_port d) < 11 \<and> unat (dsc_pin d) < 16 \<and> valid_role role) ds"
  by (simp add: list_all_iff valid_call_def dsc_idx_def valid_pin_def)

text \<open>No call of the function can fail: every pin exists and every role is known.\<close>

lemma iomux_blocks_valid [simp]:
  "list_all valid_call (iomux_usart_f7 cfg)" "list_all valid_call (iomux_usart_f2 cfg)"
  "list_all valid_call (iomux_mac cfg platform)" "list_all valid_call (iomux_spi cfg)"
  "list_all valid_call (iomux_i2c cfg platform)" "list_all valid_call (iomux_sdcard cfg platform)"
  "list_all valid_call (iomux_otg_fs_pins cfg platform)" "list_all valid_call (iomux_otg_hs cfg platform)"
  "list_all valid_call (iomux_user_io cfg platform)" "list_all valid_call (iomux_fb cfg)"
  "list_all valid_call (iomux_disco_fb cfg)"
  unfolding iomux_block_defs
  by (simp_all add: valid_call_simps valid_calls_map valid_role_def Let_def)

lemma iomux_calls_valid: "list_all valid_call (iomux_calls cfg platform run)"
  by (simp add: iomux_calls_def)

text \<open>What a list of calls makes of one pin: the calls on that pin, in order.\<close>

definition pin_after :: "gpio_call list \<Rightarrow> nat \<times> nat \<Rightarrow> pin_cfg \<Rightarrow> pin_cfg" where
  "pin_after calls q = fold (\<lambda>(d, role). if dsc_idx d = q then role_cfg role else id) calls"

lemma pin_after_append: "pin_after (xs @ ys) q c = pin_after ys q (pin_after xs q c)"
  by (simp add: pin_after_def)

lemma pin_cfg_gpio_config_all:
  assumes "list_all valid_call calls" "valid_pin q"
  shows "pin_cfg_of (gpio_config_all calls s) q = pin_after calls q (pin_cfg_of s q)"
proof -
  have "\<forall>(p, role) \<in> set (map (map_prod dsc_idx id) calls). valid_pin p \<and> valid_role role"
    using assms(1) by (auto simp: list_all_iff valid_call_def)
  from pins.rd_fold [OF this assms(2), of s] show ?thesis
    by (simp add: gpio_config_all_pins pin_after_def fold_map comp_def case_prod_beta' map_prod_def
        cong: if_cong)
qed

lemma pin_cfg_upd_odr:
  "pin_cfg_of (upd_gpio a (\<lambda>g. g\<lparr>gpio_odr := f g\<rparr>) s) q = pin_cfg_of s q"
  by (simp add: pin_cfg_of_def upd_gpio_def gpio_pin_cfg_def get_afr_def)

lemma ltdc_gcr_gpio_config_all: "ltdc_gcr (gpio_config_all calls s) = ltdc_gcr s"
proof -
  have "ltdc_gcr (snd (stm32f2_gpio_config d role s)) = ltdc_gcr s" for d role s
    by (auto simp: stm32f2_gpio_config_def upd_gpio_def upd_ahb1enr_def Let_def split: option.splits)
  then show ?thesis
    by (induction calls arbitrary: s) (auto simp: gpio_config_all_def)
qed

lemma ltdc_gcr_upd_gpio: "ltdc_gcr (upd_gpio a f s) = ltdc_gcr s"
  by (simp add: upd_gpio_def)

lemma iomux_otg_fs_pin:
  assumes "valid_pin q"
  shows "pin_cfg_of (iomux_otg_fs cfg platform s) q =
      pin_after (iomux_otg_fs_pins cfg platform) q (pin_cfg_of s q)"
    and "ltdc_gcr (iomux_otg_fs cfg platform s) = ltdc_gcr s"
  using assms
  by (auto simp: iomux_otg_fs_def pin_cfg_upd_odr pin_cfg_gpio_config_all ltdc_gcr_gpio_config_all
      ltdc_gcr_upd_gpio Let_def)

lemma iomux_init_pin:
  assumes "valid_pin q"
  shows "pin_cfg_of (stm32_iomux_init cfg platform s) q =
     pin_after (iomux_calls cfg platform (stm32f4_fb_is_running s)) q (pin_cfg_of s q)"
  using assms
  by (simp add: stm32_iomux_init_def iomux_calls_def Let_def stm32f4_fb_is_running_def
      pin_cfg_gpio_config_all ltdc_gcr_gpio_config_all iomux_otg_fs_pin pin_after_append
      pin_after_def [of "[]"])

lemma pin_after_untouched: "q \<notin> dsc_idx ` fst ` set calls \<Longrightarrow> pin_after calls q c = c"
  unfolding pin_after_def by (induction calls arbitrary: c) auto

lemma pin_after_distinct:
  "distinct (map (dsc_idx \<circ> fst) calls) \<Longrightarrow> (d, role) \<in> set calls \<Longrightarrow>
     pin_after calls (dsc_idx d) c = role_cfg role c"
proof (induction calls arbitrary: c)
  case (Cons call calls)
  show ?case
  proof (cases "call = (d, role)")
    case True
    with Cons.prems(1) show ?thesis
      by (auto simp: pin_after_def image_image intro!: pin_after_untouched [unfolded pin_after_def])
  next
    case False
    with Cons.prems have "(d, role) \<in> set calls" "dsc_idx (fst call) \<noteq> dsc_idx d"
      by (auto simp: image_iff)
    with Cons show ?thesis by (simp add: pin_after_def case_prod_beta')
  qed
qed simp

section \<open>The board of this repository\<close>

text \<open>
  In the shipped configuration no pin is claimed twice, so every pin that is configured ends
  up in the one role it was given.
\<close>

lemma board_calls_distinct:
  "distinct (map (dsc_idx \<circ> fst) (iomux_calls board_config PLATFORM_STM32_STM32F7_DISCO run))"
  by (simp add: iomux_calls_def f7_platform_def iomux_block_defs board_config_def dsc_idx_def)

text \<open>No block but that of the MAC claims a pin of the RMII interface.\<close>

definition avoids :: "(nat \<times> nat) list \<Rightarrow> gpio_call list \<Rightarrow> bool" where
  "avoids qs calls \<longleftrightarrow> list_all (\<lambda>c. dsc_idx (fst c) \<notin> set qs) calls"

lemma avoids_after:
  assumes "avoids qs calls" "q \<in> set qs"
  shows "pin_after calls q c = c"
proof (rule pin_after_untouched, rule notI)
  assume "q \<in> dsc_idx ` fst ` set calls"
  then obtain x where "x \<in> set calls" "q = dsc_idx (fst x)" by (auto simp only: image_iff)
  with assms show False by (simp add: avoids_def list_all_iff)
qed

definition rmii_idx :: "(nat \<times> nat) list" where
  "rmii_idx = map dsc_idx rmii_gpio"

lemma rmii_avoids [simp]:
  "avoids rmii_idx (iomux_usart_f7 cfg)" "avoids rmii_idx (iomux_usart_f2 cfg)"
  "avoids rmii_idx (iomux_spi cfg)" "avoids rmii_idx (iomux_i2c cfg platform)"
  "avoids rmii_idx (iomux_sdcard cfg platform)" "avoids rmii_idx (iomux_otg_fs_pins cfg platform)"
  "avoids rmii_idx (iomux_otg_hs cfg platform)" "avoids rmii_idx (iomux_user_io cfg platform)"
  "avoids rmii_idx (iomux_fb cfg)" "avoids rmii_idx (iomux_disco_fb cfg)"
  unfolding avoids_def rmii_idx_def iomux_block_defs by (simp_all add: dsc_idx_def Let_def)

lemma vbus_avoids [simp]:
  "avoids [(3, 5)] (iomux_usart_f7 cfg)" "avoids [(3, 5)] (iomux_mac cfg platform)"
  "avoids [(3, 5)] (iomux_spi cfg)" "avoids [(3, 5)] (iomux_i2c cfg platform)"
  "avoids [(3, 5)] (iomux_sdcard cfg platform)" "avoids [(3, 5)] (iomux_otg_hs cfg platform)"
  "avoids [(3, 5)] (iomux_user_io cfg platform)" "avoids [(3, 5)] (iomux_fb cfg)"
  "avoids [(3, 5)] (iomux_disco_fb cfg)"
  unfolding avoids_def iomux_block_defs by (simp_all add: dsc_idx_def Let_def)

definition rmii_platform :: "int \<Rightarrow> bool" where
  "rmii_platform platform \<longleftrightarrow> platform \<in> set [PLATFORM_STM32_STM_SOM, PLATFORM_STM32_STM_DISCO,
     PLATFORM_STM32_STM_STM32F439_SOM, PLATFORM_STM32_STM_STM32F7_SOM, PLATFORM_STM32_STM32F7_DISCO]"

lemma rmii_pins_after:
  assumes "cfg CONFIG_STM32_MAC" "rmii_platform platform" "d \<in> set rmii_gpio"
  shows "pin_after (iomux_calls cfg platform run) (dsc_idx d) c = role_cfg STM32F2_GPIO_ROLE_ETHERNET c"
proof -
  have m: "iomux_mac cfg platform = map (\<lambda>d. (d, STM32F2_GPIO_ROLE_ETHERNET)) rmii_gpio"
    using assms(1,2) by (auto simp: iomux_mac_def rmii_platform_def)
  have "distinct (map (dsc_idx \<circ> fst) (iomux_mac cfg platform))"
    unfolding m rmii_gpio_def by (simp add: dsc_idx_def)
  moreover have "(d, STM32F2_GPIO_ROLE_ETHERNET) \<in> set (iomux_mac cfg platform)" using assms(3) m by auto
  ultimately have "pin_after (iomux_mac cfg platform) (dsc_idx d) c = role_cfg STM32F2_GPIO_ROLE_ETHERNET c" for c
    by (rule pin_after_distinct)
  moreover have "f7_platform platform \<or> f2_platform platform"
    using assms(2) by (auto simp: rmii_platform_def f7_platform_def f2_platform_def)
  moreover have "dsc_idx d \<in> set rmii_idx" using assms(3) by (simp add: rmii_idx_def)
  ultimately show ?thesis
    by (simp add: iomux_calls_def pin_after_append avoids_after [where qs = rmii_idx]
        pin_after_def [of "[]"])
qed

text \<open>The output data registers: only the USB block writes one.\<close>

lemma odr_gpio_config:
  "gpio_odr (gpio (snd (stm32f2_gpio_config d role s)) a) = gpio_odr (gpio s a)"
  by (auto simp: stm32f2_gpio_config_def upd_gpio_def upd_ahb1enr_def gpio_set_pin_def
      gpio_connect_af_def set_afr_def Let_def split: option.splits prod.splits)

lemma odr_gpio_config_all [simp]: "gpio_odr (gpio (gpio_config_all calls s) a) = gpio_odr (gpio s a)"
  by (induction calls arbitrary: s) (auto simp: gpio_config_all_def odr_gpio_config)

lemma odr_iomux_otg_fs:
  "cfg CONFIG_STM32_USB_OTG_FS \<Longrightarrow>
   gpio_odr (gpio (iomux_otg_fs cfg PLATFORM_STM32_STM32F7_DISCO s) (stm32_gpio_base ! 3)) =
     gpio_odr (gpio s (stm32_gpio_base ! 3)) AND NOT (push_bit 5 1)"
  by (simp add: iomux_otg_fs_def Let_def upd_gpio_def)

lemma vbus_pin_after:
  "cfg CONFIG_STM32_USB_OTG_FS \<Longrightarrow>
   pin_after (iomux_calls cfg PLATFORM_STM32_STM32F7_DISCO run) (3, 5) c = role_cfg STM32F2_GPIO_ROLE_OUT c"
  by (simp add: iomux_calls_def f7_platform_def pin_after_append avoids_after [where qs = "[(3, 5)]"]
      pin_after_def [of "[]"])
    (simp add: pin_after_def iomux_otg_fs_pins_def dsc_idx_def)

section \<open>Properties\<close>

text \<open>C8. Configuring a pin for a role returns 0, puts exactly the mode, output type, speed, pull
  and alternate function of the role into the fields of that pin, and changes the fields of no
  other pin of any port; the clock of the port is enabled and no other clock bit changes, and data
  and lock registers stay as they were.\<close>

theorem gpio_config_exact:
  assumes "valid_pin p" and "valid_role role"
  shows "case stm32f2_gpio_config (Some (pin_dsc p)) role s of (rv, s') \<Rightarrow>
     rv = 0 \<and>
     pin_cfg_of s' p = role_cfg role (pin_cfg_of s p) \<and>
     (\<forall>q. valid_pin q \<and> q \<noteq> p \<longrightarrow> pin_cfg_of s' q = pin_cfg_of s q) \<and>
     rcc s' = (rcc s)\<lparr>rcc_ahb1enr := rcc_ahb1enr (rcc s) OR push_bit (fst p) 1\<rparr> \<and>
     (\<forall>a. gpio_odr (gpio s' a) = gpio_odr (gpio s a) \<and> gpio_lckr (gpio s' a) = gpio_lckr (gpio s a))"
proof -
  obtain params where r: "role_params role = Some params"
    using assms(2) by (auto simp: valid_role_def)
  define s' where "s' = config_pin p role s"
  have eq: "stm32f2_gpio_config (Some (pin_dsc p)) role s = (0, s')"
    by (simp add: s'_def config_pin_def gpio_config_valid [OF assms(1) r])
  have frame: "rcc s' = (rcc s)\<lparr>rcc_ahb1enr := rcc_ahb1enr (rcc s) OR push_bit (fst p) 1\<rparr>"
    "gpio_lckr (gpio s' a) = gpio_lckr (gpio s a)" for a
    unfolding s'_def config_pin_def gpio_config_valid [OF assms(1) r]
    by (auto simp: upd_gpio_def upd_ahb1enr_def gpio_set_pin_def gpio_connect_af_def set_afr_def Let_def
        split: prod.splits)
  have odr: "gpio_odr (gpio s' a) = gpio_odr (gpio s a)" for a
    using odr_gpio_config [of "Some (pin_dsc p)" role s a] eq by simp
  show ?thesis
    using pins.rd_wr_same [OF assms, of s] pins.rd_wr_other [OF assms, of _ s] frame odr
    unfolding eq s'_def [symmetric] prod.case by metis
qed

theorem gpio_config_exact_witness:
  "case stm32f2_gpio_config (Some (pin_dsc (6, 12))) STM32F2_GPIO_ROLE_LTDC soc0 of (rv, s') \<Rightarrow>
     rv = 0 \<and> pin_cfg_of s' (6, 13) = pin_cfg_of soc0 (6, 13) \<and> pc_af (pin_cfg_of s' (6, 12)) = 14"
  using gpio_config_exact [of "(6, 12)" STM32F2_GPIO_ROLE_LTDC soc0]
  by (auto simp: valid_pin_def valid_role_def role_cfg_def uses_af_def)

text \<open>A call is refused with \<open>-EINVAL\<close> exactly when the descriptor is missing, the port is not
  one of the eleven, the pin is above 15 or the role is unknown; a refused call changes nothing,
  and any other call succeeds.\<close>

lemma gpio_config_refuses:
  "(case dsc of None \<Rightarrow> True
      | Some d \<Rightarrow> dsc_port d \<ge> 11 \<or> dsc_pin d > 15 \<or> (\<exists>n. role = Bad_role n))
   \<longleftrightarrow> stm32f2_gpio_config dsc role s = (- EINVAL, s)"
proof -
  have b: "role_params role = None \<longleftrightarrow> (\<exists>n. role = Bad_role n)" by (cases role) auto
  have p: "11 \<le> unat w \<longleftrightarrow> 11 \<le> w" for w :: u32 by (simp add: word_le_nat_alt)
  show ?thesis
    by (auto simp: stm32f2_gpio_config_def gpio_base_length p not_less not_le Let_def b
        split: option.splits)
qed

text \<open>C19. On the STM32F7-DISCO with the shipped configuration, from any state of the chip, every
  pin that the initialisation configures ends in exactly the role it was given, and every other
  pin of the eleven ports keeps its configuration.\<close>

theorem board_iomux_pins:
  "(\<forall>(d, role) \<in> set (iomux_calls board_config PLATFORM_STM32_STM32F7_DISCO (stm32f4_fb_is_running s)).
      pin_cfg_of (stm32_iomux_init board_config PLATFORM_STM32_STM32F7_DISCO s) (dsc_idx d)
        = role_cfg role (pin_cfg_of s (dsc_idx d))) \<and>
   (\<forall>q. valid_pin q \<and> q \<notin> dsc_idx ` fst ` set (iomux_calls board_config PLATFORM_STM32_STM32F7_DISCO
        (stm32f4_fb_is_running s)) \<longrightarrow>
      pin_cfg_of (stm32_iomux_init board_config PLATFORM_STM32_STM32F7_DISCO s) q = pin_cfg_of s q)"
proof (intro conjI ballI allI impI, clarify)
  fix d role
  assume c: "(d, role) \<in> set (iomux_calls board_config PLATFORM_STM32_STM32F7_DISCO (stm32f4_fb_is_running s))"
  then have "valid_pin (dsc_idx d)"
    using iomux_calls_valid unfolding list_all_iff valid_call_def by fastforce
  then show "pin_cfg_of (stm32_iomux_init board_config PLATFORM_STM32_STM32F7_DISCO s) (dsc_idx d) =
      role_cfg role (pin_cfg_of s (dsc_idx d))"
    by (simp only: iomux_init_pin pin_after_distinct [OF board_calls_distinct c])
next
  fix q
  assume "valid_pin q \<and> q \<notin> dsc_idx ` fst ` set (iomux_calls board_config
    PLATFORM_STM32_STM32F7_DISCO (stm32f4_fb_is_running s))"
  then show "pin_cfg_of (stm32_iomux_init board_config PLATFORM_STM32_STM32F7_DISCO s) q = pin_cfg_of s q"
    by (elim conjE) (simp only: iomux_init_pin, erule pin_after_untouched)
qed

theorem board_iomux_pins_witness:
  "pin_cfg_of (stm32_iomux_init board_config PLATFORM_STM32_STM32F7_DISCO soc0) (2, 6) =
     \<lparr>pc_mode = 2, pc_otype = 0, pc_speed = 2, pc_pupd = 1, pc_af = 8\<rparr>"
proof -
  have "(GPIO 2 6, STM32F2_GPIO_ROLE_USART6) \<in> set (iomux_calls board_config PLATFORM_STM32_STM32F7_DISCO
      (stm32f4_fb_is_running soc0))"
    by (simp add: iomux_calls_def f7_platform_def iomux_usart_f7_def board_config_def)
  then have "pin_cfg_of (stm32_iomux_init board_config PLATFORM_STM32_STM32F7_DISCO soc0) (dsc_idx (GPIO 2 6)) =
      role_cfg STM32F2_GPIO_ROLE_USART6 (pin_cfg_of soc0 (dsc_idx (GPIO 2 6)))"
    using board_iomux_pins [of soc0] by fastforce
  then show ?thesis
    by (simp add: dsc_idx_def role_cfg_def role_mode_def uses_af_def gpio_const_defs)
qed

text \<open>C20. Whatever else is configured into the kernel, on every RMII board all nine RMII pins (the
  transmit data pin PG13 among them) end as push-pull, 100 MHz, alternate function 11: no other
  block of the initialisation disturbs them.\<close>

theorem rmii_pins_are_ethernet:
  assumes "cfg CONFIG_STM32_MAC" and "rmii_platform platform" and "d \<in> set rmii_gpio"
  shows "pin_cfg_of (stm32_iomux_init cfg platform s) (dsc_idx d) =
     \<lparr>pc_mode = (par_val STM32F2_GPIO_MODE_AF), pc_otype = (par_val STM32F2_GPIO_OTYPE_PP),
      pc_speed = (par_val STM32F2_GPIO_SPEED_100M), pc_pupd = (par_val STM32F2_GPIO_PUPD_NO), pc_af = (af_code STM32F2_GPIO_AF_MAC)\<rparr>"
proof -
  have "valid_pin (dsc_idx d)"
    using assms(3) by (auto simp: rmii_gpio_def dsc_idx_def valid_pin_def)
  then show ?thesis
    using rmii_pins_after [of cfg platform d] assms
    by (simp add: iomux_init_pin role_cfg_def role_mode_def uses_af_def gpio_af_defs)
qed

theorem rmii_pins_are_ethernet_witness:
  "pc_otype (pin_cfg_of (stm32_iomux_init board_config PLATFORM_STM32_STM32F7_DISCO soc0) (6, 13)) = 0"
proof -
  have h: "board_config CONFIG_STM32_MAC" "rmii_platform PLATFORM_STM32_STM32F7_DISCO"
    "GPIO 6 13 \<in> set rmii_gpio"
    by (simp_all add: board_config_def rmii_platform_def rmii_gpio_def)
  show ?thesis
    using rmii_pins_are_ethernet [of board_config, OF h, of soc0] by (simp add: dsc_idx_def gpio_const_defs)
qed

text \<open>With the USB host configured, the DISCO board leaves the initialisation with PD5 a
  general-purpose output that is driven low (VBUS on), and no other output level of port D
  changed.\<close>

lemma iomux_switches_vbus_on:
  assumes "cfg CONFIG_STM32_USB_OTG_FS"
  shows "let s' = stm32_iomux_init cfg PLATFORM_STM32_STM32F7_DISCO s; port_d = stm32_gpio_base ! 3 in
     pc_mode (pin_cfg_of s' (3, 5)) = (par_val STM32F2_GPIO_MODE_OUT) \<and>
     (\<forall>n. bit (gpio_odr (gpio s' port_d)) n \<longleftrightarrow> n \<noteq> 5 \<and> bit (gpio_odr (gpio s port_d)) n)"
proof -
  have "gpio_odr (gpio (stm32_iomux_init cfg PLATFORM_STM32_STM32F7_DISCO s) (stm32_gpio_base ! 3)) =
      gpio_odr (gpio s (stm32_gpio_base ! 3)) AND NOT (push_bit 5 1)"
    using assms by (simp add: stm32_iomux_init_def f7_platform_def Let_def odr_iomux_otg_fs [simplified])
  moreover have "pc_mode (pin_cfg_of (stm32_iomux_init cfg PLATFORM_STM32_STM32F7_DISCO s) (3, 5)) =
      (par_val STM32F2_GPIO_MODE_OUT)"
    using vbus_pin_after [of cfg] assms by (simp add: iomux_init_pin valid_pin_def role_cfg_def role_mode_def)
  ultimately show ?thesis
    by (simp only: Let_def bit_clear_bit) blast
qed

end
