(* ===== verification/Clkdev.thy ===== *)
theory Clkdev
  imports Prelude
begin

text \<open>
  The clock lookup table of \<^verbatim>\<open>arch/arm/common/clkdev.c\<close>: drivers find a \<^verbatim>\<open>struct clk\<close> by the name
  of their device and the name of the connection. The list \<^verbatim>\<open>clocks\<close> is a list of entries; the
  theory is polymorphic in what an entry points to. \<^verbatim>\<open>clocks_mutex\<close> makes each operation atomic.
  The results: a lookup returns the first of the most specific matching entries, and an alias is
  found under its own name.
\<close>

section \<open>Model\<close>

text \<open>\<^verbatim>\<open>struct clk_lookup\<close>; a \<^verbatim>\<open>NULL\<close> identifier, the wildcard, is \<open>None\<close>.\<close>

record 'c clk_lookup =
  cl_dev_id :: "string option"
  cl_con_id :: "string option"
  cl_clk :: 'c

text \<open>
  The body of the loop of \<^verbatim>\<open>clk_find\<close>: the weight of an entry for a request. An entry the loop
  skips has weight 0.
\<close>

definition clk_match :: "string option \<Rightarrow> string option \<Rightarrow> 'c clk_lookup \<Rightarrow> nat" where
  "clk_match dev_id con_id p =
     (if cl_dev_id p \<noteq> None \<and> (dev_id = None \<or> cl_dev_id p \<noteq> dev_id) then 0
      else if cl_con_id p \<noteq> None \<and> (con_id = None \<or> cl_con_id p \<noteq> con_id) then 0
      else (if cl_dev_id p \<noteq> None then 2 else 0) + (if cl_con_id p \<noteq> None then 1 else 0))"

fun clk_find_loop ::
  "string option \<Rightarrow> string option \<Rightarrow> 'c clk_lookup list \<Rightarrow> 'c option \<Rightarrow> nat \<Rightarrow> 'c option" where
  "clk_find_loop dev_id con_id [] clk best = clk"
| "clk_find_loop dev_id con_id (p # ps) clk best =
     (let match = clk_match dev_id con_id p in
      if match > best then clk_find_loop dev_id con_id ps (Some (cl_clk p)) match
      else clk_find_loop dev_id con_id ps clk best)"

definition clk_find :: "string option \<Rightarrow> string option \<Rightarrow> 'c clk_lookup list \<Rightarrow> 'c option" where
  "clk_find dev_id con_id clocks = clk_find_loop dev_id con_id clocks None 0"

text \<open>\<^verbatim>\<open>ERR_PTR(-ENOENT)\<close> is \<open>Inl (- ENOENT)\<close>; \<^verbatim>\<open>__clk_get\<close> is constantly 1 on this machine, and
  \<^verbatim>\<open>__clk_put\<close> does nothing.\<close>

definition clk_get_sys :: "string option \<Rightarrow> string option \<Rightarrow> 'c clk_lookup list \<Rightarrow> int + 'c" where
  "clk_get_sys dev_id con_id clocks =
     (case clk_find dev_id con_id clocks of None \<Rightarrow> Inl (- ENOENT) | Some clk \<Rightarrow> Inr clk)"

text \<open>A device is given by its name (\<^verbatim>\<open>dev_name\<close>), a missing device by \<open>None\<close>.\<close>

definition clk_get :: "string option \<Rightarrow> string option \<Rightarrow> 'c clk_lookup list \<Rightarrow> int + 'c" where
  "clk_get dev con_id clocks = clk_get_sys dev con_id clocks"

definition clkdev_add :: "'c clk_lookup \<Rightarrow> 'c clk_lookup list \<Rightarrow> 'c clk_lookup list" where
  "clkdev_add cl clocks = clocks @ [cl]"

definition MAX_DEV_ID :: nat where [simp]: "MAX_DEV_ID = 20"
definition MAX_CON_ID :: nat where [simp]: "MAX_CON_ID = 16"

text \<open>
  \<^verbatim>\<open>strlcpy\<close> and \<^verbatim>\<open>vscnprintf\<close> keep one byte for the terminator. \<open>mem\<close> says whether \<^verbatim>\<open>kzalloc\<close>
  finds memory; the device name is the text the format expands to.
\<close>

definition strlcpy :: "nat \<Rightarrow> string \<Rightarrow> string" where
  "strlcpy sz src = take (sz - 1) src"

definition clkdev_alloc ::
  "bool \<Rightarrow> 'c \<Rightarrow> string option \<Rightarrow> string option \<Rightarrow> 'c clk_lookup option" where
  "clkdev_alloc mem clk con_id dev_fmt =
     (if \<not> mem then None
      else Some \<lparr>cl_dev_id = map_option (strlcpy MAX_DEV_ID) dev_fmt,
                 cl_con_id = map_option (strlcpy MAX_CON_ID) con_id, cl_clk = clk\<rparr>)"

definition clk_add_alias ::
  "bool \<Rightarrow> string option \<Rightarrow> string option \<Rightarrow> string option \<Rightarrow> string option \<Rightarrow> 'c clk_lookup list
     \<Rightarrow> int \<times> 'c clk_lookup list" where
  "clk_add_alias mem alias alias_dev_name con dev clocks =
     (case clk_get dev con clocks of
        Inl err \<Rightarrow> (err, clocks)
      | Inr r \<Rightarrow>
          (case clkdev_alloc mem r alias alias_dev_name of
             None \<Rightarrow> (- ENODEV, clocks)
           | Some l \<Rightarrow> (0, clkdev_add l clocks)))"

text \<open>\<^verbatim>\<open>list_del\<close> of an entry that is in the list.\<close>

definition clkdev_drop :: "'c clk_lookup \<Rightarrow> 'c clk_lookup list \<Rightarrow> 'c clk_lookup list" where
  "clkdev_drop cl clocks = remove1 cl clocks"

section \<open>The lookup is the first most specific match\<close>

text \<open>
  What \<^verbatim>\<open>clkdev.c\<close> promises: the entry is the first one of greatest weight, and its weight is not 0.
\<close>

definition best_match :: "('e \<Rightarrow> nat) \<Rightarrow> 'e list \<Rightarrow> 'e \<Rightarrow> bool" where
  "best_match wt es e \<longleftrightarrow>
     0 < wt e \<and> (\<exists>us vs. es = us @ e # vs \<and> (\<forall>u \<in> set us. wt u < wt e) \<and> (\<forall>v \<in> set vs. wt v \<le> wt e))"

lemma best_match_Cons_less: "wt p < wt e \<Longrightarrow> best_match wt es e \<Longrightarrow> best_match wt (p # es) e"
  unfolding best_match_def by (metis append_Cons set_ConsD)

lemma best_match_Cons_max: "0 < wt p \<Longrightarrow> \<forall>q \<in> set es. wt q \<le> wt p \<Longrightarrow> best_match wt (p # es) p"
  unfolding best_match_def by (metis append_Nil empty_iff list.set(1))

lemma clk_find_loop_best:
  "clk_find_loop dev_id con_id ps clk best = clk \<and> (\<forall>p \<in> set ps. clk_match dev_id con_id p \<le> best)
   \<or> (\<exists>p. best_match (clk_match dev_id con_id) ps p \<and> best < clk_match dev_id con_id p
         \<and> clk_find_loop dev_id con_id ps clk best = Some (cl_clk p))"
proof (induction ps arbitrary: clk best)
  case (Cons p ps)
  let ?wt = "clk_match dev_id con_id"
  show ?case
  proof (cases "?wt p > best")
    case True
    consider "clk_find_loop dev_id con_id ps (Some (cl_clk p)) (?wt p) = Some (cl_clk p)" "\<forall>q \<in> set ps. ?wt q \<le> ?wt p"
      | q where "best_match ?wt ps q" "?wt p < ?wt q"
          "clk_find_loop dev_id con_id ps (Some (cl_clk p)) (?wt p) = Some (cl_clk q)"
      using Cons [of "Some (cl_clk p)" "?wt p"] by blast
    then show ?thesis
    proof cases
      case 1
      then have "best_match ?wt (p # ps) p" using True by (intro best_match_Cons_max) auto
      then show ?thesis using 1 True by (intro disjI2 exI [of _ p]) simp
    next
      case 2
      then show ?thesis using True best_match_Cons_less [of ?wt p q ps] by (intro disjI2 exI [of _ q]) simp
    qed
  next
    case False
    then have "best_match ?wt (p # ps) q" if "best < ?wt q" "best_match ?wt ps q" for q
      using that by (intro best_match_Cons_less) auto
    with False show ?thesis using Cons [of clk best] by (simp add: not_less) blast
  qed
qed simp

lemma clk_find_Some:
  "clk_find dev_id con_id clocks = Some c \<Longrightarrow>
     \<exists>p. best_match (clk_match dev_id con_id) clocks p \<and> c = cl_clk p"
  using clk_find_loop_best [of dev_id con_id clocks None 0] by (auto simp: clk_find_def)

lemma best_match_unique:
  assumes "best_match wt es e" "best_match wt es e'" shows "e = e'"
proof -
  obtain us vs us' vs' where e: "es = us @ e # vs" "\<forall>u\<in>set us. wt u < wt e" "\<forall>v\<in>set vs. wt v \<le> wt e"
    and e': "es = us' @ e' # vs'" "\<forall>u\<in>set us'. wt u < wt e'" "\<forall>v\<in>set vs'. wt v \<le> wt e'"
    using assms unfolding best_match_def by blast
  have "e' \<in> set es" "e \<in> set es" using e(1) e'(1) by (metis in_set_conv_decomp)+
  then have "wt e = wt e'" using e e' by (metis in_set_conv_decomp le_antisym less_imp_le set_append Un_iff set_ConsD le_refl)
  then have "us = takeWhile (\<lambda>u. wt u < wt e) (us @ e # vs)"
    "us' = takeWhile (\<lambda>u. wt u < wt e) (us' @ e' # vs')"
    using e(2) e'(2) by (simp_all add: takeWhile_append2)
  then show ?thesis using e(1) e'(1) by (metis nth_append_length)
qed

lemma clk_find_iff:
  "clk_find dev_id con_id clocks = Some c \<longleftrightarrow>
     (\<exists>p. best_match (clk_match dev_id con_id) clocks p \<and> c = cl_clk p)"
proof
  assume "\<exists>p. best_match (clk_match dev_id con_id) clocks p \<and> c = cl_clk p"
  then obtain p where p: "best_match (clk_match dev_id con_id) clocks p" "c = cl_clk p" by blast
  then have "p \<in> set clocks" "0 < clk_match dev_id con_id p" by (auto simp: best_match_def)
  then show "clk_find dev_id con_id clocks = Some c"
    using clk_find_loop_best [of dev_id con_id clocks None 0] best_match_unique [OF p(1)] p(2)
    by (fastforce simp: clk_find_def)
qed (rule clk_find_Some)

lemma best_match_None: "(\<nexists>e. best_match wt es e) \<longleftrightarrow> filter (\<lambda>e. 0 < wt e) es = []"
proof (induction es)
  case (Cons e es)
  show ?case
  proof (cases "\<exists>e'. best_match wt es e' \<and> wt e < wt e'")
    case True
    then show ?thesis using best_match_Cons_less [of wt e _ es] Cons by auto
  next
    case False
    have le: "wt v \<le> wt e" if "v \<in> set es" for v
    proof -
      have "wt v \<le> wt e'" if "best_match wt es e'" "v \<in> set es" for e'
        using that by (auto simp: best_match_def less_imp_le)
      then show ?thesis
        using that False Cons by (metis filter_empty_conv le_less_trans not_less order.trans zero_le)
    qed
    then have "0 < wt e \<Longrightarrow> best_match wt (e # es) e"
      by (intro best_match_Cons_max) auto
    moreover have "wt e = 0 \<Longrightarrow> \<not> best_match wt (e # es) e'" for e'
      using le by (auto simp: best_match_def Cons_eq_append_conv)
    ultimately show ?thesis using le by (auto simp: filter_empty_conv)
  qed
qed (simp add: best_match_def)

lemma clk_find_None:
  "clk_find dev_id con_id clocks = None \<longleftrightarrow> filter (\<lambda>p. 0 < clk_match dev_id con_id p) clocks = []"
  using clk_find_iff [of dev_id con_id clocks] best_match_None [of "clk_match dev_id con_id" clocks]
  by (metis not_None_eq)

text \<open>
  An entry appended to the list changes the answer to a request only when it beats every entry
  before it.
\<close>

lemma clk_find_append:
  "clk_find dev_id con_id (clocks @ [l]) =
     (if filter (\<lambda>p. clk_match dev_id con_id l \<le> clk_match dev_id con_id p) clocks = []
         \<and> 0 < clk_match dev_id con_id l
      then Some (cl_clk l) else clk_find dev_id con_id clocks)"
proof -
  have "clk_find_loop dev_id con_id (ps @ [l]) clk best =
      (if filter (\<lambda>p. clk_match dev_id con_id l \<le> clk_match dev_id con_id p) ps = []
         \<and> best < clk_match dev_id con_id l
       then Some (cl_clk l) else clk_find_loop dev_id con_id ps clk best)" for ps clk best
    by (induction ps arbitrary: clk best) (auto simp: Let_def)
  then show ?thesis by (simp add: clk_find_def)
qed

text \<open>A device finds its entry whatever connection it names, as long as no entry names both a device
  and a connection.\<close>

lemma clk_find_dev:
  assumes "cl_dev_id p = Some d" "cl_con_id p = None" "\<forall>q \<in> set us. cl_dev_id q \<noteq> Some d"
    and "\<forall>q \<in> set (us @ vs). cl_dev_id q = None \<or> cl_con_id q = None"
  shows "clk_find (Some d) con (us @ p # vs) = Some (cl_clk p)"
proof -
  have "clk_match (Some d) con p = 2" using assms(1,2) by (simp add: clk_match_def)
  moreover have "clk_match (Some d) con q < 2" if "q \<in> set us" for q
    using assms(3,4) that by (auto simp: clk_match_def)
  moreover have "clk_match (Some d) con q \<le> 2" if "q \<in> set vs" for q
    using bspec [OF assms(4), of q] that by (auto simp: clk_match_def)
  ultimately have "best_match (clk_match (Some d) con) (us @ p # vs) p"
    unfolding best_match_def by (intro conjI exI [of _ us] exI [of _ vs]) auto
  then show ?thesis by (intro clk_find_iff [THEN iffD2] exI [of _ p]) simp
qed

section \<open>Properties\<close>

text \<open>
  The rule in the comment above \<^verbatim>\<open>clk_find\<close>, without weights: a name of an entry that is not \<^verbatim>\<open>NULL\<close> must be the name asked for, and an entry
  must have a name; device and connection name come before device name only, and that before connection name only. Of the entries that are not
  beaten by another the first is taken.
\<close>

definition cl_matches :: "string option \<Rightarrow> string option \<Rightarrow> 'c clk_lookup \<Rightarrow> bool" where
  "cl_matches dev_id con_id p \<longleftrightarrow> (cl_dev_id p \<noteq> None \<or> cl_con_id p \<noteq> None)
     \<and> (\<forall>d. cl_dev_id p = Some d \<longrightarrow> dev_id = Some d) \<and> (\<forall>c. cl_con_id p = Some c \<longrightarrow> con_id = Some c)"

definition more_specific :: "'c clk_lookup \<Rightarrow> 'c clk_lookup \<Rightarrow> bool" where
  "more_specific p q \<longleftrightarrow>
     (case (cl_dev_id p, cl_con_id p) of
        (Some _, Some _) \<Rightarrow> cl_dev_id q = None \<or> cl_con_id q = None
      | (Some _, None) \<Rightarrow> cl_dev_id q = None
      | (None, _) \<Rightarrow> False)"

definition clk_answer :: "string option \<Rightarrow> string option \<Rightarrow> 'c clk_lookup list \<Rightarrow> 'c clk_lookup \<Rightarrow> bool" where
  "clk_answer dev_id con_id clocks p \<longleftrightarrow> cl_matches dev_id con_id p
     \<and> (\<exists>us vs. clocks = us @ p # vs \<and> (\<forall>q \<in> set us. cl_matches dev_id con_id q \<longrightarrow> more_specific p q)
          \<and> (\<forall>q \<in> set vs. cl_matches dev_id con_id q \<longrightarrow> \<not> more_specific q p))"

text \<open>The weights of the code implement this rule.\<close>

lemma match_matches: "0 < clk_match dev_id con_id p \<longleftrightarrow> cl_matches dev_id con_id p"
  by (cases "cl_dev_id p"; cases "cl_con_id p") (auto simp: clk_match_def cl_matches_def)

lemma match_specific:
  assumes "cl_matches dev_id con_id p" "cl_matches dev_id con_id q"
  shows "clk_match dev_id con_id q < clk_match dev_id con_id p \<longleftrightarrow> more_specific p q"
  using assms by (cases "cl_dev_id p"; cases "cl_con_id p"; cases "cl_dev_id q"; cases "cl_con_id q")
    (auto simp: clk_match_def cl_matches_def more_specific_def)

lemma best_match_answer: "best_match (clk_match dev_id con_id) clocks p \<longleftrightarrow> clk_answer dev_id con_id clocks p"
proof (cases "cl_matches dev_id con_id p")
  case True
  have "clk_match dev_id con_id q < clk_match dev_id con_id p \<longleftrightarrow> (cl_matches dev_id con_id q \<longrightarrow> more_specific p q)"
    "clk_match dev_id con_id q \<le> clk_match dev_id con_id p \<longleftrightarrow> (cl_matches dev_id con_id q \<longrightarrow> \<not> more_specific q p)" for q
    using match_specific [OF True, of q] match_specific [OF _ True, of q] match_matches [of dev_id con_id q] match_matches [of dev_id con_id p] True
    by (auto simp: not_less)
  then show ?thesis using True by (simp add: best_match_def clk_answer_def match_matches)
qed (simp add: best_match_def clk_answer_def match_matches)

text \<open>C17. A clock request is answered as the comment of the code says: with the clock of the first of the entries that match and that no other
  matching entry beats (device and connection name before device name only before connection name only, a missing name matching
  everything); and it fails with \<^verbatim>\<open>-ENOENT\<close> exactly when no entry matches.\<close>

theorem clk_get_sys_most_specific:
  "(clk_get_sys dev_id con_id clocks = Inr c \<longleftrightarrow> (\<exists>p. clk_answer dev_id con_id clocks p \<and> c = cl_clk p))
   \<and> (clk_get_sys dev_id con_id clocks = Inl e \<longleftrightarrow> e = - ENOENT \<and> filter (cl_matches dev_id con_id) clocks = [])"
  using clk_find_iff [of dev_id con_id clocks c] clk_find_None [of dev_id con_id clocks]
  by (auto simp: clk_get_sys_def best_match_answer match_matches split: option.splits)

text \<open>Adding an alias for a clock, under a name no entry has: the call returns 0, the alias
  (its names cut to the 15 and 19 characters the entry has room for) finds the clock that the
  original request finds, and the answer to every other request is what it was.\<close>

lemma clk_add_alias_found:
  assumes "clk_get dev con clocks = Inr clk"
    and "alias' = Some (strlcpy MAX_CON_ID alias)" and "dev' = Some (strlcpy MAX_DEV_ID alias_dev)"
    and "filter (\<lambda>p. cl_dev_id p = dev' \<and> cl_con_id p = alias') clocks = []"
  shows "case clk_add_alias True (Some alias) (Some alias_dev) con dev clocks of (rv, clocks') \<Rightarrow>
     rv = 0 \<and> clk_get_sys dev' alias' clocks' = Inr clk
     \<and> ((d, c) \<noteq> (dev', alias') \<longrightarrow> clk_get_sys d c clocks' = clk_get_sys d c clocks)"
proof -
  let ?l = "\<lparr>cl_dev_id = dev', cl_con_id = alias', cl_clk = clk\<rparr>"
  have "clk_match dev' alias' ?l = 3" "(d, c) \<noteq> (dev', alias') \<Longrightarrow> clk_match d c ?l = 0"
    using assms(2,3) by (auto simp: clk_match_def)
  moreover have "filter (\<lambda>p. 3 \<le> clk_match dev' alias' p) clocks = []"
    using assms by (auto simp: filter_empty_conv clk_match_def)
  ultimately show ?thesis
    using assms by (auto simp: clk_add_alias_def clkdev_alloc_def clkdev_add_def clk_get_sys_def clk_find_append)
qed

end
