(* ===== verification/Clock.thy ===== *)
theory Clock
  imports Soc Clkdev
begin

text \<open>
  The clock driver \<^verbatim>\<open>arch/arm/mach-stm32/clock.c\<close>: the reference frequencies \<^verbatim>\<open>clock_val\<close> it reads
  back from the RCC registers, the reference-counted \<^verbatim>\<open>struct clk\<close> objects with their hardware
  hooks, and the set-up \<^verbatim>\<open>stm32_clock_init\<close>, which starts the PLLSAI.

  \<^item> A call may return, divide by zero or wait forever for the PLL. Its result has type
    \<open>(fault + 'a) option\<close>: \<open>None\<close> when it does not return, \<open>Inl\<close> when it faults.
  \<^item> What the RCC answers while the driver waits for the PLL is the parameter \<open>poll\<close>: \<open>poll n r\<close> is
    the value of the \<open>n\<close>-th read of the control register after \<open>r\<close> has been written to it.
  \<^item> \<^verbatim>\<open>clocks_lock\<close> makes \<^verbatim>\<open>clk_enable\<close> and \<^verbatim>\<open>clk_disable\<close> atomic.
\<close>

section \<open>State\<close>

datatype stm32_clock =
  CLOCK_SYSCLK | CLOCK_HCLK | CLOCK_PCLK1 | CLOCK_PCLK2 | CLOCK_PTMR1 | CLOCK_PTMR2 | CLOCK_DIVM

text \<open>The functions the hook pointers of a clock can hold; the eleven pairs of GPIO hooks differ in
  the bit they drive.\<close>

datatype enable_hook = mci_clk_enable | ltdc_clk_enable | sai_r_clk_enable | gpio_clk_enable nat
datatype disable_hook = mci_clk_disable | ltdc_clk_disable | sai_r_clk_disable | gpio_clk_disable nat
datatype rate_hook = sai_r_clk_set_rate

record clk =
  clk_rate :: u32
  clk_enabled :: u32
  clk_enable_hook :: "enable_hook option"
  clk_disable_hook :: "disable_hook option"
  clk_set_rate_hook :: "rate_hook option"

text \<open>The static \<^verbatim>\<open>struct clk\<close> objects of the driver.\<close>

datatype clk_id =
    clk_mci | clk_ltdc | clk_sai_r
  | clk_gpioa | clk_gpiob | clk_gpioc | clk_gpiod | clk_gpioe | clk_gpiof | clk_gpiog | clk_gpioh
  | clk_gpioi | clk_gpioj | clk_gpiok

fun gpio_clk_bit :: "clk_id \<Rightarrow> nat option" where
  "gpio_clk_bit clk_gpioa = Some 0" | "gpio_clk_bit clk_gpiob = Some 1"
| "gpio_clk_bit clk_gpioc = Some 2" | "gpio_clk_bit clk_gpiod = Some 3"
| "gpio_clk_bit clk_gpioe = Some 4" | "gpio_clk_bit clk_gpiof = Some 5"
| "gpio_clk_bit clk_gpiog = Some 6" | "gpio_clk_bit clk_gpioh = Some 7"
| "gpio_clk_bit clk_gpioi = Some 8" | "gpio_clk_bit clk_gpioj = Some 9"
| "gpio_clk_bit clk_gpiok = Some 10" | "gpio_clk_bit _ = None"

fun static_clk :: "clk_id \<Rightarrow> clk" where
  "static_clk clk_mci = \<lparr>clk_rate = 0, clk_enabled = 0, clk_enable_hook = Some mci_clk_enable,
     clk_disable_hook = Some mci_clk_disable, clk_set_rate_hook = None\<rparr>"
| "static_clk clk_ltdc = \<lparr>clk_rate = 0, clk_enabled = 0, clk_enable_hook = Some ltdc_clk_enable,
     clk_disable_hook = Some ltdc_clk_disable, clk_set_rate_hook = None\<rparr>"
| "static_clk clk_sai_r = \<lparr>clk_rate = 9000000, clk_enabled = 0, clk_enable_hook = Some sai_r_clk_enable,
     clk_disable_hook = Some sai_r_clk_disable, clk_set_rate_hook = Some sai_r_clk_set_rate\<rparr>"
| "static_clk c = (case gpio_clk_bit c of Some k \<Rightarrow>
     \<lparr>clk_rate = 0, clk_enabled = 0, clk_enable_hook = Some (gpio_clk_enable k),
      clk_disable_hook = Some (gpio_clk_disable k), clk_set_rate_hook = None\<rparr>)"

text \<open>\<open>clocks\<close> is the list of \<^verbatim>\<open>clkdev.c\<close>.\<close>

record clock_state =
  clock_soc :: soc
  clock_val :: "stm32_clock \<Rightarrow> u32"
  clks :: "clk_id \<Rightarrow> clk"
  clocks :: "clk_id clk_lookup list"

text \<open>The state at boot: static data as the C initialisers leave it.\<close>

definition clock_boot :: "soc \<Rightarrow> clock_state" where
  "clock_boot s = \<lparr>clock_soc = s, clock_val = (\<lambda>_. 0), clks = static_clk, clocks = []\<rparr>"

abbreviation rcc_of :: "clock_state \<Rightarrow> rcc_regs" where
  "rcc_of s \<equiv> rcc (clock_soc s)"

definition upd_rcc :: "(rcc_regs \<Rightarrow> rcc_regs) \<Rightarrow> clock_state \<Rightarrow> clock_state" where
  "upd_rcc f s = s\<lparr>clock_soc := (clock_soc s)\<lparr>rcc := f (rcc_of s)\<rparr>\<rparr>"

definition upd_clk :: "clk_id \<Rightarrow> (clk \<Rightarrow> clk) \<Rightarrow> clock_state \<Rightarrow> clock_state" where
  "upd_clk c f s = s\<lparr>clks := (clks s)(c := f (clks s c))\<rparr>"

section \<open>Register bits\<close>

definition STM32_HSI_HZ :: u32 where "STM32_HSI_HZ = 16000000"
definition STM32_RCC_ENR_SDIOEN :: nat where [simp]: "STM32_RCC_ENR_SDIOEN = 11"
definition STM32_RCC_ENR_LTDCEN :: nat where [simp]: "STM32_RCC_ENR_LTDCEN = 26"
definition RCC_CR_PLLSAION :: nat where [simp]: "RCC_CR_PLLSAION = 28"
definition RCC_CR_PLLSAIRDY :: nat where [simp]: "RCC_CR_PLLSAIRDY = 29"
definition RCC_DCKCFGR_PLLSAIDIVR :: u32 where "RCC_DCKCFGR_PLLSAIDIVR = push_bit 16 3"
definition RCC_PLLSAIDivR_Div8 :: u32 where "RCC_PLLSAIDivR_Div8 = push_bit 16 2"
definition STM32F7_PLLSAI_VCO_HZ :: u32 where "STM32F7_PLLSAI_VCO_HZ = 288000000"
definition STM32F7_PLLSAI_P_DIV6 :: u32 where "STM32F7_PLLSAI_P_DIV6 = push_bit 16 2"
definition STM32F7_PLLSAI_R :: u32 where "STM32F7_PLLSAI_R = 4"
definition STM32F7_PLLSAI_DIVR :: u32 where "STM32F7_PLLSAI_DIVR = RCC_PLLSAIDivR_Div8"
definition STM32F7_CK48_HZ :: u32 where "STM32F7_CK48_HZ = 48000000"
definition RCC_DCKCFGR2_CK48MSEL :: nat where [simp]: "RCC_DCKCFGR2_CK48MSEL = 27"

definition bit_set :: "nat \<Rightarrow> u32 \<Rightarrow> u32" where
  "bit_set k r = r OR push_bit k 1"

definition bit_clear :: "nat \<Rightarrow> u32 \<Rightarrow> u32" where
  "bit_clear k r = r AND NOT (push_bit k 1)"

text \<open>Division as the C program does it, with the undefined case as a fault.\<close>

definition cdiv :: "u32 \<Rightarrow> u32 \<Rightarrow> fault + u32" where
  "cdiv x y = (if y = 0 then Inl DivByZero else Inr (x div y))"

section \<open>Hooks\<close>

definition mci_enable :: "clock_state \<Rightarrow> clock_state" where
  "mci_enable = upd_rcc (\<lambda>r. r\<lparr>rcc_apb2enr := bit_set STM32_RCC_ENR_SDIOEN (rcc_apb2enr r)\<rparr>)"

definition mci_disable :: "clock_state \<Rightarrow> clock_state" where
  "mci_disable = upd_rcc (\<lambda>r. r\<lparr>rcc_apb2enr := bit_clear STM32_RCC_ENR_SDIOEN (rcc_apb2enr r)\<rparr>)"

definition ltdc_enable :: "clock_state \<Rightarrow> clock_state" where
  "ltdc_enable = upd_rcc (\<lambda>r. r\<lparr>rcc_apb2enr := bit_set STM32_RCC_ENR_LTDCEN (rcc_apb2enr r)\<rparr>)"

definition ltdc_disable :: "clock_state \<Rightarrow> clock_state" where
  "ltdc_disable = upd_rcc (\<lambda>r. r\<lparr>rcc_apb2enr := bit_clear STM32_RCC_ENR_LTDCEN (rcc_apb2enr r)\<rparr>)"

definition gpio_enable :: "nat \<Rightarrow> clock_state \<Rightarrow> clock_state" where
  "gpio_enable k = upd_rcc (\<lambda>r. r\<lparr>rcc_ahb1enr := bit_set k (rcc_ahb1enr r)\<rparr>)"

definition gpio_disable :: "nat \<Rightarrow> clock_state \<Rightarrow> clock_state" where
  "gpio_disable k = upd_rcc (\<lambda>r. r\<lparr>rcc_ahb1enr := bit_clear k (rcc_ahb1enr r)\<rparr>)"

definition sai_r_disable :: "clock_state \<Rightarrow> clock_state" where
  "sai_r_disable = upd_rcc (\<lambda>r. r\<lparr>rcc_cr := bit_clear RCC_CR_PLLSAION (rcc_cr r)\<rparr>)"

text \<open>\<^verbatim>\<open>while ((STM32_RCC->cr & (1 << 29)) == 0);\<close> after the \<open>n\<close>-th read.\<close>

partial_function (option) pllsai_wait ::
  "(nat \<Rightarrow> u32 \<Rightarrow> u32) \<Rightarrow> nat \<Rightarrow> clock_state \<Rightarrow> clock_state option" where
  "pllsai_wait poll n s =
     (if bit (poll n (rcc_cr (rcc_of s))) RCC_CR_PLLSAIRDY
      then Some (upd_rcc (\<lambda>r. r\<lparr>rcc_cr := poll n (rcc_cr r)\<rparr>) s)
      else pllsai_wait poll (Suc n) s)"

text \<open>The values of the PLLSAI registers that \<^verbatim>\<open>sai_r_clk_enable\<close> computes, for a clock of rate
  \<open>rate\<close> and a PLL input of \<open>parent_rate\<close>, in the two variants of the build.\<close>

definition sai_pllsaicfgr :: "kconfig \<Rightarrow> u32 \<Rightarrow> u32 \<Rightarrow> fault + u32" where
  "sai_pllsaicfgr cfg rate parent_rate =
     (let sai_q = 7 in
      if cfg CONFIG_ARCH_STM32F7 then
        map_sum id (\<lambda>sai_n. push_bit 6 sai_n OR STM32F7_PLLSAI_P_DIV6 OR push_bit 24 sai_q
                      OR push_bit 28 STM32F7_PLLSAI_R)
          (cdiv STM32F7_PLLSAI_VCO_HZ parent_rate)
      else
        (let sai_r = 3 in
         map_sum id (\<lambda>sai_n. push_bit 6 sai_n OR push_bit 24 sai_q OR push_bit 28 sai_r)
           (cdiv (rate * sai_r * 8) parent_rate)))"

definition sai_div_r :: "kconfig \<Rightarrow> u32" where
  "sai_div_r cfg = (if cfg CONFIG_ARCH_STM32F7 then STM32F7_PLLSAI_DIVR else RCC_PLLSAIDivR_Div8)"

text \<open>The PLLSAI already runs with this configuration (the test is compiled in on STM32F7 only).\<close>

definition sai_running :: "kconfig \<Rightarrow> u32 \<Rightarrow> rcc_regs \<Rightarrow> bool" where
  "sai_running cfg pllsaicfgr r \<longleftrightarrow>
     cfg CONFIG_ARCH_STM32F7 \<and> bit (rcc_cr r) RCC_CR_PLLSAION \<and> rcc_pllsaicfgr r = pllsaicfgr
     \<and> rcc_dckcfgr r AND RCC_DCKCFGR_PLLSAIDIVR = sai_div_r cfg"

definition sai_program :: "kconfig \<Rightarrow> u32 \<Rightarrow> clock_state \<Rightarrow> clock_state" where
  "sai_program cfg pllsaicfgr s =
     (let s = sai_r_disable s;
          s = upd_rcc (\<lambda>r. r\<lparr>rcc_pllsaicfgr := pllsaicfgr\<rparr>) s;
          s = upd_rcc (\<lambda>r. r\<lparr>rcc_dckcfgr :=
                (rcc_dckcfgr r AND NOT RCC_DCKCFGR_PLLSAIDIVR) OR sai_div_r cfg\<rparr>) s
      in upd_rcc (\<lambda>r. r\<lparr>rcc_cr := bit_set RCC_CR_PLLSAION (rcc_cr r)\<rparr>) s)"

definition sai_r_enable ::
  "kconfig \<Rightarrow> (nat \<Rightarrow> u32 \<Rightarrow> u32) \<Rightarrow> clk_id \<Rightarrow> clock_state \<Rightarrow> (fault + clock_state) option" where
  "sai_r_enable cfg poll c s =
     (case sai_pllsaicfgr cfg (clk_rate (clks s c)) (clock_val s CLOCK_DIVM) of
        Inl f \<Rightarrow> Some (Inl f)
      | Inr pllsaicfgr \<Rightarrow>
          if sai_running cfg pllsaicfgr (rcc_of s) then Some (Inr s)
          else map_option Inr (pllsai_wait poll 0 (sai_program cfg pllsaicfgr s)))"

definition sai_r_set_rate :: "clk_id \<Rightarrow> u32 \<Rightarrow> clock_state \<Rightarrow> int \<times> clock_state" where
  "sai_r_set_rate c rate s = (0, upd_clk c (\<lambda>k. k\<lparr>clk_rate := rate\<rparr>) s)"

text \<open>The calls through the hook pointers.\<close>

fun run_enable ::
  "kconfig \<Rightarrow> (nat \<Rightarrow> u32 \<Rightarrow> u32) \<Rightarrow> enable_hook \<Rightarrow> clk_id \<Rightarrow> clock_state \<Rightarrow> (fault + clock_state) option" where
  "run_enable cfg poll mci_clk_enable c s = Some (Inr (mci_enable s))"
| "run_enable cfg poll ltdc_clk_enable c s = Some (Inr (ltdc_enable s))"
| "run_enable cfg poll sai_r_clk_enable c s = sai_r_enable cfg poll c s"
| "run_enable cfg poll (gpio_clk_enable k) c s = Some (Inr (gpio_enable k s))"

fun run_disable :: "disable_hook \<Rightarrow> clk_id \<Rightarrow> clock_state \<Rightarrow> clock_state" where
  "run_disable mci_clk_disable c s = mci_disable s"
| "run_disable ltdc_clk_disable c s = ltdc_disable s"
| "run_disable sai_r_clk_disable c s = sai_r_disable s"
| "run_disable (gpio_clk_disable k) c s = gpio_disable k s"

fun run_set_rate :: "rate_hook \<Rightarrow> clk_id \<Rightarrow> u32 \<Rightarrow> clock_state \<Rightarrow> int \<times> clock_state" where
  "run_set_rate sai_r_clk_set_rate c rate s = sai_r_set_rate c rate s"

section \<open>The clock interface\<close>

definition clk_enable ::
  "kconfig \<Rightarrow> (nat \<Rightarrow> u32 \<Rightarrow> u32) \<Rightarrow> clk_id \<Rightarrow> clock_state \<Rightarrow> (fault + int \<times> clock_state) option" where
  "clk_enable cfg poll c s =
     (let n = clk_enabled (clks s c);
          s = upd_clk c (\<lambda>k. k\<lparr>clk_enabled := n + 1\<rparr>) s
      in case (if n = 0 then clk_enable_hook (clks s c) else None) of
           None \<Rightarrow> Some (Inr (0, s))
         | Some h \<Rightarrow> map_option (map_sum id (Pair 0)) (run_enable cfg poll h c s))"

text \<open>The first component says whether \<^verbatim>\<open>WARN_ON\<close> fires.\<close>

definition clk_disable :: "clk_id \<Rightarrow> clock_state \<Rightarrow> bool \<times> clock_state" where
  "clk_disable c s =
     (let warn = clk_enabled (clks s c) = 0;
          s = upd_clk c (\<lambda>k. k\<lparr>clk_enabled := clk_enabled k - 1\<rparr>) s
      in case (if clk_enabled (clks s c) = 0 then clk_disable_hook (clks s c) else None) of
           None \<Rightarrow> (warn, s)
         | Some h \<Rightarrow> (warn, run_disable h c s))"

definition clk_get_rate :: "clk_id \<Rightarrow> clock_state \<Rightarrow> u32" where
  "clk_get_rate c s = clk_rate (clks s c)"

definition clk_set_rate :: "clk_id \<Rightarrow> u32 \<Rightarrow> clock_state \<Rightarrow> int \<times> clock_state" where
  "clk_set_rate c rate s =
     (case clk_set_rate_hook (clks s c) of
        Some h \<Rightarrow> run_set_rate h c rate s
      | None \<Rightarrow> (- EINVAL, s))"

definition clk_round_rate :: "clk_id \<Rightarrow> u32 \<Rightarrow> clock_state \<Rightarrow> u32" where
  "clk_round_rate c rate s = clk_rate (clks s c)"

definition stm32_clock_get :: "stm32_clock \<Rightarrow> clock_state \<Rightarrow> u32" where
  "stm32_clock_get c s = clock_val s c"

section \<open>Initialisation\<close>

definition apbahb_presc_tbl :: "nat list" where
  "apbahb_presc_tbl = [0, 0, 0, 0, 1, 2, 3, 4, 1, 2, 3, 4, 6, 7, 8, 9]"

definition clock_hse_hz :: "int \<Rightarrow> u32" where
  "clock_hse_hz platform =
     (if platform = PLATFORM_STM32_STM3220G_EVAL \<or> platform = PLATFORM_STM32_STM3240G_EVAL then 25000000
      else if platform = PLATFORM_STM32_STM_SOM \<or> platform = PLATFORM_STM32_STM_STM32F439_SOM
              \<or> platform = PLATFORM_STM32_STM_STM32F7_SOM then 12000000
      else if platform = PLATFORM_STM32_STM32F7_DISCO then 25000000
      else if platform = PLATFORM_STM32_STM_DISCO then 8000000
      else 25000000)"

text \<open>The fields of \<^verbatim>\<open>RCC_CFGR\<close> and \<^verbatim>\<open>RCC_PLLCFGR\<close> the function reads.\<close>

definition cfgr_sws :: "rcc_regs \<Rightarrow> u32" where "cfgr_sws r = drop_bit 2 (rcc_cfgr r) AND 0x3"
definition cfgr_hpre :: "rcc_regs \<Rightarrow> u32" where "cfgr_hpre r = drop_bit 4 (rcc_cfgr r) AND 0xF"
definition cfgr_ppre1 :: "rcc_regs \<Rightarrow> u32" where "cfgr_ppre1 r = drop_bit 10 (rcc_cfgr r) AND 0x7"
definition cfgr_ppre2 :: "rcc_regs \<Rightarrow> u32" where "cfgr_ppre2 r = drop_bit 13 (rcc_cfgr r) AND 0x7"
definition pllcfgr_hsesrc :: "rcc_regs \<Rightarrow> bool" where "pllcfgr_hsesrc r = bit (rcc_pllcfgr r) 22"
definition pllcfgr_pllm :: "rcc_regs \<Rightarrow> u32" where "pllcfgr_pllm r = drop_bit 0 (rcc_pllcfgr r) AND 0x3F"
definition pllcfgr_plln :: "rcc_regs \<Rightarrow> u32" where "pllcfgr_plln r = drop_bit 6 (rcc_pllcfgr r) AND 0x1FF"
definition pllcfgr_pllp :: "rcc_regs \<Rightarrow> u32" where "pllcfgr_pllp r = drop_bit 16 (rcc_pllcfgr r) AND 0x3"
definition pllcfgr_pllq :: "rcc_regs \<Rightarrow> u32" where "pllcfgr_pllq r = drop_bit 24 (rcc_pllcfgr r) AND 0xF"

text \<open>SYSCLK and DIVM; the second result is \<^verbatim>\<open>pllvco\<close>.\<close>

definition clock_sysclk ::
  "u32 \<Rightarrow> rcc_regs \<Rightarrow> (stm32_clock \<Rightarrow> u32) \<Rightarrow> fault + (stm32_clock \<Rightarrow> u32) \<times> u32" where
  "clock_sysclk hse_hz r cv =
     (if cfgr_sws r = 0 then Inr (cv(CLOCK_SYSCLK := STM32_HSI_HZ), 0)
      else if cfgr_sws r = 1 then Inr (cv(CLOCK_SYSCLK := hse_hz), 0)
      else if cfgr_sws r = 2 then
        (case cdiv (if pllcfgr_hsesrc r then hse_hz else STM32_HSI_HZ) (pllcfgr_pllm r) of
           Inl f \<Rightarrow> Inl f
         | Inr divm \<Rightarrow>
             (let pllvco = pllcfgr_plln r * divm;
                  pllp = (pllcfgr_pllp r + 1) * 2
              in Inr (cv(CLOCK_DIVM := divm, CLOCK_SYSCLK := pllvco div pllp), pllvco)))
      else Inr (cv(CLOCK_SYSCLK := STM32_HSI_HZ), 0))"

text \<open>HCLK, PCLK1, PTMR1, PCLK2 and PTMR2.\<close>

definition clock_buses :: "rcc_regs \<Rightarrow> (stm32_clock \<Rightarrow> u32) \<Rightarrow> stm32_clock \<Rightarrow> u32" where
  "clock_buses r cv =
     (let hclk = drop_bit (apbahb_presc_tbl ! unat (cfgr_hpre r)) (cv CLOCK_SYSCLK);
          pclk1 = drop_bit (apbahb_presc_tbl ! unat (cfgr_ppre1 r)) hclk;
          ptmr1 = (if cfgr_ppre1 r \<noteq> 0 then pclk1 * 2 else pclk1);
          pclk2 = drop_bit (apbahb_presc_tbl ! unat (cfgr_ppre2 r)) hclk;
          ptmr2 = (if cfgr_ppre2 r \<noteq> 0 then pclk2 * 2 else pclk2)
      in cv(CLOCK_HCLK := hclk, CLOCK_PCLK1 := pclk1, CLOCK_PTMR1 := ptmr1,
            CLOCK_PCLK2 := pclk2, CLOCK_PTMR2 := ptmr2))"

definition stm32_clkregs :: "clk_id clk_lookup list" where
  "stm32_clkregs =
     [\<lparr>cl_dev_id = Some ''mmci-pl18x'', cl_con_id = None, cl_clk = clk_mci\<rparr>,
      \<lparr>cl_dev_id = Some ''stm32f4-ltdc.0'', cl_con_id = None, cl_clk = clk_ltdc\<rparr>,
      \<lparr>cl_dev_id = None, cl_con_id = Some ''sai_r_clk'', cl_clk = clk_sai_r\<rparr>,
      \<lparr>cl_dev_id = None, cl_con_id = Some ''gpioa'', cl_clk = clk_gpioa\<rparr>,
      \<lparr>cl_dev_id = None, cl_con_id = Some ''gpiob'', cl_clk = clk_gpiob\<rparr>,
      \<lparr>cl_dev_id = None, cl_con_id = Some ''gpioc'', cl_clk = clk_gpioc\<rparr>,
      \<lparr>cl_dev_id = None, cl_con_id = Some ''gpiod'', cl_clk = clk_gpiod\<rparr>,
      \<lparr>cl_dev_id = None, cl_con_id = Some ''gpioe'', cl_clk = clk_gpioe\<rparr>,
      \<lparr>cl_dev_id = None, cl_con_id = Some ''gpiof'', cl_clk = clk_gpiof\<rparr>,
      \<lparr>cl_dev_id = None, cl_con_id = Some ''gpiog'', cl_clk = clk_gpiog\<rparr>,
      \<lparr>cl_dev_id = None, cl_con_id = Some ''gpioh'', cl_clk = clk_gpioh\<rparr>,
      \<lparr>cl_dev_id = None, cl_con_id = Some ''gpioi'', cl_clk = clk_gpioi\<rparr>,
      \<lparr>cl_dev_id = None, cl_con_id = Some ''gpioj'', cl_clk = clk_gpioj\<rparr>,
      \<lparr>cl_dev_id = None, cl_con_id = Some ''gpiok'', cl_clk = clk_gpiok\<rparr>]"

text \<open>The rate of the SD card clock from the main PLL, when that runs.\<close>

definition clock_mci_rate :: "rcc_regs \<Rightarrow> u32 \<Rightarrow> clock_state \<Rightarrow> fault + clock_state" where
  "clock_mci_rate r pllvco s =
     (if pllvco = 0 then Inr s
      else map_sum id (\<lambda>q. upd_clk clk_mci (\<lambda>k. k\<lparr>clk_rate := q\<rparr>) s) (cdiv pllvco (pllcfgr_pllq r)))"

text \<open>The PLLSAI set-up of an STM32F7.\<close>

definition clock_pllsai :: "kconfig \<Rightarrow> (nat \<Rightarrow> u32 \<Rightarrow> u32) \<Rightarrow> clock_state \<Rightarrow> (fault + clock_state) option" where
  "clock_pllsai cfg poll s =
     (if \<not> cfg CONFIG_ARCH_STM32F7 then Some (Inr s)
      else map_option (map_sum id (\<lambda>s.
             upd_clk clk_mci (\<lambda>k. k\<lparr>clk_rate := STM32F7_CK48_HZ\<rparr>)
               (upd_rcc (\<lambda>r. r\<lparr>rcc_dckcfgr2 := bit_set RCC_DCKCFGR2_CK48MSEL (rcc_dckcfgr2 r)\<rparr>) s)))
             (sai_r_enable cfg poll clk_sai_r s))"

definition stm32_clock_init ::
  "kconfig \<Rightarrow> (nat \<Rightarrow> u32 \<Rightarrow> u32) \<Rightarrow> int \<Rightarrow> clock_state \<Rightarrow> (fault + clock_state) option" where
  "stm32_clock_init cfg poll platform s =
     (case clock_sysclk (clock_hse_hz platform) (rcc_of s) (clock_val s) of
        Inl f \<Rightarrow> Some (Inl f)
      | Inr (cv, pllvco) \<Rightarrow>
          (case clock_mci_rate (rcc_of s) pllvco (s\<lparr>clock_val := clock_buses (rcc_of s) cv\<rparr>) of
             Inl f \<Rightarrow> Some (Inl f)
           | Inr s \<Rightarrow>
               map_option (map_sum id (\<lambda>s. s\<lparr>clocks := fold clkdev_add stm32_clkregs (clocks s)\<rparr>))
                 (clock_pllsai cfg poll s)))"

end
