(* ===== verification/Clock_Tree.thy ===== *)
theory Clock_Tree
  imports Clock
begin

text \<open>
  The frequencies of \<^verbatim>\<open>clock.c\<close>: what \<^verbatim>\<open>stm32_clock_init\<close> computes from the RCC registers, when it
  divides by zero, that the PLLSAI set-up gives exactly the 48 MHz and 9 MHz its comment promises
  and is not repeated once it runs, and that every driver finds its clock afterwards.
\<close>

section \<open>Helpers\<close>

lemma rcc_of_upd [soc_simps]: "rcc_of (upd_rcc f s) = f (rcc_of s)"
  and rcc_of_upd_clk [soc_simps]: "rcc_of (upd_clk c g s) = rcc_of s"
  and clock_val_upd [soc_simps]: "clock_val (upd_rcc f s) = clock_val s"
    "clock_val (upd_clk c g s) = clock_val s"
  and clks_upd [soc_simps]: "clks (upd_rcc f s) = clks s"
    "clks (upd_clk c g s) d = (if d = c then g (clks s c) else clks s d)"
  and clocks_upd [soc_simps]: "clocks (upd_rcc f s) = clocks s" "clocks (upd_clk c g s) = clocks s"
  by (simp_all add: upd_rcc_def upd_clk_def)

lemma upd_rcc_upd_rcc [soc_simps]: "upd_rcc f (upd_rcc g s) = upd_rcc (\<lambda>r. f (g r)) s"
  by (simp add: upd_rcc_def)

lemma bit_bit_set [bit_field]: "bit (bit_set k r) n \<longleftrightarrow> bit r n \<or> n = k \<and> k < 32"
  unfolding bit_set_def by (rule bit_or_bit)

lemma bit_bit_clear [bit_field]: "bit (bit_clear k r) n \<longleftrightarrow> n \<noteq> k \<and> bit r n"
  unfolding bit_clear_def by (rule bit_clear_bit)

section \<open>Waiting for the PLL\<close>

text \<open>
  What the reference manual says of the RCC: once PLLSAION is set, a read of the control register
  shows PLLSAIRDY after some time, and the hardware leaves PLLSAION as it was written.
\<close>

definition pllsai_keeps :: "(nat \<Rightarrow> u32 \<Rightarrow> u32) \<Rightarrow> bool" where
  "pllsai_keeps poll \<longleftrightarrow> (\<forall>n r. bit (poll n r) RCC_CR_PLLSAION = bit r RCC_CR_PLLSAION)"

definition pllsai_locks :: "(nat \<Rightarrow> u32 \<Rightarrow> u32) \<Rightarrow> bool" where
  "pllsai_locks poll \<longleftrightarrow>
     (\<forall>r. bit r RCC_CR_PLLSAION \<longrightarrow> (\<exists>n. bit (poll n r) RCC_CR_PLLSAIRDY)) \<and> pllsai_keeps poll"

definition saw_ready :: "(nat \<Rightarrow> u32 \<Rightarrow> u32) \<Rightarrow> nat \<Rightarrow> clock_state \<Rightarrow> clock_state" where
  "saw_ready poll n s = upd_rcc (\<lambda>r. r\<lparr>rcc_cr := poll n (rcc_cr r)\<rparr>) s"

lemma pllsai_wait_returns:
  assumes "bit (poll n (rcc_cr (rcc_of s))) RCC_CR_PLLSAIRDY" and "k \<le> n"
  shows "\<exists>m. pllsai_wait poll k s = Some (saw_ready poll m s) \<and> bit (poll m (rcc_cr (rcc_of s))) RCC_CR_PLLSAIRDY"
  using assms(2)
proof (induction rule: inc_induct)
  case base
  then show ?case using assms(1) by (subst pllsai_wait.simps) (auto simp: saw_ready_def)
next
  case (step m)
  then show ?case
    by (subst pllsai_wait.simps) (auto simp: saw_ready_def)
qed

lemma pllsai_wait_result:
  "pllsai_wait poll k s = Some s' \<Longrightarrow>
     \<exists>m \<ge> k. s' = saw_ready poll m s \<and> bit (poll m (rcc_cr (rcc_of s))) RCC_CR_PLLSAIRDY"
proof (erule pllsai_wait.raw_induct [where P = "\<lambda>poll k s s'. \<exists>m \<ge> k. s' = saw_ready poll m s
    \<and> bit (poll m (rcc_cr (rcc_of s))) RCC_CR_PLLSAIRDY", rotated])
  fix wait and poll :: "nat \<Rightarrow> u32 \<Rightarrow> u32" and n t t'
  assume IH: "\<And>poll n t t'. wait poll n t = Some t' \<Longrightarrow>
      \<exists>m \<ge> n. t' = saw_ready poll m t \<and> bit (poll m (rcc_cr (rcc_of t))) RCC_CR_PLLSAIRDY"
    and run: "(if bit (poll n (rcc_cr (rcc_of t))) RCC_CR_PLLSAIRDY
      then Some (upd_rcc (\<lambda>r. r\<lparr>rcc_cr := poll n (rcc_cr r)\<rparr>) t) else wait poll (Suc n) t) = Some t'"
  show "\<exists>m \<ge> n. t' = saw_ready poll m t \<and> bit (poll m (rcc_cr (rcc_of t))) RCC_CR_PLLSAIRDY"
  proof (cases "bit (poll n (rcc_cr (rcc_of t))) RCC_CR_PLLSAIRDY")
    case True
    then show ?thesis using run by (intro exI [of _ n]) (simp add: saw_ready_def)
  next
    case False
    then show ?thesis using IH [of poll "Suc n" t t'] run by (metis Suc_leD)
  qed
qed

lemma pllsai_wait_None:
  "pllsai_wait poll 0 s = None \<longleftrightarrow> (\<forall>n. \<not> bit (poll n (rcc_cr (rcc_of s))) RCC_CR_PLLSAIRDY)"
  using pllsai_wait_returns [of poll _ s 0] pllsai_wait_result [of poll 0 s] by (metis le0 not_None_eq option.distinct(1))

section \<open>The PLLSAI\<close>

text \<open>
  The PLLSAI outputs in Hz, decoded from its registers as the reference manual of the STM32F7
  gives them: VCO = DIVM * PLLSAIN; CK48 = VCO / PLLSAIP with PLLSAIP one of 2, 4, 6, 8; pixel
  clock = VCO / PLLSAIR / PLLSAIDIVR with PLLSAIDIVR one of 2, 4, 8, 16.
\<close>

definition pllsai_vco_hz :: "nat \<Rightarrow> rcc_regs \<Rightarrow> nat" where
  "pllsai_vco_hz divm r = divm * unat (field 9 6 (rcc_pllsaicfgr r))"

definition ck48_hz :: "nat \<Rightarrow> rcc_regs \<Rightarrow> nat" where
  "ck48_hz divm r = pllsai_vco_hz divm r div (2 * (unat (field 2 16 (rcc_pllsaicfgr r)) + 1))"

definition lcd_hz :: "nat \<Rightarrow> rcc_regs \<Rightarrow> nat" where
  "lcd_hz divm r = pllsai_vco_hz divm r div unat (field 3 28 (rcc_pllsaicfgr r))
     div 2 ^ (unat (field 2 16 (rcc_dckcfgr r)) + 1)"

definition f7_pllsaicfgr :: "u32 \<Rightarrow> u32" where
  "f7_pllsaicfgr divm = push_bit 6 (288000000 div divm) OR 0x47020000"

lemma sai_pllsaicfgr_f7:
  "cfg CONFIG_ARCH_STM32F7 \<Longrightarrow>
     sai_pllsaicfgr cfg rate divm = (if divm = 0 then Inl DivByZero else Inr (f7_pllsaicfgr divm))"
  by (simp add: sai_pllsaicfgr_def cdiv_def f7_pllsaicfgr_def STM32F7_PLLSAI_VCO_HZ_def
      STM32F7_PLLSAI_P_DIV6_def STM32F7_PLLSAI_R_def or.assoc)

lemma pllsaicfgr_fields:
  assumes "take_bit 9 n = (n :: u32)"
  shows "field 9 6 (push_bit 6 n OR 0x47020000) = n"
    and "field 2 16 (push_bit 6 n OR 0x47020000) = 2"
    and "field 3 28 (push_bit 6 n OR 0x47020000) = 4"
proof -
  have *: "field w i (push_bit 6 n OR c) = field w i (push_bit 6 n) OR field w i c" for w i c
    by (simp add: field_def drop_bit_or take_bit_or)
  have n: "field 9 6 (push_bit 6 n) = n"
    by (rule bit_word_eqI) (auto simp: bit_field bit_simps dest: take_bit_bit_bound [OF assms])
  have z: "field w i (push_bit 6 n) = 0" if "15 \<le> i" for w i
    using that by (intro bit_word_eqI) (auto simp: bit_field bit_simps dest: take_bit_bit_bound [OF assms])
  have c: "field 9 6 0x47020000 = 0" "field 2 16 0x47020000 = 2" "field 3 28 0x47020000 = 4"
    by (simp_all add: field_def drop_bit_eq_div)
  show "field 9 6 (push_bit 6 n OR 0x47020000) = n"
    and "field 2 16 (push_bit 6 n OR 0x47020000) = 2"
    and "field 3 28 (push_bit 6 n OR 0x47020000) = 4"
    unfolding * n c by (simp_all add: z)
qed

text \<open>\<open>sai_regs cr cfgr dckcfgr\<close> writes the three registers that the PLLSAI code touches.\<close>

definition sai_regs :: "u32 \<Rightarrow> u32 \<Rightarrow> u32 \<Rightarrow> clock_state \<Rightarrow> clock_state" where
  "sai_regs cr cfgr dckcfgr = upd_rcc (\<lambda>r. r\<lparr>rcc_cr := cr, rcc_pllsaicfgr := cfgr, rcc_dckcfgr := dckcfgr\<rparr>)"

lemma sai_regs_simps [soc_simps]:
  "clock_val (sai_regs a b d s) = clock_val s" "clks (sai_regs a b d s) = clks s"
  "clocks (sai_regs a b d s) = clocks s"
  "rcc_of (sai_regs a b d s) = (rcc_of s)\<lparr>rcc_cr := a, rcc_pllsaicfgr := b, rcc_dckcfgr := d\<rparr>"
  by (simp_all add: sai_regs_def soc_simps)

abbreviation new_dckcfgr :: "kconfig \<Rightarrow> clock_state \<Rightarrow> u32" where
  "new_dckcfgr cfg s \<equiv> (rcc_dckcfgr (rcc_of s) AND NOT RCC_DCKCFGR_PLLSAIDIVR) OR sai_div_r cfg"

lemma sai_program_regs:
  "sai_program cfg p s =
     sai_regs (bit_set RCC_CR_PLLSAION (bit_clear RCC_CR_PLLSAION (rcc_cr (rcc_of s)))) p (new_dckcfgr cfg s) s"
  by (simp add: sai_program_def sai_r_disable_def sai_regs_def soc_simps) (simp add: upd_rcc_def)

lemma saw_ready_regs: "saw_ready poll n (sai_regs a b d s) = sai_regs (poll n a) b d s"
  by (simp add: saw_ready_def sai_regs_def upd_rcc_def)

lemma sai_regs_same: "sai_regs (rcc_cr (rcc_of s)) (rcc_pllsaicfgr (rcc_of s)) (rcc_dckcfgr (rcc_of s)) s = s"
  by (simp add: sai_regs_def upd_rcc_def)

lemma new_dckcfgr_divr: "new_dckcfgr cfg s AND RCC_DCKCFGR_PLLSAIDIVR = sai_div_r cfg"
proof -
  have "sai_div_r cfg AND RCC_DCKCFGR_PLLSAIDIVR = sai_div_r cfg"
    by (simp add: sai_div_r_def RCC_DCKCFGR_PLLSAIDIVR_def STM32F7_PLLSAI_DIVR_def RCC_PLLSAIDivR_Div8_def)
  then show ?thesis by (simp add: bit.conj_disj_distrib2 and.assoc)
qed

text \<open>Whenever the hook returns, it has written these registers only.\<close>

lemma sai_r_enable_frame:
  assumes "sai_r_enable cfg poll c s = Some (Inr s')"
  shows "\<exists>a b d. s' = sai_regs a b d s \<and> (pllsai_keeps poll \<longrightarrow> bit a RCC_CR_PLLSAION)
    \<and> sai_pllsaicfgr cfg (clk_rate (clks s c)) (clock_val s CLOCK_DIVM) = Inr b
    \<and> d AND RCC_DCKCFGR_PLLSAIDIVR = sai_div_r cfg
    \<and> d AND NOT RCC_DCKCFGR_PLLSAIDIVR = rcc_dckcfgr (rcc_of s) AND NOT RCC_DCKCFGR_PLLSAIDIVR"
proof -
  obtain p where p: "sai_pllsaicfgr cfg (clk_rate (clks s c)) (clock_val s CLOCK_DIVM) = Inr p"
    using assms by (auto simp: sai_r_enable_def split: sum.splits)
  have on: "bit (bit_set RCC_CR_PLLSAION (bit_clear RCC_CR_PLLSAION (rcc_cr (rcc_of s)))) RCC_CR_PLLSAION"
    by (simp add: bit_field)
  have div: "new_dckcfgr cfg s AND NOT RCC_DCKCFGR_PLLSAIDIVR = rcc_dckcfgr (rcc_of s) AND NOT RCC_DCKCFGR_PLLSAIDIVR"
    by (simp add: sai_div_r_def STM32F7_PLLSAI_DIVR_def RCC_DCKCFGR_PLLSAIDIVR_def RCC_PLLSAIDivR_Div8_def
        bit.conj_disj_distrib2 and.assoc)
  show ?thesis
  proof (cases "sai_running cfg p (rcc_of s)")
    case True
    then have "s' = sai_regs (rcc_cr (rcc_of s)) p (rcc_dckcfgr (rcc_of s)) s"
      using assms p sai_regs_same [of s] by (auto simp: sai_r_enable_def sai_running_def)
    then show ?thesis using p True by (auto simp: sai_running_def)
  next
    case False
    then obtain n where "s' = sai_regs (poll n (bit_set RCC_CR_PLLSAION (bit_clear RCC_CR_PLLSAION (rcc_cr (rcc_of s)))))
        p (new_dckcfgr cfg s) s"
      using assms p pllsai_wait_result [of poll 0 "sai_program cfg p s" s']
      by (auto simp: sai_r_enable_def sai_program_regs saw_ready_regs)
    then show ?thesis using p on div new_dckcfgr_divr by (auto simp: pllsai_keeps_def)
  qed
qed

lemma sai_r_enable_None:
  assumes "pllsai_locks poll" shows "sai_r_enable cfg poll c s \<noteq> None"
proof -
  have "pllsai_wait poll 0 (sai_program cfg p s) \<noteq> None" for p
    using assms by (simp add: pllsai_wait_None pllsai_locks_def sai_program_regs soc_simps bit_field)
  then show ?thesis by (auto simp: sai_r_enable_def split: sum.splits)
qed

lemma sai_r_enable_f7:
  assumes "cfg CONFIG_ARCH_STM32F7" and "pllsai_locks poll"
  shows "clock_val s CLOCK_DIVM = 0 \<Longrightarrow> sai_r_enable cfg poll c s = Some (Inl DivByZero)"
    and "clock_val s CLOCK_DIVM \<noteq> 0 \<Longrightarrow> \<exists>a d. sai_r_enable cfg poll c s
        = Some (Inr (sai_regs a (f7_pllsaicfgr (clock_val s CLOCK_DIVM)) d s))
      \<and> bit a RCC_CR_PLLSAION \<and> d AND RCC_DCKCFGR_PLLSAIDIVR = sai_div_r cfg
      \<and> d AND NOT RCC_DCKCFGR_PLLSAIDIVR = rcc_dckcfgr (rcc_of s) AND NOT RCC_DCKCFGR_PLLSAIDIVR"
proof -
  assume "clock_val s CLOCK_DIVM = 0"
  then show "sai_r_enable cfg poll c s = Some (Inl DivByZero)"
    using assms by (simp add: sai_r_enable_def sai_pllsaicfgr_f7)
next
  assume nz: "clock_val s CLOCK_DIVM \<noteq> 0"
  then obtain s' where s': "sai_r_enable cfg poll c s = Some (Inr s')"
    using assms sai_r_enable_None [of poll cfg c s]
    by (auto simp: sai_r_enable_def sai_pllsaicfgr_f7 split: if_splits)
  then show "\<exists>a d. sai_r_enable cfg poll c s
        = Some (Inr (sai_regs a (f7_pllsaicfgr (clock_val s CLOCK_DIVM)) d s))
      \<and> bit a RCC_CR_PLLSAION \<and> d AND RCC_DCKCFGR_PLLSAIDIVR = sai_div_r cfg
      \<and> d AND NOT RCC_DCKCFGR_PLLSAIDIVR = rcc_dckcfgr (rcc_of s) AND NOT RCC_DCKCFGR_PLLSAIDIVR"
    using sai_r_enable_frame [OF s'] assms nz by (auto simp: sai_pllsaicfgr_f7 pllsai_locks_def)
qed

lemma sai_running_stays:
  assumes "cfg CONFIG_ARCH_STM32F7" "clock_val s CLOCK_DIVM \<noteq> 0"
    and "sai_running cfg (f7_pllsaicfgr (clock_val s CLOCK_DIVM)) (rcc_of s)"
  shows "sai_r_enable cfg poll c s = Some (Inr s)"
  using assms by (simp add: sai_r_enable_def sai_pllsaicfgr_f7)

lemma divr_mask: "RCC_DCKCFGR_PLLSAIDIVR = push_bit 16 (mask 2)"
  by (simp add: RCC_DCKCFGR_PLLSAIDIVR_def mask_eq_exp_minus_1)

text \<open>The two frequencies, once the registers hold what the hook writes.\<close>

lemma sai_hz:
  assumes divm: "unat divm dvd 288000000" "288000000 div unat divm < 512"
    and r: "rcc_pllsaicfgr r = f7_pllsaicfgr divm"
      "rcc_dckcfgr r AND RCC_DCKCFGR_PLLSAIDIVR = RCC_PLLSAIDivR_Div8"
  shows "ck48_hz (unat divm) r = 48000000" and "lcd_hz (unat divm) r = 9000000"
proof -
  let ?n = "288000000 div divm :: u32"
  have n: "unat ?n = 288000000 div unat divm" by (simp add: unat_div)
  then have "take_bit 9 ?n = ?n"
    using divm(2) by (intro take_bit_u32_self) simp
  note f = pllsaicfgr_fields [OF this]
  have vco: "pllsai_vco_hz (unat divm) r = 288000000"
    using divm(1) by (simp add: pllsai_vco_hz_def r(1) f7_pllsaicfgr_def f n)
  show "ck48_hz (unat divm) r = 48000000"
    by (simp add: ck48_hz_def vco r(1) f7_pllsaicfgr_def f)
  have "field 2 16 (rcc_dckcfgr r) = field 2 16 (rcc_dckcfgr r AND RCC_DCKCFGR_PLLSAIDIVR)"
    unfolding divr_mask by (rule bit_word_eqI) (auto simp: bit_field bit_simps)
  also have "\<dots> = 2" by (simp only: r(2)) (simp add: RCC_PLLSAIDivR_Div8_def field_def)
  finally show "lcd_hz (unat divm) r = 9000000"
    by (simp add: lcd_hz_def vco r(1) f7_pllsaicfgr_def f)
qed

section \<open>The clock tree\<close>

text \<open>The frequencies of the clock tree as whole numbers of Hz, from the register fields.\<close>

definition pll_in_hz :: "int \<Rightarrow> rcc_regs \<Rightarrow> nat" where
  "pll_in_hz platform r = (if pllcfgr_hsesrc r then unat (clock_hse_hz platform) else 16000000)"

definition divm_hz :: "int \<Rightarrow> rcc_regs \<Rightarrow> nat" where
  "divm_hz platform r = pll_in_hz platform r div unat (pllcfgr_pllm r)"

definition vco_hz :: "int \<Rightarrow> rcc_regs \<Rightarrow> nat" where
  "vco_hz platform r = divm_hz platform r * unat (pllcfgr_plln r)"

definition sysclk_hz :: "int \<Rightarrow> rcc_regs \<Rightarrow> nat" where
  "sysclk_hz platform r = vco_hz platform r div (2 * (unat (pllcfgr_pllp r) + 1))"

text \<open>Division factor of the AHB prescaler and of an APB prescaler, from the reference manual.\<close>

definition ahb_div :: "u32 \<Rightarrow> nat" where
  "ahb_div hpre = (if hpre < 8 then 1 else [2, 4, 8, 16, 64, 128, 256, 512] ! unat (hpre - 8))"

definition apb_div :: "u32 \<Rightarrow> nat" where
  "apb_div ppre = (if ppre < 4 then 1 else [2, 4, 8, 16] ! unat (ppre - 4))"

lemma unat_drop_bit: "unat (drop_bit n (w :: u32)) = unat w div 2 ^ n"
  by (simp add: unat_drop_bit_eq) (simp add: drop_bit_eq_div)

lemma presc_cases: "cfgr_ppre1 r < 8" "cfgr_ppre2 r < 8" "cfgr_hpre r < 16"
  unfolding cfgr_ppre1_def cfgr_ppre2_def cfgr_hpre_def
  by (rule le_less_trans [OF word_and_le1]; simp)+

lemma u32_below16:
  assumes "x < (16 :: u32)"
  shows "x \<in> {0, 1, 2, 3, 4, 5, 6, 7, 8, 9, 10, 11, 12, 13, 14, 15}"
proof -
  have "unat x < 16" using assms by (simp add: word_less_nat_alt)
  then have "unat x \<in> set [0 ..< 16]" by simp
  then have "of_nat (unat x) \<in> (of_nat ` set [0 ..< 16] :: u32 set)" by (rule imageI)
  then show ?thesis by (simp add: upt_rec)
qed

lemma presc_tbl_ahb: "x < 16 \<Longrightarrow> \<not> (4 \<le> x \<and> x < 8) \<Longrightarrow> 2 ^ (apbahb_presc_tbl ! unat x) = ahb_div x"
  using u32_below16 [of x] by (auto simp: apbahb_presc_tbl_def ahb_div_def)

lemma presc_tbl_apb: "x < 8 \<Longrightarrow> 2 ^ (apbahb_presc_tbl ! unat x) = apb_div x"
  using u32_below16 [of x] order.strict_trans [of x 8 16] by (auto simp: apbahb_presc_tbl_def apb_div_def)

section \<open>Initialisation\<close>

text \<open>The PLL input divided by PLLM, and the registers that let the set-up finish.\<close>

definition pll_divm :: "int \<Rightarrow> rcc_regs \<Rightarrow> u32" where
  "pll_divm platform r = (if pllcfgr_hsesrc r then clock_hse_hz platform else STM32_HSI_HZ) div pllcfgr_pllm r"

definition pll_usable :: "int \<Rightarrow> rcc_regs \<Rightarrow> bool" where
  "pll_usable platform r \<longleftrightarrow> cfgr_sws r = 2 \<and> pllcfgr_pllm r \<noteq> 0
     \<and> (pllcfgr_plln r * pll_divm platform r = 0 \<or> pllcfgr_pllq r \<noteq> 0)"

lemma unat_pll_divm: "unat (pll_divm platform r) = divm_hz platform r"
  by (simp add: pll_divm_def divm_hz_def pll_in_hz_def STM32_HSI_HZ_def unat_div)

lemma pll_divm_nonzero:
  assumes "pllcfgr_pllm r \<noteq> 0" shows "pll_divm platform r \<noteq> 0"
proof -
  have m: "unat (pllcfgr_pllm r) < 64"
    using word_and_le1 [of "drop_bit 0 (rcc_pllcfgr r)" "0x3F :: u32"]
    by (simp add: pllcfgr_pllm_def word_le_nat_alt)
  have "8000000 \<le> pll_in_hz platform r" by (simp add: pll_in_hz_def clock_hse_hz_def)
  then have "0 < divm_hz platform r" using m assms by (simp add: divm_hz_def div_greater_zero_iff unat_gt_0)
  then show ?thesis using unat_pll_divm [of platform r] by auto
qed

lemma clock_sysclk_pll:
  assumes "cfgr_sws r = 2" "pllcfgr_pllm r \<noteq> 0"
  shows "clock_sysclk (clock_hse_hz platform) r cv =
    Inr (cv(CLOCK_DIVM := pll_divm platform r,
            CLOCK_SYSCLK := pllcfgr_plln r * pll_divm platform r div ((pllcfgr_pllp r + 1) * 2)),
         pllcfgr_plln r * pll_divm platform r)"
  using assms by (simp add: clock_sysclk_def cdiv_def pll_divm_def Let_def)

lemma clock_sysclk_divm:
  assumes "cfgr_sws r \<noteq> 2" "cv CLOCK_DIVM = 0"
  shows "\<exists>cv'. clock_sysclk hse r cv = Inr (cv', 0) \<and> cv' CLOCK_DIVM = 0"
  using assms by (simp add: clock_sysclk_def)

lemma clock_buses_divm [simp]: "clock_buses r cv CLOCK_DIVM = cv CLOCK_DIVM"
  "clock_buses r cv CLOCK_SYSCLK = cv CLOCK_SYSCLK"
  by (simp_all add: clock_buses_def Let_def)

lemma fold_clkdev_add: "fold clkdev_add xs cs = cs @ xs"
  by (induction xs arbitrary: cs) (auto simp: clkdev_add_def)

text \<open>The state that a successful set-up of an STM32F7 leaves; \<open>a\<close> and \<open>d\<close> are the new values of
  \<^verbatim>\<open>RCC_CR\<close> and \<^verbatim>\<open>RCC_DCKCFGR\<close>.\<close>

definition clock_ready :: "int \<Rightarrow> u32 \<Rightarrow> u32 \<Rightarrow> clock_state \<Rightarrow> clock_state \<Rightarrow> bool" where
  "clock_ready platform a d s s' \<longleftrightarrow>
     clock_val s' = clock_buses (rcc_of s) ((clock_val s)(CLOCK_DIVM := pll_divm platform (rcc_of s),
       CLOCK_SYSCLK := pllcfgr_plln (rcc_of s) * pll_divm platform (rcc_of s)
         div ((pllcfgr_pllp (rcc_of s) + 1) * 2)))
     \<and> clks s' = (clks s)(clk_mci := (clks s clk_mci)\<lparr>clk_rate := STM32F7_CK48_HZ\<rparr>)
     \<and> clocks s' = clocks s @ stm32_clkregs
     \<and> rcc_of s' = (rcc_of s)\<lparr>rcc_cr := a, rcc_pllsaicfgr := f7_pllsaicfgr (pll_divm platform (rcc_of s)),
         rcc_dckcfgr := d, rcc_dckcfgr2 := bit_set RCC_DCKCFGR2_CK48MSEL (rcc_dckcfgr2 (rcc_of s))\<rparr>
     \<and> bit a RCC_CR_PLLSAION \<and> d AND RCC_DCKCFGR_PLLSAIDIVR = RCC_PLLSAIDivR_Div8"

lemma clock_init_f7:
  assumes "cfg CONFIG_ARCH_STM32F7" "pllsai_locks poll" "pll_usable platform (rcc_of s)"
  shows "\<exists>a d s'. stm32_clock_init cfg poll platform s = Some (Inr s') \<and> clock_ready platform a d s s'"
proof -
  let ?r = "rcc_of s"
  let ?divm = "pll_divm platform ?r"
  have u: "cfgr_sws ?r = 2" "pllcfgr_pllm ?r \<noteq> 0" "pllcfgr_plln ?r * ?divm = 0 \<or> pllcfgr_pllq ?r \<noteq> 0"
    using assms(3) by (auto simp: pll_usable_def)
  define cv where "cv = clock_buses ?r ((clock_val s)(CLOCK_DIVM := ?divm,
       CLOCK_SYSCLK := pllcfgr_plln ?r * ?divm div ((pllcfgr_pllp ?r + 1) * 2)))"
  obtain q where mci: "clock_mci_rate ?r (pllcfgr_plln ?r * ?divm) (s\<lparr>clock_val := cv\<rparr>)
      = Inr (upd_clk clk_mci (\<lambda>k. k\<lparr>clk_rate := q\<rparr>) (s\<lparr>clock_val := cv\<rparr>))"
    using u(3) by (cases "pllcfgr_plln ?r * ?divm = 0")
      (auto simp: clock_mci_rate_def cdiv_def upd_clk_def intro: that [of "clk_rate (clks s clk_mci)"])
  let ?s = "upd_clk clk_mci (\<lambda>k. k\<lparr>clk_rate := q\<rparr>) (s\<lparr>clock_val := cv\<rparr>)"
  have "clock_val ?s CLOCK_DIVM = ?divm" by (simp add: soc_simps cv_def)
  then obtain a d where sai: "sai_r_enable cfg poll clk_sai_r ?s = Some (Inr (sai_regs a (f7_pllsaicfgr ?divm) d ?s))"
    "bit a RCC_CR_PLLSAION" "d AND RCC_DCKCFGR_PLLSAIDIVR = sai_div_r cfg"
    using sai_r_enable_f7(2) [of cfg poll ?s clk_sai_r] assms(1,2) pll_divm_nonzero [OF u(2)] by auto
  let ?t = "upd_clk clk_mci (\<lambda>k. k\<lparr>clk_rate := STM32F7_CK48_HZ\<rparr>)
    (upd_rcc (\<lambda>r. r\<lparr>rcc_dckcfgr2 := bit_set RCC_DCKCFGR2_CK48MSEL (rcc_dckcfgr2 r)\<rparr>)
      (sai_regs a (f7_pllsaicfgr ?divm) d ?s))"
  have "clock_pllsai cfg poll ?s = Some (Inr ?t)"
    unfolding clock_pllsai_def sai(1) using assms(1) by simp
  then have "stm32_clock_init cfg poll platform s = Some (Inr (?t\<lparr>clocks := clocks ?t @ stm32_clkregs\<rparr>))"
    unfolding stm32_clock_init_def clock_sysclk_pll [OF u(1,2)] sum.case prod.case cv_def [symmetric] mci
    by (simp add: fold_clkdev_add)
  moreover have "clock_ready platform a d s (?t\<lparr>clocks := clocks ?t @ stm32_clkregs\<rparr>)"
    using sai(2,3) assms(1) unfolding clock_ready_def cv_def [symmetric]
    by (auto simp: soc_simps sai_div_r_def STM32F7_PLLSAI_DIVR_def fun_eq_iff)
  ultimately show ?thesis by blast
qed

lemma clock_init_f7_faults:
  assumes f7: "cfg CONFIG_ARCH_STM32F7" and locks: "pllsai_locks poll"
    and no: "\<not> pll_usable platform (rcc_of s)" and boot: "clock_val s CLOCK_DIVM = 0"
  shows "stm32_clock_init cfg poll platform s = Some (Inl DivByZero)"
proof -
  let ?r = "rcc_of s"
  consider "cfgr_sws ?r \<noteq> 2" | "cfgr_sws ?r = 2" "pllcfgr_pllm ?r = 0"
    | "cfgr_sws ?r = 2" "pllcfgr_pllm ?r \<noteq> 0" "pllcfgr_plln ?r * pll_divm platform ?r \<noteq> 0" "pllcfgr_pllq ?r = 0"
    using no by (auto simp: pll_usable_def)
  then show ?thesis
  proof cases
    case 1
    then obtain cv where cv: "clock_sysclk (clock_hse_hz platform) ?r (clock_val s) = Inr (cv, 0)" "cv CLOCK_DIVM = 0"
      using clock_sysclk_divm boot by blast
    then have "sai_r_enable cfg poll clk_sai_r (s\<lparr>clock_val := clock_buses ?r cv\<rparr>) = Some (Inl DivByZero)"
      using sai_r_enable_f7(1) [of cfg poll] f7 locks by simp
    then show ?thesis using cv f7 by (simp add: stm32_clock_init_def clock_mci_rate_def clock_pllsai_def)
  next
    case 2
    then show ?thesis by (simp add: stm32_clock_init_def clock_sysclk_def cdiv_def)
  next
    case 3
    then show ?thesis by (simp add: stm32_clock_init_def clock_sysclk_pll clock_mci_rate_def cdiv_def)
  qed
qed

lemma unat_sysclk:
  assumes "vco_hz platform r < 2 ^ 32"
  shows "unat (pllcfgr_plln r * pll_divm platform r div ((pllcfgr_pllp r + 1) * 2)) = sysclk_hz platform r"
proof -
  have "unat (pllcfgr_plln r * pll_divm platform r) = vco_hz platform r"
    using assms by (simp add: unat_word_ariths vco_hz_def unat_pll_divm mult.commute)
  moreover have "pllcfgr_pllp r \<in> {0, 1, 2, 3}"
  proof -
    have le: "pllcfgr_pllp r \<le> 3" unfolding pllcfgr_pllp_def by (rule word_and_le1)
    then show ?thesis using u32_below16 [of "pllcfgr_pllp r"] le_less_trans [OF le, of 16] by auto
  qed
  ultimately show ?thesis by (auto simp: unat_div sysclk_hz_def) (simp only: numeral_2_eq_2)
qed

lemma clock_buses_hz:
  assumes "\<not> (4 \<le> cfgr_hpre r \<and> cfgr_hpre r < 8)"
  shows "unat (clock_buses r cv CLOCK_HCLK) = unat (cv CLOCK_SYSCLK) div ahb_div (cfgr_hpre r)"
    and "unat (clock_buses r cv CLOCK_PCLK1) = unat (clock_buses r cv CLOCK_HCLK) div apb_div (cfgr_ppre1 r)"
    and "unat (clock_buses r cv CLOCK_PCLK2) = unat (clock_buses r cv CLOCK_HCLK) div apb_div (cfgr_ppre2 r)"
  using presc_tbl_ahb [OF presc_cases(3) assms]
    presc_tbl_apb [OF presc_cases(1) [of r]] presc_tbl_apb [OF presc_cases(2) [of r]]
  by (simp_all add: clock_buses_def Let_def unat_drop_bit del: drop_bit_drop_bit)

lemma clock_buses_ptmr:
  "clock_buses r cv CLOCK_PTMR1 = (if cfgr_ppre1 r \<noteq> 0
     then drop_bit (apbahb_presc_tbl ! unat (cfgr_ppre1 r)) (clock_buses r cv CLOCK_HCLK) * 2
     else drop_bit (apbahb_presc_tbl ! unat (cfgr_ppre1 r)) (clock_buses r cv CLOCK_HCLK))"
  "clock_buses r cv CLOCK_PTMR2 = (if cfgr_ppre2 r \<noteq> 0
     then drop_bit (apbahb_presc_tbl ! unat (cfgr_ppre2 r)) (clock_buses r cv CLOCK_HCLK) * 2
     else drop_bit (apbahb_presc_tbl ! unat (cfgr_ppre2 r)) (clock_buses r cv CLOCK_HCLK))"
  by (simp_all add: clock_buses_def Let_def)

lemma twice_half: "x div 2 ^ n * 2 \<le> x" if "0 < n" for x n :: nat
proof -
  have "x div 2 ^ n \<le> x div 2" using that by (intro div_le_mono2) (auto simp: self_le_power)
  then show ?thesis by linarith
qed

lemma ptmr_hz:
  assumes "x < 8" "x \<notin> {1, 2, 3}"
  shows "unat (if x \<noteq> 0 then drop_bit (apbahb_presc_tbl ! unat x) h * 2 else drop_bit (apbahb_presc_tbl ! unat x) h :: u32)
    = (if apb_div x = 1 then unat h else 2 * (unat h div apb_div x))"
proof -
  have "x \<in> {0, 4, 5, 6, 7}" using u32_below16 [of x] order.strict_trans [of x 8 16] assms by auto
  moreover have "unat (drop_bit n h * 2) = 2 * (unat h div 2 ^ n)" if "0 < n" for n
    using le_less_trans [OF twice_half [OF that, of "unat h"] unsigned_less [of h]]
    by (simp add: unat_word_ariths unat_drop_bit)
  ultimately show ?thesis by (auto simp: apbahb_presc_tbl_def apb_div_def)
qed

text \<open>Lookups in the table of the driver.\<close>

lemma clkregs_dev:
  "clk_get (Some ''mmci-pl18x'') con stm32_clkregs = Inr clk_mci"
  "clk_get (Some ''stm32f4-ltdc.0'') con stm32_clkregs = Inr clk_ltdc"
  using clk_find_dev [of "stm32_clkregs ! 0" "''mmci-pl18x''" "[]" "tl stm32_clkregs" con]
    clk_find_dev [of "stm32_clkregs ! 1" "''stm32f4-ltdc.0''" "[stm32_clkregs ! 0]" "drop 2 stm32_clkregs" con]
  by (simp_all add: clk_get_def clk_get_sys_def stm32_clkregs_def del: clk_find_loop.simps)

lemma clkregs_con:
  "clk_get None (Some ''sai_r_clk'') stm32_clkregs = Inr clk_sai_r"
  "map (\<lambda>port. clk_get None (Some (''gpio'' @ [port])) stm32_clkregs) ''abcdefghijk''
     = map Inr [clk_gpioa, clk_gpiob, clk_gpioc, clk_gpiod, clk_gpioe, clk_gpiof, clk_gpiog, clk_gpioh,
                clk_gpioi, clk_gpioj, clk_gpiok]"
  "clk_get None None stm32_clkregs = Inl (- ENOENT)"
  by code_simp+

section \<open>Properties\<close>

text \<open>An RCC whose PLL is ready at the second read.\<close>

definition poll_demo :: "nat \<Rightarrow> u32 \<Rightarrow> u32" where
  "poll_demo n r = (if n = 0 then r else r OR push_bit 29 1)"

lemma poll_demo_locks: "pllsai_locks poll_demo"
  unfolding pllsai_locks_def pllsai_keeps_def poll_demo_def
  by (auto simp: bit_or_bit intro: exI [of _ 1] simp del: push_bit_of_1)

text \<open>The registers a boot loader leaves for 200 MHz: HSE / 25 * 400 / 2, APB1 / 4, APB2 / 2.\<close>

definition soc_200mhz :: soc where
  "soc_200mhz = soc0\<lparr>rcc := rcc0\<lparr>rcc_cfgr := 0x9408, rcc_pllcfgr := 0x08406419\<rparr>\<rparr>"

text \<open>The PLLSAI set-up on an STM32F7, for a PLL that locks and an input frequency that divides
  288 MHz by less than 512: it returns with the PLLSAI on, its P output is exactly 48 MHz and the
  pixel clock exactly 9 MHz; of the whole state it changes only the PLLSAI registers, and of the
  divider register only the PLLSAIDIVR field; a second call, however the PLL behaves then, changes nothing and never restarts it.\<close>

theorem sai_r_48mhz:
  assumes "cfg CONFIG_ARCH_STM32F7" and "pllsai_locks poll"
    and "unat (clock_val s CLOCK_DIVM) dvd 288000000" and "288000000 div unat (clock_val s CLOCK_DIVM) < 512"
  shows "\<exists>a b d. let s' = sai_regs a b d s in
     sai_r_enable cfg poll c s = Some (Inr s') \<and> bit a RCC_CR_PLLSAION
     \<and> ck48_hz (unat (clock_val s CLOCK_DIVM)) (rcc_of s') = 48000000
     \<and> lcd_hz (unat (clock_val s CLOCK_DIVM)) (rcc_of s') = 9000000
     \<and> d AND NOT RCC_DCKCFGR_PLLSAIDIVR = rcc_dckcfgr (rcc_of s) AND NOT RCC_DCKCFGR_PLLSAIDIVR
     \<and> sai_r_enable cfg poll' c' s' = Some (Inr s')"
proof -
  let ?divm = "clock_val s CLOCK_DIVM"
  have nz: "?divm \<noteq> 0" using assms(3) by auto
  then obtain a d where s': "sai_r_enable cfg poll c s = Some (Inr (sai_regs a (f7_pllsaicfgr ?divm) d s))"
      "bit a RCC_CR_PLLSAION" "d AND RCC_DCKCFGR_PLLSAIDIVR = sai_div_r cfg"
      "d AND NOT RCC_DCKCFGR_PLLSAIDIVR = rcc_dckcfgr (rcc_of s) AND NOT RCC_DCKCFGR_PLLSAIDIVR"
    using sai_r_enable_f7(2) [of cfg poll s c] assms(1,2) by blast
  let ?t = "sai_regs a (f7_pllsaicfgr ?divm) d s"
  have "sai_r_enable cfg poll' c' ?t = Some (Inr ?t)"
    using s'(2,3) nz assms(1) by (intro sai_running_stays) (simp_all add: soc_simps sai_running_def)
  moreover have "ck48_hz (unat ?divm) (rcc_of ?t) = 48000000" "lcd_hz (unat ?divm) (rcc_of ?t) = 9000000"
    using s'(3) assms(1) sai_hz [OF assms(3,4), of "rcc_of ?t"]
    by (simp_all add: soc_simps sai_div_r_def STM32F7_PLLSAI_DIVR_def)
  ultimately show ?thesis using s' by (metis (no_types, lifting))
qed

theorem sai_r_48mhz_witness:
  "\<exists>s'. sai_r_enable board_config poll_demo clk_sai_r
       ((clock_boot soc0)\<lparr>clock_val := (\<lambda>_. 1000000)\<rparr>) = Some (Inr s') \<and> ck48_hz 1000000 (rcc_of s') = 48000000"
  using sai_r_48mhz [of board_config poll_demo "(clock_boot soc0)\<lparr>clock_val := (\<lambda>_. 1000000)\<rparr>" clk_sai_r
      poll_demo clk_sai_r]
  by (auto simp: poll_demo_locks board_config_def Let_def)

text \<open>C21. On an STM32F7 whose PLL locks, \<^verbatim>\<open>stm32_clock_init\<close> at boot always comes to an end: it
  divides by zero exactly when SYSCLK does not come from the main PLL (SWS is not 2), when PLLM is
  0, or when the main PLL runs with PLLQ 0; otherwise it returns.\<close>

theorem clock_init_outcome:
  assumes "cfg CONFIG_ARCH_STM32F7" and "pllsai_locks poll" and "clock_val s CLOCK_DIVM = 0"
  shows "(stm32_clock_init cfg poll platform s = Some (Inl DivByZero) \<longleftrightarrow> \<not> pll_usable platform (rcc_of s))
    \<and> ((\<exists>s'. stm32_clock_init cfg poll platform s = Some (Inr s')) \<longleftrightarrow> pll_usable platform (rcc_of s))"
  using clock_init_f7 [of cfg poll platform s] clock_init_f7_faults [of cfg poll platform s] assms
  by (cases "pll_usable platform (rcc_of s)") auto

theorem clock_init_outcome_witness:
  "stm32_clock_init board_config poll_demo PLATFORM_STM32_STM32F7_DISCO (clock_boot soc0) = Some (Inl DivByZero)"
  using clock_init_outcome [of board_config poll_demo "clock_boot soc0" PLATFORM_STM32_STM32F7_DISCO]
  by (simp add: poll_demo_locks board_config_def clock_boot_def pll_usable_def cfgr_sws_def soc0_def rcc0_def)

text \<open>C18. The reference clocks after a successful \<^verbatim>\<open>stm32_clock_init\<close> of an STM32F7 are those of the
  clock tree, as whole Hz and without wrap-around: SYSCLK is the PLL input / PLLM * PLLN / PLLP,
  HCLK is SYSCLK over the AHB prescaler, PCLK1 and PCLK2 are HCLK over the APB prescalers, and a
  timer runs at the bus clock when its bus is not prescaled and at twice the bus clock when it is.
  The VCO frequency must fit 32 bits and the prescaler fields must hold no spare encoding
  (4 to 7 for HPRE, 1 to 3 for PPRE).\<close>

theorem clock_init_frequencies:
  assumes "cfg CONFIG_ARCH_STM32F7" and "pllsai_locks poll" and "pll_usable platform r" and "r = rcc_of s"
    and "vco_hz platform r < 2 ^ 32" and "\<not> (4 \<le> cfgr_hpre r \<and> cfgr_hpre r < 8)"
    and "cfgr_ppre1 r \<notin> {1, 2, 3}" and "cfgr_ppre2 r \<notin> {1, 2, 3}"
  shows "\<exists>s'. stm32_clock_init cfg poll platform s = Some (Inr s')
     \<and> (let hz = (\<lambda>c. unat (stm32_clock_get c s')); hclk = sysclk_hz platform r div ahb_div (cfgr_hpre r);
            timer = (\<lambda>ppre. if apb_div ppre = 1 then hclk else 2 * (hclk div apb_div ppre)) in
        hz CLOCK_DIVM = divm_hz platform r \<and> hz CLOCK_SYSCLK = sysclk_hz platform r \<and> hz CLOCK_HCLK = hclk
        \<and> hz CLOCK_PCLK1 = hclk div apb_div (cfgr_ppre1 r) \<and> hz CLOCK_PCLK2 = hclk div apb_div (cfgr_ppre2 r)
        \<and> hz CLOCK_PTMR1 = timer (cfgr_ppre1 r) \<and> hz CLOCK_PTMR2 = timer (cfgr_ppre2 r))"
proof -
  obtain a d s' where s': "stm32_clock_init cfg poll platform s = Some (Inr s')" "clock_ready platform a d s s'"
    using clock_init_f7 [of cfg poll platform s] assms(1-4) by blast
  define cv where "cv = (clock_val s)(CLOCK_DIVM := pll_divm platform r,
     CLOCK_SYSCLK := pllcfgr_plln r * pll_divm platform r div ((pllcfgr_pllp r + 1) * 2))"
  have cv: "clock_val s' = clock_buses r cv" using s'(2) assms(4) by (simp add: clock_ready_def cv_def)
  have sys: "unat (cv CLOCK_SYSCLK) = sysclk_hz platform r" "unat (cv CLOCK_DIVM) = divm_hz platform r"
    using unat_sysclk [OF assms(5)] by (simp_all add: cv_def unat_pll_divm)
  note hz = clock_buses_hz [OF assms(6), of cv, unfolded sys]
  have "unat (clock_buses r cv CLOCK_PTMR1) = (if apb_div (cfgr_ppre1 r) = 1 then unat (clock_buses r cv CLOCK_HCLK)
        else 2 * (unat (clock_buses r cv CLOCK_HCLK) div apb_div (cfgr_ppre1 r)))"
    "unat (clock_buses r cv CLOCK_PTMR2) = (if apb_div (cfgr_ppre2 r) = 1 then unat (clock_buses r cv CLOCK_HCLK)
        else 2 * (unat (clock_buses r cv CLOCK_HCLK) div apb_div (cfgr_ppre2 r)))"
    unfolding clock_buses_ptmr by (rule ptmr_hz [OF presc_cases(1) assms(7)] ptmr_hz [OF presc_cases(2) assms(8)])+
  then show ?thesis using s'(1) sys hz by (simp add: stm32_clock_get_def cv Let_def)
qed

theorem clock_init_frequencies_witness:
  "\<exists>s'. stm32_clock_init board_config poll_demo PLATFORM_STM32_STM32F7_DISCO (clock_boot soc_200mhz) = Some (Inr s')
     \<and> unat (stm32_clock_get CLOCK_SYSCLK s') = 200000000 \<and> unat (stm32_clock_get CLOCK_PCLK1 s') = 50000000
     \<and> unat (stm32_clock_get CLOCK_PTMR1 s') = 100000000"
  using clock_init_frequencies [of board_config poll_demo PLATFORM_STM32_STM32F7_DISCO "rcc soc_200mhz" "clock_boot soc_200mhz"]
  by (auto simp: poll_demo_locks board_config_def clock_boot_def pll_usable_def cfgr_sws_def soc_200mhz_def soc0_def
      rcc0_def cfgr_hpre_def cfgr_ppre1_def cfgr_ppre2_def pllcfgr_pllm_def pllcfgr_pllq_def pllcfgr_plln_def
      pllcfgr_pllp_def pllcfgr_hsesrc_def vco_hz_def divm_hz_def sysclk_hz_def pll_in_hz_def ahb_div_def apb_div_def
      clock_hse_hz_def pll_divm_def Let_def drop_bit_eq_div bit_iff_odd)

text \<open>With a spare encoding 1, 2 or 3 in PPRE1, for which the code itself takes APB1 as not
  prescaled (PCLK1 is HCLK), it still doubles the timer clock: PTMR1 is then HCLK * 2, not the
  HCLK the timers run at.\<close>

lemma spare_ppre_doubles_timer:
  assumes "cfgr_ppre1 r \<in> {1, 2, 3}"
  shows "clock_buses r cv CLOCK_PCLK1 = clock_buses r cv CLOCK_HCLK
    \<and> clock_buses r cv CLOCK_PTMR1 = clock_buses r cv CLOCK_HCLK * 2"
  using assms by (auto simp: clock_buses_def Let_def apbahb_presc_tbl_def)

text \<open>After \<^verbatim>\<open>stm32_clock_init\<close> on an STM32F7 the drivers find their clocks: the SD card driver
  and the LCD driver by their device, whatever connection they name, the framebuffer and the GPIO
  users by the connection name, and a request that no entry matches fails with \<^verbatim>\<open>-ENOENT\<close>. The SD
  card clock then has the rate 48 MHz, and the CK48 domain is fed by the PLLSAI.\<close>

theorem clock_init_lookups:
  assumes "cfg CONFIG_ARCH_STM32F7" and "pllsai_locks poll" and "pll_usable platform (rcc soc)"
  shows "\<exists>s'. stm32_clock_init cfg poll platform (clock_boot soc) = Some (Inr s')
     \<and> clk_get (Some ''mmci-pl18x'') con (clocks s') = Inr clk_mci
     \<and> clk_get (Some ''stm32f4-ltdc.0'') con (clocks s') = Inr clk_ltdc
     \<and> clk_get None (Some ''sai_r_clk'') (clocks s') = Inr clk_sai_r
     \<and> map (\<lambda>port. clk_get None (Some (''gpio'' @ [port])) (clocks s')) ''abcdefghijk''
       = map Inr [clk_gpioa, clk_gpiob, clk_gpioc, clk_gpiod, clk_gpioe, clk_gpiof, clk_gpiog, clk_gpioh,
                  clk_gpioi, clk_gpioj, clk_gpiok]
     \<and> clk_get None None (clocks s') = Inl (- ENOENT)
     \<and> clk_get_rate clk_mci s' = 48000000 \<and> bit (rcc_dckcfgr2 (rcc_of s')) RCC_DCKCFGR2_CK48MSEL"
proof -
  obtain a d s' where s': "stm32_clock_init cfg poll platform (clock_boot soc) = Some (Inr s')"
      "clock_ready platform a d (clock_boot soc) s'"
    using clock_init_f7 [of cfg poll platform "clock_boot soc"] assms by (auto simp: clock_boot_def)
  then have "clocks s' = stm32_clkregs" "clk_get_rate clk_mci s' = 48000000"
    "bit (rcc_dckcfgr2 (rcc_of s')) RCC_DCKCFGR2_CK48MSEL"
    by (simp_all add: clock_ready_def clock_boot_def clk_get_rate_def STM32F7_CK48_HZ_def bit_field)
  then show ?thesis
    using s'(1) clkregs_dev [of con] clkregs_con by simp
qed

theorem clock_init_lookups_witness:
  "\<exists>s'. stm32_clock_init board_config poll_demo PLATFORM_STM32_STM32F7_DISCO (clock_boot soc_200mhz) = Some (Inr s')
     \<and> clk_get (Some ''mmci-pl18x'') None (clocks s') = Inr clk_mci"
  using clock_init_lookups [of board_config poll_demo PLATFORM_STM32_STM32F7_DISCO soc_200mhz None]
  by (auto simp: poll_demo_locks board_config_def pll_usable_def cfgr_sws_def soc_200mhz_def soc0_def
      rcc0_def pllcfgr_pllm_def pllcfgr_pllq_def)

end
