(* ===== verification/Refcount.thy ===== *)
theory Refcount
  imports Main "HOL-Library.Multiset"
begin

text \<open>
  Counted resources: the interface between a provider that counts enables and disables of a
  resource and switches it when the counter leaves or reaches 0, and any number of users that
  interleave their calls. The clock driver provides it for the clocks, the interrupt core for the
  disabling of interrupts.
\<close>

section \<open>The interface\<close>

text \<open>
  A user holds a resource once for each enable it has not yet undone; \<open>H\<close> is the multiset of pairs
  of user and resource so held. The counters agree with \<open>H\<close> and every resource with a counter above 0 is on.
\<close>

definition holds_ok :: "('s \<Rightarrow> 'c \<Rightarrow> nat) \<Rightarrow> ('s \<Rightarrow> 'c \<Rightarrow> bool) \<Rightarrow> 's \<Rightarrow> ('u \<times> 'c) multiset \<Rightarrow> bool" where
  "holds_ok cnt on s H \<longleftrightarrow>
     (\<forall>c. cnt s c = size (filter_mset (\<lambda>x. snd x = c) H)) \<and> (\<forall>c. 0 < cnt s c \<longrightarrow> on s c)"

locale refcounted =
  fixes good :: "'s \<Rightarrow> bool"
    and cnt :: "'s \<Rightarrow> 'c \<Rightarrow> nat"
    and on :: "'s \<Rightarrow> 'c \<Rightarrow> bool"
    and en :: "'c \<Rightarrow> 's \<Rightarrow> 's \<Rightarrow> bool"
    and dis :: "'c \<Rightarrow> 's \<Rightarrow> 's"
    and lim :: nat
  assumes en_cnt: "good s \<Longrightarrow> en c s s' \<Longrightarrow> cnt s c < lim \<Longrightarrow> cnt s' d = (if d = c then Suc (cnt s c) else cnt s d)"
    and en_on: "good s \<Longrightarrow> en c s s' \<Longrightarrow> cnt s c = 0 \<Longrightarrow> on s' c"
    and en_keeps: "good s \<Longrightarrow> en c s s' \<Longrightarrow> on s d \<Longrightarrow> on s' d"
    and dis_cnt: "good s \<Longrightarrow> 0 < cnt s c \<Longrightarrow> cnt (dis c s) d = (if d = c then cnt s c - 1 else cnt s d)"
    and dis_keeps: "good s \<Longrightarrow> 0 < cnt s c \<Longrightarrow> on s d \<Longrightarrow> d \<noteq> c \<or> 1 < cnt s c \<Longrightarrow> on (dis c s) d"
begin

lemma holds_cnt: "holds_ok cnt on s H \<Longrightarrow> (u, c) \<in># H \<Longrightarrow> 0 < cnt s c \<and> on s c"
  by (drule multi_member_split) (auto simp: holds_ok_def)

lemma holds_enable:
  assumes "good s" "holds_ok cnt on s H" "size H < lim" "en c s s'"
  shows "holds_ok cnt on s' (add_mset (u, c) H)"
proof -
  have "cnt s c < lim"
    using assms(2) le_less_trans [OF size_filter_mset_lesseq assms(3)] by (simp add: holds_ok_def)
  note cnt' = en_cnt [OF assms(1,4) this]
  have "0 < cnt s d \<Longrightarrow> on s d" for d using assms(2) by (simp add: holds_ok_def)
  then have "on s' d" if "0 < cnt s' d" for d
    using that cnt' assms(1,4) en_on [of s c s'] en_keeps [of s c s' d]
    by (cases "cnt s d = 0") (auto split: if_splits)
  then show ?thesis using assms(2) cnt' by (auto simp: holds_ok_def)
qed

lemma holds_disable:
  assumes "good s" "holds_ok cnt on s H" "(u, c) \<in># H"
  shows "holds_ok cnt on (dis c s) (H - {#(u, c)#})"
proof -
  have pos: "0 < cnt s c" using holds_cnt [OF assms(2,3)] by simp
  obtain H' where H: "H = add_mset (u, c) H'" using assms(3) by (metis multi_member_split)
  have "0 < cnt s d \<Longrightarrow> on s d" for d using assms(2) by (simp add: holds_ok_def)
  then have "on (dis c s) d" if "0 < cnt (dis c s) d" for d
    using that assms(1) pos dis_cnt [of s c d] dis_keeps [of s c d] by (cases "d = c") auto
  then show ?thesis using assms(1,2) pos dis_cnt [of s c] by (auto simp: holds_ok_def H)
qed

end

end
