(* ===== verification/Clock_Refs.thy ===== *)
theory Clock_Refs
  imports Clock_Tree Refcount
begin

text \<open>
  Reference counting of the clocks: the implementation of the interface \<open>refcounted\<close> by
  \<^verbatim>\<open>clk_enable\<close> and \<^verbatim>\<open>clk_disable\<close>, and what follows for any
  number of users that interleave their calls: a clock that somebody holds runs.
\<close>

section \<open>The driver implements it\<close>

text \<open>The hardware switch of a clock: its enable bit in the RCC, or PLLSAION.\<close>

definition gate :: "clk_id \<Rightarrow> rcc_regs \<Rightarrow> bool" where
  "gate c r = (case c of
     clk_mci \<Rightarrow> bit (rcc_apb2enr r) STM32_RCC_ENR_SDIOEN
   | clk_ltdc \<Rightarrow> bit (rcc_apb2enr r) STM32_RCC_ENR_LTDCEN
   | clk_sai_r \<Rightarrow> bit (rcc_cr r) RCC_CR_PLLSAION
   | _ \<Rightarrow> bit (rcc_ahb1enr r) (the (gpio_clk_bit c)))"

definition static_hooks :: "clock_state \<Rightarrow> bool" where
  "static_hooks s \<longleftrightarrow> (\<forall>c. clk_enable_hook (clks s c) = clk_enable_hook (static_clk c)
     \<and> clk_disable_hook (clks s c) = clk_disable_hook (static_clk c)
     \<and> clk_set_rate_hook (clks s c) = clk_set_rate_hook (static_clk c))"

definition clk_count :: "clock_state \<Rightarrow> clk_id \<Rightarrow> nat" where
  "clk_count s c = unat (clk_enabled (clks s c))"

lemma gpio_clk_bit_inj: "gpio_clk_bit c = Some k \<Longrightarrow> gpio_clk_bit d = Some k \<Longrightarrow> c = d"
  by (cases c; cases d) auto

lemma static_hooks_cases:
  obtains (mci) "c = clk_mci" | (ltdc) "c = clk_ltdc" | (sai) "c = clk_sai_r"
  | (gpio) k where "gpio_clk_bit c = Some k" "k < 32"
      "clk_enable_hook (static_clk c) = Some (gpio_clk_enable k)"
      "clk_disable_hook (static_clk c) = Some (gpio_clk_disable k)"
  by (cases c) auto

lemma gate_gpio: "gpio_clk_bit c = Some k \<Longrightarrow> gate c r = bit (rcc_ahb1enr r) k"
  by (cases c) (auto simp: gate_def)

lemma gate_other:
  "gpio_clk_bit d = None \<Longrightarrow> gate d (r\<lparr>rcc_ahb1enr := x\<rparr>) = gate d r"
  "d \<notin> {clk_mci, clk_ltdc} \<Longrightarrow> gate d (r\<lparr>rcc_apb2enr := x\<rparr>) = gate d r"
  "d \<noteq> clk_sai_r \<Longrightarrow> gate d (r\<lparr>rcc_cr := x\<rparr>) = gate d r"
  by (cases d; simp add: gate_def)+

text \<open>A disable hook opens the gate of its clock and no other.\<close>

lemma run_disable_gate:
  assumes "clk_disable_hook (static_clk c) = Some h"
  shows "gate d (rcc_of (run_disable h c s)) \<longleftrightarrow> d \<noteq> c \<and> gate d (rcc_of s)"
    and "clks (run_disable h c s) = clks s"
proof -
  show "gate d (rcc_of (run_disable h c s)) \<longleftrightarrow> d \<noteq> c \<and> gate d (rcc_of s)"
  proof (cases rule: static_hooks_cases [of c])
    case (gpio k)
    then show ?thesis
      using assms gate_gpio [of c k] gpio_clk_bit_inj [of c k d]
      by (cases "gpio_clk_bit d") (auto simp: gpio_disable_def soc_simps bit_field gate_other gate_gpio)
  qed (use assms in \<open>cases d; auto simp: gate_def mci_disable_def ltdc_disable_def sai_r_disable_def
        soc_simps bit_field\<close>)+
  show "clks (run_disable h c s) = clks s"
    by (cases h) (auto simp: mci_disable_def ltdc_disable_def sai_r_disable_def gpio_disable_def soc_simps)
qed

text \<open>An enable hook that returns closes the gate of its clock and opens none.\<close>

lemma run_enable_gate:
  assumes "clk_enable_hook (static_clk c) = Some h" "pllsai_keeps poll"
    and "run_enable cfg poll h c s = Some (Inr s')"
  shows "gate d (rcc_of s') \<longleftrightarrow> d = c \<or> gate d (rcc_of s)" and "clks s' = clks s"
proof -
  show "gate d (rcc_of s') \<longleftrightarrow> d = c \<or> gate d (rcc_of s)"
  proof (cases rule: static_hooks_cases [of c])
    case (gpio k)
    then show ?thesis
      using assms gate_gpio [of c k] gpio_clk_bit_inj [of c k d]
      by (cases "gpio_clk_bit d") (auto simp: gpio_enable_def soc_simps bit_field gate_other gate_gpio)
  next
    case sai
    then show ?thesis using assms sai_r_enable_frame [of cfg poll c s s']
      by (cases d) (auto simp: gate_def soc_simps)
  qed (use assms in \<open>cases d; auto simp: gate_def mci_enable_def ltdc_enable_def soc_simps bit_field\<close>)+
  show "clks s' = clks s"
    using assms(3) sai_r_enable_frame [of cfg poll c s s']
    by (cases h) (auto simp: mci_enable_def ltdc_enable_def gpio_enable_def soc_simps)
qed

lemma static_hook_Some:
  "clk_enable_hook (static_clk c) \<noteq> None" "clk_disable_hook (static_clk c) \<noteq> None"
  by (cases c; simp)+

lemma clk_enable_effect:
  assumes "static_hooks s" "pllsai_keeps poll" "clk_enable cfg poll c s = Some (Inr (rv, s'))"
  shows "rv = 0"
    and "clks s' d = (if d = c then (clks s c)\<lparr>clk_enabled := clk_enabled (clks s c) + 1\<rparr> else clks s d)"
    and "gate d (rcc_of s') \<longleftrightarrow> gate d (rcc_of s) \<or> d = c \<and> clk_enabled (clks s c) = 0"
proof -
  obtain h where h: "clk_enable_hook (static_clk c) = Some h" using static_hook_Some(1) by blast
  let ?t = "upd_clk c (\<lambda>k. k\<lparr>clk_enabled := clk_enabled (clks s c) + 1\<rparr>) s"
  have "rv = 0 \<and> (\<forall>d. clks s' d = clks ?t d)
      \<and> (\<forall>d. gate d (rcc_of s') \<longleftrightarrow> gate d (rcc_of ?t) \<or> d = c \<and> clk_enabled (clks s c) = 0)"
    using assms h run_enable_gate [OF h assms(2), of cfg ?t]
    by (auto simp: clk_enable_def Let_def static_hooks_def soc_simps split: if_splits option.splits)
  then show "rv = 0"
    and "clks s' d = (if d = c then (clks s c)\<lparr>clk_enabled := clk_enabled (clks s c) + 1\<rparr> else clks s d)"
    and "gate d (rcc_of s') \<longleftrightarrow> gate d (rcc_of s) \<or> d = c \<and> clk_enabled (clks s c) = 0"
    by (simp_all add: soc_simps)
qed

lemma clk_disable_effect:
  assumes "static_hooks s" "clk_disable c s = (w, s')"
  shows "w \<longleftrightarrow> clk_enabled (clks s c) = 0"
    and "clks s' d = (if d = c then (clks s c)\<lparr>clk_enabled := clk_enabled (clks s c) - 1\<rparr> else clks s d)"
    and "gate d (rcc_of s') \<longleftrightarrow> gate d (rcc_of s) \<and> \<not> (d = c \<and> clk_enabled (clks s c) = 1)"
proof -
  obtain h where h: "clk_disable_hook (static_clk c) = Some h" using static_hook_Some(2) by blast
  let ?t = "upd_clk c (\<lambda>k. k\<lparr>clk_enabled := clk_enabled k - 1\<rparr>) s"
  have "(w \<longleftrightarrow> clk_enabled (clks s c) = 0) \<and> (\<forall>d. clks s' d = clks ?t d)
      \<and> (\<forall>d. gate d (rcc_of s') \<longleftrightarrow> gate d (rcc_of ?t) \<and> \<not> (d = c \<and> clk_enabled (clks s c) = 1))"
    using assms h run_disable_gate(1) [OF h, of _ ?t] run_disable_gate(2) [OF h, of ?t]
    by (auto simp: clk_disable_def Let_def static_hooks_def soc_simps split: if_splits option.splits)
  then show "w \<longleftrightarrow> clk_enabled (clks s c) = 0"
    and "clks s' d = (if d = c then (clks s c)\<lparr>clk_enabled := clk_enabled (clks s c) - 1\<rparr> else clks s d)"
    and "gate d (rcc_of s') \<longleftrightarrow> gate d (rcc_of s) \<and> \<not> (d = c \<and> clk_enabled (clks s c) = 1)"
    by (simp_all add: soc_simps)
qed

lemma unat_word_succ: "unat (w :: u32) < 2 ^ 32 - 1 \<Longrightarrow> unat (w + 1) = Suc (unat w)"
  by (simp add: unat_word_ariths)

lemma unat_word_pred: "0 < unat (w :: u32) \<Longrightarrow> unat (w - 1) = unat w - 1"
  by (metis One_nat_def Suc_leI unat_1 unat_sub word_le_nat_alt)

interpretation clk_refs: refcounted static_hooks clk_count "\<lambda>s c. gate c (rcc_of s)"
  "\<lambda>c s s'. pllsai_keeps poll \<and> (\<exists>rv. clk_enable cfg poll c s = Some (Inr (rv, s')))"
  "\<lambda>c s. snd (clk_disable c s)" "2 ^ 32 - 1" for cfg poll
proof
  fix s s' :: clock_state and c d :: clk_id
  assume s: "static_hooks s"
  {
    assume "pllsai_keeps poll \<and> (\<exists>rv. clk_enable cfg poll c s = Some (Inr (rv, s')))"
    then obtain rv where e: "pllsai_keeps poll" "clk_enable cfg poll c s = Some (Inr (rv, s'))" by blast
    note eff = clk_enable_effect [OF s e]
    show "clk_count s c < 2 ^ 32 - 1 \<Longrightarrow> clk_count s' d = (if d = c then Suc (clk_count s c) else clk_count s d)"
      using unat_word_succ by (simp add: clk_count_def eff)
    show "clk_count s c = 0 \<Longrightarrow> gate c (rcc_of s')" by (simp add: eff clk_count_def unat_eq_zero)
    show "gate d (rcc_of s) \<Longrightarrow> gate d (rcc_of s')" by (simp add: eff)
  }
  assume pos: "0 < clk_count s c"
  note eff = clk_disable_effect [OF s surjective_pairing]
  show "clk_count (snd (clk_disable c s)) d = (if d = c then clk_count s c - 1 else clk_count s d)"
    using pos by (simp add: clk_count_def eff unat_word_pred)
  show "gate d (rcc_of s) \<Longrightarrow> d \<noteq> c \<or> 1 < clk_count s c \<Longrightarrow> gate d (rcc_of (snd (clk_disable c s)))"
    by (auto simp: clk_count_def eff)
qed

section \<open>Many users\<close>

text \<open>
  Any interleaving of the users' calls, from a state \<open>s\<^sub>0\<close> at boot: a user disables only clocks it
  holds, at most 2^32 - 2 enables are open at a time, rates are changed, and other code (the pin
  multiplexer, say) may change the chip as long as it opens no gate.
\<close>

inductive clk_run :: "kconfig \<Rightarrow> (nat \<Rightarrow> u32 \<Rightarrow> u32) \<Rightarrow> clock_state \<Rightarrow> clock_state \<Rightarrow> ('u \<times> clk_id) multiset \<Rightarrow> bool"
  for cfg poll s\<^sub>0 where
  start: "clk_run cfg poll s\<^sub>0 s\<^sub>0 {#}"
| enable: "clk_run cfg poll s\<^sub>0 s H \<Longrightarrow> size H < 2 ^ 32 - 1 \<Longrightarrow> clk_enable cfg poll c s = Some (Inr (rv, s'))
    \<Longrightarrow> clk_run cfg poll s\<^sub>0 s' (add_mset (u, c) H)"
| disable: "clk_run cfg poll s\<^sub>0 s H \<Longrightarrow> (u, c) \<in># H \<Longrightarrow> clk_disable c s = (w, s')
    \<Longrightarrow> clk_run cfg poll s\<^sub>0 s' (H - {#(u, c)#})"
| set_rate: "clk_run cfg poll s\<^sub>0 s H \<Longrightarrow> clk_set_rate c rate s = (rv, s') \<Longrightarrow> clk_run cfg poll s\<^sub>0 s' H"
| other: "clk_run cfg poll s\<^sub>0 s H \<Longrightarrow> (\<And>c. gate c (rcc_of s) \<Longrightarrow> gate c (rcc soc))
    \<Longrightarrow> clk_run cfg poll s\<^sub>0 (s\<lparr>clock_soc := soc\<rparr>) H"

lemma clk_set_rate_effect:
  assumes "static_hooks s" "clk_set_rate c rate s = (rv, s')"
  shows "static_hooks s'" "clk_count s' = clk_count s" "rcc_of s' = rcc_of s"
  using assms by (auto simp: clk_set_rate_def sai_r_set_rate_def static_hooks_def clk_count_def soc_simps fun_eq_iff
      elim!: run_set_rate.elims split: option.splits)

lemma clk_run_inv:
  assumes "clk_run cfg poll s\<^sub>0 s H" and "pllsai_keeps poll"
    and "static_hooks s\<^sub>0" and "\<forall>c. clk_enabled (clks s\<^sub>0 c) = 0"
  shows "static_hooks s \<and> holds_ok clk_count (\<lambda>s c. gate c (rcc_of s)) s H"
  using assms(1)
proof induction
  case start
  then show ?case using assms(3,4) by (simp add: holds_ok_def clk_count_def)
next
  case (enable s H c rv s' u)
  then have "static_hooks s'" using clk_enable_effect(2) [of s poll cfg c rv s'] assms(2) by (simp add: static_hooks_def)
  then show ?case using clk_refs.holds_enable [of s H poll cfg c s' u] enable assms(2) by blast
next
  case (disable s H u c w s')
  then have "static_hooks s'" using clk_disable_effect(2) [of s c w s'] by (simp add: static_hooks_def)
  then show ?case using clk_refs.holds_disable [of s H u c] disable by simp
next
  case (set_rate s H c rate rv s')
  then show ?case using clk_set_rate_effect [of s c rate rv s'] by (simp add: holds_ok_def)
next
  case (other s H soc)
  then show ?case by (auto simp: holds_ok_def static_hooks_def clk_count_def)
qed

lemmas clk_run_holds = clk_run_inv [THEN conjunct2] and clk_run_hooks = clk_run_inv [THEN conjunct1]

section \<open>Properties\<close>

lemma clock_boot_start: "static_hooks (clock_boot soc)" "\<forall>c. clk_enabled (clks (clock_boot soc) c) = 0"
proof -
  have "clk_enabled (static_clk c) = 0" for c by (cases c) simp_all
  then show "static_hooks (clock_boot soc)" "\<forall>c. clk_enabled (clks (clock_boot soc) c) = 0"
    by (simp_all add: clock_boot_def static_hooks_def)
qed

text \<open>C7. Whatever users do in whatever order, as long as each disables only what it has enabled: a
  clock that some user holds is switched on in the hardware, its counter is the number of open
  enables, and releasing it does not warn.\<close>

theorem clk_held_runs:
  assumes "clk_run cfg poll s\<^sub>0 s H" and "pllsai_keeps poll" and "static_hooks s\<^sub>0"
    and "\<forall>c. clk_enabled (clks s\<^sub>0 c) = 0" and "(u, c) \<in># H"
  shows "gate c (rcc_of s) \<and> clk_count s c = size (filter_mset (\<lambda>x. snd x = c) H) \<and> \<not> fst (clk_disable c s)"
proof -
  have H: "static_hooks s" "holds_ok clk_count (\<lambda>s c. gate c (rcc_of s)) s H"
    using clk_run_inv [OF assms(1-4)] by auto
  then have "0 < clk_count s c \<and> gate c (rcc_of s)" using clk_refs.holds_cnt assms(5) by metis
  then have "gate c (rcc_of s)" "clk_enabled (clks s c) \<noteq> 0" by (auto simp: clk_count_def)
  moreover have "clk_count s c = size (filter_mset (\<lambda>x. snd x = c) H)" using H(2) by (simp add: holds_ok_def)
  ultimately show ?thesis using clk_disable_effect(1) [OF H(1) surjective_pairing, of c] by simp
qed

lemma clk_enable_mci:
  assumes "static_hooks s" shows "\<exists>s'. clk_enable cfg poll clk_mci s = Some (Inr (0, s'))"
  using assms by (auto simp: clk_enable_def Let_def static_hooks_def soc_simps split: option.splits if_splits)

theorem clk_held_runs_witness:
  "\<exists>s. clk_run board_config poll_demo (clock_boot soc0) s {#(2 :: nat, clk_mci)#} \<and> gate clk_mci (rcc_of s)"
proof -
  have keeps: "pllsai_keeps poll_demo" using poll_demo_locks by (simp add: pllsai_locks_def)
  note inv = clk_run_hooks [OF _ keeps clock_boot_start]
  have 0: "clk_run board_config poll_demo (clock_boot soc0) (clock_boot soc0) ({#} :: (nat \<times> clk_id) multiset)"
    by (rule clk_run.start)
  obtain s1 where "clk_enable board_config poll_demo clk_mci (clock_boot soc0) = Some (Inr (0, s1))"
    using clk_enable_mci clock_boot_start(1) by blast
  then have 1: "clk_run board_config poll_demo (clock_boot soc0) s1 {#(1 :: nat, clk_mci)#}"
    using clk_run.enable [OF 0] by simp
  obtain s2 where "clk_enable board_config poll_demo clk_mci s1 = Some (Inr (0, s2))"
    using clk_enable_mci inv [OF 1] by blast
  then have "clk_run board_config poll_demo (clock_boot soc0) s2 {#(1, clk_mci), (2 :: nat, clk_mci)#}"
    using clk_run.enable [OF 1, of clk_mci 0 s2 2] by (simp add: add_mset_commute)
  then have 3: "clk_run board_config poll_demo (clock_boot soc0) (snd (clk_disable clk_mci s2)) {#(2 :: nat, clk_mci)#}"
    using clk_run.disable [of board_config poll_demo "clock_boot soc0" s2
        "{#(1, clk_mci), (2 :: nat, clk_mci)#}" 1 clk_mci "fst (clk_disable clk_mci s2)" "snd (clk_disable clk_mci s2)"] by simp
  show ?thesis using 3 clk_held_runs [OF 3 keeps clock_boot_start, of 2 clk_mci] by auto
qed

text \<open>The disable that takes a counter from 1 to 0 switches the clock off, without a warning, and
  leaves the switch of every other clock as it was.\<close>

lemma clk_last_release:
  assumes "static_hooks s" and "clk_enabled (clks s c) = 1"
  shows "case clk_disable c s of (w, s') \<Rightarrow> \<not> w \<and> clk_enabled (clks s' c) = 0
     \<and> (gate d (rcc_of s') \<longleftrightarrow> d \<noteq> c \<and> gate d (rcc_of s))"
  using assms(2) by (simp add: split_beta clk_disable_effect [OF assms(1) surjective_pairing]) blast

text \<open>A disable without an enable wraps the counter to 2^32 - 1: it warns and leaves the switches
  alone, and the next enable, which returns 0 as if the clock ran, leaves a clock that is off off.\<close>

lemma unbalanced_disable:
  assumes "static_hooks s" and "pllsai_keeps poll" and "clk_enabled (clks s c) = 0"
  shows "case clk_disable c s of (w, s1) \<Rightarrow> w \<and> clk_count s1 c = 2 ^ 32 - 1
     \<and> (case clk_enable cfg poll c s1 of
          Some (Inr (rv, s2)) \<Rightarrow> rv = 0 \<and> (gate c (rcc_of s2) \<longleftrightarrow> gate c (rcc_of s))
        | _ \<Rightarrow> False)"
proof -
  obtain w s1 where d: "clk_disable c s = (w, s1)" by fastforce
  note eff = clk_disable_effect [OF assms(1) d]
  have "clk_enabled (clks s1 c) = - 1" using assms(3) by (simp add: eff)
  moreover have "clk_enable cfg poll c s1 = Some (Inr (0, upd_clk c (\<lambda>k. k\<lparr>clk_enabled := 0\<rparr>) s1))"
    using calculation by (simp add: clk_enable_def Let_def)
  moreover have "unat (- 1 :: u32) = 2 ^ 32 - 1" by (simp add: unsigned_minus_1_eq_mask mask_eq_exp_minus_1)
  ultimately show ?thesis using assms(3) by (simp add: d eff(1,3) clk_count_def soc_simps)
qed

text \<open>C22. \<^verbatim>\<open>stm32_clock_init\<close> starts the PLLSAI of an STM32F7 without taking a reference, so a user of
  the pixel clock that enables and later disables it (as a display driver does when it blanks)
  stops the PLLSAI, while the CK48 domain of USB and SD card is still fed by it and the SD card
  clock still claims 48 MHz.\<close>

theorem pixel_clock_release_stops_ck48:
  assumes "cfg CONFIG_ARCH_STM32F7" and "pllsai_locks poll" and "pll_usable platform (rcc soc)"
  shows "\<exists>s s1. stm32_clock_init cfg poll platform (clock_boot soc) = Some (Inr s)
     \<and> gate clk_sai_r (rcc_of s) \<and> clk_enable cfg poll clk_sai_r s = Some (Inr (0, s1))
     \<and> (case clk_disable clk_sai_r s1 of (w, s2) \<Rightarrow> \<not> w \<and> \<not> gate clk_sai_r (rcc_of s2)
         \<and> bit (rcc_dckcfgr2 (rcc_of s2)) RCC_DCKCFGR2_CK48MSEL \<and> clk_get_rate clk_mci s2 = 48000000)"
proof -
  obtain a d s where init: "stm32_clock_init cfg poll platform (clock_boot soc) = Some (Inr s)"
      and r: "clock_ready platform a d (clock_boot soc) s"
    using clock_init_f7 [of cfg poll platform "clock_boot soc"] assms by (auto simp: clock_boot_def)
  then have s: "static_hooks s" "clk_enabled (clks s clk_sai_r) = 0" "gate clk_sai_r (rcc_of s)"
    "clk_rate (clks s clk_mci) = 48000000" "bit (rcc_dckcfgr2 (rcc_of s)) RCC_DCKCFGR2_CK48MSEL"
    using clock_boot_start [of soc]
    by (auto simp: clock_ready_def static_hooks_def gate_def STM32F7_CK48_HZ_def bit_field)
  have "clock_val s CLOCK_DIVM \<noteq> 0"
    using r assms(3) pll_divm_nonzero [of "rcc soc" platform]
    by (auto simp: clock_ready_def clock_boot_def pll_usable_def)
  then obtain s1 where en1: "clk_enable cfg poll clk_sai_r s = Some (Inr (0, s1))"
      and r1: "rcc_dckcfgr2 (rcc_of s1) = rcc_dckcfgr2 (rcc_of s)"
    using sai_r_enable_f7(2) [of cfg poll "upd_clk clk_sai_r (\<lambda>k. k\<lparr>clk_enabled := 1\<rparr>) s" clk_sai_r] assms(1,2) s(1,2)
    by (auto simp: clk_enable_def Let_def static_hooks_def soc_simps)
  obtain w s2 where d: "clk_disable clk_sai_r s1 = (w, s2)" by fastforce
  have "pllsai_keeps poll" using assms(2) by (simp add: pllsai_locks_def)
  note en = clk_enable_effect(2,3) [OF s(1) this en1]
  have hooks: "static_hooks s1" using s(1) by (simp add: static_hooks_def en)
  note dis = clk_disable_effect [OF hooks d]
  have "rcc_dckcfgr2 (rcc_of s2) = rcc_dckcfgr2 (rcc_of s1)"
    using d hooks
    by (auto simp: clk_disable_def Let_def static_hooks_def sai_r_disable_def soc_simps split: if_splits option.splits)
  then show ?thesis
    using s init en1 r1 by (intro exI [of _ s] exI [of _ s1]) (simp add: d dis en clk_get_rate_def)
qed

theorem pixel_clock_release_stops_ck48_witness:
  "\<exists>s s1. stm32_clock_init board_config poll_demo PLATFORM_STM32_STM32F7_DISCO (clock_boot soc_200mhz) = Some (Inr s)
     \<and> clk_enable board_config poll_demo clk_sai_r s = Some (Inr (0, s1))
     \<and> \<not> gate clk_sai_r (rcc_of (snd (clk_disable clk_sai_r s1)))"
  using pixel_clock_release_stops_ck48 [of board_config poll_demo PLATFORM_STM32_STM32F7_DISCO soc_200mhz]
  by (auto simp: poll_demo_locks board_config_def pll_usable_def cfgr_sws_def soc_200mhz_def soc0_def
      rcc0_def pllcfgr_pllm_def pllcfgr_pllq_def)

end
