(* ===== verification/Dmac.thy ===== *)
theory Dmac
  imports Soc
begin

text \<open>
  The DMA controller driver \<^verbatim>\<open>arch/arm/mach-stm32/dmac.c\<close>: sixteen channels (streams 0 to 7 of the
  controllers DMA1 and DMA2) that drivers acquire, configure and start. Each channel has two
  spinlocks, which make every function one atomic step on the state. \<^verbatim>\<open>request_irq\<close> of the
  kernel is represented by its result, an argument of the function that calls it, and by the table
  \<open>irq_line\<close> of the lines this driver has registered.
\<close>

section \<open>State\<close>

text \<open>A handler is named by a number (its address), \<open>None\<close> is \<^verbatim>\<open>NULL\<close>; \<open>irq_data\<close> is a pointer.\<close>

record dma_ch_priv =
  in_use :: bool
  irq_handler :: "nat option"
  irq_data :: u32

record dmac_state =
  dmac_soc :: soc
  dma_ch :: "nat \<Rightarrow> dma_ch_priv"
  irq_line :: "nat \<Rightarrow> nat option"

definition dmac_boot :: "soc \<Rightarrow> dmac_state" where
  "dmac_boot s = \<lparr>dmac_soc = s, dma_ch = (\<lambda>_. \<lparr>in_use = False, irq_handler = None, irq_data = 0\<rparr>),
     irq_line = (\<lambda>_. None)\<rparr>"

section \<open>Register bits\<close>

definition STM32F2_DMA_CH_NUM :: nat where [simp]: "STM32F2_DMA_CH_NUM = 16"
definition STM32F2_DMA_CH_NUM_DMA1 :: nat where [simp]: "STM32F2_DMA_CH_NUM_DMA1 = 8"

datatype dma_cr_bit =
    STM32_DMA_CR_CHSEL_BIT | STM32_DMA_CR_DBM_BIT | STM32_DMA_CR_MBURST_BITS | STM32_DMA_CR_PBURST_BITS
  | STM32_DMA_CR_MSIZE_BITS | STM32_DMA_CR_PSIZE_BITS | STM32_DMA_CR_PL_BIT | STM32_DMA_CR_MINC_BIT
  | STM32_DMA_CR_PINC_BIT | STM32_DMA_CR_CIRC_BIT | STM32_DMA_CR_DIR_BITS | STM32_DMA_CR_PFCTRL_BIT
  | STM32_DMA_CR_TCIE | STM32_DMA_CR_HTIE | STM32_DMA_CR_EN

primrec dma_bit :: "dma_cr_bit \<Rightarrow> nat" where
  "dma_bit STM32_DMA_CR_CHSEL_BIT = 25"
| "dma_bit STM32_DMA_CR_DBM_BIT = 18"
| "dma_bit STM32_DMA_CR_MBURST_BITS = 23"
| "dma_bit STM32_DMA_CR_PBURST_BITS = 21"
| "dma_bit STM32_DMA_CR_MSIZE_BITS = 13"
| "dma_bit STM32_DMA_CR_PSIZE_BITS = 11"
| "dma_bit STM32_DMA_CR_PL_BIT = 16"
| "dma_bit STM32_DMA_CR_MINC_BIT = 10"
| "dma_bit STM32_DMA_CR_PINC_BIT = 9"
| "dma_bit STM32_DMA_CR_CIRC_BIT = 8"
| "dma_bit STM32_DMA_CR_DIR_BITS = 6"
| "dma_bit STM32_DMA_CR_PFCTRL_BIT = 5"
| "dma_bit STM32_DMA_CR_TCIE = 4"
| "dma_bit STM32_DMA_CR_HTIE = 3"
| "dma_bit STM32_DMA_CR_EN = 0"

datatype dma_cr_msk =
    STM32_DMA_CR_CT | STM32_DMA_CR_DBM | STM32_DMA_CR_MBURST_MSK | STM32_DMA_CR_PBURST_MSK
  | STM32_DMA_CR_PINCOS_MSK | STM32_DMA_CR_MSIZE_MSK | STM32_DMA_CR_PSIZE_MSK | STM32_DMA_CR_PL_MSK
  | STM32_DMA_CR_MINC | STM32_DMA_CR_PINC | STM32_DMA_CR_CIRC | STM32_DMA_CR_DIR_MSK
  | STM32_DMA_CR_PFCTRL_MSK | STM32_DMA_CR_PL_HIGH

primrec dma_msk :: "dma_cr_msk \<Rightarrow> u32" where
  "dma_msk STM32_DMA_CR_CT = push_bit 19 1"
| "dma_msk STM32_DMA_CR_DBM = push_bit (dma_bit STM32_DMA_CR_DBM_BIT) 1"
| "dma_msk STM32_DMA_CR_MBURST_MSK = push_bit (dma_bit STM32_DMA_CR_MBURST_BITS) 3"
| "dma_msk STM32_DMA_CR_PBURST_MSK = push_bit (dma_bit STM32_DMA_CR_PBURST_BITS) 3"
| "dma_msk STM32_DMA_CR_PINCOS_MSK = push_bit 15 1"
| "dma_msk STM32_DMA_CR_MSIZE_MSK = push_bit (dma_bit STM32_DMA_CR_MSIZE_BITS) 3"
| "dma_msk STM32_DMA_CR_PSIZE_MSK = push_bit (dma_bit STM32_DMA_CR_PSIZE_BITS) 3"
| "dma_msk STM32_DMA_CR_PL_MSK = push_bit (dma_bit STM32_DMA_CR_PL_BIT) 3"
| "dma_msk STM32_DMA_CR_MINC = push_bit (dma_bit STM32_DMA_CR_MINC_BIT) 1"
| "dma_msk STM32_DMA_CR_PINC = push_bit (dma_bit STM32_DMA_CR_PINC_BIT) 1"
| "dma_msk STM32_DMA_CR_CIRC = push_bit (dma_bit STM32_DMA_CR_CIRC_BIT) 1"
| "dma_msk STM32_DMA_CR_DIR_MSK = push_bit (dma_bit STM32_DMA_CR_DIR_BITS) 3"
| "dma_msk STM32_DMA_CR_PFCTRL_MSK = push_bit (dma_bit STM32_DMA_CR_PFCTRL_BIT) 1"
| "dma_msk STM32_DMA_CR_PL_HIGH = 0x2"

definition STM32_DMA_FCR_DMDIS_BIT :: nat where [simp]: "STM32_DMA_FCR_DMDIS_BIT = 2"
definition STM32_DMA_FCR_DMDIS_MSK :: u32 where [simp]: "STM32_DMA_FCR_DMDIS_MSK = push_bit STM32_DMA_FCR_DMDIS_BIT 1"
definition STM32_DMA_FCR_FTH_BITS :: nat where [simp]: "STM32_DMA_FCR_FTH_BITS = 0"
definition STM32_DMA_FCR_FTH_MSK :: u32 where [simp]: "STM32_DMA_FCR_FTH_MSK = push_bit STM32_DMA_FCR_FTH_BITS 3"

datatype dma_irqf =
    STM32_DMA_IRQF_TC | STM32_DMA_IRQF_HT | STM32_DMA_IRQF_TE | STM32_DMA_IRQF_DME
  | STM32_DMA_IRQF_FE

primrec irqf_msk :: "dma_irqf \<Rightarrow> u32" where
  "irqf_msk STM32_DMA_IRQF_TC = push_bit 5 1"
| "irqf_msk STM32_DMA_IRQF_HT = push_bit 4 1"
| "irqf_msk STM32_DMA_IRQF_TE = push_bit 3 1"
| "irqf_msk STM32_DMA_IRQF_DME = push_bit 2 1"
| "irqf_msk STM32_DMA_IRQF_FE = push_bit 0 1"

definition STM32_DMA_INTCOMPLETE :: nat where [simp]: "STM32_DMA_INTCOMPLETE = 0"
definition STM32_DMA_INTHALF :: nat where [simp]: "STM32_DMA_INTHALF = 1"

section \<open>Channel registers and interrupt flags\<close>

definition dma_ctrl :: "nat \<Rightarrow> soc \<Rightarrow> dma_regs" where
  "dma_ctrl ch s = (if ch < STM32F2_DMA_CH_NUM_DMA1 then dma1 s else dma2 s)"

definition upd_dma_ctrl :: "nat \<Rightarrow> (dma_regs \<Rightarrow> dma_regs) \<Rightarrow> soc \<Rightarrow> soc" where
  "upd_dma_ctrl ch f s = (if ch < STM32F2_DMA_CH_NUM_DMA1 then s\<lparr>dma1 := f (dma1 s)\<rparr> else s\<lparr>dma2 := f (dma2 s)\<rparr>)"

definition dma_ch_regs :: "nat \<Rightarrow> dmac_state \<Rightarrow> dma_ch_regs" where
  "dma_ch_regs ch s = dma_s (dma_ctrl ch (dmac_soc s)) (ch mod STM32F2_DMA_CH_NUM_DMA1)"

definition upd_ch_regs :: "nat \<Rightarrow> (dma_ch_regs \<Rightarrow> dma_ch_regs) \<Rightarrow> dmac_state \<Rightarrow> dmac_state" where
  "upd_ch_regs ch f s = s\<lparr>dmac_soc := upd_dma_ctrl ch (\<lambda>d. d\<lparr>dma_s :=
     (dma_s d)(ch mod STM32F2_DMA_CH_NUM_DMA1 := f (dma_s d (ch mod STM32F2_DMA_CH_NUM_DMA1)))\<rparr>) (dmac_soc s)\<rparr>"

definition upd_priv :: "nat \<Rightarrow> (dma_ch_priv \<Rightarrow> dma_ch_priv) \<Rightarrow> dmac_state \<Rightarrow> dmac_state" where
  "upd_priv ch f s = s\<lparr>dma_ch := (dma_ch s)(ch := f (dma_ch s ch))\<rparr>"

definition dma_irqf_shift :: "nat \<Rightarrow> nat" where
  "dma_irqf_shift ch = push_bit 3 (ch AND 2) OR ((ch AND 1) * 6)"

definition stm32_dma_clear_irq_flags :: "nat \<Rightarrow> u32 \<Rightarrow> dmac_state \<Rightarrow> dmac_state" where
  "stm32_dma_clear_irq_flags ch flags s =
     (let v = push_bit (dma_irqf_shift ch) flags in
      s\<lparr>dmac_soc := upd_dma_ctrl ch (\<lambda>d. if ch AND 4 \<noteq> 0 then d\<lparr>dma_hifcr := v\<rparr> else d\<lparr>dma_lifcr := v\<rparr>) (dmac_soc s)\<rparr>)"

definition dma_all_irqf :: u32 where
  "dma_all_irqf = (irqf_msk STM32_DMA_IRQF_TC) OR (irqf_msk STM32_DMA_IRQF_HT) OR (irqf_msk STM32_DMA_IRQF_TE) OR (irqf_msk STM32_DMA_IRQF_DME) OR (irqf_msk STM32_DMA_IRQF_FE)"

text \<open>The interrupt handler; \<open>call h ch data\<close> is what the installed handler \<open>h\<close> does to the state.\<close>

definition stm32_dma_isr :: "(nat \<Rightarrow> nat \<Rightarrow> u32 \<Rightarrow> dmac_state \<Rightarrow> dmac_state) \<Rightarrow> nat \<Rightarrow> dmac_state \<Rightarrow> dmac_state" where
  "stm32_dma_isr call ch s =
     (let s = (case irq_handler (dma_ch s ch) of
                 Some h \<Rightarrow> call h ch (irq_data (dma_ch s ch)) s
               | None \<Rightarrow> s)
      in stm32_dma_clear_irq_flags ch dma_all_irqf s)"

section \<open>Acquiring a channel\<close>

definition stm32_dma_ch_valid :: "int \<Rightarrow> bool" where
  "stm32_dma_ch_valid ch \<longleftrightarrow> 0 \<le> ch \<and> ch < int STM32F2_DMA_CH_NUM"

definition stm32_dma_ch_get :: "int \<Rightarrow> dmac_state \<Rightarrow> int \<times> dmac_state" where
  "stm32_dma_ch_get ch s =
     (if \<not> stm32_dma_ch_valid ch then (- EINVAL, s)
      else (if in_use (dma_ch s (nat ch)) then - EBUSY else 0,
            upd_priv (nat ch) (\<lambda>p. p\<lparr>in_use := True\<rparr>) s))"

definition stm32_dma_ch_put :: "int \<Rightarrow> dmac_state \<Rightarrow> int \<times> dmac_state" where
  "stm32_dma_ch_put ch s =
     (if \<not> stm32_dma_ch_valid ch then (- EINVAL, s)
      else (if in_use (dma_ch s (nat ch)) then 0 else - EBUSY,
            upd_priv (nat ch) (\<lambda>p. p\<lparr>in_use := False\<rparr>) s))"

text \<open>\<^verbatim>\<open>DMAAPI_LOCKED_BEGIN\<close> and \<^verbatim>\<open>DMAAPI_LOCKED_END\<close> around a function body.\<close>

definition dmaapi_locked :: "int \<Rightarrow> (nat \<Rightarrow> dmac_state \<Rightarrow> int \<times> dmac_state) \<Rightarrow> dmac_state \<Rightarrow> int \<times> dmac_state" where
  "dmaapi_locked ch body s =
     (if \<not> stm32_dma_ch_valid ch then (- EINVAL, s)
      else if \<not> in_use (dma_ch s (nat ch)) then (- ENODEV, s)
      else body (nat ch) s)"

section \<open>Starting and stopping\<close>

definition dma_enable_body :: "bool \<Rightarrow> nat \<Rightarrow> dmac_state \<Rightarrow> int \<times> dmac_state" where
  "dma_enable_body enable ch s =
     (if enable then
        (0, upd_ch_regs ch (\<lambda>r. r\<lparr>dma_cr := dma_cr r OR push_bit (dma_bit STM32_DMA_CR_EN) 1\<rparr>)
              (stm32_dma_clear_irq_flags ch dma_all_irqf s))
      else (0, upd_ch_regs ch (\<lambda>r. r\<lparr>dma_cr := dma_cr r AND NOT (push_bit (dma_bit STM32_DMA_CR_EN) 1)\<rparr>) s))"

definition stm32_dma_ch_enable :: "int \<Rightarrow> dmac_state \<Rightarrow> int \<times> dmac_state" where
  "stm32_dma_ch_enable ch = dmaapi_locked ch (dma_enable_body True)"

definition stm32_dma_ch_disable :: "int \<Rightarrow> dmac_state \<Rightarrow> int \<times> dmac_state" where
  "stm32_dma_ch_disable ch = dmaapi_locked ch (dma_enable_body False)"

section \<open>Interrupts\<close>

definition stm32f2_dma_irq :: "nat list" where
  "stm32f2_dma_irq = [11, 12, 13, 14, 15, 16, 17, 47, 56, 57, 58, 59, 60, 68, 69, 70]"

text \<open>The interrupt enable bits that \<^verbatim>\<open>stm32_dma_ch_request_irq\<close> sets or clears.\<close>

definition cr_irq_enable :: "u32 \<Rightarrow> u32 \<Rightarrow> u32" where
  "cr_irq_enable flags cr =
     (let cr = (if bit flags STM32_DMA_INTCOMPLETE then cr OR push_bit (dma_bit STM32_DMA_CR_TCIE) 1
                else cr AND NOT (push_bit (dma_bit STM32_DMA_CR_TCIE) 1))
      in if bit flags STM32_DMA_INTHALF then cr OR push_bit (dma_bit STM32_DMA_CR_HTIE) 1
         else cr AND NOT (push_bit (dma_bit STM32_DMA_CR_HTIE) 1))"

text \<open>\<open>req\<close> is the result of \<^verbatim>\<open>request_irq\<close>.\<close>

definition stm32_dma_ch_request_irq ::
  "int \<Rightarrow> int \<Rightarrow> nat option \<Rightarrow> u32 \<Rightarrow> u32 \<Rightarrow> dmac_state \<Rightarrow> int \<times> dmac_state" where
  "stm32_dma_ch_request_irq req ch handler flags data =
     dmaapi_locked ch (\<lambda>ch s.
       if irq_handler (dma_ch s ch) \<noteq> None then (- EEXIST, s)
       else
         (let s = upd_priv ch (\<lambda>p. p\<lparr>irq_handler := handler, irq_data := data\<rparr>) s in
          if req \<noteq> 0 then (req, upd_priv ch (\<lambda>p. p\<lparr>irq_handler := None, irq_data := 0\<rparr>) s)
          else (0, upd_ch_regs ch (\<lambda>r. r\<lparr>dma_cr := cr_irq_enable flags (dma_cr r)\<rparr>)
                     (s\<lparr>irq_line := (irq_line s)(stm32f2_dma_irq ! ch := Some ch)\<rparr>))))"

definition stm32_dma_ch_free_irq :: "int \<Rightarrow> u32 \<Rightarrow> dmac_state \<Rightarrow> int \<times> dmac_state" where
  "stm32_dma_ch_free_irq ch data =
     dmaapi_locked ch (\<lambda>ch s.
       if irq_data (dma_ch s ch) \<noteq> data then (- EINVAL, s)
       else if irq_handler (dma_ch s ch) = None then (- EINVAL, s)
       else
         (let s = upd_priv ch (\<lambda>p. p\<lparr>irq_handler := None, irq_data := 0\<rparr>) s;
              s = upd_ch_regs ch (\<lambda>r. r\<lparr>dma_cr := dma_cr r AND
                    NOT (push_bit (dma_bit STM32_DMA_CR_TCIE) 1 OR push_bit (dma_bit STM32_DMA_CR_HTIE) 1)\<rparr>) s
          in (0, s\<lparr>irq_line := (irq_line s)(stm32f2_dma_irq ! ch := None)\<rparr>)))"

section \<open>Configuring\<close>

definition init_cr :: "u8 \<Rightarrow> u8 \<Rightarrow> u8 \<Rightarrow> u8 \<Rightarrow> u8 \<Rightarrow> u32 \<Rightarrow> u32" where
  "init_cr dir fpctrl pl dbm circ cr =
     (cr AND NOT ((dma_msk STM32_DMA_CR_DIR_MSK) OR (dma_msk STM32_DMA_CR_PFCTRL_MSK) OR (dma_msk STM32_DMA_CR_PL_MSK) OR
        (dma_msk STM32_DMA_CR_DBM) OR (dma_msk STM32_DMA_CR_CIRC) OR (dma_msk STM32_DMA_CR_PINC) OR (dma_msk STM32_DMA_CR_MINC) OR
        (dma_msk STM32_DMA_CR_PSIZE_MSK) OR (dma_msk STM32_DMA_CR_MSIZE_MSK) OR (dma_msk STM32_DMA_CR_PINCOS_MSK) OR
        (dma_msk STM32_DMA_CR_CT) OR (dma_msk STM32_DMA_CR_PBURST_MSK) OR (dma_msk STM32_DMA_CR_MBURST_MSK))) OR
     push_bit (dma_bit STM32_DMA_CR_DIR_BITS) (ucast dir) OR push_bit (dma_bit STM32_DMA_CR_PFCTRL_BIT) (ucast fpctrl) OR
     push_bit (dma_bit STM32_DMA_CR_PL_BIT) (ucast pl) OR push_bit (dma_bit STM32_DMA_CR_DBM_BIT) (ucast dbm) OR
     push_bit (dma_bit STM32_DMA_CR_CIRC_BIT) (ucast circ)"

text \<open>The test that refuses to change the parameters of an enabled channel.\<close>

definition ch_enabled :: "nat \<Rightarrow> dmac_state \<Rightarrow> bool" where
  "ch_enabled ch s = bit (dma_cr (dma_ch_regs ch s)) (dma_bit STM32_DMA_CR_EN)"

definition stm32_dma_ch_init :: "int \<Rightarrow> u8 \<Rightarrow> u8 \<Rightarrow> u8 \<Rightarrow> u8 \<Rightarrow> u8 \<Rightarrow> dmac_state \<Rightarrow> int \<times> dmac_state" where
  "stm32_dma_ch_init ch dir fpctrl pl dbm circ =
     dmaapi_locked ch (\<lambda>ch s.
       if dir > 2 \<or> fpctrl > 1 \<or> pl > 3 \<or> dbm > 1 \<or> circ > 1 then (- EINVAL, s)
       else if ch_enabled ch s then (- EBUSY, s)
       else (0, upd_ch_regs ch (\<lambda>r. r\<lparr>dma_ndtr := 0, dma_par := 0, dma_m0ar := 0, dma_m1ar := 0, dma_fcr := 0,
                  dma_cr := init_cr dir fpctrl pl dbm circ (dma_cr r)\<rparr>) s))"

definition fifo_fcr :: "u8 \<Rightarrow> u8 \<Rightarrow> u32 \<Rightarrow> u32" where
  "fifo_fcr burst threshold fcr =
     (fcr AND NOT (STM32_DMA_FCR_DMDIS_MSK OR STM32_DMA_FCR_FTH_MSK)) OR
     push_bit STM32_DMA_FCR_DMDIS_BIT (ucast burst) OR push_bit STM32_DMA_FCR_FTH_BITS (ucast threshold)"

definition stm32_dma_ch_init_fifo :: "int \<Rightarrow> u8 \<Rightarrow> u8 \<Rightarrow> dmac_state \<Rightarrow> int \<times> dmac_state" where
  "stm32_dma_ch_init_fifo ch burst threshold =
     dmaapi_locked ch (\<lambda>ch s.
       if burst > 1 \<or> threshold > 3 then (- EINVAL, s)
       else if ch_enabled ch s then (- EBUSY, s)
       else (0, upd_ch_regs ch (\<lambda>r. r\<lparr>dma_fcr := fifo_fcr burst threshold (dma_fcr r)\<rparr>) s))"

definition periph_cr :: "u8 \<Rightarrow> u8 \<Rightarrow> u8 \<Rightarrow> u32 \<Rightarrow> u32" where
  "periph_cr inc bitwidth burst cr =
     (cr AND NOT ((dma_msk STM32_DMA_CR_PINC) OR (dma_msk STM32_DMA_CR_PSIZE_MSK) OR (dma_msk STM32_DMA_CR_PBURST_MSK))) OR
     push_bit (dma_bit STM32_DMA_CR_PINC_BIT) (ucast inc) OR push_bit (dma_bit STM32_DMA_CR_PSIZE_BITS) (ucast bitwidth) OR
     push_bit (dma_bit STM32_DMA_CR_PBURST_BITS) (ucast burst)"

definition stm32_dma_ch_set_periph :: "int \<Rightarrow> u32 \<Rightarrow> u8 \<Rightarrow> u8 \<Rightarrow> u8 \<Rightarrow> dmac_state \<Rightarrow> int \<times> dmac_state" where
  "stm32_dma_ch_set_periph ch addr inc bitwidth burst =
     dmaapi_locked ch (\<lambda>ch s.
       if inc > 1 \<or> bitwidth > 3 \<or> burst > 3 then (- EINVAL, s)
       else if ch_enabled ch s then (- EBUSY, s)
       else (0, upd_ch_regs ch (\<lambda>r. r\<lparr>dma_par := addr, dma_cr := periph_cr inc bitwidth burst (dma_cr r)\<rparr>) s))"

definition memory_cr :: "u8 \<Rightarrow> u8 \<Rightarrow> u8 \<Rightarrow> u32 \<Rightarrow> u32" where
  "memory_cr inc bitwidth burst cr =
     (cr AND NOT ((dma_msk STM32_DMA_CR_MINC) OR (dma_msk STM32_DMA_CR_MSIZE_MSK) OR (dma_msk STM32_DMA_CR_MBURST_MSK))) OR
     push_bit (dma_bit STM32_DMA_CR_MINC_BIT) (ucast inc) OR push_bit (dma_bit STM32_DMA_CR_MSIZE_BITS) (ucast bitwidth) OR
     push_bit (dma_bit STM32_DMA_CR_MBURST_BITS) (ucast burst)"

definition stm32_dma_ch_set_memory :: "int \<Rightarrow> u32 \<Rightarrow> u8 \<Rightarrow> u8 \<Rightarrow> u8 \<Rightarrow> dmac_state \<Rightarrow> int \<times> dmac_state" where
  "stm32_dma_ch_set_memory ch addr inc bitwidth burst =
     dmaapi_locked ch (\<lambda>ch s.
       if inc > 1 \<or> bitwidth > 3 \<or> burst > 3 then (- EINVAL, s)
       else if ch_enabled ch s then (- EBUSY, s)
       else (0, upd_ch_regs ch (\<lambda>r. r\<lparr>dma_m0ar := addr, dma_cr := memory_cr inc bitwidth burst (dma_cr r)\<rparr>) s))"

definition stm32_dma_ch_set_nitems :: "int \<Rightarrow> u16 \<Rightarrow> dmac_state \<Rightarrow> int \<times> dmac_state" where
  "stm32_dma_ch_set_nitems ch nitems =
     dmaapi_locked ch (\<lambda>ch s.
       if ch_enabled ch s then (- EBUSY, s)
       else (0, upd_ch_regs ch (\<lambda>r. r\<lparr>dma_ndtr := ucast nitems\<rparr>) s))"

end
