(* ===== verification/Dmac_Api.thy ===== *)
theory Dmac_Api
  imports Dmac
begin

text \<open>
  The library on which the correctness of the DMA driver rests: streams as a bank of registers, the
  control word as a sequence of field writes, the calls of the driver as one type of operations
  with what each keeps, the interface \<open>exclusive\<close> of channels that are got and put, and the
  position of the interrupt flags.
\<close>

section \<open>Streams as a bank of registers\<close>

lemma dma_ctrl_upd: "dma_ctrl ch (upd_dma_ctrl ch' f s) =
    (if (ch < 8) = (ch' < 8) then f (dma_ctrl ch s) else dma_ctrl ch s)"
  by (auto simp: dma_ctrl_def upd_dma_ctrl_def)

interpretation streams: reg_bank "\<lambda>s ch. dma_ch_regs ch s" upd_ch_regs "\<lambda>ch. ch < 16" "\<lambda>_. True" "\<lambda>f r. f r"
proof
  fix i j :: nat and f and s
  assume "i < 16" "j < 16" "i \<noteq> j"
  moreover have "k mod 8 = (if k < 8 then k else k - 8)" if "k < 16" for k :: nat
    using that by (simp add: le_mod_geq)
  ultimately have "(i < 8) = (j < 8) \<Longrightarrow> i mod 8 \<noteq> j mod 8" by auto
  then show "dma_ch_regs j (upd_ch_regs i f s) = dma_ch_regs j s"
    by (auto simp: dma_ch_regs_def upd_ch_regs_def dma_ctrl_upd)
qed (simp add: dma_ch_regs_def upd_ch_regs_def dma_ctrl_upd)

lemma dma_upd_simps [soc_simps]:
  "dma_ch (upd_ch_regs ch f s) = dma_ch s" "irq_line (upd_ch_regs ch f s) = irq_line s"
  "dma_ch_regs ch (upd_priv ch' g s) = dma_ch_regs ch s" "irq_line (upd_priv ch' g s) = irq_line s"
  "dma_ch (upd_priv ch' g s) = (dma_ch s)(ch' := g (dma_ch s ch'))"
  "dma_ch (stm32_dma_clear_irq_flags ch fl s) = dma_ch s"
  "irq_line (stm32_dma_clear_irq_flags ch fl s) = irq_line s"
  "dma_ch_regs ch (stm32_dma_clear_irq_flags ch' fl s) = dma_ch_regs ch s"
  "dma_ch_regs ch (s\<lparr>irq_line := l\<rparr>) = dma_ch_regs ch s"
  by (auto simp: upd_ch_regs_def upd_priv_def dma_ch_regs_def stm32_dma_clear_irq_flags_def Let_def dma_ctrl_upd)

lemma upd_ch_regs_twice [soc_simps]: "upd_ch_regs ch f (upd_ch_regs ch g s) = upd_ch_regs ch (\<lambda>r. f (g r)) s"
  by (auto simp: upd_ch_regs_def upd_dma_ctrl_def)

lemma upd_priv_twice [soc_simps]: "upd_priv ch f (upd_priv ch g s) = upd_priv ch (\<lambda>p. f (g p)) s"
  by (auto simp: upd_priv_def)

lemma upd_priv_same: "f (dma_ch s ch) = dma_ch s ch \<Longrightarrow> upd_priv ch f s = s"
  by (simp add: upd_priv_def)

section \<open>Configuration words\<close>

text \<open>The fields of \<^verbatim>\<open>DMA_SxCR\<close>; \<open>sc_irq\<close> are the four interrupt enables, \<open>sc_rsv\<close> the reserved bits.\<close>

record stream_cfg =
  sc_en :: u32
  sc_irq :: u32
  sc_pfctrl :: u32
  sc_dir :: u32
  sc_circ :: u32
  sc_pinc :: u32
  sc_minc :: u32
  sc_psize :: u32
  sc_msize :: u32
  sc_pincos :: u32
  sc_pl :: u32
  sc_dbm :: u32
  sc_ct :: u32
  sc_rsv :: u32
  sc_pburst :: u32
  sc_mburst :: u32
  sc_chsel :: u32
  sc_rsv' :: u32

definition decode_cr :: "u32 \<Rightarrow> stream_cfg" where
  "decode_cr r = \<lparr>sc_en = field 1 0 r, sc_irq = field 4 1 r, sc_pfctrl = field 1 5 r, sc_dir = field 2 6 r,
     sc_circ = field 1 8 r, sc_pinc = field 1 9 r, sc_minc = field 1 10 r, sc_psize = field 2 11 r,
     sc_msize = field 2 13 r, sc_pincos = field 1 15 r, sc_pl = field 2 16 r, sc_dbm = field 1 18 r,
     sc_ct = field 1 19 r, sc_rsv = field 1 20 r, sc_pburst = field 2 21 r, sc_mburst = field 2 23 r,
     sc_chsel = field 3 25 r, sc_rsv' = field 4 28 r\<rparr>"

lemma and_not_disjoint: "u AND m = 0 \<Longrightarrow> u AND NOT m = (u :: u32)"
proof -
  assume "u AND m = 0"
  then have "u AND NOT m = (u AND m) OR (u AND NOT m)" by simp
  also have "\<dots> = u" by (simp only: bit.conj_disj_distrib [symmetric] bit.disj_cancel_right) simp
  finally show ?thesis .
qed

lemma push_and_mask:
  assumes "take_bit w' v = v" "i + w \<le> j \<or> j + w' \<le> i"
  shows "push_bit j v AND push_bit i (mask w) = (0 :: u32)"
  by (rule bit_word_eqI) (use assms in \<open>auto simp: bit_simps dest: take_bit_bit_bound\<close>)

lemma u8_fits:
  "(x :: u8) \<le> 1 \<Longrightarrow> take_bit 1 (ucast x :: u32) = ucast x"
  "x \<le> 3 \<Longrightarrow> take_bit 2 (ucast x :: u32) = ucast x"
  "x \<le> 2 \<Longrightarrow> take_bit 2 (ucast x :: u32) = ucast x"
  by (rule take_bit_u32_self; simp add: unsigned_ucast_eq take_bit_nat_eq_self word_le_nat_alt)+

lemmas cr_defs = dma_msk.simps dma_bit.simps STM32_DMA_FCR_DMDIS_BIT_def STM32_DMA_FCR_DMDIS_MSK_def STM32_DMA_FCR_FTH_BITS_def STM32_DMA_FCR_FTH_MSK_def

lemma mask_numerals: "push_bit k (1 :: u32) = push_bit k (mask 1)" "push_bit k (3 :: u32) = push_bit k (mask 2)"
  by (simp_all add: mask_eq_exp_minus_1)

text \<open>\<open>set_fields\<close> writes a list of fields one after the other. When the values fit and the fields
  do not overlap, it is one read-modify-write of the whole word, as the driver does it.\<close>

definition set_fields :: "(nat \<times> nat \<times> u32) list \<Rightarrow> u32 \<Rightarrow> u32" where
  "set_fields fs r = fold (\<lambda>(w, i, v). set_field w i v) fs r"

definition fits :: "(nat \<times> nat \<times> u32) list \<Rightarrow> bool" where
  "fits fs \<longleftrightarrow> list_all (\<lambda>(w, i, v). take_bit w v = v) fs
     \<and> sorted_wrt (\<lambda>(w, i, v) (w', i', v'). i + w \<le> i' \<or> i' + w' \<le> i) fs"

lemma set_fields_word:
  "fits fs \<Longrightarrow> set_fields fs r =
     (r AND NOT (foldr (\<lambda>(w, i, v) m. push_bit i (mask w) OR m) fs 0)) OR foldr (\<lambda>(w, i, v) u. push_bit i v OR u) fs 0"
proof (induction fs arbitrary: r)
  case (Cons f fs)
  obtain w i v where f: "f = (w, i, v)" by (cases f)
  let ?M = "foldr (\<lambda>(w, i, v) m. push_bit i (mask w) OR m) fs 0 :: u32"
  have "push_bit i v AND foldr (\<lambda>(w, i, v) m. push_bit i (mask w) OR m) gs 0 = 0" if "set gs \<subseteq> set fs" for gs
    using that
  proof (induction gs)
    case (Cons g gs)
    obtain w' i' v' where g: "g = (w', i', v')" by (cases g)
    then have "push_bit i v AND push_bit i' (mask w') = 0"
      using Cons.prems \<open>fits (f # fs)\<close> f push_and_mask [of w v i' w' i] by (fastforce simp: fits_def)
    then show ?case using Cons g by (simp add: bit.conj_disj_distrib)
  qed simp
  then have "push_bit i v AND ?M = 0" by blast
  then have "push_bit i v AND NOT ?M = push_bit i v"
    by (rule and_not_disjoint)
  moreover have "fits fs" using Cons.prems by (simp add: fits_def)
  ultimately show ?case
    using Cons.IH [of "set_field w i v r"]
    by (simp add: set_fields_def f set_field_def bit.conj_disj_distrib2 bit.de_Morgan_disj and.assoc or.assoc)
qed (simp add: set_fields_def)

lemma init_cr_fields:
  assumes "dir \<le> 2" "fpctrl \<le> 1" "pl \<le> 3" "dbm \<le> 1" "circ \<le> 1"
  shows "init_cr dir fpctrl pl dbm circ cr = set_fields [(2, 6, ucast dir), (1, 5, ucast fpctrl), (2, 16, ucast pl),
    (1, 18, ucast dbm), (1, 8, ucast circ), (1, 9, 0), (1, 10, 0), (2, 11, 0), (2, 13, 0), (1, 15, 0), (1, 19, 0),
    (2, 21, 0), (2, 23, 0)] cr"
proof -
  let ?fs = "[(2, 6, ucast dir), (1, 5, ucast fpctrl), (2, 16, ucast pl), (1, 18, ucast dbm), (1, 8, ucast circ),
    (1, 9, 0), (1, 10, 0), (2, 11, 0), (2, 13, 0), (1, 15, 0), (1, 19, 0), (2, 21, 0), (2, 23, 0)] :: (nat \<times> nat \<times> u32) list"
  have "fits ?fs" using u8_fits assms by (simp add: fits_def)
  then show ?thesis
    unfolding set_fields_word [OF \<open>fits ?fs\<close>]
    by (simp only: init_cr_def cr_defs mask_numerals foldr.simps o_def prod.case id_apply or.assoc
        bit.disj_zero_right push_bit_of_0)
qed

lemma periph_cr_fields:
  assumes "inc \<le> 1" "bitwidth \<le> 3" "burst \<le> 3"
  shows "periph_cr inc bitwidth burst cr = set_fields [(1, 9, ucast inc), (2, 11, ucast bitwidth), (2, 21, ucast burst)] cr"
proof -
  let ?fs = "[(1, 9, ucast inc), (2, 11, ucast bitwidth), (2, 21, ucast burst)] :: (nat \<times> nat \<times> u32) list"
  have "fits ?fs" using u8_fits assms by (simp add: fits_def)
  then show ?thesis
    unfolding set_fields_word [OF \<open>fits ?fs\<close>]
    by (simp only: periph_cr_def cr_defs mask_numerals foldr.simps o_def prod.case id_apply or.assoc bit.disj_zero_right)
qed

lemma memory_cr_fields:
  assumes "inc \<le> 1" "bitwidth \<le> 3" "burst \<le> 3"
  shows "memory_cr inc bitwidth burst cr = set_fields [(1, 10, ucast inc), (2, 13, ucast bitwidth), (2, 23, ucast burst)] cr"
proof -
  let ?fs = "[(1, 10, ucast inc), (2, 13, ucast bitwidth), (2, 23, ucast burst)] :: (nat \<times> nat \<times> u32) list"
  have "fits ?fs" using u8_fits assms by (simp add: fits_def)
  then show ?thesis
    unfolding set_fields_word [OF \<open>fits ?fs\<close>]
    by (simp only: memory_cr_def cr_defs mask_numerals foldr.simps o_def prod.case id_apply or.assoc bit.disj_zero_right)
qed

lemma fifo_fcr_fields:
  assumes "burst \<le> 1" "threshold \<le> 3"
  shows "fifo_fcr burst threshold fcr = set_fields [(1, 2, ucast burst), (2, 0, ucast threshold)] fcr"
proof -
  let ?fs = "[(1, 2, ucast burst), (2, 0, ucast threshold)] :: (nat \<times> nat \<times> u32) list"
  have "fits ?fs" using u8_fits assms by (simp add: fits_def)
  then show ?thesis
    unfolding set_fields_word [OF \<open>fits ?fs\<close>]
    by (simp only: fifo_fcr_def cr_defs mask_numerals foldr.simps o_def prod.case id_apply or.assoc bit.disj_zero_right)
qed

text \<open>What each operation does to the decoded word.\<close>

lemma decode_init_cr:
  assumes "dir \<le> 2" "fpctrl \<le> 1" "pl \<le> 3" "dbm \<le> 1" "circ \<le> 1"
  shows "decode_cr (init_cr dir fpctrl pl dbm circ cr) =
    (decode_cr cr)\<lparr>sc_dir := ucast dir, sc_pfctrl := ucast fpctrl, sc_pl := ucast pl, sc_dbm := ucast dbm,
       sc_circ := ucast circ, sc_pinc := 0, sc_minc := 0, sc_psize := 0, sc_msize := 0, sc_pincos := 0, sc_ct := 0,
       sc_pburst := 0, sc_mburst := 0\<rparr>"
  unfolding init_cr_fields [OF assms] using u8_fits assms
  by (simp add: decode_cr_def set_fields_def field_set_field_same field_set_field_other)

lemma decode_periph_cr:
  assumes "inc \<le> 1" "bitwidth \<le> 3" "burst \<le> 3"
  shows "decode_cr (periph_cr inc bitwidth burst cr) =
    (decode_cr cr)\<lparr>sc_pinc := ucast inc, sc_psize := ucast bitwidth, sc_pburst := ucast burst\<rparr>"
  unfolding periph_cr_fields [OF assms] using u8_fits assms
  by (simp add: decode_cr_def set_fields_def field_set_field_same field_set_field_other)

lemma decode_memory_cr:
  assumes "inc \<le> 1" "bitwidth \<le> 3" "burst \<le> 3"
  shows "decode_cr (memory_cr inc bitwidth burst cr) =
    (decode_cr cr)\<lparr>sc_minc := ucast inc, sc_msize := ucast bitwidth, sc_mburst := ucast burst\<rparr>"
  unfolding memory_cr_fields [OF assms] using u8_fits assms
  by (simp add: decode_cr_def set_fields_def field_set_field_same field_set_field_other)

lemmas decode_ops = decode_init_cr decode_periph_cr decode_memory_cr

section \<open>The calls on an acquired channel\<close>

datatype dma_op =
    Enable | Disable
  | Request_irq int "nat option" u32 u32 | Free_irq u32
  | Init u8 u8 u8 u8 u8 | Init_fifo u8 u8
  | Set_periph u32 u8 u8 u8 | Set_memory u32 u8 u8 u8 | Set_nitems u16

fun dma_do :: "dma_op \<Rightarrow> int \<Rightarrow> dmac_state \<Rightarrow> int \<times> dmac_state" where
  "dma_do Enable ch s = stm32_dma_ch_enable ch s"
| "dma_do Disable ch s = stm32_dma_ch_disable ch s"
| "dma_do (Request_irq req handler flags data) ch s = stm32_dma_ch_request_irq req ch handler flags data s"
| "dma_do (Free_irq data) ch s = stm32_dma_ch_free_irq ch data s"
| "dma_do (Init dir fpctrl pl dbm circ) ch s = stm32_dma_ch_init ch dir fpctrl pl dbm circ s"
| "dma_do (Init_fifo burst threshold) ch s = stm32_dma_ch_init_fifo ch burst threshold s"
| "dma_do (Set_periph addr inc bitwidth burst) ch s = stm32_dma_ch_set_periph ch addr inc bitwidth burst s"
| "dma_do (Set_memory addr inc bitwidth burst) ch s = stm32_dma_ch_set_memory ch addr inc bitwidth burst s"
| "dma_do (Set_nitems n) ch s = stm32_dma_ch_set_nitems ch n s"

lemmas dma_call_defs = stm32_dma_ch_enable_def stm32_dma_ch_disable_def dma_enable_body_def
  stm32_dma_ch_request_irq_def stm32_dma_ch_free_irq_def stm32_dma_ch_init_def stm32_dma_ch_init_fifo_def
  stm32_dma_ch_set_periph_def stm32_dma_ch_set_memory_def stm32_dma_ch_set_nitems_def

text \<open>No handler means no handler data; kept as long as nobody installs a \<^verbatim>\<open>NULL\<close> handler.\<close>

definition no_stale :: "dmac_state \<Rightarrow> bool" where
  "no_stale s \<longleftrightarrow> (\<forall>ch. irq_handler (dma_ch s ch) = None \<longrightarrow> irq_data (dma_ch s ch) = 0)"

fun configures :: "dma_op \<Rightarrow> bool" where
  "configures Enable = False" | "configures Disable = False"
| "configures (Request_irq _ _ _ _) = False" | "configures (Free_irq _) = False"
| "configures _ = True"

text \<open>The part of the state that belongs to a channel: its registers, its bookkeeping, and its interrupt line.\<close>

definition ch_view :: "nat \<Rightarrow> dmac_state \<Rightarrow> dma_ch_regs \<times> dma_ch_priv \<times> nat option" where
  "ch_view ch s = (dma_ch_regs ch s, dma_ch s ch, irq_line s (stm32f2_dma_irq ! ch))"

lemma dma_irq_other:
  assumes "c < 16" "c' < 16" "c' \<noteq> c"
  shows "stm32f2_dma_irq ! c' \<noteq> stm32f2_dma_irq ! c"
proof -
  have "distinct stm32f2_dma_irq" "length stm32f2_dma_irq = 16" by (simp_all add: stm32f2_dma_irq_def)
  then show ?thesis using assms by (simp add: nth_eq_iff_index_eq)
qed

text \<open>The rest of the chip: everything but the registers of the two DMA controllers.\<close>

definition not_dma :: "soc \<Rightarrow> soc" where
  "not_dma s = s\<lparr>dma1 := dma0, dma2 := dma0\<rparr>"

lemma not_dma_upd [soc_simps]:
  "not_dma (dmac_soc (upd_ch_regs ch f s)) = not_dma (dmac_soc s)"
  "not_dma (dmac_soc (stm32_dma_clear_irq_flags ch fl s)) = not_dma (dmac_soc s)"
  "dmac_soc (upd_priv ch g s) = dmac_soc s"
  by (auto simp: not_dma_def upd_ch_regs_def stm32_dma_clear_irq_flags_def upd_dma_ctrl_def Let_def upd_priv_def)

lemma streams_other:
  "ch < 16 \<Longrightarrow> ch' < 16 \<Longrightarrow> ch' \<noteq> ch \<Longrightarrow> dma_ch_regs ch' (upd_ch_regs ch f s) = dma_ch_regs ch' s"
  by (rule streams.rd_wr_other) simp_all

lemma streams_same: "ch < 16 \<Longrightarrow> dma_ch_regs ch (upd_ch_regs ch f s) = f (dma_ch_regs ch s)"
  by (rule streams.rd_wr_same) simp_all

lemma dma_do_local:
  assumes "dma_do op ch s = (rv, s')" "stm32_dma_ch_valid ch" "ch' < 16" "ch' \<noteq> nat ch"
  shows "ch_view ch' s' = ch_view ch' s"
proof -
  have "nat ch < 16" using assms(2) by (auto simp: stm32_dma_ch_valid_def)
  then show ?thesis
    using assms by (cases op)
      (auto simp: dma_call_defs dmaapi_locked_def ch_view_def soc_simps streams_other dma_irq_other Let_def split: if_splits)
qed

lemma dma_do_in_use:
  assumes "dma_do op ch s = (rv, s')" shows "in_use (dma_ch s' c) = in_use (dma_ch s c)"
  using assms by (cases op)
    (auto simp: dma_call_defs dmaapi_locked_def soc_simps Let_def split: if_splits)

lemma dma_do_not_dma:
  assumes "dma_do op ch s = (rv, s')" shows "not_dma (dmac_soc s') = not_dma (dmac_soc s)"
  using assms by (cases op)
    (auto simp: dma_call_defs dmaapi_locked_def soc_simps Let_def split: if_splits)

text \<open>A failed call has no effect, but for the data that a \<^verbatim>\<open>NULL\<close> handler left behind, which a failed request of the interrupt clears.\<close>

lemma dma_do_error:
  assumes "dma_do op ch s = (rv, s')" "rv \<noteq> 0"
  shows "s' = s \<or> irq_handler (dma_ch s (nat ch)) = None \<and> s' = upd_priv (nat ch) (\<lambda>p. p\<lparr>irq_data := 0\<rparr>) s"
proof -
  have "upd_priv c (\<lambda>p. p\<lparr>irq_handler := None, irq_data := 0\<rparr>) s = upd_priv c (\<lambda>p. p\<lparr>irq_data := 0\<rparr>) s"
    if "irq_handler (dma_ch s c) = None" for c
    using that by (cases "dma_ch s c") (simp add: upd_priv_def)
  then show ?thesis using assms by (cases op)
    (auto simp: dma_call_defs dmaapi_locked_def soc_simps Let_def split: if_splits)
qed

section \<open>One owner per channel\<close>

text \<open>
  The interface of resources that are got and put: getting a free one succeeds and takes it,
  getting a taken one fails, putting frees.
\<close>

locale exclusive =
  fixes held :: "'s \<Rightarrow> 'r \<Rightarrow> bool"
    and get :: "'r \<Rightarrow> 's \<Rightarrow> int \<times> 's"
    and put :: "'r \<Rightarrow> 's \<Rightarrow> int \<times> 's"
    and ok :: "'r \<Rightarrow> bool"
  assumes get_rv: "ok r \<Longrightarrow> get r s = (rv, s') \<Longrightarrow> (rv = 0) = (\<not> held s r)"
    and get_held: "ok r \<Longrightarrow> ok q \<Longrightarrow> get r s = (rv, s') \<Longrightarrow> held s' q = (q = r \<or> held s q)"
    and put_rv: "ok r \<Longrightarrow> put r s = (rv, s') \<Longrightarrow> (rv = 0) = held s r"
    and put_held: "ok r \<Longrightarrow> ok q \<Longrightarrow> put r s = (rv, s') \<Longrightarrow> held s' q = (q \<noteq> r \<and> held s q)"
begin

lemma owner_get:
  assumes "\<forall>r. ok r \<longrightarrow> held s r = (own r \<noteq> None)" "ok r" "get r s = (rv, s')"
  shows "(rv = 0) = (own r = None)"
    and "\<forall>q. ok q \<longrightarrow> held s' q = ((if rv = 0 then own(r \<mapsto> u) else own) q \<noteq> None)"
  using assms get_rv [of r s rv s'] get_held [of r _ s rv s'] by auto

lemma owner_put:
  assumes "\<forall>r. ok r \<longrightarrow> held s r = (own r \<noteq> None)" "ok r" "put r s = (rv, s')" "own r \<noteq> None"
  shows "rv = 0" and "\<forall>q. ok q \<longrightarrow> held s' q = ((own(r := None)) q \<noteq> None)"
  using assms put_rv [of r s rv s'] put_held [of r _ s rv s'] by auto

end

interpretation dma_chs: exclusive "\<lambda>s ch. in_use (dma_ch s (nat ch))" stm32_dma_ch_get stm32_dma_ch_put stm32_dma_ch_valid
  by unfold_locales
    (auto simp: stm32_dma_ch_get_def stm32_dma_ch_put_def stm32_dma_ch_valid_def soc_simps split: if_splits)

text \<open>
  Any interleaving of drivers \<open>u\<close> that get channels, call the driver on them and put channels they
  own; \<open>own\<close> records who owns which channel, by the results of the calls.
\<close>

inductive dma_run :: "dmac_state \<Rightarrow> dmac_state \<Rightarrow> (int \<Rightarrow> 'u option) \<Rightarrow> bool" for s\<^sub>0 where
  start: "dma_run s\<^sub>0 s\<^sub>0 (\<lambda>_. None)"
| get: "dma_run s\<^sub>0 s own \<Longrightarrow> stm32_dma_ch_valid ch \<Longrightarrow> stm32_dma_ch_get ch s = (rv, s')
    \<Longrightarrow> dma_run s\<^sub>0 s' (if rv = 0 then own(ch \<mapsto> u) else own)"
| put: "dma_run s\<^sub>0 s own \<Longrightarrow> stm32_dma_ch_valid ch \<Longrightarrow> own ch = Some u \<Longrightarrow> stm32_dma_ch_put ch s = (rv, s')
    \<Longrightarrow> dma_run s\<^sub>0 s' (own(ch := None))"
| call: "dma_run s\<^sub>0 s own \<Longrightarrow> dma_do op ch s = (rv, s') \<Longrightarrow> dma_run s\<^sub>0 s' own"

lemma dma_run_owned:
  assumes "dma_run s\<^sub>0 s own" "\<forall>ch. \<not> in_use (dma_ch s\<^sub>0 ch)"
  shows "\<forall>ch. stm32_dma_ch_valid ch \<longrightarrow> in_use (dma_ch s (nat ch)) = (own ch \<noteq> None)"
  using assms(1)
proof induction
  case (get s own ch rv s' u)
  then show ?case using dma_chs.owner_get(2) [of s own ch rv s' u] by blast
next
  case (put s own ch u rv s')
  then show ?case using dma_chs.owner_put(2) [of s own ch rv s'] by blast
next
  case (call s own op ch rv s')
  then show ?case by (simp add: dma_do_in_use)
qed (use assms(2) in simp)

section \<open>Interrupt flags\<close>

text \<open>The position of the flags of a stream in its flag register, from the reference manual.\<close>

definition irqf_group :: "nat \<Rightarrow> nat" where
  "irqf_group ch = [0, 6, 16, 22] ! (ch mod 4)"

lemma mod4_cases: "n mod 4 = 0 \<or> n mod 4 = 1 \<or> n mod 4 = 2 \<or> n mod 4 = (3 :: nat)"
  by arith

lemma shift_low: "dma_irqf_shift ch = dma_irqf_shift (ch mod 4)"
proof -
  have "ch AND 2 = (ch mod 4) AND 2" "ch AND 1 = (ch mod 4) AND 1"
    unfolding take_bit_eq_mod [of 2 ch, simplified, symmetric]
    by (rule bit_eqI; auto simp: bit_simps; simp add: bit_iff_odd)+
  then show ?thesis unfolding dma_irqf_shift_def by simp
qed

lemma irqf_shift: "dma_irqf_shift ch = irqf_group ch"
  unfolding shift_low [of ch] irqf_group_def
  using mod4_cases [of ch] by (elim disjE) (simp_all add: dma_irqf_shift_def)

lemma bit_all_irqf: "bit dma_all_irqf n \<longleftrightarrow> n \<in> {0, 2, 3, 4, 5}"
  by (auto simp: dma_all_irqf_def bit_simps simp del: push_bit_of_1)

text \<open>The flag clear register a channel uses: which controller, and its low or high half.\<close>

definition ifcr_of :: "nat \<Rightarrow> dmac_state \<Rightarrow> u32" where
  "ifcr_of ch s = (if 4 \<le> ch mod 8 then dma_hifcr (dma_ctrl ch (dmac_soc s)) else dma_lifcr (dma_ctrl ch (dmac_soc s)))"

lemma and4_iff: "(ch AND 4 \<noteq> 0) = (4 \<le> ch mod (8 :: nat))"
proof -
  have "(ch AND 4 \<noteq> 0) = odd (ch div 4)"
    using bit_iff_and_push_bit_not_eq_0 [of ch 2] by (simp add: bit_iff_odd)
  moreover have "ch mod 8 = 4 * (ch div 4 mod 2) + ch mod 4"
    using mod_mult2_eq [of ch 4 2] by simp
  ultimately show ?thesis by (cases "odd (ch div 4)") (simp_all add: odd_iff_mod_2_eq_one even_iff_mod_2_eq_zero not_le)
qed

text \<open>Two streams of the same half of a controller have different flags.\<close>

lemma irqf_group_disjoint:
  assumes "ch div 4 = ch' div 4" "ch \<noteq> ch'"
  shows "irqf_group ch + 6 \<le> irqf_group ch' \<or> irqf_group ch' + 6 \<le> irqf_group ch"
proof -
  have "ch mod 4 \<noteq> ch' mod 4" using assms by (metis div_mult_mod_eq)
  then show ?thesis using mod4_cases [of ch] mod4_cases [of ch'] by (elim disjE) (simp_all add: irqf_group_def)
qed

lemma ifcr_cleared:
  assumes "ch < 16"
  shows "ifcr_of ch (stm32_dma_clear_irq_flags ch fl s) = push_bit (irqf_group ch) fl"
  using assms and4_iff [of ch]
  by (simp add: ifcr_of_def stm32_dma_clear_irq_flags_def Let_def dma_ctrl_upd irqf_shift)

text \<open>No flag of the channel changes or is acknowledged: the status registers are as they were, and what is written to its clear register has
  none of its six bits.\<close>

definition keeps_flags :: "nat \<Rightarrow> dmac_state \<Rightarrow> dmac_state \<Rightarrow> bool" where
  "keeps_flags c s s' \<longleftrightarrow> dma_lisr (dma_ctrl c (dmac_soc s')) = dma_lisr (dma_ctrl c (dmac_soc s))
     \<and> dma_hisr (dma_ctrl c (dmac_soc s')) = dma_hisr (dma_ctrl c (dmac_soc s))
     \<and> (ifcr_of c s' = ifcr_of c s \<or> field 6 (irqf_group c) (ifcr_of c s') = 0)"

lemma flag_regs_upd [soc_simps]:
  "ifcr_of c (upd_ch_regs ch f s) = ifcr_of c s" "ifcr_of c (upd_priv ch g s) = ifcr_of c s" "ifcr_of c (s\<lparr>irq_line := l\<rparr>) = ifcr_of c s"
  "dma_lisr (dma_ctrl c (dmac_soc (upd_ch_regs ch f s))) = dma_lisr (dma_ctrl c (dmac_soc s))"
  "dma_hisr (dma_ctrl c (dmac_soc (upd_ch_regs ch f s))) = dma_hisr (dma_ctrl c (dmac_soc s))"
  "dma_lisr (dma_ctrl c (dmac_soc (stm32_dma_clear_irq_flags ch fl s))) = dma_lisr (dma_ctrl c (dmac_soc s))"
  "dma_hisr (dma_ctrl c (dmac_soc (stm32_dma_clear_irq_flags ch fl s))) = dma_hisr (dma_ctrl c (dmac_soc s))"
  by (auto simp: ifcr_of_def upd_ch_regs_def upd_priv_def stm32_dma_clear_irq_flags_def Let_def dma_ctrl_upd)

lemma dma_half: "c < 16 \<Longrightarrow> c div 4 = (if c < 8 then 0 else 2) + (if 4 \<le> c mod 8 then 1 else (0 :: nat))"
  by presburger

lemma ifcr_other:
  assumes "ch < 16" "c < 16" "c \<noteq> ch"
  shows "ifcr_of c (stm32_dma_clear_irq_flags ch dma_all_irqf s) = ifcr_of c s
    \<or> field 6 (irqf_group c) (ifcr_of c (stm32_dma_clear_irq_flags ch dma_all_irqf s)) = 0"
proof (cases "c div 4 = ch div 4")
  case True
  have "(c < 8) = (ch < 8)" "(4 \<le> c mod 8) = (4 \<le> ch mod 8)"
    using True dma_half [OF assms(1)] dma_half [OF assms(2)] by (auto split: if_splits)
  then have "ifcr_of c (stm32_dma_clear_irq_flags ch dma_all_irqf s) = ifcr_of ch (stm32_dma_clear_irq_flags ch dma_all_irqf s)"
    by (simp add: ifcr_of_def dma_ctrl_def)
  moreover have "field 6 (irqf_group c) (push_bit (irqf_group ch) dma_all_irqf) = 0"
    using irqf_group_disjoint [OF True assms(3)]
    by (intro bit_word_eqI) (auto simp: bit_field bit_push_bit_iff bit_all_irqf)
  ultimately show ?thesis by (simp add: ifcr_cleared [OF assms(1)])
next
  case False
  then have "(c < 8) \<noteq> (ch < 8) \<or> (4 \<le> c mod 8) \<noteq> (4 \<le> ch mod 8)"
    using dma_half [OF assms(1)] dma_half [OF assms(2)] by (auto split: if_splits)
  then show ?thesis using and4_iff [of ch]
    by (auto simp: ifcr_of_def stm32_dma_clear_irq_flags_def Let_def dma_ctrl_upd)
qed

lemma dma_do_flags:
  assumes "dma_do op ch s = (rv, s')" "stm32_dma_ch_valid ch" "c < 16" "c \<noteq> nat ch"
  shows "keeps_flags c s s'"
proof -
  have "nat ch < 16" using assms(2) by (auto simp: stm32_dma_ch_valid_def)
  then show ?thesis
    using assms ifcr_other [of "nat ch" c s] by (cases op)
      (auto simp: dma_call_defs dmaapi_locked_def keeps_flags_def soc_simps Let_def split: if_splits)
qed

text \<open>The enable bit in the decoded word.\<close>

lemma field_en:
  "field 1 0 (r OR push_bit 0 1) = 1" "0 < i \<Longrightarrow> field w i (r OR push_bit 0 1) = field w i r"
  by (rule bit_word_eqI; auto simp: bit_field bit_or_bit bit_simps simp del: push_bit_of_1)+

text \<open>A concrete state: channel 3 acquired on a chip at reset.\<close>

definition dmac_demo :: dmac_state where
  "dmac_demo = snd (stm32_dma_ch_get 3 (dmac_boot soc0))"

lemma dmac_demo:
  "no_stale dmac_demo" "in_use (dma_ch dmac_demo 3)" "dma_ch_regs 3 dmac_demo = dma_s dma0 3"
  by (auto simp: dmac_demo_def no_stale_def dmac_boot_def stm32_dma_ch_get_def stm32_dma_ch_valid_def soc_simps
      dma_ch_regs_def dma_ctrl_def soc0_def upd_priv_def)

lemma dmac_demo_irq: "irq_handler (dma_ch dmac_demo 3) = None" "irq_line dmac_demo l = None"
  by (simp_all add: dmac_demo_def dmac_boot_def stm32_dma_ch_get_def stm32_dma_ch_valid_def upd_priv_def)

end
