(* ===== verification/Dmac_Props.thy ===== *)
theory Dmac_Props
  imports Dmac_Api
begin

text \<open>
  Correctness of the DMA driver: a channel has one owner at a time, whoever interleaves calls with
  whom; a call touches its own channel only; a call that fails has no effect; the sequence of
  configuration calls a driver makes leaves exactly the stream configuration it asked for.
\<close>

section \<open>Properties\<close>

text \<open>C5. Drivers that interleave their calls in any order, each putting only channels it owns, never
  share a channel: getting a channel succeeds exactly when nobody owns it, and a refused get
  returns \<^verbatim>\<open>-EBUSY\<close> and changes nothing.\<close>

theorem dma_one_owner:
  assumes "dma_run s\<^sub>0 s own" and "\<forall>ch. \<not> in_use (dma_ch s\<^sub>0 ch)" and "stm32_dma_ch_valid ch"
    and "stm32_dma_ch_get ch s = (rv, s')"
  shows "(rv = 0 \<longleftrightarrow> own ch = None) \<and> (rv = 0 \<or> rv = - EBUSY \<and> s' = s)"
  using dma_chs.owner_get(1) [OF dma_run_owned [OF assms(1,2)] assms(3,4)] assms(3,4)
  by (auto simp: stm32_dma_ch_get_def split: if_splits intro!: upd_priv_same)

theorem dma_one_owner_witness:
  "\<exists>s. dma_run (dmac_boot soc0) s [11 \<mapsto> (2 :: nat)] \<and> fst (stm32_dma_ch_get 11 s) = - EBUSY"
proof -
  let ?s = "snd (stm32_dma_ch_get 11 (dmac_boot soc0))"
  have "stm32_dma_ch_get 11 (dmac_boot soc0) = (0, ?s)"
    by (simp add: stm32_dma_ch_get_def stm32_dma_ch_valid_def dmac_boot_def)
  then have r: "dma_run (dmac_boot soc0) ?s [11 \<mapsto> (2 :: nat)]"
    using dma_run.get [OF dma_run.start [of "dmac_boot soc0"], of 11 0 ?s "2 :: nat"] by (simp add: stm32_dma_ch_valid_def)
  then show ?thesis
    using dma_one_owner [OF r, of 11 "fst (stm32_dma_ch_get 11 ?s)" "snd (stm32_dma_ch_get 11 ?s)"]
    by (auto simp: dmac_boot_def stm32_dma_ch_valid_def)
qed

text \<open>C23. Every call on a channel returns \<^verbatim>\<open>-EINVAL\<close> for a channel out of range and \<^verbatim>\<open>-ENODEV\<close> for one
  that nobody has acquired. Whatever it returns, it leaves the registers, the bookkeeping and the interrupt line of
  every other channel as they were and acknowledges none of their interrupt flags; who has acquired what, and the rest of the chip
  outside the two controllers, stay the same. A call that fails changes nothing at all, with one exception: a failed request of the
  interrupt of a channel without handler clears the data that an earlier request with a \<^verbatim>\<open>NULL\<close> handler left there.\<close>

theorem dma_call_isolated:
  assumes "dma_do op ch s = (rv, s')"
  shows "(\<not> stm32_dma_ch_valid ch \<longrightarrow> rv = - EINVAL) \<and> (stm32_dma_ch_valid ch \<and> \<not> in_use (dma_ch s (nat ch)) \<longrightarrow> rv = - ENODEV)
     \<and> (rv \<noteq> 0 \<longrightarrow> s' = s \<or> irq_handler (dma_ch s (nat ch)) = None \<and> s' = upd_priv (nat ch) (\<lambda>p. p\<lparr>irq_data := 0\<rparr>) s)
     \<and> (ch' < 16 \<and> int ch' \<noteq> ch \<longrightarrow> ch_view ch' s' = ch_view ch' s \<and> keeps_flags ch' s s')
     \<and> in_use (dma_ch s' c) = in_use (dma_ch s c) \<and> not_dma (dmac_soc s') = not_dma (dmac_soc s)"
proof -
  have guard: "(\<not> stm32_dma_ch_valid ch \<longrightarrow> rv = - EINVAL \<and> s' = s)
      \<and> (stm32_dma_ch_valid ch \<and> \<not> in_use (dma_ch s (nat ch)) \<longrightarrow> rv = - ENODEV)"
    using assms by (cases op) (auto simp: dma_call_defs dmaapi_locked_def)
  have "int ch' \<noteq> ch \<Longrightarrow> stm32_dma_ch_valid ch \<Longrightarrow> ch' \<noteq> nat ch" by (auto simp: stm32_dma_ch_valid_def)
  moreover have "keeps_flags ch' s s" by (simp add: keeps_flags_def)
  ultimately have "ch_view ch' s' = ch_view ch' s \<and> keeps_flags ch' s s'" if "ch' < 16" "int ch' \<noteq> ch"
    using dma_do_local [OF assms, of ch'] dma_do_flags [OF assms, of ch'] that guard by metis
  then show ?thesis
    using guard dma_do_error [OF assms] dma_do_in_use [OF assms] dma_do_not_dma [OF assms] by blast
qed

theorem dma_call_isolated_witness:
  "ch_view 2 (snd (dma_do Enable 3 dmac_demo)) = ch_view 2 dmac_demo \<and> keeps_flags 2 dmac_demo (snd (dma_do Enable 3 dmac_demo))"
  using dma_call_isolated [of Enable 3 dmac_demo "fst (dma_do Enable 3 dmac_demo)" "snd (dma_do Enable 3 dmac_demo)" 2] by simp

text \<open>The parameters of a running channel cannot be changed: on a channel whose EN bit is set
  every configuration call fails and leaves the state as it is.\<close>

theorem dma_running_fixed:
  assumes "ch_enabled (nat ch) s" and "configures op"
  shows "fst (dma_do op ch s) \<noteq> 0 \<and> snd (dma_do op ch s) = s"
  using assms by (cases op) (auto simp: dma_call_defs dmaapi_locked_def split: if_splits)

theorem dma_running_fixed_witness:
  "fst (dma_do (Set_nitems 8) 3 (snd (dma_do Enable 3 dmac_demo))) \<noteq> 0"
  using dma_running_fixed [of 3 "snd (dma_do Enable 3 dmac_demo)" "Set_nitems 8"] dmac_demo(2)
  by (simp add: dma_call_defs dmaapi_locked_def stm32_dma_ch_valid_def ch_enabled_def streams_same soc_simps bit_simps)

text \<open>The calls a driver makes, with the list of their results.\<close>

fun dma_calls :: "dma_op list \<Rightarrow> int \<Rightarrow> dmac_state \<Rightarrow> int list \<times> dmac_state" where
  "dma_calls [] ch s = ([], s)"
| "dma_calls (op # ops) ch s =
     (let (rv, s) = dma_do op ch s; (rvs, s) = dma_calls ops ch s in (rv # rvs, s))"

lemma dma_calls_append:
  "dma_calls (xs @ ys) ch s = (let (rvs, s) = dma_calls xs ch s; (rvs', s) = dma_calls ys ch s in (rvs @ rvs', s))"
  by (induction xs arbitrary: s) (simp_all add: split_beta)

text \<open>Configuration calls on a stopped channel never fail when their arguments are in range, and
  each rewrites the registers of the stream by \<open>op_regs\<close>.\<close>

fun args_ok :: "dma_op \<Rightarrow> bool" where
  "args_ok (Init dir fpctrl pl dbm circ) \<longleftrightarrow> \<not> (dir > 2 \<or> fpctrl > 1 \<or> pl > 3 \<or> dbm > 1 \<or> circ > 1)"
| "args_ok (Init_fifo burst threshold) \<longleftrightarrow> \<not> (burst > 1 \<or> threshold > 3)"
| "args_ok (Set_periph addr inc bitwidth burst) \<longleftrightarrow> \<not> (inc > 1 \<or> bitwidth > 3 \<or> burst > 3)"
| "args_ok (Set_memory addr inc bitwidth burst) \<longleftrightarrow> \<not> (inc > 1 \<or> bitwidth > 3 \<or> burst > 3)"
| "args_ok _ \<longleftrightarrow> True"

fun op_regs :: "dma_op \<Rightarrow> dma_ch_regs \<Rightarrow> dma_ch_regs" where
  "op_regs (Init dir fpctrl pl dbm circ) r = r\<lparr>dma_ndtr := 0, dma_par := 0, dma_m0ar := 0, dma_m1ar := 0, dma_fcr := 0,
     dma_cr := init_cr dir fpctrl pl dbm circ (dma_cr r)\<rparr>"
| "op_regs (Init_fifo burst threshold) r = r\<lparr>dma_fcr := fifo_fcr burst threshold (dma_fcr r)\<rparr>"
| "op_regs (Set_periph addr inc bitwidth burst) r =
     r\<lparr>dma_par := addr, dma_cr := periph_cr inc bitwidth burst (dma_cr r)\<rparr>"
| "op_regs (Set_memory addr inc bitwidth burst) r =
     r\<lparr>dma_m0ar := addr, dma_cr := memory_cr inc bitwidth burst (dma_cr r)\<rparr>"
| "op_regs (Set_nitems n) r = r\<lparr>dma_ndtr := ucast n\<rparr>"
| "op_regs _ r = r"

lemma dma_do_config:
  assumes "configures op" "args_ok op" "stm32_dma_ch_valid ch" "in_use (dma_ch s (nat ch))" "\<not> ch_enabled (nat ch) s"
  shows "dma_do op ch s = (0, upd_ch_regs (nat ch) (op_regs op) s)"
  using assms by (cases op) (auto simp: dma_call_defs dmaapi_locked_def upd_ch_regs_def)

lemma op_regs_en: "args_ok op \<Longrightarrow> bit (dma_cr (op_regs op r)) 0 = bit (dma_cr r) 0"
  by (cases op) (simp_all add: not_less init_cr_fields periph_cr_fields memory_cr_fields set_fields_def bit_set_field_iff)

lemma dma_calls_config:
  assumes "list_all (\<lambda>op. configures op \<and> args_ok op) ops" "stm32_dma_ch_valid ch" "in_use (dma_ch s (nat ch))"
    "\<not> ch_enabled (nat ch) s"
  shows "dma_calls ops ch s = (replicate (length ops) 0, upd_ch_regs (nat ch) (fold op_regs ops) s)"
  using assms
proof (induction ops arbitrary: s)
  case Nil
  then show ?case by (simp add: upd_ch_regs_def upd_dma_ctrl_def)
next
  case (Cons op ops)
  have c: "nat ch < 16" using Cons.prems(2) by (auto simp: stm32_dma_ch_valid_def)
  let ?t = "upd_ch_regs (nat ch) (op_regs op) s"
  have "dma_do op ch s = (0, ?t)" using Cons.prems by (intro dma_do_config) auto
  moreover have "\<not> ch_enabled (nat ch) ?t"
    using Cons.prems op_regs_en by (simp add: ch_enabled_def streams_same [OF c])
  ultimately show ?case using Cons.IH [of ?t] Cons.prems by (simp add: soc_simps comp_def)
qed

text \<open>C11. A driver that owns a stopped channel and calls init, init_fifo, set_periph, set_memory,
  set_nitems and enable with arguments in range gets 0 from all of them, and the stream then runs
  with exactly that configuration: every field of the control word is what it asked for, the
  increment, size, burst and mode fields it did not mention are cleared, and the interrupt enables,
  the request source and the reserved bits are as before.\<close>

theorem dma_program_exact:
  assumes "stm32_dma_ch_valid ch" and "in_use (dma_ch s (nat ch))" and "\<not> ch_enabled (nat ch) s"
    and "dir \<le> 2" "fpctrl \<le> 1" "pl \<le> 3" "dbm \<le> 1" "circ \<le> 1" and "fburst \<le> 1" "threshold \<le> 3"
    and "pinc \<le> 1" "psize \<le> 3" "pburst \<le> 3" and "minc \<le> 1" "msize \<le> 3" "mburst \<le> 3"
  shows "\<exists>s'. dma_calls [Init dir fpctrl pl dbm circ, Init_fifo fburst threshold, Set_periph paddr pinc psize pburst,
             Set_memory maddr minc msize mburst, Set_nitems n, Enable] ch s = ([0, 0, 0, 0, 0, 0], s')
     \<and> (let r = dma_ch_regs (nat ch) s' in
        dma_par r = paddr \<and> dma_m0ar r = maddr \<and> dma_m1ar r = 0 \<and> dma_ndtr r = ucast n
        \<and> field 1 2 (dma_fcr r) = ucast fburst \<and> field 2 0 (dma_fcr r) = ucast threshold
        \<and> decode_cr (dma_cr r) = (decode_cr (dma_cr (dma_ch_regs (nat ch) s)))\<lparr>
            sc_dir := ucast dir, sc_pfctrl := ucast fpctrl, sc_pl := ucast pl, sc_dbm := ucast dbm, sc_circ := ucast circ,
            sc_pinc := ucast pinc, sc_psize := ucast psize, sc_pburst := ucast pburst,
            sc_minc := ucast minc, sc_msize := ucast msize, sc_mburst := ucast mburst,
            sc_pincos := 0, sc_ct := 0, sc_en := 1\<rparr>)"
proof -
  define ops where "ops = [Init dir fpctrl pl dbm circ, Init_fifo fburst threshold, Set_periph paddr pinc psize pburst,
             Set_memory maddr minc msize mburst, Set_nitems n]"
  have "list_all (\<lambda>op. configures op \<and> args_ok op) ops" using assms by (simp add: ops_def not_less)
  then have run: "dma_calls ops ch s = (replicate (length ops) 0, upd_ch_regs (nat ch) (fold op_regs ops) s)"
    by (rule dma_calls_config [OF _ assms(1-3)])
  let ?t = "upd_ch_regs (nat ch) (fold op_regs ops) s"
  have c: "nat ch < 16" using assms(1) by (auto simp: stm32_dma_ch_valid_def)
  have en: "decode_cr (r OR 1) = (decode_cr r)\<lparr>sc_en := 1\<rparr>" for r
    by (simp add: decode_cr_def field_en [simplified])
  have calls: "dma_calls (ops @ [Enable]) ch s = ([0, 0, 0, 0, 0, 0], snd (dma_do Enable ch ?t))"
    using assms(1,2) by (simp add: dma_calls_append run dma_call_defs dmaapi_locked_def soc_simps) (simp add: ops_def)
  moreover have "dma_ch_regs (nat ch) (snd (dma_do Enable ch ?t)) =
      (\<lambda>r. r\<lparr>dma_cr := dma_cr r OR 1\<rparr>) (fold op_regs ops (dma_ch_regs (nat ch) s))"
    using assms(1,2) c by (simp add: dma_call_defs dmaapi_locked_def soc_simps streams_same)
  moreover have "field 1 2 (fifo_fcr fburst threshold 0) = ucast fburst" "field 2 0 (fifo_fcr fburst threshold 0) = ucast threshold"
    unfolding fifo_fcr_fields [OF assms(9,10)] using u8_fits assms(9,10)
    by (simp_all add: set_fields_def field_set_field_same field_set_field_other)
  ultimately show ?thesis
    using assms(4-16) by (intro exI [of _ "snd (dma_do Enable ch ?t)"]) (simp add: ops_def Let_def en decode_ops)
qed

theorem dma_program_exact_witness:
  "\<exists>s'. dma_calls [Init 1 1 3 0 0, Init_fifo 1 3, Set_periph 0x40012C80 0 2 1, Set_memory 0x20010000 1 2 1,
       Set_nitems 128, Enable] 3 dmac_demo = ([0, 0, 0, 0, 0, 0], s')
     \<and> dma_m0ar (dma_ch_regs 3 s') = 0x20010000 \<and> sc_dir (decode_cr (dma_cr (dma_ch_regs 3 s'))) = 1"
  using dma_program_exact [of 3 dmac_demo 1 1 3 0 0 1 3 0 2 1 1 2 1 "0x40012C80" "0x20010000" 128] dmac_demo(2,3)
  by (auto simp: stm32_dma_ch_valid_def ch_enabled_def dma0_def Let_def)

text \<open>The order in which a driver sets the two ends of a transfer does not matter: on a stopped
  channel it owns, set_periph then set_memory and set_memory then set_periph return the same and
  leave the same state.\<close>

lemma dma_periph_memory_commute:
  assumes "stm32_dma_ch_valid ch" and "in_use (dma_ch s (nat ch))" and "\<not> ch_enabled (nat ch) s"
    and "pinc \<le> 1" "psize \<le> 3" "pburst \<le> 3" and "minc \<le> 1" "msize \<le> 3" "mburst \<le> 3"
  shows "dma_calls [Set_periph paddr pinc psize pburst, Set_memory maddr minc msize mburst] ch s
       = dma_calls [Set_memory maddr minc msize mburst, Set_periph paddr pinc psize pburst] ch s"
proof -
  have "periph_cr pinc psize pburst (memory_cr minc msize mburst r) = memory_cr minc msize mburst (periph_cr pinc psize pburst r)" for r
    unfolding periph_cr_fields [OF assms(4-6)] memory_cr_fields [OF assms(7-9)] set_fields_def
    using u8_fits assms(4-9) by (simp add: set_field_commute)
  then have "fold op_regs [Set_periph paddr pinc psize pburst, Set_memory maddr minc msize mburst]
      = fold op_regs [Set_memory maddr minc msize mburst, Set_periph paddr pinc psize pburst]"
    by (intro ext) simp
  then show ?thesis
    using dma_calls_config [OF _ assms(1-3), of "[Set_periph paddr pinc psize pburst, Set_memory maddr minc msize mburst]"]
      dma_calls_config [OF _ assms(1-3), of "[Set_memory maddr minc msize mburst, Set_periph paddr pinc psize pburst]"] assms(4-9)
    by (simp add: not_less del: dma_calls.simps fold.simps)
qed

text \<open>Clearing the interrupt flags of a channel, which the interrupt handler and the start of a
  transfer do, writes ones to exactly the five flags of that stream: no flag of another stream of
  the same register is touched, and no other register of the chip but this flag clear register.\<close>

lemma dma_flags_cleared:
  assumes "ch < 16"
  shows "let s' = stm32_dma_clear_irq_flags ch dma_all_irqf s in
     (bit (ifcr_of ch s') n \<longleftrightarrow> n \<in> (\<lambda>f. irqf_group ch + f) ` {0, 2, 3, 4, 5})
     \<and> (ch' div 4 = ch div 4 \<and> ch' \<noteq> ch \<longrightarrow> \<not> (bit (ifcr_of ch s') n \<and> n \<in> {irqf_group ch' ..< irqf_group ch' + 6}))
     \<and> dma_ch_regs c s' = dma_ch_regs c s \<and> not_dma (dmac_soc s') = not_dma (dmac_soc s)"
proof -
  have "irqf_group ch \<le> 22" using mod4_cases [of ch] by (elim disjE) (simp_all add: irqf_group_def)
  then have "bit (ifcr_of ch (stm32_dma_clear_irq_flags ch dma_all_irqf s)) n \<longleftrightarrow>
      n \<in> (\<lambda>f. irqf_group ch + f) ` {0, 2, 3, 4, 5}"
    using assms by (auto simp: ifcr_cleared bit_push_bit_iff bit_all_irqf image_iff dest: bit_u32_less)
  then show ?thesis
    using irqf_group_disjoint [of ch' ch] by (auto simp: Let_def soc_simps)
qed

text \<open>Installing and removing an interrupt handler: on an acquired channel without one the request
  installs it, registers the line of the channel and sets exactly the two interrupt enables it was
  asked for; a second request is refused with \<^verbatim>\<open>-EEXIST\<close>; freeing it with the same data returns 0
  and restores the bookkeeping, with both enables off; a failing \<^verbatim>\<open>request_irq\<close> leaves no trace.\<close>

theorem dma_irq_roundtrip:
  assumes "stm32_dma_ch_valid ch" and "in_use (dma_ch s (nat ch))" and "irq_handler (dma_ch s (nat ch)) = None"
    and "no_stale s" and "irq_line s (stm32f2_dma_irq ! nat ch) = None"
  shows "(req \<noteq> 0 \<longrightarrow> stm32_dma_ch_request_irq req ch (Some h) flags data s = (req, s))
   \<and> (\<exists>s1. stm32_dma_ch_request_irq 0 ch (Some h) flags data s = (0, s1)
      \<and> dma_ch s1 (nat ch) = \<lparr>in_use = True, irq_handler = Some h, irq_data = data\<rparr>
      \<and> irq_line s1 (stm32f2_dma_irq ! nat ch) = Some (nat ch)
      \<and> dma_ch_regs (nat ch) s1 = (dma_ch_regs (nat ch) s)\<lparr>dma_cr := cr_irq_enable flags (dma_cr (dma_ch_regs (nat ch) s))\<rparr>
      \<and> stm32_dma_ch_request_irq req' ch h' flags' data' s1 = (- EEXIST, s1)
      \<and> (\<exists>s2. stm32_dma_ch_free_irq ch data s1 = (0, s2) \<and> dma_ch s2 = dma_ch s \<and> irq_line s2 = irq_line s
          \<and> dma_ch_regs (nat ch) s2 = (dma_ch_regs (nat ch) s)\<lparr>dma_cr := cr_irq_enable 0 (dma_cr (dma_ch_regs (nat ch) s))\<rparr>))"
proof -
  define c where "c = nat ch"
  have c: "c < 16" "irq_data (dma_ch s c) = 0" "dma_ch s c = \<lparr>in_use = True, irq_handler = None, irq_data = 0\<rparr>"
    using assms by (auto simp: c_def stm32_dma_ch_valid_def no_stale_def)
  have cr: "cr_irq_enable flags r AND NOT (push_bit 4 1 OR push_bit 3 1) = cr_irq_enable 0 r" for r
    by (rule bit_word_eqI) (auto simp: cr_irq_enable_def Let_def bit_simps simp del: push_bit_of_1)
  show ?thesis
    using assms c(2,3) cr streams_same [OF c(1)]
    by (auto simp: stm32_dma_ch_request_irq_def stm32_dma_ch_free_irq_def dmaapi_locked_def c_def [symmetric] soc_simps
        Let_def fun_upd_idem_iff intro!: upd_priv_same)
qed

theorem dma_irq_roundtrip_witness:
  "\<exists>s1 s2. stm32_dma_ch_request_irq 0 3 (Some 7) 1 0x20000100 dmac_demo = (0, s1)
     \<and> stm32_dma_ch_free_irq 3 0x20000100 s1 = (0, s2) \<and> dma_ch s2 = dma_ch dmac_demo"
  using dma_irq_roundtrip [of 3 dmac_demo 0 7 1 "0x20000100" 0 None 0 0] dmac_demo
  by (auto simp: stm32_dma_ch_valid_def dmac_demo_irq)

text \<open>Putting a channel does not remove its interrupt handler: when an owner puts a channel without
  freeing the interrupt first, the next owner gets the channel but its request for an interrupt is
  refused with \<^verbatim>\<open>-EEXIST\<close>, and an interrupt of the channel still runs the handler of the old owner.\<close>

lemma dma_put_keeps_handler:
  assumes "stm32_dma_ch_valid ch" and "in_use (dma_ch s (nat ch))" and "irq_handler (dma_ch s (nat ch)) = Some h"
  shows "\<exists>s1 s2. stm32_dma_ch_put ch s = (0, s1) \<and> stm32_dma_ch_get ch s1 = (0, s2)
     \<and> stm32_dma_ch_request_irq req ch h' flags data s2 = (- EEXIST, s2)
     \<and> stm32_dma_isr call (nat ch) s2
       = stm32_dma_clear_irq_flags (nat ch) dma_all_irqf (call h (nat ch) (irq_data (dma_ch s (nat ch))) s2)"
  using assms
  by (simp add: stm32_dma_ch_put_def stm32_dma_ch_get_def stm32_dma_ch_request_irq_def dmaapi_locked_def
      stm32_dma_isr_def soc_simps)

end
