(* ===== verification/Dmainit.thy ===== *)
theory Dmainit
  imports Dmac_Api
begin

text \<open>
  The DMA request multiplexing of \<^verbatim>\<open>arch/arm/mach-stm32/dmainit.c\<close>: the table \<^verbatim>\<open>request_map\<close> of the
  request sources each stream can be connected to, and \<^verbatim>\<open>stm32_dma_init\<close>, which connects the
  sources the kernel is built for. \<^verbatim>\<open>stm32_dmac_init\<close>, which it calls last, initialises the
  spinlocks only.
\<close>

section \<open>Model\<close>

datatype stm32_dma_map_codes =
    I2C1_RX | I2C2_RX | I2C3_RX | I2C4_RX | I2C1_TX | I2C2_TX | I2C3_TX | I2C4_TX | SDMMC
  | UART1_RX | UART2_RX | UART3_RX | UART4_RX | UART5_RX | UART6_RX | UART7_RX | UART8_RX
  | UART1_TX | UART2_TX | UART3_TX | UART4_TX | UART5_TX | UART6_TX | UART7_TX | UART8_TX
  | NOTSUP | NOTDEF

record stm32f2_dma_ch_config =
  cfg_ch :: int
  cfg_code :: stm32_dma_map_codes

definition request_map :: "stm32_dma_map_codes list list" where
  "request_map = [
     [NOTSUP, I2C1_RX, NOTSUP,  NOTDEF, UART5_RX, UART8_TX, NOTSUP, NOTSUP],
     [NOTSUP, I2C3_RX, NOTDEF, NOTSUP, UART3_RX, UART7_TX, NOTSUP, NOTSUP],
     [NOTSUP, NOTSUP, I2C4_RX, I2C3_RX, UART4_RX, NOTSUP, NOTSUP, I2C2_RX],
     [NOTSUP, NOTDEF, NOTSUP, NOTDEF, UART3_TX, UART7_RX, NOTSUP, I2C2_RX],
     [NOTSUP, NOTSUP, NOTDEF, I2C3_TX, UART4_TX, NOTSUP, NOTSUP, UART3_TX],
     [NOTSUP, I2C1_RX, I2C4_TX, NOTSUP, UART2_RX, NOTSUP, NOTDEF, NOTSUP],
     [NOTSUP, I2C1_TX, NOTSUP, NOTSUP, UART2_TX, UART8_RX, NOTSUP, NOTSUP],
     [NOTSUP, I2C1_TX, NOTSUP, NOTSUP, UART5_TX, NOTSUP, NOTDEF, I2C2_TX],
     [NOTSUP, NOTDEF, NOTSUP, NOTSUP, NOTSUP, NOTDEF, NOTSUP, NOTDEF],
     [NOTSUP, NOTSUP, NOTSUP, NOTDEF, NOTSUP, UART6_RX, NOTSUP, NOTSUP],
     [NOTSUP, NOTSUP, NOTDEF, NOTSUP, UART1_RX, UART6_RX, NOTSUP, NOTSUP],
     [NOTSUP, NOTSUP, NOTSUP, NOTSUP, SDMMC, NOTSUP, NOTSUP, NOTSUP],
     [NOTSUP, NOTSUP, NOTSUP, NOTSUP, NOTDEF, NOTSUP, NOTSUP, NOTSUP],
     [NOTSUP, NOTSUP, NOTSUP, NOTSUP, UART1_RX, NOTDEF, NOTSUP, NOTSUP],
     [NOTSUP, NOTSUP, NOTSUP, NOTSUP, SDMMC, UART6_TX, NOTSUP, NOTSUP],
     [NOTSUP, NOTSUP, NOTSUP, NOTSUP, UART1_TX, UART6_TX, NOTDEF, NOTSUP]]"

datatype dmach =
    STM32F7_DMACH_I2C1_RX | STM32F7_DMACH_I2C1_TX | STM32F7_DMACH_I2C2_RX | STM32F7_DMACH_I2C2_TX
  | STM32F7_DMACH_I2C3_RX | STM32F7_DMACH_I2C3_TX | STM32F7_DMACH_I2C4_RX | STM32F7_DMACH_I2C4_TX
  | STM32F2_DMACH_SDIO

primrec dmach_no :: "dmach \<Rightarrow> int" where
  "dmach_no STM32F7_DMACH_I2C1_RX = 0"
| "dmach_no STM32F7_DMACH_I2C1_TX = 6"
| "dmach_no STM32F7_DMACH_I2C2_RX = 3"
| "dmach_no STM32F7_DMACH_I2C2_TX = 7"
| "dmach_no STM32F7_DMACH_I2C3_RX = 1"
| "dmach_no STM32F7_DMACH_I2C3_TX = 4"
| "dmach_no STM32F7_DMACH_I2C4_RX = 2"
| "dmach_no STM32F7_DMACH_I2C4_TX = 5"
| "dmach_no STM32F2_DMACH_SDIO = 11"

definition STM32_RCC_AHB1ENR_DMA1_MSK :: nat where [simp]: "STM32_RCC_AHB1ENR_DMA1_MSK = 21"
definition STM32_RCC_AHB1ENR_DMA2_MSK :: nat where [simp]: "STM32_RCC_AHB1ENR_DMA2_MSK = 22"

text \<open>The loop over the eight sources of a stream; it leaves 8 when none has the code.\<close>

definition find_source :: "nat \<Rightarrow> stm32_dma_map_codes \<Rightarrow> nat" where
  "find_source ch code = length (takeWhile (\<lambda>c. c \<noteq> code) (request_map ! ch))"

definition dma_clock_on :: "nat \<Rightarrow> dmac_state \<Rightarrow> dmac_state" where
  "dma_clock_on ch s = s\<lparr>dmac_soc := (dmac_soc s)\<lparr>rcc := (rcc (dmac_soc s))\<lparr>rcc_ahb1enr :=
     rcc_ahb1enr (rcc (dmac_soc s)) OR push_bit (if ch < STM32F2_DMA_CH_NUM_DMA1
       then STM32_RCC_AHB1ENR_DMA1_MSK else STM32_RCC_AHB1ENR_DMA2_MSK) 1\<rparr>\<rparr>\<rparr>"

definition dma_ch_config :: "stm32f2_dma_ch_config \<Rightarrow> dmac_state \<Rightarrow> int \<times> dmac_state" where
  "dma_ch_config cfg s =
     (if cfg_ch cfg < 0 \<or> cfg_ch cfg \<ge> int STM32F2_DMA_CH_NUM then (- EINVAL, s)
      else
        (let ch = nat (cfg_ch cfg); i = find_source ch (cfg_code cfg) in
         if i = 8 then (- EINVAL, s)
         else (0, upd_ch_regs ch (\<lambda>r. r\<lparr>dma_cr := push_bit (dma_bit STM32_DMA_CR_CHSEL_BIT) (of_nat i)\<rparr>) (dma_clock_on ch s))))"

fun dma_ch_config_table :: "stm32f2_dma_ch_config list \<Rightarrow> dmac_state \<Rightarrow> int \<times> dmac_state" where
  "dma_ch_config_table [] s = (0, s)"
| "dma_ch_config_table (e # table) s =
     (let (rv, s) = dma_ch_config e s in if rv \<noteq> 0 then (rv, s) else dma_ch_config_table table s)"

definition dmamux_entry :: "bool \<Rightarrow> int \<Rightarrow> stm32_dma_map_codes \<Rightarrow> stm32f2_dma_ch_config list" where
  "dmamux_entry defined ch code = (if defined then [\<lparr>cfg_ch = ch, cfg_code = code\<rparr>] else [])"

definition stm32f2_dmamux_table :: "kconfig \<Rightarrow> stm32f2_dma_ch_config list" where
  "stm32f2_dmamux_table cfg =
     (let i2c = (\<lambda>c. cfg CONFIG_I2C_STM32F7 \<and> cfg c) in
      dmamux_entry (i2c CONFIG_STM32_I2C1) (dmach_no STM32F7_DMACH_I2C1_RX) I2C1_RX @
      dmamux_entry (i2c CONFIG_STM32_I2C1) (dmach_no STM32F7_DMACH_I2C1_TX) I2C1_TX @
      dmamux_entry (i2c CONFIG_STM32_I2C2) (dmach_no STM32F7_DMACH_I2C2_RX) I2C2_RX @
      dmamux_entry (i2c CONFIG_STM32_I2C2) (dmach_no STM32F7_DMACH_I2C2_TX) I2C2_TX @
      dmamux_entry (i2c CONFIG_STM32_I2C3) (dmach_no STM32F7_DMACH_I2C3_RX) I2C3_RX @
      dmamux_entry (i2c CONFIG_STM32_I2C3) (dmach_no STM32F7_DMACH_I2C3_TX) I2C3_TX @
      dmamux_entry (i2c CONFIG_STM32_I2C4) (dmach_no STM32F7_DMACH_I2C4_RX) I2C4_RX @
      dmamux_entry (i2c CONFIG_STM32_I2C4) (dmach_no STM32F7_DMACH_I2C4_TX) I2C4_TX @
      dmamux_entry (cfg CONFIG_MMC_ARMMMCI) (dmach_no STM32F2_DMACH_SDIO) SDMMC)"

definition stm32_dma_init :: "kconfig \<Rightarrow> dmac_state \<Rightarrow> dmac_state" where
  "stm32_dma_init cfg s = snd (dma_ch_config_table (stm32f2_dmamux_table cfg) s)"

section \<open>Routing a table\<close>

text \<open>An entry that can be routed: a stream that has the source among its eight.\<close>

definition routable :: "stm32f2_dma_ch_config \<Rightarrow> bool" where
  "routable e \<longleftrightarrow> 0 \<le> cfg_ch e \<and> cfg_ch e < 16 \<and> cfg_code e \<in> set (request_map ! nat (cfg_ch e))"

lemma request_map_rows: "length request_map = 16" "ch < 16 \<Longrightarrow> length (request_map ! ch) = 8"
proof -
  have "list_all (\<lambda>row. length row = 8) request_map" "length request_map = 16" by (simp_all add: request_map_def)
  then show "length request_map = 16" "ch < 16 \<Longrightarrow> length (request_map ! ch) = 8" by (auto simp: list_all_length)
qed

lemma find_source_spec:
  assumes "ch < 16" "code \<in> set (request_map ! ch)"
  shows "find_source ch code < 8" "request_map ! ch ! find_source ch code = code"
proof -
  have "code \<in> set xs \<Longrightarrow> length (takeWhile (\<lambda>c. c \<noteq> code) xs) < length xs" for xs
    by (induction xs) auto
  note this [OF assms(2)]
  then show "find_source ch code < 8" "request_map ! ch ! find_source ch code = code"
    using nth_length_takeWhile [of "\<lambda>c. c \<noteq> code" "request_map ! ch"] request_map_rows(2) [OF assms(1)]
    by (auto simp: find_source_def)
qed

lemma dma_ch_config_routes:
  assumes "routable e"
  shows "dma_ch_config e s = (0, upd_ch_regs (nat (cfg_ch e))
    (\<lambda>r. r\<lparr>dma_cr := push_bit 25 (of_nat (find_source (nat (cfg_ch e)) (cfg_code e)))\<rparr>) (dma_clock_on (nat (cfg_ch e)) s))"
  using assms find_source_spec(1) [of "nat (cfg_ch e)" "cfg_code e"]
  by (auto simp: dma_ch_config_def routable_def Let_def nat_less_iff)

lemma dma_clock_on_simps [soc_simps]:
  "dma_ch_regs ch (dma_clock_on c s) = dma_ch_regs ch s" "dma_ch (dma_clock_on c s) = dma_ch s"
  "irq_line (dma_clock_on c s) = irq_line s"
  by (simp_all add: dma_clock_on_def dma_ch_regs_def dma_ctrl_def)

lemma table_regs:
  assumes "list_all routable table" "ch < 16" "distinct (map cfg_ch table)"
  shows "fst (dma_ch_config_table table s) = 0"
    and "dma_ch_regs ch (snd (dma_ch_config_table table s)) =
      (case find (\<lambda>e. cfg_ch e = int ch) table of
         None \<Rightarrow> dma_ch_regs ch s
       | Some e \<Rightarrow> (dma_ch_regs ch s)\<lparr>dma_cr := push_bit 25 (of_nat (find_source ch (cfg_code e)))\<rparr>)"
  using assms(1,3)
proof (induction table arbitrary: s)
  case (Cons e table)
  { case 1
    then show ?case using Cons.IH(1) by (simp add: dma_ch_config_routes)
  next
    case 2
    have "find (\<lambda>e'. cfg_ch e' = int ch) table = None" if "cfg_ch e = int ch"
      using 2(2) that by (simp add: find_None_iff) (metis image_eqI)
    moreover have "nat (cfg_ch e) < 16" "nat (cfg_ch e) = ch \<longleftrightarrow> cfg_ch e = int ch" using 2(1) by (auto simp: routable_def)
    ultimately show ?case
      using 2 Cons.IH(2) assms(2) by (auto simp: dma_ch_config_routes soc_simps streams_same streams_other split: option.splits) }
qed simp_all

lemma dmamux_routable: "list_all routable (stm32f2_dmamux_table cfg)"
proof -
  have entry: "list_all routable (dmamux_entry b ch code) \<longleftrightarrow> b \<longrightarrow> routable \<lparr>cfg_ch = ch, cfg_code = code\<rparr>" for b ch code
    by (simp add: dmamux_entry_def)
  show ?thesis by (simp add: stm32f2_dmamux_table_def Let_def entry) (simp add: routable_def request_map_def)
qed

lemma dmamux_distinct: "distinct (map cfg_ch (stm32f2_dmamux_table cfg))"
  by (simp add: stm32f2_dmamux_table_def dmamux_entry_def Let_def)

section \<open>Properties\<close>

text \<open>\<^verbatim>\<open>stm32_dma_init\<close> connects every request source of the build to its stream, for every kernel
  configuration: no entry of the table is refused; the control word of the stream of each entry
  selects a source that the request map of the chip gives that code, with everything else in it
  cleared; streams without an entry keep their registers; no other register of a stream changes.\<close>

theorem dma_init_routes:
  assumes "ch < 16"
  shows "fst (dma_ch_config_table (stm32f2_dmamux_table cfg) s) = 0
     \<and> (case find (\<lambda>e. cfg_ch e = int ch) (stm32f2_dmamux_table cfg) of
          None \<Rightarrow> dma_ch_regs ch (stm32_dma_init cfg s) = dma_ch_regs ch s
        | Some e \<Rightarrow> (\<exists>source < 8. request_map ! ch ! source = cfg_code e
            \<and> dma_ch_regs ch (stm32_dma_init cfg s) = (dma_ch_regs ch s)\<lparr>dma_cr := push_bit 25 (of_nat source)\<rparr>))"
proof -
  note t = table_regs [OF dmamux_routable [of cfg] assms dmamux_distinct, of s]
  have "find_source ch (cfg_code e) < 8 \<and> request_map ! ch ! find_source ch (cfg_code e) = cfg_code e"
    if "find (\<lambda>e. cfg_ch e = int ch) (stm32f2_dmamux_table cfg) = Some e" for e
  proof -
    have "e \<in> set (stm32f2_dmamux_table cfg)" "cfg_ch e = int ch" using that by (auto simp: find_Some_iff)
    then have "cfg_code e \<in> set (request_map ! ch)" using dmamux_routable [of cfg] by (auto simp: list_all_iff routable_def)
    then show ?thesis using find_source_spec assms by blast
  qed
  then show ?thesis using t by (auto simp: stm32_dma_init_def split: option.splits)
qed

theorem dma_init_routes_witness:
  "\<exists>source < 8. request_map ! 11 ! source = SDMMC
     \<and> dma_cr (dma_ch_regs 11 (stm32_dma_init board_config dmac_demo)) = push_bit 25 (of_nat source)"
  using dma_init_routes [of 11 board_config dmac_demo]
  by (auto simp: stm32f2_dmamux_table_def dmamux_entry_def board_config_def Let_def)

text \<open>\<^verbatim>\<open>dma_ch_config\<close> refuses a stream number outside 0 to 15 and a source the stream does not have,
  with \<^verbatim>\<open>-EINVAL\<close> and no effect; any other request switches the clock of the controller on.\<close>

lemma dma_ch_config_refuses:
  "case dma_ch_config e s of (rv, s') \<Rightarrow>
     (rv = 0 \<longleftrightarrow> routable e)
     \<and> (if rv = 0 then bit (rcc_ahb1enr (rcc (dmac_soc s'))) (if cfg_ch e < 8 then 21 else 22)
        else rv = - EINVAL \<and> s' = s)"
proof (cases "routable e")
  case True
  have "c < 8 \<Longrightarrow> bit (rcc_ahb1enr (rcc (dmac_soc (upd_ch_regs c f (dma_clock_on c s))))) 21"
    "\<not> c < 8 \<Longrightarrow> bit (rcc_ahb1enr (rcc (dmac_soc (upd_ch_regs c f (dma_clock_on c s))))) 22" for c f
    by (simp_all add: upd_ch_regs_def upd_dma_ctrl_def dma_clock_on_def bit_simps)
  then show ?thesis using True by (auto simp: dma_ch_config_routes routable_def nat_less_iff)
next
  case False
  have "find_source ch code = 8" if "ch < 16" "code \<notin> set (request_map ! ch)" for ch code
  proof -
    have "takeWhile (\<lambda>c. c \<noteq> code) (request_map ! ch) = request_map ! ch"
      using that(2) by (auto simp: takeWhile_eq_all_conv)
    then show ?thesis unfolding find_source_def using request_map_rows(2) [OF that(1)] by metis
  qed
  then show ?thesis using False by (auto simp: dma_ch_config_def routable_def Let_def nat_less_iff)
qed

end
