(* ===== verification/Dmamem.thy ===== *)
theory Dmamem
  imports Prelude
begin

text \<open>
  The allocator of coherent DMA memory, \<^verbatim>\<open>mm/dmamem.c\<close>: a region given by the boot loader, whose
  start is reserved for the frame buffer, and a first-fit allocator with two linked lists of block
  descriptors for the rest. The lists are lists here; a write through \<^verbatim>\<open>*pdm\<close> is an update of the
  list at that position. Whether \<^verbatim>\<open>kmalloc\<close> finds memory for a descriptor is an argument of the
  functions that call it. Addresses and sizes are 32-bit words and wrap as in the C code. The
  resource tree and the text of \<^verbatim>\<open>/proc/dmamem\<close> are not part of the state; its counters are.
\<close>

section \<open>Model\<close>

record dm_dsc =
  dm_blk_base :: u32
  dm_blk_size :: u32

record dmamem =
  dm_base :: u32
  dm_sz_all :: u32
  dm_sz_fb :: u32
  dm_lst_free :: "dm_dsc list"
  dm_lst_used :: "dm_dsc list"

record tag_dmamem =
  tag_base :: u32
  tag_sz_all :: u32
  tag_sz_fb :: u32

definition PAGE_SIZE :: u32 where "PAGE_SIZE = push_bit 12 1"

definition dmamem_boot :: dmamem where
  "dmamem_boot = \<lparr>dm_base = 0, dm_sz_all = 0, dm_sz_fb = 0, dm_lst_free = [], dm_lst_used = []\<rparr>"

definition parse_tag_dmamem :: "tag_dmamem \<Rightarrow> dmamem \<Rightarrow> int \<times> dmamem" where
  "parse_tag_dmamem tag s =
     (if tag_sz_all tag < tag_sz_fb tag then (0, s)
      else if tag_base tag AND (PAGE_SIZE - 1) \<noteq> 0 \<or> tag_sz_fb tag AND (PAGE_SIZE - 1) \<noteq> 0
              \<or> tag_sz_all tag AND (PAGE_SIZE - 1) \<noteq> 0 then (0, s)
      else (0, s\<lparr>dm_base := tag_base tag, dm_sz_fb := tag_sz_fb tag, dm_sz_all := tag_sz_all tag\<rparr>))"

definition dm_init :: "bool \<Rightarrow> dmamem \<Rightarrow> int \<times> dmamem" where
  "dm_init mem s =
     (if dm_sz_all s = 0 then (0, s)
      else if \<not> mem then (- ENOMEM, s)
      else (0, s\<lparr>dm_lst_free := [\<lparr>dm_blk_base = dm_base s + dm_sz_fb s, dm_blk_size = dm_sz_all s - dm_sz_fb s\<rparr>]\<rparr>))"

text \<open>The number of pages and the alignment that \<^verbatim>\<open>dmamem_alloc\<close> works with.\<close>

definition dm_count :: "u32 \<Rightarrow> u32" where
  "dm_count siz = (siz + PAGE_SIZE - 1) div PAGE_SIZE"

definition dm_align :: "u32 \<Rightarrow> u32" where
  "dm_align align =
     (let align = (if align = 0 then PAGE_SIZE else align) in
      if align mod PAGE_SIZE \<noteq> 0 then (align + PAGE_SIZE - 1) AND NOT (PAGE_SIZE - 1) else align)"

definition dm_abase :: "u32 \<Rightarrow> u32 \<Rightarrow> u32" where
  "dm_abase align base = ((base + align - 1) div align) * align"

text \<open>The search for a block that is large enough: the list before it, the block, the list after it.\<close>

fun dm_search :: "u32 \<Rightarrow> u32 \<Rightarrow> dm_dsc list \<Rightarrow> (dm_dsc list \<times> dm_dsc \<times> dm_dsc list) option" where
  "dm_search align need [] = None"
| "dm_search align need (dm # fs) =
     (if dm_abase align (dm_blk_base dm) + need \<le> dm_blk_base dm + dm_blk_size dm then Some ([], dm, fs)
      else map_option (\<lambda>(pre, d, post). (dm # pre, d, post)) (dm_search align need fs))"

text \<open>\<open>mem1\<close> and \<open>mem2\<close> are the outcomes of the two \<^verbatim>\<open>kmalloc\<close> calls; \<^verbatim>\<open>NULL\<close> is 0.\<close>

definition dmamem_alloc :: "bool \<Rightarrow> bool \<Rightarrow> u32 \<Rightarrow> u32 \<Rightarrow> dmamem \<Rightarrow> fault + u32 \<times> dmamem" where
  "dmamem_alloc mem1 mem2 siz align s =
     (let need = dm_count siz * PAGE_SIZE; align = dm_align align in
      if align = 0 \<and> dm_lst_free s \<noteq> [] then Inl DivByZero
      else case dm_search align need (dm_lst_free s) of
        None \<Rightarrow> Inr (0, s)
      | Some (pre, dm, post) \<Rightarrow>
          (let abase = dm_abase align (dm_blk_base dm);
               ndm = (abase - dm_blk_base dm + need < dm_blk_size dm) in
           if ndm \<and> \<not> mem1 then Inr (0, s)
           else if abase \<noteq> dm_blk_base dm \<and> \<not> mem2 then Inr (0, s)
           else
             (let adm = \<lparr>dm_blk_base = dm_blk_base dm, dm_blk_size = abase - dm_blk_base dm\<rparr>;
                  front = (if abase \<noteq> dm_blk_base dm then [adm] else []);
                  dm = (if abase \<noteq> dm_blk_base dm
                        then \<lparr>dm_blk_base = abase, dm_blk_size = dm_blk_size dm - dm_blk_size adm\<rparr> else dm);
                  new = (if ndm then \<lparr>dm_blk_base = dm_blk_base dm, dm_blk_size = need\<rparr> else dm);
                  back = (if ndm then [\<lparr>dm_blk_base = dm_blk_base new + dm_blk_size new,
                                        dm_blk_size = dm_blk_size dm - dm_blk_size new\<rparr>] else [])
              in Inr (dm_blk_base new,
                   s\<lparr>dm_lst_free := pre @ front @ back @ post, dm_lst_used := new # dm_lst_used s\<rparr>))))"

text \<open>Concatenation with the upper and with the lower neighbour.\<close>

definition dm_join_next :: "dm_dsc \<Rightarrow> dm_dsc list \<Rightarrow> dm_dsc list" where
  "dm_join_next dm post =
     (case post of
        next # rest \<Rightarrow>
          if dm_blk_base dm + dm_blk_size dm = dm_blk_base next
          then dm\<lparr>dm_blk_size := dm_blk_size dm + dm_blk_size next\<rparr> # rest else dm # post
      | [] \<Rightarrow> [dm])"

definition dm_join_prev :: "dm_dsc list \<Rightarrow> dm_dsc list \<Rightarrow> dm_dsc list" where
  "dm_join_prev pre fs =
     (if pre \<noteq> [] \<and> dm_blk_base (last pre) + dm_blk_size (last pre) = dm_blk_base (hd fs)
      then butlast pre @ (last pre)\<lparr>dm_blk_size := dm_blk_size (last pre) + dm_blk_size (hd fs)\<rparr> # tl fs
      else pre @ fs)"

definition dmamem_free :: "u32 \<Rightarrow> dmamem \<Rightarrow> dmamem" where
  "dmamem_free base s =
     (case dropWhile (\<lambda>d. dm_blk_base d \<noteq> base) (dm_lst_used s) of
        [] \<Rightarrow> s
      | dm # rest \<Rightarrow>
          (let used = takeWhile (\<lambda>d. dm_blk_base d \<noteq> base) (dm_lst_used s) @ rest;
               pre = takeWhile (\<lambda>d. dm_blk_base d < base) (dm_lst_free s);
               post = dropWhile (\<lambda>d. dm_blk_base d < base) (dm_lst_free s)
           in s\<lparr>dm_lst_used := used, dm_lst_free := dm_join_prev pre (dm_join_next dm post)\<rparr>))"

text \<open>The frame buffer at the start of the region; the first result is the return value.\<close>

definition dmamem_fb_get :: "dmamem \<Rightarrow> int \<times> (u32 \<times> u32) option" where
  "dmamem_fb_get s = (if dm_sz_all s = 0 then (- ENODEV, None) else (0, Some (dm_base s, dm_sz_fb s)))"

text \<open>The counters of \<^verbatim>\<open>dm_proc\<close>: number of blocks, total and largest size (32-bit int, compared as the
  unsigned size).\<close>

definition dm_proc_stats :: "dm_dsc list \<Rightarrow> nat \<times> u32 \<times> u32" where
  "dm_proc_stats ds = (length ds, fold (\<lambda>d t. t + dm_blk_size d) ds 0,
     fold (\<lambda>d m. if dm_blk_size d > m then dm_blk_size d else m) ds 0)"

end
