(* ===== verification/Dmamem_Inv.thy ===== *)
theory Dmamem_Inv
  imports Dmamem
begin

text \<open>
  The invariant of the DMA memory allocator and the lemmas that each operation keeps it: the free
  list is sorted, its blocks are not adjacent (freeing joins neighbours), no two blocks overlap,
  all are made of whole pages, and together the free and used blocks are the whole region.
\<close>

section \<open>Blocks as intervals of addresses\<close>

definition lo :: "dm_dsc \<Rightarrow> nat" where "lo d = unat (dm_blk_base d)"
definition hi :: "dm_dsc \<Rightarrow> nat" where "hi d = unat (dm_blk_base d) + unat (dm_blk_size d)"
definition blk :: "dm_dsc \<Rightarrow> nat set" where "blk d = {lo d ..< hi d}"

definition dm_wf :: "nat \<Rightarrow> nat \<Rightarrow> dm_dsc \<Rightarrow> bool" where
  "dm_wf L H d \<longleftrightarrow> L \<le> lo d \<and> lo d < hi d \<and> hi d \<le> H \<and> 4096 dvd lo d \<and> 4096 dvd hi d"

definition dm_ok :: "nat \<Rightarrow> nat \<Rightarrow> dmamem \<Rightarrow> bool" where
  "dm_ok L H s \<longleftrightarrow> 0 < L \<and> H < 2 ^ 32
     \<and> sorted_wrt (\<lambda>d e. hi d < lo e) (dm_lst_free s)
     \<and> sorted_wrt (\<lambda>d e. blk d \<inter> blk e = {}) (dm_lst_used s)
     \<and> (\<forall>d \<in> set (dm_lst_free s) \<union> set (dm_lst_used s). dm_wf L H d)
     \<and> (\<forall>d \<in> set (dm_lst_free s). \<forall>u \<in> set (dm_lst_used s). blk d \<inter> blk u = {})
     \<and> (\<Union>d \<in> set (dm_lst_free s) \<union> set (dm_lst_used s). blk d) = {L ..< H}"

lemma PAGE_SIZE_num: "PAGE_SIZE = 4096"
  by (simp add: PAGE_SIZE_def)

lemma wf_bounds:
  assumes "dm_wf L H d" "H < 2 ^ 32"
  shows "unat (dm_blk_base d + dm_blk_size d) = hi d" "hi d < 2 ^ 32"
  using assms by (auto simp: dm_wf_def hi_def unat_word_ariths)

lemma blk_nonempty: "dm_wf L H d \<Longrightarrow> lo d \<in> blk d"
  by (auto simp: dm_wf_def blk_def)

lemma blk_disjoint:
  assumes "dm_wf L H d" "dm_wf L H e"
  shows "blk d \<inter> blk e = {} \<longleftrightarrow> hi d \<le> lo e \<or> hi e \<le> lo d"
proof
  assume *: "blk d \<inter> blk e = {}"
  show "hi d \<le> lo e \<or> hi e \<le> lo d"
  proof (rule ccontr)
    assume "\<not> (hi d \<le> lo e \<or> hi e \<le> lo d)"
    then have "max (lo d) (lo e) \<in> blk d \<inter> blk e" using assms by (auto simp: blk_def dm_wf_def)
    then show False using * by blast
  qed
qed (auto simp: blk_def)

section \<open>Rounding\<close>

definition align_up :: "nat \<Rightarrow> nat \<Rightarrow> nat" where
  "align_up a b = (b + a - 1) div a * a"

lemma align_up_props:
  assumes "0 < a"
  shows "b \<le> align_up a b" "a dvd align_up a b" "align_up a b < b + a" "a dvd x \<Longrightarrow> b \<le> x \<Longrightarrow> align_up a b \<le> x"
proof -
  have eq: "(b + a - 1) = align_up a b + (b + a - 1) mod a" by (simp add: align_up_def)
  moreover have "(b + a - 1) mod a < a" using assms by simp
  ultimately show ge: "b \<le> align_up a b" and lt: "align_up a b < b + a" using assms by linarith+
  show "a dvd align_up a b" by (simp add: align_up_def)
  show "align_up a b \<le> x" if x: "a dvd x" "b \<le> x"
  proof -
    obtain k where k: "x = a * k" using x(1) by blast
    have "(b + a - 1) div a \<le> ((a - 1) + a * k) div a" using x(2) k assms by (intro div_le_mono) simp
    also have "\<dots> = k" using assms by (subst div_mult_self2) simp_all
    finally show ?thesis using k by (simp add: align_up_def mult.commute)
  qed
qed

lemma align_up_id: "0 < a \<Longrightarrow> a dvd b \<Longrightarrow> align_up a b = b"
  using align_up_props(1,4) [of a b] by (simp add: le_antisym)

lemma unat_dm_abase:
  assumes "align \<noteq> 0" "unat base + unat align \<le> 2 ^ 32"
  shows "unat (dm_abase align base) = align_up (unat align) (unat base)"
proof -
  have a: "0 < unat align" using assms(1) by (simp add: unat_gt_0)
  have s: "unat (base + align - 1) = unat base + unat align - 1"
  proof -
    have m: "unat (align - 1) = unat align - 1" using a by (metis Suc_leI One_nat_def unat_1 unat_sub word_le_nat_alt)
    have "unat (base + (align - 1)) = (unat base + (unat align - 1)) mod 2 ^ 32"
      by (simp only: unat_word_ariths(1) m) simp
    then show ?thesis using assms(2) a by (simp add: add_diff_eq)
  qed
  have "align_up (unat align) (unat base) \<le> unat base + unat align - 1"
    using align_up_props(3) [OF a, of "unat base"] by simp
  then have "align_up (unat align) (unat base) < 2 ^ 32" using assms(2) a by simp
  then show ?thesis
    unfolding dm_abase_def by (simp add: unat_word_ariths unat_div s align_up_def mod_mult_left_eq)
qed

lemma unat_need:
  assumes "unat siz + 4095 < 2 ^ 32"
  shows "unat (dm_count siz * PAGE_SIZE) = align_up 4096 (unat siz)"
proof -
  have "unat (siz + PAGE_SIZE - 1) = unat siz + 4095"
  proof -
    have e: "siz + PAGE_SIZE - 1 = siz + 4095" by (simp add: PAGE_SIZE_num)
    show ?thesis unfolding e using assms by (simp add: unat_word_ariths)
  qed
  then have c: "unat (dm_count siz) = (unat siz + 4095) div 4096" by (simp add: dm_count_def PAGE_SIZE_num unat_div)
  have "(unat siz + 4095) div 4096 * 4096 \<le> unat siz + 4095" by (rule div_times_less_eq_dividend)
  then have "(unat siz + 4095) div 4096 * 4096 < 2 ^ 32" using assms by (rule le_less_trans)
  then show ?thesis by (simp add: unat_word_ariths c PAGE_SIZE_num align_up_def mod_mult_left_eq)
qed

lemma page_round:
  "(x :: u32) AND NOT (PAGE_SIZE - 1) = push_bit 12 (drop_bit 12 x)"
proof -
  have "PAGE_SIZE - 1 = mask 12" by (simp add: PAGE_SIZE_num mask_eq_exp_minus_1)
  then show ?thesis by (simp only:) (rule bit_word_eqI, auto simp: bit_simps)
qed

lemma unat_page_round: "unat ((x :: u32) AND NOT (PAGE_SIZE - 1)) = unat x div 4096 * 4096"
proof -
  have "unat x div 4096 * 4096 \<le> unat x" by (rule div_times_less_eq_dividend)
  then have "unat x div 4096 * 4096 < 2 ^ 32" using unat_u32_less [of x] by simp
  moreover have "unat (drop_bit 12 x) = unat x div 4096" by (simp add: unat_drop_bit_eq) (simp add: drop_bit_eq_div)
  ultimately show ?thesis by (simp add: page_round push_bit_eq_mult unat_word_ariths mod_mult_left_eq mod_mult_right_eq)
qed

lemma unat_dm_align:
  assumes "unat align + 4095 < 2 ^ 32"
  shows "unat (dm_align align) = (if align = 0 then 4096 else align_up 4096 (unat align))"
proof (cases "align = 0 \<or> align mod PAGE_SIZE = 0")
  case True
  have "unat align mod 4096 = 0" if "align mod PAGE_SIZE = 0"
    using arg_cong [OF that, of unat] by (simp add: PAGE_SIZE_num unat_mod)
  moreover have "align_up 4096 b = b" if "b mod 4096 = 0" for b using that by (intro align_up_id) auto
  ultimately show ?thesis using True by (auto simp: dm_align_def PAGE_SIZE_num Let_def)
next
  case False
  have e: "align + PAGE_SIZE - 1 = align + 4095" by (simp add: PAGE_SIZE_num)
  have "unat (align + PAGE_SIZE - 1) = unat align + 4095" unfolding e using assms by (simp add: unat_word_ariths)
  then show ?thesis using False by (simp add: dm_align_def Let_def unat_page_round align_up_def)
qed

section \<open>Allocation\<close>

text \<open>
  A request that no intermediate sum wraps on: the size is not 0, and the end of the region, the
  size and the alignment together stay below 2^32 by two pages.
\<close>

definition dm_req :: "nat \<Rightarrow> u32 \<Rightarrow> u32 \<Rightarrow> bool" where
  "dm_req H siz align \<longleftrightarrow> siz \<noteq> 0 \<and> H + unat siz + unat align + 8192 \<le> 2 ^ 32"

abbreviation req_align :: "u32 \<Rightarrow> nat" where "req_align align \<equiv> unat (dm_align align)"
abbreviation req_need :: "u32 \<Rightarrow> nat" where "req_need siz \<equiv> align_up 4096 (unat siz)"

lemma dm_req_facts:
  assumes "dm_req H siz align"
  shows "unat (dm_count siz * PAGE_SIZE) = req_need siz" "0 < req_need siz" "unat siz \<le> req_need siz" "4096 dvd req_need siz"
    and "0 < req_align align" "4096 dvd req_align align" "dm_align align \<noteq> 0" "H + req_align align + req_need siz < 2 ^ 32"
proof -
  have siz: "0 < unat siz" using assms by (simp add: dm_req_def unat_gt_0)
  have a: "req_align align = (if align = 0 then 4096 else align_up 4096 (unat align))"
    using assms by (intro unat_dm_align) (simp add: dm_req_def)
  show "unat (dm_count siz * PAGE_SIZE) = req_need siz" using assms by (intro unat_need) (simp add: dm_req_def)
  show "unat siz \<le> req_need siz" "4096 dvd req_need siz" by (simp_all add: align_up_props)
  then show "0 < req_need siz" using siz by linarith
  show pos: "0 < req_align align"
  proof (cases "align = 0")
    case False
    then have "0 < unat align" by (simp add: unat_gt_0)
    then show ?thesis using a False align_up_props(1) [of 4096 "unat align"] by simp
  qed (use a in simp)
  then show "dm_align align \<noteq> 0" by auto
  show "4096 dvd req_align align" using a by (simp add: align_up_props)
  show "H + req_align align + req_need siz < 2 ^ 32"
    using assms a align_up_props(3) [of 4096 "unat siz"] align_up_props(3) [of 4096 "unat align"]
    by (auto simp: dm_req_def split: if_splits)
qed

definition fit :: "nat \<Rightarrow> nat \<Rightarrow> dm_dsc \<Rightarrow> bool" where
  "fit A N d \<longleftrightarrow> align_up A (lo d) + N \<le> hi d"

lemma abase_wf:
  assumes "dm_req H siz align" "dm_wf L H d" "H < 2 ^ 32"
  shows "unat (dm_abase (dm_align align) (dm_blk_base d)) = align_up (req_align align) (lo d)"
    and "dm_abase (dm_align align) (dm_blk_base d) + dm_count siz * PAGE_SIZE \<le> dm_blk_base d + dm_blk_size d
      \<longleftrightarrow> fit (req_align align) (req_need siz) d"
proof -
  note f = dm_req_facts [OF assms(1)]
  have lo: "lo d \<le> H" using assms(2) by (simp add: dm_wf_def)
  show ab: "unat (dm_abase (dm_align align) (dm_blk_base d)) = align_up (req_align align) (lo d)"
    using unat_dm_abase [of "dm_align align" "dm_blk_base d"] f(7,8) lo by (simp add: lo_def)
  have "align_up (req_align align) (lo d) + req_need siz < 2 ^ 32"
    using align_up_props(3) [OF f(5), of "lo d"] f(8) lo by linarith
  then show "dm_abase (dm_align align) (dm_blk_base d) + dm_count siz * PAGE_SIZE \<le> dm_blk_base d + dm_blk_size d
      \<longleftrightarrow> fit (req_align align) (req_need siz) d"
    using f(1) wf_bounds [OF assms(2,3)] by (simp add: word_le_nat_alt unat_word_ariths(1) ab fit_def)
qed

lemma dm_search_first_fit:
  assumes "dm_req H siz align" "\<forall>d \<in> set fs. dm_wf L H d" "H < 2 ^ 32"
  shows "case dm_search (dm_align align) (dm_count siz * PAGE_SIZE) fs of
      None \<Rightarrow> \<forall>d \<in> set fs. \<not> fit (req_align align) (req_need siz) d
    | Some (pre, d, post) \<Rightarrow> fs = pre @ d # post \<and> fit (req_align align) (req_need siz) d
        \<and> (\<forall>e \<in> set pre. \<not> fit (req_align align) (req_need siz) e)"
  using assms(2)
proof (induction fs)
  case (Cons d fs)
  have "dm_wf L H d" using Cons.prems by simp
  note fit = abase_wf(2) [OF assms(1) this assms(3)]
  show ?case using Cons by (auto simp: fit split: option.splits)
qed simp

text \<open>\<open>spans ds x y\<close>: the list is one block from \<open>x\<close> to \<open>y\<close>, or empty when that is nothing.\<close>

definition spans :: "dm_dsc list \<Rightarrow> nat \<Rightarrow> nat \<Rightarrow> bool" where
  "spans ds x y \<longleftrightarrow> x = y \<and> ds = [] \<or> x < y \<and> (\<exists>d. ds = [d] \<and> lo d = x \<and> hi d = y)"

text \<open>
  What an allocation does: nothing, when no block fits or a descriptor cannot be had; otherwise it
  cuts the first block that fits into an unused front, the new block and an unused rear.
\<close>

definition alloc_cut :: "nat \<Rightarrow> nat \<Rightarrow> dmamem \<Rightarrow> u32 \<Rightarrow> dmamem \<Rightarrow> bool" where
  "alloc_cut A N s b s' \<longleftrightarrow> (\<exists>pre dm post front new rear. dm_lst_free s = pre @ dm # post \<and> fit A N dm
     \<and> (\<forall>e \<in> set pre. \<not> fit A N e) \<and> b = dm_blk_base new \<and> lo new = align_up A (lo dm) \<and> hi new = lo new + N
     \<and> spans front (lo dm) (lo new) \<and> spans rear (hi new) (hi dm)
     \<and> s' = s\<lparr>dm_lst_free := pre @ front @ rear @ post, dm_lst_used := new # dm_lst_used s\<rparr>)"

text \<open>The three pieces of a block \<open>dm\<close> cut at address \<open>b\<close> for \<open>n\<close> bytes, as the code computes them.\<close>

definition cut_front :: "dm_dsc \<Rightarrow> u32 \<Rightarrow> dm_dsc list" where
  "cut_front dm b = (if b \<noteq> dm_blk_base dm then [\<lparr>dm_blk_base = dm_blk_base dm, dm_blk_size = b - dm_blk_base dm\<rparr>] else [])"

definition cut_new :: "dm_dsc \<Rightarrow> u32 \<Rightarrow> u32 \<Rightarrow> dm_dsc" where
  "cut_new dm b n = \<lparr>dm_blk_base = b, dm_blk_size =
     (if b - dm_blk_base dm + n < dm_blk_size dm then n else dm_blk_size dm - (b - dm_blk_base dm))\<rparr>"

definition cut_back :: "dm_dsc \<Rightarrow> u32 \<Rightarrow> u32 \<Rightarrow> dm_dsc list" where
  "cut_back dm b n = (if b - dm_blk_base dm + n < dm_blk_size dm
     then [\<lparr>dm_blk_base = b + n, dm_blk_size = dm_blk_size dm - (b - dm_blk_base dm) - n\<rparr>] else [])"

lemma dmamem_alloc_found:
  assumes "dm_search (dm_align align) (dm_count siz * PAGE_SIZE) (dm_lst_free s) = Some (pre, dm, post)"
    and "dm_align align \<noteq> 0"
  defines "n \<equiv> dm_count siz * PAGE_SIZE" and "b \<equiv> dm_abase (dm_align align) (dm_blk_base dm)"
  shows "dmamem_alloc mem1 mem2 siz align s =
    (if b - dm_blk_base dm + n < dm_blk_size dm \<and> \<not> mem1 \<or> b \<noteq> dm_blk_base dm \<and> \<not> mem2 then Inr (0, s)
     else Inr (b, s\<lparr>dm_lst_free := pre @ cut_front dm b @ cut_back dm b n @ post,
                   dm_lst_used := cut_new dm b n # dm_lst_used s\<rparr>))"
proof (cases "b = dm_blk_base dm")
  case True
  have "\<lparr>dm_blk_base = dm_blk_base dm, dm_blk_size = dm_blk_size dm\<rparr> = dm" by (cases dm) simp
  then show ?thesis using assms(1,2) True
    by (simp add: dmamem_alloc_def Let_def cut_front_def cut_new_def cut_back_def b_def n_def)
next
  case False
  then show ?thesis using assms(1,2)
    by (simp add: dmamem_alloc_def Let_def cut_front_def cut_new_def cut_back_def b_def n_def)
qed

lemma cut_pieces:
  assumes "lo dm \<le> unat b" "unat b + unat n \<le> hi dm" "hi dm < 2 ^ 32" "0 < unat n"
  shows "spans (cut_front dm b) (lo dm) (unat b)" "spans (cut_back dm b n) (unat b + unat n) (hi dm)"
    and "lo (cut_new dm b n) = unat b" "hi (cut_new dm b n) = unat b + unat n"
proof -
  have w: "unat (b - dm_blk_base dm) = unat b - lo dm" using assms(1) by (simp add: lo_def unat_sub word_le_nat_alt)
  have w2: "unat (b - dm_blk_base dm + n) = unat b - lo dm + unat n" using assms by (simp add: unat_word_ariths(1) w)
  have ndm: "b - dm_blk_base dm + n < dm_blk_size dm \<longleftrightarrow> unat b + unat n < hi dm"
    using assms w2 by (auto simp: word_less_nat_alt lo_def hi_def)
  have sz: "unat (dm_blk_size dm - (b - dm_blk_base dm)) = hi dm - unat b"
    using assms w by (subst unat_sub) (auto simp: word_le_nat_alt lo_def hi_def)
  have bn: "unat (b + n) = unat b + unat n" using assms by (simp add: unat_word_ariths(1))
  have rest: "unat (dm_blk_size dm - (b - dm_blk_base dm) - n) = hi dm - (unat b + unat n)"
    using assms sz by (subst unat_sub) (auto simp: word_le_nat_alt)
  show "spans (cut_front dm b) (lo dm) (unat b)"
    using assms(1) w by (auto simp: spans_def cut_front_def lo_def hi_def word_unat_eq_iff)
  show "spans (cut_back dm b n) (unat b + unat n) (hi dm)"
    using assms(2) ndm bn rest by (auto simp: spans_def cut_back_def lo_def hi_def)
  show "lo (cut_new dm b n) = unat b" "hi (cut_new dm b n) = unat b + unat n"
    using assms(2) ndm sz by (auto simp: cut_new_def lo_def hi_def)
qed

lemma dmamem_alloc_cases:
  assumes "dm_ok L H s" "dm_req H siz align"
  obtains (none) "\<forall>d \<in> set (dm_lst_free s). \<not> fit (req_align align) (req_need siz) d"
      "dmamem_alloc mem1 mem2 siz align s = Inr (0, s)"
    | (nomem) "\<not> (mem1 \<and> mem2)" "dmamem_alloc mem1 mem2 siz align s = Inr (0, s)"
    | (cut) b s' where "dmamem_alloc mem1 mem2 siz align s = Inr (b, s')" "alloc_cut (req_align align) (req_need siz) s b s'"
proof -
  let ?a = "dm_align align" and ?n = "dm_count siz * PAGE_SIZE"
  let ?A = "req_align align" and ?N = "req_need siz"
  note f = dm_req_facts [OF assms(2)]
  have H: "H < 2 ^ 32" and wf: "\<forall>d \<in> set (dm_lst_free s). dm_wf L H d" using assms(1) by (auto simp: dm_ok_def)
  note search = dm_search_first_fit [OF assms(2) wf H]
  show ?thesis
  proof (cases "dm_search ?a ?n (dm_lst_free s)")
    case None
    then show ?thesis using search none f(7) by (auto simp: dmamem_alloc_def Let_def)
  next
    case (Some x)
    then obtain pre dm post where x: "dm_search ?a ?n (dm_lst_free s) = Some (pre, dm, post)" by (cases x) auto
    then have split: "dm_lst_free s = pre @ dm # post" "fit ?A ?N dm" "\<forall>e \<in> set pre. \<not> fit ?A ?N e" using search by auto
    have d: "dm_wf L H dm" using wf split(1) by simp
    let ?b = "dm_abase ?a (dm_blk_base dm)"
    let ?t = "s\<lparr>dm_lst_free := pre @ cut_front dm ?b @ cut_back dm ?b ?n @ post, dm_lst_used := cut_new dm ?b ?n # dm_lst_used s\<rparr>"
    have ab: "unat ?b = align_up ?A (lo dm)" by (rule abase_wf(1) [OF assms(2) d H])
    have "lo dm \<le> unat ?b" "unat ?b + unat ?n \<le> hi dm" "hi dm < 2 ^ 32" "0 < unat ?n"
      using align_up_props(1) [OF f(5), of "lo dm"] split(2) wf_bounds(2) [OF d H] f(1,2) by (simp_all add: ab fit_def)
    note p = cut_pieces [OF this, unfolded f(1)]
    have "alloc_cut ?A ?N s ?b ?t"
      unfolding alloc_cut_def using split p ab
      by (intro exI [of _ pre] exI [of _ dm] exI [of _ post] exI [of _ "cut_front dm ?b"] exI [of _ "cut_new dm ?b ?n"]
          exI [of _ "cut_back dm ?b ?n"]) (simp add: cut_new_def)
    then show ?thesis
      using dmamem_alloc_found [OF x f(7), of mem1 mem2] nomem cut by (auto split: if_splits)
  qed
qed

definition free_set :: "dmamem \<Rightarrow> nat set" where
  "free_set s = (\<Union>d \<in> set (dm_lst_free s). blk d)"

lemma spans_facts:
  assumes "spans ds x y"
  shows "(\<Union>d \<in> set ds. blk d) = {x ..< y}" "sorted_wrt P ds" "d \<in> set ds \<Longrightarrow> lo d = x \<and> hi d = y \<and> x < y" "x \<le> y"
  using assms by (auto simp: spans_def blk_def)

lemma alloc_cut_ok:
  assumes ok: "dm_ok L H s" and cut: "alloc_cut A N s b s'" and pos: "0 < A" "0 < N" and dvd: "4096 dvd A" "4096 dvd N"
  shows "dm_ok L H s'"
    and "\<exists>new. dm_lst_used s' = new # dm_lst_used s \<and> dm_blk_base new = b \<and> dm_wf L H new \<and> hi new = lo new + N
      \<and> A dvd lo new \<and> (\<forall>u \<in> set (dm_lst_used s). blk new \<inter> blk u = {}) \<and> blk new \<subseteq> free_set s
      \<and> free_set s' = free_set s - blk new"
proof -
  obtain pre dm post front new rear where s: "dm_lst_free s = pre @ dm # post" and fit: "fit A N dm" and b: "b = dm_blk_base new"
    and new: "lo new = align_up A (lo dm)" "hi new = lo new + N"
    and sp: "spans front (lo dm) (lo new)" "spans rear (hi new) (hi dm)"
    and s': "s' = s\<lparr>dm_lst_free := pre @ front @ rear @ post, dm_lst_used := new # dm_lst_used s\<rparr>"
    using cut unfolding alloc_cut_def by blast
  note al = align_up_props [OF pos(1), of "lo dm"]
  have wf: "\<forall>d \<in> set pre \<union> {dm} \<union> set post \<union> set (dm_lst_used s). dm_wf L H d" and H: "0 < L" "H < 2 ^ 32"
    and sorted: "sorted_wrt (\<lambda>d e. hi d < lo e) (pre @ dm # post)"
    and used: "sorted_wrt (\<lambda>d e. blk d \<inter> blk e = {}) (dm_lst_used s)"
    and disj: "\<forall>d \<in> set pre \<union> {dm} \<union> set post. \<forall>u \<in> set (dm_lst_used s). blk d \<inter> blk u = {}"
    and cover: "(\<Union>d \<in> set pre \<union> {dm} \<union> set post \<union> set (dm_lst_used s). blk d) = {L ..< H}"
    using ok s by (auto simp: dm_ok_def)
  have dm: "dm_wf L H dm" using wf by simp
  have le: "lo dm \<le> lo new" "lo new < hi new" "hi new \<le> hi dm" using al(1) fit new pos(2) by (auto simp: fit_def)
  have page: "4096 dvd lo new" "4096 dvd hi new"
    using al(2) new dvd by (auto intro: dvd_trans)
  have pieces: "blk dm = (\<Union>d \<in> set front. blk d) \<union> blk new \<union> (\<Union>d \<in> set rear. blk d)"
    unfolding spans_facts(1) [OF sp(1)] spans_facts(1) [OF sp(2)] using le by (auto simp: blk_def)
  have wfnew: "dm_wf L H new" using dm le page by (auto simp: dm_wf_def)
  have wf': "\<forall>d \<in> set front \<union> set rear. dm_wf L H d"
    using dm le page spans_facts(3) [OF sp(1)] spans_facts(3) [OF sp(2)] by (auto simp: dm_wf_def)
  have sub: "blk d \<subseteq> blk dm" if "d \<in> set front \<union> {new} \<union> set rear" for d using that pieces by auto
  have fnew: "blk d \<inter> blk new = {}" if "d \<in> set pre \<union> set post \<union> set front \<union> set rear" for d
    using that sorted le spans_facts(3) [OF sp(1), of d] spans_facts(3) [OF sp(2), of d]
    by (fastforce simp: blk_def sorted_wrt_append)
  have sorted': "sorted_wrt (\<lambda>d e. hi d < lo e) (pre @ front @ rear @ post)"
    using sorted le spans_facts(2,3) [OF sp(1)] spans_facts(2,3) [OF sp(2)]
    by (fastforce simp: sorted_wrt_append)
  have du: "blk dm \<inter> blk u = {}" if "u \<in> set (dm_lst_used s)" for u using disj that by simp
  have pu: "blk d \<inter> blk u = {}" if "d \<in> set front \<union> {new} \<union> set rear" "u \<in> set (dm_lst_used s)" for d u
    using du [OF that(2)] sub [OF that(1)] by blast
  then have nused: "\<forall>u \<in> set (dm_lst_used s). blk new \<inter> blk u = {}" by simp
  have disj': "\<forall>d \<in> set (pre @ front @ rear @ post). \<forall>u \<in> set (new # dm_lst_used s). blk d \<inter> blk u = {}"
  proof (intro ballI)
    fix d u assume "d \<in> set (pre @ front @ rear @ post)" "u \<in> set (new # dm_lst_used s)"
    then consider "u = new" "d \<in> set pre \<union> set post \<union> set front \<union> set rear"
      | "u \<in> set (dm_lst_used s)" "d \<in> set pre \<union> set post"
      | "u \<in> set (dm_lst_used s)" "d \<in> set front \<union> {new} \<union> set rear" by auto
    then show "blk d \<inter> blk u = {}" using disj fnew pu by cases simp_all
  qed
  have cover': "(\<Union>d \<in> set (pre @ front @ rear @ post) \<union> set (new # dm_lst_used s). blk d) = {L ..< H}"
    using cover pieces by auto
  show "dm_ok L H s'"
    using wf wf' wfnew H sorted' used nused disj' cover' by (auto simp: dm_ok_def s')
  have "free_set s' = free_set s - blk new"
    using pieces fnew by (fastforce simp: free_set_def s s')
  then show "\<exists>new. dm_lst_used s' = new # dm_lst_used s \<and> dm_blk_base new = b \<and> dm_wf L H new \<and> hi new = lo new + N
      \<and> A dvd lo new \<and> (\<forall>u \<in> set (dm_lst_used s). blk new \<inter> blk u = {}) \<and> blk new \<subseteq> free_set s
      \<and> free_set s' = free_set s - blk new"
    using wfnew new al(2) nused sub [of new] b s' s by (intro exI [of _ new]) (auto simp: free_set_def)
qed

end
