(* ===== verification/Dmamem_Free.thy ===== *)
theory Dmamem_Free
  imports Dmamem_Inv
begin

text \<open>
  Freeing: joining with the neighbours keeps the invariant and gives the block back; allocating and
  then freeing restores both lists.
\<close>

section \<open>Joining neighbours\<close>

abbreviation dm_sorted :: "dm_dsc list \<Rightarrow> bool" where
  "dm_sorted \<equiv> sorted_wrt (\<lambda>d e. hi d < lo e)"

lemma dm_join:
  assumes "dm_wf L H d" "dm_wf L H e" "hi d = lo e" "H < 2 ^ 32"
  defines "x \<equiv> d\<lparr>dm_blk_size := dm_blk_size d + dm_blk_size e\<rparr>"
  shows "lo x = lo d" "hi x = hi e" "dm_wf L H x" "blk x = blk d \<union> blk e"
proof -
  have "unat (dm_blk_size d) + unat (dm_blk_size e) < 2 ^ 32" using assms(1-4) by (auto simp: dm_wf_def lo_def hi_def)
  then have "unat (dm_blk_size d + dm_blk_size e) = unat (dm_blk_size d) + unat (dm_blk_size e)"
    by (simp add: unat_word_ariths)
  then show x: "lo x = lo d" "hi x = hi e" using assms(3) by (auto simp: x_def lo_def hi_def)
  show "dm_wf L H x" "blk x = blk d \<union> blk e" using assms(1-3) by (auto simp: dm_wf_def blk_def x)
qed

lemma adjacent_iff:
  assumes "dm_wf L H d" "H < 2 ^ 32"
  shows "dm_blk_base d + dm_blk_size d = dm_blk_base e \<longleftrightarrow> hi d = lo e"
  using wf_bounds(1) [OF assms] by (auto simp: lo_def word_unat_eq_iff)

lemma join_next:
  assumes u: "dm_wf L H u" and post: "\<forall>e \<in> set post. dm_wf L H e" "dm_sorted post" "\<forall>e \<in> set post. hi u \<le> lo e"
    and H: "H < 2 ^ 32"
  shows "\<exists>x ps. dm_join_next u post = x # ps \<and> dm_blk_base x = dm_blk_base u \<and> dm_wf L H x \<and> dm_sorted (x # ps)
    \<and> set ps \<subseteq> set post \<and> blk x \<union> (\<Union>e \<in> set ps. blk e) = blk u \<union> (\<Union>e \<in> set post. blk e)"
proof (cases post)
  case Nil
  then show ?thesis using u by (simp add: dm_join_next_def)
next
  case (Cons e ps)
  note e = adjacent_iff [OF u H, of e]
  show ?thesis
  proof (cases "hi u = lo e")
    case True
    note x = dm_join [OF u _ True H]
    have "dm_join_next u post = u\<lparr>dm_blk_size := dm_blk_size u + dm_blk_size e\<rparr> # ps"
      using Cons True e by (simp add: dm_join_next_def)
    then show ?thesis using Cons post x by auto
  next
    case False
    then have "hi u < lo e" using post(3) Cons by force
    moreover have "lo e \<le> lo d" if "d \<in> set ps" for d using post(1,2) Cons that by (fastforce simp: dm_wf_def)
    ultimately have "\<forall>d \<in> set post. hi u < lo d" using Cons by fastforce
    then show ?thesis using Cons u post False e by (auto simp: dm_join_next_def)
  qed
qed

lemma join_prev:
  assumes x: "dm_wf L H x" "dm_sorted (x # ps)" "\<forall>e \<in> set ps. dm_wf L H e"
    and pre: "\<forall>e \<in> set pre. dm_wf L H e" "dm_sorted pre" "\<forall>e \<in> set pre. hi e \<le> lo x" and H: "H < 2 ^ 32"
  shows "dm_sorted (dm_join_prev pre (x # ps))" "\<forall>e \<in> set (dm_join_prev pre (x # ps)). dm_wf L H e"
    and "(\<Union>e \<in> set (dm_join_prev pre (x # ps)). blk e) = (\<Union>e \<in> set pre. blk e) \<union> blk x \<union> (\<Union>e \<in> set ps. blk e)"
proof -
  have x_ps: "lo x < lo e" if "e \<in> set ps" for e using x(1,2) that by (fastforce simp: dm_wf_def)
  have "dm_sorted (dm_join_prev pre (x # ps)) \<and> (\<forall>e \<in> set (dm_join_prev pre (x # ps)). dm_wf L H e)
    \<and> (\<Union>e \<in> set (dm_join_prev pre (x # ps)). blk e) = (\<Union>e \<in> set pre. blk e) \<union> blk x \<union> (\<Union>e \<in> set ps. blk e)"
  proof (cases pre rule: rev_cases)
    case Nil
    then show ?thesis using x by (simp add: dm_join_prev_def)
  next
    case (snoc qs d)
    have d: "dm_wf L H d" "hi d \<le> lo x" "\<forall>q \<in> set qs. hi q < lo d" "dm_sorted qs"
      using pre snoc by (auto simp: sorted_wrt_append)
    note a = adjacent_iff [OF d(1) H, of x]
    show ?thesis
    proof (cases "hi d = lo x")
      case True
      let ?y = "d\<lparr>dm_blk_size := dm_blk_size d + dm_blk_size x\<rparr>"
      note y = dm_join [OF d(1) x(1) True H]
      have "dm_join_prev pre (x # ps) = qs @ ?y # ps" using snoc a True by (simp add: dm_join_prev_def)
      moreover have "hi q < lo e" if "q \<in> set qs" "e \<in> set ps" for q e
        using that d(1,2,3) x_ps [OF that(2)] by (fastforce simp: dm_wf_def)
      ultimately show ?thesis
        using snoc d x pre(1) y by (auto simp: sorted_wrt_append)
    next
      case False
      then have "hi d < lo x" using d(2) by simp
      then have "hi q < lo e" if "q \<in> set pre" "e \<in> set (x # ps)" for q e
        using that d x_ps snoc by (fastforce simp: dm_wf_def)
      moreover have "dm_join_prev pre (x # ps) = pre @ x # ps" using snoc a False by (simp add: dm_join_prev_def)
      ultimately show ?thesis using x pre(1,2) by (auto simp: sorted_wrt_append)
    qed
  qed
  then show "dm_sorted (dm_join_prev pre (x # ps))" "\<forall>e \<in> set (dm_join_prev pre (x # ps)). dm_wf L H e"
    "(\<Union>e \<in> set (dm_join_prev pre (x # ps)). blk e) = (\<Union>e \<in> set pre. blk e) \<union> blk x \<union> (\<Union>e \<in> set ps. blk e)"
    by blast+
qed

section \<open>Freeing a used block\<close>

lemma used_split:
  assumes "dm_ok L H s" "u \<in> set (dm_lst_used s)"
  obtains us rest where "dm_lst_used s = us @ u # rest" "remove1 u (dm_lst_used s) = us @ rest"
    "takeWhile (\<lambda>d. dm_blk_base d \<noteq> dm_blk_base u) (dm_lst_used s) = us"
    "dropWhile (\<lambda>d. dm_blk_base d \<noteq> dm_blk_base u) (dm_lst_used s) = u # rest"
proof -
  obtain us rest where s: "dm_lst_used s = us @ u # rest" "u \<notin> set us" using split_list_first [OF assms(2)] by blast
  have "dm_blk_base d \<noteq> dm_blk_base u" if "d \<in> set us" for d
  proof
    assume "dm_blk_base d = dm_blk_base u"
    then have "lo d = lo u" by (simp add: lo_def)
    moreover have "lo d \<in> blk d" "lo u \<in> blk u" "blk d \<inter> blk u = {}"
      using assms(1) that s by (auto simp: dm_ok_def sorted_wrt_append intro!: blk_nonempty [of L H])
    ultimately show False by auto
  qed
  then show ?thesis using s that by (simp add: remove1_append)
qed

lemma free_split:
  assumes ok: "dm_ok L H s" and u: "u \<in> set (dm_lst_used s)"
  defines "pre \<equiv> takeWhile (\<lambda>d. dm_blk_base d < dm_blk_base u) (dm_lst_free s)"
    and "post \<equiv> dropWhile (\<lambda>d. dm_blk_base d < dm_blk_base u) (dm_lst_free s)"
  shows "dm_lst_free s = pre @ post" "\<forall>e \<in> set pre. hi e \<le> lo u" "\<forall>e \<in> set post. hi u \<le> lo e"
proof -
  show split: "dm_lst_free s = pre @ post" by (simp add: pre_def post_def)
  have sorted: "dm_sorted (pre @ post)" and wf: "\<forall>e \<in> set (pre @ post). dm_wf L H e" and wfu: "dm_wf L H u"
    and disj: "\<forall>e \<in> set (pre @ post). blk e \<inter> blk u = {}"
    using ok u split by (auto simp: dm_ok_def)
  have sep: "hi e \<le> lo u \<or> hi u \<le> lo e" if "e \<in> set (pre @ post)" for e
    using blk_disjoint [of L H e u] wf wfu disj that by blast
  show "\<forall>e \<in> set pre. hi e \<le> lo u"
  proof
    fix e assume e: "e \<in> set pre"
    then have "lo e < lo u" unfolding pre_def by (auto dest!: set_takeWhileD simp: lo_def word_less_nat_alt)
    then show "hi e \<le> lo u" using sep [of e] e wfu by (auto simp: dm_wf_def)
  qed
  show "\<forall>e \<in> set post. hi u \<le> lo e"
  proof
    fix e assume e: "e \<in> set post"
    then obtain d ds where post: "post = d # ds" by (cases post) auto
    then have "lo u \<le> lo d" unfolding post_def by (simp add: dropWhile_eq_Cons_conv lo_def word_less_nat_alt)
    moreover have "lo d \<le> lo e"
      using e post sorted wf by (fastforce simp: sorted_wrt_append dm_wf_def)
    moreover have "lo e < hi e" using e wf by (simp add: dm_wf_def)
    ultimately show "hi u \<le> lo e" using sep [of e] e by auto
  qed
qed

lemma free_used_disjoint:
  assumes "dm_ok L H s" "v \<in> set (dm_lst_used s)"
  shows "free_set s \<inter> blk v = {}"
proof -
  have "\<forall>d \<in> set (dm_lst_free s). blk d \<inter> blk v = {}" using assms by (simp add: dm_ok_def)
  then show ?thesis unfolding free_set_def by blast
qed

lemma used_disjoint:
  assumes "dm_ok L H s" "dm_lst_used s = us @ u # rest" "v \<in> set us \<union> set rest"
  shows "blk u \<inter> blk v = {}"
proof -
  have "\<forall>x \<in> set us. blk x \<inter> blk u = {}" "\<forall>x \<in> set rest. blk u \<inter> blk x = {}"
    using assms(1,2) by (simp_all add: dm_ok_def sorted_wrt_append)
  then show ?thesis using assms(3) by blast
qed

lemma dmamem_free_ok:
  assumes ok: "dm_ok L H s" and u: "u \<in> set (dm_lst_used s)"
  shows "dm_ok L H (dmamem_free (dm_blk_base u) s)"
    and "dm_lst_used (dmamem_free (dm_blk_base u) s) = remove1 u (dm_lst_used s)"
    and "free_set (dmamem_free (dm_blk_base u) s) = free_set s \<union> blk u"
proof -
  obtain us rest where us: "dm_lst_used s = us @ u # rest" "remove1 u (dm_lst_used s) = us @ rest"
    and tw: "takeWhile (\<lambda>d. dm_blk_base d \<noteq> dm_blk_base u) (dm_lst_used s) = us"
      "dropWhile (\<lambda>d. dm_blk_base d \<noteq> dm_blk_base u) (dm_lst_used s) = u # rest"
    using used_split [OF ok u] .
  define pre where "pre = takeWhile (\<lambda>d. dm_blk_base d < dm_blk_base u) (dm_lst_free s)"
  define post where "post = dropWhile (\<lambda>d. dm_blk_base d < dm_blk_base u) (dm_lst_free s)"
  note fs = free_split [OF ok u, folded pre_def post_def]
  have H: "H < 2 ^ 32" and wf: "dm_wf L H u" "\<forall>e \<in> set pre. dm_wf L H e" "\<forall>e \<in> set post. dm_wf L H e"
    and sorted: "dm_sorted pre" "dm_sorted post"
    using ok u fs(1) by (auto simp: dm_ok_def sorted_wrt_append)
  obtain x ps where x: "dm_join_next u post = x # ps" "dm_blk_base x = dm_blk_base u" "dm_wf L H x" "dm_sorted (x # ps)"
    "set ps \<subseteq> set post" "blk x \<union> (\<Union>e \<in> set ps. blk e) = blk u \<union> (\<Union>e \<in> set post. blk e)"
    using join_next [OF wf(1,3) sorted(2) fs(3) H] by blast
  have "\<forall>e \<in> set ps. dm_wf L H e" "\<forall>e \<in> set pre. hi e \<le> lo x" using fs(2) x(2,5) wf(3) by (auto simp: lo_def)
  note j = join_prev [OF x(3,4) this(1) wf(2) sorted(1) this(2) H]
  define fl where "fl = dm_join_prev pre (x # ps)"
  have s': "dmamem_free (dm_blk_base u) s = s\<lparr>dm_lst_used := us @ rest, dm_lst_free := fl\<rparr>"
    by (simp add: dmamem_free_def Let_def tw x(1) pre_def [symmetric] post_def [symmetric] fl_def)
  have fl: "dm_sorted fl" "\<forall>e \<in> set fl. dm_wf L H e" using j(1,2) by (simp_all add: fl_def)
  have un: "(\<Union>e \<in> set fl. blk e) = free_set s \<union> blk u"
    using j(3) x(6) fs(1) by (auto simp: fl_def free_set_def)
  show "dm_lst_used (dmamem_free (dm_blk_base u) s) = remove1 u (dm_lst_used s)" by (simp add: s' us(2))
  show "free_set (dmamem_free (dm_blk_base u) s) = free_set s \<union> blk u" using un by (simp add: s' free_set_def)
  have "blk e \<inter> blk v = {}" if "e \<in> set fl" "v \<in> set us \<union> set rest" for e v
  proof -
    have "blk e \<subseteq> free_set s \<union> blk u" using un that(1) by blast
    moreover have "free_set s \<inter> blk v = {}" using free_used_disjoint [OF ok] that(2) us(1) by auto
    moreover have "blk u \<inter> blk v = {}" by (rule used_disjoint [OF ok us(1) that(2)])
    ultimately show ?thesis by blast
  qed
  moreover have "(\<Union>d \<in> set fl \<union> set us \<union> set rest. blk d) = {L ..< H}"
    using ok us(1) un by (auto simp: dm_ok_def free_set_def)
  ultimately show "dm_ok L H (dmamem_free (dm_blk_base u) s)"
    using ok us(1) fl by (auto simp: s' dm_ok_def sorted_wrt_append Un_assoc)
qed

lemma dmamem_free_unknown:
  assumes "\<forall>u \<in> set (dm_lst_used s). dm_blk_base u \<noteq> b"
  shows "dmamem_free b s = s"
proof -
  have "dropWhile (\<lambda>d. dm_blk_base d \<noteq> b) (dm_lst_used s) = []" using assms by (simp add: dropWhile_eq_Nil_conv)
  then show ?thesis unfolding dmamem_free_def by (simp only: list.case)
qed

section \<open>The free list is determined by the free addresses\<close>

lemma dsc_eqI: "lo d = lo e \<Longrightarrow> hi d = hi e \<Longrightarrow> d = (e :: dm_dsc)"
  by (cases d; cases e) (auto simp: lo_def hi_def word_unat_eq_iff)

lemma head_hi_le:
  assumes "dm_sorted (x # xs)" "\<forall>e \<in> set (x # xs). dm_wf L H e" "lo x = lo y" "dm_wf L H y"
    and "blk y \<subseteq> (\<Union>e \<in> set (x # xs). blk e)"
  shows "hi y \<le> hi x"
proof (rule ccontr)
  assume "\<not> hi y \<le> hi x"
  then have "hi x \<in> blk y" using assms(2,3) by (auto simp: blk_def dm_wf_def)
  then obtain e where "e \<in> set (x # xs)" "hi x \<in> blk e" using assms(5) by blast
  then show False using assms(1) by (auto simp: blk_def)
qed

lemma head_lo_le:
  assumes "dm_sorted (x # xs)" "\<forall>e \<in> set (x # xs). dm_wf L H e" "a \<in> (\<Union>e \<in> set (x # xs). blk e)"
  shows "lo x \<le> a"
  using assms by (fastforce simp: blk_def dm_wf_def)

lemma disjoint_cancel:
  assumes "A \<inter> B = {}" "A \<inter> C = {}" "A \<union> B = A \<union> C"
  shows "B = C"
  using assms by blast

lemma free_list_canonical:
  assumes "dm_sorted xs" "dm_sorted ys" "\<forall>e \<in> set xs \<union> set ys. dm_wf L H e"
    and "(\<Union>e \<in> set xs. blk e) = (\<Union>e \<in> set ys. blk e)"
  shows "xs = ys"
  using assms
proof (induction xs arbitrary: ys)
  case Nil
  then show ?case using blk_nonempty by (cases ys) fastforce+
next
  case (Cons x xs)
  have ne: "lo x \<in> blk x" using Cons.prems(3) by (auto intro!: blk_nonempty)
  then obtain y zs where ys: "ys = y # zs" using Cons.prems(4) by (cases ys) auto
  have wf: "\<forall>e \<in> set (x # xs). dm_wf L H e" "\<forall>e \<in> set (y # zs). dm_wf L H e" "lo y \<in> blk y"
    using Cons.prems(3) ys by (auto intro!: blk_nonempty)
  note srt = Cons.prems(1) Cons.prems(2) [unfolded ys]
  note eq = Cons.prems(4) [unfolded ys]
  have "lo y \<in> (\<Union>e \<in> set (x # xs). blk e)" "lo x \<in> (\<Union>e \<in> set (y # zs). blk e)"
    unfolding eq using wf(3) by (simp, unfold eq [symmetric], simp add: ne)
  then have lo: "lo x = lo y" using head_lo_le [OF srt(1) wf(1)] head_lo_le [OF srt(2) wf(2)] by (simp add: le_antisym)
  have "blk y \<subseteq> (\<Union>e \<in> set (x # xs). blk e)" "blk x \<subseteq> (\<Union>e \<in> set (y # zs). blk e)"
    using eq by auto
  then have "hi y \<le> hi x" "hi x \<le> hi y"
    using head_hi_le [OF srt(1) wf(1) lo] head_hi_le [OF srt(2) wf(2) lo [symmetric]] wf by auto
  then have xy: "x = y" using lo by (intro dsc_eqI) auto
  have "blk x \<inter> (\<Union>e \<in> set xs. blk e) = {}" "blk x \<inter> (\<Union>e \<in> set zs. blk e) = {}"
    using srt by (fastforce simp: blk_def xy)+
  moreover have "blk x \<union> (\<Union>e \<in> set xs. blk e) = blk x \<union> (\<Union>e \<in> set zs. blk e)" using eq by (simp add: xy)
  ultimately have "(\<Union>e \<in> set xs. blk e) = (\<Union>e \<in> set zs. blk e)" by (rule disjoint_cancel)
  moreover have "\<forall>e \<in> set xs \<union> set zs. dm_wf L H e" using wf by auto
  ultimately have "xs = zs" using srt by (intro Cons.IH) auto
  then show ?case using ys xy by simp
qed

lemma dm_state_canonical:
  assumes "dm_ok L H s" "dm_ok L H s'" "dm_lst_used s = dm_lst_used s'" "free_set s = free_set s'"
  shows "dm_lst_free s = dm_lst_free s'"
  using assms by (intro free_list_canonical [of _ _ L H]) (auto simp: dm_ok_def free_set_def)

section \<open>From boot to any state\<close>

lemma dm_init_ok:
  assumes "dm_sz_fb s < dm_sz_all s" "0 < unat (dm_base s) + unat (dm_sz_fb s)" "unat (dm_base s) + unat (dm_sz_all s) < 2 ^ 32"
    and "4096 dvd unat (dm_base s)" "4096 dvd unat (dm_sz_fb s)" "4096 dvd unat (dm_sz_all s)" "dm_lst_used s = []"
  shows "dm_ok (unat (dm_base s) + unat (dm_sz_fb s)) (unat (dm_base s) + unat (dm_sz_all s)) (snd (dm_init True s))"
proof -
  let ?d = "\<lparr>dm_blk_base = dm_base s + dm_sz_fb s, dm_blk_size = dm_sz_all s - dm_sz_fb s\<rparr>"
  have fb: "unat (dm_sz_fb s) < unat (dm_sz_all s)" using assms(1) by (simp add: word_less_nat_alt)
  have "unat (dm_sz_all s - dm_sz_fb s) = unat (dm_sz_all s) - unat (dm_sz_fb s)"
    using fb by (subst unat_sub) (auto simp: word_le_nat_alt)
  moreover have "unat (dm_base s + dm_sz_fb s) = unat (dm_base s) + unat (dm_sz_fb s)"
    using fb assms(3) by (simp add: unat_word_ariths)
  ultimately have "lo ?d = unat (dm_base s) + unat (dm_sz_fb s)" "hi ?d = unat (dm_base s) + unat (dm_sz_all s)"
    using fb by (auto simp: lo_def hi_def)
  moreover have "dm_sz_all s \<noteq> 0" using fb by auto
  ultimately show ?thesis using assms fb by (simp add: dm_ok_def dm_init_def dm_wf_def blk_def)
qed

text \<open>
  One call of the allocator by any of its users: an allocation whose size and alignment are admitted by
  \<open>adm\<close>, with either outcome of the two \<^verbatim>\<open>kmalloc\<close> calls, or a free, of any address.
\<close>

inductive dm_step :: "(u32 \<Rightarrow> u32 \<Rightarrow> bool) \<Rightarrow> dmamem \<Rightarrow> dmamem \<Rightarrow> bool" for adm where
  alloc: "adm siz align \<Longrightarrow> dmamem_alloc mem1 mem2 siz align s = Inr (b, s') \<Longrightarrow> dm_step adm s s'"
| release: "dm_step adm s (dmamem_free b s)"

text \<open>
  What a user of an allocator relies on: a step leaves the state, takes one block out of the free
  addresses, or gives one block back; and with nothing in use, the free addresses are the state.
\<close>

locale allocator =
  fixes inv :: "'s \<Rightarrow> bool" and free :: "'s \<Rightarrow> nat set" and used :: "'s \<Rightarrow> 'b list" and addrs :: "'b \<Rightarrow> nat set"
    and step :: "'s \<Rightarrow> 's \<Rightarrow> bool" and heap :: "'s \<Rightarrow> 'h"
  assumes step_cases: "inv s \<Longrightarrow> step s s' \<Longrightarrow> inv s' \<and> (s' = s
      \<or> (\<exists>b. used s' = b # used s \<and> addrs b \<subseteq> free s \<and> free s' = free s - addrs b)
      \<or> (\<exists>b \<in> set (used s). used s' = remove1 b (used s) \<and> free s' = free s \<union> addrs b))"
    and in_use: "inv s \<Longrightarrow> distinct (used s) \<and> (\<forall>b \<in> set (used s). free s \<inter> addrs b = {})"
    and canonical: "inv s \<Longrightarrow> inv s' \<Longrightarrow> used s = used s' \<Longrightarrow> free s = free s' \<Longrightarrow> heap s = heap s'"
begin

definition total :: "'s \<Rightarrow> nat set" where
  "total s = free s \<union> (\<Union>b \<in> set (used s). addrs b)"

lemma step_inv: "inv s \<Longrightarrow> step s s' \<Longrightarrow> inv s'"
  using step_cases by blast

lemma step_total:
  assumes "inv s" "step s s'"
  shows "total s' = total s"
proof -
  have d: "distinct (used s)" using in_use [OF assms(1)] by blast
  from step_cases [OF assms] consider "s' = s"
    | b where "used s' = b # used s" "addrs b \<subseteq> free s" "free s' = free s - addrs b"
    | b where "b \<in> set (used s)" "used s' = remove1 b (used s)" "free s' = free s \<union> addrs b" by blast
  then show ?thesis
  proof cases
    case 2
    then show ?thesis by (auto simp: total_def)
  next
    case 3
    then have "set (used s) = insert b (set (used s'))" using d by auto
    then show ?thesis using 3(3) by (auto simp: total_def)
  qed simp
qed

lemma steps_inv:
  assumes "step\<^sup>*\<^sup>* s s'" "inv s"
  shows "inv s' \<and> total s' = total s"
  using assms by (induction rule: rtranclp_induct) (use step_inv step_total in auto)

theorem no_fragmentation:
  assumes "step\<^sup>*\<^sup>* s s'" "inv s" "used s = []" "used s' = []"
  shows "heap s' = heap s"
proof -
  have "free s' = free s" using steps_inv [OF assms(1,2)] assms(3,4) by (simp add: total_def)
  then show ?thesis using steps_inv [OF assms(1,2)] assms(2-4) by (intro canonical) auto
qed

end

end
