(* ===== verification/Dmamem_Props.thy ===== *)
theory Dmamem_Props
  imports Dmamem_Free
begin

text \<open>
  The properties of the DMA memory allocator: blocks in use never overlap, the contract of an
  allocation, the round trip with a free, that a region whose blocks were all freed is in one piece
  again, and the three kinds of requests the arithmetic of the sizes does not catch.
\<close>

section \<open>The allocator as an interface\<close>

lemma used_distinct:
  assumes "dm_ok L H s"
  shows "distinct (dm_lst_used s)"
proof -
  have "sorted_wrt (\<lambda>d e. blk d \<inter> blk e = {}) us \<Longrightarrow> \<forall>d \<in> set us. dm_wf L H d \<Longrightarrow> distinct us" for us
    using blk_nonempty by (induction us) force+
  then show ?thesis using assms by (simp add: dm_ok_def)
qed

lemma dm_step_alloc:
  assumes "dm_ok L H s" "dm_req H siz align" "dmamem_alloc mem1 mem2 siz align s = Inr (b, s')"
  shows "s' = s \<or> dm_ok L H s' \<and> (\<exists>d. dm_lst_used s' = d # dm_lst_used s \<and> blk d \<subseteq> free_set s \<and> free_set s' = free_set s - blk d)"
proof (cases rule: dmamem_alloc_cases [OF assms(1,2), of mem1 mem2, case_names none nomem cut])
  case (cut b' t)
  then have "t = s'" using assms(3) by simp
  then show ?thesis
    using alloc_cut_ok [OF assms(1) cut(2) dm_req_facts(5,2,6,4) [OF assms(2)]] by auto
qed (use assms(3) in auto)

lemma dm_step_free:
  assumes "dm_ok L H s"
  shows "dmamem_free b s = s \<or> dm_ok L H (dmamem_free b s) \<and> (\<exists>d \<in> set (dm_lst_used s).
    dm_lst_used (dmamem_free b s) = remove1 d (dm_lst_used s) \<and> free_set (dmamem_free b s) = free_set s \<union> blk d)"
  using dmamem_free_ok [OF assms] dmamem_free_unknown [of s b] by blast

interpretation dm_heap: allocator "dm_ok L H" free_set dm_lst_used blk "dm_step (dm_req H)" dm_lst_free for L H
proof
  show "dm_ok L H s' \<and> (s' = s
      \<or> (\<exists>b. dm_lst_used s' = b # dm_lst_used s \<and> blk b \<subseteq> free_set s \<and> free_set s' = free_set s - blk b)
      \<or> (\<exists>b \<in> set (dm_lst_used s). dm_lst_used s' = remove1 b (dm_lst_used s) \<and> free_set s' = free_set s \<union> blk b))"
    if "dm_ok L H s" "dm_step (dm_req H) s s'" for s s'
    using that(2)
  proof cases
    case (alloc siz align mem1 mem2 b)
    then show ?thesis using dm_step_alloc [OF that(1)] that(1) by blast
  next
    case (release b)
    show ?thesis unfolding release using dm_step_free [OF that(1), of b] that(1) by presburger
  qed
  show "distinct (dm_lst_used s) \<and> (\<forall>b \<in> set (dm_lst_used s). free_set s \<inter> blk b = {})" if "dm_ok L H s" for s
    using used_distinct [OF that] free_used_disjoint [OF that] by blast
  show "dm_lst_free s = dm_lst_free s'"
    if "dm_ok L H s" "dm_ok L H s'" "dm_lst_used s = dm_lst_used s'" "free_set s = free_set s'" for s s'
    by (rule dm_state_canonical [OF that])
qed

section \<open>Boot\<close>

text \<open>The tag describes a region with room behind the frame buffer that does not wrap.\<close>

definition dm_tag_ok :: "tag_dmamem \<Rightarrow> bool" where
  "dm_tag_ok tag \<longleftrightarrow> tag_sz_fb tag < tag_sz_all tag \<and> 0 < unat (tag_base tag) + unat (tag_sz_fb tag)
     \<and> unat (tag_base tag) + unat (tag_sz_all tag) < 2 ^ 32 \<and> tag_base tag AND (PAGE_SIZE - 1) = 0
     \<and> tag_sz_fb tag AND (PAGE_SIZE - 1) = 0 \<and> tag_sz_all tag AND (PAGE_SIZE - 1) = 0"

abbreviation tag_lo :: "tag_dmamem \<Rightarrow> nat" where "tag_lo tag \<equiv> unat (tag_base tag) + unat (tag_sz_fb tag)"
abbreviation tag_hi :: "tag_dmamem \<Rightarrow> nat" where "tag_hi tag \<equiv> unat (tag_base tag) + unat (tag_sz_all tag)"

definition dm_booted :: "tag_dmamem \<Rightarrow> dmamem" where
  "dm_booted tag = snd (dm_init True (snd (parse_tag_dmamem tag dmamem_boot)))"

lemma page_aligned_dvd:
  assumes "(x :: u32) AND (PAGE_SIZE - 1) = 0"
  shows "4096 dvd unat x"
proof -
  have "PAGE_SIZE - 1 = mask 12" by (simp add: PAGE_SIZE_num mask_eq_exp_minus_1)
  then have "take_bit 12 x = 0" using assms by (simp add: take_bit_eq_mask)
  from arg_cong [OF this, of unat] have "take_bit 12 (unat x) = 0" by (simp only: unsigned_take_bit_eq unsigned_0)
  then show ?thesis by (simp add: take_bit_eq_mod dvd_eq_mod_eq_0)
qed

lemma dm_booted_ok:
  assumes "dm_tag_ok tag"
  shows "dm_ok (tag_lo tag) (tag_hi tag) (dm_booted tag)" "dm_lst_used (dm_booted tag) = []"
proof -
  let ?s = "dmamem_boot\<lparr>dm_base := tag_base tag, dm_sz_fb := tag_sz_fb tag, dm_sz_all := tag_sz_all tag\<rparr>"
  have s: "snd (parse_tag_dmamem tag dmamem_boot) = ?s" using assms by (auto simp: parse_tag_dmamem_def dm_tag_ok_def)
  have "4096 dvd unat (tag_base tag)" "4096 dvd unat (tag_sz_fb tag)" "4096 dvd unat (tag_sz_all tag)"
    using assms by (auto simp: dm_tag_ok_def intro!: page_aligned_dvd)
  then show "dm_ok (tag_lo tag) (tag_hi tag) (dm_booted tag)"
    unfolding dm_booted_def s using dm_init_ok [of ?s] assms by (simp add: dm_tag_ok_def dmamem_boot_def)
  show "dm_lst_used (dm_booted tag) = []" unfolding dm_booted_def s by (simp add: dm_init_def dmamem_boot_def)
qed

section \<open>Properties\<close>

text \<open>C2. Let the boot tag describe a page-aligned region that does not wrap, and let every allocation be a regular
  request (\<open>dm_req\<close>): its size is not 0, and the end of the region plus the size, the alignment and two pages is at most 2^32.
  Then, whatever sequence of such allocations and of frees of any address the drivers make from boot on, two blocks that
  are in use at the same time share no byte, and each lies in the region behind the frame buffer. The restriction is needed:
  \<open>dmamem_zero_size_aliases\<close>, \<open>dmamem_wrapped_size\<close> and \<open>dmamem_wrapped_align\<close> show what the code does outside it.\<close>

theorem dmamem_blocks_disjoint:
  assumes "dm_tag_ok tag" "(dm_step (dm_req (tag_hi tag)))\<^sup>*\<^sup>* (dm_booted tag) s"
    and "i < j" "j < length (dm_lst_used s)"
  shows "blk (dm_lst_used s ! i) \<inter> blk (dm_lst_used s ! j) = {}
    \<and> blk (dm_lst_used s ! i) \<union> blk (dm_lst_used s ! j) \<subseteq> {tag_lo tag ..< tag_hi tag}"
proof -
  have ok: "dm_ok (tag_lo tag) (tag_hi tag) s"
    using dm_heap.steps_inv [OF assms(2) dm_booted_ok(1) [OF assms(1)]] by blast
  have "blk (dm_lst_used s ! i) \<inter> blk (dm_lst_used s ! j) = {}"
    using ok assms(3,4) by (simp add: dm_ok_def sorted_wrt_iff_nth_less)
  moreover have "blk d \<subseteq> {tag_lo tag ..< tag_hi tag}" if "d \<in> set (dm_lst_used s)" for d
    using ok that by (auto simp: dm_ok_def dm_wf_def blk_def)
  ultimately show ?thesis using assms(3,4) by simp
qed

text \<open>C24. A regular request (\<open>dm_req\<close>: the size is not 0, and the end of the region plus the size, the alignment and two pages is at most
  2^32) on a list that satisfies the invariant returns \<^verbatim>\<open>NULL\<close> and changes nothing, and then no free block can hold the
  aligned request or a descriptor could not be allocated; or it returns a block of the free memory
  that is large enough, starts at a multiple of the alignment asked for, rounded up to whole pages, and is added to the blocks in use.
  Other requests are those of \<open>dmamem_zero_size_aliases\<close>, \<open>dmamem_wrapped_size\<close> and \<open>dmamem_wrapped_align\<close>.\<close>

theorem dmamem_alloc_contract:
  assumes "dm_ok L H s" "dm_req H siz align"
  shows "\<exists>b s'. dmamem_alloc mem1 mem2 siz align s = Inr (b, s') \<and>
    (if b = 0 then s' = s \<and> (mem1 \<and> mem2 \<longrightarrow> (\<forall>d \<in> set (dm_lst_free s). \<not> fit (req_align align) (req_need siz) d))
     else \<exists>d. dm_lst_used s' = d # dm_lst_used s \<and> dm_blk_base d = b \<and> unat siz \<le> unat (dm_blk_size d)
       \<and> req_align align dvd unat b \<and> blk d \<subseteq> free_set s \<and> free_set s' = free_set s - blk d)"
proof (cases rule: dmamem_alloc_cases [OF assms, of mem1 mem2, case_names none nomem cut])
  case (cut b s')
  note f = dm_req_facts [OF assms(2)]
  obtain d where d: "dm_lst_used s' = d # dm_lst_used s" "dm_blk_base d = b" "dm_wf L H d" "hi d = lo d + req_need siz"
    "req_align align dvd lo d" "blk d \<subseteq> free_set s" "free_set s' = free_set s - blk d"
    using alloc_cut_ok(2) [OF assms(1) cut(2) f(5,2,6,4)] by blast
  have "b \<noteq> 0" using d(2,3) assms(1) by (auto simp: dm_wf_def dm_ok_def lo_def)
  moreover have "unat siz \<le> unat (dm_blk_size d)" using d(4) f(3) by (simp add: lo_def hi_def)
  ultimately show ?thesis using cut(1) d by (auto simp: lo_def)
qed auto

lemma alloc_free_inverse:
  assumes "dm_ok L H s" "dm_req H siz align" "dmamem_alloc mem1 mem2 siz align s = Inr (b, s')" "b \<noteq> 0"
  shows "dmamem_free b s' = s"
proof (cases rule: dmamem_alloc_cases [OF assms(1,2), of mem1 mem2, case_names none nomem cut])
  case (cut c t)
  then have cut: "alloc_cut (req_align align) (req_need siz) s b s'" using assms(3) by simp
  note c = alloc_cut_ok [OF assms(1) cut dm_req_facts(5,2,6,4) [OF assms(2)]]
  obtain d where d: "dm_lst_used s' = d # dm_lst_used s" "dm_blk_base d = b" "blk d \<subseteq> free_set s" "free_set s' = free_set s - blk d"
    using c(2) by blast
  note r = dmamem_free_ok [OF c(1), of d, unfolded d(1,2)]
  have used: "dm_lst_used (dmamem_free b s') = dm_lst_used s" using r(2) by simp
  have "dm_ok L H (dmamem_free b s')" "free_set (dmamem_free b s') = free_set s" using r(1,3) d(3,4) by auto
  then have "dm_lst_free (dmamem_free b s') = dm_lst_free s" by (rule dm_state_canonical [OF _ assms(1) used])
  moreover have "\<exists>fs us. s' = s\<lparr>dm_lst_free := fs, dm_lst_used := us\<rparr>" using cut unfolding alloc_cut_def by blast
  then have "dm_base s' = dm_base s" "dm_sz_all s' = dm_sz_all s" "dm_sz_fb s' = dm_sz_fb s" by auto
  ultimately show ?thesis using used by (intro dmamem.equality) (auto simp: dmamem_free_def Let_def split: list.split)
qed (use assms(3,4) in auto)

text \<open>Freeing a block right after it was allocated gives back the state before the
  allocation: the pieces the allocation cut are joined again.\<close>

theorem dmamem_alloc_free:
  assumes "dm_ok L H s" "dm_req H siz align" "dmamem_alloc mem1 mem2 siz align s = Inr (b, s')" "b \<noteq> 0"
  shows "dmamem_free b s' = s"
  by (rule alloc_free_inverse [OF assms])

text \<open>C25. Memory does not leak and does not stay in pieces: whenever all blocks are freed again,
  after any sequence of frees and of regular allocations (\<open>dm_req\<close>: the size is not 0, and the end of the region plus the size,
  the alignment and two pages is at most 2^32) on a region that does not wrap, the free list is the one block of boot.\<close>

theorem dmamem_no_fragmentation:
  assumes "dm_tag_ok tag" "(dm_step (dm_req (tag_hi tag)))\<^sup>*\<^sup>* (dm_booted tag) s" "dm_lst_used s = []"
  shows "dm_lst_free s = [\<lparr>dm_blk_base = tag_base tag + tag_sz_fb tag, dm_blk_size = tag_sz_all tag - tag_sz_fb tag\<rparr>]"
proof -
  have "dm_lst_free s = dm_lst_free (dm_booted tag)"
    using dm_heap.no_fragmentation [OF assms(2) dm_booted_ok [OF assms(1)] assms(3)] .
  moreover have "tag_sz_all tag \<noteq> 0" using assms(1) by (auto simp: dm_tag_ok_def)
  ultimately show ?thesis using assms(1)
    by (auto simp: dm_booted_def dm_init_def parse_tag_dmamem_def dm_tag_ok_def dmamem_boot_def)
qed

lemma dm_abase_page:
  assumes "dm_wf L H d" "H < 2 ^ 32" "unat (dm_blk_base d) + 4096 \<le> 2 ^ 32"
  shows "dm_abase (dm_align 0) (dm_blk_base d) = dm_blk_base d"
proof -
  have a: "dm_align 0 = 4096" by (simp add: dm_align_def PAGE_SIZE_num)
  have "align_up 4096 (lo d) = lo d" using assms(1) by (intro align_up_id) (simp_all add: dm_wf_def)
  then show ?thesis using unat_dm_abase [of 4096 "dm_blk_base d"] assms(3) by (simp add: a lo_def word_unat_eq_iff)
qed

lemma wf_page_room:
  assumes "dm_wf L H d" "H < 2 ^ 32"
  shows "unat (dm_blk_base d) + 4096 \<le> 2 ^ 32"
proof -
  obtain i j where "lo d = 4096 * i" "hi d = 4096 * j" using assms(1) by (auto simp: dm_wf_def elim!: dvdE)
  moreover have "lo d < hi d" "hi d < 2 ^ 32" using assms by (auto simp: dm_wf_def)
  ultimately show ?thesis by (simp add: lo_def)
qed

text \<open>A request of size 0 is not refused: it returns the address of the first free block and
  leaves the free list as it was, so that the next request is given the same memory.\<close>

lemma dmamem_zero_size_aliases:
  assumes "dm_ok L H s" "dm_lst_free s = d # fs"
  shows "dmamem_alloc True True 0 0 s =
      Inr (dm_blk_base d, s\<lparr>dm_lst_used := \<lparr>dm_blk_base = dm_blk_base d, dm_blk_size = 0\<rparr> # dm_lst_used s\<rparr>)
    \<and> unat (dm_blk_base d) \<in> free_set s"
proof -
  have wf: "dm_wf L H d" and H: "H < 2 ^ 32" using assms by (auto simp: dm_ok_def)
  note ab = dm_abase_page [OF wf H wf_page_room [OF wf H]]
  have c: "dm_count 0 = 0" by (simp add: dm_count_def PAGE_SIZE_num)
  have nz: "dm_align 0 \<noteq> 0" "0 < dm_blk_size d"
    using wf by (auto simp: dm_align_def PAGE_SIZE_num dm_wf_def lo_def hi_def unat_gt_0 word_neq_0_conv)
  have "dm_blk_base d \<le> dm_blk_base d + dm_blk_size d" using wf_bounds [OF wf H] by (simp add: word_le_nat_alt hi_def)
  then have "dm_search (dm_align 0) (dm_count 0 * PAGE_SIZE) (dm_lst_free s) = Some ([], d, fs)" by (simp add: assms(2) c ab)
  note found = dmamem_alloc_found [OF this nz(1)]
  have "cut_back d (dm_blk_base d) 0 = [d]" using nz(2) by (cases d) (simp add: cut_back_def)
  moreover have "s\<lparr>dm_lst_free := d # fs, dm_lst_used := us\<rparr> = s\<lparr>dm_lst_used := us\<rparr>" for us
    unfolding assms(2) [symmetric] by (cases s) simp
  ultimately have "dmamem_alloc True True 0 0 s =
      Inr (dm_blk_base d, s\<lparr>dm_lst_used := \<lparr>dm_blk_base = dm_blk_base d, dm_blk_size = 0\<rparr> # dm_lst_used s\<rparr>)"
    using nz(2) unfolding found by (simp add: ab c cut_front_def cut_new_def)
  moreover have "unat (dm_blk_base d) \<in> free_set s" using blk_nonempty [OF wf] by (auto simp: free_set_def assms(2) lo_def)
  ultimately show ?thesis by blast
qed

text \<open>A request whose end wraps past 2^32 is not refused either: it passes the comparison and
  is given the whole first free block, which is smaller than what was asked for.\<close>

lemma dmamem_wrapped_size:
  assumes "dm_ok L H s" "dm_lst_free s = d # fs" "siz mod PAGE_SIZE = 0" "2 ^ 32 \<le> unat (dm_blk_base d) + unat siz"
  shows "dmamem_alloc mem1 mem2 siz 0 s = Inr (dm_blk_base d, s\<lparr>dm_lst_free := fs, dm_lst_used := d # dm_lst_used s\<rparr>)
    \<and> dm_blk_size d < siz"
proof -
  have wf: "dm_wf L H d" and H: "H < 2 ^ 32" using assms by (auto simp: dm_ok_def)
  note ab = dm_abase_page [OF wf H wf_page_room [OF wf H]]
  have small: "dm_blk_size d < siz" using assms(4) wf_bounds(2) [OF wf H] by (simp add: word_less_nat_alt hi_def)
  have m: "unat siz mod 4096 = 0" using arg_cong [OF assms(3), of unat] by (simp add: PAGE_SIZE_num unat_mod)
  then obtain k where "unat siz = 4096 * k" by (auto elim: mod_0_imp_dvd [THEN dvdE])
  then have "unat siz + 4095 < 2 ^ 32" using unat_u32_less [of siz] by simp
  then have "unat (dm_count siz * PAGE_SIZE) = unat siz"
    using unat_need [of siz] align_up_id [of 4096 "unat siz"] m by (simp add: mod_0_imp_dvd)
  then have c: "dm_count siz * PAGE_SIZE = siz" by (simp add: word_unat_eq_iff)
  have nz: "dm_align 0 \<noteq> 0" by (simp add: dm_align_def PAGE_SIZE_num)
  have "unat (dm_blk_base d + siz) = unat (dm_blk_base d) + unat siz - 2 ^ 32"
    using assms(4) unat_u32_less [of siz] unat_u32_less [of "dm_blk_base d"] by (simp add: unat_word_ariths mod_if)
  then have "dm_blk_base d + siz \<le> dm_blk_base d + dm_blk_size d"
    using wf_bounds [OF wf H] unat_u32_less [of siz] by (simp add: word_le_nat_alt hi_def)
  then have "dm_search (dm_align 0) (dm_count siz * PAGE_SIZE) (dm_lst_free s) = Some ([], d, fs)" by (simp add: assms(2) c ab)
  note found = dmamem_alloc_found [OF this nz]
  have big: "\<not> siz < dm_blk_size d" using small by (simp add: not_less order.strict_implies_order)
  then have "cut_new d (dm_blk_base d) siz = d" by (cases d) (simp add: cut_new_def)
  then show ?thesis using small big unfolding found by (simp add: ab c cut_front_def cut_back_def)
qed

text \<open>An alignment with which the rounding up of the first free address wraps past 2^32 is not refused: the aligned address is 0, the caller is
  told that there is no memory, and yet the first free block is cut, its address replaced, and a block at address 0 is recorded as in use.\<close>

lemma dmamem_wrapped_align:
  assumes "dm_ok L H s" "dm_lst_free s = d # fs" "2 ^ 32 < unat (dm_blk_base d) + unat (dm_align align)" "req_need siz \<le> hi d"
    and "unat siz + 4096 \<le> 2 ^ 32"
  shows "\<exists>s' e. dmamem_alloc True True siz align s = Inr (0, s') \<and> dm_lst_used s' = e # dm_lst_used s \<and> dm_blk_base e = 0
    \<and> hd (dm_lst_free s') = \<lparr>dm_blk_base = dm_blk_base d, dm_blk_size = - dm_blk_base d\<rparr>"
proof -
  let ?a = "dm_align align" and ?n = "dm_count siz * PAGE_SIZE"
  have wf: "dm_wf L H d" and H: "H < 2 ^ 32" "0 < L" using assms by (auto simp: dm_ok_def)
  have nz: "?a \<noteq> 0" "dm_blk_base d \<noteq> 0"
    using assms(3) unat_u32_less [of "dm_blk_base d"] H(2) wf by (auto simp: dm_wf_def lo_def)
  have "unat (dm_blk_base d + (?a - 1)) = unat (dm_blk_base d) + (unat ?a - 1) - 2 ^ 32"
    using assms(3) unat_u32_less [of ?a] unat_u32_less [of "dm_blk_base d"] nz
    by (simp add: unat_word_ariths unat_minus_one mod_if)
  then have "unat (dm_blk_base d + ?a - 1) < unat ?a"
    using assms(3) unat_u32_less [of "dm_blk_base d"] by (simp add: algebra_simps)
  then have ab: "dm_abase ?a (dm_blk_base d) = 0"
    by (simp add: dm_abase_def word_arith_nat_div)
  have "unat ?n = req_need siz" using assms(5) by (intro unat_need) simp
  then have "?n \<le> dm_blk_base d + dm_blk_size d" using wf_bounds [OF wf H(1)] assms(4) by (simp add: word_le_nat_alt)
  then have "dm_search ?a ?n (dm_lst_free s) = Some ([], d, fs)" by (simp add: assms(2) ab)
  from dmamem_alloc_found [OF this nz(1), of True True] show ?thesis
    using nz(2) by (simp add: ab cut_front_def cut_new_def)
qed

section \<open>Concrete runs\<close>

text \<open>A region of 1 MB with a frame buffer of 256 KB, and two blocks allocated from it.\<close>

definition ex_tag :: tag_dmamem where
  "ex_tag = \<lparr>tag_base = 0x90000000, tag_sz_all = 0x100000, tag_sz_fb = 0x40000\<rparr>"

definition ex_one :: dmamem where
  "ex_one = (dm_booted ex_tag)\<lparr>dm_lst_free := [\<lparr>dm_blk_base = 0x90042000, dm_blk_size = 0xBE000\<rparr>],
     dm_lst_used := [\<lparr>dm_blk_base = 0x90040000, dm_blk_size = 0x2000\<rparr>]\<rparr>"

definition ex_two :: dmamem where
  "ex_two = ex_one\<lparr>dm_lst_free := [\<lparr>dm_blk_base = 0x90042000, dm_blk_size = 0x6000\<rparr>, \<lparr>dm_blk_base = 0x90049000, dm_blk_size = 0xB7000\<rparr>],
     dm_lst_used := \<lparr>dm_blk_base = 0x90048000, dm_blk_size = 0x1000\<rparr> # dm_lst_used ex_one\<rparr>"

lemma ex_tag_ok: "dm_tag_ok ex_tag" "tag_lo ex_tag = 0x90040000" "tag_hi ex_tag = 0x90100000"
  by (simp_all add: dm_tag_ok_def ex_tag_def PAGE_SIZE_num)

lemma ex_booted_ok: "dm_ok 0x90040000 0x90100000 (dm_booted ex_tag)"
  using dm_booted_ok(1) [OF ex_tag_ok(1)] by (simp add: ex_tag_ok)

lemma ex_req: "dm_req 0x90100000 0x1001 0" "dm_req 0x90100000 0x10 0x8000"
  by (simp_all add: dm_req_def)

lemma ex_allocs:
  "dmamem_alloc True True 0x1001 0 (dm_booted ex_tag) = Inr (0x90040000, ex_one)"
  "dmamem_alloc True True 0x10 0x8000 ex_one = Inr (0x90048000, ex_two)"
  by code_simp+

lemma ex_steps: "(dm_step (dm_req 0x90100000))\<^sup>*\<^sup>* (dm_booted ex_tag) ex_two"
  using dm_step.alloc [of "dm_req 0x90100000", OF ex_req(1) ex_allocs(1)] dm_step.alloc [of "dm_req 0x90100000", OF ex_req(2) ex_allocs(2)]
  by (meson converse_rtranclp_into_rtranclp rtranclp.rtrancl_refl)

theorem dmamem_blocks_disjoint_witness:
  "blk (dm_lst_used ex_two ! 0) \<inter> blk (dm_lst_used ex_two ! 1) = {}"
  using dmamem_blocks_disjoint [of ex_tag ex_two 0 1] ex_tag_ok ex_steps by (simp add: ex_two_def ex_one_def)

theorem dmamem_alloc_contract_witness:
  "\<exists>s'. dmamem_alloc True True 0x1001 0 (dm_booted ex_tag) = Inr (0x90040000, s')
    \<and> (\<exists>d. dm_lst_used s' = [d] \<and> dm_blk_base d = 0x90040000 \<and> 0x1001 \<le> unat (dm_blk_size d))"
  using dmamem_alloc_contract [OF ex_booted_ok ex_req(1), of True True] ex_allocs(1) dm_booted_ok(2) [OF ex_tag_ok(1)]
  by auto

theorem dmamem_alloc_free_witness: "dmamem_free 0x90040000 ex_one = dm_booted ex_tag"
  using dmamem_alloc_free [OF ex_booted_ok ex_req(1) ex_allocs(1)] by simp

lemma ex_steps_free: "(dm_step (dm_req 0x90100000))\<^sup>*\<^sup>* (dm_booted ex_tag) (dmamem_free 0x90048000 (dmamem_free 0x90040000 ex_two))"
  using ex_steps by (meson dm_step.release rtranclp.rtrancl_into_rtrancl)

theorem dmamem_no_fragmentation_witness:
  "dm_lst_free (dmamem_free 0x90048000 (dmamem_free 0x90040000 ex_two)) = [\<lparr>dm_blk_base = 0x90040000, dm_blk_size = 0xC0000\<rparr>]"
proof -
  have "dm_lst_used (dmamem_free 0x90048000 (dmamem_free 0x90040000 ex_two)) = []" by code_simp
  then show ?thesis
    using dmamem_no_fragmentation [OF ex_tag_ok(1)] ex_steps_free by (simp add: ex_tag_ok) (simp add: ex_tag_def)
qed

lemma ex_booted_free: "dm_lst_free (dm_booted ex_tag) = [\<lparr>dm_blk_base = 0x90040000, dm_blk_size = 0xC0000\<rparr>]"
  by code_simp

end
