(* ===== verification/Exti.thy ===== *)
theory Exti
  imports Soc
begin

text \<open>
  The external interrupt controller, \<^verbatim>\<open>arch/arm/mach-stm32/exti.c\<close>. Sixteen lines, each connected to
  the pin of that number of one port by a 4-bit field of the \<^verbatim>\<open>SYSCFG_EXTICR\<close> registers, with one
  bit per line for the interrupt mask, the two triggers and the pending state. A line beyond the
  array of four \<^verbatim>\<open>EXTICR\<close> registers is a fault. What the pending register holds after a
  write is a parameter of the operations, a function of the old value and the value written; the
  driver relies on \<open>rc_w1\<close>, that the bits written as 1 are cleared.
\<close>

section \<open>Model\<close>

type_synonym pr_hw = "u32 \<Rightarrow> u32 \<Rightarrow> u32"

definition rc_w1 :: pr_hw where
  "rc_w1 old v = old AND NOT v"

definition stm32_exti_connect :: "u32 \<Rightarrow> u32 \<Rightarrow> soc \<Rightarrow> fault + soc" where
  "stm32_exti_connect line pin s =
     (let offset = unat (line div 4); shft = unat ((line mod 4) * 4) in
      if offset < 4 then
        (let v = exticr s offset;
             v = v AND NOT (push_bit shft 0xF);
             v = v OR push_bit shft pin
         in Inr (s\<lparr>exticr := (exticr s)(offset := v)\<rparr>))
      else Inl OutOfBounds)"

definition upd_exti :: "(exti_regs \<Rightarrow> exti_regs) \<Rightarrow> soc \<Rightarrow> soc" where
  "upd_exti f s = s\<lparr>exti := f (exti s)\<rparr>"

definition stm32_exti_clear_pending :: "pr_hw \<Rightarrow> u32 \<Rightarrow> soc \<Rightarrow> soc" where
  "stm32_exti_clear_pending hw line = upd_exti (\<lambda>e. e\<lparr>exti_pr := hw (exti_pr e) (push_bit (unat line) 1)\<rparr>)"

definition stm32_exti_enable_int :: "pr_hw \<Rightarrow> u32 \<Rightarrow> bool \<Rightarrow> soc \<Rightarrow> soc" where
  "stm32_exti_enable_int hw line enable s =
     (if enable then
        (let s = stm32_exti_clear_pending hw line s
         in upd_exti (\<lambda>e. e\<lparr>exti_imr := exti_imr e OR push_bit (unat line) 1\<rparr>) s)
      else
        (let s = upd_exti (\<lambda>e. e\<lparr>exti_imr := exti_imr e AND NOT (push_bit (unat line) 1)\<rparr>) s;
             s = upd_exti (\<lambda>e. e\<lparr>exti_rtsr := exti_rtsr e AND NOT (push_bit (unat line) 1)\<rparr>) s;
             s = upd_exti (\<lambda>e. e\<lparr>exti_ftsr := exti_ftsr e AND NOT (push_bit (unat line) 1)\<rparr>) s
         in stm32_exti_clear_pending hw line s))"

definition stm32_exti_set_rising :: "u32 \<Rightarrow> soc \<Rightarrow> soc" where
  "stm32_exti_set_rising line = upd_exti (\<lambda>e. e\<lparr>exti_rtsr := exti_rtsr e OR push_bit (unat line) 1\<rparr>)"

definition stm32_exti_set_falling :: "u32 \<Rightarrow> soc \<Rightarrow> soc" where
  "stm32_exti_set_falling line = upd_exti (\<lambda>e. e\<lparr>exti_ftsr := exti_ftsr e OR push_bit (unat line) 1\<rparr>)"

definition stm32_exti_get_pending :: "soc \<Rightarrow> u32" where
  "stm32_exti_get_pending s = exti_pr (exti s)"

section \<open>Lines\<close>

text \<open>What the controller holds for one line.\<close>

record exti_line =
  line_port :: u32
  line_int :: bool
  line_rising :: bool
  line_falling :: bool
  line_pending :: bool

definition exti_line :: "soc \<Rightarrow> nat \<Rightarrow> exti_line" where
  "exti_line s l = \<lparr>line_port = field 4 (4 * (l mod 4)) (exticr s (l div 4)), line_int = bit (exti_imr (exti s)) l,
     line_rising = bit (exti_rtsr (exti s)) l, line_falling = bit (exti_ftsr (exti s)) l,
     line_pending = bit (exti_pr (exti s)) l\<rparr>"

text \<open>The operations of the controller on a line, as the calls of the driver.\<close>

datatype exti_op = Connect u32 | Enable bool | Rising | Falling | Clear

fun exti_do :: "pr_hw \<Rightarrow> nat \<Rightarrow> exti_op \<Rightarrow> soc \<Rightarrow> soc" where
  "exti_do hw l (Connect p) s = (case stm32_exti_connect (of_nat l) p s of Inr t \<Rightarrow> t | Inl _ \<Rightarrow> s)"
| "exti_do hw l (Enable b) s = stm32_exti_enable_int hw (of_nat l) b s"
| "exti_do hw l Rising s = stm32_exti_set_rising (of_nat l) s"
| "exti_do hw l Falling s = stm32_exti_set_falling (of_nat l) s"
| "exti_do hw l Clear s = stm32_exti_clear_pending hw (of_nat l) s"

text \<open>Their effect on the line they are for.\<close>

fun exti_eff :: "exti_op \<Rightarrow> exti_line \<Rightarrow> exti_line" where
  "exti_eff (Connect p) = line_port_update (\<lambda>_. p)"
| "exti_eff (Enable True) = line_int_update (\<lambda>_. True) \<circ> line_pending_update (\<lambda>_. False)"
| "exti_eff (Enable False) = (\<lambda>x. x\<lparr>line_int := False, line_rising := False, line_falling := False, line_pending := False\<rparr>)"
| "exti_eff Rising = line_rising_update (\<lambda>_. True)"
| "exti_eff Falling = line_falling_update (\<lambda>_. True)"
| "exti_eff Clear = line_pending_update (\<lambda>_. False)"

fun exti_op_ok :: "exti_op \<Rightarrow> bool" where
  "exti_op_ok (Connect p) \<longleftrightarrow> p < 16"
| "exti_op_ok _ \<longleftrightarrow> True"

lemma unat_line: "l < 16 \<Longrightarrow> unat (of_nat l :: u32) = l"
  by (simp add: unat_of_nat)

lemmas bit_line = bit_clear_bit [simplified] bit_or_bit [simplified]

lemma exti_of_upd [soc_simps]:
  "exti (upd_exti f s) = f (exti s)" "exticr (upd_exti f s) = exticr s"
  "gpio (upd_exti f s) = gpio s" "rcc (upd_exti f s) = rcc s"
  by (simp_all add: upd_exti_def)

lemma exti_connect_set_field:
  assumes "l < 16"
  shows "stm32_exti_connect (of_nat l) p s
    = Inr (s\<lparr>exticr := (exticr s)(l div 4 := set_field 4 (4 * (l mod 4)) p (exticr s (l div 4)))\<rparr>)"
proof -
  have "l div 4 < 4" "l mod 4 < 4" using assms by auto
  moreover have "unat ((of_nat l :: u32) div 4) = l div 4" using unat_line [OF assms] by (simp add: unat_div)
  moreover have "unat (((of_nat l :: u32) mod 4) * 4) = 4 * (l mod 4)"
  proof -
    have "unat ((of_nat l :: u32) mod 4) = l mod 4" using unat_line [OF assms] by (simp add: unat_mod)
    then show ?thesis using \<open>l mod 4 < 4\<close> by (simp add: unat_word_ariths)
  qed
  ultimately show ?thesis by (simp add: stm32_exti_connect_def Let_def set_field_c)
qed

lemma exti_line_connect:
  assumes "l < 16" "p < 16"
  shows "exti_line (exti_do hw l (Connect p) s) m = (if m = l then exti_eff (Connect p) (exti_line s m) else exti_line s m)"
proof -
  have p: "take_bit 4 p = p" using assms(2) by (intro take_bit_u32_self) (simp add: word_less_nat_alt)
  have "field 4 (4 * (m mod 4)) (set_field 4 (4 * (l mod 4)) p r) =
      (if m mod 4 = l mod 4 then p else field 4 (4 * (m mod 4)) r)" for r
    using p by (intro fields.rd_wr [of 4 "l mod 4" p "m mod 4" r, THEN trans]) auto
  moreover have "m = l \<longleftrightarrow> m mod 4 = l mod 4 \<and> m div 4 = l div 4" by (metis div_mult_mod_eq)
  ultimately show ?thesis by (auto simp: exti_connect_set_field [OF assms(1)] exti_line_def)
qed

lemma exti_line_bits:
  assumes "l < 16" "\<forall>p. op \<noteq> Connect p"
  shows "exti_line (exti_do rc_w1 l op s) m = (if m = l then exti_eff op (exti_line s m) else exti_line s m)"
proof (cases op)
  case (Enable b)
  then show ?thesis using assms(1)
    by (cases b) (auto simp: exti_line_def stm32_exti_enable_int_def stm32_exti_clear_pending_def rc_w1_def
        unat_line soc_simps bit_line Let_def)
qed (use assms in \<open>auto simp: exti_line_def stm32_exti_set_rising_def stm32_exti_set_falling_def
    stm32_exti_clear_pending_def rc_w1_def unat_line soc_simps bit_line\<close>)

text \<open>The sixteen lines are a register bank.\<close>

interpretation lines: reg_bank exti_line "exti_do rc_w1" "\<lambda>l. l < 16" exti_op_ok exti_eff
proof
  fix l m :: nat and op s
  assume l: "l < 16" and ok: "exti_op_ok op"
  have "exti_line (exti_do rc_w1 l op s) m = (if m = l then exti_eff op (exti_line s m) else exti_line s m)" for m
    using exti_line_connect [OF l] exti_line_bits [OF l] ok by (cases "\<exists>p. op = Connect p") auto
  then show "exti_line (exti_do rc_w1 l op s) l = exti_eff op (exti_line s l)"
    and "m < 16 \<Longrightarrow> l \<noteq> m \<Longrightarrow> exti_line (exti_do rc_w1 l op s) m = exti_line s m" by auto
qed

end
