(* ===== verification/Irq_Desc.thy ===== *)
theory Irq_Desc
  imports Exti
begin

text \<open>
  The state of the interrupt subsystem: the descriptors of \<^verbatim>\<open>kernel/irq\<close>, the enable bits of the
  Cortex-M interrupt controller (\<^verbatim>\<open>arch/arm/common/nvic.c\<close>), the chip registers, and the table of
  the GPIO driver that says which pin an external line is for. A function pointer that the code
  stores is a value of a datatype of the functions that are stored there; the interrupt handlers of
  drivers are numbers, and what they do is a parameter of the functions that run them. The kernel
  is built for one processor, so that a section under a spinlock is one step.
\<close>

section \<open>Constants\<close>

definition NVIC_IRQS :: nat where "NVIC_IRQS = 90"
definition STM32_GPIO_NUM :: nat where "STM32_GPIO_NUM = 168"

definition NR_IRQS :: "kconfig \<Rightarrow> nat" where
  "NR_IRQS cfg = (if cfg CONFIG_STM32_GPIO_INT then NVIC_IRQS + STM32_GPIO_NUM else NVIC_IRQS)"

datatype irq_sense =
    IRQ_TYPE_EDGE_RISING | IRQ_TYPE_EDGE_FALLING | IRQ_TYPE_LEVEL_HIGH | IRQ_TYPE_LEVEL_LOW
  | IRQ_TYPE_SENSE_MASK

primrec sense :: "irq_sense \<Rightarrow> u32" where
  "sense IRQ_TYPE_EDGE_RISING = 0x1"
| "sense IRQ_TYPE_EDGE_FALLING = 0x2"
| "sense IRQ_TYPE_LEVEL_HIGH = 0x4"
| "sense IRQ_TYPE_LEVEL_LOW = 0x8"
| "sense IRQ_TYPE_SENSE_MASK = 0xF"

declare sense.simps [simp del]

lemmas IRQ_TYPE_SENSE_MASK_def = sense.simps(5)

datatype irq_status =
    IRQ_INPROGRESS | IRQ_DISABLED | IRQ_PENDING | IRQ_REPLAY
  | IRQ_AUTODETECT | IRQ_WAITING | IRQ_LEVEL | IRQ_MASKED
  | IRQ_NOPROBE | IRQ_NOREQUEST | IRQ_NOAUTOEN | IRQ_NO_BALANCING
  | IRQ_SPURIOUS_DISABLED | IRQ_SUSPENDED | IRQ_ONESHOT | IRQ_NESTED_THREAD
  | IRQ_PER_CPU | IRQ_WAKEUP | IRQ_MOVE_PENDING | IRQ_MOVE_PCNTXT
  | IRQ_AFFINITY_SET

primrec irq_st :: "irq_status \<Rightarrow> u32" where
  "irq_st IRQ_INPROGRESS = 0x100"
| "irq_st IRQ_DISABLED = 0x200"
| "irq_st IRQ_PENDING = 0x400"
| "irq_st IRQ_REPLAY = 0x800"
| "irq_st IRQ_AUTODETECT = 0x1000"
| "irq_st IRQ_WAITING = 0x2000"
| "irq_st IRQ_LEVEL = 0x4000"
| "irq_st IRQ_MASKED = 0x8000"
| "irq_st IRQ_NOPROBE = 0x20000"
| "irq_st IRQ_NOREQUEST = 0x40000"
| "irq_st IRQ_NOAUTOEN = 0x80000"
| "irq_st IRQ_NO_BALANCING = 0x400000"
| "irq_st IRQ_SPURIOUS_DISABLED = 0x800000"
| "irq_st IRQ_SUSPENDED = 0x4000000"
| "irq_st IRQ_ONESHOT = 0x8000000"
| "irq_st IRQ_NESTED_THREAD = 0x10000000"
| "irq_st IRQ_PER_CPU = 0x10000"
| "irq_st IRQ_WAKEUP = 0x100000"
| "irq_st IRQ_MOVE_PENDING = 0x200000"
| "irq_st IRQ_MOVE_PCNTXT = 0x1000000"
| "irq_st IRQ_AFFINITY_SET = 0x2000000"

declare irq_st.simps [simp del]

lemmas IRQ_DISABLED_def = irq_st.simps(2)

definition IRQF_TRIGGER_MASK :: u32 where "IRQF_TRIGGER_MASK = 0xF"

datatype irqf_flag =
    IRQF_DISABLED | IRQF_SHARED | IRQF_TIMER | IRQF_NOBALANCING
  | IRQF_IRQPOLL | IRQF_ONESHOT | IRQF_SAMPLE_RANDOM | IRQF_PROBE_SHARED | IRQF_PERCPU

primrec irqf :: "irqf_flag \<Rightarrow> u32" where
  "irqf IRQF_DISABLED = 0x20"
| "irqf IRQF_SHARED = 0x80"
| "irqf IRQF_TIMER = 0x200"
| "irqf IRQF_NOBALANCING = 0x800"
| "irqf IRQF_IRQPOLL = 0x1000"
| "irqf IRQF_ONESHOT = 0x2000"
| "irqf IRQF_SAMPLE_RANDOM = 0x40"
| "irqf IRQF_PROBE_SHARED = 0x100"
| "irqf IRQF_PERCPU = 0x400"

declare irqf.simps [simp del]

definition IRQF_VALID :: u32 where "IRQF_VALID = 0x1"
definition IRQF_PROBE :: u32 where "IRQF_PROBE = 0x2"
definition IRQF_NOAUTOEN :: u32 where "IRQF_NOAUTOEN = 0x4"

definition IRQ_NONE :: u32 where "IRQ_NONE = 0"
definition IRQ_HANDLED :: u32 where "IRQ_HANDLED = 1"
definition IRQ_WAKE_THREAD :: u32 where "IRQ_WAKE_THREAD = 2"

lemmas irq_flag_defs = sense.simps irq_st.simps irqf.simps IRQF_TRIGGER_MASK_def IRQF_VALID_def IRQF_PROBE_def IRQF_NOAUTOEN_def IRQ_NONE_def IRQ_HANDLED_def IRQ_WAKE_THREAD_def

text \<open>The test \<^verbatim>\<open>word & mask\<close> of the source.\<close>

definition flag :: "u32 \<Rightarrow> u32 \<Rightarrow> bool" where
  "flag m x \<longleftrightarrow> x AND m \<noteq> 0"

section \<open>Descriptors\<close>

text \<open>
  The chips and flow handlers of this platform. \<open>Flow_NULL\<close> is the null pointer that
  \<^verbatim>\<open>compat_irq_chip_set_default_handler\<close> may store.
\<close>

datatype irq_chip = No_irq_chip | Dummy_irq_chip | Nvic_chip | Gpio_irq_chip

datatype irq_flow = Flow_NULL | Handle_bad_irq | Handle_simple_irq | Handle_level_irq | Exti_irq_handler

record irqaction =
  act_handler :: nat
  act_flags :: u32
  act_dev_id :: u32

record irq_desc =
  handle_irq :: irq_flow
  chip :: irq_chip
  chip_data :: bool
  action :: "irqaction list"
  status :: u32
  depth :: u32
  irq_count :: u32
  last_unhandled :: u32
  irqs_unhandled :: u32

text \<open>
  \<open>nvic_enable k\<close> holds the enable bits of interrupts 32 k to 32 k + 31, \<open>nvic_priority\<close> the priority registers by word. \<open>poll_timer\<close> is the
  expiry of the timer that polls interrupts disabled as spurious.
\<close>

record irq_world =
  iw_soc :: soc
  nvic_enable :: "nat \<Rightarrow> u32"
  nvic_priority :: "nat \<Rightarrow> u32"
  nr_irqs :: nat
  irq_descs :: "nat \<Rightarrow> irq_desc"
  exti_2_gpio :: "int list"
  irqs_resend :: "nat \<Rightarrow> bool"
  irq_err_count :: u32
  noirqdebug :: bool
  jiffies :: u32
  poll_timer :: "u32 option"

definition upd_desc :: "nat \<Rightarrow> (irq_desc \<Rightarrow> irq_desc) \<Rightarrow> irq_world \<Rightarrow> irq_world" where
  "upd_desc irq f w = w\<lparr>irq_descs := (irq_descs w)(irq := f (irq_descs w irq))\<rparr>"

definition upd_iw_soc :: "(soc \<Rightarrow> soc) \<Rightarrow> irq_world \<Rightarrow> irq_world" where
  "upd_iw_soc f w = w\<lparr>iw_soc := f (iw_soc w)\<rparr>"

definition irq_desc_init :: irq_desc where
  "irq_desc_init = \<lparr>handle_irq = Handle_bad_irq, chip = No_irq_chip, chip_data = False, action = [],
     status = (irq_st IRQ_DISABLED), depth = 1, irq_count = 0, last_unhandled = 0, irqs_unhandled = 0\<rparr>"

text \<open>The tables as the kernel image initialises them, on a chip and a controller in any state.\<close>

definition INITIAL_JIFFIES :: u32 where "INITIAL_JIFFIES = - (300 * 100)"

definition irq_world_boot :: "kconfig \<Rightarrow> soc \<Rightarrow> (nat \<Rightarrow> u32) \<Rightarrow> (nat \<Rightarrow> u32) \<Rightarrow> irq_world" where
  "irq_world_boot cfg s ena prio = \<lparr>iw_soc = s, nvic_enable = ena, nvic_priority = prio, nr_irqs = NR_IRQS cfg, irq_descs = (\<lambda>_. irq_desc_init),
     exti_2_gpio = replicate 15 0, irqs_resend = (\<lambda>_. False), irq_err_count = 0, noirqdebug = False,
     jiffies = INITIAL_JIFFIES, poll_timer = None\<rparr>"

text \<open>The setters of status bits.\<close>

definition set_status :: "u32 \<Rightarrow> irq_desc \<Rightarrow> irq_desc" where
  "set_status m d = d\<lparr>status := status d OR m\<rparr>"

definition clear_status :: "u32 \<Rightarrow> irq_desc \<Rightarrow> irq_desc" where
  "clear_status m d = d\<lparr>status := status d AND NOT m\<rparr>"

section \<open>The interrupt controller\<close>

text \<open>Writing a mask to the clear-enable or set-enable register of a word clears or sets these bits.\<close>

definition nvic_mask :: "nat \<Rightarrow> u32" where
  "nvic_mask irq = push_bit (irq mod 32) 1"

definition nvic_ack_irq :: "nat \<Rightarrow> irq_world \<Rightarrow> irq_world" where
  "nvic_ack_irq irq w = w\<lparr>nvic_enable := (nvic_enable w)(irq div 32 := nvic_enable w (irq div 32) AND NOT (nvic_mask irq))\<rparr>"

definition nvic_mask_irq :: "nat \<Rightarrow> irq_world \<Rightarrow> irq_world" where
  "nvic_mask_irq irq w = w\<lparr>nvic_enable := (nvic_enable w)(irq div 32 := nvic_enable w (irq div 32) AND NOT (nvic_mask irq))\<rparr>"

definition nvic_unmask_irq :: "nat \<Rightarrow> irq_world \<Rightarrow> irq_world" where
  "nvic_unmask_irq irq w = w\<lparr>nvic_enable := (nvic_enable w)(irq div 32 := nvic_enable w (irq div 32) OR nvic_mask irq)\<rparr>"

text \<open>Sequencing of steps that may fault.\<close>

definition and_then :: "fault + 'a \<Rightarrow> ('a \<Rightarrow> fault + 'b) \<Rightarrow> fault + 'b" where
  "and_then r f = (case r of Inl e \<Rightarrow> Inl e | Inr x \<Rightarrow> f x)"

lemma and_then_simps [simp]: "and_then (Inl e) f = Inl e" "and_then (Inr x) f = f x"
  by (simp_all add: and_then_def)

text \<open>The same for code that may also not return.\<close>

definition run_then :: "(fault + 'a) option \<Rightarrow> ('a \<Rightarrow> (fault + 'b) option) \<Rightarrow> (fault + 'b) option" where
  "run_then r f = (case r of None \<Rightarrow> None | Some (Inl e) \<Rightarrow> Some (Inl e) | Some (Inr x) \<Rightarrow> f x)"

lemma run_then_simps [simp]:
  "run_then None f = None" "run_then (Some (Inl e)) f = Some (Inl e)" "run_then (Some (Inr x)) f = f x"
  by (simp_all add: run_then_def)

lemma and_then_Inr: "and_then r f = Inr y \<longleftrightarrow> (\<exists>x. r = Inr x \<and> f x = Inr y)"
  by (cases r) auto

end
