(* ===== verification/Gpio.thy ===== *)
theory Gpio
  imports Irq_Desc
begin

text \<open>
  The GPIO driver, \<^verbatim>\<open>arch/arm/mach-stm32/gpio.c\<close>: level and direction of a pin, and the interrupt
  chip that gives every pin an interrupt number of its own on top of the external lines. The
  driver numbers the pins 16 * port + pin. It is built with \<^verbatim>\<open>CONFIG_STM32_GPIO\<close>, its interrupt part
  with \<^verbatim>\<open>CONFIG_STM32_GPIO_INT\<close>. The array \<^verbatim>\<open>exti_2_gpio\<close> has 15 elements; an access outside of it is a fault.
\<close>

section \<open>Geometry\<close>

definition STM32_GPIO_PORTS :: int where "STM32_GPIO_PORTS = 9"
definition STM32_GPIO_PORT_PINS :: int where "STM32_GPIO_PORT_PINS = 16"
definition STM32_GPIO_LEN :: int where "STM32_GPIO_LEN = STM32_GPIO_PORT_PINS * STM32_GPIO_PORTS"
definition STM32_EXTI_IRQS_LEN :: nat where "STM32_EXTI_IRQS_LEN = 7"
definition STM32_EXTI_LINES_LEN :: nat where "STM32_EXTI_LINES_LEN = 15"

text \<open>\<^verbatim>\<open>/\<close> and \<^verbatim>\<open>%\<close> of C truncate towards zero.\<close>

definition STM32_GPIO_GETPIN :: "int \<Rightarrow> int" where
  "STM32_GPIO_GETPIN number = sgn number * (\<bar>number\<bar> mod STM32_GPIO_PORT_PINS)"

definition STM32_GPIO_GETPORT :: "int \<Rightarrow> int" where
  "STM32_GPIO_GETPORT number = sgn number * (\<bar>number\<bar> div STM32_GPIO_PORT_PINS)"

lemmas gpio_geometry = STM32_GPIO_PORTS_def STM32_GPIO_PORT_PINS_def STM32_GPIO_LEN_def
  STM32_EXTI_IRQS_LEN_def STM32_EXTI_LINES_LEN_def STM32_GPIO_GETPIN_def STM32_GPIO_GETPORT_def

definition gpio_chip_base :: "u32 list" where
  "gpio_chip_base = [0x40020000, 0x40020400, 0x40020800, 0x40020C00, 0x40021000, 0x40021400,
     0x40021800, 0x40021C00, 0x40022000]"

section \<open>Pins\<close>

text \<open>The register block of the port of a pin; the number is unsigned here.\<close>

definition gpio_port_base :: "nat \<Rightarrow> fault + u32" where
  "gpio_port_base n =
     (let port = n div 16 in if port < length gpio_chip_base then Inr (gpio_chip_base ! port) else Inl OutOfBounds)"

definition upd_gpio_regs :: "u32 \<Rightarrow> (gpio_regs \<Rightarrow> gpio_regs) \<Rightarrow> soc \<Rightarrow> soc" where
  "upd_gpio_regs base f s = s\<lparr>gpio := (gpio s)(base := f (gpio s base))\<rparr>"

definition stm32_gpio_set_value :: "nat \<Rightarrow> u32 \<Rightarrow> soc \<Rightarrow> fault + soc" where
  "stm32_gpio_set_value n v s =
     and_then (gpio_port_base n) (\<lambda>base.
       let pin = n mod 16;
           l = gpio_odr (gpio s base);
           l = l AND NOT (push_bit pin 1);
           l = l OR push_bit pin v
       in Inr (upd_gpio_regs base (\<lambda>r. r\<lparr>gpio_odr := l\<rparr>) s))"

definition stm32_gpio_get_value :: "nat \<Rightarrow> soc \<Rightarrow> fault + int" where
  "stm32_gpio_get_value n s =
     and_then (gpio_port_base n) (\<lambda>base. Inr (if gpio_idr (gpio s base) AND push_bit (n mod 16) 1 \<noteq> 0 then 1 else 0))"

definition stm32_gpio_direction_input :: "nat \<Rightarrow> soc \<Rightarrow> fault + int \<times> soc" where
  "stm32_gpio_direction_input n s =
     and_then (gpio_port_base n) (\<lambda>base.
       let shf = (n mod 16) * 2
       in Inr (0, upd_gpio_regs base (\<lambda>r. r\<lparr>gpio_moder := gpio_moder r AND NOT (push_bit shf 3)\<rparr>) s))"

text \<open>\<^verbatim>\<open>gpio_set_value\<close> calls back the \<open>set\<close> function of this chip, whose numbers start at 0.\<close>

definition stm32_gpio_direction_output :: "nat \<Rightarrow> u32 \<Rightarrow> soc \<Rightarrow> fault + int \<times> soc" where
  "stm32_gpio_direction_output n level s =
     and_then (gpio_port_base n) (\<lambda>base.
       let shf = (n mod 16) * 2;
           l = gpio_moder (gpio s base);
           l = l AND NOT (push_bit shf 3);
           l = l OR push_bit shf 1;
           s = upd_gpio_regs base (\<lambda>r. r\<lparr>gpio_moder := l\<rparr>) s
       in and_then (stm32_gpio_set_value n level s) (\<lambda>s. Inr (0, s)))"

section \<open>Interrupts of pins\<close>

text \<open>\<open>irq_base\<close> is \<^verbatim>\<open>NVIC_IRQS\<close>; the logical interrupt of pin \<open>n\<close> is \<open>irq_base + n\<close>.\<close>

definition gpio_irq_base :: nat where "gpio_irq_base = NVIC_IRQS"

definition exti_irqs :: "nat list" where
  "exti_irqs = [6, 7, 8, 9, 10, 23, 40]"

definition stm32_gpio_to_irq :: "nat \<Rightarrow> int" where
  "stm32_gpio_to_irq offset = (if STM32_GPIO_LEN \<le> int offset then - EINVAL else int (gpio_irq_base + offset))"

definition gpio_of_irq :: "nat \<Rightarrow> int" where
  "gpio_of_irq irq = int irq - int gpio_irq_base"

text \<open>The value of \<^verbatim>\<open>exti_2_gpio[line]\<close>, and its update, at an index that may be outside.\<close>

definition get_exti_2_gpio :: "int \<Rightarrow> irq_world \<Rightarrow> fault + int" where
  "get_exti_2_gpio line w =
     (if 0 \<le> line \<and> nat line < length (exti_2_gpio w) then Inr (exti_2_gpio w ! nat line) else Inl OutOfBounds)"

definition put_exti_2_gpio :: "int \<Rightarrow> int \<Rightarrow> irq_world \<Rightarrow> fault + irq_world" where
  "put_exti_2_gpio line g w =
     (if 0 \<le> line \<and> nat line < length (exti_2_gpio w) then Inr (w\<lparr>exti_2_gpio := (exti_2_gpio w)[nat line := g]\<rparr>)
      else Inl OutOfBounds)"

definition stm32_gpio_irq_enable :: "pr_hw \<Rightarrow> nat \<Rightarrow> irq_world \<Rightarrow> fault + irq_world" where
  "stm32_gpio_irq_enable hw irq w =
     (if \<not> chip_data (irq_descs w irq) then Inl NullCall else
      let g = gpio_of_irq irq; line = STM32_GPIO_GETPIN g; pin = STM32_GPIO_GETPORT g in
      and_then (get_exti_2_gpio line w) (\<lambda>_.
      and_then (put_exti_2_gpio line g w) (\<lambda>w.
      and_then (stm32_exti_connect (of_int line) (of_int pin) (iw_soc w)) (\<lambda>s.
      let w = w\<lparr>iw_soc := stm32_exti_enable_int hw (of_int line) True s\<rparr>
      in Inr (upd_desc irq (clear_status (irq_st IRQ_MASKED)) w)))))"

definition stm32_gpio_irq_disable :: "pr_hw \<Rightarrow> nat \<Rightarrow> irq_world \<Rightarrow> fault + irq_world" where
  "stm32_gpio_irq_disable hw irq w =
     (if \<not> chip_data (irq_descs w irq) then Inl NullCall else
      let line = STM32_GPIO_GETPIN (gpio_of_irq irq);
          w = upd_iw_soc (stm32_exti_enable_int hw (of_int line) False) w
      in Inr (upd_desc irq (set_status (irq_st IRQ_MASKED)) w))"

definition stm32_gpio_irq_set_type :: "nat \<Rightarrow> u32 \<Rightarrow> irq_world \<Rightarrow> fault + int \<times> irq_world" where
  "stm32_gpio_irq_set_type irq trigger w =
     (if \<not> chip_data (irq_descs w irq) then Inl NullCall else
      let g = gpio_of_irq irq; line = STM32_GPIO_GETPIN g in
      if STM32_GPIO_LEN \<le> g \<or> flag ((sense IRQ_TYPE_LEVEL_HIGH) OR (sense IRQ_TYPE_LEVEL_LOW)) trigger then Inr (- EINVAL, w)
      else
        (let w = (if flag (sense IRQ_TYPE_EDGE_RISING) trigger then upd_iw_soc (stm32_exti_set_rising (of_int line)) w else w);
             w = (if flag (sense IRQ_TYPE_EDGE_FALLING) trigger then upd_iw_soc (stm32_exti_set_falling (of_int line)) w else w)
         in Inr (0, w)))"

end
