(* ===== verification/Irq.thy ===== *)
theory Irq
  imports Gpio
begin

text \<open>
  The interrupt core as this platform uses it: \<^verbatim>\<open>kernel/irq/chip.c\<close>, \<^verbatim>\<open>manage.c\<close>, \<^verbatim>\<open>handle.c\<close>, \<^verbatim>\<open>resend.c\<close>
  and \<^verbatim>\<open>spurious.c\<close>, the ARM part in \<^verbatim>\<open>arch/arm/kernel/irq.c\<close>, the controller in \<^verbatim>\<open>arch/arm/common/nvic.c\<close>
  and the interrupt part of the GPIO driver. A call of a chip method goes through the chip of the
  descriptor, with the defaults that \<^verbatim>\<open>irq_chip_set_defaults\<close> fills in; a method the chip does not have
  is a fault where the code calls it unchecked. \<open>hw\<close> is the pending register of the external
  controller, \<open>run\<close> what the handlers of drivers do. Threaded handlers are not modelled:
  \<^verbatim>\<open>request_irq\<close> passes no thread function. The statistics and \<^verbatim>\<open>/proc\<close> entries are left out.
\<close>

section \<open>Chip methods\<close>

type_synonym irq_run = "nat \<Rightarrow> nat \<Rightarrow> u32 \<Rightarrow> irq_world \<Rightarrow> u32 \<times> irq_world"

fun chip_ack :: "irq_chip \<Rightarrow> (nat \<Rightarrow> irq_world \<Rightarrow> irq_world) option" where
  "chip_ack No_irq_chip = Some (\<lambda>irq w. w\<lparr>irq_err_count := irq_err_count w + 1\<rparr>)"
| "chip_ack Dummy_irq_chip = Some (\<lambda>irq w. w)"
| "chip_ack Nvic_chip = Some nvic_ack_irq"
| "chip_ack Gpio_irq_chip = None"

fun chip_mask :: "irq_chip \<Rightarrow> (nat \<Rightarrow> irq_world \<Rightarrow> irq_world) option" where
  "chip_mask Dummy_irq_chip = Some (\<lambda>irq w. w)"
| "chip_mask Nvic_chip = Some nvic_mask_irq"
| "chip_mask _ = None"

fun chip_unmask :: "irq_chip \<Rightarrow> (nat \<Rightarrow> irq_world \<Rightarrow> irq_world) option" where
  "chip_unmask Dummy_irq_chip = Some (\<lambda>irq w. w)"
| "chip_unmask Nvic_chip = Some nvic_unmask_irq"
| "chip_unmask _ = None"

definition call_op :: "(nat \<Rightarrow> irq_world \<Rightarrow> irq_world) option \<Rightarrow> nat \<Rightarrow> irq_world \<Rightarrow> fault + irq_world" where
  "call_op f irq w = (case f of None \<Rightarrow> Inl NullCall | Some g \<Rightarrow> Inr (g irq w))"

abbreviation chip_of :: "nat \<Rightarrow> irq_world \<Rightarrow> irq_chip" where
  "chip_of irq w \<equiv> chip (irq_descs w irq)"

definition default_enable :: "nat \<Rightarrow> irq_world \<Rightarrow> fault + irq_world" where
  "default_enable irq w =
     and_then (call_op (chip_unmask (chip_of irq w)) irq w) (\<lambda>w. Inr (upd_desc irq (clear_status (irq_st IRQ_MASKED)) w))"

definition default_shutdown :: "nat \<Rightarrow> irq_world \<Rightarrow> fault + irq_world" where
  "default_shutdown irq w =
     and_then (call_op (chip_mask (chip_of irq w)) irq w) (\<lambda>w. Inr (upd_desc irq (set_status (irq_st IRQ_MASKED)) w))"

text \<open>The methods after \<^verbatim>\<open>irq_chip_set_defaults\<close>.\<close>

definition chip_enable :: "pr_hw \<Rightarrow> nat \<Rightarrow> irq_world \<Rightarrow> fault + irq_world" where
  "chip_enable hw irq w =
     (case chip_of irq w of
        Nvic_chip \<Rightarrow> default_enable irq w
      | Gpio_irq_chip \<Rightarrow> stm32_gpio_irq_enable hw irq w
      | _ \<Rightarrow> Inr w)"

definition chip_disable :: "pr_hw \<Rightarrow> nat \<Rightarrow> irq_world \<Rightarrow> fault + irq_world" where
  "chip_disable hw irq w =
     (case chip_of irq w of Gpio_irq_chip \<Rightarrow> stm32_gpio_irq_disable hw irq w | _ \<Rightarrow> Inr w)"

definition chip_startup :: "pr_hw \<Rightarrow> nat \<Rightarrow> irq_world \<Rightarrow> fault + irq_world" where
  "chip_startup hw irq w =
     (case chip_of irq w of
        Nvic_chip \<Rightarrow> chip_enable hw irq w
      | Gpio_irq_chip \<Rightarrow> chip_enable hw irq w
      | _ \<Rightarrow> Inr w)"

definition chip_shutdown :: "pr_hw \<Rightarrow> nat \<Rightarrow> irq_world \<Rightarrow> fault + irq_world" where
  "chip_shutdown hw irq w =
     (case chip_of irq w of
        Nvic_chip \<Rightarrow> default_shutdown irq w
      | Gpio_irq_chip \<Rightarrow> chip_disable hw irq w
      | _ \<Rightarrow> Inr w)"

definition mask_ack_irq :: "nat \<Rightarrow> irq_world \<Rightarrow> fault + irq_world" where
  "mask_ack_irq irq w =
     and_then (call_op (chip_mask (chip_of irq w)) irq w) (\<lambda>w.
       case chip_ack (chip_of irq w) of None \<Rightarrow> Inr w | Some g \<Rightarrow> Inr (g irq w))"

section \<open>Setting up descriptors\<close>

definition set_irq_chip :: "nat \<Rightarrow> irq_chip \<Rightarrow> irq_world \<Rightarrow> int \<times> irq_world" where
  "set_irq_chip irq c w =
     (if nr_irqs w \<le> irq then (- EINVAL, w) else (0, upd_desc irq (\<lambda>d. d\<lparr>chip := c\<rparr>) w))"

definition set_irq_chip_data :: "nat \<Rightarrow> bool \<Rightarrow> irq_world \<Rightarrow> int \<times> irq_world" where
  "set_irq_chip_data irq data w =
     (if nr_irqs w \<le> irq then (- EINVAL, w) else (0, upd_desc irq (\<lambda>d. d\<lparr>chip_data := data\<rparr>) w))"

definition set_irq_handler :: "pr_hw \<Rightarrow> nat \<Rightarrow> irq_flow \<Rightarrow> bool \<Rightarrow> irq_world \<Rightarrow> fault + irq_world" where
  "set_irq_handler hw irq handle is_chained w =
     (if nr_irqs w \<le> irq then Inr w else
      let handle' = (if handle = Flow_NULL then Handle_bad_irq else handle);
          w = (if handle \<noteq> Flow_NULL \<and> chip_of irq w = No_irq_chip
               then upd_desc irq (\<lambda>d. d\<lparr>chip := Dummy_irq_chip\<rparr>) w else w)
      in and_then
           (if handle' = Handle_bad_irq
            then and_then (if chip_of irq w \<noteq> No_irq_chip then mask_ack_irq irq w else Inr w)
                   (\<lambda>w. Inr (upd_desc irq (\<lambda>d. (set_status (irq_st IRQ_DISABLED) d)\<lparr>depth := 1\<rparr>) w))
            else Inr w)
           (\<lambda>w.
             let w = upd_desc irq (\<lambda>d. d\<lparr>handle_irq := handle'\<rparr>) w in
             if handle' \<noteq> Handle_bad_irq \<and> is_chained then
               (let w = upd_desc irq (clear_status (irq_st IRQ_DISABLED)) w;
                    w = upd_desc irq (set_status ((irq_st IRQ_NOREQUEST) OR (irq_st IRQ_NOPROBE))) w;
                    w = upd_desc irq (\<lambda>d. d\<lparr>depth := 0\<rparr>) w
                in chip_startup hw irq w)
             else Inr w))"

definition set_irq_flags :: "nat \<Rightarrow> u32 \<Rightarrow> irq_world \<Rightarrow> irq_world" where
  "set_irq_flags irq iflags w =
     (if nr_irqs w \<le> irq then w else
      let w = upd_desc irq (set_status ((irq_st IRQ_NOREQUEST) OR (irq_st IRQ_NOPROBE) OR (irq_st IRQ_NOAUTOEN))) w;
          w = (if flag IRQF_VALID iflags then upd_desc irq (clear_status (irq_st IRQ_NOREQUEST)) w else w);
          w = (if flag IRQF_PROBE iflags then upd_desc irq (clear_status (irq_st IRQ_NOPROBE)) w else w);
          w = (if \<not> flag IRQF_NOAUTOEN iflags then upd_desc irq (clear_status (irq_st IRQ_NOAUTOEN)) w else w)
      in w)"

section \<open>Disabling and enabling\<close>

definition disable_irq_desc :: "pr_hw \<Rightarrow> nat \<Rightarrow> bool \<Rightarrow> irq_world \<Rightarrow> fault + irq_world" where
  "disable_irq_desc hw irq suspend w =
     (if suspend \<and> (case action (irq_descs w irq) of [] \<Rightarrow> True | a # _ \<Rightarrow> flag (irqf IRQF_TIMER) (act_flags a)) then Inr w
      else
        (let w = (if suspend then upd_desc irq (set_status (irq_st IRQ_SUSPENDED)) w else w);
             old = depth (irq_descs w irq);
             w = upd_desc irq (\<lambda>d. d\<lparr>depth := old + 1\<rparr>) w
         in if old = 0 then chip_disable hw irq (upd_desc irq (set_status (irq_st IRQ_DISABLED)) w) else Inr w))"

definition check_irq_resend :: "pr_hw \<Rightarrow> nat \<Rightarrow> irq_world \<Rightarrow> fault + irq_world" where
  "check_irq_resend hw irq w =
     (let st = status (irq_descs w irq) in
      and_then (chip_enable hw irq w) (\<lambda>w.
        if st AND ((irq_st IRQ_LEVEL) OR (irq_st IRQ_PENDING) OR (irq_st IRQ_REPLAY)) = (irq_st IRQ_PENDING)
        then Inr ((upd_desc irq (\<lambda>d. d\<lparr>status := (st AND NOT (irq_st IRQ_PENDING)) OR (irq_st IRQ_REPLAY)\<rparr>) w)\<lparr>irqs_resend := (irqs_resend w)(irq := True)\<rparr>)
        else Inr w))"

definition enable_irq_desc :: "pr_hw \<Rightarrow> nat \<Rightarrow> bool \<Rightarrow> irq_world \<Rightarrow> fault + irq_world" where
  "enable_irq_desc hw irq resume w =
     (let w = (if resume then upd_desc irq (clear_status (irq_st IRQ_SUSPENDED)) w else w);
          d = irq_descs w irq
      in if depth d = 0 then Inr w
         else if depth d = 1 then
           (if flag (irq_st IRQ_SUSPENDED) (status d) then Inr w
            else and_then (check_irq_resend hw irq
                   (upd_desc irq (\<lambda>d. d\<lparr>status := (status d AND NOT (irq_st IRQ_DISABLED)) OR (irq_st IRQ_NOPROBE)\<rparr>) w))
                   (\<lambda>w. Inr (upd_desc irq (\<lambda>d. d\<lparr>depth := depth d - 1\<rparr>) w)))
         else Inr (upd_desc irq (\<lambda>d. d\<lparr>depth := depth d - 1\<rparr>) w))"

definition disable_irq_nosync :: "pr_hw \<Rightarrow> nat \<Rightarrow> irq_world \<Rightarrow> fault + irq_world" where
  "disable_irq_nosync hw irq w = (if nr_irqs w \<le> irq then Inr w else disable_irq_desc hw irq False w)"

definition enable_irq :: "pr_hw \<Rightarrow> nat \<Rightarrow> irq_world \<Rightarrow> fault + irq_world" where
  "enable_irq hw irq w = (if nr_irqs w \<le> irq then Inr w else enable_irq_desc hw irq False w)"

text \<open>
  \<^verbatim>\<open>synchronize_irq\<close> spins while the handler is in progress. On one processor nothing can end the
  handler meanwhile: the call returns at once or, from inside the handler, never (\<open>None\<close>).
\<close>

definition synchronize_irq :: "nat \<Rightarrow> irq_world \<Rightarrow> irq_world option" where
  "synchronize_irq irq w =
     (if irq < nr_irqs w \<and> flag (irq_st IRQ_INPROGRESS) (status (irq_descs w irq)) then None else Some w)"

definition disable_irq :: "pr_hw \<Rightarrow> nat \<Rightarrow> irq_world \<Rightarrow> (fault + irq_world) option" where
  "disable_irq hw irq w =
     (if nr_irqs w \<le> irq then Some (Inr w) else
      case disable_irq_nosync hw irq w of
        Inl e \<Rightarrow> Some (Inl e)
      | Inr w \<Rightarrow> if action (irq_descs w irq) \<noteq> [] then map_option Inr (synchronize_irq irq w) else Some (Inr w))"

section \<open>Requesting and freeing\<close>

definition ENXIO :: int where [simp]: "ENXIO = 6"
definition ENOSYS :: int where [simp]: "ENOSYS = 38"

definition irq_set_trigger :: "nat \<Rightarrow> u32 \<Rightarrow> irq_world \<Rightarrow> fault + int \<times> irq_world" where
  "irq_set_trigger irq flags w =
     (if chip_of irq w \<noteq> Gpio_irq_chip then Inr (0, w) else
      and_then (stm32_gpio_irq_set_type irq flags w) (\<lambda>(ret, w).
        if ret \<noteq> 0 then Inr (ret, w)
        else
          (let flags = (if flag ((sense IRQ_TYPE_LEVEL_LOW) OR (sense IRQ_TYPE_LEVEL_HIGH)) flags then flags OR (irq_st IRQ_LEVEL) else flags)
           in Inr (0, upd_desc irq (\<lambda>d. d\<lparr>status := (status d AND NOT ((irq_st IRQ_LEVEL) OR (sense IRQ_TYPE_SENSE_MASK))) OR flags\<rparr>) w))))"

definition set_irq_type :: "nat \<Rightarrow> u32 \<Rightarrow> irq_world \<Rightarrow> fault + int \<times> irq_world" where
  "set_irq_type irq type w =
     (if nr_irqs w \<le> irq then Inr (- ENODEV, w) else
      let type = type AND (sense IRQ_TYPE_SENSE_MASK) in
      if type = 0 then Inr (0, w) else irq_set_trigger irq type w)"

definition can_request_irq :: "nat \<Rightarrow> u32 \<Rightarrow> irq_world \<Rightarrow> bool" where
  "can_request_irq irq irqflags w \<longleftrightarrow>
     irq < nr_irqs w \<and> \<not> flag (irq_st IRQ_NOREQUEST) (status (irq_descs w irq))
     \<and> (case action (irq_descs w irq) of [] \<Rightarrow> True | a # _ \<Rightarrow> flag (irqf IRQF_SHARED) (irqflags AND act_flags a))"

text \<open>The first handler of a line: trigger, then the status bits, then the start of the line.\<close>

definition setup_irq_first :: "pr_hw \<Rightarrow> nat \<Rightarrow> irqaction \<Rightarrow> irq_world \<Rightarrow> fault + int \<times> irq_world" where
  "setup_irq_first hw irq new w =
     and_then
       (if flag IRQF_TRIGGER_MASK (act_flags new) then irq_set_trigger irq (act_flags new AND IRQF_TRIGGER_MASK) w
        else Inr (0, upd_desc irq (\<lambda>d. if handle_irq d = Handle_bad_irq then d\<lparr>handle_irq := Flow_NULL\<rparr> else d) w))
       (\<lambda>(ret, w).
         if ret \<noteq> 0 then Inr (ret, w) else
         let w = upd_desc irq (clear_status ((irq_st IRQ_AUTODETECT) OR (irq_st IRQ_WAITING) OR (irq_st IRQ_ONESHOT) OR (irq_st IRQ_INPROGRESS) OR (irq_st IRQ_SPURIOUS_DISABLED))) w;
             w = (if flag (irqf IRQF_ONESHOT) (act_flags new) then upd_desc irq (set_status (irq_st IRQ_ONESHOT)) w else w)
         in and_then
              (if \<not> flag (irq_st IRQ_NOAUTOEN) (status (irq_descs w irq))
               then chip_startup hw irq (upd_desc irq (\<lambda>d. (clear_status (irq_st IRQ_DISABLED) d)\<lparr>depth := 0\<rparr>) w)
               else Inr (upd_desc irq (\<lambda>d. d\<lparr>depth := 1\<rparr>) w))
              (\<lambda>w. Inr (0, if flag (irqf IRQF_NOBALANCING) (act_flags new) then upd_desc irq (set_status (irq_st IRQ_NO_BALANCING)) w else w)))"

definition setup_irq_link :: "pr_hw \<Rightarrow> nat \<Rightarrow> irqaction \<Rightarrow> bool \<Rightarrow> irq_world \<Rightarrow> fault + int \<times> irq_world" where
  "setup_irq_link hw irq new shared w =
     (let w = upd_desc irq (\<lambda>d. d\<lparr>action := action d @ [new], irq_count := 0, irqs_unhandled := 0\<rparr>) w in
      and_then
        (if shared \<and> flag (irq_st IRQ_SPURIOUS_DISABLED) (status (irq_descs w irq))
         then enable_irq_desc hw irq False (upd_desc irq (clear_status (irq_st IRQ_SPURIOUS_DISABLED)) w) else Inr w)
        (\<lambda>w. Inr (0, w)))"

definition setup_irq :: "pr_hw \<Rightarrow> nat \<Rightarrow> irqaction \<Rightarrow> irq_world \<Rightarrow> fault + int \<times> irq_world" where
  "setup_irq hw irq new w =
     (if nr_irqs w \<le> irq then Inr (- EINVAL, w)
      else if chip_of irq w = No_irq_chip then Inr (- ENOSYS, w)
      else if flag (irqf IRQF_ONESHOT) (act_flags new) \<and> flag (irqf IRQF_SHARED) (act_flags new) then Inr (- EINVAL, w)
      else if flag (irq_st IRQ_NESTED_THREAD) (status (irq_descs w irq)) then Inr (- EINVAL, w)
      else case action (irq_descs w irq) of
        old # _ \<Rightarrow>
          if \<not> flag (irqf IRQF_SHARED) (act_flags old AND act_flags new)
             \<or> flag IRQF_TRIGGER_MASK (act_flags old XOR act_flags new) then Inr (- EBUSY, w)
          else setup_irq_link hw irq new True w
      | [] \<Rightarrow>
          and_then (setup_irq_first hw irq new w) (\<lambda>(ret, w).
            if ret \<noteq> 0 then Inr (ret, w) else setup_irq_link hw irq new False w))"

text \<open>\<open>mem\<close> is whether \<^verbatim>\<open>kzalloc\<close> finds memory; a handler is given (\<open>Some\<close>) or null.\<close>

definition request_irq :: "pr_hw \<Rightarrow> bool \<Rightarrow> nat \<Rightarrow> nat option \<Rightarrow> u32 \<Rightarrow> u32 \<Rightarrow> irq_world \<Rightarrow> fault + int \<times> irq_world" where
  "request_irq hw mem irq handler irqflags dev_id w =
     (if flag (irqf IRQF_SHARED) irqflags \<and> dev_id = 0 then Inr (- EINVAL, w)
      else if nr_irqs w \<le> irq then Inr (- EINVAL, w)
      else if flag (irq_st IRQ_NOREQUEST) (status (irq_descs w irq)) then Inr (- EINVAL, w)
      else case handler of None \<Rightarrow> Inr (- EINVAL, w)
      | Some h \<Rightarrow>
          if \<not> mem then Inr (- ENOMEM, w)
          else setup_irq hw irq \<lparr>act_handler = h, act_flags = irqflags, act_dev_id = dev_id\<rparr> w)"

text \<open>The action list without the first action of that device.\<close>

fun unlink_action :: "u32 \<Rightarrow> irqaction list \<Rightarrow> irqaction list option" where
  "unlink_action dev_id [] = None"
| "unlink_action dev_id (a # as) =
     (if act_dev_id a = dev_id then Some as else map_option ((#) a) (unlink_action dev_id as))"

definition free_irq :: "pr_hw \<Rightarrow> nat \<Rightarrow> u32 \<Rightarrow> irq_world \<Rightarrow> (fault + irq_world) option" where
  "free_irq hw irq dev_id w =
     (if nr_irqs w \<le> irq then Some (Inr w) else
      case unlink_action dev_id (action (irq_descs w irq)) of
        None \<Rightarrow> Some (Inr w)
      | Some as \<Rightarrow>
          (let w = upd_desc irq (\<lambda>d. d\<lparr>action := as\<rparr>) w in
           case (if as = [] then chip_shutdown hw irq (upd_desc irq (set_status (irq_st IRQ_DISABLED)) w) else Inr w) of
             Inl e \<Rightarrow> Some (Inl e)
           | Inr w \<Rightarrow> map_option Inr (synchronize_irq irq w)))"

section \<open>Handling\<close>

text \<open>All handlers of a line are called, in order; the results are combined by \<^verbatim>\<open>|\<close>.\<close>

fun irq_event_loop :: "irq_run \<Rightarrow> nat \<Rightarrow> irqaction list \<Rightarrow> u32 \<Rightarrow> irq_world \<Rightarrow> u32 \<times> irq_world" where
  "irq_event_loop run irq [] retval w = (retval, w)"
| "irq_event_loop run irq (a # as) retval w =
     (let (ret, w) = run (act_handler a) irq (act_dev_id a) w;
          ret = (if ret = IRQ_WAKE_THREAD then IRQ_HANDLED else ret)
      in irq_event_loop run irq as (retval OR ret) w)"

definition handle_IRQ_event :: "irq_run \<Rightarrow> nat \<Rightarrow> irqaction list \<Rightarrow> irq_world \<Rightarrow> u32 \<times> irq_world" where
  "handle_IRQ_event run irq as w = irq_event_loop run irq as IRQ_NONE w"

definition time_after :: "u32 \<Rightarrow> u32 \<Rightarrow> bool" where
  "time_after a b \<longleftrightarrow> sint (b - a) < 0"

text \<open>The detection of stuck interrupts, without the \<^verbatim>\<open>irqfixup\<close> and \<^verbatim>\<open>irqpoll\<close> boot options.\<close>

definition note_interrupt :: "pr_hw \<Rightarrow> nat \<Rightarrow> u32 \<Rightarrow> irq_world \<Rightarrow> fault + irq_world" where
  "note_interrupt hw irq action_ret w =
     (let w = (if action_ret \<noteq> IRQ_HANDLED
               then upd_desc irq (\<lambda>d. d\<lparr>irqs_unhandled := (if time_after (jiffies w) (last_unhandled d + 100 div 10) then 1 else irqs_unhandled d + 1),
                                         last_unhandled := jiffies w\<rparr>) w
               else w);
          w = upd_desc irq (\<lambda>d. d\<lparr>irq_count := irq_count d + 1\<rparr>) w
      in if irq_count (irq_descs w irq) < 100000 then Inr w
         else
           (let w = upd_desc irq (\<lambda>d. d\<lparr>irq_count := 0\<rparr>) w in
            and_then
              (if irqs_unhandled (irq_descs w irq) > 99900
               then and_then (chip_disable hw irq
                      (upd_desc irq (\<lambda>d. (set_status ((irq_st IRQ_DISABLED) OR (irq_st IRQ_SPURIOUS_DISABLED)) d)\<lparr>depth := depth d + 1\<rparr>) w))
                      (\<lambda>w. Inr (w\<lparr>poll_timer := Some (jiffies w + 100 div 10)\<rparr>))
               else Inr w)
              (\<lambda>w. Inr (upd_desc irq (\<lambda>d. d\<lparr>irqs_unhandled := 0\<rparr>) w))))"

text \<open>The common middle part of the flow handlers: the handlers run with \<^verbatim>\<open>IRQ_INPROGRESS\<close> set.\<close>

definition run_actions :: "pr_hw \<Rightarrow> irq_run \<Rightarrow> nat \<Rightarrow> irq_world \<Rightarrow> fault + irq_world" where
  "run_actions hw run irq w =
     (let as = action (irq_descs w irq);
          w = upd_desc irq (set_status (irq_st IRQ_INPROGRESS)) w;
          (ret, w) = handle_IRQ_event run irq as w
      in and_then (if noirqdebug w then Inr w else note_interrupt hw irq ret w)
           (\<lambda>w. Inr (upd_desc irq (clear_status (irq_st IRQ_INPROGRESS)) w)))"

definition handle_simple_irq :: "pr_hw \<Rightarrow> irq_run \<Rightarrow> nat \<Rightarrow> irq_world \<Rightarrow> fault + irq_world" where
  "handle_simple_irq hw run irq w =
     (if flag (irq_st IRQ_INPROGRESS) (status (irq_descs w irq)) then Inr w
      else
        (let w = upd_desc irq (clear_status ((irq_st IRQ_REPLAY) OR (irq_st IRQ_WAITING))) w;
             d = irq_descs w irq
         in if action d = [] \<or> flag (irq_st IRQ_DISABLED) (status d) then Inr w else run_actions hw run irq w))"

definition handle_level_irq :: "pr_hw \<Rightarrow> irq_run \<Rightarrow> nat \<Rightarrow> irq_world \<Rightarrow> fault + irq_world" where
  "handle_level_irq hw run irq w =
     and_then (mask_ack_irq irq w) (\<lambda>w.
       if flag (irq_st IRQ_INPROGRESS) (status (irq_descs w irq)) then Inr w
       else
         (let w = upd_desc irq (clear_status ((irq_st IRQ_REPLAY) OR (irq_st IRQ_WAITING))) w;
              d = irq_descs w irq
          in if action d = [] \<or> flag (irq_st IRQ_DISABLED) (status d) then Inr w
             else and_then (run_actions hw run irq w) (\<lambda>w.
               let st = status (irq_descs w irq) in
               if flag (irq_st IRQ_ONESHOT) st then Inr (upd_desc irq (set_status (irq_st IRQ_MASKED)) w)
               else if \<not> flag (irq_st IRQ_DISABLED) st then
                 (case chip_unmask (chip_of irq w) of None \<Rightarrow> Inr w | Some g \<Rightarrow> Inr (g irq w))
               else Inr w)))"

definition handle_bad_irq :: "nat \<Rightarrow> irq_world \<Rightarrow> irq_world" where
  "handle_bad_irq irq w = w\<lparr>irq_err_count := irq_err_count w + 1\<rparr>"

text \<open>A flow handler other than the chained one.\<close>

definition handle_irq_plain :: "pr_hw \<Rightarrow> irq_run \<Rightarrow> nat \<Rightarrow> irq_world \<Rightarrow> fault + irq_world" where
  "handle_irq_plain hw run irq w =
     (if nr_irqs w \<le> irq then Inl NullCall else
      case handle_irq (irq_descs w irq) of
        Flow_NULL \<Rightarrow> Inl NullCall
      | Handle_bad_irq \<Rightarrow> Inr (handle_bad_irq irq w)
      | Handle_simple_irq \<Rightarrow> handle_simple_irq hw run irq w
      | Handle_level_irq \<Rightarrow> handle_level_irq hw run irq w
      | Exti_irq_handler \<Rightarrow> Inl NestedChain)"

fun fold_steps :: "('a \<Rightarrow> 'w \<Rightarrow> fault + 'w) \<Rightarrow> 'a list \<Rightarrow> 'w \<Rightarrow> fault + 'w" where
  "fold_steps f [] w = Inr w"
| "fold_steps f (x # xs) w = and_then (f x w) (fold_steps f xs)"

definition exti_handle_line :: "pr_hw \<Rightarrow> irq_run \<Rightarrow> nat \<Rightarrow> irq_world \<Rightarrow> fault + irq_world" where
  "exti_handle_line hw run line w =
     and_then (get_exti_2_gpio (int line) w) (\<lambda>pin.
     and_then (handle_irq_plain hw run (nat (int gpio_irq_base + pin)) w) (\<lambda>w.
     Inr (upd_iw_soc (stm32_exti_clear_pending hw (of_nat line)) w)))"

definition stm32_exti_irq_handler :: "pr_hw \<Rightarrow> irq_run \<Rightarrow> nat \<Rightarrow> irq_world \<Rightarrow> fault + irq_world" where
  "stm32_exti_irq_handler hw run irq w =
     and_then (call_op (chip_ack (chip_of irq w)) irq w) (\<lambda>w.
       let pending = stm32_exti_get_pending (iw_soc w);
           lines = filter (bit pending) [0 ..< STM32_EXTI_LINES_LEN]
       in and_then
            (if lines \<noteq> [] \<and> \<not> chip_data (irq_descs w irq) then Inl NullCall
             else fold_steps (exti_handle_line hw run) lines w)
            (\<lambda>w. call_op (chip_unmask (chip_of irq w)) irq w))"

definition generic_handle_irq :: "pr_hw \<Rightarrow> irq_run \<Rightarrow> nat \<Rightarrow> irq_world \<Rightarrow> fault + irq_world" where
  "generic_handle_irq hw run irq w =
     (if irq < nr_irqs w \<and> handle_irq (irq_descs w irq) = Exti_irq_handler
      then stm32_exti_irq_handler hw run irq w else handle_irq_plain hw run irq w)"

definition asm_do_IRQ :: "pr_hw \<Rightarrow> irq_run \<Rightarrow> nat \<Rightarrow> irq_world \<Rightarrow> fault + irq_world" where
  "asm_do_IRQ hw run irq w =
     (if nr_irqs w \<le> irq then Inr (handle_bad_irq irq w) else generic_handle_irq hw run irq w)"

section \<open>Initialisation\<close>

definition nvic_setup :: "pr_hw \<Rightarrow> nat \<Rightarrow> irq_world \<Rightarrow> fault + irq_world" where
  "nvic_setup hw irq w =
     and_then (set_irq_handler hw irq Handle_level_irq False (snd (set_irq_chip irq Nvic_chip w)))
       (\<lambda>w. Inr (set_irq_flags irq (IRQF_VALID OR IRQF_PROBE) w))"

text \<open>\<open>intr_ctrl\<close> is the value of \<^verbatim>\<open>NVIC_INTR_CTRL\<close>.\<close>

definition nvic_init :: "pr_hw \<Rightarrow> u32 \<Rightarrow> irq_world \<Rightarrow> fault + irq_world" where
  "nvic_init hw intr_ctrl w =
     (let words = unat (intr_ctrl AND 0x1F) + 1;
          w = w\<lparr>nvic_enable := (\<lambda>i. if i < words then 0 else nvic_enable w i)\<rparr>;
          w = w\<lparr>nvic_priority := (\<lambda>i. if i < words * 8 then 0 else nvic_priority w i)\<rparr>
      in fold_steps (nvic_setup hw) [0 ..< NVIC_IRQS] w)"

definition init_IRQ :: "pr_hw \<Rightarrow> u32 \<Rightarrow> irq_world \<Rightarrow> fault + irq_world" where
  "init_IRQ hw intr_ctrl w =
     nvic_init hw intr_ctrl (fold (\<lambda>irq. upd_desc irq (set_status ((irq_st IRQ_NOREQUEST) OR (irq_st IRQ_NOPROBE)))) [0 ..< nr_irqs w] w)"

definition gpio_chain :: "pr_hw \<Rightarrow> nat \<Rightarrow> irq_world \<Rightarrow> fault + irq_world" where
  "gpio_chain hw irq w =
     and_then (set_irq_handler hw irq Exti_irq_handler True w) (\<lambda>w. Inr (snd (set_irq_chip_data irq True w)))"

definition gpio_setup :: "pr_hw \<Rightarrow> nat \<Rightarrow> irq_world \<Rightarrow> fault + irq_world" where
  "gpio_setup hw i w =
     (let irq = i + gpio_irq_base in
      and_then (set_irq_handler hw irq Handle_simple_irq False (snd (set_irq_chip irq Gpio_irq_chip w)))
        (\<lambda>w. Inr (snd (set_irq_chip_data irq True (set_irq_flags irq IRQF_VALID w)))))"

definition stm32_gpio_init :: "pr_hw \<Rightarrow> kconfig \<Rightarrow> irq_world \<Rightarrow> fault + irq_world" where
  "stm32_gpio_init hw cfg w =
     (if \<not> cfg CONFIG_STM32_GPIO \<or> \<not> cfg CONFIG_STM32_GPIO_INT then Inr w
      else
        (let w = w\<lparr>exti_2_gpio := replicate STM32_EXTI_LINES_LEN (-1)\<rparr> in
         and_then (fold_steps (gpio_chain hw) (take STM32_EXTI_IRQS_LEN exti_irqs) w)
           (fold_steps (gpio_setup hw) [0 ..< nat STM32_GPIO_LEN])))"

end
