(* ===== verification/Irq_Nest.thy ===== *)
theory Irq_Nest
  imports Irq Refcount
begin

text \<open>
  Disabling of interrupts: the descriptor counts the calls of \<^verbatim>\<open>disable_irq\<close> that are not undone yet,
  so that the interrupts of the controller are counted resources, and handlers run exactly while
  nobody has the interrupt disabled. The first section is the rewriting machinery for the state.
\<close>

section \<open>Reading the state after an update\<close>

named_theorems irq_simps \<open>reads of the interrupt state after an update\<close>

lemma flag_bit: "flag (2 ^ k) (x :: u32) \<longleftrightarrow> bit x k"
  using and_exp_eq_0_iff_not_bit [of x k] by (simp add: flag_def)

lemma flag_bits [irq_simps]:
  "flag (irq_st IRQ_INPROGRESS) x \<longleftrightarrow> bit x 8" "flag (irq_st IRQ_DISABLED) x \<longleftrightarrow> bit x 9" "flag (irq_st IRQ_NOREQUEST) x \<longleftrightarrow> bit x 18"
  "flag (irq_st IRQ_NOAUTOEN) x \<longleftrightarrow> bit x 19" "flag (irq_st IRQ_SPURIOUS_DISABLED) x \<longleftrightarrow> bit x 23" "flag (irq_st IRQ_SUSPENDED) x \<longleftrightarrow> bit x 26"
  "flag (irq_st IRQ_ONESHOT) x \<longleftrightarrow> bit x 27" "flag (irq_st IRQ_NESTED_THREAD) x \<longleftrightarrow> bit x 28" "flag (irqf IRQF_SHARED) x \<longleftrightarrow> bit x 7"
  "flag (irqf IRQF_TIMER) x \<longleftrightarrow> bit x 9" "flag (irqf IRQF_NOBALANCING) x \<longleftrightarrow> bit x 11" "flag (irqf IRQF_ONESHOT) x \<longleftrightarrow> bit x 13"
  "flag (sense IRQ_TYPE_EDGE_RISING) x \<longleftrightarrow> bit x 0" "flag (sense IRQ_TYPE_EDGE_FALLING) x \<longleftrightarrow> bit x 1"
  using flag_bit [of 8 x] flag_bit [of 9 x] flag_bit [of 18 x] flag_bit [of 19 x] flag_bit [of 23 x] flag_bit [of 26 x]
    flag_bit [of 27 x] flag_bit [of 28 x] flag_bit [of 7 x] flag_bit [of 11 x] flag_bit [of 13 x] flag_bit [of 0 x] flag_bit [of 1 x]
  by (simp_all add: irq_flag_defs)

lemma bit_pow2: "bit (2 ^ k :: u32) n \<longleftrightarrow> n = k \<and> k < 32"
  by (auto simp: bit_simps)

lemma const_bits [irq_simps]:
  "bit (irq_st IRQ_INPROGRESS) n \<longleftrightarrow> n = 8" "bit (irq_st IRQ_DISABLED) n \<longleftrightarrow> n = 9" "bit (irq_st IRQ_PENDING) n \<longleftrightarrow> n = 10" "bit (irq_st IRQ_REPLAY) n \<longleftrightarrow> n = 11"
  "bit (irq_st IRQ_AUTODETECT) n \<longleftrightarrow> n = 12" "bit (irq_st IRQ_WAITING) n \<longleftrightarrow> n = 13" "bit (irq_st IRQ_LEVEL) n \<longleftrightarrow> n = 14" "bit (irq_st IRQ_MASKED) n \<longleftrightarrow> n = 15"
  "bit (irq_st IRQ_NOPROBE) n \<longleftrightarrow> n = 17" "bit (irq_st IRQ_NOREQUEST) n \<longleftrightarrow> n = 18" "bit (irq_st IRQ_NOAUTOEN) n \<longleftrightarrow> n = 19"
  "bit (irq_st IRQ_NO_BALANCING) n \<longleftrightarrow> n = 22" "bit (irq_st IRQ_SPURIOUS_DISABLED) n \<longleftrightarrow> n = 23" "bit (irq_st IRQ_SUSPENDED) n \<longleftrightarrow> n = 26"
  "bit (irq_st IRQ_ONESHOT) n \<longleftrightarrow> n = 27" "bit (irq_st IRQ_NESTED_THREAD) n \<longleftrightarrow> n = 28"
  using bit_pow2 [of 8 n] bit_pow2 [of 9 n] bit_pow2 [of 10 n] bit_pow2 [of 11 n] bit_pow2 [of 12 n] bit_pow2 [of 13 n]
    bit_pow2 [of 14 n] bit_pow2 [of 15 n] bit_pow2 [of 17 n] bit_pow2 [of 18 n] bit_pow2 [of 19 n] bit_pow2 [of 22 n]
    bit_pow2 [of 23 n] bit_pow2 [of 26 n] bit_pow2 [of 27 n] bit_pow2 [of 28 n]
  by (simp_all add: irq_flag_defs)

lemmas status_bits = bit_or_iff bit_and_iff bit_not_iff

lemma upd_desc_simps [irq_simps]:
  "irq_descs (upd_desc i f w) j = (if j = i then f (irq_descs w i) else irq_descs w j)"
  "iw_soc (upd_desc i f w) = iw_soc w" "nvic_enable (upd_desc i f w) = nvic_enable w"
  "nr_irqs (upd_desc i f w) = nr_irqs w" "exti_2_gpio (upd_desc i f w) = exti_2_gpio w"
  "noirqdebug (upd_desc i f w) = noirqdebug w" "jiffies (upd_desc i f w) = jiffies w"
  by (simp_all add: upd_desc_def)

lemma upd_iw_soc_simps [irq_simps]:
  "irq_descs (upd_iw_soc f w) = irq_descs w" "iw_soc (upd_iw_soc f w) = f (iw_soc w)" "nvic_enable (upd_iw_soc f w) = nvic_enable w"
  "nr_irqs (upd_iw_soc f w) = nr_irqs w" "exti_2_gpio (upd_iw_soc f w) = exti_2_gpio w" "noirqdebug (upd_iw_soc f w) = noirqdebug w"
  by (simp_all add: upd_iw_soc_def)

lemma status_simps [irq_simps]:
  "status (set_status m d) = status d OR m" "status (clear_status m d) = status d AND NOT m"
  "depth (set_status m d) = depth d" "depth (clear_status m d) = depth d"
  "chip (set_status m d) = chip d" "chip (clear_status m d) = chip d"
  "action (set_status m d) = action d" "action (clear_status m d) = action d"
  "handle_irq (set_status m d) = handle_irq d" "handle_irq (clear_status m d) = handle_irq d"
  "chip_data (set_status m d) = chip_data d" "chip_data (clear_status m d) = chip_data d"
  "irq_count (set_status m d) = irq_count d" "irq_count (clear_status m d) = irq_count d"
  "irqs_unhandled (set_status m d) = irqs_unhandled d" "irqs_unhandled (clear_status m d) = irqs_unhandled d"
  by (simp_all add: set_status_def clear_status_def)

lemma nvic_simps [irq_simps]:
  "irq_descs (nvic_ack_irq i w) = irq_descs w" "irq_descs (nvic_mask_irq i w) = irq_descs w" "irq_descs (nvic_unmask_irq i w) = irq_descs w"
  "nr_irqs (nvic_ack_irq i w) = nr_irqs w" "nr_irqs (nvic_mask_irq i w) = nr_irqs w" "nr_irqs (nvic_unmask_irq i w) = nr_irqs w"
  "iw_soc (nvic_ack_irq i w) = iw_soc w" "iw_soc (nvic_mask_irq i w) = iw_soc w" "iw_soc (nvic_unmask_irq i w) = iw_soc w"
  "exti_2_gpio (nvic_ack_irq i w) = exti_2_gpio w" "exti_2_gpio (nvic_mask_irq i w) = exti_2_gpio w"
  "exti_2_gpio (nvic_unmask_irq i w) = exti_2_gpio w"
  "noirqdebug (nvic_ack_irq i w) = noirqdebug w" "noirqdebug (nvic_mask_irq i w) = noirqdebug w" "noirqdebug (nvic_unmask_irq i w) = noirqdebug w"
  by (simp_all add: nvic_ack_irq_def nvic_mask_irq_def nvic_unmask_irq_def)

text \<open>Whether the controller lets an interrupt through.\<close>

definition nvic_on :: "irq_world \<Rightarrow> nat \<Rightarrow> bool" where
  "nvic_on w irq = bit (nvic_enable w (irq div 32)) (irq mod 32)"

lemma nvic_on_simps [irq_simps]:
  "nvic_on (upd_desc i f w) j = nvic_on w j" "nvic_on (upd_iw_soc g w) j = nvic_on w j"
  "nvic_on (w\<lparr>irqs_resend := r\<rparr>) j = nvic_on w j" "nvic_on (w\<lparr>irq_err_count := n\<rparr>) j = nvic_on w j"
  "nvic_on (w\<lparr>exti_2_gpio := g\<^sub>2\<rparr>) j = nvic_on w j" "nvic_on (w\<lparr>iw_soc := s\<rparr>) j = nvic_on w j"
  "nvic_on (nvic_mask_irq i w) j \<longleftrightarrow> j \<noteq> i \<and> nvic_on w j" "nvic_on (nvic_ack_irq i w) j \<longleftrightarrow> j \<noteq> i \<and> nvic_on w j"
  "nvic_on (nvic_unmask_irq i w) j \<longleftrightarrow> j = i \<or> nvic_on w j"
proof -
  have same: "j = i \<longleftrightarrow> j div 32 = i div 32 \<and> j mod 32 = i mod 32" by (metis div_mult_mod_eq)
  show "nvic_on (nvic_mask_irq i w) j \<longleftrightarrow> j \<noteq> i \<and> nvic_on w j" "nvic_on (nvic_ack_irq i w) j \<longleftrightarrow> j \<noteq> i \<and> nvic_on w j"
    using same by (auto simp: nvic_on_def nvic_mask_irq_def nvic_ack_irq_def nvic_mask_def bit_clear_bit [simplified])
  show "nvic_on (nvic_unmask_irq i w) j \<longleftrightarrow> j = i \<or> nvic_on w j"
    using same by (auto simp: nvic_on_def nvic_unmask_irq_def nvic_mask_def bit_or_bit [simplified])
qed (simp_all add: nvic_on_def irq_simps)

section \<open>Interrupts as counted resources\<close>

text \<open>
  The lines of the controller that drivers use: requested by a driver, not suspended, with the
  counter and the status bit in agreement.
\<close>

definition nvic_line :: "irq_world \<Rightarrow> nat \<Rightarrow> bool" where
  "nvic_line w irq \<longleftrightarrow> irq < nr_irqs w \<and> chip_of irq w = Nvic_chip \<and> handle_irq (irq_descs w irq) = Handle_level_irq
     \<and> action (irq_descs w irq) \<noteq> [] \<and> \<not> bit (status (irq_descs w irq)) 26"

definition off_count :: "irq_world \<Rightarrow> nat \<Rightarrow> nat" where
  "off_count w irq = (if nvic_line w irq then unat (depth (irq_descs w irq)) else 0)"

definition is_off :: "irq_world \<Rightarrow> nat \<Rightarrow> bool" where
  "is_off w irq \<longleftrightarrow> bit (status (irq_descs w irq)) 9"

text \<open>The detection of stuck interrupts has disabled the line.\<close>

definition is_spurious :: "irq_world \<Rightarrow> nat \<Rightarrow> bool" where
  "is_spurious w irq \<longleftrightarrow> bit (status (irq_descs w irq)) 23"

text \<open>No handler of a line is in progress, no line is of the one-shot kind, which stays masked after its handler,
  and a line that is not disabled is let through by the controller.\<close>

definition lines_ok :: "irq_world \<Rightarrow> bool" where
  "lines_ok w \<longleftrightarrow> (\<forall>irq. nvic_line w irq \<longrightarrow> \<not> bit (status (irq_descs w irq)) 8 \<and> \<not> bit (status (irq_descs w irq)) 27
     \<and> (depth (irq_descs w irq) = 0 \<longrightarrow> \<not> is_off w irq \<and> nvic_on w irq))"

definition irq_off :: "pr_hw \<Rightarrow> nat \<Rightarrow> irq_world \<Rightarrow> irq_world \<Rightarrow> bool" where
  "irq_off hw irq w w' \<longleftrightarrow> nvic_line w irq \<and> disable_irq_nosync hw irq w = Inr w'"

definition irq_on :: "pr_hw \<Rightarrow> nat \<Rightarrow> irq_world \<Rightarrow> irq_world" where
  "irq_on hw irq w = (case enable_irq hw irq w of Inr w' \<Rightarrow> w' | Inl _ \<Rightarrow> w)"

lemma disable_nvic:
  assumes "nvic_line w irq"
  shows "disable_irq_nosync hw irq w = Inr (upd_desc irq (\<lambda>d. if depth d = 0 then set_status (irq_st IRQ_DISABLED) (d\<lparr>depth := depth d + 1\<rparr>)
    else d\<lparr>depth := depth d + 1\<rparr>) w)"
  using assms by (auto simp: disable_irq_nosync_def disable_irq_desc_def nvic_line_def chip_disable_def Let_def irq_simps
      upd_desc_def set_status_def)

lemma enable_nvic_last:
  assumes "nvic_line w irq" "depth (irq_descs w irq) = 1"
  obtains w' where "enable_irq hw irq w = Inr w'" "nr_irqs w' = nr_irqs w" "\<forall>j. j \<noteq> irq \<longrightarrow> irq_descs w' j = irq_descs w j"
    "nvic_line w' irq" "depth (irq_descs w' irq) = 0" "\<not> is_off w' irq" "nvic_on w' irq" "\<forall>j. j \<noteq> irq \<longrightarrow> nvic_on w' j = nvic_on w j"
    "\<forall>k \<in> {8, 23, 27}. bit (status (irq_descs w' irq)) k = bit (status (irq_descs w irq)) k"
proof -
  have "\<exists>w'. enable_irq hw irq w = Inr w' \<and> nr_irqs w' = nr_irqs w \<and> (\<forall>j. j \<noteq> irq \<longrightarrow> irq_descs w' j = irq_descs w j)
    \<and> nvic_line w' irq \<and> depth (irq_descs w' irq) = 0 \<and> \<not> is_off w' irq \<and> nvic_on w' irq \<and> (\<forall>j. j \<noteq> irq \<longrightarrow> nvic_on w' j = nvic_on w j)
    \<and> (\<forall>k \<in> {8, 23, 27}. bit (status (irq_descs w' irq)) k = bit (status (irq_descs w irq)) k)"
    using assms by (auto simp: enable_irq_def enable_irq_desc_def check_irq_resend_def chip_enable_def default_enable_def call_op_def
        nvic_line_def is_off_def Let_def irq_simps status_bits)
  then show ?thesis using that by blast
qed

lemma enable_nvic_nested:
  assumes "nvic_line w irq" "depth (irq_descs w irq) \<noteq> 0" "depth (irq_descs w irq) \<noteq> 1"
  shows "enable_irq hw irq w = Inr (upd_desc irq (\<lambda>d. d\<lparr>depth := depth d - 1\<rparr>) w)"
  using assms by (auto simp: enable_irq_def enable_irq_desc_def nvic_line_def Let_def)

lemma unat_depth:
  fixes n :: u32
  shows "0 < unat n \<Longrightarrow> unat (n - 1) = unat n - 1" "unat n < 2 ^ 32 - 1 \<Longrightarrow> unat (n + 1) = Suc (unat n)"
proof -
  show "unat (n + 1) = Suc (unat n)" if "unat n < 2 ^ 32 - 1" using that by (simp add: unat_word_ariths)
  show "unat (n - 1) = unat n - 1" if "0 < unat n"
    using that by (metis Suc_leI One_nat_def unat_1 unat_sub word_le_nat_alt)
qed

text \<open>What a call on a line changes: the line, in the stated way, and nothing else.\<close>

lemma irq_off_effect:
  assumes "irq_off hw c w w'"
  shows "nvic_line w c" "nvic_line w' d \<longleftrightarrow> nvic_line w d" "d \<noteq> c \<Longrightarrow> irq_descs w' d = irq_descs w d" "nvic_on w' d = nvic_on w d"
    and "depth (irq_descs w' c) = depth (irq_descs w c) + 1" "is_off w' c \<longleftrightarrow> depth (irq_descs w c) = 0 \<or> is_off w c"
    and "k \<in> {8, 23, 27} \<Longrightarrow> bit (status (irq_descs w' d)) k = bit (status (irq_descs w d)) k"
proof -
  have l: "nvic_line w c" using assms by (simp add: irq_off_def)
  then have w': "w' = upd_desc c (\<lambda>d. if depth d = 0 then set_status (irq_st IRQ_DISABLED) (d\<lparr>depth := depth d + 1\<rparr>) else d\<lparr>depth := depth d + 1\<rparr>) w"
    using assms disable_nvic [OF l, of hw] by (simp add: irq_off_def)
  show "nvic_line w c" by (rule l)
  show "nvic_line w' d \<longleftrightarrow> nvic_line w d" by (auto simp: w' nvic_line_def irq_simps status_bits)
  show "d \<noteq> c \<Longrightarrow> irq_descs w' d = irq_descs w d" "nvic_on w' d = nvic_on w d"
    "depth (irq_descs w' c) = depth (irq_descs w c) + 1" "is_off w' c \<longleftrightarrow> depth (irq_descs w c) = 0 \<or> is_off w c"
    "k \<in> {8, 23, 27} \<Longrightarrow> bit (status (irq_descs w' d)) k = bit (status (irq_descs w d)) k"
    by (auto simp: w' is_off_def irq_simps status_bits)
qed

lemma irq_on_effect:
  assumes "0 < off_count w c"
  shows "nvic_line (irq_on hw c w) d \<longleftrightarrow> nvic_line w d" "d \<noteq> c \<Longrightarrow> irq_descs (irq_on hw c w) d = irq_descs w d"
    and "d \<noteq> c \<Longrightarrow> nvic_on (irq_on hw c w) d = nvic_on w d" "depth (irq_descs (irq_on hw c w) c) = depth (irq_descs w c) - 1"
    and "depth (irq_descs w c) \<noteq> 1 \<Longrightarrow> is_off (irq_on hw c w) c = is_off w c"
    and "depth (irq_descs w c) = 1 \<Longrightarrow> \<not> is_off (irq_on hw c w) c \<and> nvic_on (irq_on hw c w) c"
    and "enable_irq hw c w = Inr (irq_on hw c w)" "k \<in> {8, 23, 27} \<Longrightarrow> bit (status (irq_descs (irq_on hw c w) d)) k = bit (status (irq_descs w d)) k"
proof -
  have l: "nvic_line w c" "depth (irq_descs w c) \<noteq> 0" using assms by (auto simp: off_count_def split: if_splits)
  have "\<exists>w'. enable_irq hw c w = Inr w' \<and> (nvic_line w' d \<longleftrightarrow> nvic_line w d) \<and> (d \<noteq> c \<longrightarrow> irq_descs w' d = irq_descs w d)
    \<and> (d \<noteq> c \<longrightarrow> nvic_on w' d = nvic_on w d) \<and> depth (irq_descs w' c) = depth (irq_descs w c) - 1
    \<and> (depth (irq_descs w c) \<noteq> 1 \<longrightarrow> is_off w' c = is_off w c) \<and> (depth (irq_descs w c) = 1 \<longrightarrow> \<not> is_off w' c \<and> nvic_on w' c)
    \<and> (\<forall>k \<in> {8, 23, 27}. bit (status (irq_descs w' d)) k = bit (status (irq_descs w d)) k)"
  proof (cases "depth (irq_descs w c) = 1")
    case True
    obtain w' where w': "enable_irq hw c w = Inr w'" "nr_irqs w' = nr_irqs w" "\<forall>j. j \<noteq> c \<longrightarrow> irq_descs w' j = irq_descs w j"
      "nvic_line w' c" "depth (irq_descs w' c) = 0" "\<not> is_off w' c" "nvic_on w' c" "\<forall>j. j \<noteq> c \<longrightarrow> nvic_on w' j = nvic_on w j"
      "\<forall>k \<in> {8, 23, 27}. bit (status (irq_descs w' c)) k = bit (status (irq_descs w c)) k"
      using enable_nvic_last [OF l(1) True, of hw] by blast
    then have "nvic_line w' d \<longleftrightarrow> nvic_line w d" using l(1) by (cases "d = c") (auto simp: nvic_line_def)
    then show ?thesis using w' True by (cases "d = c") auto
  next
    case False
    then show ?thesis using enable_nvic_nested [OF l(1,2) False, of hw]
      by (auto simp: nvic_line_def is_off_def irq_simps)
  qed
  then obtain w' where w': "enable_irq hw c w = Inr w'" "nvic_line w' d \<longleftrightarrow> nvic_line w d" "d \<noteq> c \<longrightarrow> irq_descs w' d = irq_descs w d"
    "d \<noteq> c \<longrightarrow> nvic_on w' d = nvic_on w d" "depth (irq_descs w' c) = depth (irq_descs w c) - 1"
    "depth (irq_descs w c) \<noteq> 1 \<longrightarrow> is_off w' c = is_off w c" "depth (irq_descs w c) = 1 \<longrightarrow> \<not> is_off w' c \<and> nvic_on w' c"
    "\<forall>k \<in> {8, 23, 27}. bit (status (irq_descs w' d)) k = bit (status (irq_descs w d)) k" by blast
  then have "irq_on hw c w = w'" by (simp add: irq_on_def)
  then show "nvic_line (irq_on hw c w) d \<longleftrightarrow> nvic_line w d" "d \<noteq> c \<Longrightarrow> irq_descs (irq_on hw c w) d = irq_descs w d"
    "d \<noteq> c \<Longrightarrow> nvic_on (irq_on hw c w) d = nvic_on w d" "depth (irq_descs (irq_on hw c w) c) = depth (irq_descs w c) - 1"
    "depth (irq_descs w c) \<noteq> 1 \<Longrightarrow> is_off (irq_on hw c w) c = is_off w c"
    "depth (irq_descs w c) = 1 \<Longrightarrow> \<not> is_off (irq_on hw c w) c \<and> nvic_on (irq_on hw c w) c" "enable_irq hw c w = Inr (irq_on hw c w)"
    "k \<in> {8, 23, 27} \<Longrightarrow> bit (status (irq_descs (irq_on hw c w) d)) k = bit (status (irq_descs w d)) k"
    using w' by auto
qed

interpretation irq_lines: refcounted "\<lambda>_. True" off_count is_off "irq_off hw" "irq_on hw" "2 ^ 32 - 1" for hw
proof
  fix w w' c d
  assume en: "irq_off hw c w w'"
  note e = irq_off_effect [OF en]
  show "off_count w' d = (if d = c then Suc (off_count w c) else off_count w d)" if "off_count w c < 2 ^ 32 - 1"
    using that e unat_depth(2) [of "depth (irq_descs w c)"] by (auto simp: off_count_def)
  show "is_off w' c" if "off_count w c = 0" using that e(1,6) by (simp add: off_count_def word_unat_eq_iff)
  show "is_off w' d" if "is_off w d" using that e(3,6) by (cases "d = c") (auto simp: is_off_def)
next
  fix w c d
  assume cnt: "0 < off_count w c"
  note e = irq_on_effect [OF cnt, where hw = hw]
  have l: "nvic_line w c" "0 < unat (depth (irq_descs w c))" using cnt by (auto simp: off_count_def split: if_splits)
  show "off_count (irq_on hw c w) d = (if d = c then off_count w c - 1 else off_count w d)"
    using e(1,2,4) l(1) unat_depth(1) [OF l(2)] by (auto simp: off_count_def)
  have "depth (irq_descs w c) \<noteq> 1" if "1 < off_count w c" using that l(1) by (auto simp: off_count_def)
  then show "is_off (irq_on hw c w) d" if "is_off w d" "d \<noteq> c \<or> 1 < off_count w c"
    using that e(2) [of d] e(5) by (cases "d = c") (auto simp: is_off_def)
qed

section \<open>Arriving interrupts\<close>

text \<open>An interrupt on a disabled line masks the line and runs no handler.\<close>

definition irq_acked :: "nat \<Rightarrow> irq_world \<Rightarrow> irq_world" where
  "irq_acked irq w = nvic_ack_irq irq (nvic_mask_irq irq w)"

definition irq_replayed :: "nat \<Rightarrow> irq_world \<Rightarrow> irq_world" where
  "irq_replayed irq w = upd_desc irq (clear_status ((irq_st IRQ_REPLAY) OR (irq_st IRQ_WAITING))) w"

lemma mask_ack_nvic: "chip_of irq w = Nvic_chip \<Longrightarrow> mask_ack_irq irq w = Inr (irq_acked irq w)"
  by (simp add: mask_ack_irq_def call_op_def irq_acked_def irq_simps)

lemma irq_off_arrives:
  assumes "nvic_line w irq" "is_off w irq"
  shows "asm_do_IRQ hw run irq w = Inr (if bit (status (irq_descs w irq)) 8 then irq_acked irq w else irq_replayed irq (irq_acked irq w))"
  using assms by (simp add: asm_do_IRQ_def generic_handle_irq_def handle_irq_plain_def handle_level_irq_def nvic_line_def is_off_def
      mask_ack_nvic irq_acked_def irq_replayed_def irq_simps status_bits Let_def)

lemma arrive_effect:
  assumes "nvic_line w irq" "is_off w irq" "asm_do_IRQ hw run irq w = Inr w'"
  shows "off_count w' = off_count w" "is_off w' = is_off w" "nvic_line w' d = nvic_line w d" "d \<noteq> irq \<Longrightarrow> nvic_on w' d = nvic_on w d"
    "depth (irq_descs w' d) = depth (irq_descs w d)" "\<not> nvic_on w' irq"
    "k \<in> {8, 23, 27} \<Longrightarrow> bit (status (irq_descs w' d)) k = bit (status (irq_descs w d)) k"
proof -
  have "w' = irq_acked irq w \<or> w' = irq_replayed irq (irq_acked irq w)"
    using assms(3) irq_off_arrives [OF assms(1,2), of hw run] by (auto split: if_splits)
  then have "nr_irqs w' = nr_irqs w \<and> (d \<noteq> irq \<longrightarrow> nvic_on w' d = nvic_on w d) \<and> depth (irq_descs w' d) = depth (irq_descs w d)
    \<and> chip_of d w' = chip_of d w \<and> handle_irq (irq_descs w' d) = handle_irq (irq_descs w d) \<and> action (irq_descs w' d) = action (irq_descs w d)
    \<and> (bit (status (irq_descs w' d)) 9 = bit (status (irq_descs w d)) 9) \<and> (bit (status (irq_descs w' d)) 26 = bit (status (irq_descs w d)) 26)
    \<and> \<not> nvic_on w' irq \<and> (\<forall>k \<in> {8, 23, 27}. bit (status (irq_descs w' d)) k = bit (status (irq_descs w d)) k)" for d
    by (elim disjE) (auto simp: irq_acked_def irq_replayed_def irq_simps status_bits)
  then show "off_count w' = off_count w" "is_off w' = is_off w" "nvic_line w' d = nvic_line w d" "d \<noteq> irq \<Longrightarrow> nvic_on w' d = nvic_on w d"
    "depth (irq_descs w' d) = depth (irq_descs w d)" "\<not> nvic_on w' irq"
    "k \<in> {8, 23, 27} \<Longrightarrow> bit (status (irq_descs w' d)) k = bit (status (irq_descs w d)) k"
    by (auto simp: off_count_def is_off_def nvic_line_def fun_eq_iff)
qed

text \<open>The end of \<^verbatim>\<open>handle_level_irq\<close>: the line is unmasked unless it was disabled meanwhile.\<close>

definition level_end :: "nat \<Rightarrow> irq_world \<Rightarrow> fault + irq_world" where
  "level_end irq w =
     (let st = status (irq_descs w irq) in
      if flag (irq_st IRQ_ONESHOT) st then Inr (upd_desc irq (set_status (irq_st IRQ_MASKED)) w)
      else if \<not> flag (irq_st IRQ_DISABLED) st then
        (case chip_unmask (chip_of irq w) of None \<Rightarrow> Inr w | Some g \<Rightarrow> Inr (g irq w))
      else Inr w)"

lemma irq_on_arrives:
  assumes "nvic_line w irq" "\<not> is_off w irq" "\<not> bit (status (irq_descs w irq)) 8"
  shows "asm_do_IRQ hw run irq w = and_then (run_actions hw run irq (irq_replayed irq (irq_acked irq w))) (level_end irq)"
proof -
  have "handle_level_irq hw run irq w = and_then (run_actions hw run irq (irq_replayed irq (irq_acked irq w))) (level_end irq)"
    using assms unfolding level_end_def [abs_def]
    by (simp add: handle_level_irq_def nvic_line_def is_off_def mask_ack_nvic irq_acked_def irq_replayed_def irq_simps status_bits Let_def)
  then show ?thesis using assms(1)
    by (simp add: asm_do_IRQ_def generic_handle_irq_def handle_irq_plain_def nvic_line_def)
qed

text \<open>A handler that does not itself work on the interrupt core and the controller, whatever it returns.\<close>

definition core_kept :: "irq_run \<Rightarrow> bool" where
  "core_kept run \<longleftrightarrow> (\<forall>h irq dev w. irq_descs (snd (run h irq dev w)) = irq_descs w
     \<and> nr_irqs (snd (run h irq dev w)) = nr_irqs w \<and> nvic_enable (snd (run h irq dev w)) = nvic_enable w)"

lemma event_core:
  assumes "core_kept run" "handle_IRQ_event run irq as w = (ret, v)"
  shows "irq_descs v = irq_descs w" "nr_irqs v = nr_irqs w" "nvic_enable v = nvic_enable w"
proof -
  have "irq_event_loop run irq as r w = (ret, v) \<Longrightarrow> irq_descs v = irq_descs w \<and> nr_irqs v = nr_irqs w \<and> nvic_enable v = nvic_enable w" for r
  proof (induction as arbitrary: r w)
    case (Cons a as)
    obtain x y where "run (act_handler a) irq (act_dev_id a) w = (x, y)" by fastforce
    moreover from this have "irq_descs y = irq_descs w \<and> nr_irqs y = nr_irqs w \<and> nvic_enable y = nvic_enable w"
      using assms(1) unfolding core_kept_def by (metis snd_conv)
    ultimately show ?case using Cons by (fastforce simp: Let_def)
  qed simp
  then show "irq_descs v = irq_descs w" "nr_irqs v = nr_irqs w" "nvic_enable v = nvic_enable w"
    using assms(2) by (auto simp: handle_IRQ_event_def)
qed

text \<open>What the accounting of an interrupt does to a line of the controller: it counts, and it may disable the line.\<close>

definition line_noted :: "irq_desc \<Rightarrow> irq_desc \<Rightarrow> bool" where
  "line_noted d d' \<longleftrightarrow> chip d' = chip d \<and> handle_irq d' = handle_irq d \<and> action d' = action d
     \<and> (depth d' = depth d \<and> status d' = status d
       \<or> depth d' = depth d + 1 \<and> status d' = status d OR (irq_st IRQ_DISABLED OR irq_st IRQ_SPURIOUS_DISABLED) \<and> 99900 \<le> irqs_unhandled d)"

lemma note_effect:
  assumes "chip_of irq w = Nvic_chip"
  obtains w' where "note_interrupt hw irq ret w = Inr w'" "nr_irqs w' = nr_irqs w" "nvic_enable w' = nvic_enable w"
    "\<forall>j. j \<noteq> irq \<longrightarrow> irq_descs w' j = irq_descs w j" "line_noted (irq_descs w irq) (irq_descs w' irq)"
proof -
  have le: "99900 \<le> n" if "99900 < n + 1" for n :: u32
  proof -
    have "1 + n \<noteq> 0" using that by (auto simp: add.commute)
    then show ?thesis using that unatSuc [of n] by (simp add: word_less_nat_alt word_le_nat_alt add.commute)
  qed
  define v where "v = upd_desc irq (\<lambda>d. d\<lparr>irq_count := irq_count d + 1\<rparr>) (if ret \<noteq> IRQ_HANDLED
               then upd_desc irq (\<lambda>d. d\<lparr>irqs_unhandled := (if time_after (jiffies w) (last_unhandled d + 100 div 10) then 1 else irqs_unhandled d + 1),
                                         last_unhandled := jiffies w\<rparr>) w
               else w)"
  have v: "chip_of irq v = Nvic_chip" "nr_irqs v = nr_irqs w" "nvic_enable v = nvic_enable w" "\<forall>j. j \<noteq> irq \<longrightarrow> irq_descs v j = irq_descs w j"
    "handle_irq (irq_descs v irq) = handle_irq (irq_descs w irq)" "action (irq_descs v irq) = action (irq_descs w irq)"
    "depth (irq_descs v irq) = depth (irq_descs w irq)" "status (irq_descs v irq) = status (irq_descs w irq)"
    "99900 < irqs_unhandled (irq_descs v irq) \<Longrightarrow> 99900 \<le> irqs_unhandled (irq_descs w irq)"
    using assms by (auto simp: v_def irq_simps dest: le order.strict_implies_order split: if_splits)
  have "\<exists>w'. note_interrupt hw irq ret w = Inr w' \<and> nr_irqs w' = nr_irqs w \<and> nvic_enable w' = nvic_enable w
    \<and> (\<forall>j. j \<noteq> irq \<longrightarrow> irq_descs w' j = irq_descs w j) \<and> line_noted (irq_descs w irq) (irq_descs w' irq)"
    unfolding note_interrupt_def Let_def v_def [symmetric]
    using v assms by (auto simp: line_noted_def chip_disable_def irq_simps)
  then show ?thesis using that by blast
qed

lemma irq_deliver_effect:
  assumes "nvic_line w irq" "\<not> is_off w irq" "\<not> bit (status (irq_descs w irq)) 8" "\<not> bit (status (irq_descs w irq)) 27" "core_kept run"
  obtains w' where "asm_do_IRQ hw run irq w = Inr w'" "nr_irqs w' = nr_irqs w" "\<forall>j. j \<noteq> irq \<longrightarrow> irq_descs w' j = irq_descs w j \<and> nvic_on w' j = nvic_on w j"
    "nvic_line w' irq" "\<not> bit (status (irq_descs w' irq)) 8" "\<not> bit (status (irq_descs w' irq)) 27"
    "depth (irq_descs w' irq) = depth (irq_descs w irq) \<and> \<not> is_off w' irq \<and> nvic_on w' irq \<and> is_spurious w' irq = is_spurious w irq
     \<or> depth (irq_descs w' irq) = depth (irq_descs w irq) + 1 \<and> is_off w' irq \<and> \<not> nvic_on w' irq \<and> is_spurious w' irq
       \<and> 99900 \<le> irqs_unhandled (irq_descs w irq)"
proof -
  define u where "u = irq_replayed irq (irq_acked irq w)"
  define x where "x = upd_desc irq (set_status (irq_st IRQ_INPROGRESS)) u"
  obtain ret v where ev: "handle_IRQ_event run irq (action (irq_descs u irq)) x = (ret, v)" by fastforce
  note core = event_core [OF assms(5) ev]
  have "chip_of irq v = Nvic_chip"
    using assms(1) core(1) by (simp add: x_def u_def irq_replayed_def irq_acked_def irq_simps nvic_line_def)
  then obtain y where y: "(if noirqdebug v then Inr v else note_interrupt hw irq ret v) = Inr y" "nr_irqs y = nr_irqs v" "nvic_enable y = nvic_enable v"
    "\<forall>j. j \<noteq> irq \<longrightarrow> irq_descs y j = irq_descs v j" "line_noted (irq_descs v irq) (irq_descs y irq)"
    using note_effect [where irq = irq and w = v and hw = hw and ret = ret] by (cases "noirqdebug v") (auto simp: line_noted_def)
  define z where "z = upd_desc irq (clear_status (irq_st IRQ_INPROGRESS)) y"
  have run: "run_actions hw run irq u = Inr z"
    using ev y(1) by (simp add: run_actions_def Let_def x_def [symmetric] z_def)
  have on: "nvic_on y j \<longleftrightarrow> j \<noteq> irq \<and> nvic_on w j" for j
    using y(3) core(3) by (simp add: nvic_on_def x_def u_def irq_replayed_def upd_desc_simps)
      (simp add: nvic_on_def [symmetric] irq_acked_def irq_simps)
  note st = y(5) [unfolded line_noted_def core(1)]
  have z: "nr_irqs z = nr_irqs w" "\<forall>j. j \<noteq> irq \<longrightarrow> irq_descs z j = irq_descs w j" "nvic_on z j \<longleftrightarrow> j \<noteq> irq \<and> nvic_on w j" "nvic_line z irq"
    "\<not> bit (status (irq_descs z irq)) 8" "\<not> bit (status (irq_descs z irq)) 27"
    "depth (irq_descs z irq) = depth (irq_descs w irq) \<and> \<not> is_off z irq \<and> is_spurious z irq = is_spurious w irq
     \<or> depth (irq_descs z irq) = depth (irq_descs w irq) + 1 \<and> is_off z irq \<and> is_spurious z irq \<and> 99900 \<le> irqs_unhandled (irq_descs w irq)" for j
    using assms(1-4) st y(2,4) core(1,2) on [of j]
    by (auto simp: z_def x_def u_def irq_replayed_def irq_acked_def irq_simps status_bits nvic_line_def is_off_def is_spurious_def)
  have fin: "asm_do_IRQ hw run irq w = level_end irq z"
    using irq_on_arrives [OF assms(1-3), of hw run] run by (simp add: u_def)
  show ?thesis
  proof (cases "is_off z irq")
    case True
    then have "level_end irq z = Inr z" using z(6) by (simp add: level_end_def is_off_def irq_simps Let_def)
    then show ?thesis using that [of z] fin z True by auto
  next
    case False
    then have "level_end irq z = Inr (nvic_unmask_irq irq z)" using z(4,6) by (simp add: level_end_def is_off_def irq_simps Let_def nvic_line_def)
    then show ?thesis using that [of "nvic_unmask_irq irq z"] fin z False
      by (auto simp: irq_simps is_off_def is_spurious_def nvic_line_def)
  qed
qed

section \<open>Many users\<close>

text \<open>
  Any interleaving of users that disable lines and enable lines they have disabled, and of
  interrupts that come in on any line, with any handlers that leave the interrupt core alone. An interrupt is handled in one step;
  the polling of stuck lines from a timer is not modelled.
\<close>

inductive irq_users :: "pr_hw \<Rightarrow> irq_world \<Rightarrow> irq_world \<Rightarrow> ('u \<times> nat) multiset \<Rightarrow> bool" for hw w\<^sub>0 where
  start: "irq_users hw w\<^sub>0 w\<^sub>0 {#}"
| disable: "irq_users hw w\<^sub>0 w H \<Longrightarrow> size H < 2 ^ 32 - 2 \<Longrightarrow> nvic_line w irq \<Longrightarrow> disable_irq_nosync hw irq w = Inr w'
    \<Longrightarrow> irq_users hw w\<^sub>0 w' (add_mset (u, irq) H)"
| enable: "irq_users hw w\<^sub>0 w H \<Longrightarrow> (u, irq) \<in># H \<Longrightarrow> enable_irq hw irq w = Inr w' \<Longrightarrow> irq_users hw w\<^sub>0 w' (H - {#(u, irq)#})"
| arrive: "irq_users hw w\<^sub>0 w H \<Longrightarrow> nvic_line w irq \<Longrightarrow> core_kept run \<Longrightarrow> asm_do_IRQ hw run irq w = Inr w' \<Longrightarrow> irq_users hw w\<^sub>0 w' H"

text \<open>
  The detection of stuck interrupts is one more user: the counter of a line is the number of calls of \<^verbatim>\<open>disable_irq\<close> that are not
  undone, plus one if the line was found stuck.
\<close>

definition counts_ok :: "irq_world \<Rightarrow> ('u \<times> nat) multiset \<Rightarrow> bool" where
  "counts_ok w H \<longleftrightarrow> (\<forall>irq. off_count w irq = size (filter_mset (\<lambda>x. snd x = irq) H) + (if nvic_line w irq \<and> is_spurious w irq then 1 else 0))
     \<and> (\<forall>irq. 0 < off_count w irq \<longrightarrow> is_off w irq)"

lemma counts_held: "counts_ok w H \<Longrightarrow> (u, irq) \<in># H \<Longrightarrow> 0 < off_count w irq"
  by (drule multi_member_split) (auto simp: counts_ok_def)

text \<open>An interrupt keeps the invariant: on a disabled line it only masks, on another one it runs the handlers.\<close>

lemma arrive_inv:
  assumes "counts_ok w H" "lines_ok w" "nvic_line w irq" "core_kept run" "asm_do_IRQ hw run irq w = Inr w'"
  shows "counts_ok w' H \<and> lines_ok w'"
proof (cases "depth (irq_descs w irq) = 0")
  case False
  then have "0 < off_count w irq" using assms(3) by (simp add: off_count_def unat_gt_0)
  then have off: "is_off w irq" using assms(1) by (simp add: counts_ok_def)
  note e = arrive_effect [OF assms(3) off assms(5)]
  have "lines_ok w'" using assms(2) e(2-5,7) False by (fastforce simp: lines_ok_def)
  moreover have "is_spurious w' d = is_spurious w d" for d using e(7) [of 23 d] by (simp add: is_spurious_def)
  ultimately show ?thesis using assms(1) e(1-3) by (simp add: counts_ok_def)
next
  case True
  have l: "\<not> is_off w irq" "\<not> bit (status (irq_descs w irq)) 8" "\<not> bit (status (irq_descs w irq)) 27"
    using assms(2,3) True by (auto simp: lines_ok_def)
  obtain x where x: "asm_do_IRQ hw run irq w = Inr x" "nr_irqs x = nr_irqs w" "\<forall>j. j \<noteq> irq \<longrightarrow> irq_descs x j = irq_descs w j \<and> nvic_on x j = nvic_on w j"
    "nvic_line x irq" "\<not> bit (status (irq_descs x irq)) 8" "\<not> bit (status (irq_descs x irq)) 27"
    "depth (irq_descs x irq) = depth (irq_descs w irq) \<and> \<not> is_off x irq \<and> nvic_on x irq \<and> is_spurious x irq = is_spurious w irq
     \<or> depth (irq_descs x irq) = depth (irq_descs w irq) + 1 \<and> is_off x irq \<and> \<not> nvic_on x irq \<and> is_spurious x irq
       \<and> 99900 \<le> irqs_unhandled (irq_descs w irq)"
    by (rule irq_deliver_effect [OF assms(3) l assms(4), of hw])
  have w': "w' = x" using x(1) assms(5) by simp
  have line: "nvic_line x j = nvic_line w j" for j using x(2,3,4) assms(3) by (cases "j = irq") (auto simp: nvic_line_def)
  have other: "off_count x j = off_count w j \<and> is_off x j = is_off w j \<and> is_spurious x j = is_spurious w j" if "j \<noteq> irq" for j
    using x(3) that line by (simp add: off_count_def is_off_def is_spurious_def)
  have "off_count w irq = 0" using True by (simp add: off_count_def)
  then have zero: "size (filter_mset (\<lambda>y. snd y = irq) H) = 0" "\<not> is_spurious w irq"
    using assms(1,3) by (auto simp: counts_ok_def split: if_splits)
  have "counts_ok x H"
    unfolding counts_ok_def
  proof (intro conjI allI)
    show "off_count x j = size (filter_mset (\<lambda>x. snd x = j) H) + (if nvic_line x j \<and> is_spurious x j then 1 else 0)" for j
      using assms(1) other [of j] line [of j] zero x(4,7) True by (cases "j = irq") (auto simp: counts_ok_def off_count_def)
    show "0 < off_count x j \<longrightarrow> is_off x j" for j
      using assms(1) other [of j] x(7) True by (cases "j = irq") (auto simp: counts_ok_def off_count_def)
  qed
  moreover have "lines_ok x"
    unfolding lines_ok_def
  proof (intro allI impI)
    fix j assume "nvic_line x j"
    then show "\<not> bit (status (irq_descs x j)) 8 \<and> \<not> bit (status (irq_descs x j)) 27
        \<and> (depth (irq_descs x j) = 0 \<longrightarrow> \<not> is_off x j \<and> nvic_on x j)"
      using assms(2) line [of j] x(3,5,6,7) True by (cases "j = irq") (auto simp: lines_ok_def is_off_def)
  qed
  ultimately show ?thesis by (simp add: w')
qed

lemma irq_users_inv:
  assumes "irq_users hw w\<^sub>0 w H" "lines_ok w\<^sub>0" "\<forall>irq. off_count w\<^sub>0 irq = 0" "\<forall>irq. nvic_line w\<^sub>0 irq \<longrightarrow> \<not> is_spurious w\<^sub>0 irq"
  shows "counts_ok w H \<and> lines_ok w"
  using assms(1)
proof induction
  case start
  then show ?case using assms(2-4) by (simp add: counts_ok_def)
next
  case (disable w H irq w' u)
  then have off: "irq_off hw irq w w'" by (simp add: irq_off_def)
  note e = irq_off_effect [OF off]
  have lim: "off_count w irq < 2 ^ 32 - 1"
    using disable.IH le_less_trans [OF size_filter_mset_lesseq disable.hyps(2), of "\<lambda>x. snd x = irq"] by (auto simp: counts_ok_def)
  then have "depth (irq_descs w' irq) \<noteq> 0"
    using e(1,5) unat_depth(2) [of "depth (irq_descs w irq)"] by (auto simp: off_count_def word_unat_eq_iff)
  then have "lines_ok w'" using disable.IH e(2,3,4,7) by (fastforce simp: lines_ok_def is_off_def)
  moreover have "is_spurious w' d = is_spurious w d" for d using e(7) [of 23 d] by (simp add: is_spurious_def)
  moreover have "is_off w' d" if "0 < off_count w' d" for d
    using that disable.IH e(6) irq_lines.en_cnt [OF TrueI off lim, of d] irq_lines.en_on [OF TrueI off] irq_lines.en_keeps [OF TrueI off, of d]
    by (cases "off_count w d = 0") (auto simp: counts_ok_def split: if_splits)
  ultimately show ?case using disable.IH e(2) irq_lines.en_cnt [OF TrueI off lim] by (auto simp: counts_ok_def)
next
  case (enable w H u irq w')
  then have pos: "0 < off_count w irq" using counts_held [of w H u irq] by blast
  note e = irq_on_effect [OF pos, where hw = hw]
  have w': "w' = irq_on hw irq w" using e(7) enable.hyps(3) by simp
  have "\<not> is_off w' irq \<and> nvic_on w' irq" if "depth (irq_descs w' irq) = 0"
    using that e(4,6) by (simp add: w')
  then have "\<not> is_off w' d \<and> nvic_on w' d" if "nvic_line w' d" "depth (irq_descs w' d) = 0" for d
    using that enable.IH e(1,2,3) [of d] by (cases "d = irq") (auto simp: lines_ok_def is_off_def w')
  then have "lines_ok w'" using enable.IH e(1) e(8) [of 8] e(8) [of 27] by (simp add: lines_ok_def w')
  moreover have "is_spurious w' d = is_spurious w d" for d using e(8) [of 23 d] by (simp add: is_spurious_def w')
  moreover have off: "is_off w d" if "0 < off_count w d" for d using that enable.IH by (simp add: counts_ok_def)
  have "is_off w' d" if "0 < off_count w' d" for d
    using that off [of d] irq_lines.dis_cnt [OF TrueI pos, of hw d] irq_lines.dis_keeps [OF TrueI pos, of d hw]
    by (cases "d = irq") (auto simp: w')
  moreover obtain H' where "H = add_mset (u, irq) H'" using enable.hyps(2) by (metis multi_member_split)
  ultimately show ?case using enable.IH e(1) irq_lines.dis_cnt [OF TrueI pos, of hw] by (auto simp: counts_ok_def w')
next
  case (arrive w H irq run w')
  then show ?case using arrive_inv by blast
qed

section \<open>Delivery\<close>

text \<open>C6. However the users of interrupt lines interleave their calls of \<^verbatim>\<open>disable_irq_nosync\<close> and
  \<^verbatim>\<open>enable_irq\<close>, and whatever interrupts arrive meanwhile on whatever lines: on a line that somebody has disabled, or that the detection of
  stuck interrupts has, an interrupt runs no handler and leaves the line masked; any other line is let
  through by the controller, an interrupt on it runs its handlers, and the line is let through again afterwards, unless that
  interrupt made the detection disable it, for which at least 99900 unhandled ones had been counted. This is for lines of the controller with handlers
  that do not themselves work on the interrupt core, each interrupt being handled in one step, for lines that are not one-shot or suspended,
  and for fewer than 2^32 - 2 calls of \<^verbatim>\<open>disable_irq_nosync\<close> that are not undone; at the start no line is disabled.\<close>

theorem irq_runs_iff_not_held:
  assumes "irq_users hw w\<^sub>0 w H" "lines_ok w\<^sub>0" "\<forall>irq. off_count w\<^sub>0 irq = 0" "\<forall>irq. nvic_line w\<^sub>0 irq \<longrightarrow> \<not> is_spurious w\<^sub>0 irq"
    and "nvic_line w irq"
  shows "if (\<exists>u. (u, irq) \<in># H) \<or> is_spurious w irq then \<exists>w'. (\<forall>run. asm_do_IRQ hw run irq w = Inr w') \<and> \<not> nvic_on w' irq
    else nvic_on w irq \<and> (\<forall>run. asm_do_IRQ hw run irq w =
        and_then (run_actions hw run irq (irq_replayed irq (irq_acked irq w))) (level_end irq))
      \<and> (\<forall>run. core_kept run \<longrightarrow> (\<exists>w'. asm_do_IRQ hw run irq w = Inr w'
          \<and> (nvic_on w' irq \<or> is_spurious w' irq \<and> 99900 \<le> irqs_unhandled (irq_descs w irq))))"
proof -
  note inv = irq_users_inv [OF assms(1-4)]
  have st: "\<not> bit (status (irq_descs w irq)) 8" "\<not> bit (status (irq_descs w irq)) 27" using inv assms(5) by (auto simp: lines_ok_def)
  show ?thesis
  proof (cases "(\<exists>u. (u, irq) \<in># H) \<or> is_spurious w irq")
    case True
    then have "0 < off_count w irq" using inv counts_held [of w H _ irq] assms(5) by (auto simp: counts_ok_def)
    then have "is_off w irq" using inv by (simp add: counts_ok_def)
    then show ?thesis using True irq_off_arrives [OF assms(5), of hw] st(1)
      by (simp add: irq_replayed_def irq_acked_def irq_simps)
  next
    case False
    then have "x \<notin># filter_mset (\<lambda>x. snd x = irq) H" for x by (cases x) auto
    then have none: "filter_mset (\<lambda>x. snd x = irq) H = {#}" by (metis multiset_nonemptyE)
    have "off_count w irq = 0" using inv none False by (simp add: counts_ok_def)
    then have on: "\<not> is_off w irq" "nvic_on w irq" using inv assms(5) by (auto simp: off_count_def lines_ok_def unat_eq_zero)
    have "\<exists>w'. asm_do_IRQ hw run irq w = Inr w' \<and> (nvic_on w' irq \<or> is_spurious w' irq \<and> 99900 \<le> irqs_unhandled (irq_descs w irq))"
      if "core_kept run" for run
      by (rule irq_deliver_effect [OF assms(5) on(1) st that, of hw]) blast
    then show ?thesis using False on(2) irq_on_arrives [OF assms(5) on(1) st(1), of hw] by simp
  qed
qed

text \<open>A line with one handler, let through by the controller, that a user disables.\<close>

definition ex_line_world :: irq_world where
  "ex_line_world = (nvic_unmask_irq 28 (upd_desc 28 (\<lambda>d. d\<lparr>chip := Nvic_chip, handle_irq := Handle_level_irq,
     action := [\<lparr>act_handler = 1, act_flags = 0, act_dev_id = 0\<rparr>], status := 0, depth := 0\<rparr>)
     (irq_world_boot board_config soc0 (\<lambda>_. 0) (\<lambda>_. 0))))"

lemma ex_line_world_ok:
  "lines_ok ex_line_world" "\<forall>irq. off_count ex_line_world irq = 0" "nvic_line ex_line_world 28"
  "\<forall>irq. nvic_line ex_line_world irq \<longrightarrow> \<not> is_spurious ex_line_world irq"
  by (auto simp: lines_ok_def off_count_def nvic_line_def is_off_def is_spurious_def ex_line_world_def irq_simps irq_world_boot_def irq_desc_init_def
      NR_IRQS_def NVIC_IRQS_def STM32_GPIO_NUM_def)

theorem irq_runs_iff_not_held_witness:
  "(\<exists>w w'. irq_users rc_w1 ex_line_world w {#((), 28)#} \<and> (\<forall>run. asm_do_IRQ rc_w1 run 28 w = Inr w') \<and> \<not> nvic_on w' 28)
   \<and> (\<exists>w'. asm_do_IRQ rc_w1 (\<lambda>h irq dev w. (IRQ_HANDLED, w)) 28 ex_line_world = Inr w' \<and> nvic_on w' 28)"
proof
  obtain w where w: "disable_irq_nosync rc_w1 28 ex_line_world = Inr w" using disable_nvic [OF ex_line_world_ok(3)] by blast
  then have off: "irq_off rc_w1 28 ex_line_world w" using ex_line_world_ok(3) by (simp add: irq_off_def)
  have run: "irq_users rc_w1 ex_line_world w {#((), 28)#}"
    using irq_users.disable [OF irq_users.start _ ex_line_world_ok(3) w, of "()"] by simp
  show "\<exists>w w'. irq_users rc_w1 ex_line_world w {#((), 28)#} \<and> (\<forall>run. asm_do_IRQ rc_w1 run 28 w = Inr w') \<and> \<not> nvic_on w' 28"
    using irq_runs_iff_not_held [OF run ex_line_world_ok(1,2,4), of 28] irq_off_effect(2) [OF off, of 28] ex_line_world_ok(3) run by auto
next
  have "irq_users rc_w1 ex_line_world ex_line_world ({#} :: (unit \<times> nat) multiset)" by (rule irq_users.start)
  note run = irq_runs_iff_not_held [OF this ex_line_world_ok(1,2,4,3)]
  have "core_kept (\<lambda>h irq dev w. (IRQ_HANDLED, w))" by (simp add: core_kept_def)
  moreover have "irqs_unhandled (irq_descs ex_line_world 28) = 0"
    by (simp add: ex_line_world_def irq_simps irq_world_boot_def irq_desc_init_def)
  ultimately show "\<exists>w'. asm_do_IRQ rc_w1 (\<lambda>h irq dev w. (IRQ_HANDLED, w)) 28 ex_line_world = Inr w' \<and> nvic_on w' 28"
    using run ex_line_world_ok(3,4) by fastforce
qed

end
