(* ===== verification/Irq_Gpio.thy ===== *)
theory Irq_Gpio
  imports Irq_Nest
begin

text \<open>
  Interrupts of pins from end to end: the descriptors after initialisation, requesting the interrupt
  of a pin, its delivery from the external line through the chained handler to the handler of the
  driver, and what becomes of a line when its interrupt is disabled and enabled again.
\<close>

section \<open>Pins and lines\<close>

definition gpio_irq :: "nat \<Rightarrow> nat" where
  "gpio_irq n = NVIC_IRQS + n"

text \<open>The descriptors as \<^verbatim>\<open>stm32_gpio_init\<close> leaves them for the pins and the lines of the controller.\<close>

definition gpio_ready :: "irq_world \<Rightarrow> bool" where
  "gpio_ready w \<longleftrightarrow> nr_irqs w = 258 \<and> length (exti_2_gpio w) = 15
     \<and> (\<forall>n < 144. chip_of (gpio_irq n) w = Gpio_irq_chip \<and> chip_data (irq_descs w (gpio_irq n))
          \<and> handle_irq (irq_descs w (gpio_irq n)) = Handle_simple_irq)
     \<and> (\<forall>irq \<in> set exti_irqs. chip_of irq w = Nvic_chip \<and> chip_data (irq_descs w irq)
          \<and> handle_irq (irq_descs w irq) = Exti_irq_handler)"

lemma gpio_irq_number [simp]:
  "gpio_of_irq (gpio_irq n) = int n" "STM32_GPIO_GETPIN (int n) = int (n mod 16)" "STM32_GPIO_GETPORT (int n) = int (n div 16)"
proof -
  show "gpio_of_irq (gpio_irq n) = int n" by (simp add: gpio_of_irq_def gpio_irq_def gpio_irq_base_def)
  have "sgn (int n) * m = m" if "n = 0 \<Longrightarrow> m = 0" for m using that by (cases "n = 0") auto
  then show "STM32_GPIO_GETPIN (int n) = int (n mod 16)" "STM32_GPIO_GETPORT (int n) = int (n div 16)"
    by (simp_all add: gpio_geometry zmod_int zdiv_int)
qed

lemma of_int_nat_u32: "(of_int (int n) :: u32) = of_nat n"
  by simp

abbreviation pin_line :: "nat \<Rightarrow> nat" where "pin_line n \<equiv> n mod 16"
abbreviation pin_port :: "nat \<Rightarrow> u32" where "pin_port n \<equiv> of_nat (n div 16)"

text \<open>Enabling, disabling and setting the trigger, as operations on the line of the pin.\<close>

lemma gpio_enable_line:
  assumes "gpio_ready w" "n < 144" "pin_line n < 15"
  shows "stm32_gpio_irq_enable hw (gpio_irq n) w = Inr (upd_desc (gpio_irq n) (clear_status (irq_st IRQ_MASKED))
    (w\<lparr>exti_2_gpio := (exti_2_gpio w)[pin_line n := int n],
       iw_soc := exti_do hw (pin_line n) (Enable True) (exti_do hw (pin_line n) (Connect (pin_port n)) (iw_soc w))\<rparr>))"
proof -
  have l: "pin_line n < 16" by simp
  show ?thesis using assms unfolding stm32_gpio_irq_enable_def gpio_ready_def
    by (simp add: get_exti_2_gpio_def put_exti_2_gpio_def Let_def exti_connect_set_field [OF l] of_int_nat_u32)
qed

lemma gpio_disable_line:
  assumes "gpio_ready w" "n < 144"
  shows "stm32_gpio_irq_disable hw (gpio_irq n) w
    = Inr (upd_desc (gpio_irq n) (set_status (irq_st IRQ_MASKED)) (upd_iw_soc (exti_do hw (pin_line n) (Enable False)) w))"
  using assms unfolding stm32_gpio_irq_disable_def gpio_ready_def by (simp add: Let_def upd_iw_soc_def)

text \<open>Setting a trigger of edges.\<close>

definition edges_only :: "u32 \<Rightarrow> bool" where
  "edges_only t \<longleftrightarrow> t AND (sense IRQ_TYPE_SENSE_MASK) = t \<and> \<not> bit t 2 \<and> \<not> bit t 3"

definition set_edges :: "pr_hw \<Rightarrow> nat \<Rightarrow> u32 \<Rightarrow> soc \<Rightarrow> soc" where
  "set_edges hw l t s =
     (let s = (if bit t 0 then exti_do hw l Rising s else s) in if bit t 1 then exti_do hw l Falling s else s)"

lemma flag_level: "flag ((sense IRQ_TYPE_LEVEL_HIGH) OR (sense IRQ_TYPE_LEVEL_LOW)) t \<longleftrightarrow> bit t 2 \<or> bit t 3"
  "flag ((sense IRQ_TYPE_LEVEL_LOW) OR (sense IRQ_TYPE_LEVEL_HIGH)) t \<longleftrightarrow> bit t 2 \<or> bit t 3"
proof -
  have "(12 :: u32) = 2 ^ 2 OR 2 ^ 3" by simp
  then have b: "bit (12 :: u32) k \<longleftrightarrow> k = 2 \<or> k = 3" for k by (simp only: bit_or_iff bit_pow2) auto
  have "t AND 12 = 0 \<longleftrightarrow> \<not> bit t 2 \<and> \<not> bit t 3"
  proof -
    have "t AND 12 = 0 \<longleftrightarrow> (\<forall>k. \<not> (bit t k \<and> bit (12 :: u32) k))"
      using bit_word_eqI [of "t AND 12" 0] by (metis bit_0_eq bit_and_iff bot_apply bot_bool_def)
    then show ?thesis unfolding b by blast
  qed
  then show "flag ((sense IRQ_TYPE_LEVEL_HIGH) OR (sense IRQ_TYPE_LEVEL_LOW)) t \<longleftrightarrow> bit t 2 \<or> bit t 3"
    "flag ((sense IRQ_TYPE_LEVEL_LOW) OR (sense IRQ_TYPE_LEVEL_HIGH)) t \<longleftrightarrow> bit t 2 \<or> bit t 3"
    by (auto simp: flag_def irq_flag_defs)
qed

lemma gpio_set_type_line:
  assumes "gpio_ready w" "n < 144" "edges_only t"
  shows "stm32_gpio_irq_set_type (gpio_irq n) t w = Inr (0, upd_iw_soc (set_edges hw (pin_line n) t) w)"
proof -
  have "\<not> flag ((sense IRQ_TYPE_LEVEL_HIGH) OR (sense IRQ_TYPE_LEVEL_LOW)) t" using assms(3) by (simp add: edges_only_def flag_level)
  moreover have "chip_data (irq_descs w (gpio_irq n))" using assms by (simp add: gpio_ready_def)
  moreover have "\<not> STM32_GPIO_LEN \<le> int n" using assms(2) by (simp add: gpio_geometry)
  ultimately show ?thesis
    by (simp add: stm32_gpio_irq_set_type_def Let_def irq_simps upd_iw_soc_def set_edges_def)
qed

lemma set_edges_line:
  assumes "l < 16" "m < 16"
  shows "exti_line (set_edges rc_w1 l t s) m = (if m = l then (exti_line s m)\<lparr>line_rising := line_rising (exti_line s m) \<or> bit t 0,
    line_falling := line_falling (exti_line s m) \<or> bit t 1\<rparr> else exti_line s m)"
  using assms by (cases "exti_line s l") (auto simp: set_edges_def Let_def lines.rd_wr simp del: exti_do.simps)

section \<open>Requesting the interrupt of a pin\<close>

lemma gpio_ready_upd [irq_simps]:
  assumes "\<And>d. chip (f d) = chip d" "\<And>d. chip_data (f d) = chip_data d" "\<And>d. handle_irq (f d) = handle_irq d"
  shows "gpio_ready (upd_desc i f w) = gpio_ready w"
proof -
  have "chip_of j (upd_desc i f w) = chip_of j w" "chip_data (irq_descs (upd_desc i f w) j) = chip_data (irq_descs w j)"
    "handle_irq (irq_descs (upd_desc i f w) j) = handle_irq (irq_descs w j)" for j
    using assms by (simp_all add: irq_simps)
  then show ?thesis unfolding gpio_ready_def by (simp add: irq_simps)
qed

lemma gpio_ready_other [irq_simps]:
  "gpio_ready (upd_iw_soc g w) = gpio_ready w" "gpio_ready (w\<lparr>iw_soc := s\<rparr>) = gpio_ready w"
  "length e = length (exti_2_gpio w) \<Longrightarrow> gpio_ready (w\<lparr>exti_2_gpio := e\<rparr>) = gpio_ready w"
  "gpio_ready (nvic_ack_irq i w) = gpio_ready w" "gpio_ready (nvic_unmask_irq i w) = gpio_ready w"
  by (simp_all add: gpio_ready_def irq_simps)

lemma gpio_set_trigger:
  assumes "gpio_ready w" "n < 144" "edges_only t"
  shows "irq_set_trigger (gpio_irq n) t w = Inr (0, upd_desc (gpio_irq n)
    (\<lambda>d. d\<lparr>status := (status d AND NOT ((irq_st IRQ_LEVEL) OR (sense IRQ_TYPE_SENSE_MASK))) OR t\<rparr>) (upd_iw_soc (set_edges hw (pin_line n) t) w))"
proof -
  have "chip_of (gpio_irq n) w = Gpio_irq_chip" using assms by (simp add: gpio_ready_def)
  then show ?thesis using assms(3)
    by (simp add: irq_set_trigger_def gpio_set_type_line [OF assms, of hw] flag_level edges_only_def Let_def)
qed

lemma gpio_startup:
  assumes "gpio_ready w" "n < 144" "pin_line n < 15"
  shows "chip_startup hw (gpio_irq n) w = stm32_gpio_irq_enable hw (gpio_irq n) w"
  using assms by (simp add: gpio_ready_def chip_startup_def chip_enable_def)

text \<open>The pin has no handler yet and drivers may request it.\<close>

definition gpio_free :: "irq_world \<Rightarrow> nat \<Rightarrow> bool" where
  "gpio_free w n \<longleftrightarrow> action (irq_descs w (gpio_irq n)) = [] \<and> \<not> bit (status (irq_descs w (gpio_irq n))) 18
     \<and> \<not> bit (status (irq_descs w (gpio_irq n))) 19 \<and> \<not> bit (status (irq_descs w (gpio_irq n))) 28"

text \<open>The line of a pin once its interrupt is set up.\<close>

definition line_for :: "nat \<Rightarrow> u32 \<Rightarrow> exti_line \<Rightarrow> exti_line" where
  "line_for n t x = \<lparr>line_port = pin_port n, line_int = True, line_rising = line_rising x \<or> bit t 0,
     line_falling = line_falling x \<or> bit t 1, line_pending = False\<rparr>"

definition gpio_armed :: "irq_world \<Rightarrow> nat \<Rightarrow> irqaction \<Rightarrow> bool" where
  "gpio_armed w n a \<longleftrightarrow> gpio_ready w \<and> exti_2_gpio w ! pin_line n = int n \<and> action (irq_descs w (gpio_irq n)) = [a]
     \<and> \<not> bit (status (irq_descs w (gpio_irq n))) 8 \<and> \<not> bit (status (irq_descs w (gpio_irq n))) 9
     \<and> depth (irq_descs w (gpio_irq n)) = 0 \<and> \<not> bit (status (irq_descs w (gpio_irq n))) 26"

lemma unat_port: "n < 144 \<Longrightarrow> pin_port n < 16"
  by (simp add: word_less_nat_alt unat_of_nat)

lemma edges_only_bits:
  assumes "edges_only t" "bit t k"
  shows "k < 2"
proof -
  have "(sense IRQ_TYPE_SENSE_MASK) = mask 4" by (simp add: IRQ_TYPE_SENSE_MASK_def mask_eq_exp_minus_1)
  then have "take_bit 4 t = t" using assms(1) by (simp add: edges_only_def take_bit_eq_mask)
  then have "k < 4" using take_bit_bit_bound assms(2) by blast
  moreover have "k \<noteq> 2" "k \<noteq> 3" using assms by (auto simp: edges_only_def)
  ultimately show ?thesis by simp
qed

lemma trigger_bits: "bit (f AND IRQF_TRIGGER_MASK) 0 = bit f 0" "bit (f AND IRQF_TRIGGER_MASK) (Suc 0) = bit f (Suc 0)"
  by (simp_all add: bit_and_iff irq_flag_defs)

lemma line_for_ops:
  assumes "m < 16" "n < 144" "edges_only t" "bit t 0 = bit f 0" "bit t (Suc 0) = bit f (Suc 0)"
  shows "exti_line (exti_do rc_w1 (pin_line n) (Enable True) (exti_do rc_w1 (pin_line n) (Connect (pin_port n))
      (set_edges rc_w1 (pin_line n) t s))) m = (if m = pin_line n then line_for n f (exti_line s m) else exti_line s m)"
  using assms unat_port [OF assms(2)] by (simp add: lines.rd_wr set_edges_line line_for_def del: exti_do.simps)

lemma setup_first_gpio:
  assumes "gpio_ready w" "n < 144" "pin_line n < 15" "gpio_free w n" "edges_only (act_flags a AND IRQF_TRIGGER_MASK)"
    and "flag IRQF_TRIGGER_MASK (act_flags a)"
  obtains w' where "setup_irq_first rc_w1 (gpio_irq n) a w = Inr (0, w')" "gpio_ready w'" "exti_2_gpio w' = (exti_2_gpio w)[pin_line n := int n]"
    "\<forall>m < 16. exti_line (iw_soc w') m = (if m = pin_line n then line_for n (act_flags a) (exti_line (iw_soc w) m) else exti_line (iw_soc w) m)"
    "action (irq_descs w' (gpio_irq n)) = []" "\<not> bit (status (irq_descs w' (gpio_irq n))) 8" "\<not> bit (status (irq_descs w' (gpio_irq n))) 9"
    "depth (irq_descs w' (gpio_irq n)) = 0" "\<forall>j. j \<noteq> gpio_irq n \<longrightarrow> irq_descs w' j = irq_descs w j"
    "bit (status (irq_descs w' (gpio_irq n))) 26 = bit (status (irq_descs w (gpio_irq n))) 26"
proof -
  let ?i = "gpio_irq n" and ?t = "act_flags a AND IRQF_TRIGGER_MASK"
  define w1 where "w1 = upd_desc ?i (\<lambda>d. d\<lparr>status := (status d AND NOT ((irq_st IRQ_LEVEL) OR (sense IRQ_TYPE_SENSE_MASK))) OR ?t\<rparr>)
    (upd_iw_soc (set_edges rc_w1 (pin_line n) ?t) w)"
  define w2 where "w2 = upd_desc ?i (clear_status ((irq_st IRQ_AUTODETECT) OR (irq_st IRQ_WAITING) OR (irq_st IRQ_ONESHOT) OR (irq_st IRQ_INPROGRESS) OR (irq_st IRQ_SPURIOUS_DISABLED))) w1"
  define w3 where "w3 = (if flag (irqf IRQF_ONESHOT) (act_flags a) then upd_desc ?i (set_status (irq_st IRQ_ONESHOT)) w2 else w2)"
  define w4 where "w4 = upd_desc ?i (\<lambda>d. (clear_status (irq_st IRQ_DISABLED) d)\<lparr>depth := 0\<rparr>) w3"
  have r: "gpio_ready w1" "gpio_ready w2" "gpio_ready w3" "gpio_ready w4"
    using assms(1) by (simp_all add: w1_def w2_def w3_def w4_def irq_simps)
  define w5 where "w5 = upd_desc ?i (clear_status (irq_st IRQ_MASKED)) (w4\<lparr>exti_2_gpio := (exti_2_gpio w4)[pin_line n := int n],
       iw_soc := exti_do rc_w1 (pin_line n) (Enable True) (exti_do rc_w1 (pin_line n) (Connect (pin_port n)) (iw_soc w4))\<rparr>)"
  define w6 where "w6 = (if flag (irqf IRQF_NOBALANCING) (act_flags a) then upd_desc ?i (set_status (irq_st IRQ_NO_BALANCING)) w5 else w5)"
  have tb: "\<not> bit ?t k" if "2 \<le> k" for k using edges_only_bits [OF assms(5), of k] that by auto
  have auto: "\<not> flag (irq_st IRQ_NOAUTOEN) (status (irq_descs w3 ?i))"
    using assms(4) tb [of 19] by (auto simp: w3_def w2_def w1_def gpio_free_def irq_simps status_bits)
  have en: "chip_startup rc_w1 ?i w4 = Inr w5"
    using gpio_enable_line [OF r(4) assms(2,3), of rc_w1] by (simp add: gpio_startup [OF r(4) assms(2,3)] w5_def)
  have "setup_irq_first rc_w1 ?i a w = Inr (0, w6)"
    unfolding setup_irq_first_def if_P [OF assms(6)] gpio_set_trigger [OF assms(1,2,5), of rc_w1] w1_def [symmetric]
      and_then_simps prod.case Let_def w2_def [symmetric] w3_def [symmetric] w4_def [symmetric]
    using auto en by (simp add: w6_def)
  moreover have "iw_soc w6 = exti_do rc_w1 (pin_line n) (Enable True) (exti_do rc_w1 (pin_line n) (Connect (pin_port n))
      (set_edges rc_w1 (pin_line n) ?t (iw_soc w)))"
    by (simp add: w6_def w5_def w4_def w3_def w2_def w1_def irq_simps del: exti_do.simps)
  then have "\<forall>m < 16. exti_line (iw_soc w6) m = (if m = pin_line n then line_for n (act_flags a) (exti_line (iw_soc w) m) else exti_line (iw_soc w) m)"
    using line_for_ops [OF _ assms(2,5) trigger_bits] by simp
  moreover have "gpio_ready w6" using r(4) by (simp add: w6_def w5_def irq_simps)
  moreover have "exti_2_gpio w6 = (exti_2_gpio w)[pin_line n := int n]" "\<forall>j. j \<noteq> ?i \<longrightarrow> irq_descs w6 j = irq_descs w j"
    "action (irq_descs w6 ?i) = []" "depth (irq_descs w6 ?i) = 0"
    using assms(4) by (auto simp: w6_def w5_def w4_def w3_def w2_def w1_def irq_simps gpio_free_def)
  moreover have "\<not> bit (status (irq_descs w6 ?i)) 8" "\<not> bit (status (irq_descs w6 ?i)) 9"
    "bit (status (irq_descs w6 ?i)) 26 = bit (status (irq_descs w ?i)) 26"
    using tb [of 26] by (auto simp: w6_def w5_def w4_def w3_def w2_def w1_def irq_simps status_bits IRQ_TYPE_SENSE_MASK_def)
  ultimately show ?thesis using that by blast
qed

lemma gpio_irq_range: "gpio_ready w \<Longrightarrow> n < 144 \<Longrightarrow> gpio_irq n < nr_irqs w"
  by (simp add: gpio_ready_def gpio_irq_def NVIC_IRQS_def)

lemma gpio_request:
  fixes h :: nat
  assumes "gpio_ready w" "n < 144" "pin_line n < 15" "gpio_free w n" "\<not> bit (status (irq_descs w (gpio_irq n))) 26"
    and "edges_only (flags AND IRQF_TRIGGER_MASK)" "flag IRQF_TRIGGER_MASK flags" "\<not> bit flags 13" "bit flags 7 \<longrightarrow> dev \<noteq> 0"
  defines "a \<equiv> \<lparr>act_handler = h, act_flags = flags, act_dev_id = dev\<rparr>"
  obtains w' where "request_irq rc_w1 True (gpio_irq n) (Some h) flags dev w = Inr (0, w')" "gpio_armed w' n a"
    "\<forall>m < 16. exti_line (iw_soc w') m = (if m = pin_line n then line_for n flags (exti_line (iw_soc w) m) else exti_line (iw_soc w) m)"
    "\<forall>j. j \<noteq> gpio_irq n \<longrightarrow> irq_descs w' j = irq_descs w j" "\<forall>m. m \<noteq> pin_line n \<longrightarrow> exti_2_gpio w' ! m = exti_2_gpio w ! m"
proof -
  have a: "act_flags a = flags" by (simp add: a_def)
  obtain v where v: "setup_irq_first rc_w1 (gpio_irq n) a w = Inr (0, v)" "gpio_ready v" "exti_2_gpio v = (exti_2_gpio w)[pin_line n := int n]"
    "\<forall>m < 16. exti_line (iw_soc v) m = (if m = pin_line n then line_for n flags (exti_line (iw_soc w) m) else exti_line (iw_soc w) m)"
    "action (irq_descs v (gpio_irq n)) = []" "\<not> bit (status (irq_descs v (gpio_irq n))) 8" "\<not> bit (status (irq_descs v (gpio_irq n))) 9"
    "depth (irq_descs v (gpio_irq n)) = 0" "\<forall>j. j \<noteq> gpio_irq n \<longrightarrow> irq_descs v j = irq_descs w j"
    "bit (status (irq_descs v (gpio_irq n))) 26 = bit (status (irq_descs w (gpio_irq n))) 26"
    using setup_first_gpio [OF assms(1-4), of a] assms(6,7) unfolding a by blast
  define w' where "w' = upd_desc (gpio_irq n) (\<lambda>d. d\<lparr>action := action d @ [a], irq_count := 0, irqs_unhandled := 0\<rparr>) v"
  have link: "setup_irq_link rc_w1 (gpio_irq n) a False v = Inr (0, w')" by (simp add: setup_irq_link_def w'_def Let_def)
  have "chip_of (gpio_irq n) w = Gpio_irq_chip" using assms(1,2) by (simp add: gpio_ready_def)
  then have "request_irq rc_w1 True (gpio_irq n) (Some h) flags dev w = Inr (0, w')"
    using assms(4,8,9) gpio_irq_range [OF assms(1,2)] v(1) link
    by (simp add: request_irq_def setup_irq_def gpio_free_def irq_simps a a_def [symmetric])
  moreover have "gpio_armed w' n a"
    using v assms(3,5) by (auto simp: gpio_armed_def w'_def irq_simps gpio_ready_def)
  ultimately show ?thesis using v(3,4,9) by (intro that [of w']) (auto simp: w'_def irq_simps)
qed

section \<open>Delivery\<close>

text \<open>
  A handler that says it handled the interrupt and does not touch the tables of the interrupt core.
\<close>

definition handler_plain :: "irq_run \<Rightarrow> bool" where
  "handler_plain run \<longleftrightarrow> (\<forall>h irq dev w. fst (run h irq dev w) = IRQ_HANDLED \<and> irq_descs (snd (run h irq dev w)) = irq_descs w
     \<and> nr_irqs (snd (run h irq dev w)) = nr_irqs w \<and> exti_2_gpio (snd (run h irq dev w)) = exti_2_gpio w)"

text \<open>The state a handler is started in.\<close>

definition gpio_started :: "nat \<Rightarrow> nat \<Rightarrow> irq_world \<Rightarrow> irq_world" where
  "gpio_started n irq w = upd_desc (gpio_irq n) (set_status (irq_st IRQ_INPROGRESS))
     (upd_desc (gpio_irq n) (clear_status ((irq_st IRQ_REPLAY) OR (irq_st IRQ_WAITING))) (nvic_ack_irq irq w))"

lemma note_handled:
  assumes "irqs_unhandled (irq_descs w irq) \<le> 99900"
  obtains w' where "note_interrupt hw irq IRQ_HANDLED w = Inr w'" "iw_soc w' = iw_soc w" "nr_irqs w' = nr_irqs w"
    "exti_2_gpio w' = exti_2_gpio w" "nvic_enable w' = nvic_enable w" "jiffies w' = jiffies w" "\<forall>j. j \<noteq> irq \<longrightarrow> irq_descs w' j = irq_descs w j"
    "\<exists>c u. u \<le> 99900 \<and> irq_descs w' irq = (irq_descs w irq)\<lparr>irq_count := c, irqs_unhandled := u\<rparr>"
proof -
  have u: "\<not> irqs_unhandled (irq_descs w irq) > 99900" using assms by (simp add: not_less)
  have eq: "(irq_descs w irq)\<lparr>irq_count := c\<rparr> = (irq_descs w irq)\<lparr>irq_count := c, irqs_unhandled := irqs_unhandled (irq_descs w irq)\<rparr>" for c
    by (cases "irq_descs w irq") simp
  have ex: "\<exists>c u. u \<le> 99900 \<and> (irq_descs w irq)\<lparr>irq_count := c'\<rparr> = (irq_descs w irq)\<lparr>irq_count := c, irqs_unhandled := u\<rparr>" for c'
    by (rule exI, rule exI, rule conjI [OF assms eq])
  have zero: "\<exists>c u. u \<le> 99900 \<and> (irq_descs w irq)\<lparr>irq_count := 0, irqs_unhandled := 0\<rparr> = (irq_descs w irq)\<lparr>irq_count := c, irqs_unhandled := u\<rparr>"
    by (intro exI [of _ 0]) simp
  show ?thesis
  proof (cases "irq_count (irq_descs w irq) + 1 < 100000")
    case True
    then show ?thesis
      by (intro that [of "upd_desc irq (\<lambda>d. d\<lparr>irq_count := irq_count d + 1\<rparr>) w"])
        (auto simp: note_interrupt_def Let_def irq_simps intro: ex)
  next
    case False
    then show ?thesis using u
      by (intro that [of "upd_desc irq (\<lambda>d. d\<lparr>irqs_unhandled := 0\<rparr>) (upd_desc irq (\<lambda>d. d\<lparr>irq_count := 0\<rparr>) (upd_desc irq (\<lambda>d. d\<lparr>irq_count := irq_count d + 1\<rparr>) w))"])
        (auto simp: note_interrupt_def Let_def irq_simps intro: zero)
  qed
qed

lemma run_actions_plain:
  assumes "handler_plain run" "action (irq_descs w irq) = [a]" "irqs_unhandled (irq_descs w irq) \<le> 99900"
  obtains w' where "run_actions hw run irq w = Inr w'"
    "iw_soc w' = iw_soc (snd (run (act_handler a) irq (act_dev_id a) (upd_desc irq (set_status (irq_st IRQ_INPROGRESS)) w)))"
    "jiffies w' = jiffies (snd (run (act_handler a) irq (act_dev_id a) (upd_desc irq (set_status (irq_st IRQ_INPROGRESS)) w)))"
    "nr_irqs w' = nr_irqs w" "exti_2_gpio w' = exti_2_gpio w" "\<forall>j. j \<noteq> irq \<longrightarrow> irq_descs w' j = irq_descs w j"
    "\<exists>c u. u \<le> 99900 \<and> irq_descs w' irq = clear_status (irq_st IRQ_INPROGRESS) ((set_status (irq_st IRQ_INPROGRESS) (irq_descs w irq))\<lparr>irq_count := c, irqs_unhandled := u\<rparr>)"
proof -
  let ?v = "upd_desc irq (set_status (irq_st IRQ_INPROGRESS)) w"
  obtain v where v: "run (act_handler a) irq (act_dev_id a) ?v = (IRQ_HANDLED, v)" "irq_descs v = irq_descs ?v" "nr_irqs v = nr_irqs w"
    "exti_2_gpio v = exti_2_gpio w"
    using assms(1) unfolding handler_plain_def by (metis prod.collapse upd_desc_simps(4,5))
  have ev: "handle_IRQ_event run irq (action (irq_descs w irq)) ?v = (IRQ_HANDLED, v)"
    by (simp add: handle_IRQ_event_def assms(2) v(1)) (simp add: IRQ_NONE_def IRQ_HANDLED_def IRQ_WAKE_THREAD_def)
  obtain x where x: "(if noirqdebug v then Inr v else note_interrupt hw irq IRQ_HANDLED v) = Inr x" "iw_soc x = iw_soc v" "nr_irqs x = nr_irqs v"
    "exti_2_gpio x = exti_2_gpio v" "\<forall>j. j \<noteq> irq \<longrightarrow> irq_descs x j = irq_descs v j"
    "\<exists>c u. u \<le> 99900 \<and> irq_descs x irq = (irq_descs v irq)\<lparr>irq_count := c, irqs_unhandled := u\<rparr>" "jiffies x = jiffies v"
  proof (cases "noirqdebug v")
    case True
    have le: "irqs_unhandled (irq_descs v irq) \<le> 99900" using assms(3) by (simp add: v(2) irq_simps)
    have "irq_descs v irq = (irq_descs v irq)\<lparr>irq_count := irq_count (irq_descs v irq), irqs_unhandled := irqs_unhandled (irq_descs v irq)\<rparr>"
      by (cases "irq_descs v irq") simp
    with le have "\<exists>c u. u \<le> 99900 \<and> irq_descs v irq = (irq_descs v irq)\<lparr>irq_count := c, irqs_unhandled := u\<rparr>" by (intro exI conjI)
    with True show ?thesis by (intro that [of v]) (simp, rule refl, rule refl, rule refl, blast, assumption, rule refl)
  next
    case False
    have "irqs_unhandled (irq_descs v irq) \<le> 99900" using assms(3) by (simp add: v(2) irq_simps)
    from note_handled [OF this, of hw] show ?thesis using False that by metis
  qed
  show ?thesis
  proof (rule that [of "upd_desc irq (clear_status (irq_st IRQ_INPROGRESS)) x"])
    show "run_actions hw run irq w = Inr (upd_desc irq (clear_status (irq_st IRQ_INPROGRESS)) x)"
      using ev x(1) by (simp add: run_actions_def Let_def)
    show "\<exists>c u. u \<le> 99900 \<and> irq_descs (upd_desc irq (clear_status (irq_st IRQ_INPROGRESS)) x) irq
        = clear_status (irq_st IRQ_INPROGRESS) ((set_status (irq_st IRQ_INPROGRESS) (irq_descs w irq))\<lparr>irq_count := c, irqs_unhandled := u\<rparr>)"
      using x(6) v(2) by (simp add: irq_simps) metis
  qed (use x(2-5,7) v in \<open>simp_all add: irq_simps\<close>)
qed

lemma filter_eq_upt: "l < n \<Longrightarrow> filter (\<lambda>k. k = l) [0 ..< n] = [l]"
  by (induction n) (auto simp: less_Suc_eq)

lemma gpio_armed_irq:
  assumes "gpio_armed w n a" "n < 144"
  shows "handle_irq (irq_descs w (gpio_irq n)) = Handle_simple_irq" "gpio_irq n < nr_irqs w" "gpio_ready w"
  using assms gpio_irq_range by (auto simp: gpio_armed_def gpio_ready_def)

lemma exti_irq_not_gpio: "irq \<in> set exti_irqs \<Longrightarrow> irq \<noteq> gpio_irq n"
  by (auto simp: exti_irqs_def gpio_irq_def NVIC_IRQS_def)

lemma handle_armed:
  assumes "handler_plain run" "gpio_armed w n a" "n < 144" "irqs_unhandled (irq_descs w (gpio_irq n)) \<le> 99900"
  obtains w' where "handle_irq_plain hw run (gpio_irq n) w = Inr w'"
    "iw_soc w' = iw_soc (snd (run (act_handler a) (gpio_irq n) (act_dev_id a)
       (upd_desc (gpio_irq n) (set_status (irq_st IRQ_INPROGRESS)) (upd_desc (gpio_irq n) (clear_status ((irq_st IRQ_REPLAY) OR (irq_st IRQ_WAITING))) w))))"
    "gpio_armed w' n a" "irqs_unhandled (irq_descs w' (gpio_irq n)) \<le> 99900" "\<forall>j. j \<noteq> gpio_irq n \<longrightarrow> irq_descs w' j = irq_descs w j"
proof -
  let ?i = "gpio_irq n" and ?v = "upd_desc (gpio_irq n) (clear_status ((irq_st IRQ_REPLAY) OR (irq_st IRQ_WAITING))) w"
  note ar = gpio_armed_irq [OF assms(2,3)]
  have act: "action (irq_descs ?v ?i) = [a]" "irqs_unhandled (irq_descs ?v ?i) \<le> 99900"
    using assms(2,4) by (simp_all add: gpio_armed_def irq_simps)
  obtain w' where w': "run_actions hw run ?i ?v = Inr w'"
    "iw_soc w' = iw_soc (snd (run (act_handler a) ?i (act_dev_id a) (upd_desc ?i (set_status (irq_st IRQ_INPROGRESS)) ?v)))"
    "nr_irqs w' = nr_irqs ?v" "exti_2_gpio w' = exti_2_gpio ?v" "\<forall>j. j \<noteq> ?i \<longrightarrow> irq_descs w' j = irq_descs ?v j"
    "\<exists>c u. u \<le> 99900 \<and> irq_descs w' ?i = clear_status (irq_st IRQ_INPROGRESS) ((set_status (irq_st IRQ_INPROGRESS) (irq_descs ?v ?i))\<lparr>irq_count := c, irqs_unhandled := u\<rparr>)"
    using run_actions_plain [OF assms(1) act, of hw] by metis
  have "handle_irq_plain hw run ?i w = Inr w'"
    using assms(2) ar w'(1) by (simp add: handle_irq_plain_def handle_simple_irq_def gpio_armed_def irq_simps status_bits Let_def)
  moreover have "gpio_ready w'"
  proof -
    have "chip_of j w' = chip_of j w \<and> chip_data (irq_descs w' j) = chip_data (irq_descs w j) \<and> handle_irq (irq_descs w' j) = handle_irq (irq_descs w j)" for j
      using w'(5,6) by (cases "j = ?i") (auto simp: irq_simps)
    then show ?thesis using ar(3) w'(3,4) unfolding gpio_ready_def by (simp add: irq_simps)
  qed
  then have "gpio_armed w' n a"
    using assms(2) w'(4,6) by (auto simp: gpio_armed_def irq_simps status_bits)
  moreover have "irqs_unhandled (irq_descs w' ?i) \<le> 99900" using w'(6) by (auto simp: irq_simps)
  ultimately show ?thesis using w'(2,5) that by (auto simp: irq_simps)
qed

end
