(* ===== verification/Gpio_Props.thy ===== *)
theory Gpio_Props
  imports Irq_Gpio
begin

text \<open>
  The properties of the GPIO driver: levels and directions of pins, delivery of an edge to the
  handler of a driver, and three behaviours of the interrupt part that a user of it has to know.
\<close>

section \<open>Delivery of an edge\<close>

lemma exti_irq_ready:
  assumes "gpio_ready w" "irq \<in> set exti_irqs"
  shows "irq < nr_irqs w" "chip_of irq w = Nvic_chip" "chip_data (irq_descs w irq)" "handle_irq (irq_descs w irq) = Exti_irq_handler"
  using assms by (auto simp: gpio_ready_def exti_irqs_def)

lemma exti_irq_entry:
  assumes "gpio_ready w" "irq \<in> set exti_irqs"
  shows "asm_do_IRQ hw run irq w = and_then
    (fold_steps (exti_handle_line hw run) (filter (bit (exti_pr (exti (iw_soc w)))) [0 ..< 15]) (nvic_ack_irq irq w))
    (\<lambda>w. call_op (chip_unmask (chip_of irq w)) irq w)"
  using exti_irq_ready [OF assms]
  by (simp add: asm_do_IRQ_def generic_handle_irq_def stm32_exti_irq_handler_def call_op_def stm32_exti_get_pending_def
      STM32_EXTI_LINES_LEN_def irq_simps Let_def)

text \<open>C26. When an edge on the pin has set its pending bit and nothing else is pending, the interrupt
  runs the handler of the driver that requested the pin, once, with its cookie; then the pending
  bit of the line is clear, the interrupt of the controller is enabled again and the pin is ready for
  the next edge. The bit is cleared after the handler ran, whatever happened to it meanwhile.\<close>

theorem gpio_edge_delivered:
  assumes "handler_plain run" "gpio_armed w n a" "n < 144" "n mod 16 < 15" "irqs_unhandled (irq_descs w (gpio_irq n)) \<le> 99900"
    and "irq \<in> set exti_irqs" "exti_pr (exti (iw_soc w)) = 2 ^ (n mod 16)"
  shows "\<exists>w'. asm_do_IRQ rc_w1 run irq w = Inr w'
    \<and> iw_soc w' = stm32_exti_clear_pending rc_w1 (of_nat (n mod 16))
        (iw_soc (snd (run (act_handler a) (gpio_irq n) (act_dev_id a) (gpio_started n irq w))))
    \<and> \<not> line_pending (exti_line (iw_soc w') (n mod 16)) \<and> gpio_armed w' n a
    \<and> irqs_unhandled (irq_descs w' (gpio_irq n)) \<le> 99900 \<and> nvic_on w' irq"
proof -
  let ?l = "n mod 16" and ?v = "nvic_ack_irq irq w"
  have rdy: "gpio_ready w" using assms(2) by (simp add: gpio_armed_def)
  have "filter (bit (2 ^ ?l :: u32)) [0 ..< 15] = filter (\<lambda>k. k = ?l) [0 ..< 15]"
    by (rule filter_cong) (auto simp: bit_pow2)
  then have lines: "filter (bit (exti_pr (exti (iw_soc w)))) [0 ..< 15] = [?l]"
    using filter_eq_upt [OF assms(4)] assms(7) by simp
  have "gpio_armed ?v n a" using assms(2) by (simp add: gpio_armed_def irq_simps)
  then obtain x where x: "handle_irq_plain rc_w1 run (gpio_irq n) ?v = Inr x"
    "iw_soc x = iw_soc (snd (run (act_handler a) (gpio_irq n) (act_dev_id a) (gpio_started n irq w)))"
    "gpio_armed x n a" "\<forall>j. j \<noteq> gpio_irq n \<longrightarrow> irq_descs x j = irq_descs ?v j" "irqs_unhandled (irq_descs x (gpio_irq n)) \<le> 99900"
    using handle_armed [OF assms(1) _ assms(3), of ?v a rc_w1] assms(5) unfolding gpio_started_def by (auto simp: irq_simps)
  have pin: "get_exti_2_gpio (int ?l) ?v = Inr (int n)"
    using assms(2,4) by (simp add: get_exti_2_gpio_def gpio_armed_def gpio_ready_def irq_simps)
  define y where "y = upd_iw_soc (stm32_exti_clear_pending rc_w1 (of_nat ?l)) x"
  have "exti_handle_line rc_w1 run ?l ?v = Inr y"
    using x(1) by (simp add: exti_handle_line_def pin y_def gpio_irq_def gpio_irq_base_def nat_int_add)
  moreover have "chip_of irq y = Nvic_chip"
    using x(4) exti_irq_not_gpio [OF assms(6), of n] exti_irq_ready [OF rdy assms(6)] by (simp add: y_def irq_simps)
  ultimately have "asm_do_IRQ rc_w1 run irq w = Inr (nvic_unmask_irq irq y)"
    by (simp add: exti_irq_entry [OF rdy assms(6)] lines call_op_def)
  moreover have "gpio_armed (nvic_unmask_irq irq y) n a" using x(3) by (simp add: gpio_armed_def y_def irq_simps)
  moreover have "iw_soc (nvic_unmask_irq irq y) = exti_do rc_w1 ?l Clear (iw_soc x)" by (simp add: y_def irq_simps)
  then have "\<not> line_pending (exti_line (iw_soc (nvic_unmask_irq irq y)) ?l)" by (simp add: lines.rd_wr_same del: exti_do.simps)
  ultimately show ?thesis using x(2,5) by (auto simp: y_def irq_simps)
qed

text \<open>A request of the interrupt of a pin for edges succeeds: the line is connected to the port of
  the pin and enabled with the requested edges, nothing is pending, the pin is the one the chained
  handler finds for the line, and the other lines and the other descriptors are as before. Edges
  that were set for the line before stay set.\<close>

theorem gpio_request_arms:
  assumes "gpio_ready w" "n < 144" "n mod 16 < 15" "gpio_free w n" "\<not> bit (status (irq_descs w (gpio_irq n))) 26"
    and "edges_only (flags AND IRQF_TRIGGER_MASK)" "flag IRQF_TRIGGER_MASK flags" "\<not> bit flags 13" "bit flags 7 \<longrightarrow> dev \<noteq> 0"
  shows "\<exists>w'. request_irq rc_w1 True (gpio_irq n) (Some h) flags dev w = Inr (0, w')
    \<and> gpio_armed w' n \<lparr>act_handler = h, act_flags = flags, act_dev_id = dev\<rparr>
    \<and> (\<forall>m < 16. exti_line (iw_soc w') m = (if m = n mod 16 then line_for n flags (exti_line (iw_soc w) m) else exti_line (iw_soc w) m))
    \<and> (\<forall>j. j \<noteq> gpio_irq n \<longrightarrow> irq_descs w' j = irq_descs w j)"
  by (rule gpio_request [OF assms, where h = h]) blast

text \<open>C28. The last line of every port is lost: enabling the interrupt of a pin number 15 writes behind
  the table of the driver, and when line 15 is pending the chained handler returns with the
  pending bit still set and the interrupt enabled, so that it is entered again at once.\<close>

theorem gpio_line15_unserviced:
  assumes "gpio_ready w" "n < 144" "n mod 16 = 15" "irq \<in> set exti_irqs" "exti_pr (exti (iw_soc w)) = 2 ^ 15"
  shows "stm32_gpio_irq_enable rc_w1 (gpio_irq n) w = Inl OutOfBounds
    \<and> (\<exists>w'. asm_do_IRQ rc_w1 run irq w = Inr w' \<and> line_pending (exti_line (iw_soc w') 15) \<and> nvic_on w' irq)"
proof
  show "stm32_gpio_irq_enable rc_w1 (gpio_irq n) w = Inl OutOfBounds"
    using assms(1-3) by (simp add: stm32_gpio_irq_enable_def gpio_ready_def get_exti_2_gpio_def Let_def)
  have "\<not> bit (2 ^ 15 :: u32) k" if "k < 15" for k using bit_pow2 [of 15 k] that by simp
  then have "filter (bit (2 ^ 15 :: u32)) [0 ..< 15] = []" by (simp add: filter_empty_conv)
  then have "asm_do_IRQ rc_w1 run irq w = Inr (nvic_unmask_irq irq (nvic_ack_irq irq w))"
    using exti_irq_ready [OF assms(1,4)] by (simp add: exti_irq_entry [OF assms(1,4)] assms(5) call_op_def irq_simps)
  then show "\<exists>w'. asm_do_IRQ rc_w1 run irq w = Inr w' \<and> line_pending (exti_line (iw_soc w') 15) \<and> nvic_on w' irq"
    using assms(5) by (simp add: irq_simps exti_line_def)
qed

text \<open>C29. Disabling and enabling the interrupt of a pin again does not restore it: the line is
  enabled but both of its edge triggers are cleared, so that it sees no edge any more.\<close>

theorem gpio_reenable_loses_edges:
  assumes "gpio_armed w n a" "n < 144" "n mod 16 < 15"
  shows "\<exists>v w'. disable_irq_nosync rc_w1 (gpio_irq n) w = Inr v \<and> enable_irq rc_w1 (gpio_irq n) v = Inr w'
    \<and> line_int (exti_line (iw_soc w') (n mod 16))
    \<and> \<not> line_rising (exti_line (iw_soc w') (n mod 16)) \<and> \<not> line_falling (exti_line (iw_soc w') (n mod 16))"
proof -
  let ?i = "gpio_irq n" and ?l = "n mod 16"
  have rdy: "gpio_ready w" "?i < nr_irqs w" using gpio_armed_irq [OF assms(1,2)] by auto
  define v1 where "v1 = upd_desc ?i (set_status (irq_st IRQ_DISABLED)) (upd_desc ?i (\<lambda>d. d\<lparr>depth := 1\<rparr>) w)"
  have r1: "gpio_ready v1" using rdy(1) by (simp add: v1_def irq_simps)
  define v where "v = upd_desc ?i (set_status (irq_st IRQ_MASKED)) (upd_iw_soc (exti_do rc_w1 ?l (Enable False)) v1)"
  have chip1: "chip_of ?i v1 = Gpio_irq_chip" using r1 assms(2) by (simp add: gpio_ready_def)
  have "chip_disable rc_w1 ?i v1 = Inr v"
    using gpio_disable_line [OF r1 assms(2), of rc_w1] chip1 by (simp add: chip_disable_def v_def)
  then have dis: "disable_irq_nosync rc_w1 ?i w = Inr v"
    using assms(1) rdy(2) by (simp add: disable_irq_nosync_def disable_irq_desc_def gpio_armed_def Let_def v1_def)
  define u where "u = upd_desc ?i (\<lambda>d. d\<lparr>status := (status d AND NOT (irq_st IRQ_DISABLED)) OR (irq_st IRQ_NOPROBE)\<rparr>) v"
  have ru: "gpio_ready u" using r1 by (simp add: u_def v_def irq_simps)
  define x where "x = upd_desc ?i (clear_status (irq_st IRQ_MASKED)) (u\<lparr>exti_2_gpio := (exti_2_gpio u)[?l := int n],
       iw_soc := exti_do rc_w1 ?l (Enable True) (exti_do rc_w1 ?l (Connect (pin_port n)) (iw_soc u))\<rparr>)"
  have "chip_of ?i u = Gpio_irq_chip" using ru assms(2) by (simp add: gpio_ready_def)
  then have en: "chip_enable rc_w1 ?i u = Inr x"
    using gpio_enable_line [OF ru assms(2,3), of rc_w1] by (simp add: chip_enable_def x_def)
  have d: "depth (irq_descs v ?i) = 1" "\<not> bit (status (irq_descs v ?i)) 26" "nr_irqs v = nr_irqs w"
    using assms(1) by (auto simp: v_def v1_def gpio_armed_def irq_simps status_bits)
  have "\<exists>y. check_irq_resend rc_w1 ?i u = Inr y \<and> iw_soc y = iw_soc x"
    using en by (auto simp: check_irq_resend_def Let_def irq_simps)
  then obtain y where y: "check_irq_resend rc_w1 ?i u = Inr y" "iw_soc y = iw_soc x" by blast
  then have "enable_irq rc_w1 ?i v = Inr (upd_desc ?i (\<lambda>d. d\<lparr>depth := depth d - 1\<rparr>) y)"
    using d rdy(2) by (simp add: enable_irq_def enable_irq_desc_def irq_simps Let_def u_def)
  then obtain w' where "enable_irq rc_w1 ?i v = Inr w'" "iw_soc w' = iw_soc x" using y(2) by (simp add: irq_simps)
  moreover have "iw_soc x = exti_do rc_w1 ?l (Enable True) (exti_do rc_w1 ?l (Connect (pin_port n)) (exti_do rc_w1 ?l (Enable False) (iw_soc w)))"
    by (simp add: x_def u_def v_def v1_def irq_simps del: exti_do.simps)
  ultimately show ?thesis using dis unat_port [OF assms(2)] by (auto simp: lines.rd_wr simp del: exti_do.simps)
qed

section \<open>Levels and directions\<close>

lemma gpio_port_valid:
  assumes "n < 144"
  shows "gpio_port_base n = Inr (gpio_chip_base ! (n div 16))"
proof -
  have "length gpio_chip_base = 9" by (simp add: gpio_chip_base_def)
  then show ?thesis using assms by (simp add: gpio_port_base_def Let_def)
qed

text \<open>The level is shifted unmasked into the output register.\<close>

lemma gpio_set_value_field:
  assumes "n < 144"
  shows "stm32_gpio_set_value n v s = Inr (upd_gpio_regs (gpio_chip_base ! (n div 16)) (\<lambda>r. r\<lparr>gpio_odr := set_field 1 (n mod 16) v (gpio_odr r)\<rparr>) s)"
  using assms by (simp add: stm32_gpio_set_value_def gpio_port_valid Let_def set_field_c upd_gpio_regs_def)

lemma gpio_set_value_spills:
  assumes "n < 144" "stm32_gpio_set_value n v s = Inr s'" "k < 32"
  shows "bit (gpio_odr (gpio s' (gpio_chip_base ! (n div 16)))) k \<longleftrightarrow>
    (if k = n mod 16 then bit v 0 else bit (gpio_odr (gpio s (gpio_chip_base ! (n div 16)))) k \<or> n mod 16 < k \<and> bit v (k - n mod 16))"
  using assms(2,3) by (auto simp: gpio_set_value_field [OF assms(1)] upd_gpio_regs_def bit_field)

text \<open>Making a pin an output at level 0 or 1 succeeds for every pin of the chip, sets the mode
  and the level of that pin, and leaves the mode and level of every other pin, all other settings,
  the other ports and the rest of the chip as they were.\<close>

lemma gpio_output_exact:
  assumes "n < 144" "v < 2"
  defines "b \<equiv> gpio_chip_base ! (n div 16)" and "p \<equiv> n mod 16"
  shows "\<exists>s'. stm32_gpio_direction_output n v s = Inr (0, s') \<and> field 2 (2 * p) (gpio_moder (gpio s' b)) = 1
    \<and> (bit (gpio_odr (gpio s' b)) p \<longleftrightarrow> v = 1)
    \<and> (\<forall>q < 16. q \<noteq> p \<longrightarrow> field 2 (2 * q) (gpio_moder (gpio s' b)) = field 2 (2 * q) (gpio_moder (gpio s b))
         \<and> (bit (gpio_odr (gpio s' b)) q \<longleftrightarrow> bit (gpio_odr (gpio s b)) q))
    \<and> (\<exists>m l. s' = s\<lparr>gpio := (gpio s)(b := (gpio s b)\<lparr>gpio_moder := m, gpio_odr := l\<rparr>)\<rparr>)"
proof -
  let ?m = "set_field 2 (2 * p) 1 (gpio_moder (gpio s b))" and ?l = "set_field 1 p v (gpio_odr (gpio s b))"
  let ?s = "s\<lparr>gpio := (gpio s)(b := (gpio s b)\<lparr>gpio_moder := ?m, gpio_odr := ?l\<rparr>)\<rparr>"
  have v: "v = 0 \<or> v = 1" using assms(2) by (simp add: word_less_nat_alt word_unat_eq_iff) linarith
  have run: "stm32_gpio_direction_output n v s = Inr (0, ?s)"
    using assms(1) by (simp add: stm32_gpio_direction_output_def gpio_port_valid gpio_set_value_field Let_def upd_gpio_regs_def
        b_def [symmetric] p_def [symmetric] set_field_c mult.commute)
  have p: "p < 16" by (simp add: p_def)
  have one: "take_bit 2 (1 :: u32) = 1" by (simp add: take_bit_u32_self)
  have "field 2 (2 * q) ?m = (if p = q then 1 else field 2 (2 * q) (gpio_moder (gpio s b)))" if "q < 16" for q
    using that p one by (subst fields.rd_wr) auto
  moreover have "bit ?l q \<longleftrightarrow> (if q = p then v = 1 else bit (gpio_odr (gpio s b)) q)" if "q < 16" for q
    using that v p by (auto simp: bit_field bit_1_iff)
  ultimately show ?thesis using p run by (intro exI [of _ ?s]) auto
qed

section \<open>Concrete chips\<close>

text \<open>Pin 5 of port A requested for one handler, with a pending register.\<close>

definition ex_action :: irqaction where
  "ex_action = \<lparr>act_handler = 1, act_flags = (sense IRQ_TYPE_EDGE_RISING), act_dev_id = 7\<rparr>"

definition ex_gpio_desc :: "nat \<Rightarrow> irq_desc" where
  "ex_gpio_desc j =
     (if 90 \<le> j \<and> j < 234 then irq_desc_init\<lparr>handle_irq := Handle_simple_irq, chip := Gpio_irq_chip, chip_data := True,
        status := 0, depth := 0, action := (if j = 95 then [ex_action] else [])\<rparr>
      else if j \<in> set exti_irqs then irq_desc_init\<lparr>handle_irq := Exti_irq_handler, chip := Nvic_chip, chip_data := True\<rparr>
      else irq_desc_init)"

definition ex_gpio_config :: kconfig where
  "ex_gpio_config c \<longleftrightarrow> c = CONFIG_STM32_GPIO \<or> c = CONFIG_STM32_GPIO_INT"

definition ex_gpio_world :: "u32 \<Rightarrow> irq_world" where
  "ex_gpio_world pr = (irq_world_boot ex_gpio_config (soc0\<lparr>exti := (exti soc0)\<lparr>exti_pr := pr\<rparr>\<rparr>) (\<lambda>_. 0) (\<lambda>_. 0))
     \<lparr>irq_descs := ex_gpio_desc, exti_2_gpio := (replicate 15 (-1))[5 := 5]\<rparr>"

lemma ex_gpio_ready: "gpio_ready (ex_gpio_world pr)"
  by (auto simp: gpio_ready_def ex_gpio_world_def ex_gpio_desc_def irq_world_boot_def ex_gpio_config_def NR_IRQS_def NVIC_IRQS_def
      STM32_GPIO_NUM_def gpio_irq_def exti_irqs_def)

lemma ex_gpio_armed: "gpio_armed (ex_gpio_world pr) 5 ex_action" "irqs_unhandled (irq_descs (ex_gpio_world pr) (gpio_irq 5)) \<le> 99900"
  "exti_pr (exti (iw_soc (ex_gpio_world pr))) = pr"
  using ex_gpio_ready by (simp_all add: gpio_armed_def ex_gpio_world_def ex_gpio_desc_def irq_world_boot_def gpio_irq_def NVIC_IRQS_def irq_desc_init_def)

theorem gpio_edge_delivered_witness:
  "\<exists>w'. asm_do_IRQ rc_w1 (\<lambda>h irq dev w. (IRQ_HANDLED, w)) 23 (ex_gpio_world 0x20) = Inr w'
    \<and> \<not> line_pending (exti_line (iw_soc w') 5) \<and> nvic_on w' 23"
  using gpio_edge_delivered [of "\<lambda>h irq dev w. (IRQ_HANDLED, w)" "ex_gpio_world 0x20" 5 ex_action 23] ex_gpio_armed [of "0x20"]
  by (auto simp: handler_plain_def exti_irqs_def)

theorem gpio_request_arms_witness:
  "\<exists>w'. request_irq rc_w1 True 96 (Some 3) 2 0 (ex_gpio_world 0) = Inr (0, w') \<and> line_falling (exti_line (iw_soc w') 6)"
proof -
  have "gpio_free (ex_gpio_world 0) 6" "\<not> bit (status (irq_descs (ex_gpio_world 0) (gpio_irq 6))) 26"
    by (simp_all add: gpio_free_def ex_gpio_world_def ex_gpio_desc_def gpio_irq_def NVIC_IRQS_def)
  moreover have "edges_only (2 AND IRQF_TRIGGER_MASK)" "flag IRQF_TRIGGER_MASK 2" by (simp_all add: edges_only_def flag_def irq_flag_defs)
  ultimately show ?thesis using gpio_request_arms [OF ex_gpio_ready [of 0], of 6 2 0 3]
    by (auto simp: gpio_irq_def NVIC_IRQS_def line_for_def)
qed

theorem gpio_line15_unserviced_witness:
  "stm32_gpio_irq_enable rc_w1 105 (ex_gpio_world 0x8000) = Inl OutOfBounds"
  using gpio_line15_unserviced [OF ex_gpio_ready [of "0x8000"], of 15 40] ex_gpio_armed(3) [of "0x8000"]
  by (simp add: exti_irqs_def gpio_irq_def NVIC_IRQS_def)

theorem gpio_reenable_loses_edges_witness:
  "\<exists>v w'. disable_irq_nosync rc_w1 95 (ex_gpio_world 0) = Inr v \<and> enable_irq rc_w1 95 v = Inr w' \<and> \<not> line_rising (exti_line (iw_soc w') 5)"
  using gpio_reenable_loses_edges [OF ex_gpio_armed(1) [of 0]] by (auto simp: gpio_irq_def NVIC_IRQS_def)

end
