(* ===== verification/Irq_Init.thy ===== *)
theory Irq_Init
  imports Gpio_Props
begin

text \<open>
  The interrupt descriptors after boot: \<^verbatim>\<open>init_IRQ\<close> with the controller, then the GPIO driver. From
  there on the lemmas on interrupts of pins apply.
\<close>

section \<open>Composing updates\<close>

lemma upd_desc_twice: "upd_desc i f (upd_desc i g w) = upd_desc i (f \<circ> g) w"
  by (simp add: upd_desc_def)

lemma fold_steps_upd:
  assumes "\<And>i w. i \<in> set is \<Longrightarrow> nr_irqs w = k \<Longrightarrow> step i w = Inr (upd_desc (g i) f w)" "nr_irqs w = k"
  shows "fold_steps step is w = Inr (fold (\<lambda>i. upd_desc (g i) f) is w)"
  using assms by (induction "is" arbitrary: w) (auto simp: irq_simps)

lemma fold_upd_fields [irq_simps]:
  "nr_irqs (fold (\<lambda>i. upd_desc (g i) f) is w) = nr_irqs w" "iw_soc (fold (\<lambda>i. upd_desc (g i) f) is w) = iw_soc w"
  "exti_2_gpio (fold (\<lambda>i. upd_desc (g i) f) is w) = exti_2_gpio w" "nvic_enable (fold (\<lambda>i. upd_desc (g i) f) is w) = nvic_enable w"
  by (induction "is" arbitrary: w) (auto simp: irq_simps)

lemma irq_descs_fold:
  assumes "distinct is" "inj g"
  shows "irq_descs (fold (\<lambda>i. upd_desc (g i) f) is w) j = (if j \<in> g ` set is then f (irq_descs w j) else irq_descs w j)"
  using assms
proof (induction "is" arbitrary: w)
  case (Cons i "is")
  have "g i \<notin> g ` set is" using Cons.prems by (auto dest: injD)
  then show ?case using Cons by (auto simp: irq_simps)
qed simp

lemmas fold_id_simps = fold_steps_upd [where g = id, simplified] fold_upd_fields [where g = id, simplified] irq_descs_fold [where g = id, simplified]

section \<open>The controller\<close>

text \<open>What initialisation makes of the descriptor of a line of the controller, and of a pin.\<close>

definition nvic_desc :: "irq_desc \<Rightarrow> irq_desc" where
  "nvic_desc d = clear_status (irq_st IRQ_NOAUTOEN) (clear_status (irq_st IRQ_NOPROBE) (clear_status (irq_st IRQ_NOREQUEST)
     (set_status ((irq_st IRQ_NOREQUEST) OR (irq_st IRQ_NOPROBE) OR (irq_st IRQ_NOAUTOEN)) (d\<lparr>chip := Nvic_chip, handle_irq := Handle_level_irq\<rparr>))))"

definition gpio_desc :: "irq_desc \<Rightarrow> irq_desc" where
  "gpio_desc d = (clear_status (irq_st IRQ_NOAUTOEN) (clear_status (irq_st IRQ_NOREQUEST)
     (set_status ((irq_st IRQ_NOREQUEST) OR (irq_st IRQ_NOPROBE) OR (irq_st IRQ_NOAUTOEN)) (d\<lparr>chip := Gpio_irq_chip, handle_irq := Handle_simple_irq\<rparr>))))\<lparr>chip_data := True\<rparr>"

lemma irqf_flags: "flag IRQF_VALID (IRQF_VALID OR IRQF_PROBE)" "flag IRQF_PROBE (IRQF_VALID OR IRQF_PROBE)"
  "\<not> flag IRQF_NOAUTOEN (IRQF_VALID OR IRQF_PROBE)" "flag IRQF_VALID IRQF_VALID" "\<not> flag IRQF_PROBE IRQF_VALID" "\<not> flag IRQF_NOAUTOEN IRQF_VALID"
  by (simp_all add: flag_def irq_flag_defs)

lemma nvic_setup_desc:
  assumes "irq < nr_irqs w"
  shows "nvic_setup hw irq w = Inr (upd_desc irq nvic_desc w)"
  using assms by (simp add: nvic_setup_def set_irq_chip_def set_irq_handler_def set_irq_flags_def irqf_flags Let_def irq_simps
      upd_desc_twice comp_def nvic_desc_def [abs_def])

lemma gpio_setup_desc:
  assumes "i + gpio_irq_base < nr_irqs w"
  shows "gpio_setup hw i w = Inr (upd_desc (gpio_irq i) gpio_desc w)"
  using assms by (simp add: gpio_setup_def set_irq_chip_def set_irq_chip_data_def set_irq_handler_def set_irq_flags_def irqf_flags Let_def irq_simps
      upd_desc_twice comp_def gpio_desc_def [abs_def] gpio_irq_def gpio_irq_base_def add.commute)

definition noreq_desc :: "irq_desc \<Rightarrow> irq_desc" where
  "noreq_desc d = set_status ((irq_st IRQ_NOREQUEST) OR (irq_st IRQ_NOPROBE)) d"

lemma init_IRQ_descs:
  assumes "NVIC_IRQS \<le> nr_irqs w"
  obtains w' where "init_IRQ hw ctrl w = Inr w'" "nr_irqs w' = nr_irqs w" "iw_soc w' = iw_soc w"
    "\<forall>j. irq_descs w' j = (if j < NVIC_IRQS then nvic_desc (noreq_desc (irq_descs w j)) else if j < nr_irqs w then noreq_desc (irq_descs w j) else irq_descs w j)"
    "\<forall>k \<le> unat (ctrl AND 0x1F). nvic_enable w' k = 0"
proof -
  define v where "v = fold (\<lambda>irq. upd_desc irq noreq_desc) [0 ..< nr_irqs w] w"
  define k where "k = unat (ctrl AND 0x1F) + 1"
  define u\<^sub>0 where "u\<^sub>0 = v\<lparr>nvic_enable := (\<lambda>i. if i < k then 0 else nvic_enable v i)\<rparr>"
  define u where "u = u\<^sub>0\<lparr>nvic_priority := (\<lambda>i. if i < k * 8 then 0 else nvic_priority u\<^sub>0 i)\<rparr>"
  have nr: "nr_irqs u = nr_irqs w" by (simp add: u_def u\<^sub>0_def v_def irq_simps fold_id_simps)
  have "init_IRQ hw ctrl w = nvic_init hw ctrl v"
    by (simp add: init_IRQ_def v_def noreq_desc_def [abs_def])
  also have "\<dots> = fold_steps (nvic_setup hw) [0 ..< NVIC_IRQS] u"
    by (simp only: nvic_init_def u_def u\<^sub>0_def k_def Let_def)
  also have "\<dots> = Inr (fold (\<lambda>i. upd_desc i nvic_desc) [0 ..< NVIC_IRQS] u)"
    using assms nr by (intro fold_id_simps(1) [of _ "nr_irqs w"]) (auto simp: nvic_setup_desc)
  finally have eq: "init_IRQ hw ctrl w = Inr (fold (\<lambda>i. upd_desc i nvic_desc) [0 ..< NVIC_IRQS] u)" .
  have d: "irq_descs u j = (if j < nr_irqs w then noreq_desc (irq_descs w j) else irq_descs w j)" for j
    unfolding u_def u\<^sub>0_def v_def by (simp add: fold_id_simps)
  show ?thesis
  proof (rule that [OF eq])
    show "\<forall>j. irq_descs (fold (\<lambda>i. upd_desc i nvic_desc) [0 ..< NVIC_IRQS] u) j =
      (if j < NVIC_IRQS then nvic_desc (noreq_desc (irq_descs w j)) else if j < nr_irqs w then noreq_desc (irq_descs w j) else irq_descs w j)"
      using assms by (auto simp: fold_id_simps d)
    show "\<forall>i \<le> unat (ctrl AND 0x1F). nvic_enable (fold (\<lambda>i. upd_desc i nvic_desc) [0 ..< NVIC_IRQS] u) i = 0"
      by (simp add: irq_simps fold_id_simps u_def u\<^sub>0_def k_def)
  qed (simp_all add: irq_simps fold_id_simps nr u_def u\<^sub>0_def v_def)
qed

section \<open>The pins\<close>

definition chain_desc :: "irq_desc \<Rightarrow> irq_desc" where
  "chain_desc d = (clear_status (irq_st IRQ_MASKED) ((set_status ((irq_st IRQ_NOREQUEST) OR (irq_st IRQ_NOPROBE))
     (clear_status (irq_st IRQ_DISABLED) (d\<lparr>handle_irq := Exti_irq_handler\<rparr>)))\<lparr>depth := 0\<rparr>))\<lparr>chip_data := True\<rparr>"

lemma nvic_unmask_upd: "nvic_unmask_irq i (upd_desc j f w) = upd_desc j f (nvic_unmask_irq i w)"
  by (simp add: nvic_unmask_irq_def upd_desc_def)

lemma gpio_chain_desc:
  assumes "irq < nr_irqs w" "chip_of irq w = Nvic_chip"
  shows "gpio_chain hw irq w = Inr (upd_desc irq chain_desc (nvic_unmask_irq irq w))"
  using assms by (simp add: gpio_chain_def set_irq_handler_def set_irq_chip_data_def chip_startup_def chip_enable_def default_enable_def
      call_op_def Let_def irq_simps nvic_unmask_upd upd_desc_twice comp_def chain_desc_def [abs_def])

lemma gpio_chains:
  assumes "\<forall>i \<in> set is. i < nr_irqs w \<and> chip_of i w = Nvic_chip" "distinct is"
  obtains w' where "fold_steps (gpio_chain hw) is w = Inr w'" "nr_irqs w' = nr_irqs w" "iw_soc w' = iw_soc w" "exti_2_gpio w' = exti_2_gpio w"
    "\<forall>j. irq_descs w' j = (if j \<in> set is then chain_desc (irq_descs w j) else irq_descs w j)" "\<forall>j. nvic_on w' j \<longleftrightarrow> j \<in> set is \<or> nvic_on w j"
proof -
  have "\<exists>w'. fold_steps (gpio_chain hw) is w = Inr w' \<and> nr_irqs w' = nr_irqs w \<and> iw_soc w' = iw_soc w \<and> exti_2_gpio w' = exti_2_gpio w
    \<and> (\<forall>j. irq_descs w' j = (if j \<in> set is then chain_desc (irq_descs w j) else irq_descs w j)) \<and> (\<forall>j. nvic_on w' j \<longleftrightarrow> j \<in> set is \<or> nvic_on w j)"
    using assms
  proof (induction "is" arbitrary: w)
    case (Cons i "is")
    let ?v = "upd_desc i chain_desc (nvic_unmask_irq i w)"
    have "\<forall>k \<in> set is. k < nr_irqs ?v \<and> chip_of k ?v = Nvic_chip" "distinct is"
      using Cons.prems by (auto simp: irq_simps)
    from Cons.IH [OF this] show ?case using Cons.prems by (auto simp: gpio_chain_desc irq_simps)
  qed simp
  then show ?thesis using that by blast
qed

lemma chain_desc_fields:
  "chip (chain_desc d) = chip d" "chip_data (chain_desc d)" "handle_irq (chain_desc d) = Exti_irq_handler" "bit (status (chain_desc d)) 18"
  by (simp_all add: chain_desc_def irq_simps status_bits)

lemma nvic_desc_fields:
  "chip (nvic_desc d) = Nvic_chip" "handle_irq (nvic_desc d) = Handle_level_irq" "action (nvic_desc d) = action d"
  "\<not> bit (status (nvic_desc d)) 18" "bit (status (nvic_desc d)) 9 = bit (status d) 9"
  by (auto simp: nvic_desc_def irq_simps status_bits)

lemma gpio_desc_fields:
  "chip (gpio_desc d) = Gpio_irq_chip" "chip_data (gpio_desc d)" "handle_irq (gpio_desc d) = Handle_simple_irq" "action (gpio_desc d) = action d"
  "\<not> bit (status (gpio_desc d)) 18" "\<not> bit (status (gpio_desc d)) 19" "bit (status (gpio_desc d)) 28 = bit (status d) 28"
  "bit (status (gpio_desc d)) 26 = bit (status d) 26"
  by (auto simp: gpio_desc_def irq_simps status_bits)

lemma noreq_boot: "action (noreq_desc irq_desc_init) = []" "\<not> bit (status (noreq_desc irq_desc_init)) 28"
  "\<not> bit (status (noreq_desc irq_desc_init)) 26" "bit (status (noreq_desc irq_desc_init)) 9"
  by (auto simp: noreq_desc_def irq_desc_init_def irq_simps status_bits)

text \<open>The descriptors that booting leaves.\<close>

lemma boot_descs:
  assumes "cfg CONFIG_STM32_GPIO" "cfg CONFIG_STM32_GPIO_INT" "2 \<le> unat (ctrl AND 0x1F)"
  obtains w where "and_then (init_IRQ hw ctrl (irq_world_boot cfg s ena prio)) (stm32_gpio_init hw cfg) = Inr w"
    "nr_irqs w = 258" "iw_soc w = s" "exti_2_gpio w = replicate STM32_EXTI_LINES_LEN (-1)"
    "\<And>n. n < 144 \<Longrightarrow> irq_descs w (gpio_irq n) = gpio_desc (noreq_desc irq_desc_init)"
    "\<And>i. i \<in> set exti_irqs \<Longrightarrow> irq_descs w i = chain_desc (nvic_desc (noreq_desc irq_desc_init))"
    "\<And>i. i < NVIC_IRQS \<Longrightarrow> i \<notin> set exti_irqs \<Longrightarrow> irq_descs w i = nvic_desc (noreq_desc irq_desc_init)"
    "\<And>i. i < NVIC_IRQS \<Longrightarrow> nvic_on w i \<longleftrightarrow> i \<in> set exti_irqs"
proof -
  let ?b = "irq_world_boot cfg s ena prio"
  have b: "nr_irqs ?b = 258" "iw_soc ?b = s" "irq_descs ?b = (\<lambda>_. irq_desc_init)"
    using assms(2) by (simp_all add: irq_world_boot_def NR_IRQS_def NVIC_IRQS_def STM32_GPIO_NUM_def)
  have "NVIC_IRQS \<le> nr_irqs ?b" using b by (simp add: NVIC_IRQS_def)
  from init_IRQ_descs [OF this, of hw ctrl, unfolded b] obtain w1 where w1: "init_IRQ hw ctrl ?b = Inr w1" "nr_irqs w1 = 258" "iw_soc w1 = s"
    "\<forall>j. irq_descs w1 j = (if j < NVIC_IRQS then nvic_desc (noreq_desc irq_desc_init) else if j < 258 then noreq_desc irq_desc_init else irq_desc_init)"
    "\<forall>k \<le> unat (ctrl AND 0x1F). nvic_enable w1 k = 0"
    by blast
  define w2 where "w2 = w1\<lparr>exti_2_gpio := replicate STM32_EXTI_LINES_LEN (-1)\<rparr>"
  have ex: "\<forall>i \<in> set exti_irqs. i < NVIC_IRQS" "distinct exti_irqs" "take STM32_EXTI_IRQS_LEN exti_irqs = exti_irqs"
    by (simp_all add: exti_irqs_def NVIC_IRQS_def STM32_EXTI_IRQS_LEN_def)
  then have "\<forall>i \<in> set exti_irqs. i < nr_irqs w2 \<and> chip_of i w2 = Nvic_chip"
    using w1(2,4) by (auto simp: w2_def nvic_desc_fields NVIC_IRQS_def)
  from gpio_chains [OF this ex(2), of hw] obtain w3 where w3: "fold_steps (gpio_chain hw) exti_irqs w2 = Inr w3" "nr_irqs w3 = nr_irqs w2"
    "iw_soc w3 = iw_soc w2" "exti_2_gpio w3 = exti_2_gpio w2"
    "\<forall>j. irq_descs w3 j = (if j \<in> set exti_irqs then chain_desc (irq_descs w2 j) else irq_descs w2 j)"
    "\<forall>j. nvic_on w3 j \<longleftrightarrow> j \<in> set exti_irqs \<or> nvic_on w2 j" by blast
  define w where "w = fold (\<lambda>i. upd_desc (gpio_irq i) gpio_desc) [0 ..< 144] w3"
  have "fold_steps (gpio_setup hw) [0 ..< 144] w3 = Inr w"
    unfolding w_def using w1(2) w3(2)
    by (intro fold_steps_upd [of _ 258]) (auto simp: gpio_setup_desc gpio_irq_base_def NVIC_IRQS_def w2_def)
  then have ev: "and_then (init_IRQ hw ctrl ?b) (stm32_gpio_init hw cfg) = Inr w"
    using assms(1,2) w3(1) by (simp add: w1(1) stm32_gpio_init_def w2_def ex(3) [unfolded gpio_geometry] gpio_geometry)
  have inj: "inj gpio_irq" by (auto intro!: injI simp: gpio_irq_def)
  have d: "irq_descs w j = (if j \<in> gpio_irq ` {0 ..< 144} then gpio_desc (irq_descs w3 j) else irq_descs w3 j)" for j
    by (simp add: w_def irq_descs_fold [OF _ inj])
  have low: "j \<notin> gpio_irq ` {0 ..< 144}" if "j < NVIC_IRQS" for j using that by (auto simp: gpio_irq_def)
  have pin: "irq_descs w (gpio_irq n) = gpio_desc (noreq_desc irq_desc_init)" if "n < 144" for n
    using that w1(4) w3(5) ex(1) by (auto simp: d w2_def gpio_irq_def NVIC_IRQS_def)
  have ext: "irq_descs w i = chain_desc (nvic_desc (noreq_desc irq_desc_init))" if "i \<in> set exti_irqs" for i
    using that w1(4) w3(5) ex(1) low by (auto simp: d w2_def)
  have oth: "irq_descs w i = nvic_desc (noreq_desc irq_desc_init)" if "i < NVIC_IRQS" "i \<notin> set exti_irqs" for i
    using that w1(4) w3(5) low by (auto simp: d w2_def)
  have on: "nvic_on w i \<longleftrightarrow> i \<in> set exti_irqs" if "i < NVIC_IRQS" for i
  proof -
    have "i div 32 \<le> 2" using that by (auto simp: NVIC_IRQS_def)
    then have "nvic_enable w1 (i div 32) = 0" using w1(5) assms(3) by simp
    then have "\<not> nvic_on w2 i" by (simp add: nvic_on_def w2_def)
    then show ?thesis using w3(6) by (simp add: w_def nvic_on_def irq_simps)
  qed
  show thesis
    by (rule that [OF ev _ _ _ pin ext oth on]) (use w1(2,3) w3(2-4) in \<open>simp_all add: w_def irq_simps w2_def\<close>)
qed

text \<open>C27. At the end of the initialisation, on a build with GPIO interrupts, every pin has a
  descriptor that drivers may request, the seven interrupts of the external lines are chained, let through by the
  controller and not for drivers to request, and every other interrupt of the controller is masked,
  disabled and free to be requested. The registers of the chip are untouched.\<close>

theorem irq_table_at_boot:
  assumes "cfg CONFIG_STM32_GPIO" "cfg CONFIG_STM32_GPIO_INT" "2 \<le> unat (ctrl AND 0x1F)"
  shows "\<exists>w. and_then (init_IRQ hw ctrl (irq_world_boot cfg s ena prio)) (stm32_gpio_init hw cfg) = Inr w \<and> iw_soc w = s \<and> gpio_ready w
    \<and> (\<forall>n < 144. gpio_free w n \<and> \<not> bit (status (irq_descs w (gpio_irq n))) 26)
    \<and> (\<forall>irq \<in> set exti_irqs. nvic_on w irq \<and> bit (status (irq_descs w irq)) 18)
    \<and> (\<forall>irq < NVIC_IRQS. irq \<notin> set exti_irqs \<longrightarrow> \<not> nvic_on w irq \<and> chip_of irq w = Nvic_chip \<and> handle_irq (irq_descs w irq) = Handle_level_irq
         \<and> action (irq_descs w irq) = [] \<and> bit (status (irq_descs w irq)) 9 \<and> \<not> bit (status (irq_descs w irq)) 18)"
proof -
  obtain w where w: "and_then (init_IRQ hw ctrl (irq_world_boot cfg s ena prio)) (stm32_gpio_init hw cfg) = Inr w"
    "nr_irqs w = 258" "iw_soc w = s" "exti_2_gpio w = replicate STM32_EXTI_LINES_LEN (-1)"
    and pin: "\<And>n. n < 144 \<Longrightarrow> irq_descs w (gpio_irq n) = gpio_desc (noreq_desc irq_desc_init)"
    and ext: "\<And>i. i \<in> set exti_irqs \<Longrightarrow> irq_descs w i = chain_desc (nvic_desc (noreq_desc irq_desc_init))"
    and oth: "\<And>i. i < NVIC_IRQS \<Longrightarrow> i \<notin> set exti_irqs \<Longrightarrow> irq_descs w i = nvic_desc (noreq_desc irq_desc_init)"
    and on: "\<And>i. i < NVIC_IRQS \<Longrightarrow> nvic_on w i \<longleftrightarrow> i \<in> set exti_irqs"
    using boot_descs [OF assms] by blast
  have ex: "\<forall>i \<in> set exti_irqs. i < NVIC_IRQS" by (simp add: exti_irqs_def NVIC_IRQS_def)
  have "gpio_ready w"
    using w pin ext by (simp add: gpio_ready_def gpio_desc_fields chain_desc_fields nvic_desc_fields STM32_EXTI_LINES_LEN_def)
  then show ?thesis using w pin ext oth on ex
    by (intro exI [of _ w]) (auto simp: gpio_free_def gpio_desc_fields nvic_desc_fields chain_desc_fields noreq_boot)
qed

theorem irq_table_at_boot_witness:
  "\<exists>w. and_then (init_IRQ rc_w1 3 (irq_world_boot ex_gpio_config soc0 (\<lambda>_. 0) (\<lambda>_. 0))) (stm32_gpio_init rc_w1 ex_gpio_config) = Inr w \<and> gpio_ready w"
proof -
  have "2 \<le> unat (3 AND 0x1F :: u32)" by simp
  then show ?thesis using irq_table_at_boot [of ex_gpio_config 3 rc_w1 soc0 "\<lambda>_. 0" "\<lambda>_. 0"] by (auto simp: ex_gpio_config_def)
qed

section \<open>Requesting and freeing an interrupt of the controller\<close>

text \<open>The first I2C4 interrupt has number 95, beyond the interrupts of the controller that are known.\<close>

lemma i2c4_irq_refused:
  assumes "\<not> cfg CONFIG_STM32_GPIO_INT" "init_IRQ hw ctrl (irq_world_boot cfg s ena prio) = Inr w"
  shows "request_irq hw mem 95 h flags dev w = Inr (- EINVAL, w)"
proof -
  have b: "nr_irqs (irq_world_boot cfg s ena prio) = 90" using assms(1) by (simp add: irq_world_boot_def NR_IRQS_def NVIC_IRQS_def)
  then have "nr_irqs w = 90" using init_IRQ_descs [of "irq_world_boot cfg s ena prio" hw ctrl] assms(2) by (auto simp: NVIC_IRQS_def)
  then show ?thesis by (simp add: request_irq_def)
qed

text \<open>The first handler of an interrupt of the controller.\<close>

text \<open>An interrupt that nobody has requested.\<close>

definition irq_idle :: "irq_world \<Rightarrow> nat \<Rightarrow> bool" where
  "irq_idle w irq \<longleftrightarrow> irq < nr_irqs w \<and> chip_of irq w = Nvic_chip \<and> handle_irq (irq_descs w irq) = Handle_level_irq
     \<and> action (irq_descs w irq) = [] \<and> (\<forall>k \<in> {18, 19, 26, 28}. \<not> bit (status (irq_descs w irq)) k)"

lemma setup_nvic:
  assumes "irq < nr_irqs w" "chip_of irq w = Nvic_chip" "handle_irq (irq_descs w irq) = Handle_level_irq" "action (irq_descs w irq) = []"
    and "\<forall>k \<in> {19, 26, 28}. \<not> bit (status (irq_descs w irq)) k" "\<not> bit (act_flags a) 13"
  obtains v where "setup_irq hw irq a w = Inr (0, v)" "nr_irqs v = nr_irqs w" "iw_soc v = iw_soc w" "nvic_line v irq" "\<not> is_off v irq"
    "nvic_on v irq" "\<not> bit (status (irq_descs v irq)) 8" "\<not> bit (status (irq_descs v irq)) 27" "action (irq_descs v irq) = [a]"
    "irq_count (irq_descs v irq) = 0" "irqs_unhandled (irq_descs v irq) = 0"
    "\<forall>k \<in> {18, 19, 26, 28}. bit (status (irq_descs v irq)) k \<longrightarrow> bit (status (irq_descs w irq)) k"
    "\<forall>j. j \<noteq> irq \<longrightarrow> irq_descs v j = irq_descs w j \<and> nvic_on v j = nvic_on w j"
proof -
  have trig: "irq_set_trigger irq t w = Inr (0, w)" for t using assms(2) by (simp add: irq_set_trigger_def)
  define w1 where "w1 = upd_desc irq (clear_status ((irq_st IRQ_AUTODETECT) OR (irq_st IRQ_WAITING) OR (irq_st IRQ_ONESHOT) OR (irq_st IRQ_INPROGRESS) OR (irq_st IRQ_SPURIOUS_DISABLED))) w"
  define w2 where "w2 = upd_desc irq (clear_status (irq_st IRQ_MASKED)) (nvic_unmask_irq irq (upd_desc irq (\<lambda>d. (clear_status (irq_st IRQ_DISABLED) d)\<lparr>depth := 0\<rparr>) w1))"
  define w3 where "w3 = (if flag (irqf IRQF_NOBALANCING) (act_flags a) then upd_desc irq (set_status (irq_st IRQ_NO_BALANCING)) w2 else w2)"
  define v where "v = upd_desc irq (\<lambda>d. d\<lparr>action := action d @ [a], irq_count := 0, irqs_unhandled := 0\<rparr>) w3"
  have same: "upd_desc irq (\<lambda>d. if handle_irq d = Handle_bad_irq then d\<lparr>handle_irq := Flow_NULL\<rparr> else d) w = w"
    using assms(3) by (simp add: upd_desc_def)
  have auto: "\<not> flag (irq_st IRQ_NOAUTOEN) (status (irq_descs w1 irq))" using assms(5) by (auto simp: w1_def irq_simps status_bits)
  have start: "chip_startup hw irq (upd_desc irq (\<lambda>d. (clear_status (irq_st IRQ_DISABLED) d)\<lparr>depth := 0\<rparr>) w1) = Inr w2"
    using assms(2) by (simp add: chip_startup_def chip_enable_def default_enable_def call_op_def w1_def w2_def irq_simps)
  have one: "\<not> flag (irqf IRQF_ONESHOT) (act_flags a)" using assms(6) by (simp add: irq_simps)
  have "setup_irq_first hw irq a w = Inr (0, w3)"
    unfolding setup_irq_first_def same trig if_cancel and_then_simps prod.case Let_def w1_def [symmetric]
    using auto start one by (simp add: w3_def)
  then have "setup_irq hw irq a w = Inr (0, v)"
    using assms(1,2,4,5) one by (simp add: setup_irq_def setup_irq_link_def v_def irq_simps)
  then show ?thesis
    using assms by (intro that [of v]) (auto simp: v_def w3_def w2_def w1_def nvic_line_def is_off_def irq_simps status_bits)
qed

lemma request_nvic:
  fixes h :: nat
  assumes "irq < nr_irqs w" "chip_of irq w = Nvic_chip" "handle_irq (irq_descs w irq) = Handle_level_irq" "action (irq_descs w irq) = []"
    and "\<forall>k \<in> {18, 19, 26, 28}. \<not> bit (status (irq_descs w irq)) k" "\<not> bit flags 13" "bit flags 7 \<longrightarrow> dev \<noteq> 0"
  defines "a \<equiv> \<lparr>act_handler = h, act_flags = flags, act_dev_id = dev\<rparr>"
  obtains v where "request_irq hw True irq (Some h) flags dev w = Inr (0, v)" "nr_irqs v = nr_irqs w" "nvic_line v irq" "\<not> is_off v irq"
    "nvic_on v irq" "\<not> bit (status (irq_descs v irq)) 8" "action (irq_descs v irq) = [a]"
    "\<forall>k \<in> {18, 19, 26, 28}. \<not> bit (status (irq_descs v irq)) k" "iw_soc v = iw_soc w"
    "\<forall>j. j \<noteq> irq \<longrightarrow> irq_descs v j = irq_descs w j \<and> nvic_on v j = nvic_on w j"
proof -
  have f: "\<not> bit (act_flags a) 13" "\<forall>k \<in> {19, 26, 28}. \<not> bit (status (irq_descs w irq)) k" using assms(5,6) by (simp_all add: a_def)
  obtain v where v: "setup_irq hw irq a w = Inr (0, v)" "nr_irqs v = nr_irqs w"
    "nvic_line v irq" "\<not> is_off v irq" "nvic_on v irq" "\<not> bit (status (irq_descs v irq)) 8" "action (irq_descs v irq) = [a]"
    "\<forall>k \<in> {18, 19, 26, 28}. bit (status (irq_descs v irq)) k \<longrightarrow> bit (status (irq_descs w irq)) k" "iw_soc v = iw_soc w"
    "\<forall>j. j \<noteq> irq \<longrightarrow> irq_descs v j = irq_descs w j \<and> nvic_on v j = nvic_on w j"
    by (rule setup_nvic [OF assms(1-4) f(2,1), of hw])
  moreover have "request_irq hw True irq (Some h) flags dev w = Inr (0, v)"
    using assms(1,5,7) v(1) by (simp add: request_irq_def a_def [symmetric] irq_simps)
  ultimately show ?thesis using that assms(5) by blast
qed

lemma request_idle:
  assumes "irq_idle w irq" "\<not> bit flags 13" "bit flags 7 \<longrightarrow> dev \<noteq> 0"
  obtains v where "request_irq hw True irq (Some h) flags dev w = Inr (0, v)" "nr_irqs v = nr_irqs w" "nvic_on v irq"
    "action (irq_descs v irq) = [\<lparr>act_handler = h, act_flags = flags, act_dev_id = dev\<rparr>]"
    "\<forall>j. j \<noteq> irq \<longrightarrow> irq_descs v j = irq_descs w j \<and> nvic_on v j = nvic_on w j"
proof -
  have "irq < nr_irqs w" "chip_of irq w = Nvic_chip" "handle_irq (irq_descs w irq) = Handle_level_irq" "action (irq_descs w irq) = []"
    "\<forall>k \<in> {18, 19, 26, 28}. \<not> bit (status (irq_descs w irq)) k" using assms(1) by (simp_all add: irq_idle_def)
  note i = this
  show ?thesis by (rule request_nvic [OF i assms(2,3), where h = h and hw = hw]) (rule that, assumption+)
qed

text \<open>Freeing the only action of a line that is not running leaves the line as it was before the request.\<close>

lemma free_nvic:
  assumes "nvic_line v irq" "action (irq_descs v irq) = [a]" "act_dev_id a = dev" "\<not> bit (status (irq_descs v irq)) 8"
  obtains w where "free_irq hw irq dev v = Some (Inr w)" "nr_irqs w = nr_irqs v" "chip_of irq w = Nvic_chip"
    "handle_irq (irq_descs w irq) = Handle_level_irq" "action (irq_descs w irq) = []" "is_off w irq" "\<not> nvic_on w irq" "iw_soc w = iw_soc v"
    "\<forall>k \<in> {18, 19, 26, 28}. bit (status (irq_descs w irq)) k = bit (status (irq_descs v irq)) k"
    "\<forall>j. j \<noteq> irq \<longrightarrow> irq_descs w j = irq_descs v j \<and> nvic_on w j = nvic_on v j"
proof -
  define w where "w = upd_desc irq (set_status (irq_st IRQ_MASKED)) (nvic_mask_irq irq (upd_desc irq (set_status (irq_st IRQ_DISABLED)) (upd_desc irq (\<lambda>d. d\<lparr>action := []\<rparr>) v)))"
  have "free_irq hw irq dev v = Some (Inr w)"
    using assms by (simp add: free_irq_def nvic_line_def chip_shutdown_def default_shutdown_def call_op_def synchronize_irq_def w_def irq_simps status_bits Let_def)
  then show ?thesis
    using assms(1) by (intro that [of w]) (auto simp: w_def nvic_line_def is_off_def irq_simps status_bits)
qed

text \<open>Requesting an interrupt of the controller that nobody has requested enables it in the
  controller with the given handler; freeing it again takes the handler out, disables the line and
  masks it in the controller. No other interrupt is touched.\<close>

theorem irq_request_free:
  assumes "irq < nr_irqs w" "chip_of irq w = Nvic_chip" "handle_irq (irq_descs w irq) = Handle_level_irq" "action (irq_descs w irq) = []"
    and "\<forall>k \<in> {18, 19, 26, 28}. \<not> bit (status (irq_descs w irq)) k" "\<not> bit flags 13" "bit flags 7 \<longrightarrow> dev \<noteq> 0"
  shows "\<exists>v w'. request_irq hw True irq (Some h) flags dev w = Inr (0, v) \<and> nvic_line v irq \<and> nvic_on v irq \<and> \<not> is_off v irq
    \<and> action (irq_descs v irq) = [\<lparr>act_handler = h, act_flags = flags, act_dev_id = dev\<rparr>]
    \<and> free_irq hw irq dev v = Some (Inr w') \<and> action (irq_descs w' irq) = [] \<and> is_off w' irq \<and> \<not> nvic_on w' irq
    \<and> (\<forall>j. j \<noteq> irq \<longrightarrow> irq_descs w' j = irq_descs w j \<and> nvic_on w' j = nvic_on w j)"
proof -
  obtain v where v: "request_irq hw True irq (Some h) flags dev w = Inr (0, v)" "nr_irqs v = nr_irqs w" "nvic_line v irq" "\<not> is_off v irq"
    "nvic_on v irq" "\<not> bit (status (irq_descs v irq)) 8" "action (irq_descs v irq) = [\<lparr>act_handler = h, act_flags = flags, act_dev_id = dev\<rparr>]"
    "\<forall>j. j \<noteq> irq \<longrightarrow> irq_descs v j = irq_descs w j \<and> nvic_on v j = nvic_on w j"
    by (rule request_nvic [OF assms, where h = h and hw = hw]) blast
  obtain w' where "free_irq hw irq dev v = Some (Inr w')" "action (irq_descs w' irq) = []" "is_off w' irq" "\<not> nvic_on w' irq"
    "\<forall>j. j \<noteq> irq \<longrightarrow> irq_descs w' j = irq_descs v j \<and> nvic_on w' j = nvic_on v j"
    by (rule free_nvic [OF v(3,7) _ v(6), where dev = dev and hw = hw]) (simp, blast)
  then show ?thesis using v by (intro exI conjI) auto
qed

theorem irq_request_free_witness:
  "\<exists>v w'. request_irq rc_w1 True 28 (Some 1) 0 0 (upd_desc 28 (\<lambda>d. d\<lparr>action := []\<rparr>) ex_line_world) = Inr (0, v)
    \<and> free_irq rc_w1 28 0 v = Some (Inr w') \<and> \<not> nvic_on w' 28"
  using irq_request_free [of 28 "upd_desc 28 (\<lambda>d. d\<lparr>action := []\<rparr>) ex_line_world" 0 0 rc_w1 1]
  by (auto simp: ex_line_world_def irq_simps irq_world_boot_def NR_IRQS_def NVIC_IRQS_def)

end
