(* ===== verification/Clocksource.thy ===== *)
theory Clocksource
  imports Prelude
begin

text \<open>
  The scaled arithmetic by which the kernel turns counts of a timer into nanoseconds:
  \<^verbatim>\<open>clocks_calc_mult_shift\<close> and \<^verbatim>\<open>clocksource_max_deferment\<close> of \<^verbatim>\<open>kernel/time/clocksource.c\<close>,
  \<^verbatim>\<open>clocksource_cyc2ns\<close> and \<^verbatim>\<open>clockevent_delta2ns\<close>. The words keep their width, the shifts are those
  of the code.
\<close>

section \<open>Model\<close>

type_synonym u64 = "64 word"

definition NSEC_PER_SEC :: u32 where "NSEC_PER_SEC = 1000000000"

lemma unat_drop_1: "unat (drop_bit 1 (tmp :: 'a::len word)) = unat tmp div 2"
  unfolding unat_drop_bit_eq by (simp only: drop_bit_eq_div power_one_right)

lemma unat_half: "tmp \<noteq> 0 \<Longrightarrow> unat (drop_bit 1 (tmp :: 'a::len word)) < unat tmp"
  unfolding unat_drop_1 using unat_gt_0 [of tmp] by linarith

text \<open>The two loops of \<^verbatim>\<open>clocks_calc_mult_shift\<close>.\<close>

function sft_count :: "u64 \<Rightarrow> u32 \<Rightarrow> u32" where
  "sft_count tmp sftacc = (if tmp = 0 then sftacc else sft_count (drop_bit 1 tmp) (sftacc - 1))"
  by auto
termination by (relation "measure (\<lambda>(tmp, _). unat tmp)") (auto simp flip: One_nat_def intro: unat_half)

fun mult_loop :: "u32 \<Rightarrow> u32 \<Rightarrow> u32 \<Rightarrow> nat \<Rightarrow> u64 \<Rightarrow> u64 \<times> nat" where
  "mult_loop from to sftacc 0 tmp = (tmp, 0)"
| "mult_loop from to sftacc (Suc k) tmp =
     (let tmp = push_bit (Suc k) (ucast to) div ucast from in
      if drop_bit (unat sftacc) tmp = 0 then (tmp, Suc k) else mult_loop from to sftacc k tmp)"

definition clocks_calc_mult_shift :: "u32 \<Rightarrow> u32 \<Rightarrow> u32 \<Rightarrow> fault + u32 \<times> u32" where
  "clocks_calc_mult_shift from to minsec =
     (if from = 0 then Inl DivByZero
      else
        (let tmp = drop_bit 32 (ucast minsec * ucast from);
             sftacc = sft_count tmp 32;
             (tmp, sft) = mult_loop from to sftacc 32 tmp
         in Inr (ucast tmp, of_nat sft)))"

definition clocksource_cyc2ns :: "u64 \<Rightarrow> u32 \<Rightarrow> u32 \<Rightarrow> u64" where
  "clocksource_cyc2ns cycles mult shift = drop_bit (unat shift) (cycles * ucast mult)"

function ilog2 :: "u32 \<Rightarrow> int" where
  "ilog2 x = (if x = 0 then -1 else 1 + ilog2 (drop_bit 1 x))"
  by auto
termination by (relation "measure unat") (auto simp flip: One_nat_def intro: unat_half)

declare sft_count.simps [simp del] ilog2.simps [simp del]

definition clocksource_max_deferment :: "u32 \<Rightarrow> u32 \<Rightarrow> u64 \<Rightarrow> u64" where
  "clocksource_max_deferment mult shift cs_mask =
     (let max_cycles = push_bit (nat (63 - (ilog2 mult + 1))) 1;
          max_cycles = min max_cycles cs_mask;
          max_nsecs = clocksource_cyc2ns max_cycles mult shift
      in max_nsecs - drop_bit 5 max_nsecs)"

text \<open>The multiplier of the device is set to 1 if it is 0; the result is bounded on both sides.\<close>

definition KTIME_MAX :: u64 where "KTIME_MAX = NOT (push_bit 63 1)"

definition clockevent_delta2ns :: "u32 \<Rightarrow> u32 \<Rightarrow> u32 \<Rightarrow> u64 \<times> u32" where
  "clockevent_delta2ns latch mult shift =
     (let clc = push_bit (unat shift) (ucast latch);
          mult = (if mult = 0 then 1 else mult);
          clc = clc div ucast mult;
          clc = (if clc < 1000 then 1000 else clc);
          clc = (if clc > KTIME_MAX then KTIME_MAX else clc)
      in (clc, mult))"

section \<open>Multiplier and shift\<close>

lemma sft_count_spec: "\<exists>j. sft_count tmp acc = acc - of_nat j \<and> unat tmp < 2 ^ j \<and> (tmp \<noteq> 0 \<longrightarrow> 2 ^ j \<le> 2 * unat tmp) \<and> (tmp = 0 \<longrightarrow> j = 0)"
proof (induction tmp acc rule: sft_count.induct)
  case (1 tmp acc)
  show ?case
  proof (cases "tmp = 0")
    case True
    then show ?thesis by (intro exI [of _ 0]) (simp add: sft_count.simps)
  next
    case False
    let ?h = "drop_bit 1 tmp"
    have h: "unat ?h = unat tmp div 2" by (rule unat_drop_1)
    obtain j where j: "sft_count ?h (acc - 1) = acc - 1 - of_nat j" "unat ?h < 2 ^ j" "?h \<noteq> 0 \<longrightarrow> 2 ^ j \<le> 2 * unat ?h" "?h = 0 \<longrightarrow> j = 0"
      using 1 [OF False] by blast
    have "unat tmp < 2 ^ Suc j" using j(2) h by simp
    moreover have "2 ^ Suc j \<le> 2 * unat tmp"
    proof (cases "?h = 0")
      case True
      then show ?thesis using j(4) False by (simp add: unat_gt_0 Suc_le_eq)
    next
      case False
      then show ?thesis using j(3) h by simp
    qed
    ultimately show ?thesis using j(1) False by (intro exI [of _ "Suc j"]) (simp add: sft_count.simps [of tmp])
  qed
qed

text \<open>The quotient the second loop computes does not wrap, and the loop takes the largest shift that fits.\<close>

definition scaled :: "u32 \<Rightarrow> u32 \<Rightarrow> nat \<Rightarrow> u64" where
  "scaled from to k = push_bit k (ucast to) div ucast from"

lemma u32_less: "unat (x :: u32) < 2 ^ 32"
  using unsigned_less [of x] by simp

lemma unat_ucast_u64: "unat (ucast (x :: u32) :: u64) = unat x"
  using u32_less [of x] by (simp add: unsigned_ucast_eq take_bit_nat_eq_self)

lemma unat_scaled:
  assumes "k \<le> 32"
  shows "unat (scaled from to k) = unat to * 2 ^ k div unat from"
proof -
  have "(2 :: nat) ^ k \<le> 2 ^ 32" using assms by (intro power_increasing) auto
  then have "unat to * 2 ^ k < 2 ^ 32 * 2 ^ 32" using u32_less [of to] by (intro mult_less_le_imp_less) auto
  then have "unat (push_bit k (ucast to :: u64)) = unat to * 2 ^ k"
    by (simp add: unsigned_push_bit_eq take_bit_nat_eq_self push_bit_eq_mult [where 'a = nat] unat_ucast_u64)
  then show ?thesis by (simp add: scaled_def unat_div unat_ucast_u64)
qed

lemma drop_bit_zero_iff: "drop_bit a (t :: 'a::len word) = 0 \<longleftrightarrow> unat t < 2 ^ a"
proof -
  have "drop_bit a t = 0 \<longleftrightarrow> unat t div 2 ^ a = 0"
    unfolding unat_eq_0 [symmetric] unat_drop_bit_eq drop_bit_eq_div [of a "unat t"] ..
  then show ?thesis by (simp add: div_eq_0_iff)
qed

lemma mult_loop_step:
  "mult_loop from to a (Suc n) t = (if unat (scaled from to (Suc n)) < 2 ^ unat a then (scaled from to (Suc n), Suc n)
     else mult_loop from to a n (scaled from to (Suc n)))"
  unfolding mult_loop.simps Let_def drop_bit_zero_iff scaled_def ..

lemma mult_loop_fits:
  assumes "mult_loop from to a n t\<^sub>0 = (t, k)" "n \<le> 32" "1 \<le> n" "unat to * 2 div unat from < 2 ^ unat a"
  shows "1 \<le> k \<and> k \<le> n \<and> t = scaled from to k \<and> unat t < 2 ^ unat a"
  using assms
proof (induction n arbitrary: t\<^sub>0)
  case (Suc n)
  show ?case
  proof (cases "unat (scaled from to (Suc n)) < 2 ^ unat a")
    case True
    then show ?thesis using Suc.prems(1) by (auto simp: mult_loop_step simp del: mult_loop.simps)
  next
    case False
    then have "n \<noteq> 0" using Suc.prems(4) unat_scaled [of 1 "from" to] by (cases n) auto
    moreover have "mult_loop from to a n (scaled from to (Suc n)) = (t, k)"
      using False Suc.prems(1) by (simp add: mult_loop_step del: mult_loop.simps)
    ultimately show ?thesis using Suc.IH [of "scaled from to (Suc n)"] Suc.prems by auto
  qed
qed simp

lemma sft_count_bound:
  assumes "unat tmp < 2 ^ j" "j \<le> 32"
  obtains i where "i \<le> j" "sft_count tmp 32 = of_nat (32 - i)" "unat tmp < 2 ^ i"
proof -
  obtain i where i: "sft_count tmp 32 = 32 - of_nat i" "unat tmp < 2 ^ i" "tmp \<noteq> 0 \<longrightarrow> 2 ^ i \<le> 2 * unat tmp" "tmp = 0 \<longrightarrow> i = 0"
    using sft_count_spec [of tmp 32] by blast
  have "i \<le> j"
  proof (cases "tmp = 0")
    case False
    then have "(2 :: nat) ^ i < 2 ^ Suc j" using i(3) assms(1) by auto
    then have "i < Suc j" by (rule power_less_imp_less_exp [rotated]) simp
    then show ?thesis by simp
  qed (use i(4) in simp)
  then show ?thesis using that i(1,2) assms(2) by (simp add: of_nat_diff)
qed

lemma calc_mult_shift:
  assumes "from \<noteq> 0" "unat minsec * unat from < 2 ^ (32 + j)" "j \<le> 32" "unat to * 2 < unat from * 2 ^ (32 - j)"
  obtains mult shift where "clocks_calc_mult_shift from to minsec = Inr (mult, shift)" "1 \<le> unat shift" "unat shift \<le> 32"
    "unat mult = unat to * 2 ^ unat shift div unat from" "unat minsec * unat from * unat mult < 2 ^ 64"
proof -
  let ?p = "ucast minsec * ucast from :: u64"
  have "unat minsec * unat from < 2 ^ 64"
    using u32_less [of minsec] u32_less [of "from"] mult_strict_mono' [of "unat minsec" "2 ^ 32" "unat from" "2 ^ 32"] by simp
  then have p: "unat ?p = unat minsec * unat from" by (simp add: unat_word_ariths unat_ucast_u64)
  let ?t = "drop_bit 32 ?p"
  have t: "unat ?t = unat minsec * unat from div 2 ^ 32" by (simp only: unat_drop_bit_eq p drop_bit_eq_div [of 32 "unat minsec * unat from"])
  have "unat ?t < 2 ^ j" unfolding t using assms(2) by (simp add: less_mult_imp_div_less power_add mult.commute)
  then obtain i where i: "i \<le> j" "sft_count ?t 32 = of_nat (32 - i)" "unat ?t < 2 ^ i" using assms(3) by (rule sft_count_bound)
  have a: "unat (of_nat (32 - i) :: u32) = 32 - i" by (simp add: unat_of_nat)
  obtain t k where m: "mult_loop from to (of_nat (32 - i)) 32 ?t = (t, k)" by fastforce
  have "(2 :: nat) ^ (32 - j) \<le> 2 ^ (32 - i)" using i(1) by (intro power_increasing) auto
  then have "unat to * 2 < unat from * 2 ^ (32 - i)" using assms(4) by (meson less_le_trans mult_le_mono2)
  then have "unat to * 2 div unat from < 2 ^ (32 - i)" by (simp add: less_mult_imp_div_less mult.commute)
  with mult_loop_fits [OF m] a have k: "1 \<le> k" "k \<le> 32" "t = scaled from to k" "unat t < 2 ^ (32 - i)" by auto
  have "unat t < 2 ^ 32" using k(4) power_increasing [of "32 - i" 32 "2 :: nat"] by (simp del: power_increasing_iff)
  then have mt: "unat (ucast t :: u32) = unat t" by (simp add: unsigned_ucast_eq take_bit_nat_eq_self)
  have sh: "unat (of_nat k :: u32) = k" using k(2) by (simp add: unat_of_nat)
  have "unat minsec * unat from < 2 ^ 32 * 2 ^ i" using i(3) unfolding t by (simp add: div_less_iff_less_mult mult.commute)
  with k(4) have "unat minsec * unat from * unat t < (2 ^ 32 * 2 ^ i) * 2 ^ (32 - i)"
    using mult_strict_mono [of "unat minsec * unat from" "2 ^ 32 * 2 ^ i" "unat t" "2 ^ (32 - i)"] by simp
  also have "\<dots> = 2 ^ 64" using i(1) assms(3) by (simp flip: power_add)
  finally have bound: "unat minsec * unat from * unat t < 2 ^ 64" .
  show ?thesis
  proof (rule that [of "ucast t" "of_nat k"])
    show "clocks_calc_mult_shift from to minsec = Inr (ucast t, of_nat k)"
      using assms(1) i(2) m by (simp add: clocks_calc_mult_shift_def Let_def del: mult_loop.simps)
  qed (use k bound mt sh unat_scaled [of k "from" to] in auto)
qed

section \<open>Conversion\<close>

lemma cyc2ns_no_wrap:
  assumes "unat cycles * unat mult < 2 ^ 64"
  shows "unat (clocksource_cyc2ns cycles mult shift) = unat cycles * unat mult div 2 ^ unat shift"
proof -
  have p: "unat (cycles * ucast mult) = unat cycles * unat mult" using assms by (simp add: unat_word_ariths unat_ucast_u64)
  show ?thesis unfolding clocksource_cyc2ns_def by (simp only: unat_drop_bit_eq p drop_bit_eq_div [of "unat shift" "unat cycles * unat mult"])
qed

text \<open>The error of scaling by a rounded-down factor.\<close>

lemma scaled_error:
  fixes f c t :: nat
  assumes "0 < f" and m: "m = t * 2 ^ k div f" and n: "n = c * m div 2 ^ k"
  shows "n * f \<le> c * t" "c * t * 2 ^ k < f * ((n + 1) * 2 ^ k + c) \<or> c = 0"
proof -
  have "m * f \<le> t * 2 ^ k" unfolding m by simp
  moreover have "n * 2 ^ k \<le> c * m" unfolding n by simp
  ultimately have "n * 2 ^ k * f \<le> c * m * f" "c * (m * f) \<le> c * (t * 2 ^ k)" by (simp_all del: mult_le_cancel2)
  then have "n * 2 ^ k * f \<le> c * (t * 2 ^ k)" by (simp only: mult.assoc)
  then show "n * f \<le> c * t" by (simp add: mult.commute mult.left_commute mult.assoc)
  have "t * 2 ^ k < f * (m + 1)" unfolding m using assms(1) dividend_less_div_times [of f "t * 2 ^ k"] by (simp add: algebra_simps)
  moreover have "c * m < (n + 1) * 2 ^ k" unfolding n using dividend_less_div_times [of "2 ^ k" "c * m"] by (simp add: algebra_simps)
  ultimately have "c * (t * 2 ^ k) \<le> c * (f * (m + 1))" "f * (c * m) < f * ((n + 1) * 2 ^ k)"
    using assms(1) by (simp_all del: mult_Suc_right)
  then show "c * t * 2 ^ k < f * ((n + 1) * 2 ^ k + c) \<or> c = 0" by (simp add: algebra_simps)
qed

text \<open>For a counter of frequency \<open>from\<close> and a range of \<open>minsec\<close> seconds whose count and target
  frequency leave room for one bit of shift, the factors that \<^verbatim>\<open>clocks_calc_mult_shift\<close> chooses convert every count within
  that range without overflow of the 64-bit product; the result is never ahead of the exact value and
  behind it by less than one unit plus \<open>cycles / 2^shift\<close> units.\<close>

lemma clocks_conversion:
  assumes "from \<noteq> 0" "unat minsec * unat from < 2 ^ (32 + j)" "j \<le> 32" "unat to * 2 < unat from * 2 ^ (32 - j)"
  shows "\<exists>mult shift. clocks_calc_mult_shift from to minsec = Inr (mult, shift)
    \<and> (\<forall>cycles. unat cycles \<le> unat minsec * unat from \<longrightarrow>
         (let ns = unat (clocksource_cyc2ns cycles mult shift) in
          ns = unat cycles * unat mult div 2 ^ unat shift
          \<and> ns * unat from \<le> unat cycles * unat to
          \<and> unat cycles * unat to * 2 ^ unat shift < unat from * ((ns + 1) * 2 ^ unat shift + unat cycles)))"
proof -
  obtain mult shift where ms: "clocks_calc_mult_shift from to minsec = Inr (mult, shift)"
      "unat mult = unat to * 2 ^ unat shift div unat from" "unat minsec * unat from * unat mult < 2 ^ 64"
    using calc_mult_shift [OF assms] by metis
  have f: "0 < unat from" using assms(1) by (simp add: unat_gt_0)
  have "let ns = unat (clocksource_cyc2ns cycles mult shift) in ns = unat cycles * unat mult div 2 ^ unat shift
      \<and> ns * unat from \<le> unat cycles * unat to
      \<and> unat cycles * unat to * 2 ^ unat shift < unat from * ((ns + 1) * 2 ^ unat shift + unat cycles)"
    if c: "unat cycles \<le> unat minsec * unat from" for cycles
  proof -
    have "unat cycles * unat mult < 2 ^ 64" using c ms(3) mult_le_mono1 [OF c, of "unat mult"] by linarith
    then have ns: "unat (clocksource_cyc2ns cycles mult shift) = unat cycles * unat mult div 2 ^ unat shift" by (rule cyc2ns_no_wrap)
    show ?thesis using scaled_error [OF f ms(2) ns] ns f by (auto simp: Let_def)
  qed
  then show ?thesis using ms(1) by blast
qed

section \<open>How long the clock may stay unread\<close>

lemma ilog2_bounds:
  assumes "x \<noteq> 0"
  obtains n where "ilog2 x = int n" "2 ^ n \<le> unat x" "unat x < 2 ^ Suc n" "n < 32"
proof -
  have "\<exists>n. ilog2 x = int n \<and> 2 ^ n \<le> unat x \<and> unat x < 2 ^ Suc n"
    using assms
  proof (induction x rule: ilog2.induct)
    case (1 x)
    have h: "unat (drop_bit 1 x) = unat x div 2" by (rule unat_drop_1)
    show ?case
    proof (cases "drop_bit 1 x = 0")
      case True
      then have "unat x div 2 = 0" using h by simp
      then have "unat x = 1" using 1(2) unat_gt_0 [of x] by linarith
      then show ?thesis using True 1(2) by (intro exI [of _ 0]) (simp add: ilog2.simps [of x] ilog2.simps [of 0])
    next
      case False
      then obtain n where "ilog2 (drop_bit 1 x) = int n" "2 ^ n \<le> unat x div 2" "unat x div 2 < 2 ^ Suc n"
        using 1 h by auto
      then show ?thesis using 1(2) by (intro exI [of _ "Suc n"]) (auto simp: ilog2.simps [of x])
    qed
  qed
  then obtain n where n: "ilog2 x = int n" "2 ^ n \<le> unat x" "unat x < 2 ^ Suc n" by blast
  then have "(2 :: nat) ^ n < 2 ^ 32" using u32_less [of x] by linarith
  then have "n < 32" by (rule power_less_imp_less_exp [rotated]) simp
  with n that show ?thesis by blast
qed

text \<open>The time \<^verbatim>\<open>clocksource_max_deferment\<close> allows the clock to stay unread is below 2^63 ns, and
  the counter does not count past its mask within it.\<close>

lemma deferment_safe:
  assumes "mult \<noteq> 0"
  shows "unat (clocksource_max_deferment mult shift m) < 2 ^ 63
    \<and> unat (clocksource_max_deferment mult shift m) * 2 ^ unat shift \<le> unat m * unat mult"
proof -
  obtain n where n: "ilog2 mult = int n" "2 ^ n \<le> unat mult" "unat mult < 2 ^ Suc n" "n < 32"
    using assms by (rule ilog2_bounds)
  have e: "nat (63 - (ilog2 mult + 1)) = 62 - n" using n(1,4) by simp
  define c where "c = min (push_bit (62 - n) (1 :: u64)) m"
  have "unat (push_bit (62 - n) (1 :: u64)) = 2 ^ (62 - n)"
    by (subst unsigned_push_bit_eq) (simp add: take_bit_nat_eq_self push_bit_eq_mult)
  then have c: "unat c \<le> 2 ^ (62 - n)" "unat c \<le> unat m" unfolding c_def by (simp_all add: min_def word_le_nat_alt)
  have "unat c * unat mult \<le> 2 ^ (62 - n) * unat mult" using c(1) by simp
  also have "\<dots> < 2 ^ (62 - n) * 2 ^ Suc n" using n(3) by simp
  also have "\<dots> = 2 ^ 63" using n(4) by (simp flip: power_add power_Suc)
  finally have b: "unat c * unat mult < 2 ^ 63" .
  define r where "r = clocksource_cyc2ns c mult shift"
  have r: "unat r = unat c * unat mult div 2 ^ unat shift" unfolding r_def using b by (intro cyc2ns_no_wrap) simp
  have d: "clocksource_max_deferment mult shift m = r - drop_bit 5 r"
    unfolding clocksource_max_deferment_def Let_def e r_def c_def ..
  have q: "unat (drop_bit 5 r) = unat r div 32" by (simp only: unat_drop_bit_eq drop_bit_eq_div [of 5 "unat r"]) simp
  then have "drop_bit 5 r \<le> r" by (simp add: word_le_nat_alt)
  then have u: "unat (r - drop_bit 5 r) \<le> unat r" by (simp add: unat_sub q)
  have "unat r * 2 ^ unat shift \<le> unat c * unat mult" unfolding r by simp
  moreover have "unat r \<le> unat c * unat mult" unfolding r by simp
  moreover have "unat c * unat mult \<le> unat m * unat mult" using c(2) by simp
  moreover have "unat (r - drop_bit 5 r) * 2 ^ unat shift \<le> unat r * 2 ^ unat shift" using u by simp
  ultimately show ?thesis unfolding d using b u by linarith
qed

end
