(* ===== verification/Timer.thy ===== *)
theory Timer
  imports Clock_Tree Irq_Init Clocksource
begin

text \<open>
  Time: \<^verbatim>\<open>arch/arm/mach-stm32/timer.c\<close> (the tick from TIM2), the SysTick part of \<^verbatim>\<open>arch/arm/common/cortexm3.c\<close>
  (the clock source) and the reading of the clock in \<^verbatim>\<open>kernel/time/timekeeping.c\<close>. What the timer does
  when it is reset and when an update event is generated is a parameter of the model; what the code relies
  on there is \<open>tim_documented\<close>. The registration of the devices with the time core is left out.
\<close>

section \<open>The tick timer\<close>

definition STM32_TIM2_IRQ :: nat where "STM32_TIM2_IRQ = 28"
definition STM32_RCC_MSK_TIM2 :: u32 where "STM32_RCC_MSK_TIM2 = 1"
definition STM32_TIM_CR1_CEN :: u16 where "STM32_TIM_CR1_CEN = 1"
definition STM32_TIM_CR1_ARPE :: u16 where "STM32_TIM_CR1_ARPE = 0x80"
definition STM32_TIM_DIER_UIE :: u16 where "STM32_TIM_DIER_UIE = 1"
definition STM32_TIM_SR_UIF :: u16 where "STM32_TIM_SR_UIF = 1"
definition STM32_TIM_EGR_UG :: u16 where "STM32_TIM_EGR_UG = 1"
definition TICK_TIM_COUNTER_BITWIDTH :: int where "TICK_TIM_COUNTER_BITWIDTH = 32"

lemmas tim_consts = STM32_TIM2_IRQ_def STM32_RCC_MSK_TIM2_def STM32_TIM_CR1_CEN_def STM32_TIM_CR1_ARPE_def
  STM32_TIM_DIER_UIE_def STM32_TIM_SR_UIF_def STM32_TIM_EGR_UG_def TICK_TIM_COUNTER_BITWIDTH_def HZ_def

text \<open>The effects of the reset of the timer and of a write to its event generation register.\<close>

record tim_hw =
  tim_reset :: "tim_regs \<Rightarrow> tim_regs"
  tim_event :: "u16 \<Rightarrow> tim_regs \<Rightarrow> tim_regs"

definition tim_documented :: "tim_hw \<Rightarrow> bool" where
  "tim_documented h \<longleftrightarrow> (\<forall>r. tim_cr1 (tim_reset h r) = 0 \<and> tim_dier (tim_reset h r) = 0)
     \<and> (\<forall>e r. tim_cr1 (tim_event h e r) = tim_cr1 r \<and> tim_dier (tim_event h e r) = tim_dier r
         \<and> tim_arr (tim_event h e r) = tim_arr r \<and> tim_psc (tim_event h e r) = tim_psc r)"

definition upd_tim :: "(tim_regs \<Rightarrow> tim_regs) \<Rightarrow> soc \<Rightarrow> soc" where
  "upd_tim f s = s\<lparr>tim2 := f (tim2 s)\<rparr>"

datatype clock_event_mode = CLOCK_EVT_MODE_UNUSED | CLOCK_EVT_MODE_SHUTDOWN | CLOCK_EVT_MODE_PERIODIC
  | CLOCK_EVT_MODE_ONESHOT | CLOCK_EVT_MODE_RESUME

definition tick_tmr_set_mode :: "clock_event_mode \<Rightarrow> soc \<Rightarrow> soc" where
  "tick_tmr_set_mode mode s =
     (case mode of
        CLOCK_EVT_MODE_PERIODIC \<Rightarrow> upd_tim (\<lambda>r. r\<lparr>tim_cr1 := tim_cr1 r OR STM32_TIM_CR1_CEN\<rparr>) s
      | _ \<Rightarrow> upd_tim (\<lambda>r. r\<lparr>tim_cr1 := tim_cr1 r AND NOT STM32_TIM_CR1_CEN\<rparr>) s)"

text \<open>A bit of the status register is cleared by writing 0 to it and kept by writing 1.
  \<open>event_handler\<close> is what the tick core installed.\<close>

definition tick_tmr_irq_handler :: "(irq_world \<Rightarrow> irq_world) \<Rightarrow> irq_world \<Rightarrow> u32 \<times> irq_world" where
  "tick_tmr_irq_handler event_handler w =
     (let v = tim_sr (tim2 (iw_soc w)) AND NOT STM32_TIM_SR_UIF;
          w = upd_iw_soc (upd_tim (\<lambda>r. r\<lparr>tim_sr := tim_sr r AND v\<rparr>)) w
      in (IRQ_HANDLED, event_handler w))"

text \<open>The handler of the tick is known to the interrupt core by a number \<open>tick\<close>.\<close>

definition tick_tmr_irqaction :: "nat \<Rightarrow> irqaction" where
  "tick_tmr_irqaction tick = \<lparr>act_handler = tick, act_flags = (irqf IRQF_DISABLED) OR (irqf IRQF_TIMER) OR (irqf IRQF_IRQPOLL), act_dev_id = 0\<rparr>"

record clock_event_device =
  evt_mult :: u32
  evt_shift :: u32
  max_delta_ns :: u64
  min_delta_ns :: u64

definition tick_tmr_program :: "tim_hw \<Rightarrow> u32 \<Rightarrow> soc \<Rightarrow> soc" where
  "tick_tmr_program h tick_tmr_clk s =
     (let div' = tick_tmr_clk div HZ;
          psc_pwr = ilog2 div' - TICK_TIM_COUNTER_BITWIDTH + 1;
          psc_pwr = (if psc_pwr < 0 then 0 else psc_pwr);
          s = s\<lparr>rcc := (rcc s)\<lparr>rcc_apb1enr := rcc_apb1enr (rcc s) OR STM32_RCC_MSK_TIM2\<rparr>\<rparr>;
          s = s\<lparr>rcc := (rcc s)\<lparr>rcc_apb1rstr := rcc_apb1rstr (rcc s) OR STM32_RCC_MSK_TIM2\<rparr>\<rparr>;
          s = upd_tim (tim_reset h) s;
          s = s\<lparr>rcc := (rcc s)\<lparr>rcc_apb1rstr := rcc_apb1rstr (rcc s) AND NOT STM32_RCC_MSK_TIM2\<rparr>\<rparr>;
          s = upd_tim (\<lambda>r. r\<lparr>tim_cr1 := STM32_TIM_CR1_ARPE\<rparr>) s;
          s = upd_tim (\<lambda>r. r\<lparr>tim_arr := drop_bit (nat psc_pwr) div'\<rparr>) s;
          s = upd_tim (\<lambda>r. r\<lparr>tim_psc := push_bit (nat psc_pwr) 1 - 1\<rparr>) s
      in upd_tim (tim_event h STM32_TIM_EGR_UG) s)"

definition tick_tmr_init :: "pr_hw \<Rightarrow> tim_hw \<Rightarrow> nat \<Rightarrow> u32 \<Rightarrow> irq_world \<Rightarrow> fault + clock_event_device \<times> irq_world" where
  "tick_tmr_init hw h tick tick_tmr_clk w =
     and_then (setup_irq hw STM32_TIM2_IRQ (tick_tmr_irqaction tick) (upd_iw_soc (tick_tmr_program h tick_tmr_clk) w)) (\<lambda>(_, w).
     let w = upd_iw_soc (upd_tim (\<lambda>r. r\<lparr>tim_dier := tim_dier r OR STM32_TIM_DIER_UIE\<rparr>)) w in
     and_then (clocks_calc_mult_shift NSEC_PER_SEC (tick_tmr_clk div HZ) 5) (\<lambda>(mult, shift).
     let (max_delta, mult) = clockevent_delta2ns 0xFFFFFFF0 mult shift;
         (min_delta, mult) = clockevent_delta2ns 0xF mult shift
     in Inr (\<lparr>evt_mult = mult, evt_shift = shift, max_delta_ns = max_delta, min_delta_ns = min_delta\<rparr>, w)))"

section \<open>The clock source\<close>

definition CM3_SYSTICK_LOAD_RELOAD_MSK :: u32 where "CM3_SYSTICK_LOAD_RELOAD_MSK = 0xFFFFFF"
definition CM3_SYSTICK_CTRL_EN :: u32 where "CM3_SYSTICK_CTRL_EN = 1"

record clocksource =
  cs_mult :: u32
  cs_shift :: u32
  cs_mask :: u64
  cycle_last :: u64

definition CLOCKSOURCE_MASK :: "nat \<Rightarrow> u64" where
  "CLOCKSOURCE_MASK bits = (if bits < 64 then push_bit bits 1 - 1 else - 1)"

definition clocksource_systick_value_get :: "soc \<Rightarrow> u64" where
  "clocksource_systick_value_get s = ucast (systick_val (systick s) XOR CM3_SYSTICK_LOAD_RELOAD_MSK)"

definition cortex_m3_register_systick_clocksource :: "u32 \<Rightarrow> soc \<Rightarrow> fault + clocksource \<times> soc" where
  "cortex_m3_register_systick_clocksource systick_clk s =
     (let s = s\<lparr>systick := (systick s)\<lparr>systick_load := CM3_SYSTICK_LOAD_RELOAD_MSK\<rparr>\<rparr>;
          s = s\<lparr>systick := (systick s)\<lparr>systick_val := 0\<rparr>\<rparr>;
          s = s\<lparr>systick := (systick s)\<lparr>systick_ctrl := systick_ctrl (systick s) OR CM3_SYSTICK_CTRL_EN\<rparr>\<rparr>
      in and_then (clocks_calc_mult_shift systick_clk NSEC_PER_SEC 4) (\<lambda>(mult, shift).
         Inr (\<lparr>cs_mult = mult, cs_shift = shift, cs_mask = CLOCKSOURCE_MASK 24, cycle_last = 0\<rparr>, s)))"

text \<open>Reading the time: the nanoseconds since the last update, and the start of a new period.\<close>

definition timekeeping_get_ns_raw :: "clocksource \<Rightarrow> soc \<Rightarrow> u64" where
  "timekeeping_get_ns_raw c s =
     (let cycle_now = clocksource_systick_value_get s;
          cycle_delta = (cycle_now - cycle_last c) AND cs_mask c
      in clocksource_cyc2ns cycle_delta (cs_mult c) (cs_shift c))"

section \<open>Initialisation\<close>

record timers =
  tick_evt :: clock_event_device
  tick_tmr_clk :: u32
  src_cs :: clocksource
  src_tmr_clk :: u32

text \<open>The clock driver and the interrupt core work on the same registers.\<close>

definition stm32_timer_init ::
  "kconfig \<Rightarrow> (nat \<Rightarrow> u32 \<Rightarrow> u32) \<Rightarrow> int \<Rightarrow> pr_hw \<Rightarrow> tim_hw \<Rightarrow> nat \<Rightarrow> clock_state \<Rightarrow> irq_world
     \<Rightarrow> (fault + timers \<times> clock_state \<times> irq_world) option" where
  "stm32_timer_init cfg poll platform hw h tick c w =
     (case stm32_clock_init cfg poll platform (c\<lparr>clock_soc := iw_soc w\<rparr>) of
        None \<Rightarrow> None
      | Some (Inl e) \<Rightarrow> Some (Inl e)
      | Some (Inr c) \<Rightarrow> Some
          (let w = w\<lparr>iw_soc := clock_soc c\<rparr>;
               tick_clk = stm32_clock_get CLOCK_PTMR1 c;
               src_clk = stm32_clock_get CLOCK_HCLK c div 8
           in and_then (tick_tmr_init hw h tick tick_clk w) (\<lambda>(evt, w).
              and_then (cortex_m3_register_systick_clocksource src_clk (iw_soc w)) (\<lambda>(cs, s).
              Inr (\<lparr>tick_evt = evt, tick_tmr_clk = tick_clk, src_cs = cs, src_tmr_clk = src_clk\<rparr>,
                c\<lparr>clock_soc := s\<rparr>, w\<lparr>iw_soc := s\<rparr>)))))"

section \<open>Reading the clock source\<close>

lemma systick_mask: "CM3_SYSTICK_LOAD_RELOAD_MSK = mask 24" "CLOCKSOURCE_MASK 24 = mask 24"
  by (simp_all add: CM3_SYSTICK_LOAD_RELOAD_MSK_def CLOCKSOURCE_MASK_def mask_eq_exp_minus_1)

lemma uint_and_mask: "uint (x AND mask n :: 'a::len word) = uint x mod 2 ^ n"
  unfolding take_bit_eq_mask [symmetric] unsigned_take_bit_eq by (rule take_bit_eq_mod)

lemma uint_minus_mod:
  assumes "k \<le> LENGTH('a)"
  shows "uint (x - y :: 'a::len word) mod 2 ^ k = (uint x - uint y) mod 2 ^ k"
  using assms by (simp add: uint_word_ariths mod_mod_cancel le_imp_power_dvd)

lemma invert_24:
  assumes "uint (x :: u32) < 2 ^ 24"
  shows "uint (x XOR CM3_SYSTICK_LOAD_RELOAD_MSK) = (- 1 - uint x) mod 2 ^ 24"
proof -
  have "take_bit 24 x = x" using assms by (simp add: word_uint_eq_iff unsigned_take_bit_eq take_bit_int_eq_self)
  then have high: "\<not> bit x n" if "24 \<le> n" for n using that by (metis bit_take_bit_iff not_less)
  have "x XOR CM3_SYSTICK_LOAD_RELOAD_MSK = take_bit 24 (NOT x)"
  proof (rule bit_word_eqI)
    fix n
    assume "n < LENGTH(32)"
    then show "bit (x XOR CM3_SYSTICK_LOAD_RELOAD_MSK) n = bit (take_bit 24 (NOT x)) n"
      unfolding systick_mask using high [of n] by (auto simp: bit_xor_iff bit_mask_iff bit_take_bit_iff bit_not_iff)
  qed
  also have "uint \<dots> = take_bit 24 (NOT (uint x))"
    by (simp add: unsigned_take_bit_eq unsigned_not_eq)
  finally show ?thesis by (simp add: take_bit_eq_mod not_int_def minus_diff_commute)
qed

lemma systick_delta:
  assumes "uint (systick_val (systick s)) < 2 ^ 24" "n < 2 ^ 24"
    and "systick_val (systick s') = (systick_val (systick s) - of_nat n) AND CM3_SYSTICK_LOAD_RELOAD_MSK"
  shows "unat ((clocksource_systick_value_get s' - clocksource_systick_value_get s) AND CLOCKSOURCE_MASK 24) = n"
proof -
  let ?v = "uint (systick_val (systick s))"
  have n: "uint (of_nat n :: u32) = int n" using assms(2) by (simp add: unsigned_of_nat take_bit_nat_eq_self)
  have v': "uint (systick_val (systick s')) = (?v - int n) mod 2 ^ 24"
    unfolding assms(3) systick_mask uint_and_mask n [symmetric] by (rule uint_minus_mod) simp
  have get: "uint (clocksource_systick_value_get t) = (- 1 - uint (systick_val (systick t))) mod 2 ^ 24"
    if "uint (systick_val (systick t)) < 2 ^ 24" for t
    using invert_24 [OF that] by (simp add: clocksource_systick_value_get_def unsigned_ucast_eq take_bit_int_eq_self)
  have "uint (systick_val (systick s')) < 2 ^ 24" unfolding v' by simp
  note g = get [OF this] get [OF assms(1)]
  have "uint ((clocksource_systick_value_get s' - clocksource_systick_value_get s) AND CLOCKSOURCE_MASK 24)
    = ((- 1 - (?v - int n) mod 2 ^ 24) mod 2 ^ 24 - (- 1 - ?v) mod 2 ^ 24) mod 2 ^ 24"
    unfolding systick_mask uint_and_mask v' [symmetric] g [symmetric] by (rule uint_minus_mod) simp
  also have "\<dots> = int n mod 2 ^ 24" by (simp add: mod_simps)
  finally show ?thesis using assms(2) by (simp add: unat_eq_nat_uint)
qed

text \<open>C32. \<^verbatim>\<open>cortex_m3_register_systick_clocksource\<close> starts the counter over its full 24 bits. From then on, if
  \<open>n\<close> counts have passed since the clock was read last, fewer than 2^24, in which the counter may have wrapped
  once, the nanoseconds read are never ahead of the exact time \<open>n / freq\<close> and behind it by less than
  1 + n / 2^shift. The frequency must let the wrap fall within the 4 seconds that the factors are
  chosen for.\<close>

theorem systick_time:
  assumes "2 ^ 22 \<le> unat freq" "unat freq < 2 ^ 30"
  shows "\<exists>cs s'. cortex_m3_register_systick_clocksource freq s = Inr (cs, s')
    \<and> systick_load (systick s') = 0xFFFFFF \<and> bit (systick_ctrl (systick s')) 0
    \<and> (\<forall>t t' n. n < 2 ^ 24 \<longrightarrow> systick_val (systick t) < 2 ^ 24 \<longrightarrow>
         systick_val (systick t') = (systick_val (systick t) - of_nat n) AND 0xFFFFFF \<longrightarrow>
         (let ns = unat (timekeeping_get_ns_raw (cs\<lparr>cycle_last := clocksource_systick_value_get t\<rparr>) t') in
          ns * unat freq \<le> n * 1000000000
          \<and> n * 1000000000 * 2 ^ unat (cs_shift cs) < unat freq * ((ns + 1) * 2 ^ unat (cs_shift cs) + n)))"
proof -
  have h: "freq \<noteq> 0" "unat (4 :: u32) * unat freq < 2 ^ (32 + 0)" "(0 :: nat) \<le> 32"
    "unat NSEC_PER_SEC * 2 < unat freq * 2 ^ (32 - 0)" and ns: "unat NSEC_PER_SEC = 1000000000"
    using assms by (auto simp: NSEC_PER_SEC_def)
  obtain mult shift where ms: "clocks_calc_mult_shift freq NSEC_PER_SEC 4 = Inr (mult, shift)"
    and conv: "\<And>cycles. unat cycles \<le> unat (4 :: u32) * unat freq \<Longrightarrow>
         unat (clocksource_cyc2ns cycles mult shift) * unat freq \<le> unat cycles * 1000000000
          \<and> unat cycles * 1000000000 * 2 ^ unat shift < unat freq * ((unat (clocksource_cyc2ns cycles mult shift) + 1) * 2 ^ unat shift + unat cycles)"
    using clocks_conversion [OF h] unfolding ns Let_def by blast
  define cs where "cs = \<lparr>cs_mult = mult, cs_shift = shift, cs_mask = CLOCKSOURCE_MASK 24, cycle_last = 0\<rparr>"
  define s' where "s' = s\<lparr>systick := (systick s)\<lparr>systick_ctrl := systick_ctrl (systick s) OR CM3_SYSTICK_CTRL_EN,
    systick_load := CM3_SYSTICK_LOAD_RELOAD_MSK, systick_val := 0\<rparr>\<rparr>"
  have "cortex_m3_register_systick_clocksource freq s = Inr (cs, s')"
    by (simp add: cortex_m3_register_systick_clocksource_def ms cs_def s'_def)
  moreover have "systick_load (systick s') = 0xFFFFFF \<and> bit (systick_ctrl (systick s')) 0"
    by (simp add: s'_def CM3_SYSTICK_LOAD_RELOAD_MSK_def CM3_SYSTICK_CTRL_EN_def bit_or_iff)
  moreover have "let ns = unat (timekeeping_get_ns_raw (cs\<lparr>cycle_last := clocksource_systick_value_get t\<rparr>) t') in
      ns * unat freq \<le> n * 1000000000 \<and> n * 1000000000 * 2 ^ unat (cs_shift cs) < unat freq * ((ns + 1) * 2 ^ unat (cs_shift cs) + n)"
    if "n < 2 ^ 24" "systick_val (systick t) < 2 ^ 24" "systick_val (systick t') = (systick_val (systick t) - of_nat n) AND 0xFFFFFF" for t t' n
  proof -
    have "uint (systick_val (systick t)) < 2 ^ 24" using that(2) by (simp add: word_less_def)
    from systick_delta [OF this that(1)] that(3)
    have d: "unat ((clocksource_systick_value_get t' - clocksource_systick_value_get t) AND CLOCKSOURCE_MASK 24) = n"
      by (simp add: CM3_SYSTICK_LOAD_RELOAD_MSK_def)
    then show ?thesis using conv [of "(clocksource_systick_value_get t' - clocksource_systick_value_get t) AND CLOCKSOURCE_MASK 24"] that(1) assms
      by (simp add: timekeeping_get_ns_raw_def Let_def cs_def)
  qed
  ultimately show ?thesis by blast
qed

section \<open>The tick\<close>

text \<open>The interrupt of the timer is free, and then set up with the handler of the tick.\<close>

definition tick_free :: "irq_world \<Rightarrow> bool" where
  "tick_free w \<longleftrightarrow> 28 < nr_irqs w \<and> chip_of 28 w = Nvic_chip \<and> handle_irq (irq_descs w 28) = Handle_level_irq \<and> action (irq_descs w 28) = []
     \<and> (\<forall>k \<in> {19, 26, 28}. \<not> bit (status (irq_descs w 28)) k)"

definition tick_armed :: "nat \<Rightarrow> irq_world \<Rightarrow> bool" where
  "tick_armed tick w \<longleftrightarrow> nvic_line w 28 \<and> \<not> is_off w 28 \<and> nvic_on w 28 \<and> action (irq_descs w 28) = [tick_tmr_irqaction tick]
     \<and> \<not> bit (status (irq_descs w 28)) 8 \<and> \<not> bit (status (irq_descs w 28)) 27 \<and> irqs_unhandled (irq_descs w 28) \<le> 99900"

text \<open>The timer set up for a tick of \<open>clk\<close>: preloaded, running at the full clock, reloading at \<open>clk / HZ\<close>, its
  counter stopped until the mode is set.\<close>

definition tim_ticks :: "u32 \<Rightarrow> soc \<Rightarrow> bool" where
  "tim_ticks clk s \<longleftrightarrow> tim_cr1 (tim2 s) = STM32_TIM_CR1_ARPE \<and> tim_arr (tim2 s) = clk div 100 \<and> tim_psc (tim2 s) = 0
     \<and> tim_dier (tim2 s) = STM32_TIM_DIER_UIE \<and> bit (rcc_apb1enr (rcc s)) 0 \<and> \<not> bit (rcc_apb1rstr (rcc s)) 0"

lemma no_prescaler: "nat (if ilog2 d - TICK_TIM_COUNTER_BITWIDTH + 1 < 0 then 0 else ilog2 d - TICK_TIM_COUNTER_BITWIDTH + 1) = 0"
proof (cases "d = 0")
  case True
  then show ?thesis by (simp add: ilog2.simps [of 0] tim_consts)
next
  case False
  then show ?thesis by (rule ilog2_bounds) (auto simp: tim_consts)
qed

lemma tick_program_regs:
  fixes clk :: u32 and s :: soc
  assumes "tim_documented h"
  defines "s' \<equiv> tick_tmr_program h clk s"
  shows "tim_cr1 (tim2 s') = STM32_TIM_CR1_ARPE" "tim_arr (tim2 s') = clk div 100" "tim_psc (tim2 s') = 0" "tim_dier (tim2 s') = 0"
    "bit (rcc_apb1enr (rcc s')) 0" "\<not> bit (rcc_apb1rstr (rcc s')) 0"
  using assms(1) unfolding s'_def tick_tmr_program_def Let_def no_prescaler tim_documented_def
  by (simp_all add: upd_tim_def HZ_def STM32_RCC_MSK_TIM2_def bit_or_iff bit_and_iff bit_not_iff)

lemma tick_init:
  assumes "tim_documented h" "tick_free w"
  obtains evt w' where "tick_tmr_init hw h tick clk w = Inr (evt, w')" "tim_ticks clk (iw_soc w')" "tick_armed tick w'"
    "\<forall>j. j \<noteq> 28 \<longrightarrow> irq_descs w' j = irq_descs w j \<and> nvic_on w' j = nvic_on w j"
proof -
  let ?w = "upd_iw_soc (tick_tmr_program h clk) w"
  have f: "28 < nr_irqs ?w" "chip_of 28 ?w = Nvic_chip" "handle_irq (irq_descs ?w 28) = Handle_level_irq" "action (irq_descs ?w 28) = []"
    "\<forall>k \<in> {19, 26, 28}. \<not> bit (status (irq_descs ?w 28)) k" "\<not> bit (act_flags (tick_tmr_irqaction tick)) 13"
    using assms(2) by (auto simp: tick_free_def irq_simps tick_tmr_irqaction_def bit_or_iff irq_flag_defs)
  obtain v where v: "setup_irq hw 28 (tick_tmr_irqaction tick) ?w = Inr (0, v)" "iw_soc v = iw_soc ?w" "nvic_line v 28" "\<not> is_off v 28"
    "nvic_on v 28" "\<not> bit (status (irq_descs v 28)) 8" "\<not> bit (status (irq_descs v 28)) 27" "action (irq_descs v 28) = [tick_tmr_irqaction tick]"
    "irqs_unhandled (irq_descs v 28) = 0" "\<forall>j. j \<noteq> 28 \<longrightarrow> irq_descs v j = irq_descs ?w j \<and> nvic_on v j = nvic_on ?w j"
    by (rule setup_nvic [OF f, of hw]) blast
  obtain m sh where m: "clocks_calc_mult_shift NSEC_PER_SEC (clk div HZ) 5 = Inr (m, sh)"
    by (auto simp: clocks_calc_mult_shift_def NSEC_PER_SEC_def split_beta Let_def intro: that)
  define w' where "w' = upd_iw_soc (upd_tim (\<lambda>r. r\<lparr>tim_dier := tim_dier r OR STM32_TIM_DIER_UIE\<rparr>)) v"
  obtain evt where "tick_tmr_init hw h tick clk w = Inr (evt, w')"
    using v(1) m by (auto simp: tick_tmr_init_def STM32_TIM2_IRQ_def w'_def split_beta Let_def intro: that)
  moreover have "tim_ticks clk (iw_soc w')"
    using tick_program_regs [OF assms(1), of clk "iw_soc w"] v(2) by (simp add: tim_ticks_def w'_def irq_simps upd_tim_def)
  moreover have "tick_armed tick w'" using v by (simp add: tick_armed_def w'_def irq_simps nvic_line_def is_off_def)
  moreover have "\<forall>j. j \<noteq> 28 \<longrightarrow> irq_descs w' j = irq_descs w j \<and> nvic_on w' j = nvic_on w j" using v(10) by (simp add: w'_def irq_simps)
  ultimately show ?thesis using that by blast
qed

text \<open>The reference clocks that \<^verbatim>\<open>stm32_clock_init\<close> finds when the boot loader left the PLL as the system clock.\<close>

definition boot_clocks :: "int \<Rightarrow> rcc_regs \<Rightarrow> (stm32_clock \<Rightarrow> u32) \<Rightarrow> stm32_clock \<Rightarrow> u32" where
  "boot_clocks platform r cv = clock_buses r (cv(CLOCK_DIVM := pll_divm platform r,
     CLOCK_SYSCLK := pllcfgr_plln r * pll_divm platform r div ((pllcfgr_pllp r + 1) * 2)))"

text \<open>On an STM32F7 that the boot loader runs from its PLL, \<^verbatim>\<open>stm32_timer_init\<close> ends, whatever state the
  timer was in, with TIM2 clocked, out of reset and set up for one interrupt in \<open>PTMR1 / HZ + 1\<close> cycles of its clock
  (not \<open>PTMR1 / HZ\<close>), its interrupt enabled with the handler of the tick and no other interrupt touched, and with the
  SysTick counter running for the clock source at \<open>HCLK / 8\<close>.\<close>

theorem timer_init_ticks:
  assumes "cfg CONFIG_ARCH_STM32F7" "pllsai_locks poll" "pll_usable platform (rcc (iw_soc w))"
    and "tim_documented h" "tick_free w" "8 \<le> boot_clocks platform (rcc (iw_soc w)) (clock_val c) CLOCK_HCLK"
  shows "\<exists>t c' w'. stm32_timer_init cfg poll platform hw h tick c w = Some (Inr (t, c', w'))
    \<and> clock_soc c' = iw_soc w' \<and> tick_tmr_clk t = stm32_clock_get CLOCK_PTMR1 c' \<and> src_tmr_clk t = stm32_clock_get CLOCK_HCLK c' div 8
    \<and> tim_ticks (tick_tmr_clk t) (iw_soc w')
    \<and> (unat (tim_arr (tim2 (iw_soc w'))) + 1) * (unat (tim_psc (tim2 (iw_soc w'))) + 1) = unat (tick_tmr_clk t) div 100 + 1
    \<and> tick_armed tick w' \<and> (\<forall>j. j \<noteq> 28 \<longrightarrow> irq_descs w' j = irq_descs w j \<and> nvic_on w' j = nvic_on w j)
    \<and> systick_load (systick (iw_soc w')) = 0xFFFFFF \<and> bit (systick_ctrl (systick (iw_soc w'))) 0"
proof -
  let ?c = "c\<lparr>clock_soc := iw_soc w\<rparr>"
  obtain a d c1 where c1: "stm32_clock_init cfg poll platform ?c = Some (Inr c1)" "clock_ready platform a d ?c c1"
    using clock_init_f7 [of cfg poll platform ?c] assms(1-3) by auto
  let ?t = "stm32_clock_get CLOCK_PTMR1 c1" and ?s = "stm32_clock_get CLOCK_HCLK c1 div 8" and ?w = "w\<lparr>iw_soc := clock_soc c1\<rparr>"
  have "8 \<le> stm32_clock_get CLOCK_HCLK c1" using assms(6) c1(2) by (simp add: boot_clocks_def clock_ready_def stm32_clock_get_def)
  then have nz: "?s \<noteq> 0" by (simp add: word_le_nat_alt word_unat_eq_iff unat_div)
  have "tick_free ?w" using assms(5) by (simp add: tick_free_def)
  then obtain evt v where v: "tick_tmr_init hw h tick ?t ?w = Inr (evt, v)" "tim_ticks ?t (iw_soc v)" "tick_armed tick v"
    "\<forall>j. j \<noteq> 28 \<longrightarrow> irq_descs v j = irq_descs ?w j \<and> nvic_on v j = nvic_on ?w j"
    by (rule tick_init [OF assms(4), of _ hw tick ?t]) blast
  obtain m sh where m: "clocks_calc_mult_shift ?s NSEC_PER_SEC 4 = Inr (m, sh)"
    using nz by (auto simp: clocks_calc_mult_shift_def split_beta Let_def intro: that)
  obtain cs s where cs: "cortex_m3_register_systick_clocksource ?s (iw_soc v) = Inr (cs, s)" "tim2 s = tim2 (iw_soc v)" "rcc s = rcc (iw_soc v)"
    "systick_load (systick s) = 0xFFFFFF" "bit (systick_ctrl (systick s)) 0"
    using m by (auto simp: cortex_m3_register_systick_clocksource_def CM3_SYSTICK_LOAD_RELOAD_MSK_def CM3_SYSTICK_CTRL_EN_def bit_or_iff intro: that)
  let ?r = "(\<lparr>tick_evt = evt, tick_tmr_clk = ?t, src_cs = cs, src_tmr_clk = ?s\<rparr>, c1\<lparr>clock_soc := s\<rparr>, v\<lparr>iw_soc := s\<rparr>)"
  have "stm32_timer_init cfg poll platform hw h tick c w = Some (Inr ?r)"
    using c1(1) v(1) cs(1) by (simp add: stm32_timer_init_def Let_def)
  moreover have "tim_ticks ?t s" using v(2) cs(2,3) by (simp add: tim_ticks_def)
  moreover have "tick_armed tick (v\<lparr>iw_soc := s\<rparr>)" using v(3) by (simp add: tick_armed_def irq_simps nvic_line_def is_off_def)
  moreover have "\<forall>j. j \<noteq> 28 \<longrightarrow> irq_descs (v\<lparr>iw_soc := s\<rparr>) j = irq_descs w j \<and> nvic_on (v\<lparr>iw_soc := s\<rparr>) j = nvic_on w j"
    using v(4) by (simp add: irq_simps)
  ultimately show ?thesis using cs(4,5)
    by (intro exI [of _ "fst ?r"] exI [of _ "fst (snd ?r)"] exI [of _ "snd (snd ?r)"])
      (simp add: stm32_clock_get_def tim_ticks_def unat_div)
qed

text \<open>C15. Each interrupt of the timer clears its update flag and no other, then runs the handler that the tick core
  installed, once, and leaves the tick set up for the next interrupt.\<close>

theorem tick_delivered:
  assumes "tick_armed tick w" "handler_plain run" "\<forall>w. run tick 28 0 w = tick_tmr_irq_handler event_handler w"
  shows "\<exists>v w'. asm_do_IRQ hw run 28 w = Inr w' \<and> tick_armed tick w'
    \<and> iw_soc v = upd_tim (\<lambda>r. r\<lparr>tim_sr := tim_sr r AND NOT STM32_TIM_SR_UIF\<rparr>) (iw_soc w) \<and> jiffies v = jiffies w
    \<and> iw_soc w' = iw_soc (event_handler v) \<and> jiffies w' = jiffies (event_handler v)"
proof -
  note ar = assms(1) [unfolded tick_armed_def]
  define u where "u = irq_replayed 28 (irq_acked 28 w)"
  have u: "action (irq_descs u 28) = [tick_tmr_irqaction tick]" "irqs_unhandled (irq_descs u 28) \<le> 99900"
    using ar by (simp_all add: u_def irq_replayed_def irq_acked_def irq_simps)
  define x where "x = upd_desc 28 (set_status (irq_st IRQ_INPROGRESS)) u"
  define v where "v = upd_iw_soc (upd_tim (\<lambda>r. r\<lparr>tim_sr := tim_sr r AND NOT STM32_TIM_SR_UIF\<rparr>)) x"
  have run: "run (act_handler (tick_tmr_irqaction tick)) 28 (act_dev_id (tick_tmr_irqaction tick)) x = (IRQ_HANDLED, event_handler v)"
    using assms(3) by (simp add: tick_tmr_irqaction_def tick_tmr_irq_handler_def v_def upd_iw_soc_def upd_tim_def and.assoc [symmetric])
  obtain y where y: "run_actions hw run 28 u = Inr y" "iw_soc y = iw_soc (event_handler v)" "jiffies y = jiffies (event_handler v)"
    "nr_irqs y = nr_irqs u"
    "\<exists>c n. n \<le> 99900 \<and> irq_descs y 28 = clear_status (irq_st IRQ_INPROGRESS) ((set_status (irq_st IRQ_INPROGRESS) (irq_descs u 28))\<lparr>irq_count := c, irqs_unhandled := n\<rparr>)"
    using run_actions_plain [OF assms(2) u, of hw] unfolding x_def [symmetric] run snd_conv by metis
  have st: "chip_of 28 y = Nvic_chip" "\<not> bit (status (irq_descs y 28)) 27" "\<not> bit (status (irq_descs y 28)) 9"
    using y(5) ar by (auto simp: u_def irq_replayed_def irq_acked_def irq_simps status_bits nvic_line_def is_off_def)
  have "level_end 28 y = Inr (nvic_unmask_irq 28 y)"
    using st by (simp add: level_end_def irq_simps Let_def)
  then have "asm_do_IRQ hw run 28 w = Inr (nvic_unmask_irq 28 y)"
    using irq_on_arrives [of w 28 hw run] ar y(1) by (simp add: u_def)
  moreover have "tick_armed tick (nvic_unmask_irq 28 y)"
    using ar y(4,5) by (auto simp: tick_armed_def u_def irq_replayed_def irq_acked_def irq_simps status_bits nvic_line_def is_off_def)
  moreover have "iw_soc v = upd_tim (\<lambda>r. r\<lparr>tim_sr := tim_sr r AND NOT STM32_TIM_SR_UIF\<rparr>) (iw_soc w)" "jiffies v = jiffies w"
    by (simp_all add: v_def x_def u_def irq_replayed_def irq_acked_def irq_simps upd_iw_soc_def nvic_ack_irq_def nvic_mask_irq_def upd_desc_def)
  ultimately show ?thesis using y(2,3) by (intro exI [of _ v] exI [of _ "nvic_unmask_irq 28 y"]) (simp add: irq_simps nvic_unmask_irq_def)
qed

section \<open>Examples\<close>

theorem systick_time_witness:
  "\<exists>cs s'. cortex_m3_register_systick_clocksource 25000000 soc0 = Inr (cs, s')
    \<and> unat (timekeeping_get_ns_raw (cs\<lparr>cycle_last := clocksource_systick_value_get (soc0\<lparr>systick := (systick soc0)\<lparr>systick_val := 2\<rparr>\<rparr>)\<rparr>)
        (soc0\<lparr>systick := (systick soc0)\<lparr>systick_val := 0xFFFFFD\<rparr>\<rparr>)) * 25000000 \<le> 5 * 1000000000"
proof -
  let ?t = "soc0\<lparr>systick := (systick soc0)\<lparr>systick_val := 2\<rparr>\<rparr>" and ?t' = "soc0\<lparr>systick := (systick soc0)\<lparr>systick_val := 0xFFFFFD\<rparr>\<rparr>"
  have h: "2 ^ 22 \<le> unat (25000000 :: u32)" "unat (25000000 :: u32) < 2 ^ 30" by simp_all
  obtain cs s' where cs: "cortex_m3_register_systick_clocksource 25000000 soc0 = Inr (cs, s')"
    "let ns = unat (timekeeping_get_ns_raw (cs\<lparr>cycle_last := clocksource_systick_value_get ?t\<rparr>) ?t') in ns * unat (25000000 :: u32) \<le> 5 * 1000000000"
    using systick_time [OF h, of soc0] by (elim exE conjE allE [where x = ?t] allE [where x = ?t'] allE [where x = "5 :: nat"]) (auto simp: Let_def)
  then show ?thesis by (intro exI [of _ cs] exI [of _ s']) (simp add: Let_def)
qed

definition ex_tim_hw :: tim_hw where
  "ex_tim_hw = \<lparr>tim_reset = (\<lambda>_. tim2 soc0), tim_event = (\<lambda>e r. r\<lparr>tim_cnt := 0, tim_sr := tim_sr r OR e\<rparr>)\<rparr>"

definition ex_tick_world :: irq_world where
  "ex_tick_world = upd_desc 28 (\<lambda>d. d\<lparr>chip := Nvic_chip, handle_irq := Handle_level_irq\<rparr>)
     (irq_world_boot board_config soc_200mhz (\<lambda>_. 0) (\<lambda>_. 0))"

theorem timer_init_ticks_witness:
  "\<exists>t c' w'. stm32_timer_init board_config poll_demo PLATFORM_STM32_STM32F7_DISCO rc_w1 ex_tim_hw 5 (clock_boot soc0) ex_tick_world = Some (Inr (t, c', w'))
    \<and> tim_ticks (tick_tmr_clk t) (iw_soc w') \<and> tick_armed 5 w'"
proof -
  have w: "iw_soc ex_tick_world = soc_200mhz" by (simp add: ex_tick_world_def irq_simps irq_world_boot_def)
  have f: "board_config CONFIG_ARCH_STM32F7" by (simp add: board_config_def)
  have u: "pll_usable PLATFORM_STM32_STM32F7_DISCO (rcc (iw_soc ex_tick_world))"
    unfolding w by (auto simp: pll_usable_def cfgr_sws_def soc_200mhz_def soc0_def rcc0_def pllcfgr_pllm_def pllcfgr_pllq_def)
  have t: "tim_documented ex_tim_hw" by (simp add: tim_documented_def ex_tim_hw_def soc0_def)
  have fr: "tick_free ex_tick_world"
    by (auto simp: tick_free_def ex_tick_world_def irq_simps irq_world_boot_def irq_desc_init_def NR_IRQS_def NVIC_IRQS_def STM32_GPIO_NUM_def IRQ_DISABLED_def bit_iff_odd)
  have hclk: "8 \<le> boot_clocks PLATFORM_STM32_STM32F7_DISCO (rcc (iw_soc ex_tick_world)) (clock_val (clock_boot soc0)) CLOCK_HCLK"
    unfolding w by (simp add: boot_clocks_def clock_buses_def Let_def soc_200mhz_def soc0_def rcc0_def cfgr_hpre_def pllcfgr_plln_def pllcfgr_pllp_def pllcfgr_pllm_def
      pllcfgr_hsesrc_def pll_divm_def clock_hse_hz_def drop_bit_eq_div apbahb_presc_tbl_def bit_iff_odd)
  show ?thesis using timer_init_ticks [where cfg = board_config, OF f poll_demo_locks u t fr hclk, of rc_w1 5] by blast
qed

definition ex_tick_run :: irq_run where
  "ex_tick_run h irq dev w = (if h = 5 \<and> irq = 28 \<and> dev = 0 then tick_tmr_irq_handler (\<lambda>w. w\<lparr>jiffies := jiffies w + 1\<rparr>) w else (IRQ_HANDLED, w))"

definition ex_armed_world :: irq_world where
  "ex_armed_world = upd_desc 28 (\<lambda>d. d\<lparr>action := [tick_tmr_irqaction 5]\<rparr>) ex_line_world"

theorem tick_delivered_witness:
  "\<exists>w'. asm_do_IRQ rc_w1 ex_tick_run 28 ex_armed_world = Inr w' \<and> tick_armed 5 w' \<and> jiffies w' = jiffies ex_armed_world + 1"
proof -
  have "tick_armed 5 ex_armed_world"
    using ex_line_world_ok(3)
    by (auto simp: tick_armed_def ex_armed_world_def nvic_line_def is_off_def ex_line_world_def irq_simps irq_world_boot_def irq_desc_init_def)
  moreover have "handler_plain ex_tick_run" by (simp add: handler_plain_def ex_tick_run_def tick_tmr_irq_handler_def irq_simps Let_def)
  moreover have "\<forall>w. ex_tick_run 5 28 0 w = tick_tmr_irq_handler (\<lambda>w. w\<lparr>jiffies := jiffies w + 1\<rparr>) w" by (simp add: ex_tick_run_def)
  ultimately show ?thesis using tick_delivered [of 5 ex_armed_world ex_tick_run "\<lambda>w. w\<lparr>jiffies := jiffies w + 1\<rparr>" rc_w1] by auto
qed

end
