(* ===== verification/Eth.thy ===== *)
theory Eth
  imports Irq
begin

text \<open>
  The Ethernet driver \<^verbatim>\<open>drivers/net/arm/stm32_eth.c\<close>, built as this board builds it: on an STM32
  (\<^verbatim>\<open>CONFIG_ARCH_STM32\<close>) with its rings and buffers in on-chip memory (\<^verbatim>\<open>CONFIG_STM32_ETHER_BUF_IN_SRAM\<close>).
  This theory has the state of the driver and the transmit and receive paths; \<^verbatim>\<open>Eth_Hw\<close> has the set-up of
  the MAC, the PHY access and the memory. Memory is coherent here: cache maintenance is left out. The
  spinlocks make the sections they protect atomic.
\<close>

section \<open>State\<close>

type_synonym u8 = "8 word"
type_synonym frame = "u8 list"

text \<open>The registers of the MAC that the driver uses.\<close>

record mac_regs =
  maccr :: u32
  macmiiar :: u32
  macmiidr :: u32
  maca0hr :: u32
  maca0lr :: u32
  dmabmr :: u32
  dmatpdr :: u32
  dmardlar :: u32
  dmatdlar :: u32
  dmasr :: u32
  dmaomr :: u32
  dmaier :: u32

record eth_bd =
  bd_stat :: u32
  bd_ctrl :: u32
  bd_buf :: u32
  bd_next :: u32

text \<open>\<open>fake_addr\<close> is the address of the data.\<close>

record sk_buff_fake =
  fake_addr :: u32
  fake_len :: u32
  fake_data :: frame

record eth_stats =
  rx_packets :: u32
  tx_packets :: u32
  rx_bytes :: u32
  tx_bytes :: u32
  rx_errors :: u32
  tx_errors :: u32
  rx_dropped :: u32
  tx_dropped :: u32
  collisions :: u32
  rx_length_errors :: u32
  rx_over_errors :: u32
  rx_crc_errors :: u32
  rx_frame_errors :: u32
  rx_fifo_errors :: u32
  tx_carrier_errors :: u32
  tx_fifo_errors :: u32

text \<open>
  The private data of the driver. \<open>queue_stopped\<close> is the transmit queue of the device,
  \<open>napi_sched\<close> and \<open>napi_off\<close> the state of its NAPI context, \<open>received\<close> the frames handed to the
  network stack.
\<close>

record eth_priv =
  mac :: mac_regs
  eth_stat :: eth_stats
  eth_link :: int
  eth_speed :: int
  eth_duplex :: int
  rx_bd :: "eth_bd list"
  rx_bd_dma_addr :: u32
  tx_bd :: "eth_bd list"
  tx_bd_dma_addr :: u32
  rx_skb :: "sk_buff_fake list"
  tx_skb :: "sk_buff_fake list"
  rx_done_idx :: u32
  tx_todo_idx :: u32
  tx_done_idx :: u32
  tx_pending :: u32
  tx_blocked :: u32
  frame_max_size :: u32
  rx_buf_num :: u32
  tx_buf_num :: u32
  sram_pointer :: u32
  queue_stopped :: bool
  napi_sched :: bool
  napi_off :: bool
  received :: "frame list"

datatype eth_bd_msk =
    STM32_DMA_TBD_DMA_OWN | STM32_DMA_TBD_LS | STM32_DMA_TBD_FS | STM32_DMA_TBD_TCH
  | STM32_DMA_TBD_ES | STM32_DMA_TBD_NC | STM32_DMA_TBD_EC | STM32_DMA_TBD_CC_MSK
  | STM32_DMA_TBD_UF | STM32_DMA_RBD_DMA_OWN | STM32_DMA_RBD_FL_MSK | STM32_DMA_RBD_ES
  | STM32_DMA_RBD_LE | STM32_DMA_RBD_OE | STM32_DMA_RBD_FS | STM32_DMA_RBD_LS
  | STM32_DMA_RBD_CE | STM32_DMA_RBD_RCH

primrec bd_msk :: "eth_bd_msk \<Rightarrow> u32" where
  "bd_msk STM32_DMA_TBD_DMA_OWN = 0x80000000"
| "bd_msk STM32_DMA_TBD_LS = 0x20000000"
| "bd_msk STM32_DMA_TBD_FS = 0x10000000"
| "bd_msk STM32_DMA_TBD_TCH = 0x100000"
| "bd_msk STM32_DMA_TBD_ES = 0x8000"
| "bd_msk STM32_DMA_TBD_NC = 0x400"
| "bd_msk STM32_DMA_TBD_EC = 0x100"
| "bd_msk STM32_DMA_TBD_CC_MSK = 0xF"
| "bd_msk STM32_DMA_TBD_UF = 0x2"
| "bd_msk STM32_DMA_RBD_DMA_OWN = 0x80000000"
| "bd_msk STM32_DMA_RBD_FL_MSK = 0x3FFF"
| "bd_msk STM32_DMA_RBD_ES = 0x8000"
| "bd_msk STM32_DMA_RBD_LE = 0x1000"
| "bd_msk STM32_DMA_RBD_OE = 0x800"
| "bd_msk STM32_DMA_RBD_FS = 0x200"
| "bd_msk STM32_DMA_RBD_LS = 0x100"
| "bd_msk STM32_DMA_RBD_CE = 0x2"
| "bd_msk STM32_DMA_RBD_RCH = 0x4000"

declare bd_msk.simps [simp del]

lemmas STM32_DMA_TBD_DMA_OWN_def = bd_msk.simps(1)
  and STM32_DMA_TBD_TCH_def = bd_msk.simps(4)
  and STM32_DMA_RBD_DMA_OWN_def = bd_msk.simps(10)
  and STM32_DMA_RBD_FL_MSK_def = bd_msk.simps(11)
  and STM32_DMA_RBD_ES_def = bd_msk.simps(12)

definition STM32_DMA_TBD_CC_BIT :: nat where "STM32_DMA_TBD_CC_BIT = 3"

definition STM32_DMA_RBD_FL_BIT :: nat where "STM32_DMA_RBD_FL_BIT = 16"

datatype mac_irq_msk =
    STM32_MAC_DMASR_TX_MSK | STM32_MAC_DMASR_RX_MSK | STM32_MAC_DMASR_ROS | STM32_MAC_DMASR_TUS
  | STM32_MAC_DMAIER_TIE | STM32_MAC_DMAIER_RIE | STM32_MAC_DMASR_TS | STM32_MAC_DMASR_TBUS
  | STM32_MAC_DMASR_RS | STM32_MAC_DMASR_RBUS

primrec mac_irq :: "mac_irq_msk \<Rightarrow> u32" where
  "mac_irq STM32_MAC_DMASR_TX_MSK = 0x25"
| "mac_irq STM32_MAC_DMASR_RX_MSK = 0xD0"
| "mac_irq STM32_MAC_DMASR_ROS = 0x10"
| "mac_irq STM32_MAC_DMASR_TUS = 0x20"
| "mac_irq STM32_MAC_DMAIER_TIE = 0x1"
| "mac_irq STM32_MAC_DMAIER_RIE = 0x40"
| "mac_irq STM32_MAC_DMASR_TS = 0x1"
| "mac_irq STM32_MAC_DMASR_TBUS = 0x4"
| "mac_irq STM32_MAC_DMASR_RS = 0x40"
| "mac_irq STM32_MAC_DMASR_RBUS = 0x80"

declare mac_irq.simps [simp del]

lemmas STM32_MAC_DMAIER_TIE_def = mac_irq.simps(5)
  and STM32_MAC_DMAIER_RIE_def = mac_irq.simps(6)

lemmas bd_consts = bd_msk.simps STM32_DMA_TBD_CC_BIT_def STM32_DMA_RBD_FL_BIT_def

definition upd_mac :: "(mac_regs \<Rightarrow> mac_regs) \<Rightarrow> eth_priv \<Rightarrow> eth_priv" where
  "upd_mac f e = e\<lparr>mac := f (mac e)\<rparr>"

definition upd_stat :: "(eth_stats \<Rightarrow> eth_stats) \<Rightarrow> eth_priv \<Rightarrow> eth_priv" where
  "upd_stat f e = e\<lparr>eth_stat := f (eth_stat e)\<rparr>"

section \<open>Transmission\<close>

definition NETDEV_TX_OK :: int where "NETDEV_TX_OK = 0"
definition NETDEV_TX_BUSY :: int where "NETDEV_TX_BUSY = 0x10"

text \<open>
  \<^verbatim>\<open>stm32_netdev_xmit\<close> in the three parts that its locks make: taking the next descriptor (or returning, \<open>Inl\<close>), filling and
  releasing it with interrupts enabled, and stopping the queue when the ring is full.
\<close>

definition xmit_capture :: "frame \<Rightarrow> eth_priv \<Rightarrow> (int + nat) \<times> eth_priv" where
  "xmit_capture skb e =
     (if unat (frame_max_size e) < length skb
      then (Inl NETDEV_TX_OK, upd_stat (\<lambda>st. st\<lparr>tx_dropped := tx_dropped st + 1\<rparr>) e)
      else if tx_blocked e \<noteq> 0 \<or> tx_buf_num e \<le> tx_pending e then (Inl NETDEV_TX_BUSY, e)
      else (Inr (unat (tx_todo_idx e)),
            e\<lparr>tx_todo_idx := (tx_todo_idx e + 1) mod tx_buf_num e, tx_pending := tx_pending e + 1\<rparr>))"

definition xmit_program :: "nat \<Rightarrow> frame \<Rightarrow> eth_priv \<Rightarrow> fault + eth_priv" where
  "xmit_program idx skb e =
     (if length (tx_bd e) \<le> idx \<or> length (tx_skb e) \<le> idx \<or> length (fake_data (tx_skb e ! idx)) < length skb then Inl OutOfBounds
      else
        (let len = of_nat (length skb);
             buf = tx_skb e ! idx;
             bd = tx_bd e ! idx;
             e = e\<lparr>tx_skb := (tx_skb e)[idx := buf\<lparr>fake_data := skb @ drop (length skb) (fake_data buf), fake_len := len\<rparr>]\<rparr>;
             e = e\<lparr>tx_bd := (tx_bd e)[idx := bd\<lparr>bd_ctrl := len,
                    bd_stat := bd_stat bd OR ((bd_msk STM32_DMA_TBD_FS) OR (bd_msk STM32_DMA_TBD_LS) OR (bd_msk STM32_DMA_TBD_DMA_OWN))\<rparr>]\<rparr>
         in Inr (upd_mac (\<lambda>r. r\<lparr>dmatpdr := 0\<rparr>) e)))"

definition xmit_finish :: "eth_priv \<Rightarrow> eth_priv" where
  "xmit_finish e = (if tx_pending e = tx_buf_num e then e\<lparr>tx_blocked := 1, queue_stopped := True\<rparr> else e)"

definition stm32_netdev_xmit :: "frame \<Rightarrow> eth_priv \<Rightarrow> fault + int \<times> eth_priv" where
  "stm32_netdev_xmit skb e =
     (case xmit_capture skb e of
        (Inl rv, e) \<Rightarrow> Inr (rv, e)
      | (Inr idx, e) \<Rightarrow> and_then (xmit_program idx skb e) (\<lambda>e. Inr (NETDEV_TX_OK, xmit_finish e)))"

text \<open>The statistics of a descriptor that is done, and the walk over the descriptors that are.\<close>

definition tx_account :: "u32 \<Rightarrow> u32 \<Rightarrow> eth_stats \<Rightarrow> eth_stats" where
  "tx_account stat len st =
     (let st = (if flag (bd_msk STM32_DMA_TBD_ES) stat then
                  (let st = st\<lparr>tx_errors := tx_errors st + 1\<rparr>;
                       st = (if flag (bd_msk STM32_DMA_TBD_NC) stat then st\<lparr>tx_carrier_errors := tx_carrier_errors st + 1\<rparr> else st)
                   in if flag (bd_msk STM32_DMA_TBD_UF) stat then st\<lparr>tx_fifo_errors := tx_fifo_errors st + 1\<rparr> else st)
                else st\<lparr>tx_packets := tx_packets st + 1, tx_bytes := tx_bytes st + len\<rparr>)
      in if flag (bd_msk STM32_DMA_TBD_EC) stat then st\<lparr>collisions := collisions st + 16\<rparr>
         else st\<lparr>collisions := collisions st + (drop_bit STM32_DMA_TBD_CC_BIT stat AND (bd_msk STM32_DMA_TBD_CC_MSK))\<rparr>)"

function tx_reap :: "eth_priv \<Rightarrow> fault + eth_priv" where
  "tx_reap e =
     (if tx_pending e = 0 then Inr e else
      let idx = unat (tx_done_idx e) in
      if length (tx_bd e) \<le> idx \<or> length (tx_skb e) \<le> idx then Inl OutOfBounds else
      let stat = bd_stat (tx_bd e ! idx) in
      if flag (bd_msk STM32_DMA_TBD_DMA_OWN) stat then Inr e
      else if tx_buf_num e = 0 then Inl DivByZero
      else tx_reap (upd_stat (tx_account stat (fake_len (tx_skb e ! idx))) e
             \<lparr>tx_pending := tx_pending e - 1, tx_done_idx := (tx_done_idx e + 1) mod tx_buf_num e\<rparr>))"
  by auto
termination
  by (relation "measure (\<lambda>e. unat (tx_pending e))") (auto simp: upd_stat_def unat_gt_0 measure_unat)

declare tx_reap.simps [simp del]

definition stm32_eth_tx_complete :: "eth_priv \<Rightarrow> fault + eth_priv" where
  "stm32_eth_tx_complete e =
     and_then (tx_reap e) (\<lambda>e.
       Inr (if tx_blocked e \<noteq> 0 then e\<lparr>tx_blocked := 0, queue_stopped := False\<rparr> else e))"

section \<open>Reception\<close>

definition rx_account :: "u32 \<Rightarrow> eth_stats \<Rightarrow> eth_stats" where
  "rx_account stat st =
     (let st = st\<lparr>rx_errors := rx_errors st + 1\<rparr>;
          st = (if flag (bd_msk STM32_DMA_RBD_LE) stat then st\<lparr>rx_length_errors := rx_length_errors st + 1\<rparr> else st);
          st = (if flag (bd_msk STM32_DMA_RBD_OE) stat then st\<lparr>rx_fifo_errors := rx_fifo_errors st + 1\<rparr> else st);
          st = (if flag (bd_msk STM32_DMA_RBD_CE) stat then st\<lparr>rx_crc_errors := rx_crc_errors st + 1\<rparr> else st)
      in if stat AND ((bd_msk STM32_DMA_RBD_FS) OR (bd_msk STM32_DMA_RBD_LS)) \<noteq> (bd_msk STM32_DMA_RBD_FS) OR (bd_msk STM32_DMA_RBD_LS)
         then st\<lparr>rx_frame_errors := rx_frame_errors st + 1\<rparr> else st)"

text \<open>One ready descriptor; \<open>mem\<close> is whether a buffer for the frame is found. A copy of more
  bytes than the buffer of the descriptor has is a fault.\<close>

definition rx_len :: "u32 \<Rightarrow> u32" where
  "rx_len stat = (drop_bit STM32_DMA_RBD_FL_BIT stat AND (bd_msk STM32_DMA_RBD_FL_MSK)) - 4"

definition rx_take :: "bool \<Rightarrow> nat \<Rightarrow> eth_priv \<Rightarrow> fault + eth_priv" where
  "rx_take mem idx e =
     (let stat = bd_stat (rx_bd e ! idx); len = rx_len stat in
      if flag (bd_msk STM32_DMA_RBD_ES) stat then Inr (upd_stat (rx_account stat) e)
      else if \<not> mem then Inr (upd_stat (\<lambda>st. st\<lparr>rx_dropped := rx_dropped st + 1\<rparr>) e)
      else if length (fake_data (rx_skb e ! idx)) < unat len then Inl OutOfBounds
      else Inr (upd_stat (\<lambda>st. st\<lparr>rx_packets := rx_packets st + 1, rx_bytes := rx_bytes st + len\<rparr>)
             (e\<lparr>received := received e @ [take (unat len) (fake_data (rx_skb e ! idx))]\<rparr>)))"

definition rx_release :: "nat \<Rightarrow> eth_priv \<Rightarrow> fault + eth_priv" where
  "rx_release idx e =
     (if rx_buf_num e = 0 then Inl DivByZero else
      Inr (e\<lparr>rx_bd := (rx_bd e)[idx := (rx_bd e ! idx)\<lparr>bd_stat := (bd_msk STM32_DMA_RBD_DMA_OWN)\<rparr>],
             rx_done_idx := (rx_done_idx e + 1) mod rx_buf_num e\<rparr>))"

text \<open>At most \<open>left\<close> further descriptors; the result counts those that were processed.\<close>

fun rx_get_loop :: "(nat \<Rightarrow> bool) \<Rightarrow> nat \<Rightarrow> eth_priv \<Rightarrow> fault + nat \<times> eth_priv" where
  "rx_get_loop mem 0 e = Inr (0, e)"
| "rx_get_loop mem (Suc left) e =
     (let idx = unat (rx_done_idx e) in
      if length (rx_bd e) \<le> idx \<or> length (rx_skb e) \<le> idx then Inl OutOfBounds
      else if flag (bd_msk STM32_DMA_RBD_DMA_OWN) (bd_stat (rx_bd e ! idx)) then Inr (0, e)
      else and_then (rx_take (mem left) idx e) (\<lambda>e.
           and_then (rx_release idx e) (\<lambda>e.
           and_then (rx_get_loop mem left e) (\<lambda>(n, e). Inr (Suc n, e)))))"

definition stm32_eth_rx_get :: "(nat \<Rightarrow> bool) \<Rightarrow> nat \<Rightarrow> nat \<Rightarrow> eth_priv \<Rightarrow> fault + nat \<times> eth_priv" where
  "stm32_eth_rx_get mem processed budget e =
     and_then (rx_get_loop mem (budget - processed) e) (\<lambda>(n, e). Inr (processed + n, e))"

definition napi_schedule_prep :: "eth_priv \<Rightarrow> bool \<times> eth_priv" where
  "napi_schedule_prep e = (if napi_off e then (False, e) else (\<not> napi_sched e, e\<lparr>napi_sched := True\<rparr>))"

text \<open>
  The poll loop. \<open>env i\<close> is what the DMA and the interrupt handler do in the i-th round before the poll takes the lock,
  \<open>env' i\<close> what they do after it releases the lock. \<open>None\<close> is running out of rounds.
\<close>

fun rx_poll_loop :: "(nat \<Rightarrow> nat \<Rightarrow> bool) \<Rightarrow> (nat \<Rightarrow> eth_priv \<Rightarrow> eth_priv) \<Rightarrow> (nat \<Rightarrow> eth_priv \<Rightarrow> eth_priv) \<Rightarrow> nat
    \<Rightarrow> nat \<Rightarrow> nat \<Rightarrow> eth_priv \<Rightarrow> (fault + nat \<times> eth_priv) option" where
  "rx_poll_loop mem env env' budget 0 rx e = None"
| "rx_poll_loop mem env env' budget (Suc i) rx e =
     (case stm32_eth_rx_get (mem i) rx budget e of
        Inl f \<Rightarrow> Some (Inl f)
      | Inr (rx, e) \<Rightarrow>
          if \<not> rx < budget then Some (Inr (rx, upd_mac (\<lambda>r. r\<lparr>dmaier := dmaier r OR (mac_irq STM32_MAC_DMAIER_RIE)\<rparr>) e))
          else
            (let e = env i e;
                 e = e\<lparr>napi_sched := False\<rparr>;
                 e = upd_mac (\<lambda>r. r\<lparr>dmaier := dmaier r OR (mac_irq STM32_MAC_DMAIER_RIE)\<rparr>) e;
                 idx = unat (rx_done_idx e)
             in if length (rx_bd e) \<le> idx then Some (Inl OutOfBounds)
                else if \<not> flag (bd_msk STM32_DMA_RBD_DMA_OWN) (bd_stat (rx_bd e ! idx)) then
                  (let e = upd_mac (\<lambda>r. r\<lparr>dmaier := dmaier r AND NOT (mac_irq STM32_MAC_DMAIER_RIE)\<rparr>) e;
                       e = upd_mac (\<lambda>r. r\<lparr>dmasr := dmasr r AND NOT (mac_irq STM32_MAC_DMASR_RX_MSK)\<rparr>) e;
                       (again, e) = napi_schedule_prep (env' i e)
                   in if again then rx_poll_loop mem env env' budget i rx e else Some (Inr (rx, e)))
                else Some (Inr (rx, env' i e))))"

text \<open>\<open>Suc budget\<close> rounds are enough: each round but the last takes a descriptor.\<close>

definition stm32_eth_rx_poll :: "(nat \<Rightarrow> nat \<Rightarrow> bool) \<Rightarrow> (nat \<Rightarrow> eth_priv \<Rightarrow> eth_priv) \<Rightarrow> (nat \<Rightarrow> eth_priv \<Rightarrow> eth_priv) \<Rightarrow> nat
    \<Rightarrow> eth_priv \<Rightarrow> (fault + nat \<times> eth_priv) option" where
  "stm32_eth_rx_poll mem env env' budget e = rx_poll_loop mem env env' budget (Suc budget) 0 e"

section \<open>The interrupt handler\<close>

definition stm32_eth_irq :: "eth_priv \<Rightarrow> fault + u32 \<times> eth_priv" where
  "stm32_eth_irq e =
     (let status = dmasr (mac e);
          e = upd_mac (\<lambda>r. r\<lparr>dmasr := dmasr r AND NOT status\<rparr>) e
      in if status = 0 then Inr (IRQ_NONE, e)
         else
           (let e = (if flag (mac_irq STM32_MAC_DMASR_RX_MSK) status then
                       (let e = (if flag (mac_irq STM32_MAC_DMASR_ROS) status then upd_stat (\<lambda>st. st\<lparr>rx_over_errors := rx_over_errors st + 1\<rparr>) e else e);
                            (prep, e) = napi_schedule_prep e
                        in if prep then upd_mac (\<lambda>r. r\<lparr>dmaier := dmaier r AND NOT (mac_irq STM32_MAC_DMAIER_RIE)\<rparr>) e else e)
                     else e)
            in and_then
                 (if flag (mac_irq STM32_MAC_DMASR_TX_MSK) status
                  then stm32_eth_tx_complete
                         (if flag (mac_irq STM32_MAC_DMASR_TUS) status then upd_stat (\<lambda>st. st\<lparr>tx_fifo_errors := tx_fifo_errors st + 1\<rparr>) e else e)
                  else Inr e)
                 (\<lambda>e. Inr (IRQ_HANDLED, e))))"

section \<open>Indices of a ring\<close>

lemma unat_succ_mod:
  assumes "unat i < unat (n :: u32)"
  shows "unat ((i + 1) mod n) = (unat i + 1) mod unat n"
proof -
  have "unat i + 1 < 2 ^ 32" using assms unsigned_less [of n, where 'a = nat] by simp
  then show ?thesis by (simp add: unat_mod unat_word_ariths)
qed

section \<open>A driver\<close>

definition mac0 :: mac_regs where
  "mac0 = \<lparr>maccr = 0, macmiiar = 0, macmiidr = 0, maca0hr = 0, maca0lr = 0, dmabmr = 0, dmatpdr = 0, dmardlar = 0, dmatdlar = 0,
     dmasr = 0, dmaomr = 0, dmaier = 0\<rparr>"

definition stats0 :: eth_stats where
  "stats0 = \<lparr>rx_packets = 0, tx_packets = 0, rx_bytes = 0, tx_bytes = 0, rx_errors = 0, tx_errors = 0, rx_dropped = 0, tx_dropped = 0,
     collisions = 0, rx_length_errors = 0, rx_over_errors = 0, rx_crc_errors = 0, rx_frame_errors = 0, rx_fifo_errors = 0,
     tx_carrier_errors = 0, tx_fifo_errors = 0\<rparr>"

text \<open>A driver with the 8 transmit descriptors of an STM32F7 board, just opened, and small buffers.\<close>

definition ex_eth :: eth_priv where
  "ex_eth = \<lparr>mac = mac0, eth_stat = stats0, eth_link = 0, eth_speed = 0, eth_duplex = 0, rx_bd = [], rx_bd_dma_addr = 0,
     tx_bd = replicate 8 \<lparr>bd_stat = (bd_msk STM32_DMA_TBD_TCH), bd_ctrl = 0, bd_buf = 0, bd_next = 0\<rparr>, tx_bd_dma_addr = 0, rx_skb = [],
     tx_skb = replicate 8 \<lparr>fake_addr = 0, fake_len = 0, fake_data = [0]\<rparr>, rx_done_idx = 0, tx_todo_idx = 0, tx_done_idx = 0, tx_pending = 0,
     tx_blocked = 0, frame_max_size = 1, rx_buf_num = 1, tx_buf_num = 8, sram_pointer = 0, queue_stopped = False, napi_sched = False, napi_off = False,
     received = []\<rparr>"

end
