(* ===== verification/Eth_Hw.thy ===== *)
theory Eth_Hw
  imports Eth
begin

text \<open>
  The Ethernet driver around its data paths: the memory of the rings, the start of the MAC, the access to the PHY,
  opening and closing the device (\<^verbatim>\<open>drivers/net/arm/stm32_eth.c\<close>) and the set-up of the board
  (\<^verbatim>\<open>arch/arm/mach-stm32/eth.c\<close>).
\<close>

section \<open>The board\<close>

definition STM32_MAC_IRQ :: nat where "STM32_MAC_IRQ = 61"
definition STM32_RCC_ENR_ETHMACEN :: u32 where "STM32_RCC_ENR_ETHMACEN = 0x2000000"
definition STM32_RCC_ENR_ETHMACTXEN :: u32 where "STM32_RCC_ENR_ETHMACTXEN = 0x4000000"
definition STM32_RCC_ENR_ETHMACRXEN :: u32 where "STM32_RCC_ENR_ETHMACRXEN = 0x8000000"
definition STM32_RCC_ENR_SYSCFGEN :: u32 where "STM32_RCC_ENR_SYSCFGEN = 0x4000"
definition STM32_SYSCFG_PMC_RMII_SEL :: u32 where "STM32_SYSCFG_PMC_RMII_SEL = 0x800000"

record stm32_eth_data =
  data_frame_max_size :: u32
  data_rx_buf_num :: u32
  data_tx_buf_num :: u32
  data_phy_id :: u8

definition stm3220g_eval_eth_data :: stm32_eth_data where
  "stm3220g_eval_eth_data = \<lparr>data_frame_max_size = 2044, data_rx_buf_num = 32, data_tx_buf_num = 24, data_phy_id = 1\<rparr>"

definition stm32f7_eth_data :: stm32_eth_data where
  "stm32f7_eth_data = \<lparr>data_frame_max_size = 2044, data_rx_buf_num = 12, data_tx_buf_num = 8, data_phy_id = 0\<rparr>"

text \<open>The platform data of the device, \<open>None\<close> for a platform that has none, and the chip.\<close>

definition stm32_eth_init :: "int \<Rightarrow> soc \<Rightarrow> stm32_eth_data option \<times> soc" where
  "stm32_eth_init platform s =
     (let s = (if platform \<in> set [PLATFORM_STM32_STM_SOM, PLATFORM_STM32_STM_DISCO, PLATFORM_STM32_STM_STM32F439_SOM,
                  PLATFORM_STM32_STM_STM32F7_SOM, PLATFORM_STM32_STM32F7_DISCO]
               then (let s = s\<lparr>rcc := (rcc s)\<lparr>rcc_apb2enr := rcc_apb2enr (rcc s) OR STM32_RCC_ENR_SYSCFGEN\<rparr>\<rparr>
                     in s\<lparr>syscfg_pmc := syscfg_pmc s OR STM32_SYSCFG_PMC_RMII_SEL\<rparr>)
               else s);
          s = s\<lparr>rcc := (rcc s)\<lparr>rcc_ahb1enr := rcc_ahb1enr (rcc s) OR (STM32_RCC_ENR_ETHMACEN OR STM32_RCC_ENR_ETHMACTXEN OR STM32_RCC_ENR_ETHMACRXEN)\<rparr>\<rparr>
      in (if platform \<in> set [PLATFORM_STM32_STM3220G_EVAL, PLATFORM_STM32_STM3240G_EVAL, PLATFORM_STM32_STM_SOM, PLATFORM_STM32_STM_DISCO,
                PLATFORM_STM32_STM_STM32F439_SOM] then Some stm3220g_eval_eth_data
          else if platform \<in> set [PLATFORM_STM32_STM_STM32F7_SOM, PLATFORM_STM32_STM32F7_DISCO] then Some stm32f7_eth_data
          else None, s))"

section \<open>Memory\<close>

definition SRAM_PHYS_OFFSET :: u32 where "SRAM_PHYS_OFFSET = 0x20000000"
definition SRAM_PHYS_SIZE :: u32 where "SRAM_PHYS_SIZE = 0x20000"
definition CONFIG_STM32_ETHER_BUF_IN_SRAM_BASE :: u32 where "CONFIG_STM32_ETHER_BUF_IN_SRAM_BASE = 0x1000"
definition STM32_SRAM :: u32 where "STM32_SRAM = SRAM_PHYS_OFFSET + CONFIG_STM32_ETHER_BUF_IN_SRAM_BASE"

definition ALIGN :: "u32 \<Rightarrow> u32 \<Rightarrow> u32" where
  "ALIGN x a = (x + (a - 1)) AND NOT (a - 1)"

definition stm32_sram_alloc :: "u32 \<Rightarrow> eth_priv \<Rightarrow> fault + u32 \<times> eth_priv" where
  "stm32_sram_alloc bytes priv =
     (let base = sram_pointer priv;
          priv = priv\<lparr>sram_pointer := sram_pointer priv + (ALIGN bytes 4 + 4)\<rparr>
      in if SRAM_PHYS_OFFSET + SRAM_PHYS_SIZE \<le> sram_pointer priv then Inl BugOn else Inr (base, priv))"

text \<open>What the memory holds at an address before it is written: a descriptor, a length, a byte.\<close>

record sram_content =
  stale_bd :: "u32 \<Rightarrow> eth_bd"
  stale_len :: "u32 \<Rightarrow> u32"
  stale_byte :: "u32 \<Rightarrow> u8"

definition sizeof_bd :: u32 where "sizeof_bd = 16"
definition sizeof_fake :: u32 where "sizeof_fake = 4"

definition fake_at :: "sram_content \<Rightarrow> u32 \<Rightarrow> u32 \<Rightarrow> sk_buff_fake" where
  "fake_at m base room = \<lparr>fake_addr = base + sizeof_fake, fake_len = stale_len m base,
     fake_data = map (\<lambda>k. stale_byte m (base + sizeof_fake + of_nat k)) [0 ..< unat room]\<rparr>"

definition bds_at :: "sram_content \<Rightarrow> u32 \<Rightarrow> nat \<Rightarrow> eth_bd list" where
  "bds_at m base n = map (\<lambda>k. stale_bd m (base + sizeof_bd * of_nat k)) [0 ..< n]"

definition rx_place :: "sram_content \<Rightarrow> nat \<Rightarrow> u32 \<Rightarrow> eth_priv \<Rightarrow> eth_priv" where
  "rx_place m i base stm =
     (let skb = fake_at m base (frame_max_size stm + 4) in
      stm\<lparr>rx_bd := (rx_bd stm)[i := \<lparr>bd_stat = (bd_msk STM32_DMA_RBD_DMA_OWN), bd_ctrl = (bd_msk STM32_DMA_RBD_RCH) OR frame_max_size stm, bd_buf = fake_addr skb,
             bd_next = rx_bd_dma_addr stm + sizeof_bd * (of_nat (i + 1) mod rx_buf_num stm)\<rparr>],
          rx_skb := (rx_skb stm)[i := skb]\<rparr>)"

definition tx_place :: "sram_content \<Rightarrow> nat \<Rightarrow> u32 \<Rightarrow> eth_priv \<Rightarrow> eth_priv" where
  "tx_place m i base stm =
     (let skb = fake_at m base (frame_max_size stm + 4) in
      stm\<lparr>tx_bd := (tx_bd stm)[i := \<lparr>bd_stat = (bd_msk STM32_DMA_TBD_TCH), bd_ctrl = 0, bd_buf = fake_addr skb,
             bd_next = tx_bd_dma_addr stm + sizeof_bd * (of_nat (i + 1) mod tx_buf_num stm)\<rparr>],
          tx_skb := (tx_skb stm)[i := skb]\<rparr>)"

text \<open>The loops over a ring: \<open>left\<close> buffers from index \<open>i\<close> on.\<close>

fun ring_alloc :: "(nat \<Rightarrow> u32 \<Rightarrow> eth_priv \<Rightarrow> eth_priv) \<Rightarrow> u32 \<Rightarrow> nat \<Rightarrow> nat \<Rightarrow> eth_priv \<Rightarrow> fault + eth_priv" where
  "ring_alloc place skb_size i 0 stm = Inr stm"
| "ring_alloc place skb_size i (Suc left) stm =
     and_then (stm32_sram_alloc skb_size stm) (\<lambda>(base, stm). ring_alloc place skb_size (Suc i) left (place i base stm))"

definition stm32_eth_buffers_alloc :: "sram_content \<Rightarrow> eth_priv \<Rightarrow> fault + eth_priv" where
  "stm32_eth_buffers_alloc m stm =
     and_then (stm32_sram_alloc (sizeof_bd * rx_buf_num stm) stm) (\<lambda>(base, stm).
       (let stm = stm\<lparr>rx_bd := bds_at m base (unat (rx_buf_num stm)), rx_bd_dma_addr := base\<rparr> in
        and_then (stm32_sram_alloc (sizeof_bd * tx_buf_num stm) stm) (\<lambda>(base, stm).
          (let stm = stm\<lparr>tx_bd := bds_at m base (unat (tx_buf_num stm)), tx_bd_dma_addr := base\<rparr>;
               skb_size = sizeof_fake + frame_max_size stm + 4
           in and_then (ring_alloc (rx_place m) skb_size 0 (unat (rx_buf_num stm)) stm)
                (\<lambda>stm. ring_alloc (tx_place m) skb_size 0 (unat (tx_buf_num stm)) stm)))))"

definition stm32_eth_buffers_free :: "eth_priv \<Rightarrow> eth_priv" where
  "stm32_eth_buffers_free stm =
     (let total_alloc_size = sizeof_bd + sizeof_fake + frame_max_size stm + 4;
          total_alloc_size = total_alloc_size * (rx_buf_num stm + tx_buf_num stm)
      in stm\<lparr>sram_pointer := sram_pointer stm - total_alloc_size\<rparr>)"

section \<open>The MAC\<close>

datatype mac_reg_msk =
    STM32_MAC_CR_RE | STM32_MAC_CR_TE | STM32_MAC_CR_DM | STM32_MAC_CR_FES
  | STM32_MAC_MIIAR_MB | STM32_MAC_MIIAR_MW | STM32_MAC_MIIAR_CR_MSK | STM32_MAC_MIIAR_MR_MSK
  | STM32_MAC_MIIAR_PA_MSK | STM32_MAC_DMABMR_SR | STM32_MAC_DMABMR_RTPR_2_1 | STM32_MAC_DMABMR_FB
  | STM32_MAC_DMABMR_USP | STM32_MAC_DMABMR_AAB | STM32_MAC_DMASR_AIS | STM32_MAC_DMASR_NIS
  | STM32_MAC_DMAOMR_SR | STM32_MAC_DMAOMR_ST | STM32_MAC_DMAOMR_FTF | STM32_MAC_DMABMR_PBL_MSK
  | STM32_MAC_DMABMR_RTPR_MSK | STM32_MAC_DMABMR_RTPR_1_1 | STM32_MAC_DMABMR_RTPR_3_1 | STM32_MAC_DMABMR_RTPR_4_1
  | STM32_MAC_DMABMR_RDP_MSK

primrec mac_msk :: "mac_reg_msk \<Rightarrow> u32" where
  "mac_msk STM32_MAC_CR_RE = 0x4"
| "mac_msk STM32_MAC_CR_TE = 0x8"
| "mac_msk STM32_MAC_CR_DM = 0x800"
| "mac_msk STM32_MAC_CR_FES = 0x4000"
| "mac_msk STM32_MAC_MIIAR_MB = 1"
| "mac_msk STM32_MAC_MIIAR_MW = 2"
| "mac_msk STM32_MAC_MIIAR_CR_MSK = 0x7"
| "mac_msk STM32_MAC_MIIAR_MR_MSK = 0x1F"
| "mac_msk STM32_MAC_MIIAR_PA_MSK = 0x1F"
| "mac_msk STM32_MAC_DMABMR_SR = 1"
| "mac_msk STM32_MAC_DMABMR_RTPR_2_1 = 1"
| "mac_msk STM32_MAC_DMABMR_FB = 0x10000"
| "mac_msk STM32_MAC_DMABMR_USP = 0x800000"
| "mac_msk STM32_MAC_DMABMR_AAB = 0x2000000"
| "mac_msk STM32_MAC_DMASR_AIS = 0x8000"
| "mac_msk STM32_MAC_DMASR_NIS = 0x10000"
| "mac_msk STM32_MAC_DMAOMR_SR = 0x2"
| "mac_msk STM32_MAC_DMAOMR_ST = 0x2000"
| "mac_msk STM32_MAC_DMAOMR_FTF = 0x100000"
| "mac_msk STM32_MAC_DMABMR_PBL_MSK = 0x3F"
| "mac_msk STM32_MAC_DMABMR_RTPR_MSK = 0x3"
| "mac_msk STM32_MAC_DMABMR_RTPR_1_1 = 0x0"
| "mac_msk STM32_MAC_DMABMR_RTPR_3_1 = 0x2"
| "mac_msk STM32_MAC_DMABMR_RTPR_4_1 = 0x3"
| "mac_msk STM32_MAC_DMABMR_RDP_MSK = 0x3F"

declare mac_msk.simps [simp del]

lemmas STM32_MAC_MIIAR_MB_def = mac_msk.simps(5)
  and STM32_MAC_MIIAR_MW_def = mac_msk.simps(6)

datatype mac_reg_bit =
    STM32_MAC_MIIAR_CR_BIT | STM32_MAC_MIIAR_MR_BIT | STM32_MAC_MIIAR_PA_BIT | STM32_MAC_DMABMR_PBL_BIT
  | STM32_MAC_DMABMR_RTPR_BIT | STM32_MAC_DMABMR_RDP_BIT

primrec mac_bit :: "mac_reg_bit \<Rightarrow> nat" where
  "mac_bit STM32_MAC_MIIAR_CR_BIT = 2"
| "mac_bit STM32_MAC_MIIAR_MR_BIT = 6"
| "mac_bit STM32_MAC_MIIAR_PA_BIT = 11"
| "mac_bit STM32_MAC_DMABMR_PBL_BIT = 8"
| "mac_bit STM32_MAC_DMABMR_RTPR_BIT = 14"
| "mac_bit STM32_MAC_DMABMR_RDP_BIT = 17"

declare mac_bit.simps [simp del]

definition STM32_RCC_AHB1RSTR_ETHMAC :: u32 where "STM32_RCC_AHB1RSTR_ETHMAC = 0x2000000"
definition DUPLEX_FULL :: int where "DUPLEX_FULL = 1"
definition SPEED_100 :: int where "SPEED_100 = 100"

lemmas mac_consts = mac_msk.simps mac_bit.simps

text \<open>
  What the MAC does by itself: its registers after a reset, and whether the i-th read after a command still finds
  the command pending, for the software reset, the flush of the FIFO and a transfer to or from the PHY. \<open>phy_reg\<close> is what a PHY answers.
\<close>

record mac_hw =
  mac_reset :: mac_regs
  sr_busy :: "nat \<Rightarrow> bool"
  ftf_busy :: "nat \<Rightarrow> bool"
  mii_busy :: "nat \<Rightarrow> bool"
  phy_reg :: "u32 \<Rightarrow> u32 \<Rightarrow> u16"

text \<open>The number of reads that find the bit set, out of at most \<open>n\<close>: the loop counter at the end of a polling loop.\<close>

definition wait_clear :: "nat \<Rightarrow> (nat \<Rightarrow> bool) \<Rightarrow> nat" where
  "wait_clear n busy = length (takeWhile busy [0 ..< n])"

definition stm32_eth_mdio_cr :: "u32 \<Rightarrow> u32" where
  "stm32_eth_mdio_cr hclk =
     (if hclk < 35000000 then 2
      else if hclk < 60000000 then 3
      else if hclk < 100000000 then 0
      else if hclk < 150000000 then 1
      else 4)"

definition stm32_params_setup :: "eth_priv \<Rightarrow> eth_priv" where
  "stm32_params_setup stm =
     (let tmp = maccr (mac stm);
          tmp = (if eth_duplex stm = DUPLEX_FULL then tmp OR (mac_msk STM32_MAC_CR_DM) else tmp AND NOT (mac_msk STM32_MAC_CR_DM));
          tmp = (if eth_speed stm = SPEED_100 then tmp OR (mac_msk STM32_MAC_CR_FES) else tmp AND NOT (mac_msk STM32_MAC_CR_FES))
      in upd_mac (\<lambda>r. r\<lparr>maccr := tmp\<rparr>) stm)"

definition stm32_eth_hw_stop :: "eth_priv \<Rightarrow> eth_priv" where
  "stm32_eth_hw_stop = upd_mac (\<lambda>r. r\<lparr>dmaomr := dmaomr r AND NOT ((mac_msk STM32_MAC_DMAOMR_SR) OR (mac_msk STM32_MAC_DMAOMR_ST))\<rparr>)"

text \<open>The pulse on the reset line of the MAC.\<close>

definition mac_reset_pulse :: "mac_hw \<Rightarrow> eth_priv \<times> soc \<Rightarrow> eth_priv \<times> soc" where
  "mac_reset_pulse hw = (\<lambda>(stm, s).
     (let s = s\<lparr>rcc := (rcc s)\<lparr>rcc_ahb1rstr := rcc_ahb1rstr (rcc s) OR STM32_RCC_AHB1RSTR_ETHMAC\<rparr>\<rparr>;
          s = s\<lparr>rcc := (rcc s)\<lparr>rcc_ahb1rstr := rcc_ahb1rstr (rcc s) AND NOT STM32_RCC_AHB1RSTR_ETHMAC\<rparr>\<rparr>
      in (stm\<lparr>mac := mac_reset hw\<rparr>, s)))"

text \<open>Everything after the reset: bus mode, station address, rings, flush of the FIFO and start.\<close>

definition mac_program :: "mac_hw \<Rightarrow> u8 list \<Rightarrow> eth_priv \<Rightarrow> int \<times> eth_priv" where
  "mac_program hw dev_addr stm =
     (let a = (\<lambda>i. ucast (dev_addr ! i) :: u32);
          stm = upd_mac (\<lambda>r. r\<lparr>dmabmr := push_bit (mac_bit STM32_MAC_DMABMR_PBL_BIT) 32 OR push_bit (mac_bit STM32_MAC_DMABMR_RDP_BIT) 32
                  OR push_bit (mac_bit STM32_MAC_DMABMR_RTPR_BIT) (mac_msk STM32_MAC_DMABMR_RTPR_2_1)
                  OR (mac_msk STM32_MAC_DMABMR_FB) OR (mac_msk STM32_MAC_DMABMR_USP) OR (mac_msk STM32_MAC_DMABMR_AAB)\<rparr>) stm;
          stm = upd_mac (\<lambda>r. r\<lparr>maca0hr := push_bit 8 (a 5) OR a 4,
                  maca0lr := push_bit 24 (a 3) OR push_bit 16 (a 2) OR push_bit 8 (a 1) OR a 0\<rparr>) stm;
          stm = upd_mac (\<lambda>r. r\<lparr>dmardlar := rx_bd_dma_addr stm, dmatdlar := tx_bd_dma_addr stm\<rparr>) stm;
          stm = upd_mac (\<lambda>r. r\<lparr>dmaomr := dmaomr r OR (mac_msk STM32_MAC_DMAOMR_FTF)\<rparr>) stm
      in if wait_clear 10 (ftf_busy hw) = 10 then (- EBUSY, stm)
         else
           (let stm = upd_mac (\<lambda>r. r\<lparr>dmaomr := dmaomr r AND NOT (mac_msk STM32_MAC_DMAOMR_FTF)\<rparr>) stm;
                stm = upd_mac (\<lambda>r. r\<lparr>maccr := maccr r OR ((mac_msk STM32_MAC_CR_TE) OR (mac_msk STM32_MAC_CR_RE))\<rparr>) stm;
                stm = upd_mac (\<lambda>r. r\<lparr>dmaomr := dmaomr r OR ((mac_msk STM32_MAC_DMAOMR_ST) OR (mac_msk STM32_MAC_DMAOMR_SR))\<rparr>) stm
            in (0, stm)))"

definition stm32_eth_hw_start :: "mac_hw \<Rightarrow> u32 \<Rightarrow> u8 list \<Rightarrow> eth_priv \<times> soc \<Rightarrow> int \<times> eth_priv \<times> soc" where
  "stm32_eth_hw_start hw hclk dev_addr = (\<lambda>(stm, s).
     (let stm = stm32_eth_hw_stop stm;
          (stm, s) = mac_reset_pulse hw (stm, s);
          stm = upd_mac (\<lambda>r. r\<lparr>dmabmr := dmabmr r OR (mac_msk STM32_MAC_DMABMR_SR)\<rparr>) stm
      in if wait_clear 100 (sr_busy hw) = 100 then (- EBUSY, stm, s)
         else
           (let stm = stm\<lparr>mac := (mac_reset hw)\<lparr>dmabmr := dmabmr (mac_reset hw) AND NOT (mac_msk STM32_MAC_DMABMR_SR)\<rparr>\<rparr>;
                stm = upd_mac (\<lambda>r. r\<lparr>macmiiar := push_bit (mac_bit STM32_MAC_MIIAR_CR_BIT) (stm32_eth_mdio_cr hclk)\<rparr>) stm;
                stm = stm32_params_setup stm
            in if flag (mac_msk STM32_MAC_DMABMR_SR) (dmabmr (mac stm)) then (- EBUSY, stm, s)
               else (let (rv, stm) = mac_program hw dev_addr stm in (rv, stm, s)))))"

section \<open>The PHY\<close>

definition mii_address :: "u32 \<Rightarrow> u32 \<Rightarrow> u32 \<Rightarrow> u32" where
  "mii_address phy_id reg tmp =
     (let tmp = tmp AND push_bit (mac_bit STM32_MAC_MIIAR_CR_BIT) (mac_msk STM32_MAC_MIIAR_CR_MSK);
          tmp = tmp OR push_bit (mac_bit STM32_MAC_MIIAR_PA_BIT) (phy_id AND (mac_msk STM32_MAC_MIIAR_PA_MSK))
      in tmp OR push_bit (mac_bit STM32_MAC_MIIAR_MR_BIT) (reg AND (mac_msk STM32_MAC_MIIAR_MR_MSK)))"

text \<open>The transfer of the MAC: the addressed register of the addressed PHY goes to the data register, unless it writes.\<close>

definition mii_transfer :: "mac_hw \<Rightarrow> mac_regs \<Rightarrow> mac_regs" where
  "mii_transfer hw r =
     (let miiar = macmiiar r;
          r = r\<lparr>macmiiar := miiar AND NOT (mac_msk STM32_MAC_MIIAR_MB)\<rparr>
      in if flag (mac_msk STM32_MAC_MIIAR_MW) miiar then r
         else r\<lparr>macmiidr := ucast (phy_reg hw (drop_bit 11 miiar AND 0x1F) (drop_bit 6 miiar AND 0x1F))\<rparr>)"

definition stm32_mdio_write :: "mac_hw \<Rightarrow> u32 \<Rightarrow> u32 \<Rightarrow> u16 \<Rightarrow> eth_priv \<Rightarrow> int \<times> eth_priv" where
  "stm32_mdio_write hw phy_id reg data stm =
     (let tmp = mii_address phy_id reg (macmiiar (mac stm)) OR ((mac_msk STM32_MAC_MIIAR_MW) OR (mac_msk STM32_MAC_MIIAR_MB));
          stm = upd_mac (\<lambda>r. r\<lparr>macmiidr := ucast data, macmiiar := tmp\<rparr>) stm
      in (0, if wait_clear 10 (mii_busy hw) = 10 then stm else upd_mac (mii_transfer hw) stm))"

definition stm32_mdio_read :: "mac_hw \<Rightarrow> u32 \<Rightarrow> u32 \<Rightarrow> eth_priv \<Rightarrow> int \<times> eth_priv" where
  "stm32_mdio_read hw phy_id reg stm =
     (let tmp = mii_address phy_id reg (macmiiar (mac stm)) OR (mac_msk STM32_MAC_MIIAR_MB);
          stm = upd_mac (\<lambda>r. r\<lparr>macmiiar := tmp\<rparr>) stm
      in if wait_clear 10 (mii_busy hw) = 10 then (0xFFFF, stm)
         else (let stm = upd_mac (mii_transfer hw) stm in (sint (macmiidr (mac stm)), stm)))"

text \<open>The state of the PHY that the PHY layer reports.\<close>

record phy_device =
  phy_link :: int
  phy_speed :: int
  phy_duplex :: int

definition stm32_handle_link_change :: "phy_device \<Rightarrow> eth_priv \<Rightarrow> eth_priv" where
  "stm32_handle_link_change phydev stm =
     (let (stm, change) =
            (if phy_link phydev \<noteq> 0 \<and> (eth_speed stm \<noteq> phy_speed phydev \<or> eth_duplex stm \<noteq> phy_duplex phydev)
             then (stm\<lparr>eth_speed := phy_speed phydev, eth_duplex := phy_duplex phydev\<rparr>, True) else (stm, False));
          (stm, change) =
            (if phy_link phydev \<noteq> eth_link stm
             then (let stm = (if phy_link phydev = 0 then stm\<lparr>eth_speed := 0, eth_duplex := -1\<rparr> else stm)
                   in (stm\<lparr>eth_link := phy_link phydev\<rparr>, True))
             else (stm, change))
      in if change then stm32_params_setup stm else stm)"

text \<open>The first PHY of the bus. \<open>phy_map\<close> has the identifiers that were read, \<open>connect\<close> is the error of the PHY layer, 0 if none.\<close>

definition PHY_MAX_ADDR :: nat where "PHY_MAX_ADDR = 32"

definition stm32_mii_probe :: "(nat \<Rightarrow> u32 option) \<Rightarrow> (nat \<Rightarrow> int) \<Rightarrow> eth_priv \<Rightarrow> int \<times> eth_priv" where
  "stm32_mii_probe phy_map connect stm =
     (case find (\<lambda>a. case phy_map a of None \<Rightarrow> False | Some phy \<Rightarrow> phy \<noteq> 0xFFFF) [0 ..< PHY_MAX_ADDR] of
        None \<Rightarrow> (- ENODEV, stm)
      | Some addr \<Rightarrow>
          if connect addr \<noteq> 0 then (connect addr, stm)
          else (0, stm\<lparr>eth_link := 0, eth_speed := 0, eth_duplex := -1\<rparr>))"

text \<open>\<open>bus\<close> and \<open>irqs\<close> are whether the allocations succeed, \<open>registered\<close> is the result of registering the bus.\<close>

definition stm32_mii_init :: "bool \<Rightarrow> bool \<Rightarrow> int \<Rightarrow> (nat \<Rightarrow> u32 option) \<Rightarrow> (nat \<Rightarrow> int) \<Rightarrow> eth_priv \<Rightarrow> int \<times> eth_priv" where
  "stm32_mii_init bus irqs registered phy_map connect stm =
     (if \<not> bus then (- ENOMEM, stm)
      else if \<not> irqs then (- ENOMEM, stm)
      else if registered \<noteq> 0 then (registered, stm)
      else stm32_mii_probe phy_map connect stm)"

section \<open>The network device\<close>

definition napi_enable :: "eth_priv \<Rightarrow> fault + eth_priv" where
  "napi_enable stm = (if \<not> napi_sched stm then Inl BugOn else Inr (stm\<lparr>napi_sched := False\<rparr>))"

text \<open>The function waits for a poll that runs; the model has the state after the wait.\<close>

definition napi_disable :: "eth_priv \<Rightarrow> eth_priv" where
  "napi_disable stm = stm\<lparr>napi_sched := True, napi_off := False\<rparr>"

text \<open>The driver in its surroundings: the interrupts, the chip and the PHY layer, of which only whether it was started matters.\<close>

record eth_board =
  brd_eth :: eth_priv
  brd_world :: irq_world
  phy_running :: bool

text \<open>What opening the device depends on besides its state.\<close>

record eth_env =
  env_mac :: mac_hw
  env_sram :: sram_content
  env_exti :: pr_hw
  env_hclk :: u32
  env_addr :: "u8 list"
  env_handler :: nat
  env_dev :: u32

definition stm32_netdev_open :: "eth_env \<Rightarrow> bool \<Rightarrow> eth_board \<Rightarrow> fault + int \<times> eth_board" where
  "stm32_netdev_open en kmem b =
     (let stm = (brd_eth b)\<lparr>eth_link := 0, eth_duplex := -1, eth_speed := -1\<rparr>;
          b = b\<lparr>phy_running := True\<rparr>; w = brd_world b
      in and_then (stm32_eth_buffers_alloc (env_sram en) stm) (\<lambda>stm.
         and_then (napi_enable stm) (\<lambda>stm.
           (let (rv, stm, s) = stm32_eth_hw_start (env_mac en) (env_hclk en) (env_addr en) (stm, iw_soc w); w = w\<lparr>iw_soc := s\<rparr> in
            if rv \<noteq> 0 then Inr (rv, b\<lparr>brd_eth := stm32_eth_buffers_free (napi_disable stm), brd_world := w, phy_running := False\<rparr>)
            else
              (let stm = stm\<lparr>rx_done_idx := 0, tx_todo_idx := 0, tx_done_idx := 0, tx_pending := 0, tx_blocked := 0\<rparr> in
               and_then (request_irq (env_exti en) kmem STM32_MAC_IRQ (Some (env_handler en)) (irqf IRQF_SHARED) (env_dev en) w) (\<lambda>(rv, w).
                 if rv \<noteq> 0
                 then Inr (rv, b\<lparr>brd_eth := stm32_eth_buffers_free (stm32_eth_hw_stop (napi_disable stm)), brd_world := w, phy_running := False\<rparr>)
                 else
                   (let stm = upd_mac (\<lambda>r. r\<lparr>dmaier := dmaier r OR
                          ((mac_irq STM32_MAC_DMAIER_TIE) OR (mac_irq STM32_MAC_DMAIER_RIE) OR (mac_msk STM32_MAC_DMASR_NIS) OR (mac_msk STM32_MAC_DMASR_AIS))\<rparr>) stm
                    in Inr (0, b\<lparr>brd_eth := stm\<lparr>queue_stopped := False\<rparr>, brd_world := w\<rparr>))))))))"

definition stm32_netdev_close :: "eth_env \<Rightarrow> eth_board \<Rightarrow> (fault + int \<times> eth_board) option" where
  "stm32_netdev_close en b =
     (let stm = napi_disable (brd_eth b);
          stm = stm\<lparr>queue_stopped := True\<rparr>;
          stm = upd_mac (\<lambda>r. r\<lparr>dmaier := dmaier r AND NOT
                  ((mac_irq STM32_MAC_DMAIER_TIE) OR (mac_irq STM32_MAC_DMAIER_RIE) OR (mac_msk STM32_MAC_DMASR_NIS) OR (mac_msk STM32_MAC_DMASR_AIS))\<rparr>) stm
      in case free_irq (env_exti en) STM32_MAC_IRQ (env_dev en) (brd_world b) of
           None \<Rightarrow> None
         | Some (Inl f) \<Rightarrow> Some (Inl f)
         | Some (Inr w) \<Rightarrow> Some (Inr (0, b\<lparr>brd_eth := stm32_eth_buffers_free (stm32_eth_hw_stop stm), brd_world := w\<rparr>)))"

text \<open>The private data of a new network device is zeroed.\<close>

definition eth_priv_new :: eth_priv where
  "eth_priv_new = \<lparr>mac = mac0, eth_stat = stats0, eth_link = 0, eth_speed = 0, eth_duplex = 0, rx_bd = [], rx_bd_dma_addr = 0,
     tx_bd = [], tx_bd_dma_addr = 0, rx_skb = [], tx_skb = [], rx_done_idx = 0, tx_todo_idx = 0, tx_done_idx = 0, tx_pending = 0,
     tx_blocked = 0, frame_max_size = 0, rx_buf_num = 0, tx_buf_num = 0, sram_pointer = 0, queue_stopped = False, napi_sched = False, napi_off = False,
     received = []\<rparr>"

text \<open>
  The probe of the device, but for its address. The arguments are whether the network device can be allocated, whether the command line has an
  address, whether the platform device has its resources, and the results of registering the device and of \<^verbatim>\<open>stm32_mii_init\<close>, which
  also sets the state of the link. An error removes the device again.
  The two arrays of pointers to buffers are not initialised here; only their length is used before opening the device fills them.
\<close>

definition stm32_plat_probe :: "bool \<Rightarrow> bool \<Rightarrow> bool \<Rightarrow> int \<Rightarrow> (eth_priv \<Rightarrow> int \<times> eth_priv) \<Rightarrow> sram_content \<Rightarrow> stm32_eth_data option
    \<Rightarrow> fault + int \<times> eth_priv option" where
  "stm32_plat_probe etherdev ethaddr resources registered mii m pdata =
     (if \<not> etherdev then Inr (- ENOMEM, None)
      else if pdata = None \<and> \<not> ethaddr then Inl NullCall
      else if \<not> resources then Inr (- EINVAL, None)
      else case pdata of None \<Rightarrow> Inl NullCall
      | Some data \<Rightarrow>
          if data_frame_max_size data < 64 \<or> (bd_msk STM32_DMA_RBD_FL_MSK) < data_frame_max_size data then Inr (- EINVAL, None)
          else if data_tx_buf_num data = 0 \<or> data_rx_buf_num data = 0 then Inr (- EINVAL, None)
          else
            (let stm = eth_priv_new\<lparr>sram_pointer := ALIGN STM32_SRAM 4, napi_sched := True,
                   frame_max_size := data_frame_max_size data, rx_buf_num := data_rx_buf_num data, tx_buf_num := data_tx_buf_num data\<rparr>
             in and_then (stm32_sram_alloc (rx_buf_num stm * 4) stm) (\<lambda>(base, stm).
                and_then (stm32_sram_alloc (tx_buf_num stm * 4) (stm\<lparr>rx_skb := replicate (unat (rx_buf_num stm)) (fake_at m base 0)\<rparr>)) (\<lambda>(base, stm).
                  (let stm = stm\<lparr>tx_skb := replicate (unat (tx_buf_num stm)) (fake_at m base 0)\<rparr> in
                   if registered \<noteq> 0 then Inr (- ENODEV, None)
                   else (let (rv, stm) = mii stm in Inr (rv, if rv = 0 then Some stm else None)))))))"

end
