(* ===== verification/Dataflow.thy ===== *)
theory Dataflow
  imports Main
begin

text \<open>
  The interface of the data paths: a component takes items, holds some of them and sends the others on. If every step of it
  only takes new items at the end and sends held items from the front, then under any sequence of steps everything taken
  was sent in the same order or is still held. The transmit ring of the Ethernet driver and both directions of the serial
  driver are such channels.
\<close>

locale channel =
  fixes step :: "'s \<Rightarrow> 's \<Rightarrow> bool"
    and inv :: "'s \<Rightarrow> bool"
    and taken :: "'s \<Rightarrow> 'a list"
    and held :: "'s \<Rightarrow> 'a list"
    and sent :: "'s \<Rightarrow> 'a list"
  assumes step_inv: "inv s \<Longrightarrow> step s s' \<Longrightarrow> inv s'"
    and step_flow: "inv s \<Longrightarrow> step s s' \<Longrightarrow>
      \<exists>xs ys. taken s' = taken s @ xs \<and> sent s' = sent s @ ys \<and> held s @ xs = ys @ held s'"
begin

lemma steps_inv: "step\<^sup>*\<^sup>* s s' \<Longrightarrow> inv s \<Longrightarrow> inv s'"
  by (induction rule: rtranclp_induct) (auto intro: step_inv)

lemma steps_fifo:
  assumes "step\<^sup>*\<^sup>* s s'" "inv s" "taken s = sent s @ held s"
  shows "taken s' = sent s' @ held s'"
  using assms
proof (induction rule: rtranclp_induct)
  case (step y z)
  then have "taken y = sent y @ held y" "inv y" using steps_inv by blast+
  moreover obtain xs ys where "taken z = taken y @ xs" "sent z = sent y @ ys" "held y @ xs = ys @ held z"
    using step_flow [OF \<open>inv y\<close> step.hyps(2)] by blast
  ultimately show ?case by simp
qed simp

end

end
