(* ===== verification/Eth_Tx.thy ===== *)
theory Eth_Tx
  imports Eth Irq_Nest Dataflow
begin

text \<open>
  The transmit ring of the Ethernet driver together with the DMA that empties it. The flow of frames through it
  is an instance of a general law: what goes into a channel comes out of it in the same order,
  or is still inside.
\<close>

section \<open>The ring\<close>

text \<open>Slot \<open>i\<close> of the ring, counted from the oldest descriptor in use, who owns a descriptor, and the frame in its buffer.\<close>

definition tx_slot :: "eth_priv \<Rightarrow> nat \<Rightarrow> nat" where
  "tx_slot e i = (unat (tx_done_idx e) + i) mod unat (tx_buf_num e)"

definition tx_own :: "eth_priv \<Rightarrow> nat \<Rightarrow> bool" where
  "tx_own e j \<longleftrightarrow> flag (bd_msk STM32_DMA_TBD_DMA_OWN) (bd_stat (tx_bd e ! j))"

definition tx_frame :: "eth_priv \<Rightarrow> nat \<Rightarrow> frame" where
  "tx_frame e j = take (unat (bd_ctrl (tx_bd e ! j))) (fake_data (tx_skb e ! j))"

definition tx_held :: "eth_priv \<Rightarrow> frame list" where
  "tx_held e = map (tx_frame e) (filter (tx_own e) (map (tx_slot e) [0 ..< unat (tx_pending e)]))"

text \<open>The shape of the ring: the descriptors in use are first those the DMA is done with, then those it owns,
  the first of which is the one it looks at.\<close>

definition tx_shape :: "eth_priv \<Rightarrow> bool" where
  "tx_shape e \<longleftrightarrow> length (tx_bd e) = unat (tx_buf_num e) \<and> length (tx_skb e) = unat (tx_buf_num e) \<and> 0 < unat (tx_buf_num e)
     \<and> unat (tx_done_idx e) < unat (tx_buf_num e) \<and> unat (tx_pending e) \<le> unat (tx_buf_num e)
     \<and> unat (tx_todo_idx e) = tx_slot e (unat (tx_pending e))
     \<and> (\<forall>b \<in> set (tx_skb e). unat (frame_max_size e) \<le> length (fake_data b))"

definition tx_split :: "eth_priv \<Rightarrow> nat \<Rightarrow> nat \<Rightarrow> bool" where
  "tx_split e cur k \<longleftrightarrow> k \<le> unat (tx_pending e) \<and> cur = tx_slot e k
     \<and> (\<forall>i < unat (tx_buf_num e). tx_own e (tx_slot e i) \<longleftrightarrow> k \<le> i \<and> i < unat (tx_pending e))"

definition tx_inv :: "eth_priv \<Rightarrow> nat \<Rightarrow> bool" where
  "tx_inv e cur \<longleftrightarrow> tx_shape e \<and> (\<exists>k. tx_split e cur k)"

lemma own_bit: "flag (bd_msk STM32_DMA_TBD_DMA_OWN) x \<longleftrightarrow> bit x 31"
  using flag_bit [of 31 x] by (simp add: STM32_DMA_TBD_DMA_OWN_def)

lemma tx_slot_less: "tx_shape e \<Longrightarrow> tx_slot e i < unat (tx_buf_num e)"
  by (simp add: tx_shape_def tx_slot_def)

lemma tx_slot_inj: "tx_slot e i = tx_slot e j \<Longrightarrow> i < unat (tx_buf_num e) \<Longrightarrow> j < unat (tx_buf_num e) \<Longrightarrow> i = j"
  unfolding tx_slot_def by (rule mod_add_inj)

lemma filter_ge_upt: "k \<le> n \<Longrightarrow> filter ((\<le>) k) [0 ..< n] = [k ..< n]"
  by (induction n) (auto simp: le_Suc_eq)

lemma tx_held_split:
  assumes "tx_split e cur k" "unat (tx_pending e) \<le> unat (tx_buf_num e)"
  shows "tx_held e = map (\<lambda>i. tx_frame e (tx_slot e i)) [k ..< unat (tx_pending e)]"
proof -
  have "filter (\<lambda>i. tx_own e (tx_slot e i)) [0 ..< unat (tx_pending e)] = filter (\<lambda>i. k \<le> i) [0 ..< unat (tx_pending e)]"
    using assms by (intro filter_cong) (auto simp: tx_split_def)
  also have "\<dots> = [k ..< unat (tx_pending e)]"
    using assms(1) by (simp add: tx_split_def filter_ge_upt)
  finally show ?thesis by (simp add: tx_held_def filter_map comp_def)
qed

text \<open>The fields that matter here.\<close>

definition tx_eq :: "eth_priv \<Rightarrow> eth_priv \<Rightarrow> bool" where
  "tx_eq e e' \<longleftrightarrow> tx_bd e = tx_bd e' \<and> tx_skb e = tx_skb e' \<and> tx_done_idx e = tx_done_idx e' \<and> tx_todo_idx e = tx_todo_idx e'
     \<and> tx_pending e = tx_pending e' \<and> tx_buf_num e = tx_buf_num e' \<and> frame_max_size e = frame_max_size e'"

lemma tx_eq_cong:
  assumes "tx_eq e e'"
  shows "tx_inv e cur = tx_inv e' cur" "tx_held e = tx_held e'"
  using assms unfolding tx_eq_def tx_inv_def tx_shape_def tx_split_def tx_held_def tx_own_def [abs_def] tx_slot_def [abs_def] tx_frame_def [abs_def]
  by simp_all

section \<open>The driver\<close>

lemma reap_step:
  assumes "tx_inv e cur" "tx_pending e \<noteq> 0" "\<not> tx_own e (unat (tx_done_idx e))"
  defines "e1 \<equiv> e\<lparr>tx_pending := tx_pending e - 1, tx_done_idx := (tx_done_idx e + 1) mod tx_buf_num e\<rparr>"
  shows "tx_inv e1 cur" "tx_held e1 = tx_held e"
proof -
  let ?n = "unat (tx_buf_num e)" and ?p = "unat (tx_pending e)"
  obtain k where sh: "tx_shape e" and k: "tx_split e cur k" using assms(1) by (auto simp: tx_inv_def)
  have n: "0 < ?n" "unat (tx_done_idx e) < ?n" "?p \<le> ?n" using sh by (auto simp: tx_shape_def)
  have p: "0 < ?p" "unat (tx_pending e1) = ?p - 1" using assms(2) by (auto simp: e1_def unat_gt_0 unat_minus_one)
  have d: "unat (tx_done_idx e1) = (unat (tx_done_idx e) + 1) mod ?n" by (simp add: e1_def unat_succ_mod n)
  have n1: "unat (tx_buf_num e1) = ?n" by (simp add: e1_def)
  have slot: "tx_slot e1 i = tx_slot e (Suc i)" for i by (simp add: tx_slot_def d n1 mod_simps)
  have same: "tx_own e1 = tx_own e" "tx_frame e1 = tx_frame e" by (simp_all add: tx_own_def [abs_def] tx_frame_def [abs_def] e1_def)
  have "tx_slot e 0 = unat (tx_done_idx e)" using n by (simp add: tx_slot_def)
  then have k0: "0 < k" using k n p assms(3) unfolding tx_split_def by (metis gr0I le0)
  have "tx_shape e1" using sh p slot [of "?p - 1"] unfolding tx_shape_def n1 d p(2) by (simp add: e1_def) linarith
  moreover have sp: "tx_split e1 cur (k - 1)"
    unfolding tx_split_def n1 p(2)
  proof (intro conjI allI impI)
    show "k - 1 \<le> ?p - 1" "cur = tx_slot e1 (k - 1)" using k k0 by (auto simp: tx_split_def slot)
    fix i assume "i < ?n"
    show "tx_own e1 (tx_slot e1 i) \<longleftrightarrow> k - 1 \<le> i \<and> i < ?p - 1"
    proof (cases "Suc i < ?n")
      case True
      then show ?thesis using k k0 by (auto simp: slot same tx_split_def)
    next
      case False
      then have "Suc i = ?n" using \<open>i < ?n\<close> by simp
      then have "tx_slot e (Suc i) = tx_slot e 0" by (simp add: tx_slot_def)
      moreover have "\<not> tx_own e (tx_slot e 0)" using k n k0 by (auto simp: tx_split_def)
      ultimately show ?thesis using \<open>Suc i = ?n\<close> n by (auto simp: slot same)
    qed
  qed
  ultimately show "tx_inv e1 cur" by (auto simp: tx_inv_def)
  have "map (\<lambda>i. tx_frame e (tx_slot e (Suc i))) [k - 1 ..< ?p - 1] = map (\<lambda>i. tx_frame e (tx_slot e i)) [k ..< ?p]"
    using k0 p by (intro nth_equalityI) auto
  then show "tx_held e1 = tx_held e"
    using tx_held_split [OF k n(3)] tx_held_split [OF sp] n p by (simp add: n1 slot same)
qed

lemma tx_reap_ok:
  assumes "tx_inv e cur"
  shows "\<exists>e'. tx_reap e = Inr e' \<and> tx_inv e' cur \<and> tx_held e' = tx_held e \<and> tx_blocked e' = tx_blocked e \<and> tx_buf_num e' = tx_buf_num e
    \<and> (tx_pending e' = 0 \<or> tx_own e' (unat (tx_done_idx e')))"
  using assms
proof (induction e rule: tx_reap.induct)
  case (1 e)
  let ?i = "unat (tx_done_idx e)"
  have sh: "?i < length (tx_bd e)" "?i < length (tx_skb e)" "tx_buf_num e \<noteq> 0" using 1(2) by (auto simp: tx_inv_def tx_shape_def)
  show ?case
  proof (cases "tx_pending e = 0 \<or> tx_own e ?i")
    case True
    then have "tx_reap e = Inr e" using sh by (auto simp: tx_reap.simps [of e] tx_own_def)
    with True 1(2) show ?thesis by auto
  next
    case False
    define e1 where "e1 = e\<lparr>tx_pending := tx_pending e - 1, tx_done_idx := (tx_done_idx e + 1) mod tx_buf_num e\<rparr>"
    define e2 where "e2 = upd_stat (tx_account (bd_stat (tx_bd e ! ?i)) (fake_len (tx_skb e ! ?i))) e
      \<lparr>tx_pending := tx_pending e - 1, tx_done_idx := (tx_done_idx e + 1) mod tx_buf_num e\<rparr>"
    have "tx_eq e2 e1" by (simp add: e1_def e2_def tx_eq_def upd_stat_def)
    then have e2: "tx_inv e2 cur" "tx_held e2 = tx_held e" "tx_blocked e2 = tx_blocked e" "tx_buf_num e2 = tx_buf_num e"
      using reap_step [OF 1(2), folded e1_def] False tx_eq_cong by (auto simp: e2_def upd_stat_def)
    have "tx_reap e = tx_reap e2" using False sh by (simp add: tx_reap.simps [of e] tx_own_def e2_def Let_def)
    moreover have "\<exists>e'. tx_reap e2 = Inr e' \<and> tx_inv e' cur \<and> tx_held e' = tx_held e2 \<and> tx_blocked e' = tx_blocked e2 \<and> tx_buf_num e' = tx_buf_num e2
        \<and> (tx_pending e' = 0 \<or> tx_own e' (unat (tx_done_idx e')))"
      using 1(1) [of ?i "bd_stat (tx_bd e ! ?i)"] False sh e2(1) by (auto simp: e2_def tx_own_def)
    ultimately show ?thesis using e2 by auto
  qed
qed

lemma tx_complete_ok:
  assumes "tx_inv e cur"
  shows "\<exists>e'. stm32_eth_tx_complete e = Inr e' \<and> tx_inv e' cur \<and> tx_held e' = tx_held e"
proof -
  obtain e1 where e1: "tx_reap e = Inr e1" "tx_inv e1 cur" "tx_held e1 = tx_held e" using tx_reap_ok [OF assms] by blast
  define e' where "e' = (if tx_blocked e1 \<noteq> 0 then e1\<lparr>tx_blocked := 0, queue_stopped := False\<rparr> else e1)"
  have "tx_eq e' e1" by (simp add: e'_def tx_eq_def)
  then show ?thesis using e1 tx_eq_cong by (auto simp: stm32_eth_tx_complete_def e'_def)
qed

lemma eth_irq_ok:
  assumes "tx_inv e cur"
  shows "\<exists>r e'. stm32_eth_irq e = Inr (r, e') \<and> tx_inv e' cur \<and> tx_held e' = tx_held e"
proof -
  have eq: "tx_eq (upd_mac f e) e" "tx_eq (upd_stat g e) e" "tx_eq (snd (napi_schedule_prep e)) e" for f g e
    by (simp_all add: tx_eq_def upd_mac_def upd_stat_def napi_schedule_prep_def)
  have tr: "tx_eq a b \<Longrightarrow> tx_eq b c \<Longrightarrow> tx_eq a c" for a b c by (simp add: tx_eq_def)
  let ?st = "dmasr (mac e)" and ?e1 = "upd_mac (\<lambda>r. r\<lparr>dmasr := dmasr r AND NOT (dmasr (mac e))\<rparr>) e"
  define e2 where "e2 = (if flag (mac_irq STM32_MAC_DMASR_RX_MSK) ?st then
      (let e = (if flag (mac_irq STM32_MAC_DMASR_ROS) ?st then upd_stat (\<lambda>st. st\<lparr>rx_over_errors := rx_over_errors st + 1\<rparr>) ?e1 else ?e1);
           (prep, e) = napi_schedule_prep e
       in if prep then upd_mac (\<lambda>r. r\<lparr>dmaier := dmaier r AND NOT (mac_irq STM32_MAC_DMAIER_RIE)\<rparr>) e else e)
     else ?e1)"
  have "tx_eq e2 ?e1" unfolding e2_def using eq tr by (simp add: split_beta Let_def tx_eq_def)
  then have "tx_eq e2 e" using eq(1) tr by blast
  define e3 where "e3 = (if flag (mac_irq STM32_MAC_DMASR_TUS) ?st then upd_stat (\<lambda>st. st\<lparr>tx_fifo_errors := tx_fifo_errors st + 1\<rparr>) e2 else e2)"
  have "tx_eq e3 e" using \<open>tx_eq e2 e\<close> by (simp add: e3_def tx_eq_def upd_stat_def)
  then have "tx_inv e3 cur" "tx_held e3 = tx_held e" using assms tx_eq_cong by auto
  then obtain e4 where e4: "stm32_eth_tx_complete e3 = Inr e4" "tx_inv e4 cur" "tx_held e4 = tx_held e" using tx_complete_ok by metis
  have "stm32_eth_irq e = (if ?st = 0 then Inr (IRQ_NONE, ?e1) else and_then (if flag (mac_irq STM32_MAC_DMASR_TX_MSK) ?st then stm32_eth_tx_complete e3 else Inr e2) (\<lambda>e. Inr (IRQ_HANDLED, e)))"
    unfolding stm32_eth_irq_def e3_def e2_def Let_def ..
  then show ?thesis using e4 assms tx_eq_cong [OF eq(1)] tx_eq_cong [OF \<open>tx_eq e2 e\<close>] by auto
qed

lemma xmit_ok:
  assumes "tx_inv e cur"
  shows "\<exists>rv e'. stm32_netdev_xmit skb e = Inr (rv, e') \<and> tx_inv e' cur
    \<and> tx_held e' = tx_held e @ (if rv = NETDEV_TX_OK \<and> length skb \<le> unat (frame_max_size e) then [skb] else [])"
proof (cases "unat (frame_max_size e) < length skb \<or> tx_blocked e \<noteq> 0 \<or> tx_buf_num e \<le> tx_pending e")
  case True
  then show ?thesis using assms tx_eq_cong [of "upd_stat f e" e for f]
    by (auto simp: stm32_netdev_xmit_def xmit_capture_def NETDEV_TX_OK_def NETDEV_TX_BUSY_def tx_eq_def upd_stat_def)
next
  case False
  let ?n = "unat (tx_buf_num e)" and ?p = "unat (tx_pending e)" and ?i = "unat (tx_todo_idx e)"
  obtain k where sh: "tx_shape e" and k: "tx_split e cur k" using assms by (auto simp: tx_inv_def)
  have pn: "?p < ?n" using False by (simp add: word_le_nat_alt)
  then have "?p + 1 < 2 ^ 32" using unsigned_less [of "tx_buf_num e", where 'a = nat] by simp
  then have p1: "unat (tx_pending e + 1) = ?p + 1" by (simp add: unat_word_ariths)
  have i: "?i = tx_slot e ?p" "?i < ?n" "?i < length (tx_bd e)" "?i < length (tx_skb e)"
    using sh tx_slot_less [OF sh] by (auto simp: tx_shape_def)
  have "unat (frame_max_size e) \<le> length (fake_data (tx_skb e ! ?i))" using sh i(4) by (auto simp: tx_shape_def)
  then have room: "length skb \<le> length (fake_data (tx_skb e ! ?i))" using False by linarith
  have len: "unat (of_nat (length skb) :: u32) = length skb"
    using False unsigned_less [of "frame_max_size e", where 'a = nat] by (simp add: unat_of_nat)
  obtain e1 where e1: "xmit_program ?i skb (e\<lparr>tx_todo_idx := (tx_todo_idx e + 1) mod tx_buf_num e, tx_pending := tx_pending e + 1\<rparr>) = Inr e1"
    "tx_bd e1 = (tx_bd e)[?i := (tx_bd e ! ?i)\<lparr>bd_ctrl := of_nat (length skb),
        bd_stat := bd_stat (tx_bd e ! ?i) OR ((bd_msk STM32_DMA_TBD_FS) OR (bd_msk STM32_DMA_TBD_LS) OR (bd_msk STM32_DMA_TBD_DMA_OWN))\<rparr>]"
    "tx_skb e1 = (tx_skb e)[?i := (tx_skb e ! ?i)\<lparr>fake_data := skb @ drop (length skb) (fake_data (tx_skb e ! ?i)), fake_len := of_nat (length skb)\<rparr>]"
    "tx_pending e1 = tx_pending e + 1" "tx_todo_idx e1 = (tx_todo_idx e + 1) mod tx_buf_num e" "tx_done_idx e1 = tx_done_idx e"
    "tx_buf_num e1 = tx_buf_num e" "frame_max_size e1 = frame_max_size e"
    using i room by (simp add: xmit_program_def Let_def upd_mac_def)
  have slot: "tx_slot e1 = tx_slot e" by (simp add: tx_slot_def [abs_def] e1)
  have own: "tx_own e1 j \<longleftrightarrow> j = ?i \<or> tx_own e j" if "j < ?n" for j
  proof -
    have "bit (bd_msk STM32_DMA_TBD_DMA_OWN) 31" by (simp add: STM32_DMA_TBD_DMA_OWN_def bit_iff_odd)
    then show ?thesis using that i by (auto simp: tx_own_def own_bit e1 nth_list_update bit_or_iff)
  qed
  have frame: "tx_frame e1 j = (if j = ?i then skb else tx_frame e j)" if "j < ?n" for j
    using that i sh len by (auto simp: tx_frame_def e1 nth_list_update tx_shape_def)
  have shape: "tx_shape e1"
    using sh p1 pn room unat_succ_mod [of "tx_todo_idx e" "tx_buf_num e"] i(1,2)
    by (auto simp: tx_shape_def e1 slot tx_slot_def mod_simps dest!: subsetD [OF set_update_subset_insert])
  have sp: "tx_split e1 cur k"
    unfolding tx_split_def
  proof (intro conjI allI impI)
    show "k \<le> unat (tx_pending e1)" "cur = tx_slot e1 k" using k by (auto simp: tx_split_def e1 p1 slot)
    fix j assume "j < unat (tx_buf_num e1)"
    then have j: "j < ?n" by (simp add: e1)
    show "tx_own e1 (tx_slot e1 j) \<longleftrightarrow> k \<le> j \<and> j < unat (tx_pending e1)"
      using own [OF tx_slot_less [OF sh]] tx_slot_inj [of e j ?p] j pn k i(1) by (cases "j = ?p") (auto simp: slot tx_split_def e1 p1)
  qed
  define e' where "e' = xmit_finish e1"
  have "tx_eq e' e1" by (simp add: e'_def xmit_finish_def tx_eq_def)
  moreover have "stm32_netdev_xmit skb e = Inr (NETDEV_TX_OK, e')"
    using False e1(1) by (simp add: stm32_netdev_xmit_def xmit_capture_def e'_def)
  moreover have "tx_held e1 = tx_held e @ [skb]"
  proof -
    have kp: "k \<le> ?p" using k by (simp add: tx_split_def)
    have "map (\<lambda>j. tx_frame e1 (tx_slot e j)) [k ..< ?p] = map (\<lambda>j. tx_frame e (tx_slot e j)) [k ..< ?p]"
    proof (intro map_cong)
      fix j assume "j \<in> set [k ..< ?p]"
      then have "tx_slot e j \<noteq> ?i" using tx_slot_inj [of e j ?p] pn i(1) by fastforce
      then show "tx_frame e1 (tx_slot e j) = tx_frame e (tx_slot e j)" using frame [OF tx_slot_less [OF sh]] by simp
    qed simp
    moreover have "tx_frame e1 (tx_slot e ?p) = skb" using frame [of ?i] i by simp
    ultimately show ?thesis using tx_held_split [OF k] tx_held_split [OF sp] pn kp by (simp add: e1 p1 slot)
  qed
  ultimately show ?thesis using tx_eq_cong [of e' e1] shape sp False by (auto simp: tx_inv_def)
qed

section \<open>The driver and the DMA\<close>

text \<open>
  \<open>tx_cur\<close> is the descriptor the DMA looks at, \<open>tx_wire\<close> what it has sent, \<open>tx_taken\<close> the frames that the driver accepted
  (it drops those above the maximal size). The DMA sends the frame of a descriptor it owns, gives it back with any
  status, sets any interrupt flags and goes on to the next one in the chain.
\<close>

record tx_sys =
  tx_drv :: eth_priv
  tx_cur :: nat
  tx_wire :: "frame list"
  tx_taken :: "frame list"

inductive tx_step :: "tx_sys \<Rightarrow> tx_sys \<Rightarrow> bool" where
  xmit: "stm32_netdev_xmit skb (tx_drv s) = Inr (rv, e) \<Longrightarrow>
    tx_step s (s\<lparr>tx_drv := e, tx_taken := tx_taken s @ (if rv = NETDEV_TX_OK \<and> length skb \<le> unat (frame_max_size (tx_drv s)) then [skb] else [])\<rparr>)"
| irq: "stm32_eth_irq (tx_drv s) = Inr (r, e) \<Longrightarrow> tx_step s (s\<lparr>tx_drv := e\<rparr>)"
| dma: "tx_own (tx_drv s) (tx_cur s) \<Longrightarrow> \<not> flag (bd_msk STM32_DMA_TBD_DMA_OWN) st \<Longrightarrow>
    tx_step s (s\<lparr>tx_drv := upd_mac (\<lambda>r. r\<lparr>dmasr := sr\<rparr>) ((tx_drv s)\<lparr>tx_bd := (tx_bd (tx_drv s))[tx_cur s := (tx_bd (tx_drv s) ! tx_cur s)\<lparr>bd_stat := st\<rparr>]\<rparr>),
                 tx_wire := tx_wire s @ [tx_frame (tx_drv s) (tx_cur s)],
                 tx_cur := (tx_cur s + 1) mod unat (tx_buf_num (tx_drv s))\<rparr>)"

lemma dma_ok:
  fixes f :: "mac_regs \<Rightarrow> mac_regs"
  assumes "tx_inv e cur" "tx_own e cur" "\<not> flag (bd_msk STM32_DMA_TBD_DMA_OWN) st"
  defines "e' \<equiv> upd_mac f (e\<lparr>tx_bd := (tx_bd e)[cur := (tx_bd e ! cur)\<lparr>bd_stat := st\<rparr>]\<rparr>)"
  shows "tx_inv e' ((cur + 1) mod unat (tx_buf_num e))" "tx_held e = tx_frame e cur # tx_held e'"
proof -
  let ?n = "unat (tx_buf_num e)" and ?p = "unat (tx_pending e)"
  obtain k where sh: "tx_shape e" and k: "tx_split e cur k" using assms(1) by (auto simp: tx_inv_def)
  have n: "0 < ?n" "?p \<le> ?n" "cur < length (tx_bd e)" using sh tx_slot_less [OF sh, of k] k by (auto simp: tx_shape_def tx_split_def)
  have kp: "k < ?p"
  proof (cases "k < ?n")
    case True
    then show ?thesis using k assms(2) by (auto simp: tx_split_def)
  next
    case False
    then have "k = ?n" using k n by (simp add: tx_split_def)
    then have "cur = tx_slot e 0" using k by (simp add: tx_split_def tx_slot_def)
    then show ?thesis using k n assms(2) \<open>k = ?n\<close> by (auto simp: tx_split_def)
  qed
  have f: "tx_done_idx e' = tx_done_idx e" "tx_buf_num e' = tx_buf_num e" "tx_pending e' = tx_pending e" "tx_skb e' = tx_skb e"
    "tx_todo_idx e' = tx_todo_idx e" "frame_max_size e' = frame_max_size e" "tx_bd e' = (tx_bd e)[cur := (tx_bd e ! cur)\<lparr>bd_stat := st\<rparr>]"
    by (simp_all add: e'_def upd_mac_def)
  have slot: "tx_slot e' = tx_slot e" by (simp add: tx_slot_def [abs_def] f)
  have upd: "tx_bd e' ! j = (if j = cur then (tx_bd e ! cur)\<lparr>bd_stat := st\<rparr> else tx_bd e ! j)" for j using n(3) by (simp add: f nth_list_update)
  have frame: "tx_frame e' = tx_frame e" by (rule ext) (simp add: tx_frame_def upd f(4))
  have own: "tx_own e' j \<longleftrightarrow> j \<noteq> cur \<and> tx_own e j" for j
    using assms(3) by (auto simp: tx_own_def upd)
  have "tx_shape e'" using sh by (simp add: tx_shape_def f slot)
  moreover have sp: "tx_split e' ((cur + 1) mod ?n) (Suc k)"
    unfolding tx_split_def f slot
  proof (intro conjI allI impI)
    show "Suc k \<le> ?p" "(cur + 1) mod ?n = tx_slot e (Suc k)" using kp k by (simp_all add: tx_split_def tx_slot_def mod_simps)
    fix i assume "i < ?n"
    show "tx_own e' (tx_slot e i) \<longleftrightarrow> Suc k \<le> i \<and> i < ?p"
      using own [of "tx_slot e i"] k tx_slot_inj [of e i k] \<open>i < ?n\<close> kp n by (cases "i = k") (auto simp: tx_split_def)
  qed
  ultimately show "tx_inv e' ((cur + 1) mod ?n)" by (auto simp: tx_inv_def)
  have "tx_held e = map (\<lambda>i. tx_frame e (tx_slot e i)) (k # [Suc k ..< ?p])"
    using tx_held_split [OF k n(2)] kp by (simp add: upt_rec [of k])
  then show "tx_held e = tx_frame e cur # tx_held e'"
    using tx_held_split [OF sp] k n by (simp add: f slot frame tx_split_def)
qed

interpretation tx: channel tx_step "\<lambda>s. tx_inv (tx_drv s) (tx_cur s)" tx_taken "\<lambda>s. tx_held (tx_drv s)" tx_wire
proof unfold_locales
  fix s s'
  assume inv: "tx_inv (tx_drv s) (tx_cur s)" and st: "tx_step s s'"
  have "tx_inv (tx_drv s') (tx_cur s') \<and> (\<exists>xs ys. tx_taken s' = tx_taken s @ xs \<and> tx_wire s' = tx_wire s @ ys
      \<and> tx_held (tx_drv s) @ xs = ys @ tx_held (tx_drv s'))"
    using st
  proof cases
    case (xmit skb rv e)
    then show ?thesis using xmit_ok [OF inv, of skb] by auto
  next
    case (irq r e)
    then show ?thesis using eth_irq_ok [OF inv] by auto
  next
    case (dma st sr)
    then show ?thesis using dma_ok [OF inv dma(2,3)] by auto
  qed
  then show "tx_inv (tx_drv s') (tx_cur s')"
    "\<exists>xs ys. tx_taken s' = tx_taken s @ xs \<and> tx_wire s' = tx_wire s @ ys \<and> tx_held (tx_drv s) @ xs = ys @ tx_held (tx_drv s')"
    by blast+
qed

text \<open>The state after the device was opened.\<close>

definition tx_fresh :: "tx_sys \<Rightarrow> bool" where
  "tx_fresh s \<longleftrightarrow> tx_shape (tx_drv s) \<and> tx_pending (tx_drv s) = 0 \<and> tx_done_idx (tx_drv s) = 0 \<and> tx_cur s = 0 \<and> tx_wire s = [] \<and> tx_taken s = []
     \<and> (\<forall>j < unat (tx_buf_num (tx_drv s)). \<not> tx_own (tx_drv s) j)"

lemma tx_fresh_inv: "tx_fresh s \<Longrightarrow> tx_inv (tx_drv s) (tx_cur s)" "tx_fresh s \<Longrightarrow> tx_held (tx_drv s) = []"
  by (auto simp: tx_fresh_def tx_inv_def tx_split_def tx_held_def tx_slot_less intro!: exI [of _ 0]) (simp add: tx_slot_def)

text \<open>C1. As long as no interrupt falls between taking and filling a descriptor, every frame that
  \<^verbatim>\<open>stm32_netdev_xmit\<close> accepts goes out exactly once, unchanged and in order, however calls, interrupts and
  the DMA interleave: what was accepted is what is on the wire followed by what the DMA still owns, at most the
  size of the ring. The DMA is always at the first of these, so that it never misses one, and neither
  the next call nor the next interrupt reads or writes outside the rings and buffers.\<close>

theorem eth_tx_fifo:
  assumes "tx_fresh s\<^sub>0" "tx_step\<^sup>*\<^sup>* s\<^sub>0 s"
  shows "tx_taken s = tx_wire s @ tx_held (tx_drv s)
    \<and> length (tx_held (tx_drv s)) \<le> unat (tx_buf_num (tx_drv s))
    \<and> (tx_held (tx_drv s) \<noteq> [] \<longrightarrow> tx_own (tx_drv s) (tx_cur s) \<and> tx_frame (tx_drv s) (tx_cur s) = hd (tx_held (tx_drv s)))
    \<and> (\<forall>skb. \<exists>rv e. stm32_netdev_xmit skb (tx_drv s) = Inr (rv, e)) \<and> (\<exists>r e. stm32_eth_irq (tx_drv s) = Inr (r, e))"
proof -
  have inv: "tx_inv (tx_drv s) (tx_cur s)" by (rule tx.steps_inv [OF assms(2) tx_fresh_inv(1) [OF assms(1)]])
  have "tx_taken s = tx_wire s @ tx_held (tx_drv s)"
    using tx.steps_fifo [OF assms(2) tx_fresh_inv(1) [OF assms(1)]] tx_fresh_inv(2) [OF assms(1)] assms(1) by (simp add: tx_fresh_def)
  moreover obtain k where k: "tx_split (tx_drv s) (tx_cur s) k" "tx_shape (tx_drv s)" using inv by (auto simp: tx_inv_def)
  moreover have pn: "unat (tx_pending (tx_drv s)) \<le> unat (tx_buf_num (tx_drv s))" using k(2) by (simp add: tx_shape_def)
  moreover note held = tx_held_split [OF k(1) pn]
  moreover have "tx_held (tx_drv s) \<noteq> [] \<longrightarrow> tx_own (tx_drv s) (tx_cur s) \<and> tx_frame (tx_drv s) (tx_cur s) = hd (tx_held (tx_drv s))"
    using k(1) pn by (auto simp: held tx_split_def hd_map)
  moreover have "\<exists>rv e. stm32_netdev_xmit skb (tx_drv s) = Inr (rv, e)" for skb using xmit_ok [OF inv] by blast
  moreover have "\<exists>r e. stm32_eth_irq (tx_drv s) = Inr (r, e)" using eth_irq_ok [OF inv] by blast
  moreover have "length (tx_held (tx_drv s)) \<le> unat (tx_buf_num (tx_drv s))" using pn by (simp add: held)
  ultimately show ?thesis by blast
qed

section \<open>The gap in the transmit path\<close>





definition ex_tx :: tx_sys where
  "ex_tx = \<lparr>tx_drv = ex_eth, tx_cur = 0, tx_wire = [], tx_taken = []\<rparr>"



text \<open>Nor is the test of \<^verbatim>\<open>tx_pending\<close> in \<^verbatim>\<open>stm32_netdev_xmit\<close> superfluous: an interrupt that finds the ring still full clears
  \<^verbatim>\<open>tx_blocked\<close> and wakes the queue all the same.\<close>

lemma tx_wake_full:
  assumes "tx_inv e cur" "tx_pending e = tx_buf_num e" "tx_own e (unat (tx_done_idx e))" "tx_blocked e \<noteq> 0"
  shows "stm32_eth_tx_complete e = Inr (e\<lparr>tx_blocked := 0, queue_stopped := False\<rparr>)"
  using assms by (auto simp: stm32_eth_tx_complete_def tx_reap.simps [of e] tx_own_def tx_inv_def tx_shape_def Let_def)

lemma ex_tx_fresh: "tx_fresh ex_tx"
  by (auto simp: tx_fresh_def tx_shape_def ex_tx_def ex_eth_def tx_own_def own_bit tx_slot_def STM32_DMA_TBD_TCH_def bit_iff_odd)

theorem eth_tx_fifo_witness:
  "\<exists>s. tx_step\<^sup>*\<^sup>* ex_tx s \<and> tx_taken s = [[1]] \<and> tx_taken s = tx_wire s @ tx_held (tx_drv s)"
proof -
  have "xmit_capture [1] ex_eth = (Inr 0, ex_eth\<lparr>tx_todo_idx := 1, tx_pending := 1\<rparr>)"
    by (simp add: xmit_capture_def ex_eth_def)
  then obtain e where e: "stm32_netdev_xmit [1] ex_eth = Inr (NETDEV_TX_OK, e)"
    by (simp add: stm32_netdev_xmit_def xmit_program_def ex_eth_def Let_def)
  then have "tx_step ex_tx (ex_tx\<lparr>tx_drv := e, tx_taken := tx_taken ex_tx @ [[1]]\<rparr>)"
    using tx_step.xmit [of "[1]" ex_tx NETDEV_TX_OK e] by (simp add: ex_tx_def ex_eth_def)
  then have st: "tx_step\<^sup>*\<^sup>* ex_tx (ex_tx\<lparr>tx_drv := e, tx_taken := [[1]]\<rparr>)" by (simp add: ex_tx_def r_into_rtranclp)
  show ?thesis using st conjunct1 [OF eth_tx_fifo [OF ex_tx_fresh st]] by (intro exI conjI) (assumption, simp)
qed

end
