(* ===== verification/Eth_Rx.thy ===== *)
theory Eth_Rx
  imports Eth
begin

text \<open>
  The receive path of the Ethernet driver: which frames \<^verbatim>\<open>stm32_eth_rx_get\<close> hands to the network stack, and that
  the poll function neither loops for ever nor leaves a frame behind with the interrupt switched off.
\<close>

section \<open>The ring\<close>

definition rx_slot :: "eth_priv \<Rightarrow> nat \<Rightarrow> nat" where
  "rx_slot e i = (unat (rx_done_idx e) + i) mod unat (rx_buf_num e)"

definition rx_own :: "eth_priv \<Rightarrow> nat \<Rightarrow> bool" where
  "rx_own e j \<longleftrightarrow> flag (bd_msk STM32_DMA_RBD_DMA_OWN) (bd_stat (rx_bd e ! j))"

text \<open>The DMA reports a length that its buffer holds in every descriptor without error that it is done with.\<close>

definition rx_inv :: "eth_priv \<Rightarrow> bool" where
  "rx_inv e \<longleftrightarrow> length (rx_bd e) = unat (rx_buf_num e) \<and> length (rx_skb e) = unat (rx_buf_num e)
     \<and> unat (rx_done_idx e) < unat (rx_buf_num e)
     \<and> (\<forall>j < unat (rx_buf_num e). \<not> rx_own e j \<longrightarrow> \<not> flag (bd_msk STM32_DMA_RBD_ES) (bd_stat (rx_bd e ! j)) \<longrightarrow>
          unat (rx_len (bd_stat (rx_bd e ! j))) \<le> length (fake_data (rx_skb e ! j)))"

text \<open>The number of descriptors that are ready, and what becomes of one of them.\<close>

definition rx_ready :: "eth_priv \<Rightarrow> nat" where
  "rx_ready e = length (takeWhile (\<lambda>i. \<not> rx_own e (rx_slot e i)) [0 ..< unat (rx_buf_num e)])"

definition rx_frame :: "eth_priv \<Rightarrow> bool \<Rightarrow> nat \<Rightarrow> frame list" where
  "rx_frame e mem j =
     (let stat = bd_stat (rx_bd e ! j) in
      if flag (bd_msk STM32_DMA_RBD_ES) stat \<or> \<not> mem then [] else [take (unat (rx_len stat)) (fake_data (rx_skb e ! j))])"

definition rx_seen :: "eth_stats \<Rightarrow> u32" where
  "rx_seen st = rx_packets st + rx_errors st + rx_dropped st"

lemma rx_slot_less: "rx_inv e \<Longrightarrow> rx_slot e i < unat (rx_buf_num e)"
  unfolding rx_inv_def rx_slot_def by (intro mod_less_divisor) simp

lemma rx_slot_0: "rx_inv e \<Longrightarrow> rx_slot e 0 = unat (rx_done_idx e)"
  by (simp add: rx_inv_def rx_slot_def)

lemma rx_slot_Suc_neq: "Suc i < unat (rx_buf_num e) \<Longrightarrow> rx_slot e (Suc i) \<noteq> rx_slot e 0"
  using mod_add_inj [of "unat (rx_done_idx e)" "Suc i" "unat (rx_buf_num e)" 0] by (auto simp: rx_slot_def)

lemma rx_ready_le: "rx_ready e \<le> unat (rx_buf_num e)"
  unfolding rx_ready_def by (rule order_trans [OF length_takeWhile_le]) simp

lemma takeWhile_upt_Suc:
  assumes "P 0" "\<And>i. Suc i < n \<Longrightarrow> Q i = P (Suc i)" "\<not> Q (n - 1)" "0 < n"
  shows "length (takeWhile P [0 ..< n]) = Suc (length (takeWhile Q [0 ..< n]))"
proof -
  obtain m where n: "n = Suc m" using assms(4) gr0_conv_Suc by blast
  have "takeWhile P [0 ..< n] = 0 # takeWhile P (map Suc [0 ..< m])"
    using assms(1) by (simp add: n upt_conv_Cons map_Suc_upt del: upt_Suc)
  also have "takeWhile P (map Suc [0 ..< m]) = map Suc (takeWhile (\<lambda>i. P (Suc i)) [0 ..< m])" by (simp add: takeWhile_map comp_def)
  also have "takeWhile (\<lambda>i. P (Suc i)) [0 ..< m] = takeWhile Q [0 ..< m]" using assms(2) by (intro takeWhile_cong) (auto simp: n)
  finally have "length (takeWhile P [0 ..< n]) = Suc (length (takeWhile Q [0 ..< m]))" by simp
  moreover have "takeWhile Q [0 ..< n] = takeWhile Q [0 ..< m]"
    using assms(3) takeWhile_append1 [of _ "[0 ..< m]" Q "[m]"] takeWhile_append2 [of "[0 ..< m]" Q "[m]"]
    by (cases "\<forall>i \<in> set [0 ..< m]. Q i") (auto simp: n takeWhile_eq_all_conv [THEN iffD2])
  ultimately show ?thesis by simp
qed

section \<open>One descriptor\<close>

text \<open>The next descriptor goes back to the DMA, its frame to the stack.\<close>

definition rx_advance :: "bool \<Rightarrow> eth_priv \<Rightarrow> eth_priv \<Rightarrow> bool" where
  "rx_advance ok e e' \<longleftrightarrow> rx_buf_num e' = rx_buf_num e \<and> rx_skb e' = rx_skb e
     \<and> rx_bd e' = (rx_bd e)[rx_slot e 0 := (rx_bd e ! rx_slot e 0)\<lparr>bd_stat := (bd_msk STM32_DMA_RBD_DMA_OWN)\<rparr>]
     \<and> unat (rx_done_idx e') = rx_slot e 1
     \<and> received e' = received e @ rx_frame e ok (rx_slot e 0)
     \<and> rx_seen (eth_stat e') = rx_seen (eth_stat e) + 1"

lemma rx_account_seen: "rx_seen (rx_account stat st) = rx_seen st + 1"
  by (simp add: rx_account_def rx_seen_def Let_def)

lemma rx_take_ready:
  assumes "rx_inv e" "\<not> rx_own e (rx_slot e 0)"
  shows "\<exists>e1. rx_take ok (rx_slot e 0) e = Inr e1 \<and> rx_buf_num e1 = rx_buf_num e \<and> rx_skb e1 = rx_skb e
    \<and> rx_bd e1 = rx_bd e \<and> rx_done_idx e1 = rx_done_idx e
    \<and> received e1 = received e @ rx_frame e ok (rx_slot e 0) \<and> rx_seen (eth_stat e1) = rx_seen (eth_stat e) + 1"
proof -
  have "\<not> flag (bd_msk STM32_DMA_RBD_ES) (bd_stat (rx_bd e ! rx_slot e 0)) \<Longrightarrow>
      unat (rx_len (bd_stat (rx_bd e ! rx_slot e 0))) \<le> length (fake_data (rx_skb e ! rx_slot e 0))"
    using assms rx_slot_less [OF assms(1)] by (simp add: rx_inv_def)
  then show ?thesis
    by (cases "flag (bd_msk STM32_DMA_RBD_ES) (bd_stat (rx_bd e ! rx_slot e 0))"; cases ok)
      (simp_all add: rx_take_def rx_frame_def upd_stat_def Let_def rx_account_seen, simp_all add: rx_seen_def)
qed

lemma rx_one:
  assumes "rx_inv e" "\<not> rx_own e (rx_slot e 0)"
  shows "\<exists>e1 e2. rx_take ok (rx_slot e 0) e = Inr e1 \<and> rx_release (rx_slot e 0) e1 = Inr e2 \<and> rx_advance ok e e2"
proof -
  have n: "rx_buf_num e \<noteq> 0" using assms(1) by (auto simp: rx_inv_def)
  have idx: "unat ((rx_done_idx e + 1) mod rx_buf_num e) = rx_slot e 1"
    using assms(1) unat_succ_mod by (simp add: rx_inv_def rx_slot_def)
  obtain e1 where e1: "rx_take ok (rx_slot e 0) e = Inr e1" "rx_buf_num e1 = rx_buf_num e" "rx_skb e1 = rx_skb e"
    "rx_bd e1 = rx_bd e" "rx_done_idx e1 = rx_done_idx e" "received e1 = received e @ rx_frame e ok (rx_slot e 0)"
    "rx_seen (eth_stat e1) = rx_seen (eth_stat e) + 1"
    using rx_take_ready [OF assms] by blast
  then show ?thesis using n idx by (simp add: rx_release_def rx_advance_def)
qed

section \<open>The loop\<close>

lemma rx_advanced:
  assumes inv: "rx_inv e" and adv: "rx_advance ok e e'"
  shows "rx_inv e'" "rx_slot e' i = rx_slot e (Suc i)"
    "j < unat (rx_buf_num e) \<Longrightarrow> rx_own e' j \<longleftrightarrow> j = rx_slot e 0 \<or> rx_own e j"
    "j \<noteq> rx_slot e 0 \<Longrightarrow> rx_bd e' ! j = rx_bd e ! j"
proof -
  have len: "length (rx_bd e) = unat (rx_buf_num e)" using inv by (simp add: rx_inv_def)
  show s: "rx_slot e' i = rx_slot e (Suc i)" for i using adv by (simp add: rx_advance_def rx_slot_def mod_simps)
  have o: "flag (bd_msk STM32_DMA_RBD_DMA_OWN) (bd_msk STM32_DMA_RBD_DMA_OWN)" by (simp add: flag_def STM32_DMA_RBD_DMA_OWN_def)
  show own: "rx_own e' j \<longleftrightarrow> j = rx_slot e 0 \<or> rx_own e j" if "j < unat (rx_buf_num e)" for j
    using adv that len o by (cases "j = rx_slot e 0") (simp_all add: rx_own_def rx_advance_def)
  show bd: "rx_bd e' ! j = rx_bd e ! j" if "j \<noteq> rx_slot e 0" for j using adv that by (simp add: rx_advance_def)
  have "unat (rx_done_idx e') < unat (rx_buf_num e)" using adv rx_slot_less [OF inv] by (simp add: rx_advance_def)
  then show "rx_inv e'" using inv own bd adv by (auto simp: rx_inv_def rx_advance_def)
qed

lemma rx_ready_Suc:
  assumes inv: "rx_inv e" and adv: "rx_advance ok e e'" and rdy: "\<not> rx_own e (rx_slot e 0)"
  shows "rx_ready e = Suc (rx_ready e')"
proof -
  let ?n = "unat (rx_buf_num e)"
  note a = rx_advanced [OF inv adv]
  have n: "0 < ?n" using inv by (simp add: rx_inv_def)
  have last: "rx_slot e ?n = rx_slot e 0" by (simp add: rx_slot_def)
  have own: "rx_own e' (rx_slot e' i) \<longleftrightarrow> rx_slot e (Suc i) = rx_slot e 0 \<or> rx_own e (rx_slot e (Suc i))" for i
    unfolding a(2) by (rule a(3) [OF rx_slot_less [OF inv]])
  have num: "rx_buf_num e' = rx_buf_num e" using adv by (simp add: rx_advance_def)
  have "length (takeWhile (\<lambda>i. \<not> rx_own e (rx_slot e i)) [0 ..< ?n])
      = Suc (length (takeWhile (\<lambda>i. \<not> rx_own e' (rx_slot e' i)) [0 ..< ?n]))"
  proof (rule takeWhile_upt_Suc)
    show "\<not> \<not> rx_own e' (rx_slot e' (?n - 1))" using n last own [of "?n - 1"] by simp
    show "(\<not> rx_own e' (rx_slot e' i)) = (\<not> rx_own e (rx_slot e (Suc i)))" if "Suc i < ?n" for i using rx_slot_Suc_neq [OF that] own [of i] by blast
  qed (use rdy n in blast)+
  then show ?thesis unfolding rx_ready_def num .
qed

lemma rx_ready_0: "rx_inv e \<Longrightarrow> rx_own e (rx_slot e 0) \<Longrightarrow> rx_ready e = 0"
  unfolding rx_ready_def rx_inv_def by (subst upt_conv_Cons) auto

lemma rx_ready_pos:
  assumes "rx_inv e" "\<not> rx_own e (rx_slot e 0)"
  shows "0 < rx_ready e"
proof -
  obtain e' where "rx_advance True e e'" using rx_one [OF assms] by blast
  then show ?thesis using rx_ready_Suc [OF assms(1) _ assms(2)] by simp
qed

text \<open>The state after \<open>m\<close> descriptors of a run with \<open>left\<close> to go.\<close>

definition rx_after :: "(nat \<Rightarrow> bool) \<Rightarrow> nat \<Rightarrow> nat \<Rightarrow> eth_priv \<Rightarrow> eth_priv \<Rightarrow> bool" where
  "rx_after mem left m e e' \<longleftrightarrow> rx_buf_num e' = rx_buf_num e \<and> rx_skb e' = rx_skb e
     \<and> unat (rx_done_idx e') = rx_slot e m
     \<and> (\<forall>j < unat (rx_buf_num e). rx_bd e' ! j =
          (if j \<in> rx_slot e ` {..< m} then (rx_bd e ! j)\<lparr>bd_stat := (bd_msk STM32_DMA_RBD_DMA_OWN)\<rparr> else rx_bd e ! j))
     \<and> received e' = received e @ concat (map (\<lambda>i. rx_frame e (mem (left - 1 - i)) (rx_slot e i)) [0 ..< m])
     \<and> rx_seen (eth_stat e') = rx_seen (eth_stat e) + of_nat m"

lemma rx_after_Suc:
  assumes inv: "rx_inv e" and adv: "rx_advance (mem left) e e1" and aft: "rx_after mem left m e1 e'"
    and m: "Suc m \<le> unat (rx_buf_num e)"
  shows "rx_after mem (Suc left) (Suc m) e e'"
proof -
  note a = rx_advanced [OF inv adv]
  have same: "rx_buf_num e1 = rx_buf_num e" "rx_skb e1 = rx_skb e" using adv by (simp_all add: rx_advance_def)
  have img: "rx_slot e ` {..< Suc m} = insert (rx_slot e 0) (rx_slot e1 ` {..< m})"
    by (simp add: lessThan_Suc_eq_insert_0 image_image a(2))
  have frm: "rx_frame e1 ok (rx_slot e1 i) = rx_frame e ok (rx_slot e (Suc i))" if "i < m" for i ok
    using a(4) [OF rx_slot_Suc_neq [of i e]] that m by (simp add: rx_frame_def a(2) same Let_def)
  have bd: "rx_bd e' ! j = (if j \<in> rx_slot e ` {..< Suc m} then (rx_bd e ! j)\<lparr>bd_stat := (bd_msk STM32_DMA_RBD_DMA_OWN)\<rparr> else rx_bd e ! j)"
    if "j < unat (rx_buf_num e)" for j
    using aft adv that inv a(4) [of j]
    by (cases "j = rx_slot e 0") (simp_all add: rx_after_def img same rx_advance_def rx_inv_def)
  have "map (\<lambda>i. rx_frame e (mem (Suc left - 1 - i)) (rx_slot e i)) [0 ..< Suc m]
      = rx_frame e (mem left) (rx_slot e 0) # map (\<lambda>i. rx_frame e1 (mem (left - 1 - i)) (rx_slot e1 i)) [0 ..< m]"
    by (simp add: upt_conv_Cons map_Suc_upt [symmetric] frm del: upt_Suc)
  then have "received e' = received e @ concat (map (\<lambda>i. rx_frame e (mem (Suc left - 1 - i)) (rx_slot e i)) [0 ..< Suc m])"
    using aft adv by (simp add: rx_after_def rx_advance_def)
  moreover have "rx_seen (eth_stat e') = rx_seen (eth_stat e) + of_nat (Suc m)" using aft adv by (simp add: rx_after_def rx_advance_def)
  ultimately show ?thesis using aft bd same unfolding rx_after_def by (simp add: a(2))
qed

lemma rx_get_loop_exact:
  "rx_inv e \<Longrightarrow> \<exists>e'. rx_get_loop mem left e = Inr (min left (rx_ready e), e') \<and> rx_inv e'
     \<and> rx_after mem left (min left (rx_ready e)) e e'"
proof (induction left arbitrary: e)
  case 0
  then show ?case by (simp add: rx_after_def rx_slot_0)
next
  case (Suc left)
  have idx: "rx_slot e 0 < length (rx_bd e)" "rx_slot e 0 < length (rx_skb e)"
    using Suc.prems rx_slot_less [OF Suc.prems] by (simp_all add: rx_inv_def)
  show ?case
  proof (cases "rx_own e (rx_slot e 0)")
    case True
    then show ?thesis using Suc.prems idx rx_ready_0 [OF Suc.prems]
      by (simp add: rx_slot_0 [symmetric] rx_own_def Let_def rx_after_def)
  next
    case False
    obtain e1 e2 where e: "rx_take (mem left) (rx_slot e 0) e = Inr e1" "rx_release (rx_slot e 0) e1 = Inr e2"
      and adv: "rx_advance (mem left) e e2" using rx_one [OF Suc.prems False] by blast
    have rdy: "rx_ready e = Suc (rx_ready e2)" by (rule rx_ready_Suc [OF Suc.prems adv False])
    obtain e3 where e3: "rx_get_loop mem left e2 = Inr (min left (rx_ready e2), e3)" "rx_inv e3"
      "rx_after mem left (min left (rx_ready e2)) e2 e3"
      using Suc.IH [OF rx_advanced(1) [OF Suc.prems adv]] by blast
    have "rx_after mem (Suc left) (Suc (min left (rx_ready e2))) e e3"
      using rx_after_Suc [OF Suc.prems adv e3(3)] rx_ready_le [of e] rdy by simp
    then show ?thesis using e e3(1,2) False idx
      by (simp add: rx_slot_0 [OF Suc.prems, symmetric] rx_own_def Let_def and_then_def rdy)
  qed
qed

section \<open>The poll function\<close>

text \<open>The DMA and the interrupt handler move no index of the driver and take back no descriptor that is ready.\<close>

definition rx_env_ok :: "(eth_priv \<Rightarrow> eth_priv) \<Rightarrow> bool" where
  "rx_env_ok f \<longleftrightarrow> (\<forall>e. rx_inv e \<longrightarrow> rx_inv (f e) \<and> rx_done_idx (f e) = rx_done_idx e
     \<and> (\<forall>j. \<not> rx_own e j \<longrightarrow> \<not> rx_own (f e) j))"

text \<open>The driver waits for a frame: the next one goes into a descriptor of the DMA, raises the interrupt and can schedule the poll.\<close>

definition rx_armed :: "eth_priv \<Rightarrow> bool" where
  "rx_armed e \<longleftrightarrow> rx_own e (unat (rx_done_idx e)) \<and> flag (mac_irq STM32_MAC_DMAIER_RIE) (dmaier (mac e)) \<and> \<not> napi_sched e"

lemma rx_inv_cong:
  assumes "rx_bd e' = rx_bd e" "rx_skb e' = rx_skb e" "rx_buf_num e' = rx_buf_num e" "rx_done_idx e' = rx_done_idx e"
  shows "rx_inv e' = rx_inv e" "rx_own e' j = rx_own e j"
  using assms by (simp_all add: rx_inv_def rx_own_def)

lemma rie_set: "flag (mac_irq STM32_MAC_DMAIER_RIE) (x OR (mac_irq STM32_MAC_DMAIER_RIE))"
  by (simp add: flag_def STM32_MAC_DMAIER_RIE_def bit.conj_disj_distrib2)

text \<open>What the poll does to the driver when it gives up, and when it finds another frame after all.\<close>

definition rx_unmask :: "eth_priv \<Rightarrow> eth_priv" where
  "rx_unmask e = upd_mac (\<lambda>r. r\<lparr>dmaier := dmaier r OR (mac_irq STM32_MAC_DMAIER_RIE)\<rparr>) (e\<lparr>napi_sched := False\<rparr>)"

definition rx_mask :: "eth_priv \<Rightarrow> eth_priv" where
  "rx_mask e = upd_mac (\<lambda>r. r\<lparr>dmasr := dmasr r AND NOT (mac_irq STM32_MAC_DMASR_RX_MSK)\<rparr>)
     (upd_mac (\<lambda>r. r\<lparr>dmaier := dmaier r AND NOT (mac_irq STM32_MAC_DMAIER_RIE)\<rparr>) e)"

lemma rx_mask_simps [simp]:
  "rx_done_idx (rx_unmask e) = rx_done_idx e" "rx_inv (rx_unmask e) = rx_inv e" "rx_own (rx_unmask e) j = rx_own e j"
  "rx_done_idx (rx_mask e) = rx_done_idx e" "rx_inv (rx_mask e) = rx_inv e" "rx_own (rx_mask e) j = rx_own e j"
  by (simp_all add: rx_unmask_def rx_mask_def upd_mac_def rx_inv_def rx_own_def)

lemma prep_simps [simp]:
  "rx_done_idx (snd (napi_schedule_prep e)) = rx_done_idx e" "rx_inv (snd (napi_schedule_prep e)) = rx_inv e"
  "rx_own (snd (napi_schedule_prep e)) j = rx_own e j"
  "fst (napi_schedule_prep e) \<or> napi_sched (snd (napi_schedule_prep e)) \<or> napi_off (snd (napi_schedule_prep e))"
  by (simp_all add: napi_schedule_prep_def rx_inv_def rx_own_def)

lemma rx_unmask_armed: "rx_own e (unat (rx_done_idx e)) \<Longrightarrow> rx_armed (rx_unmask e)"
  by (simp add: rx_armed_def) (simp add: rx_unmask_def upd_mac_def rie_set)

lemma rx_poll_full:
  assumes "rx_get_loop (mem i) (budget - rx) e = Inr (m, e1)" "\<not> rx + m < budget"
  shows "rx_poll_loop mem env env' budget (Suc i) rx e
    = Some (Inr (rx + m, upd_mac (\<lambda>r. r\<lparr>dmaier := dmaier r OR (mac_irq STM32_MAC_DMAIER_RIE)\<rparr>) e1))"
  using assms by (simp add: stm32_eth_rx_get_def and_then_def)

lemma rx_poll_short:
  assumes "rx_get_loop (mem i) (budget - rx) e = Inr (m, e1)" "rx + m < budget" "rx_inv (env i e1)"
  shows "rx_poll_loop mem env env' budget (Suc i) rx e =
    (let e2 = env i e1; (again, e3) = napi_schedule_prep (env' i (rx_mask (rx_unmask e2))) in
     if rx_own e2 (unat (rx_done_idx e2)) then Some (Inr (rx + m, env' i (rx_unmask e2)))
     else if again then rx_poll_loop mem env env' budget i (rx + m) e3 else Some (Inr (rx + m, e3)))"
proof -
  have "\<not> length (rx_bd (rx_unmask (env i e1))) \<le> unat (rx_done_idx (rx_unmask (env i e1)))"
    using rx_mask_simps(2) [of "env i e1"] assms(3) unfolding rx_inv_def by simp
  moreover have "flag (bd_msk STM32_DMA_RBD_DMA_OWN) (bd_stat (rx_bd (rx_unmask (env i e1)) ! unat (rx_done_idx (rx_unmask (env i e1)))))
      = rx_own (env i e1) (unat (rx_done_idx (env i e1)))"
    using rx_mask_simps(3) [of "env i e1"] unfolding rx_own_def by simp
  ultimately show ?thesis using assms(1,2)
    by (simp add: stm32_eth_rx_get_def and_then_def rx_unmask_def [symmetric] rx_mask_def [symmetric] Let_def split: prod.split)
qed

text \<open>How a poll may end: with the budget used up and the interrupt on, with the poll scheduled by somebody else or switched
  off, or waiting for the next frame.\<close>

definition rx_poll_end :: "(nat \<Rightarrow> eth_priv \<Rightarrow> eth_priv) \<Rightarrow> nat \<Rightarrow> nat \<Rightarrow> eth_priv \<Rightarrow> bool" where
  "rx_poll_end env' budget rx e \<longleftrightarrow> rx_inv e \<and> rx \<le> budget
     \<and> (if rx = budget then flag (mac_irq STM32_MAC_DMAIER_RIE) (dmaier (mac e))
        else napi_sched e \<or> napi_off e \<or> (\<exists>i e1. rx_armed e1 \<and> e = env' i e1))"

lemma rx_poll_loop_returns:
  assumes env: "\<And>i. rx_env_ok (env i)" "\<And>i. rx_env_ok (env' i)"
  shows "rx_inv e \<Longrightarrow> rx \<le> budget \<Longrightarrow> budget - rx \<le> fuel \<Longrightarrow> 0 < fuel \<Longrightarrow> (rx_own e (rx_slot e 0) \<Longrightarrow> budget - rx < fuel) \<Longrightarrow>
   \<exists>rx' e'. rx_poll_loop mem env env' budget fuel rx e = Some (Inr (rx', e')) \<and> rx_poll_end env' budget rx' e'"
proof (induction fuel arbitrary: rx e)
  case (Suc i)
  define m where "m = min (budget - rx) (rx_ready e)"
  obtain e1 where e1: "rx_get_loop (mem i) (budget - rx) e = Inr (m, e1)" "rx_inv e1"
    using rx_get_loop_exact [OF Suc.prems(1)] unfolding m_def by blast
  show ?case
  proof (cases "rx + m < budget")
    case False
    then have "rx + m = budget" using Suc.prems(2) by (simp add: m_def)
    moreover have "rx_inv (upd_mac (\<lambda>r. r\<lparr>dmaier := dmaier r OR (mac_irq STM32_MAC_DMAIER_RIE)\<rparr>) e1)"
      using e1(2) by (simp add: upd_mac_def rx_inv_def rx_own_def)
    ultimately show ?thesis using rx_poll_full [where mem = mem and i = i, OF e1(1) False] by (simp add: rx_poll_end_def upd_mac_def rie_set)
  next
    case True
    define e2 where "e2 = env i e1"
    have e2: "rx_inv e2" using env(1) e1(2) by (simp add: e2_def rx_env_ok_def)
    note short = rx_poll_short [where mem = mem and i = i, OF e1(1) True, of env env', folded e2_def, OF e2]
    show ?thesis
    proof (cases "rx_own e2 (unat (rx_done_idx e2))")
      case own: True
      have "rx_inv (env' i (rx_unmask e2))" using env(2) e2 by (simp add: rx_env_ok_def)
      then have "rx_poll_end env' budget (rx + m) (env' i (rx_unmask e2))"
        using rx_unmask_armed [OF own] True unfolding rx_poll_end_def by auto
      then show ?thesis using short own by simp
    next
      case rdy: False
      let ?e = "env' i (rx_mask (rx_unmask e2))"
      define e3 where "e3 = snd (napi_schedule_prep ?e)"
      have "rx_inv ?e" "rx_done_idx ?e = rx_done_idx e2" "\<not> rx_own ?e (unat (rx_done_idx e2))"
        using env(2) e2 rdy unfolding rx_env_ok_def by (metis rx_mask_simps)+
      then have e3: "rx_inv e3" "\<not> rx_own e3 (rx_slot e3 0)" by (simp_all add: e3_def rx_slot_0)
      have fuel: "budget - (rx + m) \<le> i" "0 < i"
        using Suc.prems(3,5) True rx_ready_pos [OF Suc.prems(1)] unfolding m_def
        by (cases "rx_own e (rx_slot e 0)"; simp; linarith)+
      show ?thesis
      proof (cases "fst (napi_schedule_prep ?e)")
        case again: True
        then show ?thesis using short rdy Suc.IH [OF e3(1) _ fuel] True e3(2) by (simp add: e3_def split_def)
      next
        case False
        then have "rx_poll_end env' budget (rx + m) e3" using prep_simps(4) [of ?e] e3(1) True by (auto simp: rx_poll_end_def e3_def)
        then show ?thesis using short rdy False by (simp add: e3_def split_def)
      qed
    qed
  qed
qed simp

section \<open>Properties\<close>

text \<open>C9. \<^verbatim>\<open>stm32_eth_rx_get\<close> takes exactly the descriptors that are ready, in the order of the ring and no more than the
  budget leaves: each one without error whose buffer can be had becomes a frame of the network stack, without its checksum and in
  order, each one is counted once as a packet, an error or a drop, and each one goes back to the DMA; no other descriptor changes.\<close>

theorem eth_rx_exact:
  fixes processed budget :: nat
  assumes "rx_inv e"
  defines "m \<equiv> min (budget - processed) (rx_ready e)"
  shows "\<exists>e'. stm32_eth_rx_get mem processed budget e = Inr (processed + m, e') \<and> rx_inv e'
    \<and> received e' = received e @ concat (map (\<lambda>i. rx_frame e (mem (budget - processed - 1 - i)) (rx_slot e i)) [0 ..< m])
    \<and> unat (rx_done_idx e') = rx_slot e m
    \<and> (\<forall>j < unat (rx_buf_num e). rx_bd e' ! j =
          (if j \<in> rx_slot e ` {..< m} then (rx_bd e ! j)\<lparr>bd_stat := (bd_msk STM32_DMA_RBD_DMA_OWN)\<rparr> else rx_bd e ! j))
    \<and> rx_seen (eth_stat e') = rx_seen (eth_stat e) + of_nat m"
  using rx_get_loop_exact [OF assms(1), of mem "budget - processed"]
  by (auto simp: m_def stm32_eth_rx_get_def and_then_def rx_after_def)

text \<open>A ring of four: a good frame, a frame with a CRC error, a good frame, and a descriptor of the DMA.\<close>

definition ex_rx :: eth_priv where
  "ex_rx = ex_eth\<lparr>rx_buf_num := 4, rx_done_idx := 2,
     rx_bd := map (\<lambda>x. \<lparr>bd_stat = x, bd_ctrl = 0, bd_buf = 0, bd_next = 0\<rparr>) [0x60300, 0x80000000, 0x50300, 0x58302],
     rx_skb := map (\<lambda>d. \<lparr>fake_addr = 0, fake_len = 0, fake_data = d\<rparr>) [[1, 2, 3], [4, 5, 6], [7, 8, 9], [10, 11, 12]]\<rparr>"

lemma ex_rx_inv: "rx_inv ex_rx"
proof -
  have 4: "j = 0 \<or> j = 1 \<or> j = 2 \<or> j = 3" if "j < 4" for j :: nat using that by auto
  show ?thesis
    by (auto simp: rx_inv_def ex_rx_def rx_own_def flag_def STM32_DMA_RBD_DMA_OWN_def STM32_DMA_RBD_ES_def rx_len_def
        STM32_DMA_RBD_FL_BIT_def STM32_DMA_RBD_FL_MSK_def drop_bit_eq_div dest!: 4)
qed

theorem eth_rx_exact_witness:
  "rx_ready ex_rx = 3 \<and> (\<exists>e'. stm32_eth_rx_get (\<lambda>_. True) 0 64 ex_rx = Inr (3, e') \<and> received e' = [[7], [1, 2]] \<and> unat (rx_done_idx e') = 1)"
proof -
  have r: "rx_ready ex_rx = 3" by code_simp
  have "concat (map (\<lambda>i. rx_frame ex_rx True (rx_slot ex_rx i)) [0 ..< 3]) = [[7], [1, 2]]" "rx_slot ex_rx 3 = 1" "received ex_rx = []"
    by code_simp+
  then show ?thesis using r eth_rx_exact [OF ex_rx_inv, where budget = 64 and processed = 0 and mem = "\<lambda>_. True"] by auto
qed

text \<open>C16. Whatever the DMA and the interrupt handler do meanwhile, as long as they leave the ready descriptors and the driver's
  index alone, \<^verbatim>\<open>stm32_eth_rx_poll\<close> ends after at most one round per frame of the budget and one more, and it strands no frame: at its end
  the budget is used up and the receive interrupt is on, or the poll is already scheduled again or being switched off, or,
  when it released the lock, the next descriptor was the DMA's, the receive interrupt on and the poll free to be scheduled.\<close>

theorem eth_rx_poll_strands_nothing:
  assumes "rx_inv e" "\<And>i. rx_env_ok (env i)" "\<And>i. rx_env_ok (env' i)"
  shows "\<exists>rx e'. stm32_eth_rx_poll mem env env' budget e = Some (Inr (rx, e')) \<and> rx_inv e' \<and> rx \<le> budget
    \<and> (if rx = budget then flag (mac_irq STM32_MAC_DMAIER_RIE) (dmaier (mac e'))
       else napi_sched e' \<or> napi_off e' \<or> (\<exists>i e1. rx_armed e1 \<and> e' = env' i e1))"
  unfolding stm32_eth_rx_poll_def rx_poll_end_def [symmetric]
  by (rule rx_poll_loop_returns [where env = env and env' = env', OF assms(2,3,1)]) simp_all

text \<open>The DMA fills the descriptor at index 1 of a ring of four, if it owns it, with a frame of five bytes.\<close>

definition rx_fill :: "eth_priv \<Rightarrow> eth_priv" where
  "rx_fill e = (if 1 < length (rx_bd e) \<and> 1 < length (rx_skb e) \<and> fake_data (rx_skb e ! 1) \<noteq> []
     then e\<lparr>rx_bd := (rx_bd e)[1 := (rx_bd e ! 1)\<lparr>bd_stat := 0x50300\<rparr>]\<rparr> else e)"

lemma rx_fill_ok: "rx_env_ok rx_fill"
proof -
  have c: "\<not> flag (bd_msk STM32_DMA_RBD_DMA_OWN) 0x50300" "unat (rx_len 0x50300) = 1" by code_simp+
  have "unat (rx_len 0x50300) \<le> length xs" if "xs \<noteq> []" for xs :: frame using c(2) that by (cases xs) simp_all
  then have "rx_inv (rx_fill e)" if "rx_inv e" for e
    using that by (auto simp: rx_inv_def rx_fill_def rx_own_def nth_list_update)
  then show ?thesis using c(1) by (auto simp: rx_env_ok_def rx_fill_def rx_own_def nth_list_update)
qed

theorem eth_rx_poll_strands_nothing_witness:
  "stm32_eth_rx_poll (\<lambda>_ _. True) (\<lambda>_. rx_fill) (\<lambda>_. id) 64 ex_rx \<noteq> None
   \<and> (case stm32_eth_rx_poll (\<lambda>_ _. True) (\<lambda>_. rx_fill) (\<lambda>_. id) 4 ex_rx of Some (Inr (rx, e)) \<Rightarrow> rx = 4 \<and> received e = [[7], [1, 2], [4]] | _ \<Rightarrow> False)"
proof -
  have "rx_env_ok id" by (simp add: rx_env_ok_def)
  then have "stm32_eth_rx_poll (\<lambda>_ _. True) (\<lambda>_. rx_fill) (\<lambda>_. id) 64 ex_rx \<noteq> None"
    using eth_rx_poll_strands_nothing [OF ex_rx_inv rx_fill_ok, of "\<lambda>_. id" "\<lambda>_ _. True" 64] by auto
  moreover have "case stm32_eth_rx_poll (\<lambda>_ _. True) (\<lambda>_. rx_fill) (\<lambda>_. id) 4 ex_rx of Some (Inr (rx, e)) \<Rightarrow> rx = 4 \<and> received e = [[7], [1, 2], [4]] | _ \<Rightarrow> False"
    by code_simp
  ultimately show ?thesis by blast
qed

end
