(* ===== verification/Eth_Open.thy ===== *)
theory Eth_Open
  imports Eth_Hw Eth_Tx Eth_Rx Irq_Init
begin

text \<open>
  Opening and closing the Ethernet device: where its rings and buffers lie, that an open device is ready for the data paths of
  \<^verbatim>\<open>Eth_Tx\<close> and \<^verbatim>\<open>Eth_Rx\<close>, and what closing it does not give back.
\<close>

section \<open>Memory\<close>

lemma unat_ALIGN:
  assumes "unat x + 3 < 2 ^ 32"
  shows "unat (ALIGN x 4) = (unat x + 3) div 4 * 4"
proof -
  have "ALIGN x 4 = (x + 3) AND NOT (mask 2)" by (simp add: ALIGN_def mask_eq_exp_minus_1)
  also have "\<dots> = push_bit 2 (drop_bit 2 (x + 3))"
  proof (rule bit_eqI)
    have s: "2 \<le> n \<Longrightarrow> Suc (Suc (n - 2)) = n" for n by simp
    show "bit ((x + 3) AND NOT (mask 2)) n = bit (push_bit 2 (drop_bit 2 (x + 3))) n" for n by (cases "2 \<le> n") (auto simp: bit_simps s)
  qed
  finally have "unat (ALIGN x 4) = unat (push_bit 2 (drop_bit 2 (x + 3)))" by simp
  also have "\<dots> = take_bit 32 (push_bit 2 (unat (drop_bit 2 (x + 3))))" by (simp add: unsigned_push_bit_eq)
  also have "\<dots> = take_bit 32 (unat (x + 3) div 4 * 4)" unfolding unat_drop_bit_eq by (simp add: push_bit_eq_mult drop_bit_eq_div)
  also have "unat (x + 3) = unat x + 3" using assms by (simp add: unat_word_ariths)
  finally show ?thesis using assms by (simp add: take_bit_eq_mod)
qed

text \<open>The end of the memory, and what an allocation takes of it.\<close>

abbreviation sram_end :: nat where "sram_end \<equiv> 0x20020000"

definition taken :: "nat \<Rightarrow> nat" where "taken n = (n + 3) div 4 * 4 + 4"

lemma taken_ge: "n + 4 \<le> taken n" by (simp add: taken_def)

lemma sram_alloc:
  assumes "sram_pointer e = of_nat P" "P + taken (unat bytes) < 2 ^ 32"
  shows "stm32_sram_alloc bytes e =
    (if sram_end \<le> P + taken (unat bytes) then Inl BugOn
     else Inr (of_nat P, e\<lparr>sram_pointer := of_nat (P + taken (unat bytes))\<rparr>))"
proof -
  have "unat (ALIGN bytes 4) = taken (unat bytes) - 4" using assms(2) taken_ge [of "unat bytes"] unat_ALIGN [of bytes] by (simp add: taken_def)
  then have "unat (ALIGN bytes 4 + 4) = unat (of_nat (taken (unat bytes)) :: u32)"
    using assms(2) taken_ge [of "unat bytes"] by (simp add: unat_word_ariths unat_of_nat)
  then have "ALIGN bytes 4 + 4 = of_nat (taken (unat bytes))" by (simp only: word_unat_eq_iff)
  then have p: "of_nat P + (ALIGN bytes 4 + 4) = of_nat (P + taken (unat bytes))" by simp
  have "unat (of_nat (P + taken (unat bytes)) :: u32) = P + taken (unat bytes)" using assms(2) by (simp add: unat_of_nat del: of_nat_add)
  then show ?thesis using assms(1) unfolding stm32_sram_alloc_def Let_def
    by (simp add: p SRAM_PHYS_OFFSET_def SRAM_PHYS_SIZE_def word_le_nat_alt del: of_nat_add)
qed

text \<open>A ring without the failure: the buffers lie one after the other.\<close>

fun ring_fill :: "(nat \<Rightarrow> u32 \<Rightarrow> eth_priv \<Rightarrow> eth_priv) \<Rightarrow> nat \<Rightarrow> nat \<Rightarrow> nat \<Rightarrow> nat \<Rightarrow> eth_priv \<Rightarrow> eth_priv" where
  "ring_fill place step i P 0 e = e"
| "ring_fill place step i P (Suc n) e = ring_fill place step (Suc i) (P + step) n (place i (of_nat P) (e\<lparr>sram_pointer := of_nat (P + step)\<rparr>))"

lemma ring_alloc_fill:
  assumes "\<And>i b e. sram_pointer (place i b e) = sram_pointer e"
  shows "sram_pointer e = of_nat P \<Longrightarrow> P < sram_end \<Longrightarrow> P + n * taken (unat bytes) < 2 ^ 32 \<Longrightarrow>
    ring_alloc place bytes i n e =
      (if sram_end \<le> P + n * taken (unat bytes) then Inl BugOn else Inr (ring_fill place (taken (unat bytes)) i P n e))"
proof (induction n arbitrary: i P e)
  case (Suc n)
  let ?P = "P + taken (unat bytes)"
  have b: "?P + n * taken (unat bytes) < 2 ^ 32" "?P < 2 ^ 32" using Suc.prems(3) by auto
  show ?case
  proof (cases "sram_end \<le> ?P")
    case True
    then show ?thesis using sram_alloc [OF Suc.prems(1) b(2)] by simp
  next
    case False
    then show ?thesis using sram_alloc [OF Suc.prems(1) b(2)] Suc.IH [of _ ?P] b assms by (simp add: algebra_simps)
  qed
qed simp

text \<open>The descriptors as the loops leave them, by index and address of the buffer.\<close>

definition rx_desc :: "eth_priv \<Rightarrow> nat \<Rightarrow> u32 \<Rightarrow> eth_bd" where
  "rx_desc e i base = \<lparr>bd_stat = (bd_msk STM32_DMA_RBD_DMA_OWN), bd_ctrl = (bd_msk STM32_DMA_RBD_RCH) OR frame_max_size e, bd_buf = base + sizeof_fake,
     bd_next = rx_bd_dma_addr e + sizeof_bd * (of_nat (i + 1) mod rx_buf_num e)\<rparr>"

definition tx_desc :: "eth_priv \<Rightarrow> nat \<Rightarrow> u32 \<Rightarrow> eth_bd" where
  "tx_desc e i base = \<lparr>bd_stat = (bd_msk STM32_DMA_TBD_TCH), bd_ctrl = 0, bd_buf = base + sizeof_fake,
     bd_next = tx_bd_dma_addr e + sizeof_bd * (of_nat (i + 1) mod tx_buf_num e)\<rparr>"

lemma rx_place_desc: "rx_place m i base e =
    e\<lparr>rx_bd := (rx_bd e)[i := rx_desc e i base], rx_skb := (rx_skb e)[i := fake_at m base (frame_max_size e + 4)]\<rparr>"
  by (simp add: rx_place_def rx_desc_def Let_def fake_at_def)

lemma tx_place_desc: "tx_place m i base e =
    e\<lparr>tx_bd := (tx_bd e)[i := tx_desc e i base], tx_skb := (tx_skb e)[i := fake_at m base (frame_max_size e + 4)]\<rparr>"
  by (simp add: tx_place_def tx_desc_def Let_def fake_at_def)

text \<open>The part of a list from index \<open>i\<close> on rewritten, element by element.\<close>

definition rewritten :: "nat \<Rightarrow> nat \<Rightarrow> (nat \<Rightarrow> 'a) \<Rightarrow> 'a list \<Rightarrow> 'a list" where
  "rewritten i n f xs = map (\<lambda>k. if i \<le> k \<and> k < i + n then f k else xs ! k) [0 ..< length xs]"

lemma rewritten_0: "rewritten i 0 f xs = xs"
  by (rule nth_equalityI) (auto simp: rewritten_def)

lemma rewritten_Suc: "rewritten (Suc i) n f (xs[i := f i]) = rewritten i (Suc n) f xs"
  by (auto simp: rewritten_def nth_list_update intro!: nth_equalityI dest: le_antisym)

lemma rewritten_all: "length xs = n \<Longrightarrow> rewritten 0 n f xs = map f [0 ..< n]"
  by (simp add: rewritten_def)

lemma ring_fill_rx:
  "sram_pointer e = of_nat (P + i * step) \<Longrightarrow> ring_fill (rx_place m) step i (P + i * step) n e =
    e\<lparr>rx_bd := rewritten i n (\<lambda>k. rx_desc e k (of_nat (P + k * step))) (rx_bd e),
      rx_skb := rewritten i n (\<lambda>k. fake_at m (of_nat (P + k * step)) (frame_max_size e + 4)) (rx_skb e),
      sram_pointer := of_nat (P + (i + n) * step)\<rparr>"
proof (induction n arbitrary: i e)
  case (Suc n)
  have p: "P + i * step + step = P + Suc i * step" by simp
  have d: "rx_desc (rx_place m i b (e\<lparr>sram_pointer := c\<rparr>)) = rx_desc e" for b c by (simp add: fun_eq_iff rx_desc_def rx_place_desc)
  show ?case
    unfolding ring_fill.simps p
    by (subst Suc.IH) (simp_all only: d, simp_all del: of_nat_add of_nat_mult mult_Suc
        add: rx_place_desc rewritten_Suc [symmetric] rx_desc_def)
qed (simp add: rewritten_0)

lemma ring_fill_tx:
  "sram_pointer e = of_nat (P + i * step) \<Longrightarrow> ring_fill (tx_place m) step i (P + i * step) n e =
    e\<lparr>tx_bd := rewritten i n (\<lambda>k. tx_desc e k (of_nat (P + k * step))) (tx_bd e),
      tx_skb := rewritten i n (\<lambda>k. fake_at m (of_nat (P + k * step)) (frame_max_size e + 4)) (tx_skb e),
      sram_pointer := of_nat (P + (i + n) * step)\<rparr>"
proof (induction n arbitrary: i e)
  case (Suc n)
  have p: "P + i * step + step = P + Suc i * step" by simp
  have d: "tx_desc (tx_place m i b (e\<lparr>sram_pointer := c\<rparr>)) = tx_desc e" for b c by (simp add: fun_eq_iff tx_desc_def tx_place_desc)
  show ?case
    unfolding ring_fill.simps p
    by (subst Suc.IH) (simp_all only: d, simp_all del: of_nat_add of_nat_mult mult_Suc
        add: tx_place_desc rewritten_Suc [symmetric] tx_desc_def)
qed (simp add: rewritten_0)

text \<open>What the rings of a device take.\<close>

definition rings_need :: "eth_priv \<Rightarrow> nat" where
  "rings_need e = taken (16 * unat (rx_buf_num e)) + taken (16 * unat (tx_buf_num e))
     + (unat (rx_buf_num e) + unat (tx_buf_num e)) * taken (unat (frame_max_size e) + 8)"

definition rings_at :: "sram_content \<Rightarrow> nat \<Rightarrow> eth_priv \<Rightarrow> eth_priv" where
  "rings_at m P e =
     (let rn = unat (rx_buf_num e); tn = unat (tx_buf_num e); step = taken (unat (frame_max_size e) + 8);
          T = P + taken (16 * rn); R = T + taken (16 * tn); X = R + rn * step;
          e1 = e\<lparr>rx_bd_dma_addr := of_nat P, tx_bd_dma_addr := of_nat T\<rparr>
      in e1\<lparr>rx_bd := map (\<lambda>k. rx_desc e1 k (of_nat (R + k * step))) [0 ..< rn],
            tx_bd := map (\<lambda>k. tx_desc e1 k (of_nat (X + k * step))) [0 ..< tn],
            rx_skb := map (\<lambda>k. fake_at m (of_nat (R + k * step)) (frame_max_size e + 4)) [0 ..< rn],
            tx_skb := map (\<lambda>k. fake_at m (of_nat (X + k * step)) (frame_max_size e + 4)) [0 ..< tn],
            sram_pointer := of_nat (X + tn * step)\<rparr>)"

lemma buffers_alloc:
  assumes "sram_pointer e = of_nat P" "P < sram_end" "P + rings_need e < 2 ^ 32" "unat (frame_max_size e) \<le> 0x3FFF"
    and "length (rx_skb e) = unat (rx_buf_num e)" "length (tx_skb e) = unat (tx_buf_num e)"
  shows "stm32_eth_buffers_alloc m e = (if sram_end \<le> P + rings_need e then Inl BugOn else Inr (rings_at m P e))"
proof -
  let ?rn = "unat (rx_buf_num e)" and ?tn = "unat (tx_buf_num e)" and ?f = "unat (frame_max_size e)"
  have s: "unat (sizeof_bd * rx_buf_num e) = 16 * ?rn" "unat (sizeof_bd * tx_buf_num e) = 16 * ?tn"
    "unat (sizeof_fake + frame_max_size e + 4) = ?f + 8"
    using assms(3,4) taken_ge [of "16 * ?rn"] taken_ge [of "16 * ?tn"]
    by (simp_all add: sizeof_bd_def sizeof_fake_def rings_need_def unat_word_ariths)
  define A B st where "A = taken (16 * ?rn)" and "B = taken (16 * ?tn)" and "st = taken (?f + 8)"
  have need: "rings_need e = A + B + ?rn * st + ?tn * st" by (simp add: rings_need_def A_def B_def st_def add_mult_distrib)
  define e1 where "e1 = e\<lparr>sram_pointer := of_nat (P + A), rx_bd := bds_at m (of_nat P) ?rn, rx_bd_dma_addr := of_nat P\<rparr>"
  define e2 where "e2 = e1\<lparr>sram_pointer := of_nat (P + A + B), tx_bd := bds_at m (of_nat (P + A)) ?tn, tx_bd_dma_addr := of_nat (P + A)\<rparr>"
  define e3 where "e3 = ring_fill (rx_place m) st 0 (P + A + B) ?rn e2"
  have e3: "e3 = e2\<lparr>rx_bd := map (\<lambda>k. rx_desc e2 k (of_nat (P + A + B + k * st))) [0 ..< ?rn],
      rx_skb := map (\<lambda>k. fake_at m (of_nat (P + A + B + k * st)) (frame_max_size e + 4)) [0 ..< ?rn], sram_pointer := of_nat (P + A + B + ?rn * st)\<rparr>"
    using ring_fill_rx [of e2 "P + A + B" 0 st m ?rn] assms(5)
    by (simp add: e3_def e2_def e1_def rewritten_all bds_at_def del: of_nat_add of_nat_mult)
  have e4: "ring_fill (tx_place m) st 0 (P + A + B + ?rn * st) ?tn e3 = rings_at m P e"
    using ring_fill_tx [of e3 "P + A + B + ?rn * st" 0 st m ?tn] assms(6)
    by (simp add: e3 e2_def e1_def rewritten_all bds_at_def rings_at_def Let_def A_def B_def st_def rx_desc_def tx_desc_def del: of_nat_add of_nat_mult)
  have a1: "stm32_sram_alloc (sizeof_bd * rx_buf_num e) e = (if sram_end \<le> P + A then Inl BugOn else Inr (of_nat P, e\<lparr>sram_pointer := of_nat (P + A)\<rparr>))"
    using sram_alloc [OF assms(1), of "sizeof_bd * rx_buf_num e"] assms(3) by (simp add: s need A_def [symmetric] del: of_nat_add)
  have a2: "stm32_sram_alloc (sizeof_bd * tx_buf_num e) e1 =
      (if sram_end \<le> P + A + B then Inl BugOn else Inr (of_nat (P + A), e1\<lparr>sram_pointer := of_nat (P + A + B)\<rparr>))"
    using sram_alloc [of e1 "P + A" "sizeof_bd * tx_buf_num e"] assms(3) by (simp add: s need B_def [symmetric] e1_def del: of_nat_add)
  define sk where "sk = sizeof_fake + frame_max_size e + 4"
  have st: "taken (unat sk) = st" by (simp add: sk_def s(3) st_def)
  have bound: "P + A + B + ?rn * st + ?tn * st < 2 ^ 32" using assms(3) by (simp add: need)
  have a3: "ring_alloc (rx_place m) sk 0 ?rn e2 = (if sram_end \<le> P + A + B + ?rn * st then Inl BugOn else Inr e3)" if "P + A + B < sram_end"
    unfolding e3_def st [symmetric]
    by (rule ring_alloc_fill) (use that bound in \<open>simp_all add: st e2_def rx_place_desc\<close>)
  have a4: "ring_alloc (tx_place m) sk 0 ?tn e3 = (if sram_end \<le> P + A + B + ?rn * st + ?tn * st then Inl BugOn else Inr (rings_at m P e))"
    if "P + A + B + ?rn * st < sram_end"
    unfolding e4 [symmetric] st [symmetric]
    by (rule ring_alloc_fill) (use that bound in \<open>simp_all add: st e3 tx_place_desc\<close>)
  have f: "rx_buf_num e1 = rx_buf_num e" "tx_buf_num e1 = tx_buf_num e" "frame_max_size e1 = frame_max_size e" "rx_buf_num e2 = rx_buf_num e"
    "tx_buf_num e3 = tx_buf_num e" by (simp_all add: e1_def e2_def e3)
  have total: "P + rings_need e = P + A + B + ?rn * st + ?tn * st" by (simp add: need)
  show ?thesis
    unfolding stm32_eth_buffers_alloc_def a1 total
    using a2 a3 a4 f by (simp add: Let_def e1_def [symmetric] e2_def [symmetric] sk_def [symmetric] del: of_nat_add of_nat_mult)
qed

text \<open>Ranges of memory one above the other, from an address up to another.\<close>

fun stacked :: "nat \<Rightarrow> (nat \<times> nat) list \<Rightarrow> nat \<Rightarrow> bool" where
  "stacked lo [] hi \<longleftrightarrow> lo \<le> hi"
| "stacked lo ((a, n) # rs) hi \<longleftrightarrow> lo \<le> a \<and> stacked (a + n) rs hi"

lemma stacked_mono: "stacked lo rs hi \<Longrightarrow> lo' \<le> lo \<Longrightarrow> stacked lo' rs hi"
  by (cases rs) auto

lemma stacked_disjoint:
  assumes "stacked lo rs hi" "i < j" "j < length rs"
  shows "fst (rs ! i) + snd (rs ! i) \<le> fst (rs ! j)"
  using assms
proof (induction rs arbitrary: lo i j)
  case (Cons r rs)
  have above: "lo \<le> fst (rs ! k)" if "stacked lo rs hi" "k < length rs" for lo k rs
    using that by (induction rs arbitrary: lo k) (auto simp: nth_Cons split: nat.splits, metis add_leD1 order_trans)
  show ?case
  proof (cases i)
    case 0
    then show ?thesis using Cons.prems above [of _ rs "j - 1"] by (cases r; cases j) auto
  next
    case (Suc k)
    then show ?thesis using Cons.prems Cons.IH [of _ k "j - 1"] by (cases r; cases j) auto
  qed
qed simp

lemma stacked_steps:
  assumes "len + 8 \<le> step" "stacked (P + n * step) rs hi"
  shows "stacked P (map (\<lambda>k. (P + k * step + 4, len)) [0 ..< n] @ rs) hi"
  using assms(2)
proof (induction n arbitrary: rs)
  case (Suc n)
  have "stacked (P + n * step) ((P + n * step + 4, len) # rs) hi"
    using Suc.prems assms(1) by (auto elim: stacked_mono)
  then show ?case using Suc.IH by simp
qed simp

text \<open>The memory that the DMA reaches from the registers of an open device: the descriptors and the buffers they name.\<close>

definition eth_ranges :: "eth_priv \<Rightarrow> (nat \<times> nat) list" where
  "eth_ranges e = (unat (rx_bd_dma_addr e), 16 * length (rx_bd e)) # (unat (tx_bd_dma_addr e), 16 * length (tx_bd e))
     # map (\<lambda>b. (unat (bd_buf b), unat (frame_max_size e) + 4)) (rx_bd e @ tx_bd e)"

lemma stacked_end:
  assumes "stacked lo rs hi" "rs \<noteq> []"
  shows "stacked lo rs hi' \<longleftrightarrow> fst (last rs) + snd (last rs) \<le> hi'"
  using assms
proof (induction rs arbitrary: lo)
  case (Cons r rs)
  then show ?case by (cases r; cases "rs = []") auto
qed simp

lemma rings_ranges:
  fixes P :: nat
  assumes "P + rings_need e < sram_end"
  defines "f \<equiv> unat (frame_max_size e)" and "rn \<equiv> unat (rx_buf_num e)" and "tn \<equiv> unat (tx_buf_num e)"
  defines "st \<equiv> taken (f + 8)"
  defines "T \<equiv> P + taken (16 * rn)"
  defines "R \<equiv> T + taken (16 * tn)"
  defines "X \<equiv> R + rn * st"
  shows "eth_ranges (rings_at m P e) = (P, 16 * rn) # (T, 16 * tn)
    # map (\<lambda>k. (R + k * st + 4, f + 4)) [0 ..< rn] @ map (\<lambda>k. (X + k * st + 4, f + 4)) [0 ..< tn]"
proof -
  have u: "unat (of_nat k :: u32) = k" if "k < sram_end" for k using that by (simp add: unat_of_nat)
  have b: "unat (of_nat (A + k * st) + sizeof_fake :: u32) = A + k * st + 4" if "A + n * st < sram_end" "k < n" for A k n
  proof -
    have "Suc k * st \<le> n * st" using that(2) by (intro mult_le_mono1) simp
    then have "A + k * st + 4 < sram_end" using that(1) taken_ge [of "f + 8"] by (simp add: st_def)
    moreover have "of_nat (A + k * st) + sizeof_fake = (of_nat (A + k * st + 4) :: u32)" by (simp add: sizeof_fake_def)
    ultimately show ?thesis using u by metis
  qed
  have lt: "P < sram_end" "T < sram_end" "R + rn * st < sram_end" "X + tn * st < sram_end"
    using assms(1) by (simp_all add: rings_need_def T_def R_def X_def st_def f_def rn_def tn_def add_mult_distrib)
  have d: "map (\<lambda>b. (unat (bd_buf b), f + 4)) (rx_bd (rings_at m P e) @ tx_bd (rings_at m P e))
      = map (\<lambda>k. (R + k * st + 4, f + 4)) [0 ..< rn] @ map (\<lambda>k. (X + k * st + 4, f + 4)) [0 ..< tn]"
    using b [OF lt(3)] b [OF lt(4)]
    by (simp add: rings_at_def Let_def rx_desc_def tx_desc_def f_def [symmetric] rn_def [symmetric] tn_def [symmetric] T_def [symmetric]
        st_def [symmetric] R_def [symmetric] X_def [symmetric] del: of_nat_add of_nat_mult)
  have a: "rx_bd_dma_addr (rings_at m P e) = of_nat P" "tx_bd_dma_addr (rings_at m P e) = of_nat T" "frame_max_size (rings_at m P e) = frame_max_size e"
    "length (rx_bd (rings_at m P e)) = rn" "length (tx_bd (rings_at m P e)) = tn"
    by (simp_all add: rings_at_def Let_def T_def rn_def tn_def)
  show ?thesis
    unfolding eth_ranges_def a f_def [symmetric] d by (simp add: u lt del: of_nat_add)
qed

lemma rings_stacked:
  assumes "P + rings_need e < sram_end"
  shows "stacked P (eth_ranges (rings_at m P e)) (P + rings_need e)"
proof -
  let ?rn = "unat (rx_buf_num e)" and ?tn = "unat (tx_buf_num e)" and ?f = "unat (frame_max_size e)"
  define T where "T = P + taken (16 * ?rn)"
  define st where "st = taken (?f + 8)"
  define R where "R = T + taken (16 * ?tn)"
  define X where "X = R + ?rn * st"
  have need: "P + rings_need e = X + ?tn * st" by (simp add: rings_need_def X_def R_def T_def st_def add_mult_distrib)
  have l: "?f + 4 + 8 \<le> st" "P + 16 * ?rn \<le> T" "T + 16 * ?tn \<le> R"
    using taken_ge [of "?f + 8"] taken_ge [of "16 * ?rn"] taken_ge [of "16 * ?tn"] by (simp_all add: st_def T_def R_def)
  have "stacked R (map (\<lambda>k. (R + k * st + 4, ?f + 4)) [0 ..< ?rn] @ map (\<lambda>k. (X + k * st + 4, ?f + 4)) [0 ..< ?tn] @ []) (X + ?tn * st)"
    by (intro stacked_steps l) (use stacked_steps [OF l(1), of X ?tn "[]"] in \<open>simp add: X_def\<close>)
  then show ?thesis
    unfolding need rings_ranges [OF assms] T_def [symmetric] R_def [symmetric] st_def [symmetric] X_def [symmetric]
    using l(2,3) by (auto elim: stacked_mono)
qed

lemma rings_end:
  assumes "P + rings_need e < sram_end" "0 < unat (tx_buf_num e)"
  shows "last (eth_ranges (rings_at m P e)) = (P + rings_need e - taken (unat (frame_max_size e) + 8) + 4, unat (frame_max_size e) + 4)"
  using assms(2) by (cases "unat (tx_buf_num e)") (simp_all add: rings_ranges [OF assms(1)] rings_need_def add_mult_distrib)

section \<open>Start of the MAC\<close>

text \<open>The MAC ends its reset and flushes its FIFO in the time the driver waits.\<close>

definition mac_responds :: "mac_hw \<Rightarrow> bool" where
  "mac_responds hw \<longleftrightarrow> wait_clear 100 (sr_busy hw) < 100 \<and> wait_clear 10 (ftf_busy hw) < 10"

text \<open>The duplex and speed that the MAC runs with are those of the driver.\<close>

definition mac_agrees :: "eth_priv \<Rightarrow> bool" where
  "mac_agrees e \<longleftrightarrow> (bit (maccr (mac e)) 11 \<longleftrightarrow> eth_duplex e = DUPLEX_FULL) \<and> (bit (maccr (mac e)) 14 \<longleftrightarrow> eth_speed e = SPEED_100)"

text \<open>The MAC works on the rings of the driver.\<close>

definition mac_running :: "eth_priv \<Rightarrow> bool" where
  "mac_running e \<longleftrightarrow> dmardlar (mac e) = rx_bd_dma_addr e \<and> dmatdlar (mac e) = tx_bd_dma_addr e
     \<and> bit (maccr (mac e)) 2 \<and> bit (maccr (mac e)) 3 \<and> bit (dmaomr (mac e)) 1 \<and> bit (dmaomr (mac e)) 13 \<and> \<not> bit (dmabmr (mac e)) 0"

lemma params_setup_agrees: "mac_agrees (stm32_params_setup e)"
  by (auto simp: mac_agrees_def stm32_params_setup_def upd_mac_def Let_def mac_consts bit_simps)

lemma mac_program_responds:
  assumes "wait_clear 10 (ftf_busy hw) < 10" "mac_agrees e"
  obtains r where "mac_program hw addr e = (0, e\<lparr>mac := r\<rparr>)" "mac_running (e\<lparr>mac := r\<rparr>)" "mac_agrees (e\<lparr>mac := r\<rparr>)"
proof -
  have "mac_program hw addr e = (0, e\<lparr>mac := mac (snd (mac_program hw addr e))\<rparr>)"
    using assms(1) by (simp add: mac_program_def upd_mac_def Let_def)
  moreover have "mac_running (e\<lparr>mac := mac (snd (mac_program hw addr e))\<rparr>)"
    using assms(1) by (simp add: mac_program_def upd_mac_def Let_def mac_running_def mac_consts bit_simps)
  moreover have "mac_agrees (e\<lparr>mac := mac (snd (mac_program hw addr e))\<rparr>)"
    using assms by (simp add: mac_program_def upd_mac_def Let_def mac_agrees_def mac_consts bit_simps)
  ultimately show ?thesis by (rule that)
qed

lemma upd_mac_mac: "(upd_mac f e)\<lparr>mac := r\<rparr> = e\<lparr>mac := r\<rparr>"
  by (simp add: upd_mac_def)

lemma hw_start_responds:
  assumes "mac_responds hw"
  obtains r s' where "stm32_eth_hw_start hw hclk addr (e, s) = (0, e\<lparr>mac := r\<rparr>, s')" "mac_running (e\<lparr>mac := r\<rparr>)" "mac_agrees (e\<lparr>mac := r\<rparr>)"
proof -
  define e1 where "e1 = stm32_params_setup (upd_mac (\<lambda>r. r\<lparr>macmiiar := push_bit (mac_bit STM32_MAC_MIIAR_CR_BIT) (stm32_eth_mdio_cr hclk)\<rparr>)
    (e\<lparr>mac := (mac_reset hw)\<lparr>dmabmr := dmabmr (mac_reset hw) AND NOT (mac_msk STM32_MAC_DMABMR_SR)\<rparr>\<rparr>))"
  have e1: "e1 = e\<lparr>mac := mac e1\<rparr>" by (simp add: e1_def stm32_params_setup_def upd_mac_def Let_def)
  have sr: "\<not> flag (mac_msk STM32_MAC_DMABMR_SR) (dmabmr (mac e1))"
    by (simp add: e1_def stm32_params_setup_def upd_mac_def Let_def flag_def and.assoc)
  obtain r where r: "mac_program hw addr e1 = (0, e1\<lparr>mac := r\<rparr>)" "mac_running (e1\<lparr>mac := r\<rparr>)" "mac_agrees (e1\<lparr>mac := r\<rparr>)"
    using mac_program_responds [of hw e1 addr] assms params_setup_agrees unfolding mac_responds_def e1_def by metis
  have f: "e1\<lparr>mac := r\<rparr> = e\<lparr>mac := r\<rparr>" by (subst e1) simp
  obtain s' where "stm32_eth_hw_start hw hclk addr (e, s) = (0, e1\<lparr>mac := r\<rparr>, s')"
    using assms r(1) sr by (simp add: stm32_eth_hw_start_def mac_reset_pulse_def stm32_eth_hw_stop_def mac_responds_def Let_def
        upd_mac_mac e1_def [symmetric])
  then show ?thesis using that r f by metis
qed

section \<open>The PHY\<close>

text \<open>The MAC keeps running with the duplex and speed that the PHY reports.\<close>

lemma link_change_followed:
  assumes "mac_agrees e"
  shows "mac_agrees (stm32_handle_link_change phy e)" "eth_link (stm32_handle_link_change phy e) = phy_link phy"
    "phy_link phy \<noteq> 0 \<Longrightarrow> eth_speed (stm32_handle_link_change phy e) = phy_speed phy \<and> eth_duplex (stm32_handle_link_change phy e) = phy_duplex phy"
proof -
  have f: "eth_link (stm32_params_setup e) = eth_link e" "eth_speed (stm32_params_setup e) = eth_speed e" "eth_duplex (stm32_params_setup e) = eth_duplex e" for e
    by (simp_all add: stm32_params_setup_def upd_mac_def Let_def)
  show "mac_agrees (stm32_handle_link_change phy e)" "eth_link (stm32_handle_link_change phy e) = phy_link phy"
    "phy_link phy \<noteq> 0 \<Longrightarrow> eth_speed (stm32_handle_link_change phy e) = phy_speed phy \<and> eth_duplex (stm32_handle_link_change phy e) = phy_duplex phy"
    using assms params_setup_agrees by (auto simp: stm32_handle_link_change_def Let_def f)
qed

lemma mii_address_fields:
  fixes phy_id reg t x :: u32
  assumes "x AND 0xFFFFFFFC = 0"
  shows "drop_bit 11 (mii_address phy_id reg t OR x) AND 0x1F = phy_id AND 0x1F" "drop_bit 6 (mii_address phy_id reg t OR x) AND 0x1F = reg AND 0x1F"
    "drop_bit 2 (mii_address phy_id reg t OR x) AND 7 = drop_bit 2 t AND 7"
proof -
  have m: "0x1F = (mask 5 :: u32)" "7 = (mask 3 :: u32)" by (simp_all add: mask_eq_exp_minus_1)
  have x: "\<not> bit x n" if "2 \<le> n" for n
  proof -
    have "bit (x AND 0xFFFFFFFC) n = False" using assms by simp
    moreover have "0xFFFFFFFC = (NOT (mask 2) :: u32)" by (simp add: mask_eq_exp_minus_1)
    ultimately show ?thesis using that by (cases "n < 32") (auto simp: bit_simps dest: bit_imp_le_length)
  qed
  show "drop_bit 11 (mii_address phy_id reg t OR x) AND 0x1F = phy_id AND 0x1F" "drop_bit 6 (mii_address phy_id reg t OR x) AND 0x1F = reg AND 0x1F"
    "drop_bit 2 (mii_address phy_id reg t OR x) AND 7 = drop_bit 2 t AND 7"
    by (rule bit_eqI; auto simp: mii_address_def Let_def mac_consts m bit_simps x)+
qed

text \<open>A read from the PHY, when the transfer ends in time, gives the register that was asked for; the clock range stays.\<close>

lemma mdio_read_exact:
  assumes "wait_clear 10 (mii_busy hw) < 10"
  shows "fst (stm32_mdio_read hw phy_id reg e) = uint (phy_reg hw (phy_id AND 0x1F) (reg AND 0x1F))"
proof -
  let ?t = "mii_address phy_id reg (macmiiar (mac e)) OR (mac_msk STM32_MAC_MIIAR_MB)"
  have "\<not> bit ?t 1" by (simp add: mii_address_def Let_def mac_consts bit_simps)
  then have w: "\<not> flag (mac_msk STM32_MAC_MIIAR_MW) ?t" using flag_bit [of 1 ?t] by (simp add: STM32_MAC_MIIAR_MW_def)
  have "((mac_msk STM32_MAC_MIIAR_MB) :: u32) AND 0xFFFFFFFC = 0" by (simp add: STM32_MAC_MIIAR_MB_def)
  note a = mii_address_fields [OF this, of phy_id reg "macmiiar (mac e)"]
  have s: "sint (ucast v :: u32) = uint v" for v :: u16
  proof -
    have v: "uint v < 65536" "- (2 ^ 31) \<le> uint v"
      using unsigned_less [of v, where 'a = int] order_trans [OF _ unsigned_greater_eq [of v, where 'a = int], of "- (2 ^ 31)"] by simp_all
    then show ?thesis by (simp add: sint_uint unsigned_ucast_eq take_bit_int_eq_self signed_take_bit_int_eq_self)
  qed
  show ?thesis using assms w a by (simp add: stm32_mdio_read_def Let_def upd_mac_def mii_transfer_def s)
qed

section \<open>Opening and closing\<close>

text \<open>A device that is down, with its memory free from \<open>P\<close> on.\<close>

definition ring_shape :: "eth_priv \<Rightarrow> bool" where
  "ring_shape e \<longleftrightarrow> 0 < unat (rx_buf_num e) \<and> 0 < unat (tx_buf_num e) \<and> unat (frame_max_size e) \<le> 0x3FFF
     \<and> length (rx_skb e) = unat (rx_buf_num e) \<and> length (tx_skb e) = unat (tx_buf_num e)"

definition eth_down :: "nat \<Rightarrow> eth_board \<Rightarrow> bool" where
  "eth_down P b \<longleftrightarrow> sram_pointer (brd_eth b) = of_nat P \<and> ring_shape (brd_eth b) \<and> napi_sched (brd_eth b) \<and> irq_idle (brd_world b) STM32_MAC_IRQ"

text \<open>The driver's state right after opening, from the state before, where the registers of the MAC are \<open>r\<close>.\<close>

definition eth_opened :: "sram_content \<Rightarrow> nat \<Rightarrow> mac_regs \<Rightarrow> eth_priv \<Rightarrow> eth_priv" where
  "eth_opened m P r e = (rings_at m P e)\<lparr>mac := r, eth_link := 0, eth_duplex := -1, eth_speed := -1, rx_done_idx := 0, tx_todo_idx := 0,
     tx_done_idx := 0, tx_pending := 0, tx_blocked := 0, napi_sched := False, queue_stopped := False\<rparr>"

lemma open_device:
  assumes down: "eth_down P b" and room: "P + rings_need (brd_eth b) < sram_end" and "mac_responds (env_mac en)" "env_dev en \<noteq> 0"
  obtains r w where "stm32_netdev_open en True b = Inr (0, b\<lparr>brd_eth := eth_opened (env_sram en) P r (brd_eth b), brd_world := w, phy_running := True\<rparr>)"
    "mac_running (eth_opened (env_sram en) P r (brd_eth b))" "mac_agrees (eth_opened (env_sram en) P r (brd_eth b))"
    "bit (dmaier r) 0" "bit (dmaier r) 6" "nr_irqs w = nr_irqs (brd_world b)" "nvic_line w STM32_MAC_IRQ" "nvic_on w STM32_MAC_IRQ" "\<not> is_off w STM32_MAC_IRQ"
    "action (irq_descs w STM32_MAC_IRQ) = [\<lparr>act_handler = env_handler en, act_flags = (irqf IRQF_SHARED), act_dev_id = env_dev en\<rparr>]"
    "\<not> bit (status (irq_descs w STM32_MAC_IRQ)) 8" "\<forall>k \<in> {18, 19, 26, 28}. \<not> bit (status (irq_descs w STM32_MAC_IRQ)) k"
proof -
  let ?m = "env_sram en"
  define e0 where "e0 = (brd_eth b)\<lparr>eth_link := 0, eth_duplex := -1, eth_speed := -1\<rparr>"
  define e1 where "e1 = (rings_at ?m P e0)\<lparr>napi_sched := False\<rparr>"
  have d: "sram_pointer e0 = of_nat P" "rings_need e0 = rings_need (brd_eth b)" "unat (frame_max_size e0) \<le> 0x3FFF" "length (rx_skb e0) = unat (rx_buf_num e0)"
    "length (tx_skb e0) = unat (tx_buf_num e0)" "napi_sched (rings_at ?m P e0)"
    using down by (simp_all add: eth_down_def ring_shape_def e0_def rings_need_def rings_at_def Let_def)
  have a: "stm32_eth_buffers_alloc ?m e0 = Inr (rings_at ?m P e0)"
    using buffers_alloc [OF d(1) _ _ d(3-5)] room by (simp add: d(2))
  have n: "napi_enable (rings_at ?m P e0) = Inr e1" using d(6) by (simp add: napi_enable_def e1_def)
  obtain r s where h: "stm32_eth_hw_start (env_mac en) (env_hclk en) (env_addr en) (e1, iw_soc (brd_world b)) = (0, e1\<lparr>mac := r\<rparr>, s)"
    "mac_running (e1\<lparr>mac := r\<rparr>)" "mac_agrees (e1\<lparr>mac := r\<rparr>)" by (rule hw_start_responds [OF assms(3)])
  define w1 where "w1 = (brd_world b)\<lparr>iw_soc := s\<rparr>"
  have i: "STM32_MAC_IRQ < nr_irqs w1" "chip_of STM32_MAC_IRQ w1 = Nvic_chip" "handle_irq (irq_descs w1 STM32_MAC_IRQ) = Handle_level_irq"
    "action (irq_descs w1 STM32_MAC_IRQ) = []" "\<forall>k \<in> {18, 19, 26, 28}. \<not> bit (status (irq_descs w1 STM32_MAC_IRQ)) k"
    "\<not> bit (irqf IRQF_SHARED) 13" "bit (irqf IRQF_SHARED) 7 \<longrightarrow> env_dev en \<noteq> 0"
    using down assms(4) by (simp_all add: eth_down_def irq_idle_def w1_def irq_simps) (simp_all add: irq_flag_defs bit_iff_odd)
  obtain w where w: "request_irq (env_exti en) True STM32_MAC_IRQ (Some (env_handler en)) (irqf IRQF_SHARED) (env_dev en) w1 = Inr (0, w)" "nr_irqs w = nr_irqs w1"
    "nvic_line w STM32_MAC_IRQ" "\<not> is_off w STM32_MAC_IRQ" "nvic_on w STM32_MAC_IRQ" "\<not> bit (status (irq_descs w STM32_MAC_IRQ)) 8"
    "action (irq_descs w STM32_MAC_IRQ) = [\<lparr>act_handler = env_handler en, act_flags = (irqf IRQF_SHARED), act_dev_id = env_dev en\<rparr>]"
    "\<forall>k \<in> {18, 19, 26, 28}. \<not> bit (status (irq_descs w STM32_MAC_IRQ)) k"
    by (rule request_nvic [OF i, where h = "env_handler en" and hw = "env_exti en"]) blast
  define r' where "r' = r\<lparr>dmaier := dmaier r OR ((mac_irq STM32_MAC_DMAIER_TIE) OR (mac_irq STM32_MAC_DMAIER_RIE) OR (mac_msk STM32_MAC_DMASR_NIS) OR (mac_msk STM32_MAC_DMASR_AIS))\<rparr>"
  have o: "eth_opened ?m P r' (brd_eth b) = e1\<lparr>rx_done_idx := 0, tx_todo_idx := 0, tx_done_idx := 0, tx_pending := 0, tx_blocked := 0, mac := r', queue_stopped := False\<rparr>"
    by (simp add: eth_opened_def e1_def e0_def rings_at_def Let_def rx_desc_def tx_desc_def del: of_nat_add of_nat_mult)
  have "stm32_netdev_open en True b = Inr (0, b\<lparr>brd_eth := eth_opened ?m P r' (brd_eth b), brd_world := w, phy_running := True\<rparr>)"
    using a n h(1) w(1) by (simp add: stm32_netdev_open_def Let_def e0_def [symmetric] w1_def [symmetric] o upd_mac_def r'_def [symmetric])
  moreover have "mac_running (eth_opened ?m P r' (brd_eth b))" "mac_agrees (eth_opened ?m P r' (brd_eth b))"
    using h(2,3) unfolding o by (simp_all add: mac_running_def mac_agrees_def r'_def)
  moreover have "bit (dmaier r') 0" "bit (dmaier r') 6"
    by (simp_all add: r'_def STM32_MAC_DMAIER_TIE_def STM32_MAC_DMAIER_RIE_def mac_consts bit_simps)
  ultimately show ?thesis using that w by (simp add: w1_def)
qed

text \<open>What closing gives back, and what an opening and a closing cost.\<close>

definition rings_freed :: "eth_priv \<Rightarrow> nat" where
  "rings_freed e = (unat (frame_max_size e) + 24) * (unat (rx_buf_num e) + unat (tx_buf_num e))"

definition rings_lost :: "eth_priv \<Rightarrow> nat" where
  "rings_lost e = rings_need e - rings_freed e"

definition ring_sizes :: "eth_priv \<Rightarrow> u32 \<times> u32 \<times> u32" where
  "ring_sizes e = (frame_max_size e, rx_buf_num e, tx_buf_num e)"

lemma sizes_need:
  assumes "ring_sizes e' = ring_sizes e"
  shows "rings_need e' = rings_need e" "rings_freed e' = rings_freed e" "rings_lost e' = rings_lost e"
  using assms by (simp_all add: ring_sizes_def rings_need_def rings_freed_def rings_lost_def)

lemma rings_freed_le: "rings_freed e \<le> rings_need e"
proof -
  let ?n = "unat (rx_buf_num e) + unat (tx_buf_num e)"
  have "rings_freed e = 16 * ?n + (unat (frame_max_size e) + 8) * ?n" by (simp add: rings_freed_def algebra_simps)
  also have "(unat (frame_max_size e) + 8) * ?n \<le> taken (unat (frame_max_size e) + 8) * ?n"
    using taken_ge [of "unat (frame_max_size e) + 8"] by (intro mult_le_mono1) simp
  also have "16 * ?n \<le> taken (16 * unat (rx_buf_num e)) + taken (16 * unat (tx_buf_num e))"
    using taken_ge [of "16 * unat (rx_buf_num e)"] taken_ge [of "16 * unat (tx_buf_num e)"] by simp
  finally show ?thesis by (simp add: rings_need_def algebra_simps)
qed

lemma buffers_free_pointer:
  "sram_pointer (stm32_eth_buffers_free e) = sram_pointer e - of_nat (rings_freed e)"
  by (simp add: stm32_eth_buffers_free_def Let_def rings_freed_def sizeof_bd_def sizeof_fake_def algebra_simps)

lemma rings_at_pointer: "sram_pointer (rings_at m P e) = of_nat (P + rings_need e)"
  by (simp add: rings_at_def Let_def rings_need_def algebra_simps)

lemma open_close:
  assumes down: "eth_down P b" and room: "P + rings_need (brd_eth b) < sram_end" and "mac_responds (env_mac en)" "env_dev en \<noteq> 0"
  obtains b1 b2 where "stm32_netdev_open en True b = Inr (0, b1)" "stm32_netdev_close en b1 = Some (Inr (0, b2))"
    "eth_down (P + rings_lost (brd_eth b)) b2" "ring_sizes (brd_eth b2) = ring_sizes (brd_eth b)"
proof -
  obtain r w where o: "stm32_netdev_open en True b = Inr (0, b\<lparr>brd_eth := eth_opened (env_sram en) P r (brd_eth b), brd_world := w, phy_running := True\<rparr>)"
    and w: "nr_irqs w = nr_irqs (brd_world b)" "nvic_line w STM32_MAC_IRQ"
      "action (irq_descs w STM32_MAC_IRQ) = [\<lparr>act_handler = env_handler en, act_flags = (irqf IRQF_SHARED), act_dev_id = env_dev en\<rparr>]"
      "\<not> bit (status (irq_descs w STM32_MAC_IRQ)) 8" "\<forall>k \<in> {18, 19, 26, 28}. \<not> bit (status (irq_descs w STM32_MAC_IRQ)) k"
    by (rule open_device [OF assms]) blast
  define e where "e = eth_opened (env_sram en) P r (brd_eth b)"
  obtain v where v: "free_irq (env_exti en) STM32_MAC_IRQ (env_dev en) w = Some (Inr v)" "nr_irqs v = nr_irqs w" "chip_of STM32_MAC_IRQ v = Nvic_chip"
    "handle_irq (irq_descs v STM32_MAC_IRQ) = Handle_level_irq" "action (irq_descs v STM32_MAC_IRQ) = []"
    "\<forall>k \<in> {18, 19, 26, 28}. bit (status (irq_descs v STM32_MAC_IRQ)) k = bit (status (irq_descs w STM32_MAC_IRQ)) k"
    by (rule free_nvic [OF w(2,3) _ w(4), where dev = "env_dev en" and hw = "env_exti en"]) (simp, blast)
  have idle: "irq_idle v STM32_MAC_IRQ" using v(2-6) w(1,5) down by (auto simp: irq_idle_def eth_down_def)
  define e' where "e' = stm32_eth_hw_stop (upd_mac (\<lambda>r. r\<lparr>dmaier := dmaier r AND NOT
      ((mac_irq STM32_MAC_DMAIER_TIE) OR (mac_irq STM32_MAC_DMAIER_RIE) OR (mac_msk STM32_MAC_DMASR_NIS) OR (mac_msk STM32_MAC_DMASR_AIS))\<rparr>) ((napi_disable e)\<lparr>queue_stopped := True\<rparr>))"
  define b2 where "b2 = b\<lparr>brd_eth := stm32_eth_buffers_free e', brd_world := v, phy_running := True\<rparr>"
  have c: "stm32_netdev_close en (b\<lparr>brd_eth := e, brd_world := w, phy_running := True\<rparr>) = Some (Inr (0, b2))"
    using v(1) by (simp add: stm32_netdev_close_def Let_def e'_def b2_def)
  have f: "sram_pointer e' = of_nat (P + rings_need (brd_eth b))" "rx_buf_num e' = rx_buf_num (brd_eth b)" "tx_buf_num e' = tx_buf_num (brd_eth b)"
    "frame_max_size e' = frame_max_size (brd_eth b)" "length (rx_skb e') = unat (rx_buf_num (brd_eth b))" "length (tx_skb e') = unat (tx_buf_num (brd_eth b))" "napi_sched e'"
    by (simp_all add: e'_def e_def eth_opened_def stm32_eth_hw_stop_def upd_mac_def napi_disable_def rings_at_pointer del: of_nat_add)
      (simp_all add: rings_at_def Let_def)
  have l: "ring_sizes (brd_eth b2) = ring_sizes (brd_eth b)" "rings_freed e' = rings_freed (brd_eth b)"
    using f by (simp_all add: b2_def ring_sizes_def rings_freed_def stm32_eth_buffers_free_def Let_def)
  have "of_nat (P + rings_need (brd_eth b)) - of_nat (rings_freed (brd_eth b)) = (of_nat (P + rings_lost (brd_eth b)) :: u32)"
    using rings_freed_le [of "brd_eth b"] by (simp add: rings_lost_def of_nat_diff)
  then have "eth_down (P + rings_lost (brd_eth b)) b2"
    using f idle down l(2) by (simp add: eth_down_def b2_def buffers_free_pointer del: of_nat_add)
      (simp add: ring_shape_def stm32_eth_buffers_free_def Let_def)
  then show ?thesis using l by (intro that [OF o c [unfolded e_def]])
qed

text \<open>A number of times up and down.\<close>

fun up_down :: "eth_env \<Rightarrow> nat \<Rightarrow> eth_board \<Rightarrow> (fault + int \<times> eth_board) option" where
  "up_down en 0 b = Some (Inr (0, b))"
| "up_down en (Suc k) b =
     (case stm32_netdev_open en True b of
        Inl f \<Rightarrow> Some (Inl f)
      | Inr (rv, b) \<Rightarrow> if rv \<noteq> 0 then Some (Inr (rv, b)) else
          (case stm32_netdev_close en b of
             None \<Rightarrow> None
           | Some (Inl f) \<Rightarrow> Some (Inl f)
           | Some (Inr (_, b)) \<Rightarrow> up_down en k b))"

lemma up_down_leaks:
  assumes "mac_responds (env_mac en)" "env_dev en \<noteq> 0"
  shows "eth_down P b \<Longrightarrow> (0 < k \<Longrightarrow> P + (k - 1) * rings_lost (brd_eth b) + rings_need (brd_eth b) < sram_end) \<Longrightarrow>
    \<exists>b'. up_down en k b = Some (Inr (0, b')) \<and> eth_down (P + k * rings_lost (brd_eth b)) b' \<and> ring_sizes (brd_eth b') = ring_sizes (brd_eth b)"
proof (induction k arbitrary: P b)
  case (Suc k)
  then obtain b1 b2 where b: "stm32_netdev_open en True b = Inr (0, b1)" "stm32_netdev_close en b1 = Some (Inr (0, b2))"
    "eth_down (P + rings_lost (brd_eth b)) b2" "ring_sizes (brd_eth b2) = ring_sizes (brd_eth b)"
    using open_close [OF Suc.prems(1) _ assms] by (metis Suc.prems(2) add.commute add_lessD1 group_cancel.add2 zero_less_Suc)
  show ?case using Suc.IH [OF b(3)] Suc.prems(2) b sizes_need [OF b(4)] by (cases k) (simp_all add: algebra_simps)
qed simp

section \<open>Properties\<close>

lemma opened_fields:
  "rx_bd (eth_opened m P r e) = rx_bd (rings_at m P e)" "tx_bd (eth_opened m P r e) = tx_bd (rings_at m P e)"
  "eth_ranges (eth_opened m P r e) = eth_ranges (rings_at m P e)" "mac (eth_opened m P r e) = r"
  by (simp_all add: eth_opened_def eth_ranges_def)

lemma opened_tx_fresh:
  assumes "ring_shape e"
  shows "tx_fresh \<lparr>tx_drv = eth_opened m P r e, tx_cur = 0, tx_wire = [], tx_taken = []\<rparr>"
proof -
  have "unat (frame_max_size e) \<le> unat (frame_max_size e + 4)"
    using assms by (simp add: ring_shape_def unat_word_ariths)
  moreover have "\<not> flag (bd_msk STM32_DMA_TBD_DMA_OWN) (bd_msk STM32_DMA_TBD_TCH)" by (simp add: flag_def STM32_DMA_TBD_DMA_OWN_def STM32_DMA_TBD_TCH_def)
  ultimately show ?thesis
    using assms by (auto simp: tx_fresh_def tx_shape_def tx_own_def tx_slot_def eth_opened_def rings_at_def Let_def tx_desc_def fake_at_def ring_shape_def)
qed

lemma opened_rx_armed:
  assumes "ring_shape e" "bit (dmaier r) 6"
  shows "rx_inv (eth_opened m P r e)" "rx_armed (eth_opened m P r e)"
proof -
  have "flag (bd_msk STM32_DMA_RBD_DMA_OWN) (bd_msk STM32_DMA_RBD_DMA_OWN)" by (simp add: flag_def STM32_DMA_RBD_DMA_OWN_def)
  then have o: "rx_own (eth_opened m P r e) j" if "j < unat (rx_buf_num e)" for j
    using that by (simp add: rx_own_def eth_opened_def rings_at_def Let_def rx_desc_def)
  have f: "flag (mac_irq STM32_MAC_DMAIER_RIE) (dmaier r)" using assms(2) flag_bit [of 6 "dmaier r"] by (simp add: STM32_MAC_DMAIER_RIE_def)
  show "rx_inv (eth_opened m P r e)"
    using o assms(1) by (simp add: rx_inv_def ring_shape_def) (simp add: eth_opened_def rings_at_def Let_def)
  show "rx_armed (eth_opened m P r e)"
    using o [of 0] assms(1) f by (simp add: rx_armed_def ring_shape_def) (simp add: eth_opened_def)
qed

text \<open>C10. Opening the device, when its MAC responds, its interrupt is free and the memory is large enough, succeeds and leaves it ready: the
  two rings and all their buffers lie one above the other in the memory from the allocation pointer on, so that no two of them overlap, the descriptors are
  chained in a circle, the MAC runs on these rings with the duplex and speed of the driver, the interrupt is enabled with the handler of the driver,
  the transmit path is empty and the receive path waits for its first frame.\<close>

theorem eth_open_ready:
  assumes "eth_down P b" "P + rings_need (brd_eth b) < sram_end" "mac_responds (env_mac en)" "env_dev en \<noteq> 0"
  shows "\<exists>b'. stm32_netdev_open en True b = Inr (0, b') \<and> stacked P (eth_ranges (brd_eth b')) (P + rings_need (brd_eth b))
    \<and> length (rx_bd (brd_eth b')) = unat (rx_buf_num (brd_eth b)) \<and> length (tx_bd (brd_eth b')) = unat (tx_buf_num (brd_eth b))
    \<and> (\<forall>i < length (rx_bd (brd_eth b')). bd_next (rx_bd (brd_eth b') ! i) = dmardlar (mac (brd_eth b')) + 16 * (of_nat (i + 1) mod rx_buf_num (brd_eth b)))
    \<and> (\<forall>i < length (tx_bd (brd_eth b')). bd_next (tx_bd (brd_eth b') ! i) = dmatdlar (mac (brd_eth b')) + 16 * (of_nat (i + 1) mod tx_buf_num (brd_eth b)))
    \<and> mac_running (brd_eth b') \<and> mac_agrees (brd_eth b') \<and> nvic_on (brd_world b') STM32_MAC_IRQ
    \<and> action (irq_descs (brd_world b') STM32_MAC_IRQ) = [\<lparr>act_handler = env_handler en, act_flags = (irqf IRQF_SHARED), act_dev_id = env_dev en\<rparr>]
    \<and> tx_fresh \<lparr>tx_drv = brd_eth b', tx_cur = 0, tx_wire = [], tx_taken = []\<rparr> \<and> rx_inv (brd_eth b') \<and> rx_armed (brd_eth b')"
proof -
  have shape: "ring_shape (brd_eth b)" using assms(1) by (simp add: eth_down_def)
  obtain r w where o: "stm32_netdev_open en True b = Inr (0, b\<lparr>brd_eth := eth_opened (env_sram en) P r (brd_eth b), brd_world := w, phy_running := True\<rparr>)"
    "mac_running (eth_opened (env_sram en) P r (brd_eth b))" "mac_agrees (eth_opened (env_sram en) P r (brd_eth b))"
    "bit (dmaier r) 6" "nvic_on w STM32_MAC_IRQ"
    "action (irq_descs w STM32_MAC_IRQ) = [\<lparr>act_handler = env_handler en, act_flags = (irqf IRQF_SHARED), act_dev_id = env_dev en\<rparr>]"
    by (rule open_device [OF assms]) blast
  have next_bd: "\<forall>i < unat (rx_buf_num (brd_eth b)). bd_next (rx_bd (rings_at (env_sram en) P (brd_eth b)) ! i) = dmardlar r + 16 * (of_nat (i + 1) mod rx_buf_num (brd_eth b))"
    "\<forall>i < unat (tx_buf_num (brd_eth b)). bd_next (tx_bd (rings_at (env_sram en) P (brd_eth b)) ! i) = dmatdlar r + 16 * (of_nat (i + 1) mod tx_buf_num (brd_eth b))"
    "length (rx_bd (rings_at (env_sram en) P (brd_eth b))) = unat (rx_buf_num (brd_eth b))" "length (tx_bd (rings_at (env_sram en) P (brd_eth b))) = unat (tx_buf_num (brd_eth b))"
    using o(2) by (simp_all add: mac_running_def opened_fields, simp_all add: eth_opened_def rings_at_def Let_def rx_desc_def tx_desc_def sizeof_bd_def)
  show ?thesis
    by (intro exI conjI, rule o(1))
      (simp_all add: o opened_fields opened_tx_fresh opened_rx_armed shape rings_stacked assms(2) next_bd del: of_nat_add of_nat_Suc)
qed

lemma open_bug:
  assumes "eth_down P b" "P < sram_end" "sram_end \<le> P + rings_need (brd_eth b)" "P + rings_need (brd_eth b) < 2 ^ 32"
  shows "stm32_netdev_open en kmem b = Inl BugOn"
proof -
  define e where "e = (brd_eth b)\<lparr>eth_link := 0, eth_duplex := -1, eth_speed := -1\<rparr>"
  have n: "rings_need e = rings_need (brd_eth b)" by (simp add: e_def rings_need_def)
  have "stm32_eth_buffers_alloc (env_sram en) e = Inl BugOn"
    using buffers_alloc [of e P "env_sram en"] assms unfolding n by (simp add: eth_down_def ring_shape_def e_def)
  then show ?thesis by (simp add: stm32_netdev_open_def Let_def e_def)
qed

lemma probe_f7:
  assumes "stm32_plat_probe True ethaddr True 0 (stm32_mii_init True True 0 phy_map connect) m (fst (stm32_eth_init PLATFORM_STM32_STM32F7_DISCO s))
      = Inr (0, Some e)"
  shows "sram_pointer e = of_nat 0x20001058" "ring_shape e" "napi_sched e" "rings_need e = 41448" "rings_lost e = 88"
    "unat (tx_buf_num e) = 8" "unat (frame_max_size e) = 2044"
proof -
  have d: "fst (stm32_eth_init PLATFORM_STM32_STM32F7_DISCO s) = Some stm32f7_eth_data" by (simp add: stm32_eth_init_def)
  have a: "ALIGN STM32_SRAM 4 = 0x20001000" "ALIGN 48 4 = 48" "ALIGN 32 4 = 32"
    by (simp_all add: ALIGN_def STM32_SRAM_def SRAM_PHYS_OFFSET_def CONFIG_STM32_ETHER_BUF_IN_SRAM_BASE_def)
  have mii: "sram_pointer e' = sram_pointer e \<and> rx_buf_num e' = rx_buf_num e \<and> tx_buf_num e' = tx_buf_num e \<and> frame_max_size e' = frame_max_size e
      \<and> rx_skb e' = rx_skb e \<and> tx_skb e' = tx_skb e \<and> napi_sched e' = napi_sched e"
    if "stm32_mii_init True True 0 phy_map connect e = (rv, e')" for rv e e'
    using that by (auto simp: stm32_mii_init_def stm32_mii_probe_def split: option.splits if_splits)
  have e: "sram_pointer e = 0x20001058 \<and> rx_buf_num e = 12 \<and> tx_buf_num e = 8 \<and> frame_max_size e = 2044 \<and> length (rx_skb e) = 12 \<and> length (tx_skb e) = 8 \<and> napi_sched e"
    using assms unfolding d
    by (auto simp: stm32_plat_probe_def stm32f7_eth_data_def stm32_sram_alloc_def SRAM_PHYS_OFFSET_def SRAM_PHYS_SIZE_def STM32_DMA_RBD_FL_MSK_def a Let_def
        split: prod.splits if_splits dest!: mii)
  then show "sram_pointer e = of_nat 0x20001058" "ring_shape e" "napi_sched e" "rings_need e = 41448" "rings_lost e = 88"
    "unat (tx_buf_num e) = 8" "unat (frame_max_size e) = 2044"
    by (simp_all add: ring_shape_def rings_need_def rings_lost_def rings_freed_def taken_def)
qed

text \<open>C31. On this board every opening and closing of the device loses 88 bytes of its memory, because closing gives back the sizes of the descriptors and buffers
  but not what the allocation adds to each of them. The rings leave the 64 KB of uncached memory with the 228th opening, and the 972nd one hits the \<^verbatim>\<open>BUG_ON\<close>
  of the allocator.\<close>

theorem eth_updown_leak:
  assumes probe: "stm32_plat_probe True ethaddr True 0 (stm32_mii_init True True 0 phy_map connect) m (fst (stm32_eth_init PLATFORM_STM32_STM32F7_DISCO s))
      = Inr (0, Some (brd_eth b))"
    and env: "irq_idle (brd_world b) STM32_MAC_IRQ" "mac_responds (env_mac en)" "env_dev en \<noteq> 0" and k: "k \<le> 971"
  shows "\<exists>b'. up_down en k b = Some (Inr (0, b')) \<and> sram_pointer (brd_eth b') = 0x20001058 + 88 * of_nat k
    \<and> (if k = 971 then stm32_netdev_open en True b' = Inl BugOn
       else \<exists>b''. stm32_netdev_open en True b' = Inr (0, b'') \<and> (stacked 0x20000000 (eth_ranges (brd_eth b'')) 0x20010000 \<longleftrightarrow> k \<le> 226))"
proof -
  note p = probe_f7 [OF probe]
  have down: "eth_down 0x20001058 b" using p env(1) by (simp add: eth_down_def)
  have rm: "0 < k \<Longrightarrow> 0x20001058 + (k - 1) * 88 + 41448 < sram_end" using k by linarith
  obtain b' where b: "up_down en k b = Some (Inr (0, b'))" "eth_down (0x20001058 + k * 88) b'" "ring_sizes (brd_eth b') = ring_sizes (brd_eth b)"
    using up_down_leaks [OF env(2,3) down, of k] rm unfolding p(4,5) by blast
  have need: "rings_need (brd_eth b') = 41448" using sizes_need [OF b(3)] p(4) by simp
  have ptr: "sram_pointer (brd_eth b') = 0x20001058 + 88 * of_nat k" using b(2) by (simp add: eth_down_def)
  show ?thesis
  proof (cases "k = 971")
    case True
    then show ?thesis using b ptr open_bug [OF b(2)] need by simp
  next
    case False
    have room: "0x20001058 + k * 88 + rings_need (brd_eth b') < sram_end" using False k by (simp add: need)
    obtain r w where o: "stm32_netdev_open en True b' = Inr (0, b'\<lparr>brd_eth := eth_opened (env_sram en) (0x20001058 + k * 88) r (brd_eth b'), brd_world := w, phy_running := True\<rparr>)"
      by (rule open_device [OF b(2) room env(2,3)]) blast
    have f: "unat (tx_buf_num (brd_eth b')) = 8" "unat (frame_max_size (brd_eth b')) = 2044" using b(3) p(6,7) by (simp_all add: ring_sizes_def)
    have "last (eth_ranges (rings_at (env_sram en) (0x20001058 + k * 88) (brd_eth b'))) = (0x20001058 + k * 88 + 39396, 2048)"
      using rings_end [OF room, of "env_sram en"] need f by (simp add: taken_def)
    moreover have "stacked 0x20000000 (eth_ranges (rings_at (env_sram en) (0x20001058 + k * 88) (brd_eth b'))) (0x20001058 + k * 88 + 41448)"
      using rings_stacked [OF room, of "env_sram en"] unfolding need by (rule stacked_mono) simp
    ultimately have "stacked 0x20000000 (eth_ranges (rings_at (env_sram en) (0x20001058 + k * 88) (brd_eth b'))) 0x20010000 \<longleftrightarrow> k \<le> 226"
      by (subst stacked_end) (auto simp: eth_ranges_def)
    then show ?thesis using b(1) ptr o False by (simp add: opened_fields)
  qed
qed

text \<open>A board whose MAC answers at once, just after boot and the probe of the device.\<close>

definition ex_sram :: sram_content where
  "ex_sram = \<lparr>stale_bd = (\<lambda>_. \<lparr>bd_stat = 0, bd_ctrl = 0, bd_buf = 0, bd_next = 0\<rparr>), stale_len = (\<lambda>_. 0), stale_byte = (\<lambda>_. 0)\<rparr>"

definition ex_mac_hw :: mac_hw where
  "ex_mac_hw = \<lparr>mac_reset = mac0, sr_busy = (\<lambda>i. i < 3), ftf_busy = (\<lambda>_. False), mii_busy = (\<lambda>_. False), phy_reg = (\<lambda>_ _. 7)\<rparr>"

definition ex_env :: eth_env where
  "ex_env = \<lparr>env_mac = ex_mac_hw, env_sram = ex_sram, env_exti = rc_w1, env_hclk = 200000000, env_addr = [2, 0, 0, 0, 0, 1],
     env_handler = 5, env_dev = 0x100\<rparr>"

definition ex_priv :: eth_priv where
  "ex_priv = eth_priv_new\<lparr>sram_pointer := 0x20001058, napi_sched := True, frame_max_size := 2044, rx_buf_num := 12, tx_buf_num := 8,
     rx_skb := replicate 12 (fake_at ex_sram 0x20001000 0), tx_skb := replicate 8 (fake_at ex_sram 0x20001034 0), eth_duplex := -1\<rparr>"

definition ex_board :: eth_board where
  "ex_board = \<lparr>brd_eth = ex_priv, brd_world = upd_desc STM32_MAC_IRQ (\<lambda>d. d\<lparr>chip := Nvic_chip, handle_irq := Handle_level_irq, status := 0x200\<rparr>)
     (irq_world_boot board_config soc0 (\<lambda>_. 0) (\<lambda>_. 0)), phy_running = False\<rparr>"

lemma ex_probe:
  "stm32_plat_probe True False True 0 (stm32_mii_init True True 0 (\<lambda>a. if a = 0 then Some 0x7C0F1 else None) (\<lambda>_. 0)) ex_sram
     (fst (stm32_eth_init PLATFORM_STM32_STM32F7_DISCO soc0)) = Inr (0, Some ex_priv)"
  by code_simp

lemma ex_board_ok: "irq_idle (brd_world ex_board) STM32_MAC_IRQ" "mac_responds (env_mac ex_env)" "env_dev ex_env \<noteq> 0" "brd_eth ex_board = ex_priv"
  "eth_down 0x20001058 ex_board" "rings_need (brd_eth ex_board) = 41448"
proof -
  show i: "irq_idle (brd_world ex_board) STM32_MAC_IRQ"
    by (simp add: irq_idle_def ex_board_def irq_world_boot_def irq_simps NR_IRQS_def NVIC_IRQS_def STM32_MAC_IRQ_def irq_desc_init_def bit_iff_odd)
  show "mac_responds (env_mac ex_env)" by code_simp
  show "env_dev ex_env \<noteq> 0" "brd_eth ex_board = ex_priv" by (simp_all add: ex_env_def ex_board_def)
  show "eth_down 0x20001058 ex_board" using i by (simp add: eth_down_def ring_shape_def ex_board_def ex_priv_def)
  show "rings_need (brd_eth ex_board) = 41448" by (simp add: rings_need_def ex_board_def ex_priv_def taken_def)
qed

theorem eth_open_ready_witness:
  "\<exists>b'. stm32_netdev_open ex_env True ex_board = Inr (0, b') \<and> stacked 0x20001058 (eth_ranges (brd_eth b')) 0x2000B240 \<and> rx_armed (brd_eth b')"
  using eth_open_ready [of "0x20001058" ex_board ex_env] ex_board_ok by auto

theorem eth_updown_leak_witness:
  "(\<exists>b' b''. up_down ex_env 227 ex_board = Some (Inr (0, b')) \<and> stm32_netdev_open ex_env True b' = Inr (0, b'') \<and> \<not> stacked 0x20000000 (eth_ranges (brd_eth b'')) 0x20010000)
   \<and> (\<exists>b'. up_down ex_env 971 ex_board = Some (Inr (0, b')) \<and> stm32_netdev_open ex_env True b' = Inl BugOn)"
proof -
  note w = eth_updown_leak [OF ex_probe [folded ex_board_ok(4)] ex_board_ok(1,2,3)]
  show ?thesis using w [of 227] w [of 971] by auto
qed

end
