(* ===== verification/Rtc.thy ===== *)
theory Rtc
  imports Irq_Init "HOL-Library.Signed_Division"
begin

text \<open>
  The driver of the real-time clock, \<^verbatim>\<open>drivers/rtc/rtc-stm32f2.c\<close>, with the conversions of \<^verbatim>\<open>lib/bcd.c\<close> and the check of
  \<^verbatim>\<open>drivers/rtc/rtc-lib.c\<close>. The write protection of the clock and the flags of its status register are part of the model; how the status register reacts
  to a write, and what it reads when a loop on one of its flags ends, is a parameter.
\<close>

section \<open>Registers\<close>

datatype rtc_flag =
    CR_WUTIE | CR_ALRBIE | CR_ALRAIE | CR_WUTE | CR_ALRBE | CR_ALRAE
  | ISR_WUTF | ISR_ALRBF | ISR_ALRAF | ISR_INIT | ISR_INITF | ISR_WUTWF | ISR_ALRBWF | ISR_ALRAWF
  | ALRMR_DATEMASK | ALRMR_HOURMASK | ALRMR_MINMASK | ALRMR_SECMASK | ALRMR_WDSEL

fun rtc_msk :: "rtc_flag \<Rightarrow> u32" where
  "rtc_msk CR_WUTIE = 0x4000"
| "rtc_msk CR_ALRBIE = 0x2000"
| "rtc_msk CR_ALRAIE = 0x1000"
| "rtc_msk CR_WUTE = 0x400"
| "rtc_msk CR_ALRBE = 0x200"
| "rtc_msk CR_ALRAE = 0x100"
| "rtc_msk ISR_WUTF = 0x400"
| "rtc_msk ISR_ALRBF = 0x200"
| "rtc_msk ISR_ALRAF = 0x100"
| "rtc_msk ISR_INIT = 0x80"
| "rtc_msk ISR_INITF = 0x40"
| "rtc_msk ISR_WUTWF = 0x4"
| "rtc_msk ISR_ALRBWF = 0x2"
| "rtc_msk ISR_ALRAWF = 0x1"
| "rtc_msk ALRMR_DATEMASK = 0x80000000"
| "rtc_msk ALRMR_HOURMASK = 0x800000"
| "rtc_msk ALRMR_MINMASK = 0x8000"
| "rtc_msk ALRMR_SECMASK = 0x80"
| "rtc_msk ALRMR_WDSEL = 0x40000000"

datatype rtc_field =
    TR_SEC | TR_MIN | TR_HOUR | DR_MDAY | DR_MON | DR_YEAR | DR_WDAY | CR_WUCKSEL
  | ALRMR_MDAY | ALRMR_WDAY | ALRMR_HOUR | ALRMR_MIN | ALRMR_SEC

text \<open>The position of a field and its mask in place.\<close>

fun rtc_bits :: "rtc_field \<Rightarrow> nat" where
  "rtc_bits TR_SEC = 0"
| "rtc_bits TR_MIN = 8"
| "rtc_bits TR_HOUR = 16"
| "rtc_bits DR_MDAY = 0"
| "rtc_bits DR_MON = 8"
| "rtc_bits DR_YEAR = 16"
| "rtc_bits DR_WDAY = 13"
| "rtc_bits CR_WUCKSEL = 0"
| "rtc_bits ALRMR_MDAY = 24"
| "rtc_bits ALRMR_WDAY = 24"
| "rtc_bits ALRMR_HOUR = 16"
| "rtc_bits ALRMR_MIN = 8"
| "rtc_bits ALRMR_SEC = 0"

fun rtc_fmsk :: "rtc_field \<Rightarrow> u32" where
  "rtc_fmsk TR_SEC = push_bit (rtc_bits TR_SEC) 0x7F"
| "rtc_fmsk TR_MIN = push_bit (rtc_bits TR_MIN) 0x7F"
| "rtc_fmsk TR_HOUR = push_bit (rtc_bits TR_HOUR) 0x3F"
| "rtc_fmsk DR_MDAY = push_bit (rtc_bits DR_MDAY) 0x3F"
| "rtc_fmsk DR_MON = push_bit (rtc_bits DR_MON) 0x1F"
| "rtc_fmsk DR_YEAR = push_bit (rtc_bits DR_YEAR) 0xFF"
| "rtc_fmsk DR_WDAY = push_bit (rtc_bits DR_WDAY) 0x7"
| "rtc_fmsk CR_WUCKSEL = push_bit (rtc_bits CR_WUCKSEL) 0x7"
| "rtc_fmsk ALRMR_MDAY = push_bit (rtc_bits ALRMR_MDAY) 0x3F"
| "rtc_fmsk ALRMR_WDAY = push_bit (rtc_bits ALRMR_WDAY) 0x7"
| "rtc_fmsk ALRMR_HOUR = push_bit (rtc_bits ALRMR_HOUR) 0x3F"
| "rtc_fmsk ALRMR_MIN = push_bit (rtc_bits ALRMR_MIN) 0x7F"
| "rtc_fmsk ALRMR_SEC = push_bit (rtc_bits ALRMR_SEC) 0x7F"

text \<open>\<open>wpr_key\<close> is the state of the write protection: 0 closed, 1 after the first key, 2 open.\<close>

record rtc_regs =
  rtc_tr :: u32
  rtc_dr :: u32
  rtc_cr :: u32
  rtc_isr :: u32
  rtc_wutr :: u32
  rtc_alrmar :: u32
  rtc_alrmbr :: u32
  wpr_key :: nat

text \<open>
  \<open>isr_write\<close> gives the status register after a write, from whether the protection is open, the value before and the value written; \<open>isr_wait\<close>
  what it reads at the end of a loop that waits for a flag, \<open>None\<close> if the flag never comes.
\<close>

record rtc_hw =
  isr_write :: "bool \<Rightarrow> u32 \<Rightarrow> u32 \<Rightarrow> u32"
  isr_wait :: "u32 \<Rightarrow> u32 \<Rightarrow> u32 option"

definition rtc_open :: "rtc_regs \<Rightarrow> bool" where
  "rtc_open r \<longleftrightarrow> wpr_key r = 2"

definition wpr_write :: "u32 \<Rightarrow> rtc_regs \<Rightarrow> rtc_regs" where
  "wpr_write x r = r\<lparr>wpr_key := (if x = 0xCA then 1 else if x = 0x53 \<and> wpr_key r = 1 then 2 else 0)\<rparr>"

text \<open>A write to a protected register; the calendar takes one only in initialisation mode.\<close>

definition rtc_write :: "(rtc_regs \<Rightarrow> rtc_regs) \<Rightarrow> rtc_regs \<Rightarrow> rtc_regs" where
  "rtc_write f r = (if rtc_open r then f r else r)"

definition cal_write :: "(rtc_regs \<Rightarrow> rtc_regs) \<Rightarrow> rtc_regs \<Rightarrow> rtc_regs" where
  "cal_write f r = (if rtc_open r \<and> flag (rtc_msk ISR_INITF) (rtc_isr r) then f r else r)"

definition isr_put :: "rtc_hw \<Rightarrow> u32 \<Rightarrow> rtc_regs \<Rightarrow> rtc_regs" where
  "isr_put hw x r = r\<lparr>rtc_isr := isr_write hw (rtc_open r) (rtc_isr r) x\<rparr>"

text \<open>The loop \<^verbatim>\<open>while (!(STM32_RTC->isr & m));\<close>.\<close>

definition isr_poll :: "rtc_hw \<Rightarrow> u32 \<Rightarrow> rtc_regs \<Rightarrow> rtc_regs option" where
  "isr_poll hw m r =
     (if flag m (rtc_isr r) then Some r else map_option (\<lambda>x. r\<lparr>rtc_isr := x\<rparr>) (isr_wait hw m (rtc_isr r)))"

section \<open>Numbers and times\<close>

definition bcd2bin :: "u8 \<Rightarrow> u32" where
  "bcd2bin val = ucast (val AND 0xF) + ucast (drop_bit 4 val) * 10"

definition bin2bcd :: "u32 \<Rightarrow> u8" where
  "bin2bcd val = ucast (push_bit 4 (val div 10) + val mod 10)"

record rtc_time =
  tm_sec :: int
  tm_min :: int
  tm_hour :: int
  tm_mday :: int
  tm_mon :: int
  tm_year :: int
  tm_wday :: int

definition is_leap_year :: "int \<Rightarrow> bool" where
  "is_leap_year year \<longleftrightarrow> year mod 4 = 0 \<and> year mod 100 \<noteq> 0 \<or> year mod 400 = 0"

definition rtc_month_days :: "int \<Rightarrow> int \<Rightarrow> int" where
  "rtc_month_days month year = [31, 28, 31, 30, 31, 30, 31, 31, 30, 31, 30, 31] ! nat month + (if is_leap_year year \<and> month = 1 then 1 else 0)"

definition rtc_valid_tm :: "rtc_time \<Rightarrow> int" where
  "rtc_valid_tm tm =
     (if tm_year tm < 70 \<or> \<not> (0 \<le> tm_mon tm \<and> tm_mon tm < 12) \<or> tm_mday tm < 1 \<or> rtc_month_days (tm_mon tm) (tm_year tm + 1900) < tm_mday tm
        \<or> \<not> (0 \<le> tm_hour tm \<and> tm_hour tm < 24) \<or> \<not> (0 \<le> tm_min tm \<and> tm_min tm < 60) \<or> \<not> (0 \<le> tm_sec tm \<and> tm_sec tm < 60)
      then - EINVAL else 0)"

text \<open>A number put into a field, in BCD or as it is, and read back.\<close>

definition put_bcd :: "rtc_field \<Rightarrow> int \<Rightarrow> u32" where
  "put_bcd f v = push_bit (rtc_bits f) (ucast (bin2bcd (word_of_int v))) AND rtc_fmsk f"

definition get_bcd :: "rtc_field \<Rightarrow> u32 \<Rightarrow> int" where
  "get_bcd f x = uint (bcd2bin (ucast (drop_bit (rtc_bits f) (x AND rtc_fmsk f))))"

section \<open>The driver\<close>

definition stm32f2_rtc_write_enable :: "bool \<Rightarrow> rtc_regs \<Rightarrow> rtc_regs" where
  "stm32f2_rtc_write_enable enable r = (if enable then wpr_write 0x53 (wpr_write 0xCA r) else wpr_write 0xFF r)"

definition stm32f2_rtc_enable_init_mode :: "rtc_hw \<Rightarrow> bool \<Rightarrow> rtc_regs \<Rightarrow> rtc_regs option" where
  "stm32f2_rtc_enable_init_mode hw enable r =
     (if enable then
        (if \<not> flag (rtc_msk ISR_INITF) (rtc_isr r) then isr_poll hw (rtc_msk ISR_INITF) (isr_put hw (rtc_msk ISR_INIT) r) else Some r)
      else Some (isr_put hw (rtc_isr r AND NOT (rtc_msk ISR_INIT)) r))"

text \<open>The calendar is read seven times; \<open>rd i\<close> is what the time and the date register hold at the i-th access.\<close>

definition stm32f2_rtc_read_time :: "(nat \<Rightarrow> u32 \<times> u32) \<Rightarrow> rtc_time" where
  "stm32f2_rtc_read_time rd =
     \<lparr>tm_sec = get_bcd TR_SEC (fst (rd 0)), tm_min = get_bcd TR_MIN (fst (rd 1)), tm_hour = get_bcd TR_HOUR (fst (rd 2)),
      tm_mday = get_bcd DR_MDAY (snd (rd 3)), tm_mon = get_bcd DR_MON (snd (rd 4)) - 1, tm_year = get_bcd DR_YEAR (snd (rd 5)) + 100,
      tm_wday = uint (drop_bit (rtc_bits DR_WDAY) (snd (rd 6) AND rtc_fmsk DR_WDAY)) mod 7\<rparr>"

definition tr_of :: "rtc_time \<Rightarrow> u32 \<Rightarrow> u32" where
  "tr_of tm x = (x AND NOT (rtc_fmsk TR_SEC OR rtc_fmsk TR_MIN OR rtc_fmsk TR_HOUR))
     OR put_bcd TR_SEC (tm_sec tm) OR put_bcd TR_MIN (tm_min tm) OR put_bcd TR_HOUR (tm_hour tm)"

definition dr_of :: "rtc_time \<Rightarrow> u32 \<Rightarrow> u32" where
  "dr_of tm x = (x AND NOT (rtc_fmsk DR_MDAY OR rtc_fmsk DR_MON OR rtc_fmsk DR_YEAR OR rtc_fmsk DR_WDAY))
     OR put_bcd DR_MDAY (tm_mday tm) OR put_bcd DR_MON (tm_mon tm + 1) OR put_bcd DR_YEAR (tm_year tm smod 100)
     OR (push_bit (rtc_bits DR_WDAY) (word_of_int (if tm_wday tm \<noteq> 0 then tm_wday tm else 7)) AND rtc_fmsk DR_WDAY)"

definition stm32f2_rtc_set_time :: "rtc_hw \<Rightarrow> rtc_time \<Rightarrow> rtc_regs \<Rightarrow> (int \<times> rtc_regs) option" where
  "stm32f2_rtc_set_time hw tm r =
     (case stm32f2_rtc_enable_init_mode hw True (stm32f2_rtc_write_enable True r) of
        None \<Rightarrow> None
      | Some r \<Rightarrow>
          (let r = cal_write (\<lambda>r. r\<lparr>rtc_tr := tr_of tm (rtc_tr r)\<rparr>) r;
               r = cal_write (\<lambda>r. r\<lparr>rtc_dr := dr_of tm (rtc_dr r)\<rparr>) r
           in map_option (\<lambda>r. (0, stm32f2_rtc_write_enable False r)) (stm32f2_rtc_enable_init_mode hw False r)))"

text \<open>Alarm B for \<open>True\<close>, alarm A for \<open>False\<close>. The flag mask of alarm A is complemented, as in the code.\<close>

definition stm32f2_alarm_irq_enable :: "rtc_hw \<Rightarrow> bool \<Rightarrow> bool \<Rightarrow> rtc_regs \<Rightarrow> rtc_regs" where
  "stm32f2_alarm_irq_enable hw alarm enable r =
     (let irq_enable_msk = (if alarm then rtc_msk CR_ALRBIE else rtc_msk CR_ALRAIE);
          irq_flag_msk = (if alarm then rtc_msk ISR_ALRBF else NOT (rtc_msk ISR_ALRAF));
          r = stm32f2_rtc_write_enable True r;
          r = rtc_write (\<lambda>r. r\<lparr>rtc_cr := (if enable then rtc_cr r OR irq_enable_msk else rtc_cr r AND NOT irq_enable_msk)\<rparr>) r;
          r = isr_put hw (rtc_isr r AND NOT irq_flag_msk) r
      in stm32f2_rtc_write_enable False r)"

definition stm32f2_rtc_alarm_irq_enable :: "rtc_hw \<Rightarrow> bool \<Rightarrow> rtc_regs \<Rightarrow> int \<times> rtc_regs" where
  "stm32f2_rtc_alarm_irq_enable hw enabled r = (0, stm32f2_alarm_irq_enable hw False enabled r)"

definition alarm_day :: "int \<Rightarrow> int \<Rightarrow> u32" where
  "alarm_day mday wday =
     (if mday < 0 \<and> wday < 0 then rtc_msk ALRMR_DATEMASK
      else if mday > 0 then put_bcd ALRMR_MDAY mday
      else rtc_msk ALRMR_WDSEL OR
        (push_bit (rtc_bits ALRMR_WDAY) (word_of_int (if wday \<noteq> 0 then wday else 7)) AND rtc_fmsk ALRMR_WDAY))"

definition alarm_value :: "int \<Rightarrow> int \<Rightarrow> int \<Rightarrow> int \<Rightarrow> int \<Rightarrow> u32" where
  "alarm_value mday wday hour minute sec =
     alarm_day mday wday
       OR (if hour \<ge> 0 then put_bcd ALRMR_HOUR hour else rtc_msk ALRMR_HOURMASK)
       OR (if minute \<ge> 0 then put_bcd ALRMR_MIN minute else rtc_msk ALRMR_MINMASK)
       OR (if sec \<ge> 0 then put_bcd ALRMR_SEC sec else rtc_msk ALRMR_SECMASK)"

definition stm32f2_setup_alarm :: "rtc_hw \<Rightarrow> bool \<Rightarrow> int \<Rightarrow> int \<Rightarrow> int \<Rightarrow> int \<Rightarrow> int \<Rightarrow> rtc_regs \<Rightarrow> rtc_regs option" where
  "stm32f2_setup_alarm hw alarm mday wday hour minute sec r =
     (let enable_msk = (if alarm then rtc_msk CR_ALRBE else rtc_msk CR_ALRAE);
          write_flag_msk = (if alarm then rtc_msk ISR_ALRBWF else rtc_msk ISR_ALRAWF);
          r = stm32f2_rtc_write_enable True r;
          r = rtc_write (\<lambda>r. r\<lparr>rtc_cr := rtc_cr r AND NOT enable_msk\<rparr>) r
      in map_option (\<lambda>r.
           (let tmp = alarm_value mday wday hour minute sec;
                r = rtc_write (\<lambda>r. if alarm then r\<lparr>rtc_alrmbr := tmp\<rparr> else r\<lparr>rtc_alrmar := tmp\<rparr>) r;
                r = rtc_write (\<lambda>r. r\<lparr>rtc_cr := rtc_cr r OR enable_msk\<rparr>) r
            in stm32f2_rtc_write_enable False r))
         (isr_poll hw write_flag_msk r))"

definition stm32f2_rtc_read_alarm :: "rtc_regs \<Rightarrow> rtc_time \<times> bool \<times> bool" where
  "stm32f2_rtc_read_alarm r =
     (let reg = rtc_alrmar r;
          (mday, wday) =
            (if flag (rtc_msk ALRMR_DATEMASK) reg then (-1, -1)
             else if flag (rtc_msk ALRMR_WDSEL) reg
               then (-1, uint (drop_bit (rtc_bits ALRMR_WDAY) (reg AND rtc_fmsk ALRMR_WDAY)) mod 7)
             else (get_bcd ALRMR_MDAY reg, -1))
      in (\<lparr>tm_sec = (if flag (rtc_msk ALRMR_SECMASK) reg then -1 else get_bcd ALRMR_SEC reg),
           tm_min = (if flag (rtc_msk ALRMR_MINMASK) reg then -1 else get_bcd ALRMR_MIN reg),
           tm_hour = (if flag (rtc_msk ALRMR_HOURMASK) reg then -1 else get_bcd ALRMR_HOUR reg),
           tm_mday = mday, tm_mon = -1, tm_year = -1, tm_wday = wday\<rparr>,
          flag (rtc_msk CR_ALRAE) (rtc_cr r), flag (rtc_msk ISR_ALRAF) (rtc_isr r)))"

definition stm32f2_rtc_set_alarm :: "rtc_hw \<Rightarrow> rtc_time \<Rightarrow> bool \<Rightarrow> rtc_regs \<Rightarrow> (int \<times> rtc_regs) option" where
  "stm32f2_rtc_set_alarm hw tm enabled r =
     (if rtc_valid_tm tm \<noteq> 0 then Some (- EINVAL, r)
      else map_option (\<lambda>r. (0, if enabled then stm32f2_alarm_irq_enable hw False True r else r))
        (stm32f2_setup_alarm hw False (tm_mday tm) (tm_wday tm) (tm_hour tm) (tm_min tm) (tm_sec tm) r))"

definition stm32f2_rtc_irq_set_freq :: "rtc_hw \<Rightarrow> int \<Rightarrow> rtc_regs \<Rightarrow> (int \<times> rtc_regs) option" where
  "stm32f2_rtc_irq_set_freq hw freq r =
     (if freq \<le> 0 \<or> freq > 8192 then Some (- EINVAL, r)
      else
        (let tmp = word_of_int (16384 div freq) :: u32;
             tmp = (if tmp < 2 then 1 else tmp - 1);
             r = stm32f2_rtc_write_enable True r;
             wakeup_state = rtc_cr r AND rtc_msk CR_WUTE;
             r = rtc_write (\<lambda>r. r\<lparr>rtc_cr := rtc_cr r AND NOT (rtc_msk CR_WUTE)\<rparr>) r
         in map_option (\<lambda>r.
              (let r = rtc_write (\<lambda>r. r\<lparr>rtc_cr := (rtc_cr r AND NOT (rtc_fmsk CR_WUCKSEL)) OR push_bit (rtc_bits CR_WUCKSEL) 3\<rparr>) r;
                   r = rtc_write (\<lambda>r. r\<lparr>rtc_wutr := tmp AND 0xFFFF\<rparr>) r;
                   r = rtc_write (\<lambda>r. r\<lparr>rtc_cr := rtc_cr r OR wakeup_state\<rparr>) r
               in (0, stm32f2_rtc_write_enable False r)))
            (isr_poll hw (rtc_msk ISR_WUTWF) r)))"

definition stm32f2_rtc_irq_set_state :: "rtc_hw \<Rightarrow> bool \<Rightarrow> rtc_regs \<Rightarrow> int \<times> rtc_regs" where
  "stm32f2_rtc_irq_set_state hw enabled r =
     (let r = stm32f2_rtc_write_enable True r;
          m = rtc_msk CR_WUTE OR rtc_msk CR_WUTIE;
          r = rtc_write (\<lambda>r. r\<lparr>rtc_cr := (if enabled then rtc_cr r OR m else rtc_cr r AND NOT m)\<rparr>) r;
          r = isr_put hw (rtc_isr r AND NOT (rtc_msk ISR_WUTF)) r
      in (0, stm32f2_rtc_write_enable False r))"

section \<open>Interrupts\<close>

definition STM32F2_IRQ_RTC_WAKEUP :: nat where "STM32F2_IRQ_RTC_WAKEUP = 3"
definition STM32F2_IRQ_RTC_ALARM :: nat where "STM32F2_IRQ_RTC_ALARM = 41"
definition STM32F2_EXTI_LINE_RTC_ALARM :: u32 where "STM32F2_EXTI_LINE_RTC_ALARM = 17"
definition STM32F2_EXTI_LINE_RTC_WAKEUP :: u32 where "STM32F2_EXTI_LINE_RTC_WAKEUP = 22"
definition RTC_IRQF :: u32 where "RTC_IRQF = 0x80"
definition RTC_PF :: u32 where "RTC_PF = 0x40"
definition RTC_AF :: u32 where "RTC_AF = 0x20"
definition RTC_UF :: u32 where "RTC_UF = 0x10"

text \<open>The clock in its surroundings; \<open>rtc_events\<close> are the events passed to the RTC framework.\<close>

record rtc_world =
  rtc :: rtc_regs
  rtc_iw :: irq_world
  rtc_events :: "u32 list"

definition rtc_clear_exti :: "pr_hw \<Rightarrow> u32 \<Rightarrow> rtc_world \<Rightarrow> rtc_world" where
  "rtc_clear_exti pr line w = w\<lparr>rtc_iw := upd_iw_soc (stm32_exti_clear_pending pr line) (rtc_iw w)\<rparr>"

definition stm32f2_rtc_update_irq_enable :: "rtc_hw \<Rightarrow> pr_hw \<Rightarrow> bool \<Rightarrow> rtc_world \<Rightarrow> (int \<times> rtc_world) option" where
  "stm32f2_rtc_update_irq_enable hw pr enabled w =
     (if enabled then
        map_option (\<lambda>r. (0, w\<lparr>rtc := stm32f2_alarm_irq_enable hw True True r\<rparr>)) (stm32f2_setup_alarm hw True (-1) (-1) (-1) (-1) (-1) (rtc w))
      else
        (let r = stm32f2_alarm_irq_enable hw True False (rtc w);
             r = stm32f2_rtc_write_enable True r;
             r = rtc_write (\<lambda>r. r\<lparr>rtc_cr := rtc_cr r AND NOT (rtc_msk CR_ALRBE)\<rparr>) r;
             r = stm32f2_rtc_write_enable False r
         in Some (0, rtc_clear_exti pr STM32F2_EXTI_LINE_RTC_ALARM (w\<lparr>rtc := r\<rparr>))))"

definition stm32f2_rtc_alarm_irq :: "rtc_hw \<Rightarrow> pr_hw \<Rightarrow> rtc_world \<Rightarrow> u32 \<times> rtc_world" where
  "stm32f2_rtc_alarm_irq hw pr w =
     (let status = rtc_isr (rtc w); enabled_irqs = rtc_cr (rtc w);
          r = stm32f2_rtc_write_enable True (rtc w);
          r = isr_put hw (rtc_isr r AND NOT (status AND (rtc_msk ISR_ALRBF OR rtc_msk ISR_ALRAF))) r;
          r = stm32f2_rtc_write_enable False r;
          events = (if flag (rtc_msk ISR_ALRAF) status \<and> flag (rtc_msk CR_ALRAIE) enabled_irqs then RTC_AF OR RTC_IRQF else 0);
          events = events OR (if flag (rtc_msk ISR_ALRBF) status \<and> flag (rtc_msk CR_ALRBIE) enabled_irqs then RTC_UF OR RTC_IRQF else 0);
          w = w\<lparr>rtc := r\<rparr>
      in if events \<noteq> 0
         then (IRQ_HANDLED, (rtc_clear_exti pr STM32F2_EXTI_LINE_RTC_ALARM w)\<lparr>rtc_events := rtc_events w @ [events]\<rparr>)
         else (IRQ_NONE, w))"

definition stm32f2_rtc_wakeup_irq :: "rtc_hw \<Rightarrow> pr_hw \<Rightarrow> rtc_world \<Rightarrow> u32 \<times> rtc_world" where
  "stm32f2_rtc_wakeup_irq hw pr w =
     (if \<not> flag (rtc_msk ISR_WUTF) (rtc_isr (rtc w)) \<or> \<not> flag (rtc_msk CR_WUTIE) (rtc_cr (rtc w)) then (IRQ_NONE, w)
      else
        (let r = stm32f2_rtc_write_enable True (rtc w);
             r = isr_put hw (rtc_isr r AND NOT (rtc_msk ISR_WUTF)) r;
             r = stm32f2_rtc_write_enable False r;
             w = rtc_clear_exti pr STM32F2_EXTI_LINE_RTC_WAKEUP (w\<lparr>rtc := r\<rparr>)
         in (IRQ_HANDLED, w\<lparr>rtc_events := rtc_events w @ [RTC_PF OR RTC_IRQF]\<rparr>)))"

text \<open>
  Probe and removal. \<open>mem\<close> says whether the three allocations succeed, \<open>registered\<close> is the result of registering with the framework, \<open>data\<close> the address of the
  driver's data and \<open>dev\<close> that of the device; the handlers are numbers.
\<close>

definition stm32f2_rtc_probe :: "pr_hw \<Rightarrow> bool \<times> bool \<times> bool \<Rightarrow> int \<Rightarrow> nat \<Rightarrow> nat \<Rightarrow> u32 \<Rightarrow> u32 \<Rightarrow> irq_world \<Rightarrow> (fault + int \<times> irq_world) option" where
  "stm32f2_rtc_probe pr mem registered alarm wakeup data dev w =
     (case mem of (mem0, mem1, mem2) \<Rightarrow>
        if \<not> mem0 then Some (Inr (- ENOMEM, w))
        else if registered \<noteq> 0 then Some (Inr (registered, w))
        else case request_irq pr mem1 STM32F2_IRQ_RTC_ALARM (Some alarm) 0 data w of
          Inl f \<Rightarrow> Some (Inl f)
        | Inr (rv, w) \<Rightarrow>
            if rv \<noteq> 0 then Some (Inr (rv, w))
            else case request_irq pr mem2 STM32F2_IRQ_RTC_WAKEUP (Some wakeup) 0 data w of
              Inl f \<Rightarrow> Some (Inl f)
            | Inr (rv, w) \<Rightarrow>
                if rv \<noteq> 0 then map_option (map_sum id (Pair rv)) (free_irq pr STM32F2_IRQ_RTC_ALARM dev w)
                else Some (Inr (0, w)))"

definition stm32f2_rtc_remove :: "pr_hw \<Rightarrow> u32 \<Rightarrow> irq_world \<Rightarrow> (fault + int \<times> irq_world) option" where
  "stm32f2_rtc_remove pr dev w =
     (case free_irq pr STM32F2_IRQ_RTC_WAKEUP dev w of
        None \<Rightarrow> None
      | Some (Inl f) \<Rightarrow> Some (Inl f)
      | Some (Inr w) \<Rightarrow> map_option (map_sum id (Pair 0)) (free_irq pr STM32F2_IRQ_RTC_ALARM dev w))"

end
