(* ===== verification/Rtc_Props.thy ===== *)
theory Rtc_Props
  imports Rtc
begin

text \<open>
  What the driver of the real-time clock does: a time that is set is read back, and an alarm likewise; and what it does
  not: clear the event of the alarm it enables, and take its interrupt handlers out again.
\<close>

section \<open>Fields\<close>

fun rtc_width :: "rtc_field \<Rightarrow> nat" where
  "rtc_width TR_SEC = 7"
| "rtc_width TR_MIN = 7"
| "rtc_width TR_HOUR = 6"
| "rtc_width DR_MDAY = 6"
| "rtc_width DR_MON = 5"
| "rtc_width DR_YEAR = 8"
| "rtc_width DR_WDAY = 3"
| "rtc_width CR_WUCKSEL = 3"
| "rtc_width ALRMR_MDAY = 6"
| "rtc_width ALRMR_WDAY = 3"
| "rtc_width ALRMR_HOUR = 6"
| "rtc_width ALRMR_MIN = 7"
| "rtc_width ALRMR_SEC = 7"

lemma rtc_fmsk_mask: "rtc_fmsk f = push_bit (rtc_bits f) (mask (rtc_width f))"
  by (cases f) (simp_all add: mask_eq_exp_minus_1)

lemma rtc_width_le: "rtc_bits f + rtc_width f \<le> 32" "rtc_width f \<le> 8"
  by (cases f; simp)+

lemma field_read: "drop_bit (rtc_bits f) (x AND rtc_fmsk f) = field (rtc_width f) (rtc_bits f) x"
  using rtc_width_le(1) [of f] by (intro bit_word_eqI) (auto simp: rtc_fmsk_mask bit_field bit_simps)

lemma field_place: "push_bit (rtc_bits f) v AND rtc_fmsk f = push_bit (rtc_bits f) (take_bit (rtc_width f) v)"
  by (rule bit_word_eqI) (auto simp: rtc_fmsk_mask bit_simps)

text \<open>Numbers of two digits in BCD.\<close>

lemma bcd_table:
  "list_all (\<lambda>v. uint (bcd2bin (bin2bcd (word_of_int v))) = v \<and> (v < 80 \<longrightarrow> unat (bin2bcd (word_of_int v)) < 2 ^ 7)
     \<and> (v < 40 \<longrightarrow> unat (bin2bcd (word_of_int v)) < 2 ^ 6) \<and> (v < 20 \<longrightarrow> unat (bin2bcd (word_of_int v)) < 2 ^ 5)) [0 .. 99]"
  by code_simp

lemma bcd_roundtrip:
  assumes "0 \<le> v" "v < 100"
  shows "uint (bcd2bin (bin2bcd (word_of_int v))) = v" "v < 80 \<Longrightarrow> unat (bin2bcd (word_of_int v)) < 2 ^ 7"
    "v < 40 \<Longrightarrow> unat (bin2bcd (word_of_int v)) < 2 ^ 6" "v < 20 \<Longrightarrow> unat (bin2bcd (word_of_int v)) < 2 ^ 5"
  using bcd_table assms by (simp_all add: list_all_iff)

text \<open>The values that a field holds.\<close>

definition field_ok :: "rtc_field \<Rightarrow> int \<Rightarrow> bool" where
  "field_ok f v \<longleftrightarrow> 0 \<le> v \<and> v < (case rtc_width f of 0 \<Rightarrow> 0 | _ \<Rightarrow> if rtc_width f = 8 then 100 else if rtc_width f = 7 then 80 else if rtc_width f = 6 then 40 else 20)"

lemma ucast_ucast_u8: "ucast (ucast (x :: u8) :: u32) = x"
  by (rule bit_word_eqI) (auto simp: bit_simps)

lemma get_bcd_field:
  assumes "field (rtc_width f) (rtc_bits f) x = take_bit (rtc_width f) (ucast (bin2bcd (word_of_int v)))" "field_ok f v" "5 \<le> rtc_width f"
  shows "get_bcd f x = v"
proof -
  have w: "rtc_width f \<in> {5, 6, 7, 8}" using assms(3) by (cases f) simp_all
  have v: "0 \<le> v" "v < 100" using assms(2) w by (auto simp: field_ok_def split: nat.splits)
  have "unat (bin2bcd (word_of_int v)) < 2 ^ rtc_width f"
    using w assms(2) bcd_roundtrip [OF v] unsigned_less [of "bin2bcd (word_of_int v)", where 'a = nat] by (auto simp: field_ok_def split: nat.splits)
  then have "take_bit (rtc_width f) (ucast (bin2bcd (word_of_int v)) :: u32) = ucast (bin2bcd (word_of_int v))"
    by (intro take_bit_u32_self) (simp add: unsigned_ucast_eq order_le_less_trans [OF take_bit_nat_less_eq_self])
  then show ?thesis using assms(1) bcd_roundtrip(1) [OF v] unfolding get_bcd_def field_read by (simp add: ucast_ucast_u8)
qed

text \<open>How fields are read from a word put together by a read-modify-write.\<close>

lemma field_or: "field w i (a OR b) = field w i a OR field w i b"
  by (simp add: field_def)

lemma field_cleared: "push_bit i (mask w) AND m = push_bit i (mask w) \<Longrightarrow> i + w \<le> 32 \<Longrightarrow> field w i (x AND NOT m) = 0"
proof (rule bit_word_eqI)
  fix n assume m: "push_bit i (mask w) AND m = push_bit i (mask w)" and w: "i + w \<le> 32"
  have "n < w \<Longrightarrow> bit (push_bit i (mask w) :: u32) (i + n)" using w by (simp add: bit_simps)
  then have "n < w \<Longrightarrow> bit m (i + n)" using m by (metis bit_and_iff)
  then show "bit (field w i (x AND NOT m)) n = bit 0 n" by (auto simp: bit_field bit_simps)
qed

lemma field_placed:
  "i + w \<le> 32 \<Longrightarrow> field w i (push_bit i v) = take_bit w v"
  "i + w \<le> j \<Longrightarrow> field w i (push_bit j v) = 0"
  "j + w' \<le> i \<Longrightarrow> field w i (push_bit j (take_bit w' v)) = 0"
  by (rule bit_word_eqI; auto simp: bit_field bit_simps)+

lemma field_placed_0:
  "field w 0 (take_bit w v) = take_bit w v"
  "w' \<le> i \<Longrightarrow> field w i (take_bit w' v) = 0"
  by (rule bit_word_eqI; auto simp: bit_field bit_simps)+

lemma tr_cleared:
  "field 7 0 (x AND NOT (rtc_fmsk TR_SEC OR rtc_fmsk TR_MIN OR rtc_fmsk TR_HOUR)) = 0"
  "field 7 8 (x AND NOT (rtc_fmsk TR_SEC OR rtc_fmsk TR_MIN OR rtc_fmsk TR_HOUR)) = 0"
  "field 6 16 (x AND NOT (rtc_fmsk TR_SEC OR rtc_fmsk TR_MIN OR rtc_fmsk TR_HOUR)) = 0"
  by (rule field_cleared; simp add: mask_eq_exp_minus_1)+

lemma dr_cleared:
  "field 6 0 (x AND NOT (rtc_fmsk DR_MDAY OR rtc_fmsk DR_MON OR rtc_fmsk DR_YEAR OR rtc_fmsk DR_WDAY)) = 0"
  "field 5 8 (x AND NOT (rtc_fmsk DR_MDAY OR rtc_fmsk DR_MON OR rtc_fmsk DR_YEAR OR rtc_fmsk DR_WDAY)) = 0"
  "field 8 16 (x AND NOT (rtc_fmsk DR_MDAY OR rtc_fmsk DR_MON OR rtc_fmsk DR_YEAR OR rtc_fmsk DR_WDAY)) = 0"
  "field 3 13 (x AND NOT (rtc_fmsk DR_MDAY OR rtc_fmsk DR_MON OR rtc_fmsk DR_YEAR OR rtc_fmsk DR_WDAY)) = 0"
  by (rule field_cleared; simp add: mask_eq_exp_minus_1)+

lemma tr_of_fields:
  "field 7 0 (tr_of tm x) = take_bit 7 (ucast (bin2bcd (word_of_int (tm_sec tm))))"
  "field 7 8 (tr_of tm x) = take_bit 7 (ucast (bin2bcd (word_of_int (tm_min tm))))"
  "field 6 16 (tr_of tm x) = take_bit 6 (ucast (bin2bcd (word_of_int (tm_hour tm))))"
  unfolding tr_of_def put_bcd_def field_place field_or tr_cleared
  by (simp_all add: field_placed field_placed_0)

lemma dr_of_fields:
  "field 6 0 (dr_of tm x) = take_bit 6 (ucast (bin2bcd (word_of_int (tm_mday tm))))"
  "field 5 8 (dr_of tm x) = take_bit 5 (ucast (bin2bcd (word_of_int (tm_mon tm + 1))))"
  "field 8 16 (dr_of tm x) = take_bit 8 (ucast (bin2bcd (word_of_int (tm_year tm smod 100))))"
  "field 3 13 (dr_of tm x) = take_bit 3 (word_of_int (if tm_wday tm \<noteq> 0 then tm_wday tm else 7))"
  unfolding dr_of_def put_bcd_def field_place field_or dr_cleared
  by (simp_all add: field_placed field_placed_0)

section \<open>The clock\<close>

text \<open>
  The status register as documented: bits 8 to 10 are event flags that a written zero clears and a written one leaves, bit 7 takes the value written while the
  protection is open, the initialisation mode is entered once it is asked for, and the write flags come, with the events that were pending.
\<close>

definition rtc_documented :: "rtc_hw \<Rightarrow> bool" where
  "rtc_documented hw \<longleftrightarrow>
     (\<forall>op x v n. n \<in> {8, 9, 10} \<longrightarrow> bit (isr_write hw op x v) n = (bit x n \<and> bit v n))
     \<and> (\<forall>x v. bit (isr_write hw True x v) 7 = bit v 7)
     \<and> (\<forall>x. bit x 7 \<longrightarrow> (\<exists>y. isr_wait hw (rtc_msk ISR_INITF) x = Some y \<and> bit y 6))
     \<and> (\<forall>f x. f \<in> {ISR_ALRAWF, ISR_ALRBWF, ISR_WUTWF} \<longrightarrow> (\<exists>y. isr_wait hw (rtc_msk f) x = Some y))"

lemma rtc_documentedD:
  assumes "rtc_documented hw"
  shows "n \<in> {8, 9, 10} \<Longrightarrow> bit (isr_write hw op x v) n = (bit x n \<and> bit v n)" "bit (isr_write hw True x v) 7 = bit v 7"
    "bit x 7 \<Longrightarrow> \<exists>y. isr_wait hw (rtc_msk ISR_INITF) x = Some y \<and> bit y 6"
    "f \<in> {ISR_ALRAWF, ISR_ALRBWF, ISR_WUTWF} \<Longrightarrow> \<exists>y. isr_wait hw (rtc_msk f) x = Some y"
  using assms unfolding rtc_documented_def by (simp_all del: rtc_msk.simps insert_iff)

lemma wpr_simps [simp]:
  "rtc_open (stm32f2_rtc_write_enable True r)" "\<not> rtc_open (stm32f2_rtc_write_enable False r)"
  "rtc_tr (stm32f2_rtc_write_enable b r) = rtc_tr r" "rtc_dr (stm32f2_rtc_write_enable b r) = rtc_dr r"
  "rtc_cr (stm32f2_rtc_write_enable b r) = rtc_cr r" "rtc_isr (stm32f2_rtc_write_enable b r) = rtc_isr r"
  "rtc_wutr (stm32f2_rtc_write_enable b r) = rtc_wutr r" "rtc_alrmar (stm32f2_rtc_write_enable b r) = rtc_alrmar r"
  "rtc_alrmbr (stm32f2_rtc_write_enable b r) = rtc_alrmbr r"
  by (simp_all add: stm32f2_rtc_write_enable_def wpr_write_def rtc_open_def)

lemma rtc_open_isr [simp]: "rtc_open (r\<lparr>rtc_isr := x\<rparr>) = rtc_open r"
  by (simp add: rtc_open_def)

lemma initf_bit: "flag (rtc_msk ISR_INITF) x \<longleftrightarrow> bit x 6"
  using flag_bit [of 6 x] by simp

lemma enter_init:
  assumes "rtc_documented hw" "rtc_open r"
  obtains x where "stm32f2_rtc_enable_init_mode hw True r = Some (r\<lparr>rtc_isr := x\<rparr>)" "bit x 6"
proof (cases "bit (rtc_isr r) 6")
  case True
  then show ?thesis using that [of "rtc_isr r"] by (simp add: stm32f2_rtc_enable_init_mode_def initf_bit del: rtc_msk.simps)
next
  case False
  let ?x = "isr_write hw True (rtc_isr r) (rtc_msk ISR_INIT)"
  have "bit (rtc_msk ISR_INIT) 7" by (simp add: bit_iff_odd)
  then have "bit ?x 7" using rtc_documentedD(2) [OF assms(1)] by simp
  from rtc_documentedD(3) [OF assms(1) this] obtain y where y: "isr_wait hw (rtc_msk ISR_INITF) ?x = Some y" "bit y 6" by (elim exE conjE)
  show ?thesis
    using that [of ?x] that [of y] y False assms(2)
    by (cases "bit ?x 6") (simp_all add: stm32f2_rtc_enable_init_mode_def isr_poll_def isr_put_def initf_bit del: rtc_msk.simps)
qed

lemma set_time_regs:
  assumes "rtc_documented hw"
  obtains x where "stm32f2_rtc_set_time hw tm r
    = Some (0, stm32f2_rtc_write_enable False (r\<lparr>rtc_tr := tr_of tm (rtc_tr r), rtc_dr := dr_of tm (rtc_dr r), rtc_isr := x\<rparr>))"
proof -
  obtain x where x: "stm32f2_rtc_enable_init_mode hw True (stm32f2_rtc_write_enable True r) = Some ((stm32f2_rtc_write_enable True r)\<lparr>rtc_isr := x\<rparr>)" "bit x 6"
    by (rule enter_init [OF assms wpr_simps(1)])
  have o: "rtc_open ((stm32f2_rtc_write_enable True r)\<lparr>rtc_isr := x, rtc_tr := t\<rparr>)" for t by (simp add: rtc_open_def stm32f2_rtc_write_enable_def wpr_write_def)
  show ?thesis
    by (rule that) (use x(1,2) in \<open>simp add: stm32f2_rtc_set_time_def cal_write_def o initf_bit Let_def stm32f2_rtc_enable_init_mode_def isr_put_def
      stm32f2_rtc_write_enable_def wpr_write_def rtc_open_def del: rtc_msk.simps\<close>)
qed

lemma get_wday:
  assumes "0 \<le> v" "v < 7"
  shows "uint (take_bit 3 (word_of_int (if v \<noteq> 0 then v else 7) :: u32)) mod 7 = v"
proof -
  have "v = 0 \<or> v = 1 \<or> v = 2 \<or> v = 3 \<or> v = 4 \<or> v = 5 \<or> v = 6" using assms by presburger
  then show ?thesis by (elim disjE) (simp_all add: take_bit_eq_mod)
qed

text \<open>A time of the calendar of the clock: the years 2000 to 2099.\<close>

definition rtc_time_ok :: "rtc_time \<Rightarrow> bool" where
  "rtc_time_ok tm \<longleftrightarrow> rtc_valid_tm tm = 0 \<and> 100 \<le> tm_year tm \<and> tm_year tm < 200 \<and> 0 \<le> tm_wday tm \<and> tm_wday tm < 7"

lemma valid_tm_bounds:
  assumes "rtc_valid_tm tm = 0"
  shows "0 \<le> tm_sec tm" "tm_sec tm < 60" "0 \<le> tm_min tm" "tm_min tm < 60" "0 \<le> tm_hour tm" "tm_hour tm < 24"
    "1 \<le> tm_mday tm" "tm_mday tm \<le> 31" "0 \<le> tm_mon tm" "tm_mon tm < 12"
proof -
  have b: "0 \<le> tm_sec tm" "tm_sec tm < 60" "0 \<le> tm_min tm" "tm_min tm < 60" "0 \<le> tm_hour tm" "tm_hour tm < 24"
    "1 \<le> tm_mday tm" "tm_mday tm \<le> rtc_month_days (tm_mon tm) (tm_year tm + 1900)" "0 \<le> tm_mon tm" "tm_mon tm < 12"
    using assms by (auto simp: rtc_valid_tm_def split: if_splits)
  have "rtc_month_days k y \<le> 31" if "0 \<le> k" "k < 12" for k y
  proof -
    have "nat k < 12" using that by linarith
    then have "[31, 28, 31, 30, 31, 30, 31, 31, 30, 31, 30, 31] ! nat k \<in> set [31, 28, 31, 30, 31, 30, 31, 31, 30, 31, 30, 31 :: int]"
      by (intro nth_mem) simp
    then show ?thesis by (auto simp: rtc_month_days_def)
  qed
  then show "0 \<le> tm_sec tm" "tm_sec tm < 60" "0 \<le> tm_min tm" "tm_min tm < 60" "0 \<le> tm_hour tm" "tm_hour tm < 24"
    "1 \<le> tm_mday tm" "tm_mday tm \<le> 31" "0 \<le> tm_mon tm" "tm_mon tm < 12" using b by (auto intro: order_trans)
qed

lemma read_set_fields:
  assumes "rtc_time_ok tm"
  shows "stm32f2_rtc_read_time (\<lambda>_. (tr_of tm x, dr_of tm y)) = tm"
proof -
  note b = valid_tm_bounds [of tm]
  have ok: "rtc_valid_tm tm = 0" "100 \<le> tm_year tm" "tm_year tm < 200" "0 \<le> tm_wday tm" "tm_wday tm < 7" using assms by (simp_all add: rtc_time_ok_def)
  have y: "tm_year tm smod 100 = tm_year tm - 100" 
    using ok(2,3) mod_pos_pos_trivial [of "tm_year tm - 100" 100] mod_add_self2 [of "tm_year tm - 100" 100]
    by (simp add: signed_modulo_int_def)
  have g: "get_bcd TR_SEC (tr_of tm x) = tm_sec tm" "get_bcd TR_MIN (tr_of tm x) = tm_min tm" "get_bcd TR_HOUR (tr_of tm x) = tm_hour tm"
    "get_bcd DR_MDAY (dr_of tm y) = tm_mday tm" "get_bcd DR_MON (dr_of tm y) = tm_mon tm + 1" "get_bcd DR_YEAR (dr_of tm y) = tm_year tm smod 100"
    by (rule get_bcd_field; use b [OF ok(1)] ok y in \<open>simp add: tr_of_fields dr_of_fields field_ok_def\<close>)+
  have "uint (drop_bit (rtc_bits DR_WDAY) (dr_of tm y AND rtc_fmsk DR_WDAY)) mod 7 = tm_wday tm"
    unfolding field_read using get_wday [OF ok(4,5)] by (simp add: dr_of_fields)
  then show ?thesis using g y by (simp add: stm32f2_rtc_read_time_def del: rtc_bits.simps rtc_fmsk.simps)
qed

section \<open>Alarms\<close>

lemma alarm_value_fields:
  assumes "0 < mday" "0 \<le> hour" "0 \<le> minute" "0 \<le> sec"
  shows "field 6 24 (alarm_value mday wday hour minute sec) = take_bit 6 (ucast (bin2bcd (word_of_int mday)))"
    "field 6 16 (alarm_value mday wday hour minute sec) = take_bit 6 (ucast (bin2bcd (word_of_int hour)))"
    "field 7 8 (alarm_value mday wday hour minute sec) = take_bit 7 (ucast (bin2bcd (word_of_int minute)))"
    "field 7 0 (alarm_value mday wday hour minute sec) = take_bit 7 (ucast (bin2bcd (word_of_int sec)))"
    "\<not> flag (rtc_msk ALRMR_DATEMASK) (alarm_value mday wday hour minute sec)" "\<not> flag (rtc_msk ALRMR_WDSEL) (alarm_value mday wday hour minute sec)"
    "\<not> flag (rtc_msk ALRMR_HOURMASK) (alarm_value mday wday hour minute sec)" "\<not> flag (rtc_msk ALRMR_MINMASK) (alarm_value mday wday hour minute sec)"
    "\<not> flag (rtc_msk ALRMR_SECMASK) (alarm_value mday wday hour minute sec)"
proof -
  define v where "v = alarm_value mday wday hour minute sec"
  have v: "v = put_bcd ALRMR_MDAY mday OR put_bcd ALRMR_HOUR hour OR put_bcd ALRMR_MIN minute OR put_bcd ALRMR_SEC sec"
    using assms by (simp add: v_def alarm_value_def alarm_day_def or.assoc del: rtc_msk.simps)
  show "field 6 24 v = take_bit 6 (ucast (bin2bcd (word_of_int mday)))" "field 6 16 v = take_bit 6 (ucast (bin2bcd (word_of_int hour)))"
    "field 7 8 v = take_bit 7 (ucast (bin2bcd (word_of_int minute)))" "field 7 0 v = take_bit 7 (ucast (bin2bcd (word_of_int sec)))"
    unfolding v put_bcd_def field_place field_or by (simp_all add: field_placed field_placed_0)
  have "\<not> bit v 31" "\<not> bit v 30" "\<not> bit v 23" "\<not> bit v 15" "\<not> bit v 7"
    unfolding v put_bcd_def field_place by (simp_all add: bit_simps)
  then show "\<not> flag (rtc_msk ALRMR_DATEMASK) v" "\<not> flag (rtc_msk ALRMR_WDSEL) v" "\<not> flag (rtc_msk ALRMR_HOURMASK) v"
    "\<not> flag (rtc_msk ALRMR_MINMASK) v" "\<not> flag (rtc_msk ALRMR_SECMASK) v"
    using flag_bit [of 31 v] flag_bit [of 30 v] flag_bit [of 23 v] flag_bit [of 15 v] flag_bit [of 7 v] by simp_all
qed

lemma setup_alarm_regs:
  assumes "rtc_documented hw"
  obtains x where "stm32f2_setup_alarm hw False mday wday hour minute sec r =
    Some (stm32f2_rtc_write_enable False (r\<lparr>rtc_isr := x, rtc_alrmar := alarm_value mday wday hour minute sec, rtc_cr := (rtc_cr r AND NOT 0x100) OR 0x100\<rparr>))"
proof -
  let ?r = "(stm32f2_rtc_write_enable True r)\<lparr>rtc_cr := rtc_cr r AND NOT 0x100\<rparr>"
  obtain x where x: "isr_poll hw (rtc_msk ISR_ALRAWF) ?r = Some (?r\<lparr>rtc_isr := x\<rparr>)"
  proof (cases "flag (rtc_msk ISR_ALRAWF) (rtc_isr r)")
    case True
    then show ?thesis using that [of "rtc_isr r"] by (simp add: isr_poll_def del: rtc_msk.simps)
  next
    case False
    obtain y where "isr_wait hw (rtc_msk ISR_ALRAWF) (rtc_isr r) = Some y" using rtc_documentedD(4) [OF assms, of ISR_ALRAWF] by auto
    then show ?thesis using False that [of y] by (simp add: isr_poll_def del: rtc_msk.simps)
  qed
  then show ?thesis
    by (intro that [of x]) (simp add: stm32f2_setup_alarm_def rtc_write_def stm32f2_rtc_write_enable_def wpr_write_def rtc_open_def Let_def)
qed

lemma enable_alarm_a:
  fixes r :: rtc_regs
  assumes "rtc_documented hw"
  defines "r' \<equiv> stm32f2_alarm_irq_enable hw False True r"
  shows "rtc_cr r' = rtc_cr r OR 0x1000" "bit (rtc_isr r') 8 = bit (rtc_isr r) 8" "\<not> bit (rtc_isr r') 9" "\<not> bit (rtc_isr r') 10" "\<not> rtc_open r'"
    "rtc_alrmar r' = rtc_alrmar r" "rtc_tr r' = rtc_tr r" "rtc_dr r' = rtc_dr r" "rtc_alrmbr r' = rtc_alrmbr r" "rtc_wutr r' = rtc_wutr r"
proof -
  define x where "x = isr_write hw True (rtc_isr r) (rtc_isr r AND 0x100)"
  have r': "r' = stm32f2_rtc_write_enable False (r\<lparr>rtc_cr := rtc_cr r OR 0x1000, rtc_isr := x\<rparr>)"
    by (simp add: r'_def x_def stm32f2_alarm_irq_enable_def rtc_write_def isr_put_def stm32f2_rtc_write_enable_def wpr_write_def rtc_open_def Let_def)

  have "bit x 8 = bit (rtc_isr r) 8" "\<not> bit x 9" "\<not> bit x 10"
    unfolding x_def using rtc_documentedD(1) [OF assms(1), of 8] rtc_documentedD(1) [OF assms(1), of 9] rtc_documentedD(1) [OF assms(1), of 10]
    by (simp_all add: bit_simps)
  then show "rtc_cr r' = rtc_cr r OR 0x1000" "bit (rtc_isr r') 8 = bit (rtc_isr r) 8" "\<not> bit (rtc_isr r') 9" "\<not> bit (rtc_isr r') 10" "\<not> rtc_open r'"
    "rtc_alrmar r' = rtc_alrmar r" "rtc_tr r' = rtc_tr r" "rtc_dr r' = rtc_dr r" "rtc_alrmbr r' = rtc_alrmbr r" "rtc_wutr r' = rtc_wutr r"
    by (simp_all add: r')
qed

section \<open>Properties\<close>

text \<open>C33. Setting a valid time of the years 2000 to 2099 ends, whatever state the clock was left in, with the write protection closed, and reading the clock
  then gives that time, its day of the week included. Alarms, wake-up timer and control register keep their values.\<close>

theorem rtc_set_read:
  assumes "rtc_documented hw" "rtc_time_ok tm"
  shows "\<exists>r'. stm32f2_rtc_set_time hw tm r = Some (0, r') \<and> stm32f2_rtc_read_time (\<lambda>_. (rtc_tr r', rtc_dr r')) = tm \<and> \<not> rtc_open r'
    \<and> rtc_cr r' = rtc_cr r \<and> rtc_wutr r' = rtc_wutr r \<and> rtc_alrmar r' = rtc_alrmar r \<and> rtc_alrmbr r' = rtc_alrmbr r"
proof -
  obtain x where x: "stm32f2_rtc_set_time hw tm r
      = Some (0, stm32f2_rtc_write_enable False (r\<lparr>rtc_tr := tr_of tm (rtc_tr r), rtc_dr := dr_of tm (rtc_dr r), rtc_isr := x\<rparr>))"
    by (rule set_time_regs [OF assms(1)])
  show ?thesis by (intro exI conjI, rule x) (simp_all add: read_set_fields [OF assms(2)])
qed

text \<open>An alarm set to a valid time is read back with its day of the month, hour, minute and second, enabled, and its interrupt is on;
  the calendar and the other alarm stay.\<close>

theorem rtc_alarm_roundtrip:
  assumes "rtc_documented hw" "rtc_valid_tm tm = 0"
  shows "\<exists>r' pending. stm32f2_rtc_set_alarm hw tm True r = Some (0, r')
    \<and> stm32f2_rtc_read_alarm r' = (tm\<lparr>tm_mon := -1, tm_year := -1, tm_wday := -1\<rparr>, True, pending)
    \<and> bit (rtc_cr r') 12 \<and> \<not> rtc_open r' \<and> rtc_tr r' = rtc_tr r \<and> rtc_dr r' = rtc_dr r \<and> rtc_alrmbr r' = rtc_alrmbr r"
proof -
  note b = valid_tm_bounds [OF assms(2)]
  define v where "v = alarm_value (tm_mday tm) (tm_wday tm) (tm_hour tm) (tm_min tm) (tm_sec tm)"
  have v: "field 6 24 v = take_bit 6 (ucast (bin2bcd (word_of_int (tm_mday tm))))" "field 6 16 v = take_bit 6 (ucast (bin2bcd (word_of_int (tm_hour tm))))"
    "field 7 8 v = take_bit 7 (ucast (bin2bcd (word_of_int (tm_min tm))))" "field 7 0 v = take_bit 7 (ucast (bin2bcd (word_of_int (tm_sec tm))))"
    "\<not> flag (rtc_msk ALRMR_DATEMASK) v" "\<not> flag (rtc_msk ALRMR_WDSEL) v" "\<not> flag (rtc_msk ALRMR_HOURMASK) v" "\<not> flag (rtc_msk ALRMR_MINMASK) v"
    "\<not> flag (rtc_msk ALRMR_SECMASK) v" unfolding v_def using b by (intro alarm_value_fields; simp)+
  have g: "get_bcd ALRMR_MDAY v = tm_mday tm" "get_bcd ALRMR_HOUR v = tm_hour tm" "get_bcd ALRMR_MIN v = tm_min tm" "get_bcd ALRMR_SEC v = tm_sec tm"
    by (rule get_bcd_field; use b in \<open>simp add: v(1-4) field_ok_def\<close>)+
  obtain x where x: "stm32f2_setup_alarm hw False (tm_mday tm) (tm_wday tm) (tm_hour tm) (tm_min tm) (tm_sec tm) r =
      Some (stm32f2_rtc_write_enable False (r\<lparr>rtc_isr := x, rtc_alrmar := v, rtc_cr := (rtc_cr r AND NOT 0x100) OR 0x100\<rparr>))"
    unfolding v_def by (rule setup_alarm_regs [OF assms(1)])
  let ?r = "stm32f2_rtc_write_enable False (r\<lparr>rtc_isr := x, rtc_alrmar := v, rtc_cr := (rtc_cr r AND NOT 0x100) OR 0x100\<rparr>)"
  let ?r' = "stm32f2_alarm_irq_enable hw False True ?r"
  note e = enable_alarm_a [OF assms(1), of ?r]
  have s: "stm32f2_rtc_set_alarm hw tm True r = Some (0, ?r')" using assms(2) x by (simp add: stm32f2_rtc_set_alarm_def)
  have "flag (rtc_msk CR_ALRAE) (rtc_cr ?r')" "bit (rtc_cr ?r') 12"
    unfolding e(1) using flag_bit [of 8 "((rtc_cr r AND NOT 0x100) OR 0x100) OR 0x1000"] by (simp_all add: bit_simps)
  moreover have "rtc_alrmar ?r' = v" using e(6) by simp
  ultimately have "stm32f2_rtc_read_alarm ?r' = (tm\<lparr>tm_mon := -1, tm_year := -1, tm_wday := -1\<rparr>, True, flag (rtc_msk ISR_ALRAF) (rtc_isr ?r'))"
    using v(5-9) g by (simp add: stm32f2_rtc_read_alarm_def Let_def del: rtc_msk.simps)
  then show ?thesis
    using e(5,7-9) s \<open>bit (rtc_cr ?r') 12\<close> by (intro exI [of _ ?r'] exI [of _ "flag (rtc_msk ISR_ALRAF) (rtc_isr ?r')"] conjI) simp_all
qed

text \<open>Enabling the alarm interrupt does not clear the event of the alarm, contrary to the comment, but every other event: a stale alarm is
  reported at once by the interrupt handler, and an update event that was pending is lost.\<close>

theorem rtc_alarm_event_inverted:
  assumes "rtc_documented hw" "bit (rtc_isr r) 8" "bit (rtc_isr r) 9"
  shows "\<exists>r' w'. stm32f2_rtc_alarm_irq_enable hw True r = (0, r') \<and> bit (rtc_isr r') 8 \<and> \<not> bit (rtc_isr r') 9 \<and> \<not> bit (rtc_isr r') 10
    \<and> stm32f2_rtc_alarm_irq hw pr \<lparr>rtc = r', rtc_iw = w, rtc_events = []\<rparr> = (IRQ_HANDLED, w') \<and> rtc_events w' = [RTC_AF OR RTC_IRQF]"
proof -
  let ?r = "stm32f2_alarm_irq_enable hw False True r"
  note e = enable_alarm_a [OF assms(1), of r]
  have f: "flag 0x100 (rtc_isr ?r)" "\<not> flag 0x200 (rtc_isr ?r)" "flag 0x1000 (rtc_cr ?r)"
    using e(1-3) assms(2) flag_bit [of 8 "rtc_isr ?r"] flag_bit [of 9 "rtc_isr ?r"] flag_bit [of 12 "rtc_cr ?r"] by (simp_all add: bit_simps)
  have "fst (stm32f2_rtc_alarm_irq hw pr \<lparr>rtc = ?r, rtc_iw = w, rtc_events = []\<rparr>) = IRQ_HANDLED"
    "rtc_events (snd (stm32f2_rtc_alarm_irq hw pr \<lparr>rtc = ?r, rtc_iw = w, rtc_events = []\<rparr>)) = [RTC_AF OR RTC_IRQF]"
    using f by (simp_all add: stm32f2_rtc_alarm_irq_def Let_def RTC_AF_def RTC_IRQF_def)
  then show ?thesis
    using e(2-4) assms(2)
    by (intro exI [of _ ?r] exI [of _ "snd (stm32f2_rtc_alarm_irq hw pr \<lparr>rtc = ?r, rtc_iw = w, rtc_events = []\<rparr>)"] conjI)
      (simp_all add: stm32f2_rtc_alarm_irq_enable_def prod_eq_iff)
qed

text \<open>Removing the driver leaves both of its interrupt handlers installed and their interrupts enabled, although the data they work on is freed:
  the interrupts are requested for the data of the driver but freed for the device.\<close>

theorem rtc_remove_keeps_handlers:
  assumes "irq_idle w STM32F2_IRQ_RTC_ALARM" "irq_idle w STM32F2_IRQ_RTC_WAKEUP" "data \<noteq> dev"
  shows "\<exists>w'. stm32f2_rtc_probe pr (True, True, True) 0 alarm wakeup data dev w = Some (Inr (0, w'))
    \<and> stm32f2_rtc_remove pr dev w' = Some (Inr (0, w'))
    \<and> nvic_on w' STM32F2_IRQ_RTC_ALARM \<and> action (irq_descs w' STM32F2_IRQ_RTC_ALARM) = [\<lparr>act_handler = alarm, act_flags = 0, act_dev_id = data\<rparr>]
    \<and> nvic_on w' STM32F2_IRQ_RTC_WAKEUP \<and> action (irq_descs w' STM32F2_IRQ_RTC_WAKEUP) = [\<lparr>act_handler = wakeup, act_flags = 0, act_dev_id = data\<rparr>]"
proof -
  have ne: "STM32F2_IRQ_RTC_WAKEUP \<noteq> STM32F2_IRQ_RTC_ALARM" by (simp add: STM32F2_IRQ_RTC_WAKEUP_def STM32F2_IRQ_RTC_ALARM_def)
  obtain u where u: "request_irq pr True STM32F2_IRQ_RTC_ALARM (Some alarm) 0 data w = Inr (0, u)" "nr_irqs u = nr_irqs w" "nvic_on u STM32F2_IRQ_RTC_ALARM"
    "action (irq_descs u STM32F2_IRQ_RTC_ALARM) = [\<lparr>act_handler = alarm, act_flags = 0, act_dev_id = data\<rparr>]"
    "\<forall>j. j \<noteq> STM32F2_IRQ_RTC_ALARM \<longrightarrow> irq_descs u j = irq_descs w j \<and> nvic_on u j = nvic_on w j"
    by (rule request_idle [OF assms(1), where h = alarm and hw = pr and flags = 0 and dev = data]) simp_all
  have "irq_idle u STM32F2_IRQ_RTC_WAKEUP" using assms(2) u(2,5) ne by (simp add: irq_idle_def)
  then obtain v where v: "request_irq pr True STM32F2_IRQ_RTC_WAKEUP (Some wakeup) 0 data u = Inr (0, v)" "nr_irqs v = nr_irqs u" "nvic_on v STM32F2_IRQ_RTC_WAKEUP"
    "action (irq_descs v STM32F2_IRQ_RTC_WAKEUP) = [\<lparr>act_handler = wakeup, act_flags = 0, act_dev_id = data\<rparr>]"
    "\<forall>j. j \<noteq> STM32F2_IRQ_RTC_WAKEUP \<longrightarrow> irq_descs v j = irq_descs u j \<and> nvic_on v j = nvic_on u j"
    by (rule request_idle [where h = wakeup and hw = pr and flags = 0 and dev = data]) simp_all
  have a: "action (irq_descs v STM32F2_IRQ_RTC_ALARM) = [\<lparr>act_handler = alarm, act_flags = 0, act_dev_id = data\<rparr>]" "nvic_on v STM32F2_IRQ_RTC_ALARM"
    using u(3,4) v(5) ne by simp_all
  have "free_irq pr STM32F2_IRQ_RTC_WAKEUP dev v = Some (Inr v)" "free_irq pr STM32F2_IRQ_RTC_ALARM dev v = Some (Inr v)"
    using a(1) v(4) assms(3) by (simp_all add: free_irq_def)
  then show ?thesis using u(1) v(1,3,4) a by (simp add: stm32f2_rtc_probe_def stm32f2_rtc_remove_def)
qed

section \<open>A clock\<close>

text \<open>A clock as documented that answers at once, and the evening of 29 February 2012.\<close>

definition ex_rtc_hw :: rtc_hw where
  "ex_rtc_hw = \<lparr>isr_write = (\<lambda>op x v. (x AND v AND 0x700) OR (if op then v AND 0x80 else x AND 0x80)), isr_wait = (\<lambda>m x. Some (x OR m))\<rparr>"

definition ex_tm :: rtc_time where
  "ex_tm = \<lparr>tm_sec = 59, tm_min = 30, tm_hour = 23, tm_mday = 29, tm_mon = 1, tm_year = 112, tm_wday = 3\<rparr>"

definition ex_rtc :: rtc_regs where
  "ex_rtc = \<lparr>rtc_tr = 0, rtc_dr = 0x2101, rtc_cr = 0, rtc_isr = 0x300, rtc_wutr = 0xFFFF, rtc_alrmar = 0, rtc_alrmbr = 0, wpr_key = 0\<rparr>"

definition ex_rtc_world :: irq_world where
  "ex_rtc_world = upd_desc 3 (\<lambda>d. d\<lparr>chip := Nvic_chip, handle_irq := Handle_level_irq, status := 0x200\<rparr>)
     (upd_desc 41 (\<lambda>d. d\<lparr>chip := Nvic_chip, handle_irq := Handle_level_irq, status := 0x200\<rparr>) (irq_world_boot board_config soc0 (\<lambda>_. 0) (\<lambda>_. 0)))"

lemma ex_rtc_documented: "rtc_documented ex_rtc_hw"
  by (auto simp: rtc_documented_def ex_rtc_hw_def bit_simps)

lemma ex_tm_ok: "rtc_time_ok ex_tm"
  by code_simp

theorem rtc_set_read_witness:
  "\<exists>r'. stm32f2_rtc_set_time ex_rtc_hw ex_tm ex_rtc = Some (0, r') \<and> stm32f2_rtc_read_time (\<lambda>_. (rtc_tr r', rtc_dr r')) = ex_tm"
  using rtc_set_read [OF ex_rtc_documented ex_tm_ok, of ex_rtc] by blast

theorem rtc_alarm_roundtrip_witness:
  "\<exists>r' pending. stm32f2_rtc_set_alarm ex_rtc_hw ex_tm True ex_rtc = Some (0, r')
     \<and> stm32f2_rtc_read_alarm r' = (ex_tm\<lparr>tm_mon := -1, tm_year := -1, tm_wday := -1\<rparr>, True, pending)"
  using rtc_alarm_roundtrip [OF ex_rtc_documented, of ex_tm ex_rtc] ex_tm_ok by (auto simp: rtc_time_ok_def)

theorem rtc_alarm_event_inverted_witness:
  "\<exists>r' w'. stm32f2_rtc_alarm_irq_enable ex_rtc_hw True ex_rtc = (0, r')
     \<and> stm32f2_rtc_alarm_irq ex_rtc_hw rc_w1 \<lparr>rtc = r', rtc_iw = ex_rtc_world, rtc_events = []\<rparr> = (IRQ_HANDLED, w') \<and> rtc_events w' = [RTC_AF OR RTC_IRQF]"
proof -
  have "bit (rtc_isr ex_rtc) 8" "bit (rtc_isr ex_rtc) 9" by (simp_all add: ex_rtc_def)
  from rtc_alarm_event_inverted [OF ex_rtc_documented this, of rc_w1 ex_rtc_world] show ?thesis by blast
qed

theorem rtc_remove_keeps_handlers_witness:
  "\<exists>w'. stm32f2_rtc_probe rc_w1 (True, True, True) 0 7 8 0x100 0x200 ex_rtc_world = Some (Inr (0, w'))
     \<and> stm32f2_rtc_remove rc_w1 0x200 w' = Some (Inr (0, w')) \<and> nvic_on w' STM32F2_IRQ_RTC_ALARM"
proof -
  have "irq_idle ex_rtc_world STM32F2_IRQ_RTC_ALARM" "irq_idle ex_rtc_world STM32F2_IRQ_RTC_WAKEUP"
    by (simp_all add: irq_idle_def ex_rtc_world_def irq_world_boot_def irq_simps NR_IRQS_def NVIC_IRQS_def STM32F2_IRQ_RTC_ALARM_def
        STM32F2_IRQ_RTC_WAKEUP_def irq_desc_init_def bit_iff_odd)
  from rtc_remove_keeps_handlers [OF this, of "0x100" "0x200" rc_w1 7 8] show ?thesis by auto
qed

end
