(* ===== verification/Termios.thy ===== *)
theory Termios
  imports Prelude
begin

text \<open>
  The line speed in the terminal settings: \<^verbatim>\<open>tty_termios_baud_rate\<close> and \<^verbatim>\<open>tty_termios_encode_baud_rate\<close> of
  \<^verbatim>\<open>drivers/char/tty_ioctl.c\<close> with the flags of \<^verbatim>\<open>include/asm/termbits.h\<close>.
\<close>

section \<open>Flags\<close>

datatype tcflag =
    CBAUD | CBAUDEX | BOTHER | CSIZE | CS5 | CS6 | CS7 | CS8 | CSTOPB | CREAD | PARENB | PARODD | HUPCL | CLOCAL | CRTSCTS

primrec tc :: "tcflag \<Rightarrow> u32" where
  "tc CBAUD = 0x100F"
| "tc CBAUDEX = 0x1000"
| "tc BOTHER = 0x1000"
| "tc CSIZE = 0x30"
| "tc CS5 = 0x00"
| "tc CS6 = 0x10"
| "tc CS7 = 0x20"
| "tc CS8 = 0x30"
| "tc CSTOPB = 0x40"
| "tc CREAD = 0x80"
| "tc PARENB = 0x100"
| "tc PARODD = 0x200"
| "tc HUPCL = 0x400"
| "tc CLOCAL = 0x800"
| "tc CRTSCTS = 0x80000000"

declare tc.simps [simp del]

definition IBSHIFT :: nat where "IBSHIFT = 16"

record ktermios =
  c_cflag :: u32
  c_ispeed :: u32
  c_ospeed :: u32

section \<open>Model\<close>

definition baud_table :: "u32 list" where
  "baud_table = [0, 50, 75, 110, 134, 150, 200, 300, 600, 1200, 1800, 2400, 4800, 9600, 19200, 38400, 57600, 115200, 230400, 460800,
     500000, 576000, 921600, 1000000, 1152000, 1500000, 2000000, 2500000, 3000000, 3500000, 4000000]"

text \<open>\<open>B0\<close> to \<open>B38400\<close> are 0 to 15, the faster rates 1 to 15 with \<open>CBAUDEX\<close>.\<close>

definition baud_bits :: "u32 list" where
  "baud_bits = [0, 1, 2, 3, 4, 5, 6, 7, 8, 9, 0xA, 0xB, 0xC, 0xD, 0xE, 0xF, 0x1001, 0x1002, 0x1003, 0x1004,
     0x1005, 0x1006, 0x1007, 0x1008, 0x1009, 0x100A, 0x100B, 0x100C, 0x100D, 0x100E, 0x100F]"

definition n_baud_table :: u32 where
  "n_baud_table = of_nat (length baud_table)"

definition tty_termios_baud_rate :: "ktermios \<Rightarrow> u32 \<times> ktermios" where
  "tty_termios_baud_rate t =
     (let cbaud = c_cflag t AND tc CBAUD in
      if cbaud = tc BOTHER then (c_ospeed t, t)
      else if cbaud AND tc CBAUDEX \<noteq> 0 then
        (let cbaud = cbaud AND NOT (tc CBAUDEX) in
         if cbaud < 1 \<or> cbaud + 15 > n_baud_table
         then (baud_table ! unat cbaud, t\<lparr>c_cflag := c_cflag t AND NOT (tc CBAUDEX)\<rparr>)
         else (baud_table ! unat (cbaud + 15), t))
      else (baud_table ! unat cbaud, t))"

text \<open>One round of the loop over the table: the flags, and whether an output and an input rate was found.\<close>

definition encode_step :: "u32 \<Rightarrow> u32 \<Rightarrow> u32 \<Rightarrow> u32 \<Rightarrow> bool \<Rightarrow> nat \<Rightarrow> u32 \<times> int \<times> int \<Rightarrow> u32 \<times> int \<times> int" where
  "encode_step ibaud obaud iclose oclose ibinput i st =
     (let (cflag, ofound, ifound) = st;
          (cflag, ofound) = (if obaud - oclose \<le> baud_table ! i \<and> obaud + oclose \<ge> baud_table ! i
                             then (cflag OR baud_bits ! i, int i) else (cflag, ofound))
      in if ibaud - iclose \<le> baud_table ! i \<and> ibaud + iclose \<ge> baud_table ! i then
           if ofound = int i \<and> \<not> ibinput then (cflag, ofound, int i)
           else (cflag OR push_bit IBSHIFT (baud_bits ! i), ofound, int i)
         else (cflag, ofound, ifound))"

definition tty_termios_encode_baud_rate :: "u32 \<Rightarrow> u32 \<Rightarrow> ktermios \<Rightarrow> ktermios" where
  "tty_termios_encode_baud_rate ibaud obaud t =
     (let iclose = ibaud div 50; oclose = obaud div 50;
          ibaud = (if obaud = 0 then 0 else ibaud);
          t = t\<lparr>c_ispeed := ibaud, c_ospeed := obaud\<rparr>;
          oclose = (if c_cflag t AND tc CBAUD = tc BOTHER then 0 else oclose);
          iclose = (if drop_bit IBSHIFT (c_cflag t) AND tc CBAUD = tc BOTHER then 0 else iclose);
          ibinput = (drop_bit IBSHIFT (c_cflag t) AND tc CBAUD \<noteq> 0);
          (cflag, ofound, ifound) = fold (encode_step ibaud obaud iclose oclose ibinput) [0..<length baud_table]
             (c_cflag t AND NOT (tc CBAUD), - 1, - 1);
          cflag = (if ofound = - 1 then cflag OR tc BOTHER else cflag);
          cflag = (if ifound = - 1 \<and> (ibaud \<noteq> obaud \<or> ibinput) then cflag OR push_bit IBSHIFT (tc BOTHER) else cflag)
      in t\<lparr>c_cflag := cflag\<rparr>)"

section \<open>Encoding and decoding\<close>

lemma decode_table:
  "list_all2 (\<lambda>cb r. \<forall>t. c_cflag t AND tc CBAUD = cb \<longrightarrow> fst (tty_termios_baud_rate t) = r) baud_bits baud_table"
  by (simp add: baud_bits_def tty_termios_baud_rate_def tc.simps n_baud_table_def Let_def) (simp add: baud_table_def)

lemma table_length: "length baud_table = 31" "length baud_bits = 31"
  by (simp_all add: baud_table_def baud_bits_def)

lemma decode_bits: "i < 31 \<Longrightarrow> c_cflag t AND tc CBAUD = baud_bits ! i \<Longrightarrow> fst (tty_termios_baud_rate t) = baud_table ! i"
  using decode_table by (simp add: list_all2_conv_all_nth table_length)

text \<open>Neighbouring rates are more than four percent apart.\<close>

definition rate :: "nat \<Rightarrow> nat" where
  "rate i = unat (baud_table ! i)"

lemma rate_gap: "i < j \<Longrightarrow> j < 31 \<Longrightarrow> rate i < rate j \<and> 108 * rate i \<le> 100 * rate j"
proof (induction j)
  case (Suc j)
  have "list_all (\<lambda>i. rate i < rate (Suc i) \<and> 108 * rate i \<le> 100 * rate (Suc i)) [0..<30]"
    by (simp add: rate_def baud_table_def upt_rec)
  then have "rate j < rate (Suc j) \<and> 108 * rate j \<le> 100 * rate (Suc j)" using Suc.prems(2) by (simp add: list_all_iff)
  then show ?case using Suc by (cases "i = j") auto
qed simp

definition near :: "u32 \<Rightarrow> u32 \<Rightarrow> nat \<Rightarrow> bool" where
  "near b c i \<longleftrightarrow> b - c \<le> baud_table ! i \<and> b + c \<ge> baud_table ! i"

lemma near_unat:
  assumes "unat b < 2 ^ 31" "unat c \<le> unat b div 50"
  shows "near b c i \<longleftrightarrow> unat b - unat c \<le> rate i \<and> rate i \<le> unat b + unat c"
proof -
  have "unat c \<le> unat b" using assms(2) div_le_dividend [of "unat b" 50] by linarith
  then have "c \<le> b" by (simp add: word_le_nat_alt)
  moreover have "unat (b + c) = unat b + unat c" using assms \<open>unat c \<le> unat b\<close> by (simp add: unat_word_ariths)
  ultimately show ?thesis by (simp add: near_def rate_def word_le_nat_alt unat_sub)
qed

lemma near_unique:
  assumes "unat b < 2 ^ 31" "unat c \<le> unat b div 50" "near b c i" "near b c j" "i < 31" "j < 31"
  shows "i = j"
proof -
  have False if "i < j" "j < 31" "near b c i" "near b c j" for i j
  proof -
    have "unat b - unat c \<le> rate i" "rate j \<le> unat b + unat c" using that near_unat [OF assms(1,2)] by simp_all
    moreover have "rate i < rate j" "108 * rate i \<le> 100 * rate j" using rate_gap that by blast+
    moreover have "50 * unat c \<le> unat b" using assms(2) by linarith
    ultimately show False by linarith
  qed
  then show ?thesis using assms(3-6) by (metis nat_neq_iff)
qed

lemma bits_masks: "i < 31 \<Longrightarrow> baud_bits ! i AND tc CBAUD = baud_bits ! i" "i < 31 \<Longrightarrow> push_bit IBSHIFT (baud_bits ! i) AND tc CBAUD = 0"
proof -
  have "list_all (\<lambda>x. x AND tc CBAUD = x \<and> push_bit IBSHIFT x AND tc CBAUD = 0) baud_bits"
    by (simp add: baud_bits_def tc.simps IBSHIFT_def)
  then show "i < 31 \<Longrightarrow> baud_bits ! i AND tc CBAUD = baud_bits ! i" "i < 31 \<Longrightarrow> push_bit IBSHIFT (baud_bits ! i) AND tc CBAUD = 0"
    by (simp_all add: list_all_length table_length)
qed

text \<open>The output speed after the loop; the bits of the input speed do not touch it.\<close>

lemma encode_step_out:
  assumes "i < 31"
  shows "fst (encode_step ib ob ic oc inp i st) AND tc CBAUD = (if near ob oc i then (fst st AND tc CBAUD) OR baud_bits ! i else fst st AND tc CBAUD)"
    "fst (snd (encode_step ib ob ic oc inp i st)) = (if near ob oc i then int i else fst (snd st))"
  using bits_masks [OF assms] by (cases st; auto simp: encode_step_def near_def Let_def bit.conj_disj_distrib2)+

lemma encode_fold_out:
  assumes "set is \<subseteq> {..<31}"
  shows "fst (fold (encode_step ib ob ic oc inp) is st) AND tc CBAUD
      = fold (\<lambda>i c. if near ob oc i then c OR baud_bits ! i else c) is (fst st AND tc CBAUD)"
    "fst (snd (fold (encode_step ib ob ic oc inp) is st)) = fold (\<lambda>i f. if near ob oc i then int i else f) is (fst (snd st))"
  using assms by (induction "is" arbitrary: st) (simp_all add: encode_step_out)

lemma fold_none: "\<forall>i \<in> set is. \<not> P i \<Longrightarrow> fold (\<lambda>i c. if P i then f c i else c) is c = c"
  by (induction "is") simp_all

lemma fold_one:
  assumes "distinct is" "m \<in> set is" "\<forall>i \<in> set is. P i \<longleftrightarrow> i = m"
  shows "fold (\<lambda>i c. if P i then f c i else c) is c = f c m"
proof -
  obtain xs ys where s: "is = xs @ m # ys" using split_list [OF assms(2)] by blast
  then have "\<forall>i \<in> set xs. \<not> P i" "\<forall>i \<in> set ys. \<not> P i" "P m" using assms(1,3) by auto
  then show ?thesis by (simp add: s fold_none)
qed

lemma encode_decode:
  fixes b :: u32 and t :: ktermios
  assumes "unat b < 2 ^ 31"
  defines "c \<equiv> (if c_cflag t AND tc CBAUD = tc BOTHER then 0 else b div 50)"
  defines "r \<equiv> fst (tty_termios_baud_rate (tty_termios_encode_baud_rate b b t))"
  obtains (found) i where "i < 31" "near b c i" "r = baud_table ! i" | (exact) "\<forall>i < 31. \<not> near b c i" "r = b"
proof -
  let ?t = "tty_termios_encode_baud_rate b b t"
  have cl: "unat c \<le> unat b div 50" by (simp add: c_def unat_div)
  define inp where "inp = (drop_bit IBSHIFT (c_cflag t) AND tc CBAUD \<noteq> 0)"
  define ic where "ic = (if drop_bit IBSHIFT (c_cflag t) AND tc CBAUD = tc BOTHER then 0 else b div 50)"
  define fin where "fin = fold (encode_step b b ic c inp) [0..<length baud_table] (c_cflag t AND NOT (tc CBAUD), - 1, - 1)"
  obtain cf of' jf where fin: "fin = (cf, of', jf)" using prod_cases3 .
  have "c_cflag ?t = (let cf = (if of' = - 1 then cf OR tc BOTHER else cf) in if jf = - 1 \<and> (b \<noteq> b \<or> inp) then cf OR push_bit IBSHIFT (tc BOTHER) else cf)"
    and osp: "c_ospeed ?t = b"
    using fin unfolding fin_def by (simp_all add: tty_termios_encode_baud_rate_def Let_def c_def inp_def ic_def split: prod.splits)
  moreover have "push_bit IBSHIFT (tc BOTHER) AND tc CBAUD = 0" "tc BOTHER AND tc CBAUD = tc BOTHER" by (simp_all add: tc.simps IBSHIFT_def)
  ultimately have cb: "c_cflag ?t AND tc CBAUD = (if of' = - 1 then (cf AND tc CBAUD) OR tc BOTHER else cf AND tc CBAUD)"
    by (simp add: Let_def bit.conj_disj_distrib2)
  have f0: "cf AND tc CBAUD = fold (\<lambda>i x. if near b c i then x OR baud_bits ! i else x) [0..<31] 0"
    "of' = fold (\<lambda>i f. if near b c i then int i else f) [0..<31] (- 1)"
    using encode_fold_out [of "[0..<31]" b b ic c inp "(c_cflag t AND NOT (tc CBAUD), - 1, - 1)"] fin unfolding fin_def table_length
    by (simp_all add: lessThan_atLeast0 and.assoc)
  show thesis
  proof (cases "\<exists>i < 31. near b c i")
    case True
    then obtain m where m: "m < 31" "near b c m" by blast
    have u: "\<forall>i \<in> set [0..<31]. near b c i \<longleftrightarrow> i = m" using near_unique [OF assms(1) cl] m by auto
    have "cf AND tc CBAUD = baud_bits ! m" "of' = int m"
      using f0 fold_one [OF distinct_upt _ u, where f = "\<lambda>x i. x OR baud_bits ! i" and c = 0]
        fold_one [OF distinct_upt _ u, where f = "\<lambda>x i. int i" and c = "- 1"] m(1) by simp_all
    then have "fst (tty_termios_baud_rate ?t) = baud_table ! m" using cb m(1) by (intro decode_bits) simp_all
    then show thesis using found m by (simp add: r_def)
  next
    case False
    then have n: "\<forall>i \<in> set [0..<31]. \<not> near b c i" by simp
    have "cf AND tc CBAUD = 0" "of' = - 1"
      using f0 fold_none [OF n, where f = "\<lambda>x i. x OR baud_bits ! i" and c = 0] fold_none [OF n, where f = "\<lambda>x i. int i" and c = "- 1"] by simp_all
    then have "c_cflag ?t AND tc CBAUD = tc BOTHER" using cb by simp
    then show thesis using exact False osp by (simp add: r_def tty_termios_baud_rate_def)
  qed
qed

lemma abs_near: "x - c \<le> r \<Longrightarrow> r \<le> x + c \<Longrightarrow> c \<le> k \<Longrightarrow> \<bar>int r - int x\<bar> \<le> int k" for x c r k :: nat
  by linarith

text \<open>C40. The line speed survives being written to the terminal settings and read back: exactly if it is one of the table or the settings asked
  for an exact speed, and otherwise within two percent.\<close>

theorem baud_roundtrip:
  fixes b :: u32 and t :: ktermios
  assumes "unat b < 2 ^ 31"
  defines "r \<equiv> fst (tty_termios_baud_rate (tty_termios_encode_baud_rate b b t))"
  shows "\<bar>int (unat r) - int (unat b)\<bar> \<le> int (unat b div 50) \<and> (c_cflag t AND tc CBAUD = tc BOTHER \<or> b \<in> set baud_table \<longrightarrow> r = b)"
proof -
  define c where "c = (if c_cflag t AND tc CBAUD = tc BOTHER then 0 else b div 50)"
  have cl: "unat c \<le> unat b div 50" by (simp add: c_def unat_div)
  show ?thesis
  proof (cases rule: encode_decode [OF assms(1), of t, folded c_def r_def, case_names found exact])
    case (found i)
    have n: "unat b - unat c \<le> unat r" "unat r \<le> unat b + unat c" using near_unat [OF assms(1) cl, of i] found by (simp_all add: rate_def)
    have "r = b" if tab: "b \<in> set baud_table"
    proof -
      obtain j where j: "j < 31" "b = baud_table ! j" using tab by (auto simp: in_set_conv_nth table_length)
      then have "near b c j" using near_unat [OF assms(1) cl, of j] by (simp add: rate_def)
      then show ?thesis using near_unique [OF assms(1) cl found(2) _ found(1) j(1)] found(3) j(2) by simp
    qed
    moreover have "r = b" if "c_cflag t AND tc CBAUD = tc BOTHER" using n that by (simp add: c_def unsigned_word_eqI)
    ultimately show ?thesis using abs_near [OF n cl] by blast
  qed simp
qed

theorem baud_roundtrip_witness:
  "fst (tty_termios_baud_rate (tty_termios_encode_baud_rate 921600 921600 \<lparr>c_cflag = 0, c_ispeed = 0, c_ospeed = 0\<rparr>)) = 921600
   \<and> fst (tty_termios_baud_rate (tty_termios_encode_baud_rate 921700 921700 \<lparr>c_cflag = 0x1000, c_ispeed = 0, c_ospeed = 0\<rparr>)) = 921700"
  using baud_roundtrip [of 921600 "\<lparr>c_cflag = 0, c_ispeed = 0, c_ospeed = 0\<rparr>"]
    baud_roundtrip [of 921700 "\<lparr>c_cflag = 0x1000, c_ispeed = 0, c_ospeed = 0\<rparr>"]
  by (simp add: baud_table_def tc.simps)

end
