(* ===== verification/Uart.thy ===== *)
theory Uart
  imports Irq Dmac Dmamem Clock Termios
begin

text \<open>
  The serial driver \<^verbatim>\<open>drivers/serial/stm32_usart.c\<close> for the STM32F7, where it receives through a DMA stream with two
  buffers, and what it uses of the serial core (\<^verbatim>\<open>drivers/serial/serial_core.c\<close>): the ring of characters to transmit,
  writing, starting and stopping. This theory has the state and both data paths; \<^verbatim>\<open>Uart_Port\<close> has opening, closing, line
  settings and probing. The spinlock of the port disables interrupts on this single-processor machine, so the sections
  under it are atomic. Memory for the characters that the tty layer takes is not limited.
\<close>

section \<open>State\<close>

record usart_regs =
  us_cr1 :: u32
  us_cr2 :: u32
  us_cr3 :: u32
  us_brr :: u32
  us_gtpr :: u32
  us_rtor :: u32
  us_rqr :: u32
  us_isr :: u32
  us_icr :: u32
  us_rdr :: u32
  us_tdr :: u32

text \<open>\<open>cb_buf\<close> is the page of the ring, \<open>None\<close> the null pointer.\<close>

record circ_buf =
  cb_buf :: "u8 list option"
  cb_head :: int
  cb_tail :: int

text \<open>
  \<open>reg_usart_base\<close> and \<open>reg_dma_base\<close> are addresses. \<open>dma_hi\<close> tells whether \<^verbatim>\<open>dma_isr\<close> and \<^verbatim>\<open>dma_ifcr\<close> point to the upper
  pair of flag registers. The arrays of two buffers are functions of the index.
\<close>

record stm32_usart_priv =
  reg_usart_base :: u32
  reg_dma_base :: u32
  usart_irq :: nat
  dma_irq :: nat
  ini_stream :: nat
  ini_chan :: nat
  dma_hi :: bool
  rxb :: "nat \<Rightarrow> u32"
  rxb_dma :: "nat \<Rightarrow> u32"
  wbuf :: u32
  wpos :: u32
  rbuf :: u32
  rpos :: u32

text \<open>Of \<^verbatim>\<open>struct uart_port\<close>, the fields that the driver or the modelled part of the core uses.\<close>

record uart_port =
  port_line :: nat
  port_irq :: nat
  port_flags :: u32
  port_type :: u32
  mapbase :: u32
  private_data :: bool
  x_char :: u8
  icount_tx :: u32
  fifosize :: u32
  port_timeout :: u32
  mctrl :: u32

text \<open>
  One port with its tty and the machine it works on. \<open>uregs\<close> are the registers of its USART; the DMA controllers are in the
  chip of \<open>uworld\<close>. \<open>wire\<close> are the characters written to the transmitter, \<open>flip\<close> those handed to the tty layer,
  \<open>line_in\<close> those that came in on the line, \<open>arrived\<close> those of them that the DMA stream has taken, \<open>tty_initialized\<close> and \<open>cts_flow\<close> flags of the tty port.
\<close>

record uart =
  upriv :: stm32_usart_priv
  uport :: uart_port
  uregs :: usart_regs
  uworld :: irq_world
  uheap :: dmamem
  umem :: "u32 \<Rightarrow> u8"
  xmit :: circ_buf
  tty_termios :: ktermios
  tty_stopped :: bool
  hw_stopped :: bool
  tty_initialized :: bool
  tty_io_error :: bool
  cts_flow :: bool
  flip :: "u8 list"
  wire :: "u8 list"
  line_in :: "u8 list"
  arrived :: "u8 list"

section \<open>Constants\<close>

datatype usart_msk =
    STM32_USART_CR1_M1 | STM32_USART_CR1_M0 | STM32_USART_CR1_PCE | STM32_USART_CR1_PS
  | STM32_USART_CR1_TXEIE | STM32_USART_CR1_IDLIE | STM32_USART_CR1_TE | STM32_USART_CR1_RE
  | STM32_USART_CR1_UE | STM32_USART_CR2_STOP_MASK | STM32_USART_CR2_1STOP | STM32_USART_CR2_2STOP
  | STM32_USART_CR2_1HSTOP | STM32_USART_CR3_CTSE | STM32_USART_CR3_RTSE | STM32_USART_CR3_DMAR
  | STM32_USART_ISR_IDLE | STM32_USART_ICR_IDLECF

primrec us_msk :: "usart_msk \<Rightarrow> u32" where
  "us_msk STM32_USART_CR1_M1 = push_bit 28 1"
| "us_msk STM32_USART_CR1_M0 = push_bit 12 1"
| "us_msk STM32_USART_CR1_PCE = push_bit 10 1"
| "us_msk STM32_USART_CR1_PS = push_bit 9 1"
| "us_msk STM32_USART_CR1_TXEIE = push_bit 7 1"
| "us_msk STM32_USART_CR1_IDLIE = push_bit 4 1"
| "us_msk STM32_USART_CR1_TE = push_bit 3 1"
| "us_msk STM32_USART_CR1_RE = push_bit 2 1"
| "us_msk STM32_USART_CR1_UE = push_bit 0 1"
| "us_msk STM32_USART_CR2_STOP_MASK = push_bit 12 3"
| "us_msk STM32_USART_CR2_1STOP = push_bit 12 0"
| "us_msk STM32_USART_CR2_2STOP = push_bit 12 2"
| "us_msk STM32_USART_CR2_1HSTOP = push_bit 12 3"
| "us_msk STM32_USART_CR3_CTSE = push_bit 9 1"
| "us_msk STM32_USART_CR3_RTSE = push_bit 8 1"
| "us_msk STM32_USART_CR3_DMAR = push_bit 6 1"
| "us_msk STM32_USART_ISR_IDLE = push_bit 4 1"
| "us_msk STM32_USART_ICR_IDLECF = push_bit 4 1"

declare us_msk.simps [simp del]

text \<open>The flag of a character that waits in the receive data register; the driver does not name it.\<close>

definition USART_ISR_RXNE :: u32 where "USART_ISR_RXNE = push_bit 5 1"

definition STM32_USART_ISR_TXE :: u32 where "STM32_USART_ISR_TXE = push_bit 7 1"
definition STM32_DMA_RX_BUF_LEN :: u32 where "STM32_DMA_RX_BUF_LEN = 512"
definition STM32_DMA1_BASE :: u32 where "STM32_DMA1_BASE = 0x40026000"
definition STM32_DMA2_BASE :: u32 where "STM32_DMA2_BASE = 0x40026400"
definition UART_XMIT_SIZE :: int where "UART_XMIT_SIZE = 4096"

text \<open>The flags of half and complete transfers of each stream.\<close>

definition stm32_dma_isr_bit :: "u32 list" where
  "stm32_dma_isr_bit =
     [push_bit 4 1 OR push_bit 5 1, push_bit 10 1 OR push_bit 11 1, push_bit 20 1 OR push_bit 21 1, push_bit 26 1 OR push_bit 27 1,
      push_bit 4 1 OR push_bit 5 1, push_bit 10 1 OR push_bit 11 1, push_bit 20 1 OR push_bit 21 1, push_bit 26 1 OR push_bit 27 1]"

section \<open>Registers\<close>

definition upd_uregs :: "(usart_regs \<Rightarrow> usart_regs) \<Rightarrow> uart \<Rightarrow> uart" where
  "upd_uregs f u = u\<lparr>uregs := f (uregs u)\<rparr>"

definition upd_upriv :: "(stm32_usart_priv \<Rightarrow> stm32_usart_priv) \<Rightarrow> uart \<Rightarrow> uart" where
  "upd_upriv f u = u\<lparr>upriv := f (upriv u)\<rparr>"

definition upd_uport :: "(uart_port \<Rightarrow> uart_port) \<Rightarrow> uart \<Rightarrow> uart" where
  "upd_uport f u = u\<lparr>uport := f (uport u)\<rparr>"

definition upd_xmit :: "(circ_buf \<Rightarrow> circ_buf) \<Rightarrow> uart \<Rightarrow> uart" where
  "upd_xmit f u = u\<lparr>xmit := f (xmit u)\<rparr>"

text \<open>The DMA controller at \<open>reg_dma_base\<close>, the stream of the port in it, and the flag registers chosen by the probe.\<close>

definition stm32_dma :: "uart \<Rightarrow> dma_regs" where
  "stm32_dma u = (let s = iw_soc (uworld u) in if reg_dma_base (upriv u) = STM32_DMA1_BASE then dma1 s else dma2 s)"

definition upd_stm32_dma :: "(dma_regs \<Rightarrow> dma_regs) \<Rightarrow> uart \<Rightarrow> uart" where
  "upd_stm32_dma f u = u\<lparr>uworld := upd_iw_soc (\<lambda>s. if reg_dma_base (upriv u) = STM32_DMA1_BASE
     then s\<lparr>dma1 := f (dma1 s)\<rparr> else s\<lparr>dma2 := f (dma2 s)\<rparr>) (uworld u)\<rparr>"

definition rx_stream :: "uart \<Rightarrow> dma_ch_regs" where
  "rx_stream u = dma_s (stm32_dma u) (ini_stream (upriv u))"

definition upd_rx_stream :: "(dma_ch_regs \<Rightarrow> dma_ch_regs) \<Rightarrow> uart \<Rightarrow> uart" where
  "upd_rx_stream f u = upd_stm32_dma (\<lambda>d. d\<lparr>dma_s := (dma_s d)(ini_stream (upriv u) := f (dma_s d (ini_stream (upriv u))))\<rparr>) u"

definition rx_dma_isr :: "uart \<Rightarrow> u32" where
  "rx_dma_isr u = (if dma_hi (upriv u) then dma_hisr (stm32_dma u) else dma_lisr (stm32_dma u))"

definition write_dma_ifcr :: "u32 \<Rightarrow> uart \<Rightarrow> uart" where
  "write_dma_ifcr v u = upd_stm32_dma (\<lambda>d. if dma_hi (upriv u) then d\<lparr>dma_hifcr := v\<rparr> else d\<lparr>dma_lifcr := v\<rparr>) u"

section \<open>The ring of characters to transmit\<close>

definition CIRC_CNT :: "int \<Rightarrow> int \<Rightarrow> int \<Rightarrow> int" where
  "CIRC_CNT head tail siz = (head - tail) AND (siz - 1)"

definition CIRC_SPACE :: "int \<Rightarrow> int \<Rightarrow> int \<Rightarrow> int" where
  "CIRC_SPACE head tail siz = CIRC_CNT tail (head + 1) siz"

definition CIRC_SPACE_TO_END :: "int \<Rightarrow> int \<Rightarrow> int \<Rightarrow> int" where
  "CIRC_SPACE_TO_END head tail siz =
     (let ende = siz - 1 - head; n = (ende + tail) AND (siz - 1) in if n \<le> ende then n else ende + 1)"

definition uart_circ_empty :: "circ_buf \<Rightarrow> bool" where
  "uart_circ_empty c \<longleftrightarrow> cb_head c = cb_tail c"

definition uart_circ_clear :: "circ_buf \<Rightarrow> circ_buf" where
  "uart_circ_clear c = c\<lparr>cb_head := 0, cb_tail := 0\<rparr>"

definition uart_circ_chars_pending :: "circ_buf \<Rightarrow> int" where
  "uart_circ_chars_pending c = CIRC_CNT (cb_head c) (cb_tail c) UART_XMIT_SIZE"

definition uart_circ_chars_free :: "circ_buf \<Rightarrow> int" where
  "uart_circ_chars_free c = CIRC_SPACE (cb_head c) (cb_tail c) UART_XMIT_SIZE"

definition uart_tx_stopped :: "uart \<Rightarrow> bool" where
  "uart_tx_stopped u \<longleftrightarrow> tty_stopped u \<or> hw_stopped u"

text \<open>The loop of \<^verbatim>\<open>uart_write\<close>: copies up to the end of the page, then from its start. The result is the number of
  characters that were not copied.\<close>

function circ_write :: "u8 list \<Rightarrow> u8 list \<Rightarrow> int \<Rightarrow> int \<Rightarrow> u8 list \<times> int \<times> nat" where
  "circ_write bs page head tail =
     (let c = CIRC_SPACE_TO_END head tail UART_XMIT_SIZE;
          c = (if int (length bs) < c then int (length bs) else c)
      in if c \<le> 0 then (page, head, length bs)
         else circ_write (drop (nat c) bs)
                (take (nat head) page @ take (nat c) bs @ drop (nat head + nat c) page)
                ((head + c) AND (UART_XMIT_SIZE - 1)) tail)"
  by pat_completeness auto
termination
  by (relation "measure (\<lambda>(bs, page, head, tail). length bs)") (auto simp: Let_def split: if_splits)

declare circ_write.simps [simp del]

section \<open>Transmitting\<close>

text \<open>
  What the driver finds outside of its own state: \<open>env_txe r\<close> tells whether the transmit register becomes empty while the
  control registers are \<open>r\<close>, \<open>env_dma_off\<close> whether a stream that is switched off reports it, \<open>env_clk\<close> the table of
  the clock driver. \<open>env_isr\<close> and \<open>env_dma_isr\<close> are the addresses of the two interrupt handlers, \<open>env_dev\<close> that of the port; \<open>env_dm\<close> and
  \<open>env_irqmem\<close> the results of the memory allocations of the \<open>i\<close>-th call.
\<close>

record usart_env =
  env_txe :: "usart_regs \<Rightarrow> bool"
  env_dma_off :: bool
  env_clk :: "stm32_clock \<Rightarrow> u32"
  env_pr :: pr_hw
  env_isr :: nat
  env_dma_isr :: nat
  env_dev :: u32
  env_dm :: "nat \<Rightarrow> bool \<times> bool"
  env_irqmem :: "nat \<Rightarrow> bool"

definition stm_port_tx_empty :: "uart \<Rightarrow> u32" where
  "stm_port_tx_empty u = (if flag STM32_USART_ISR_TXE (us_isr (uregs u)) then 1 else 0)"

definition stm_port_stop_tx :: "uart \<Rightarrow> uart" where
  "stm_port_stop_tx = upd_uregs (\<lambda>r. r\<lparr>us_cr1 := us_cr1 r AND NOT (us_msk STM32_USART_CR1_TXEIE)\<rparr>)"

text \<open>\<^verbatim>\<open>while (!(uart->isr & STM32_USART_ISR_TXE));\<close> then the character goes to the transmitter.\<close>

definition stm32_xmit_char :: "usart_env \<Rightarrow> u8 \<Rightarrow> uart \<Rightarrow> uart option" where
  "stm32_xmit_char en c u =
     (if env_txe en (uregs u) then Some ((upd_uregs (\<lambda>r. r\<lparr>us_tdr := ucast c\<rparr>) u)\<lparr>wire := wire u @ [c]\<rparr>) else None)"

text \<open>The wake-up of a writer when few characters are left has no effect on this state. A ring without page is read through
  the null pointer.\<close>

definition stm32_transmit :: "usart_env \<Rightarrow> uart \<Rightarrow> (fault + uart) option" where
  "stm32_transmit en u =
     (if x_char (uport u) \<noteq> 0 then
        map_option (\<lambda>u. Inr (upd_uport (\<lambda>p. p\<lparr>x_char := 0, icount_tx := icount_tx p + 1\<rparr>) u))
          (stm32_xmit_char en (x_char (uport u)) u)
      else if uart_circ_empty (xmit u) \<or> uart_tx_stopped u then Some (Inr (stm_port_stop_tx u))
      else case cb_buf (xmit u) of
        None \<Rightarrow> Some (Inl NullCall)
      | Some page \<Rightarrow>
          map_option (\<lambda>u. Inr (upd_uport (\<lambda>p. p\<lparr>icount_tx := icount_tx p + 1\<rparr>)
              (upd_xmit (\<lambda>c. c\<lparr>cb_tail := (cb_tail c + 1) AND (UART_XMIT_SIZE - 1)\<rparr>) u)))
            (stm32_xmit_char en (page ! nat (cb_tail (xmit u))) u))"

definition stm_port_start_tx :: "usart_env \<Rightarrow> uart \<Rightarrow> (fault + uart) option" where
  "stm_port_start_tx en u =
     stm32_transmit en (upd_uregs (\<lambda>r. r\<lparr>us_cr1 := us_cr1 r OR us_msk STM32_USART_CR1_TXEIE\<rparr>) u)"

definition uart_start :: "usart_env \<Rightarrow> uart \<Rightarrow> (fault + uart) option" where
  "uart_start en u =
     (if \<not> uart_circ_empty (xmit u) \<and> cb_buf (xmit u) \<noteq> None \<and> \<not> tty_stopped u \<and> \<not> hw_stopped u
      then stm_port_start_tx en u else Some (Inr u))"

definition uart_stop :: "uart \<Rightarrow> uart" where
  "uart_stop = stm_port_stop_tx"

definition uart_put_char :: "u8 \<Rightarrow> uart \<Rightarrow> int \<times> uart" where
  "uart_put_char ch u =
     (case cb_buf (xmit u) of
        None \<Rightarrow> (0, u)
      | Some page \<Rightarrow>
          if uart_circ_chars_free (xmit u) \<noteq> 0
          then (1, upd_xmit (\<lambda>c. c\<lparr>cb_buf := Some (page[nat (cb_head c) := ch]),
                                  cb_head := (cb_head c + 1) AND (UART_XMIT_SIZE - 1)\<rparr>) u)
          else (0, u))"

definition uart_write :: "usart_env \<Rightarrow> u8 list \<Rightarrow> uart \<Rightarrow> (fault + int \<times> uart) option" where
  "uart_write en bs u =
     (case cb_buf (xmit u) of
        None \<Rightarrow> Some (Inr (0, u))
      | Some page \<Rightarrow>
          (let (page, head, rest) = circ_write bs page (cb_head (xmit u)) (cb_tail (xmit u));
               u = upd_xmit (\<lambda>c. c\<lparr>cb_buf := Some page, cb_head := head\<rparr>) u
           in map_option (map_sum id (\<lambda>u. (int (length bs) - int rest, u))) (uart_start en u)))"

definition uart_write_room :: "uart \<Rightarrow> int" where
  "uart_write_room u = uart_circ_chars_free (xmit u)"

definition uart_chars_in_buffer :: "uart \<Rightarrow> int" where
  "uart_chars_in_buffer u = uart_circ_chars_pending (xmit u)"

definition uart_flush_buffer :: "uart \<Rightarrow> uart" where
  "uart_flush_buffer = upd_xmit uart_circ_clear"

definition uart_send_xchar :: "usart_env \<Rightarrow> u8 \<Rightarrow> uart \<Rightarrow> (fault + uart) option" where
  "uart_send_xchar en ch u =
     (let u = upd_uport (\<lambda>p. p\<lparr>x_char := ch\<rparr>) u in
      if ch \<noteq> 0 then stm_port_start_tx en u else Some (Inr u))"

section \<open>The console\<close>

text \<open>\<open>uart_console_write\<close> sends a carriage return before every line feed.\<close>

fun uart_console_write :: "usart_env \<Rightarrow> u8 list \<Rightarrow> uart \<Rightarrow> uart option" where
  "uart_console_write en [] u = Some u"
| "uart_console_write en (c # cs) u =
     Option.bind (if c = 10 then stm32_xmit_char en 13 u else Some u) (\<lambda>u.
     Option.bind (stm32_xmit_char en c u) (uart_console_write en cs))"

definition stm_console_write :: "usart_env \<Rightarrow> u8 list \<Rightarrow> uart \<Rightarrow> uart option" where
  "stm_console_write en s u =
     (let iuarte = us_cr1 (uregs u) AND (us_msk STM32_USART_CR1_IDLIE OR us_msk STM32_USART_CR1_TXEIE);
          idmae = dma_cr (rx_stream u) AND (push_bit (dma_bit STM32_DMA_CR_TCIE) 1 OR push_bit (dma_bit STM32_DMA_CR_HTIE) 1);
          u = (if iuarte \<noteq> 0 then upd_uregs (\<lambda>r. r\<lparr>us_cr1 := us_cr1 r AND NOT iuarte\<rparr>) u else u);
          u = (if idmae \<noteq> 0 then upd_rx_stream (\<lambda>r. r\<lparr>dma_cr := dma_cr r AND NOT idmae\<rparr>) u else u)
      in map_option (\<lambda>u.
           let u = (if idmae \<noteq> 0 then upd_rx_stream (\<lambda>r. r\<lparr>dma_cr := dma_cr r OR idmae\<rparr>) u else u)
           in if iuarte \<noteq> 0 then upd_uregs (\<lambda>r. r\<lparr>us_cr1 := us_cr1 r OR iuarte\<rparr>) u else u)
         (uart_console_write en s u))"

section \<open>Receiving\<close>

text \<open>
  The receiver and the DMA go on while the handler runs. \<open>adv i\<close> is what they do before access \<open>i\<close> of the handler: 0 to 3 are those that sample
  the position of the stream, 4 is the start of the copying, 5 the read of the flags of the stream, 7 the read of the receive data
  register, and 8 and up the reads of the buffer, one for each character. \<open>rx_sample\<close> reads the current buffer and the position in it.
\<close>

definition dma_ct :: "uart \<Rightarrow> u32" where
  "dma_ct u = (if dma_cr (rx_stream u) AND dma_msk STM32_DMA_CR_CT \<noteq> 0 then 1 else 0)"

definition rx_sample :: "(nat \<Rightarrow> uart \<Rightarrow> uart) \<Rightarrow> uart \<Rightarrow> u32 \<times> u32 \<times> uart" where
  "rx_sample adv u =
     (let u = adv 0 u; new_wbuf = dma_ct u;
          u = adv 1 u; new_wpos = dma_ndtr (rx_stream u);
          u = adv 2 u; tmp = dma_ct u
      in if new_wbuf \<noteq> tmp
         then (let u = adv 3 u in (tmp, STM32_DMA_RX_BUF_LEN - dma_ndtr (rx_stream u), u))
         else (new_wbuf, STM32_DMA_RX_BUF_LEN - new_wpos, u))"

text \<open>The new position of the writer; the flag tells whether the rest of the old buffer is to be read first.\<close>

definition rx_wrap :: "u32 \<Rightarrow> u32 \<Rightarrow> stm32_usart_priv \<Rightarrow> bool \<times> stm32_usart_priv" where
  "rx_wrap new_wbuf new_wpos p =
     (if new_wbuf \<noteq> wbuf p then
        if rpos p = STM32_DMA_RX_BUF_LEN
        then (False, p\<lparr>rpos := 0, wpos := new_wpos, rbuf := new_wbuf, wbuf := new_wbuf\<rparr>)
        else (True, p\<lparr>wpos := STM32_DMA_RX_BUF_LEN\<rparr>)
      else (False, p\<lparr>wpos := new_wpos\<rparr>))"

text \<open>The copying loop. The hardware does not write to the private data of the driver.\<close>

function rx_fetch :: "(nat \<Rightarrow> uart \<Rightarrow> uart) \<Rightarrow> nat \<Rightarrow> uart \<Rightarrow> uart" where
  "rx_fetch adv i u =
     (let p = upriv u in
      if rpos p < wpos p
      then (let u = adv i u in
            rx_fetch adv (i + 1) (u\<lparr>upriv := p\<lparr>rpos := rpos p + 1\<rparr>, flip := flip u @ [umem u (rxb p (unat (rbuf p)) + rpos p)]\<rparr>))
      else u)"
  by pat_completeness auto
termination
proof (relation "measure (\<lambda>(adv, i, u). unat (wpos (upriv u)) - unat (rpos (upriv u)))", goal_cases)
  case (2 adv i u p v)
  have lt: "unat (rpos p) < unat (wpos p)" using 2(2) by (simp add: word_less_nat_alt)
  then have "unat (rpos p) + 1 < 2 ^ 32" using unat_u32_less [of "wpos p"] by simp
  then have "unat (rpos p + 1) = unat (rpos p) + 1" by (simp add: unat_word_ariths)
  then show ?case using lt 2(1) by simp
qed simp

declare rx_fetch.simps [simp del]

definition stm32_receive :: "(nat \<Rightarrow> uart \<Rightarrow> uart) \<Rightarrow> uart \<Rightarrow> uart" where
  "stm32_receive adv u =
     (let (new_wbuf, new_wpos, u) = rx_sample adv u;
          (wrap, p) = rx_wrap new_wbuf new_wpos (upriv u);
          u = rx_fetch adv 8 (adv 4 (u\<lparr>upriv := p\<rparr>))
      in if wrap then u
         else (let u = adv 5 u; tmp = rx_dma_isr u AND stm32_dma_isr_bit ! ini_stream (upriv u)
               in if tmp \<noteq> 0 then write_dma_ifcr tmp u else u))"

text \<open>\<^verbatim>\<open>tmp = uart->rdr\<close>: the value is not used, but the read takes the character out of the register.\<close>

definition read_rdr :: "uart \<Rightarrow> uart" where
  "read_rdr = upd_uregs (\<lambda>r. r\<lparr>us_isr := us_isr r AND NOT USART_ISR_RXNE\<rparr>)"

definition stm32_usart_isr :: "usart_env \<Rightarrow> (nat \<Rightarrow> uart \<Rightarrow> uart) \<Rightarrow> uart \<Rightarrow> (fault + u32 \<times> uart) option" where
  "stm32_usart_isr en adv u =
     (let u = (if flag (us_msk STM32_USART_ISR_IDLE) (us_isr (uregs u))
               then upd_uregs (\<lambda>r. r\<lparr>us_icr := us_icr r OR us_msk STM32_USART_ICR_IDLECF\<rparr>) (stm32_receive adv (read_rdr (adv 7 u)))
               else u)
      in map_option (map_sum id (\<lambda>u. (IRQ_HANDLED, u))) (stm32_transmit en u))"

definition usart_dma_isr :: "(nat \<Rightarrow> uart \<Rightarrow> uart) \<Rightarrow> uart \<Rightarrow> u32 \<times> uart" where
  "usart_dma_isr adv u = (IRQ_HANDLED, stm32_receive adv u)"

section \<open>A concrete port\<close>

text \<open>The port of the board, USART6 with stream 2 of the second DMA controller: switched on, its ring empty.\<close>

definition ex_uart :: uart where
  "ex_uart = \<lparr>
     upriv = \<lparr>reg_usart_base = 0x40011400, reg_dma_base = STM32_DMA2_BASE, usart_irq = 71, dma_irq = 58, ini_stream = 2, ini_chan = 5,
       dma_hi = False, rxb = (\<lambda>i. if i = 0 then 0x90040000 else 0x90041000), rxb_dma = (\<lambda>i. if i = 0 then 0x90040000 else 0x90041000),
       wbuf = 0, wpos = 0, rbuf = 0, rpos = 0\<rparr>,
     uport = \<lparr>port_line = 5, port_irq = 71, port_flags = 0, port_type = 91, mapbase = 0x40011400, private_data = True, x_char = 0,
       icount_tx = 0, fifosize = 1, port_timeout = 0, mctrl = 0\<rparr>,
     uregs = \<lparr>us_cr1 = 0x1D, us_cr2 = 0, us_cr3 = 0x40, us_brr = 0, us_gtpr = 0, us_rtor = 0, us_rqr = 0, us_isr = 0xC0, us_icr = 0,
       us_rdr = 0, us_tdr = 0\<rparr>,
     uworld = irq_world_boot board_config soc0 (\<lambda>_. 0) (\<lambda>_. 0), uheap = dmamem_boot, umem = (\<lambda>_. 0),
     xmit = \<lparr>cb_buf = Some (replicate 4096 0), cb_head = 0, cb_tail = 0\<rparr>,
     tty_termios = \<lparr>c_cflag = 0, c_ispeed = 0, c_ospeed = 0\<rparr>,
     tty_stopped = False, hw_stopped = False, tty_initialized = True, tty_io_error = False, cts_flow = False, flip = [], wire = [], line_in = [], arrived = []\<rparr>"

definition ex_usart_env :: usart_env where
  "ex_usart_env = \<lparr>env_txe = (\<lambda>_. True), env_dma_off = True, env_clk = (\<lambda>_. 108000000), env_pr = rc_w1, env_isr = 1, env_dma_isr = 2,
     env_dev = 0x20001000, env_dm = (\<lambda>_. (True, True)), env_irqmem = (\<lambda>_. True)\<rparr>"

end
