(* ===== verification/Uart_Port.thy ===== *)
theory Uart_Port
  imports Uart Dmainit
begin

text \<open>
  Opening, closing and setting up a serial port: the port operations of \<^verbatim>\<open>drivers/serial/stm32_usart.c\<close> other than the data paths, the console
  setup, the probe and removal of a port, what the serial core (\<^verbatim>\<open>drivers/serial/serial_core.c\<close>) does around them, and the
  platform devices of \<^verbatim>\<open>arch/arm/mach-stm32/uart.c\<close>. Registering a port with the core is a parameter.
\<close>

section \<open>Constants\<close>

datatype tiocm = TIOCM_DTR | TIOCM_RTS | TIOCM_CTS | TIOCM_CAR | TIOCM_DSR

primrec tiocm_msk :: "tiocm \<Rightarrow> u32" where
  "tiocm_msk TIOCM_DTR = 0x002"
| "tiocm_msk TIOCM_RTS = 0x004"
| "tiocm_msk TIOCM_CTS = 0x020"
| "tiocm_msk TIOCM_CAR = 0x040"
| "tiocm_msk TIOCM_DSR = 0x100"

datatype upf = UPF_SPD_MASK | UPF_SPD_HI | UPF_SPD_VHI | UPF_SPD_SHI | UPF_SPD_WARP | UPF_BOOT_AUTOCONF

primrec upf_msk :: "upf \<Rightarrow> u32" where
  "upf_msk UPF_SPD_MASK = 0x1030"
| "upf_msk UPF_SPD_HI = 0x0010"
| "upf_msk UPF_SPD_VHI = 0x0020"
| "upf_msk UPF_SPD_SHI = 0x1000"
| "upf_msk UPF_SPD_WARP = 0x1010"
| "upf_msk UPF_BOOT_AUTOCONF = push_bit 28 1"

definition PORT_UNKNOWN :: u32 where "PORT_UNKNOWN = 0"
definition PORT_STM32USART :: u32 where "PORT_STM32USART = 91"
definition STM32_NR_UARTS :: nat where "STM32_NR_UARTS = 8"

section \<open>The two receive buffers\<close>

text \<open>Coherent memory comes from the region of \<open>Dmamem\<close>; the bus address is the address.\<close>

definition dma_alloc_coherent :: "bool \<times> bool \<Rightarrow> u32 \<Rightarrow> dmamem \<Rightarrow> fault + u32 \<times> dmamem" where
  "dma_alloc_coherent mem siz h = dmamem_alloc (fst mem) (snd mem) siz 0 h"

definition dma_free_coherent :: "u32 \<Rightarrow> dmamem \<Rightarrow> dmamem" where
  "dma_free_coherent cpu_addr h = dmamem_free cpu_addr h"

definition rxb_free :: "nat \<Rightarrow> uart \<Rightarrow> uart" where
  "rxb_free i u = (upd_upriv (\<lambda>p. p\<lparr>rxb := (rxb p)(i := 0)\<rparr>) u)\<lparr>uheap := dma_free_coherent (rxb (upriv u) i) (uheap u)\<rparr>"

text \<open>The loop over the buffers; when one cannot be had, those before it are freed, the last one first.\<close>

fun rxb_alloc :: "usart_env \<Rightarrow> nat list \<Rightarrow> uart \<Rightarrow> fault + bool \<times> uart" where
  "rxb_alloc en [] u = Inr (True, u)"
| "rxb_alloc en (i # is) u =
     and_then (dma_alloc_coherent (env_dm en i) STM32_DMA_RX_BUF_LEN (uheap u)) (\<lambda>(b, h).
       let u = upd_upriv (\<lambda>p. p\<lparr>rxb := (rxb p)(i := b)\<rparr>) (u\<lparr>uheap := h\<rparr>)
       in if b \<noteq> 0 then rxb_alloc en is (upd_upriv (\<lambda>p. p\<lparr>rxb_dma := (rxb_dma p)(i := b)\<rparr>) u)
          else Inr (False, fold rxb_free (rev [0..<i]) u))"

section \<open>Line speed\<close>

definition port_clock :: "usart_env \<Rightarrow> uart \<Rightarrow> u32" where
  "port_clock en u = env_clk en (if port_line (uport u) = 0 \<or> port_line (uport u) = 5 then CLOCK_PCLK2 else CLOCK_PCLK1)"

definition STM32_USART_BRR_M_BIT :: nat where "STM32_USART_BRR_M_BIT = 4"
definition STM32_USART_BRR_F_MSK :: u32 where "STM32_USART_BRR_F_MSK = 0x0F"
definition STM32_USART_BRR_M_MSK :: u32 where "STM32_USART_BRR_M_MSK = 0xFFF"

text \<open>\<open>tmp\<close> is a 16-bit variable.\<close>

definition brr_value :: "u32 \<Rightarrow> u32 \<Rightarrow> u16" where
  "brr_value apb_clock baudrate =
     (let int_div = (25 * apb_clock) div (4 * baudrate);
          tmp = ucast (push_bit STM32_USART_BRR_M_BIT (int_div div 100)) :: u16;
          frac_div = int_div - (100 * ucast (drop_bit 4 tmp))
      in tmp OR ucast (((frac_div * 16) + 50) div 100 AND STM32_USART_BRR_F_MSK))"

definition stm_set_baud_rate :: "usart_env \<Rightarrow> u32 \<Rightarrow> uart \<Rightarrow> fault + uart" where
  "stm_set_baud_rate en baudrate u =
     (if 4 * baudrate = 0 then Inl DivByZero
      else Inr (upd_uregs (\<lambda>r. r\<lparr>us_brr := ucast (brr_value (port_clock en u) baudrate)\<rparr>) u))"

text \<open>The two tries of \<^verbatim>\<open>uart_get_baud_rate\<close>; after the second one it warns and returns 0.\<close>

primrec baud_try :: "nat \<Rightarrow> u32 \<Rightarrow> u32 \<Rightarrow> u32 \<Rightarrow> bool \<Rightarrow> ktermios option \<Rightarrow> ktermios \<Rightarrow> u32 \<times> ktermios" where
  "baud_try 0 altbaud min_b max_b hung_up old t = (0, t)"
| "baud_try (Suc n) altbaud min_b max_b hung_up old t =
     (let (baud, t) = tty_termios_baud_rate t;
          baud = (if baud = 38400 then altbaud else baud);
          hung_up = (hung_up \<or> baud = 0);
          baud = (if baud = 0 then 9600 else baud)
      in if min_b \<le> baud \<and> baud \<le> max_b then (baud, t)
         else
           (let t = t\<lparr>c_cflag := c_cflag t AND NOT (tc CBAUD)\<rparr>
            in case old of
              Some o' \<Rightarrow>
                (let baud = fst (tty_termios_baud_rate o')
                 in baud_try n altbaud min_b max_b hung_up None (if hung_up then t else tty_termios_encode_baud_rate baud baud t))
            | None \<Rightarrow>
                baud_try n altbaud min_b max_b hung_up None
                  (if hung_up then t
                   else if baud \<le> min_b then tty_termios_encode_baud_rate (min_b + 1) (min_b + 1) t
                   else tty_termios_encode_baud_rate (max_b - 1) (max_b - 1) t)))"

definition uart_get_baud_rate :: "uart_port \<Rightarrow> ktermios \<Rightarrow> ktermios option \<Rightarrow> u32 \<Rightarrow> u32 \<Rightarrow> u32 \<times> ktermios" where
  "uart_get_baud_rate port t old min_b max_b =
     (let flags = port_flags port AND upf_msk UPF_SPD_MASK;
          altbaud = (if flags = upf_msk UPF_SPD_HI then 57600 else if flags = upf_msk UPF_SPD_VHI then 115200
                     else if flags = upf_msk UPF_SPD_SHI then 230400 else if flags = upf_msk UPF_SPD_WARP then 460800 else 38400)
      in baud_try 2 altbaud min_b max_b False old t)"

definition uart_update_timeout :: "u32 \<Rightarrow> u32 \<Rightarrow> uart_port \<Rightarrow> fault + uart_port" where
  "uart_update_timeout cflag baud port =
     (let siz = cflag AND tc CSIZE;
          bits = (if siz = tc CS5 then 7 else if siz = tc CS6 then 8 else if siz = tc CS7 then 9 else 10);
          bits = (if flag (tc CSTOPB) cflag then bits + 1 else bits);
          bits = (if flag (tc PARENB) cflag then bits + 1 else bits);
          bits = bits * fifosize port
      in if baud = 0 then Inl DivByZero else Inr (port\<lparr>port_timeout := (HZ * bits) div baud + HZ div 50\<rparr>))"

section \<open>Terminal settings\<close>

definition termios_cr1 :: "u32 \<Rightarrow> u32 \<Rightarrow> u32" where
  "termios_cr1 cflag cr1 =
     (let newcr1 = cr1 AND NOT (us_msk STM32_USART_CR1_M0 OR us_msk STM32_USART_CR1_M1 OR us_msk STM32_USART_CR1_PCE OR us_msk STM32_USART_CR1_PS)
      in if flag (tc PARENB) cflag then
           (let newcr1 = newcr1 OR us_msk STM32_USART_CR1_PCE;
                newcr1 = (if flag (tc PARODD) cflag then newcr1 OR us_msk STM32_USART_CR1_PS else newcr1)
            in if cflag AND tc CSIZE = tc CS8 then newcr1 OR us_msk STM32_USART_CR1_M0 else newcr1)
         else newcr1)"

definition termios_cr2 :: "u32 \<Rightarrow> u32 \<Rightarrow> u32" where
  "termios_cr2 cflag cr2 =
     (let newcr2 = cr2 AND NOT (us_msk STM32_USART_CR2_STOP_MASK)
      in if flag (tc CSTOPB) cflag then newcr2 OR us_msk STM32_USART_CR2_2STOP else newcr2)"

definition termios_cr3 :: "u32 \<Rightarrow> u32 \<Rightarrow> u32" where
  "termios_cr3 cflag cr3 =
     (let newcr3 = cr3 AND NOT (us_msk STM32_USART_CR3_CTSE OR us_msk STM32_USART_CR3_RTSE)
      in if flag (tc CRTSCTS) cflag then newcr3 OR (us_msk STM32_USART_CR3_CTSE OR us_msk STM32_USART_CR3_RTSE) else newcr3)"

text \<open>The result is also the settings as the driver changed them.\<close>

definition stm_port_set_termios :: "usart_env \<Rightarrow> ktermios \<Rightarrow> ktermios option \<Rightarrow> uart \<Rightarrow> fault + ktermios \<times> uart" where
  "stm_port_set_termios en t old u =
     (let newcr1 = termios_cr1 (c_cflag t) (us_cr1 (uregs u));
          newcr2 = termios_cr2 (c_cflag t) (us_cr2 (uregs u));
          newcr3 = termios_cr3 (c_cflag t) (us_cr3 (uregs u));
          max_baud = drop_bit 4 (port_clock en u);
          (baud, t) = uart_get_baud_rate (uport u) t old 0 max_baud
      in and_then (uart_update_timeout (c_cflag t) baud (uport u)) (\<lambda>port.
         and_then (stm_set_baud_rate en baud (upd_uregs (\<lambda>r. r\<lparr>us_cr1 := newcr1, us_cr2 := newcr2, us_cr3 := newcr3\<rparr>) (u\<lparr>uport := port\<rparr>))) (\<lambda>u.
         let (b, t) = tty_termios_baud_rate t
         in Inr (if b \<noteq> 0 then tty_termios_encode_baud_rate baud baud t else t, u))))"

text \<open>The flag that carrier detection is checked has no effect in the modelled code.\<close>

definition uart_change_speed :: "usart_env \<Rightarrow> ktermios option \<Rightarrow> uart \<Rightarrow> fault + uart" where
  "uart_change_speed en old u =
     (if port_type (uport u) = PORT_UNKNOWN then Inr u
      else and_then (stm_port_set_termios en (tty_termios u) old (u\<lparr>cts_flow := flag (tc CRTSCTS) (c_cflag (tty_termios u))\<rparr>))
             (\<lambda>(t, u). Inr (u\<lparr>tty_termios := t\<rparr>)))"

section \<open>Opening and closing in the driver\<close>

definition CR_EN :: u32 where "CR_EN = push_bit (dma_bit STM32_DMA_CR_EN) 1"

text \<open>Switching the stream off and waiting until it reports so.\<close>

definition rx_dma_off :: "usart_env \<Rightarrow> uart \<Rightarrow> uart option" where
  "rx_dma_off en u = (if env_dma_off en then Some (upd_rx_stream (\<lambda>r. r\<lparr>dma_cr := dma_cr r AND NOT CR_EN\<rparr>) u) else None)"

definition stm_port_stop_rx :: "usart_env \<Rightarrow> uart \<Rightarrow> uart option" where
  "stm_port_stop_rx en u =
     map_option (upd_uregs (\<lambda>r. r\<lparr>us_cr1 := us_cr1 r AND NOT (us_msk STM32_USART_CR1_RE)\<rparr>)) (rx_dma_off en u)"

definition USART_IRQF :: u32 where "USART_IRQF = irqf IRQF_DISABLED OR irqf IRQF_SAMPLE_RANDOM"

definition rx_dma_cr :: "stm32_usart_priv \<Rightarrow> u32" where
  "rx_dma_cr p =
     push_bit (dma_bit STM32_DMA_CR_CHSEL_BIT) (of_nat (ini_chan p)) OR
     push_bit (dma_bit STM32_DMA_CR_PL_BIT) (dma_msk STM32_DMA_CR_PL_HIGH) OR
     dma_msk STM32_DMA_CR_CIRC OR dma_msk STM32_DMA_CR_MINC OR
     push_bit (dma_bit STM32_DMA_CR_TCIE) 1 OR push_bit (dma_bit STM32_DMA_CR_HTIE) 1 OR dma_msk STM32_DMA_CR_DBM"

text \<open>The register of received data is at offset 0x24 of the USART.\<close>

definition rx_dma_start :: "uart \<Rightarrow> uart" where
  "rx_dma_start u =
     upd_rx_stream (\<lambda>r. r\<lparr>dma_cr := rx_dma_cr (upriv u) OR CR_EN, dma_ndtr := STM32_DMA_RX_BUF_LEN, dma_par := reg_usart_base (upriv u) + 0x24,
       dma_m0ar := rxb_dma (upriv u) 0, dma_m1ar := rxb_dma (upriv u) 1\<rparr>) u"

definition usart_start :: "usart_env \<Rightarrow> uart \<Rightarrow> fault + uart" where
  "usart_start en u =
     (let u = upd_uregs (\<lambda>r. r\<lparr>us_cr1 := (us_msk STM32_USART_CR1_TE OR us_msk STM32_USART_CR1_RE) OR
            (us_msk STM32_USART_CR1_IDLIE OR us_msk STM32_USART_CR1_TXEIE), us_cr2 := 0, us_cr3 := us_msk STM32_USART_CR3_DMAR\<rparr>) u
      in and_then (if us_brr (uregs u) AND (STM32_USART_BRR_F_MSK OR push_bit STM32_USART_BRR_M_BIT STM32_USART_BRR_M_MSK) = 0
                   then stm_set_baud_rate en 115200 u else Inr u)
           (\<lambda>u. Inr (upd_uregs (\<lambda>r. r\<lparr>us_cr1 := us_cr1 r OR us_msk STM32_USART_CR1_UE\<rparr>) u)))"

definition stm_port_startup :: "usart_env \<Rightarrow> uart \<Rightarrow> (fault + int \<times> uart) option" where
  "stm_port_startup en u =
     (let u = upd_upriv (\<lambda>p. p\<lparr>wbuf := 0, wpos := 0, rbuf := 0, rpos := 0\<rparr>) u in
      run_then (Some (rxb_alloc en [0, 1] u)) (\<lambda>(ok, u).
      if \<not> ok then Some (Inr (- ENOMEM, u)) else
      run_then (Some (request_irq (env_pr en) (env_irqmem en 0) (usart_irq (upriv u)) (Some (env_isr en)) USART_IRQF (env_dev en) (uworld u))) (\<lambda>(rv, w).
      let u = u\<lparr>uworld := w\<rparr> in
      if rv \<noteq> 0 then Some (Inr (rv, u)) else
      run_then (Some (request_irq (env_pr en) (env_irqmem en 1) (dma_irq (upriv u)) (Some (env_dma_isr en)) USART_IRQF (env_dev en) (uworld u))) (\<lambda>(rv, w).
      let u = u\<lparr>uworld := w\<rparr> in
      if rv \<noteq> 0
      then run_then (free_irq (env_pr en) (usart_irq (upriv u)) (env_dev en) (uworld u)) (\<lambda>w. Some (Inr (rv, u\<lparr>uworld := w\<rparr>)))
      else Option.bind (rx_dma_off en u) (\<lambda>u.
      run_then (Some (usart_start en (rx_dma_start u))) (\<lambda>u. Some (Inr (0, u))))))))"

definition stm_port_shutdown :: "usart_env \<Rightarrow> uart \<Rightarrow> (fault + uart) option" where
  "stm_port_shutdown en u =
     Option.bind (rx_dma_off en u) (\<lambda>u.
     let u = upd_uregs (\<lambda>r. r\<lparr>us_cr1 := (us_cr1 r AND NOT (us_msk STM32_USART_CR1_TE OR us_msk STM32_USART_CR1_RE OR us_msk STM32_USART_CR1_UE))
           AND NOT (us_msk STM32_USART_CR1_IDLIE OR us_msk STM32_USART_CR1_TXEIE)\<rparr>) u
     in run_then (free_irq (env_pr en) (dma_irq (upriv u)) (env_dev en) (uworld u)) (\<lambda>w.
        run_then (free_irq (env_pr en) (usart_irq (upriv u)) (env_dev en) w) (\<lambda>w.
        Some (Inr (u\<lparr>uworld := w\<rparr>)))))"

definition stm_port_release_port :: "uart \<Rightarrow> uart" where
  "stm_port_release_port u = fold (\<lambda>i u. if rxb (upriv u) i = 0 then u else rxb_free i u) [0, 1] u"

definition stm_port_request_port :: int where
  "stm_port_request_port = 0"

definition stm_port_config_port :: "uart \<Rightarrow> uart" where
  "stm_port_config_port u = (if stm_port_request_port = 0 then upd_uport (\<lambda>p. p\<lparr>port_type := PORT_STM32USART\<rparr>) u else u)"

definition stm_port_verify_port :: int where
  "stm_port_verify_port = - EINVAL"

definition stm_port_get_mctrl :: u32 where
  "stm_port_get_mctrl = tiocm_msk TIOCM_CTS OR tiocm_msk TIOCM_DSR OR tiocm_msk TIOCM_CAR"

section \<open>Opening and closing in the serial core\<close>

text \<open>The driver's \<^verbatim>\<open>set_mctrl\<close> does nothing.\<close>

definition uart_update_mctrl :: "u32 \<Rightarrow> u32 \<Rightarrow> uart \<Rightarrow> uart" where
  "uart_update_mctrl set_m clear_m = upd_uport (\<lambda>p. p\<lparr>mctrl := mctrl p AND NOT clear_m OR set_m\<rparr>)"

text \<open>\<open>page\<close> tells whether a page is free, \<open>admin\<close> whether the caller is privileged.\<close>

definition uart_startup :: "usart_env \<Rightarrow> bool \<Rightarrow> bool \<Rightarrow> bool \<Rightarrow> uart \<Rightarrow> (fault + int \<times> uart) option" where
  "uart_startup en page admin init_hw u =
     (if tty_initialized u then Some (Inr (0, u))
      else
        (let u = u\<lparr>tty_io_error := True\<rparr> in
         if port_type (uport u) = PORT_UNKNOWN then Some (Inr (0, u))
         else if cb_buf (xmit u) = None \<and> \<not> page then Some (Inr (- ENOMEM, u))
         else
           (let u = (if cb_buf (xmit u) = None then upd_xmit (\<lambda>c. uart_circ_clear (c\<lparr>cb_buf := Some (replicate 4096 0)\<rparr>)) u else u)
            in run_then (stm_port_startup en u) (\<lambda>(retval, u).
               if retval \<noteq> 0 then Some (Inr (if admin then 0 else retval, u))
               else run_then (Some (if init_hw then
                        and_then (uart_change_speed en None u) (\<lambda>u.
                          Inr (if flag (tc CBAUD) (c_cflag (tty_termios u)) then uart_update_mctrl (tiocm_msk TIOCM_RTS OR tiocm_msk TIOCM_DTR) 0 u else u))
                      else Inr u)) (\<lambda>u.
                 let u = (if cts_flow u \<and> \<not> flag (tiocm_msk TIOCM_CTS) stm_port_get_mctrl then u\<lparr>hw_stopped := True\<rparr> else u)
                 in Some (Inr (0, u\<lparr>tty_initialized := True, tty_io_error := False\<rparr>)))))))"

definition uart_shutdown :: "usart_env \<Rightarrow> uart \<Rightarrow> (fault + uart) option" where
  "uart_shutdown en u =
     (let u = u\<lparr>tty_io_error := True\<rparr> in
      run_then (if tty_initialized u then
          (let u = u\<lparr>tty_initialized := False\<rparr>;
               u = (if flag (tc HUPCL) (c_cflag (tty_termios u)) then uart_update_mctrl 0 (tiocm_msk TIOCM_DTR OR tiocm_msk TIOCM_RTS) u else u)
           in run_then (stm_port_shutdown en u) (\<lambda>u. map_option (\<lambda>w. Inr (u\<lparr>uworld := w\<rparr>)) (synchronize_irq (port_irq (uport u)) (uworld u))))
        else Some (Inr u))
      (\<lambda>u. Some (Inr (upd_xmit (\<lambda>c. c\<lparr>cb_buf := None\<rparr>) u))))"

section \<open>Console setup\<close>

definition digit :: "char \<Rightarrow> bool" where
  "digit c \<longleftrightarrow> 48 \<le> (of_char c :: nat) \<and> (of_char c :: nat) \<le> 57"

text \<open>\<^verbatim>\<open>simple_strtoul\<close> with base 10; the result is stored in an \<^verbatim>\<open>int\<close>.\<close>

definition simple_strtoul :: "string \<Rightarrow> u32" where
  "simple_strtoul s = fold (\<lambda>c r. r * 10 + of_nat (of_char c - 48)) (takeWhile digit s) 0"

record uart_options =
  opt_baud :: u32
  opt_parity :: char
  opt_bits :: int
  opt_flow :: char

definition uart_parse_options :: "string \<Rightarrow> uart_options \<Rightarrow> uart_options" where
  "uart_parse_options options o' =
     (let o' = o'\<lparr>opt_baud := simple_strtoul options\<rparr>;
          s = dropWhile digit options
      in case s of
        [] \<Rightarrow> o'
      | p # s \<Rightarrow>
          (let o' = o'\<lparr>opt_parity := p\<rparr>
           in case s of
             [] \<Rightarrow> o'
           | b # s \<Rightarrow>
               (let o' = o'\<lparr>opt_bits := of_char b - 48\<rparr>
                in case s of [] \<Rightarrow> o' | f # _ \<Rightarrow> o'\<lparr>opt_flow := f\<rparr>)))"

definition baud_rates :: "(u32 \<times> u32) list" where
  "baud_rates = [(921600, 0x1007), (460800, 0x1004), (230400, 0x1003), (115200, 0x1002), (57600, 0x1001), (38400, 0xF),
     (19200, 0xE), (9600, 0xD), (4800, 0xC), (2400, 0xB), (1200, 0x9), (0, 0xF)]"

definition baud_cflag :: "u32 \<Rightarrow> u32" where
  "baud_cflag baud = snd (hd (dropWhile (\<lambda>(rate, _). rate \<noteq> 0 \<and> \<not> rate \<le> baud) baud_rates))"

definition options_termios :: "uart_options \<Rightarrow> ktermios" where
  "options_termios o' =
     (let cflag = tc CREAD OR tc HUPCL OR tc CLOCAL OR baud_cflag (opt_baud o') OR (if opt_bits o' = 7 then tc CS7 else tc CS8);
          cflag = (if opt_parity o' = CHR ''o'' \<or> opt_parity o' = CHR ''O'' then cflag OR tc PARODD OR tc PARENB
                   else if opt_parity o' = CHR ''e'' \<or> opt_parity o' = CHR ''E'' then cflag OR tc PARENB else cflag);
          cflag = (if opt_flow o' = CHR ''r'' then cflag OR tc CRTSCTS else cflag)
      in \<lparr>c_cflag = cflag, c_ispeed = 0, c_ospeed = 0\<rparr>)"

text \<open>The first result is the return value, the second the flags stored in the console.\<close>

definition uart_set_options :: "usart_env \<Rightarrow> uart_options \<Rightarrow> uart \<Rightarrow> fault + int \<times> u32 \<times> uart" where
  "uart_set_options en o' u =
     and_then (stm_port_set_termios en (options_termios o') (Some \<lparr>c_cflag = 0, c_ispeed = 0, c_ospeed = 0\<rparr>)
                 (upd_uport (\<lambda>p. p\<lparr>mctrl := mctrl p OR tiocm_msk TIOCM_DTR\<rparr>) u))
       (\<lambda>(t, u). Inr (0, c_cflag t, u))"

definition console_options :: uart_options where
  "console_options = \<lparr>opt_baud = 115200, opt_parity = CHR ''n'', opt_bits = 8, opt_flow = CHR ''n''\<rparr>"

definition stm_console_setup :: "usart_env \<Rightarrow> int \<Rightarrow> string option \<Rightarrow> (nat \<Rightarrow> uart) \<Rightarrow> fault + int \<times> (nat \<Rightarrow> uart)" where
  "stm_console_setup en idx options ports =
     (if idx < 0 \<or> idx \<ge> int STM32_NR_UARTS then Inr (- EINVAL, ports)
      else if \<not> private_data (uport (ports (nat idx))) then Inr (- ENODEV, ports)
      else
        (let o' = (case options of None \<Rightarrow> console_options | Some s \<Rightarrow> uart_parse_options s console_options)
         in and_then (uart_set_options en o' (ports (nat idx))) (\<lambda>(rv, _, u). Inr (rv, ports(nat idx := u)))))"

section \<open>Platform devices\<close>

record platform_device =
  pdev_id :: int
  res_mem :: "u32 list"
  res_irq :: "nat list"

text \<open>\<^verbatim>\<open>platform_get_resource\<close>: the start of the \<open>n\<close>-th resource of a type, if there is one.\<close>

definition get_resource :: "'a list \<Rightarrow> nat \<Rightarrow> 'a option" where
  "get_resource rs n = (if n < length rs then Some (rs ! n) else None)"

definition STM32_APB1PERITH_BASE :: u32 where "STM32_APB1PERITH_BASE = 0x40000000"
definition STM32_APB2PERITH_BASE :: u32 where "STM32_APB2PERITH_BASE = 0x40010000"

text \<open>The rows are the macros \<^verbatim>\<open>STM32_USART<n>_BASE\<close>, \<^verbatim>\<open>_DMA_BASE\<close>, \<^verbatim>\<open>_IRQ\<close> and \<^verbatim>\<open>_DMA_IRQ\<close> of the eight ports.\<close>

definition stm32_usart_base :: "u32 list" where
  "stm32_usart_base = [STM32_APB2PERITH_BASE + 0x1000, STM32_APB1PERITH_BASE + 0x4400, STM32_APB1PERITH_BASE + 0x4800,
     STM32_APB1PERITH_BASE + 0x4C00, STM32_APB1PERITH_BASE + 0x5000, STM32_APB2PERITH_BASE + 0x1400,
     STM32_APB1PERITH_BASE + 0x7800, STM32_APB1PERITH_BASE + 0x7C00]"

definition stm32_usart_dma_base :: "u32 list" where
  "stm32_usart_dma_base = [STM32_DMA2_BASE, STM32_DMA1_BASE, STM32_DMA1_BASE, STM32_DMA1_BASE, STM32_DMA1_BASE, STM32_DMA2_BASE,
     STM32_DMA1_BASE, STM32_DMA1_BASE]"

definition stm32_usart_irq :: "nat list" where
  "stm32_usart_irq = [37, 38, 39, 52, 53, 71, 82, 83]"

definition stm32_usart_dma_irq :: "nat list" where
  "stm32_usart_dma_irq = [68, 16, 12, 13, 11, 58, 14, 17]"

definition USART_PLAT_DEVICE :: "nat \<Rightarrow> platform_device" where
  "USART_PLAT_DEVICE uid = \<lparr>pdev_id = int uid - 1, res_mem = [stm32_usart_base ! (uid - 1), stm32_usart_dma_base ! (uid - 1)],
     res_irq = [stm32_usart_irq ! (uid - 1), stm32_usart_dma_irq ! (uid - 1)]\<rparr>"

text \<open>The clock register of a port: whether it is \<^verbatim>\<open>apb2enr\<close> (the others are in \<^verbatim>\<open>apb1enr\<close>), and the bit.\<close>

definition stm32_uart_rcc_enr_ofs :: "bool list" where
  "stm32_uart_rcc_enr_ofs = [True, False, False, False, False, True, False, False]"

definition stm32_uart_rcc_enr_msk :: "u32 list" where
  "stm32_uart_rcc_enr_msk = [push_bit 4 1, push_bit 17 1, push_bit 18 1, push_bit 19 1, push_bit 20 1, push_bit 5 1, push_bit 30 1, push_bit 31 1]"

definition usart_init_clocks_and_register :: "nat \<Rightarrow> soc \<times> platform_device list \<Rightarrow> soc \<times> platform_device list" where
  "usart_init_clocks_and_register uid st =
     (let (s, devs) = st; r = rcc s; m = stm32_uart_rcc_enr_msk ! (uid - 1);
          r = (if stm32_uart_rcc_enr_ofs ! (uid - 1) then r\<lparr>rcc_apb2enr := rcc_apb2enr r OR m\<rparr> else r\<lparr>rcc_apb1enr := rcc_apb1enr r OR m\<rparr>);
          r = r\<lparr>rcc_ahb1enr := rcc_ahb1enr r OR push_bit (if stm32_usart_dma_base ! (uid - 1) = STM32_DMA1_BASE
                 then STM32_RCC_AHB1ENR_DMA1_MSK else STM32_RCC_AHB1ENR_DMA2_MSK) 1\<rparr>
      in (s\<lparr>rcc := r\<rparr>, devs @ [USART_PLAT_DEVICE uid]))"

definition usart_configs :: "config list" where
  "usart_configs = [CONFIG_STM32_USART1, CONFIG_STM32_USART2, CONFIG_STM32_USART3, CONFIG_STM32_USART4,
     CONFIG_STM32_USART5, CONFIG_STM32_USART6, CONFIG_STM32_USART7, CONFIG_STM32_USART8]"

definition stm32_uart_init :: "kconfig \<Rightarrow> soc \<Rightarrow> soc \<times> platform_device list" where
  "stm32_uart_init cfg s =
     fold (\<lambda>uid st. if cfg (usart_configs ! (uid - 1)) then usart_init_clocks_and_register uid st else st) [1..<9] (s, [])"

section \<open>Probing\<close>

definition stm32_usart_rx_dma :: "(nat \<times> nat) list" where
  "stm32_usart_rx_dma = [(5, 4), (5, 4), (1, 4), (2, 4), (0, 4), (2, 5), (3, 5), (6, 5)]"

text \<open>The first port without address; \<open>STM32_NR_UARTS\<close> if there is none.\<close>

definition first_free_port :: "(nat \<Rightarrow> uart) \<Rightarrow> nat" where
  "first_free_port ports = length (takeWhile (\<lambda>i. mapbase (uport (ports i)) \<noteq> 0) [0..<STM32_NR_UARTS])"

text \<open>The fields that the probe fills before it registers the port.\<close>

definition port_fill :: "nat \<Rightarrow> u32 \<Rightarrow> u32 \<Rightarrow> nat \<Rightarrow> nat \<Rightarrow> uart \<Rightarrow> uart" where
  "port_fill i ureg dreg uirq dirq u =
     (let (stream, chan) = stm32_usart_rx_dma ! i in
      upd_uport (\<lambda>p. p\<lparr>port_irq := uirq, port_flags := upf_msk UPF_BOOT_AUTOCONF, port_line := i, mapbase := ureg, private_data := True\<rparr>)
        (upd_upriv (\<lambda>p. p\<lparr>reg_usart_base := ureg, usart_irq := uirq, reg_dma_base := dreg, dma_irq := dirq,
           ini_stream := stream, ini_chan := chan, dma_hi := \<not> stream \<le> 3\<rparr>) u))"

text \<open>\<open>add\<close> is \<^verbatim>\<open>uart_add_one_port\<close>. The third result is the driver data of the device, the number of its port.\<close>

definition stm32_probe :: "(uart \<Rightarrow> int \<times> uart) \<Rightarrow> platform_device \<Rightarrow> (nat \<Rightarrow> uart) \<Rightarrow> int \<times> (nat \<Rightarrow> uart) \<times> nat option" where
  "stm32_probe add pdev ports =
     (if pdev_id pdev \<ge> int STM32_NR_UARTS then (- EINVAL, ports, None)
      else
        (let i = (if pdev_id pdev < 0 then first_free_port ports else nat (pdev_id pdev)) in
         if i = STM32_NR_UARTS then (- EBUSY, ports, None)
         else case (get_resource (res_mem pdev) 0, get_resource (res_mem pdev) 1, get_resource (res_irq pdev) 0, get_resource (res_irq pdev) 1) of
           (Some ureg, Some dreg, Some uirq, Some dirq) \<Rightarrow>
             if mapbase (uport (ports i)) \<noteq> 0 \<and> mapbase (uport (ports i)) \<noteq> ureg then (- EBUSY, ports, None)
             else
               (let (rv, u) = add (port_fill i ureg dreg uirq dirq (ports i))
                in if rv \<noteq> 0
                   then (rv, ports(i := upd_upriv (\<lambda>p. p\<lparr>reg_usart_base := 0, reg_dma_base := 0\<rparr>) u), None)
                   else (0, ports(i := u), Some i))
         | _ \<Rightarrow> (- ENODEV, ports, None)))"

text \<open>\<open>remove\<close> is \<^verbatim>\<open>uart_remove_one_port\<close>.\<close>

definition stm32_release :: "(uart \<Rightarrow> int \<times> uart) \<Rightarrow> nat option \<Rightarrow> (nat \<Rightarrow> uart) \<Rightarrow> int \<times> (nat \<Rightarrow> uart)" where
  "stm32_release remove data ports =
     (case data of
        None \<Rightarrow> (0, ports)
      | Some i \<Rightarrow>
          (let (rv, u) = remove (ports i);
               u = (if private_data (uport u) then upd_upriv (\<lambda>p. p\<lparr>reg_usart_base := 0, reg_dma_base := 0\<rparr>) u else u)
           in (rv, ports(i := u))))"

end
