(* ===== verification/Uart_Tx.thy ===== *)
theory Uart_Tx
  imports Uart Dataflow
begin

text \<open>
  The transmit path of a serial port: the ring of the serial core is a queue of at most 4095 characters, the driver takes the
  characters out of it in order, and its transmit interrupt goes on until the ring is empty.
\<close>

section \<open>The ring as a queue\<close>

text \<open>\<open>n\<close> characters of a page from position \<open>t\<close> on, around the end of the page.\<close>

definition ring :: "'a list \<Rightarrow> nat \<Rightarrow> nat \<Rightarrow> 'a list" where
  "ring page t n = map (\<lambda>i. page ! ((t + i) mod length page)) [0 ..< n]"

lemma length_ring [simp]: "length (ring page t n) = n"
  by (simp add: ring_def)

lemma ring_Suc: "ring page t (Suc n) = page ! (t mod length page) # ring page (Suc t mod length page) n"
proof (rule nth_equalityI)
  fix i assume i: "i < length (ring page t (Suc n))"
  show "ring page t (Suc n) ! i = (page ! (t mod length page) # ring page (Suc t mod length page) n) ! i"
  proof (cases i)
    case (Suc j)
    have "(t + Suc j) mod length page = (Suc t mod length page + j) mod length page"
      by (simp add: mod_add_left_eq)
    then show ?thesis using i Suc by (simp add: ring_def nth_Cons del: upt_Suc)
  qed (simp add: ring_def del: upt_Suc)
qed simp

lemma ring_append:
  assumes N: "length page = N" "n + length bs < N" and h: "h = (t + n) mod N" "h + length bs \<le> N"
  shows "ring (take h page @ bs @ drop (h + length bs) page) t (n + length bs) = ring page t n @ bs"
proof (rule nth_equalityI)
  let ?page = "take h page @ bs @ drop (h + length bs) page"
  have len: "length ?page = N" using N h by simp
  fix i assume i: "i < length (ring ?page t (n + length bs))"
  define j where "j = (t + i) mod N"
  have j: "j < N" using N by (simp add: j_def)
  have at: "ring ?page t (n + length bs) ! i = ?page ! j" using i len by (simp add: ring_def j_def del: length_append length_take length_drop)
  show "ring ?page t (n + length bs) ! i = (ring page t n @ bs) ! i"
  proof (cases "i < n")
    case True
    have "j < h \<or> h + length bs \<le> j"
    proof (rule ccontr)
      assume "\<not> ?thesis"
      then have "h \<le> j" "j - h < length bs" by auto
      define m where "m = j - h"
      have m: "j = h + m" "m < length bs" using \<open>h \<le> j\<close> \<open>j - h < length bs\<close> by (auto simp: m_def)
      have "(t + i) mod N = (t + (n + m)) mod N"
        using m(1) j by (metis add.assoc h(1) j_def mod_add_left_eq mod_less)
      then show False using mod_add_inj [of t i N "n + m"] True m(2) N(2) by simp
    qed
    then have "?page ! j = page ! j" using N(1) h(2) j by (auto simp: nth_append)
    then show ?thesis using True at by (simp add: ring_def nth_append N(1) j_def)
  next
    case False
    define m where "m = i - n"
    have m: "i = n + m" "m < length bs" using False i by (auto simp: m_def)
    have "j = (h + m) mod N" by (simp add: j_def m(1) h(1) mod_add_left_eq add.assoc)
    then have "j = h + m" using m(2) h(2) by simp
    then show ?thesis using at m N(1) h(2) by (simp add: nth_append)
  qed
qed simp

lemma ring_put:
  assumes "length page = N" "Suc n < N" "h = (t + n) mod N"
  shows "ring (page[h := c]) t (Suc n) = ring page t n @ [c]"
proof -
  have h: "h < N" using assms by simp
  then have "page[h := c] = take h page @ [c] @ drop (h + length [c]) page"
    using assms(1) by (simp add: upd_conv_take_nth_drop)
  then show ?thesis using ring_append [of page N n "[c]" h t] assms h by simp
qed

definition circ_ok :: "circ_buf \<Rightarrow> bool" where
  "circ_ok c \<longleftrightarrow> (case cb_buf c of None \<Rightarrow> False | Some page \<Rightarrow> length page = 4096)
     \<and> 0 \<le> cb_head c \<and> cb_head c < 4096 \<and> 0 \<le> cb_tail c \<and> cb_tail c < 4096"

definition circ_len :: "int \<Rightarrow> int \<Rightarrow> nat" where
  "circ_len head tail = nat ((head - tail) mod 4096)"

definition circ_list :: "circ_buf \<Rightarrow> u8 list" where
  "circ_list c = ring (the (cb_buf c)) (nat (cb_tail c)) (circ_len (cb_head c) (cb_tail c))"

lemma and_4095 [simp]: "(x :: int) AND (UART_XMIT_SIZE - 1) = x mod 4096"
proof -
  have "(4095 :: int) = mask 12" by (simp add: mask_eq_exp_minus_1)
  then have "x AND 4095 = take_bit 12 x" by (simp only: take_bit_eq_mask)
  then show ?thesis by (simp add: UART_XMIT_SIZE_def take_bit_eq_mod)
qed

lemma circ_len_le: "circ_len head tail \<le> 4095"
  using pos_mod_bound [of 4096 "head - tail"] by (simp add: circ_len_def)

lemma int_circ_len: "int (circ_len head tail) = (head - tail) mod 4096"
  by (simp add: circ_len_def)

lemma circ_head:
  assumes "0 \<le> head" "head < 4096" "0 \<le> tail" "tail < 4096"
  shows "nat head = (nat tail + circ_len head tail) mod 4096"
proof -
  have "int ((nat tail + circ_len head tail) mod 4096) = (tail + (head - tail) mod 4096) mod 4096"
    using assms by (simp add: of_nat_mod int_circ_len)
  also have "\<dots> = head" using assms by (simp add: mod_add_right_eq)
  finally show ?thesis by simp
qed

lemma circ_len_add:
  assumes "circ_len head tail + c \<le> 4095"
  shows "circ_len ((head + int c) mod 4096) tail = circ_len head tail + c"
proof -
  have "((head + int c) mod 4096 - tail) mod 4096 = (int c + (head - tail)) mod 4096"
    by (simp add: mod_diff_left_eq algebra_simps)
  also have "\<dots> = (int c + (head - tail) mod 4096) mod 4096" by (simp only: mod_add_right_eq)
  also have "\<dots> = int (circ_len head tail + c)"
    using assms by (simp add: int_circ_len [symmetric])
  finally show ?thesis by (simp add: circ_len_def)
qed

lemma free_mod: "(tail - (head + 1)) mod 4096 = 4095 - int (circ_len head tail)"
proof -
  have "(tail - (head + 1)) mod 4096 = (4095 - (head - tail) - 4096) mod 4096" by (simp add: algebra_simps)
  also have "\<dots> = (4095 - (head - tail) mod 4096) mod 4096" by (simp only: minus_mod_self2 mod_diff_right_eq)
  also have "\<dots> = 4095 - int (circ_len head tail)"
    using circ_len_le [of head tail] unfolding int_circ_len [of head tail, symmetric] by simp
  finally show ?thesis .
qed

lemma chars_free: "CIRC_SPACE head tail UART_XMIT_SIZE = 4095 - int (circ_len head tail)"
  by (simp add: CIRC_SPACE_def CIRC_CNT_def free_mod)

lemma space_to_end:
  assumes "0 \<le> head" "head < 4096"
  shows "CIRC_SPACE_TO_END head tail UART_XMIT_SIZE = min (4095 - int (circ_len head tail)) (4096 - head)"
proof -
  have "(UART_XMIT_SIZE - 1 - head + tail) mod 4096 = (tail - (head + 1) + 4096) mod 4096"
    by (simp add: UART_XMIT_SIZE_def algebra_simps)
  then have "(UART_XMIT_SIZE - 1 - head + tail) mod 4096 = 4095 - int (circ_len head tail)"
    by (simp only: mod_add_self2 free_mod)
  then show ?thesis using assms by (simp add: CIRC_SPACE_TO_END_def Let_def) (simp add: UART_XMIT_SIZE_def)
qed

text \<open>Writing appends as many characters as there is room for.\<close>

lemma circ_write_spec:
  assumes "length page = 4096" "0 \<le> head" "head < 4096" "0 \<le> tail" "tail < 4096"
    and "circ_write bs page head tail = (page', head', rest)"
  shows "length page' = 4096 \<and> 0 \<le> head' \<and> head' < 4096 \<and> rest = length bs - (4095 - circ_len head tail)
    \<and> ring page' (nat tail) (circ_len head' tail) = ring page (nat tail) (circ_len head tail) @ take (4095 - circ_len head tail) bs"
  using assms
proof (induction bs page head tail arbitrary: page' head' rest rule: circ_write.induct)
  case (1 bs page head tail)
  define n where "n = circ_len head tail"
  define c where "c = min (length bs) (min (4095 - n) (4096 - nat head))"
  have n: "n \<le> 4095" by (simp add: n_def circ_len_le)
  have c: "(let c = CIRC_SPACE_TO_END head tail UART_XMIT_SIZE in if int (length bs) < c then int (length bs) else c) = int c"
  proof -
    have "CIRC_SPACE_TO_END head tail UART_XMIT_SIZE = int (min (4095 - n) (4096 - nat head))"
      using 1(3,4) n by (simp add: space_to_end n_def [symmetric] of_nat_diff nat_le_iff)
    then show ?thesis by (auto simp: c_def Let_def min_def)
  qed
  have cw: "circ_write bs page head tail = (if c = 0 then (page, head, length bs)
      else circ_write (drop c bs) (take (nat head) page @ take c bs @ drop (nat head + c) page) ((head + int c) mod 4096) tail)"
    using c by (subst circ_write.simps) (simp add: Let_def)
  show ?case
  proof (cases "c = 0")
    case True
    then have "bs = [] \<or> n = 4095" using 1(3,4) n by (auto simp: c_def min_def split: if_splits)
    then show ?thesis using 1(2-7) cw True by (auto simp: n_def)
  next
    case False
    let ?page = "take (nat head) page @ take c bs @ drop (nat head + c) page"
    have lc: "length (take c bs) = c" by (simp add: c_def)
    have len: "length ?page = 4096" using 1(2-4) lc by (simp add: c_def)
    have nc: "n + c \<le> 4095" using n by (simp add: c_def)
    have "c \<le> 4096 - nat head" by (simp add: c_def)
    then have hc: "nat head + c \<le> 4096" "n + c < 4096" using 1(3,4) nc by linarith+
    have r: "ring ?page (nat tail) (n + c) = ring page (nat tail) n @ take c bs"
      by (rule ring_append [OF 1(2), of n "take c bs" "nat head" "nat tail", unfolded lc, OF hc(2) circ_head [OF 1(3-6), folded n_def] hc(1)])
    have cl: "circ_len ((head + int c) mod 4096) tail = n + c" using circ_len_add [of head tail c] nc by (simp add: n_def)
    have t: "take (4095 - n) bs = take c bs @ take (4095 - (n + c)) (drop c bs)"
      using nc take_add [of c "4095 - (n + c)" bs] by simp
    have cw': "circ_write (drop c bs) ?page ((head + int c) mod 4096) tail = (page', head', rest)" using 1(7) cw False by simp
    have "length page' = 4096 \<and> 0 \<le> head' \<and> head' < 4096 \<and> rest = length (drop c bs) - (4095 - (n + c))
      \<and> ring page' (nat tail) (circ_len head' tail) = ring ?page (nat tail) (n + c) @ take (4095 - (n + c)) (drop c bs)"
      using 1(1) [OF refl c [unfolded Let_def, symmetric], unfolded nat_int and_4095 cl, OF _ len _ _ 1(5,6) cw'] False by simp
    then show ?thesis using r t nc by (simp add: n_def [symmetric])
  qed
qed

lemma circ_cases:
  assumes "circ_ok c"
  obtains page where "cb_buf c = Some page" "length page = 4096"
  using assms by (auto simp: circ_ok_def split: option.splits)

lemma circ_list_length: "length (circ_list c) = circ_len (cb_head c) (cb_tail c)"
  by (simp add: circ_list_def)

lemma circ_empty_iff: "circ_ok c \<Longrightarrow> uart_circ_empty c \<longleftrightarrow> circ_list c = []"
  using circ_list_length [of c] circ_head [of "cb_head c" "cb_tail c"]
  by (auto simp: circ_ok_def uart_circ_empty_def circ_len_def)

lemma circ_room: "uart_circ_chars_free c = 4095 - int (length (circ_list c))"
  by (simp add: uart_circ_chars_free_def chars_free circ_list_length)

lemma circ_pending: "uart_circ_chars_pending c = int (length (circ_list c))"
  by (simp add: uart_circ_chars_pending_def CIRC_CNT_def circ_list_length int_circ_len)

lemma circ_room_nonneg: "length (circ_list c) \<le> 4095"
  by (simp add: circ_list_length circ_len_le)

lemma circ_take:
  assumes "circ_ok c" "\<not> uart_circ_empty c"
  defines "c' \<equiv> c\<lparr>cb_tail := (cb_tail c + 1) AND (UART_XMIT_SIZE - 1)\<rparr>"
  shows "circ_ok c'" "circ_list c = the (cb_buf c) ! nat (cb_tail c) # circ_list c'"
proof -
  obtain page where p: "cb_buf c = Some page" "length page = 4096" using circ_cases [OF assms(1)] .
  have t: "0 \<le> cb_tail c" "cb_tail c < 4096" "0 \<le> cb_head c" "cb_head c < 4096" using assms(1) by (auto simp: circ_ok_def)
  show "circ_ok c'" using p t by (simp add: circ_ok_def c'_def)
  have "circ_len (cb_head c) (cb_tail c) \<noteq> 0"
    using circ_empty_iff [OF assms(1)] assms(2) circ_list_length [of c] by (metis length_0_conv)
  then obtain n where n: "circ_len (cb_head c) (cb_tail c) = Suc n" using not0_implies_Suc by blast
  have "(cb_head c - (cb_tail c + 1) mod 4096) mod 4096 = (cb_head c - cb_tail c - 1) mod 4096"
    by (simp add: mod_diff_right_eq algebra_simps)
  also have "\<dots> = ((cb_head c - cb_tail c) mod 4096 - 1) mod 4096" by (simp only: mod_diff_left_eq)
  also have "\<dots> = int n" using n int_circ_len [of "cb_head c" "cb_tail c"] circ_len_le [of "cb_head c" "cb_tail c"] by simp
  finally have n': "circ_len (cb_head c) ((cb_tail c + 1) mod 4096) = n" by (simp add: circ_len_def)
  have "nat ((cb_tail c + 1) mod 4096) = Suc (nat (cb_tail c)) mod 4096" using t by (simp add: nat_mod_distrib Suc_nat_eq_nat_zadd1 add.commute)
  then show "circ_list c = the (cb_buf c) ! nat (cb_tail c) # circ_list c'"
    using n n' p t by (simp add: circ_list_def c'_def ring_Suc)
qed

lemma circ_put:
  fixes ch :: u8
  assumes "circ_ok c" "cb_buf c = Some page" "uart_circ_chars_free c \<noteq> 0"
  defines "c' \<equiv> c\<lparr>cb_buf := Some (page[nat (cb_head c) := ch]), cb_head := (cb_head c + 1) AND (UART_XMIT_SIZE - 1)\<rparr>"
  shows "circ_ok c'" "circ_list c' = circ_list c @ [ch]"
proof -
  let ?n = "circ_len (cb_head c) (cb_tail c)"
  have t: "0 \<le> cb_tail c" "cb_tail c < 4096" "0 \<le> cb_head c" "cb_head c < 4096" "length page = 4096"
    using assms(1,2) by (auto simp: circ_ok_def)
  show "circ_ok c'" using t by (simp add: circ_ok_def c'_def)
  have n: "?n + 1 \<le> 4095" using assms(3) circ_room_nonneg [of c] by (simp add: circ_room circ_list_length)
  have r: "ring (page[nat (cb_head c) := ch]) (nat (cb_tail c)) (Suc ?n) = ring page (nat (cb_tail c)) ?n @ [ch]"
    by (rule ring_put [OF t(5) _ circ_head [OF t(3,4,1,2)]]) (use n in simp)
  have l: "circ_len ((cb_head c + 1) mod 4096) (cb_tail c) = Suc ?n" using circ_len_add [OF n] by simp
  show "circ_list c' = circ_list c @ [ch]" unfolding circ_list_def c'_def and_4095 by (simp add: assms(2) l r)
qed

section \<open>The transmit path as a channel\<close>

text \<open>Receiving and what the DMA does meanwhile leave the transmit side of the port alone.\<close>

definition tx_side :: "uart \<Rightarrow> circ_buf \<times> u8 list \<times> uart_port \<times> u32 \<times> u32 \<times> bool \<times> bool" where
  "tx_side u = (xmit u, wire u, uport u, us_cr1 (uregs u), us_cr3 (uregs u), tty_stopped u, hw_stopped u)"

definition rx_only :: "(nat \<Rightarrow> uart \<Rightarrow> uart) \<Rightarrow> bool" where
  "rx_only adv \<longleftrightarrow> (\<forall>i u. tx_side (adv i u) = tx_side u)"

lemma rx_only_id: "rx_only (\<lambda>_. id)"
  by (simp add: rx_only_def)

text \<open>What the hardware keeps during the handler and the updates of the driver do not touch, the receive part keeps.\<close>

definition drv_blind :: "(uart \<Rightarrow> bool) \<Rightarrow> bool" where
  "drv_blind Q \<longleftrightarrow> (\<forall>u q f x. Q u \<longrightarrow> Q (u\<lparr>upriv := q\<rparr>) \<and> Q (u\<lparr>flip := f\<rparr>) \<and> Q (write_dma_ifcr x u))"

lemma fetch_keeps:
  assumes "drv_blind Q" "\<And>i u. Q u \<Longrightarrow> Q (adv i u)" "Q u"
  shows "Q (rx_fetch adv i u)"
  using assms(2,3)
proof (induction adv i u rule: rx_fetch.induct)
  case (1 adv i u)
  then show ?case using assms(1) by (simp add: rx_fetch.simps [of adv i u] Let_def drv_blind_def)
qed

lemma receive_keeps:
  assumes "drv_blind Q" "\<And>i u. Q u \<Longrightarrow> Q (adv i u)" "Q u"
  shows "Q (stm32_receive adv u)"
proof -
  obtain a b v where v: "rx_sample adv u = (a, b, v)" using prod_cases3 .
  then have "Q v" using assms(2,3) by (auto simp: rx_sample_def Let_def split: if_splits)
  then have "Q (adv 4 (v\<lparr>upriv := q\<rparr>))" for q using assms(1) by (intro assms(2)) (simp add: drv_blind_def)
  note f = fetch_keeps [where Q = Q and adv = adv, OF assms(1,2) this]
  obtain w q where wq: "rx_wrap a b (upriv v) = (w, q)" using prod.exhaust .
  have "Q (adv 5 (rx_fetch adv 8 (adv 4 (v\<lparr>upriv := q\<rparr>))))" by (rule assms(2) [OF f])
  moreover have "Q x \<Longrightarrow> Q (write_dma_ifcr y x)" for x y using assms(1) by (simp add: drv_blind_def)
  ultimately show ?thesis using f by (simp add: stm32_receive_def v wq Let_def)
qed

lemma receive_tx_side:
  assumes "rx_only adv"
  shows "tx_side (stm32_receive adv u) = tx_side u"
proof -
  have "drv_blind (\<lambda>v. tx_side v = tx_side u)"
    by (simp add: drv_blind_def tx_side_def write_dma_ifcr_def upd_stm32_dma_def)
  then show ?thesis by (rule receive_keeps) (use assms in \<open>simp_all add: rx_only_def\<close>)
qed

text \<open>The interrupt handler up to the transmission.\<close>

definition isr_received :: "(nat \<Rightarrow> uart \<Rightarrow> uart) \<Rightarrow> uart \<Rightarrow> uart" where
  "isr_received adv u = (if flag (us_msk STM32_USART_ISR_IDLE) (us_isr (uregs u))
     then upd_uregs (\<lambda>r. r\<lparr>us_icr := us_icr r OR us_msk STM32_USART_ICR_IDLECF\<rparr>) (stm32_receive adv (read_rdr (adv 7 u))) else u)"

lemma isr_split: "stm32_usart_isr en adv u = map_option (map_sum id (\<lambda>u. (IRQ_HANDLED, u))) (stm32_transmit en (isr_received adv u))"
  by (simp add: stm32_usart_isr_def isr_received_def Let_def)

lemma isr_tx_side:
  assumes "rx_only adv"
  shows "tx_side (isr_received adv u) = tx_side u"
proof -
  have "tx_side (read_rdr (adv 7 u)) = tx_side u" using assms by (simp add: rx_only_def) (simp add: read_rdr_def upd_uregs_def tx_side_def)
  then have "tx_side (stm32_receive adv (read_rdr (adv 7 u))) = tx_side u" using receive_tx_side [OF assms] by simp
  then show ?thesis by (auto simp: isr_received_def upd_uregs_def tx_side_def)
qed

text \<open>The invariant, and what one transmission does: no character of high priority is waiting.\<close>

definition tx_ok :: "uart \<Rightarrow> bool" where
  "tx_ok u \<longleftrightarrow> circ_ok (xmit u) \<and> x_char (uport u) = 0"

definition tx_moves :: "uart \<Rightarrow> uart \<Rightarrow> bool" where
  "tx_moves u u' \<longleftrightarrow> tx_ok u' \<and> (\<exists>ys. wire u' = wire u @ ys \<and> circ_list (xmit u) = ys @ circ_list (xmit u'))"

lemma tx_moves_refl: "tx_ok u \<Longrightarrow> tx_moves u u"
  by (simp add: tx_moves_def)

lemma xmit_char_effect:
  "stm32_xmit_char en c u = Some u' \<Longrightarrow>
    u' = u\<lparr>uregs := (uregs u)\<lparr>us_tdr := ucast c\<rparr>, wire := wire u @ [c]\<rparr> \<and> env_txe en (uregs u)"
  by (simp add: stm32_xmit_char_def upd_uregs_def split: if_splits)

lemma transmit_moves:
  assumes "tx_ok u" "stm32_transmit en u = Some (Inr u')"
  shows "tx_moves u u'"
proof (cases "uart_circ_empty (xmit u) \<or> uart_tx_stopped u")
  case True
  then show ?thesis using assms by (auto simp: stm32_transmit_def tx_ok_def tx_moves_def stm_port_stop_tx_def upd_uregs_def)
next
  case False
  have ok: "circ_ok (xmit u)" using assms(1) by (simp add: tx_ok_def)
  obtain page where p: "cb_buf (xmit u) = Some page" "length page = 4096" using circ_cases [OF ok] .
  note t = circ_take [OF ok, unfolded p option.sel]
  show ?thesis
    using assms False p t by (auto simp: stm32_transmit_def tx_ok_def tx_moves_def upd_uport_def upd_xmit_def dest!: xmit_char_effect)
qed

lemma transmit_fault: "tx_ok u \<Longrightarrow> stm32_transmit en u \<noteq> Some (Inl e)"
  by (auto simp: stm32_transmit_def tx_ok_def circ_ok_def split: option.splits if_splits)

lemma moves_side:
  assumes "tx_moves v u'" "xmit v = xmit u" "wire v = wire u"
  shows "tx_moves u u'"
  using assms by (simp add: tx_moves_def)

lemma start_tx_moves:
  assumes "tx_ok u" "stm_port_start_tx en u = Some (Inr u')"
  shows "tx_moves u u'"
proof -
  let ?v = "upd_uregs (\<lambda>r. r\<lparr>us_cr1 := us_cr1 r OR us_msk STM32_USART_CR1_TXEIE\<rparr>) u"
  have "tx_ok ?v" using assms(1) by (simp add: tx_ok_def upd_uregs_def)
  then show ?thesis using transmit_moves [of ?v en u'] assms(2) by (auto simp: stm_port_start_tx_def upd_uregs_def intro: moves_side)
qed

lemma uart_start_moves: "tx_ok u \<Longrightarrow> uart_start en u = Some (Inr u') \<Longrightarrow> tx_moves u u'"
  by (auto simp: uart_start_def tx_moves_refl dest: start_tx_moves split: if_splits)

lemma isr_moves:
  assumes "tx_ok u" "rx_only adv" "stm32_usart_isr en adv u = Some (Inr (r, u'))"
  shows "tx_moves u u'"
proof -
  define v where "v = isr_received adv u"
  have v: "xmit v = xmit u" "wire v = wire u" "uport v = uport u"
    using isr_tx_side [OF assms(2), of u] by (auto simp: v_def tx_side_def)
  have "stm32_transmit en v = Some (Inr u')"
    using assms(3) unfolding isr_split v_def [symmetric] by auto
  then show ?thesis using transmit_moves [of v en u'] assms(1) v by (auto simp: tx_ok_def intro: moves_side)
qed

text \<open>Writing: the characters that fit are queued, then the transmitter is started.\<close>

lemma uart_write_ring:
  assumes "tx_ok u"
  defines "k \<equiv> 4095 - length (circ_list (xmit u))"
  obtains v where "tx_ok v" "wire v = wire u" "uregs v = uregs u" "uart_tx_stopped v = uart_tx_stopped u"
    "circ_list (xmit v) = circ_list (xmit u) @ take k bs"
    "uart_write en bs u = map_option (map_sum id (\<lambda>u. (int (min (length bs) k), u))) (uart_start en v)"
proof -
  have ok: "circ_ok (xmit u)" using assms(1) by (simp add: tx_ok_def)
  obtain page where p: "cb_buf (xmit u) = Some page" "length page = 4096" using circ_cases [OF ok] .
  obtain page' h' rest where w: "circ_write bs page (cb_head (xmit u)) (cb_tail (xmit u)) = (page', h', rest)" using prod_cases3 .
  define v where "v = upd_xmit (\<lambda>c. c\<lparr>cb_buf := Some page', cb_head := h'\<rparr>) u"
  have sp: "length page' = 4096 \<and> 0 \<le> h' \<and> h' < 4096 \<and> rest = length bs - k \<and> circ_list (xmit v) = circ_list (xmit u) @ take k bs"
    using circ_write_spec [OF p(2) _ _ _ _ w] ok p(1)
    by (simp add: circ_ok_def k_def circ_list_length) (simp add: circ_list_def v_def upd_xmit_def)
  have n: "int (length bs) - int rest = int (min (length bs) k)" using sp by auto
  have v: "tx_ok v" using assms(1) sp ok by (auto simp: tx_ok_def circ_ok_def v_def upd_xmit_def)
  have wr: "uart_write en bs u = map_option (map_sum id (\<lambda>u. (int (min (length bs) k), u))) (uart_start en v)"
    by (simp add: uart_write_def p(1) w v_def Let_def n [symmetric])
  show thesis by (rule that [OF v _ _ _ _ wr]) (use sp in \<open>simp_all add: v_def upd_xmit_def uart_tx_stopped_def\<close>)
qed

lemma uart_write_moves:
  assumes "tx_ok u" "uart_write en bs u = Some (Inr (n, u'))"
  shows "\<exists>v. tx_ok v \<and> wire v = wire u \<and> circ_list (xmit v) = circ_list (xmit u) @ take (nat n) bs \<and> tx_moves v u'"
proof -
  obtain v where v: "tx_ok v" "wire v = wire u" "circ_list (xmit v) = circ_list (xmit u) @ take (4095 - length (circ_list (xmit u))) bs"
    "uart_write en bs u = map_option (map_sum id (\<lambda>u'. (int (min (length bs) (4095 - length (circ_list (xmit u)))), u'))) (uart_start en v)"
    by (rule uart_write_ring [OF assms(1), of bs en])
  have "n = int (min (length bs) (4095 - length (circ_list (xmit u))))" "uart_start en v = Some (Inr u')" using assms(2) v(4) by auto
  then show ?thesis using v uart_start_moves [of v en u'] by (intro exI [of _ v]) (simp add: min_def)
qed

text \<open>
  The steps of the transmit side; the second component are the characters that the port has accepted. The interrupt handler may
  come at any time, and the tty may be stopped and started.
\<close>

inductive uart_tx_step :: "usart_env \<Rightarrow> uart \<times> u8 list \<Rightarrow> uart \<times> u8 list \<Rightarrow> bool" for en where
  wr: "uart_write en bs u = Some (Inr (n, u')) \<Longrightarrow> uart_tx_step en (u, acc) (u', acc @ take (nat n) bs)"
| put: "uart_put_char c u = (n, u') \<Longrightarrow> uart_tx_step en (u, acc) (u', acc @ take (nat n) [c])"
| irq: "rx_only adv \<Longrightarrow> stm32_usart_isr en adv u = Some (Inr (r, u')) \<Longrightarrow> uart_tx_step en (u, acc) (u', acc)"
| dma: "rx_only adv \<Longrightarrow> uart_tx_step en (u, acc) (snd (usart_dma_isr adv u), acc)"
| start: "uart_start en u = Some (Inr u') \<Longrightarrow> uart_tx_step en (u, acc) (u', acc)"
| stop: "uart_tx_step en (u, acc) (uart_stop (u\<lparr>tty_stopped := True\<rparr>), acc)"
| unstop: "uart_tx_step en (u, acc) (u\<lparr>tty_stopped := False\<rparr>, acc)"

lemma tx_step_flow:
  assumes "uart_tx_step en s s'" "tx_ok (fst s)"
  shows "tx_ok (fst s') \<and> (\<exists>xs ys. snd s' = snd s @ xs \<and> wire (fst s') = wire (fst s) @ ys
    \<and> circ_list (xmit (fst s)) @ xs = ys @ circ_list (xmit (fst s')))"
  using assms
proof (cases rule: uart_tx_step.cases)
  case (wr bs u n u' acc)
  then show ?thesis using uart_write_moves [of u en bs n u'] assms(2) by (fastforce simp: tx_moves_def)
next
  case (put c u n u' acc)
  have ok: "circ_ok (xmit u)" "x_char (uport u) = 0" using assms(2) put by (simp_all add: tx_ok_def)
  obtain page where p: "cb_buf (xmit u) = Some page" "length page = 4096" using circ_cases [OF ok(1)] .
  show ?thesis using put ok circ_put [OF ok(1) p(1), of c] by (auto simp: uart_put_char_def p(1) tx_ok_def upd_xmit_def split: if_splits)
next
  case (irq adv u r u' acc)
  then show ?thesis using isr_moves [of u adv en r u'] assms(2) by (auto simp: tx_moves_def)
next
  case (dma adv u acc)
  then show ?thesis using receive_tx_side [of adv u] assms(2) by (auto simp: usart_dma_isr_def tx_side_def tx_ok_def)
next
  case (start u u' acc)
  then show ?thesis using uart_start_moves [of u en u'] assms(2) by (auto simp: tx_moves_def)
qed (use assms(2) in \<open>auto simp: uart_stop_def stm_port_stop_tx_def upd_uregs_def tx_ok_def\<close>)

interpretation utx: channel "uart_tx_step en" "\<lambda>s. tx_ok (fst s)" "\<lambda>s. pre @ snd s" "\<lambda>s. circ_list (xmit (fst s))" "\<lambda>s. wire (fst s)" for en pre
  by unfold_locales (use tx_step_flow in \<open>fastforce+\<close>)

text \<open>C4. The transmit path of a serial port is a queue: however calls of the tty layer (writing strings and single characters,
  stopping and starting) and interrupts interleave, the characters that were sent followed by those still in the ring are
  the characters that were there at the start followed by those the port accepted since, in order; nothing is lost, doubled or
  reordered, also around the end of the page.\<close>

theorem uart_tx_fifo:
  assumes "(uart_tx_step en)\<^sup>*\<^sup>* (u, []) (u', acc)" "tx_ok u"
  shows "wire u' @ circ_list (xmit u') = wire u @ circ_list (xmit u) @ acc"
  using utx.steps_fifo [OF assms(1), where pre = "wire u @ circ_list (xmit u)"] assms(2) by simp

lemma ex_uart_ok: "tx_ok ex_uart" "circ_list (xmit ex_uart) = []" "wire ex_uart = []"
  by (simp_all add: tx_ok_def circ_ok_def circ_list_def circ_len_def ex_uart_def ring_def)

theorem uart_tx_fifo_witness:
  "let u1 = snd (uart_put_char 65 ex_uart); u2 = uart_stop (u1\<lparr>tty_stopped := True\<rparr>); u3 = snd (uart_put_char 66 u2)
   in wire u3 @ circ_list (xmit u3) = [65, 66]"
proof -
  define u1 where "u1 = snd (uart_put_char 65 ex_uart)"
  define u2 where "u2 = uart_stop (u1\<lparr>tty_stopped := True\<rparr>)"
  define u3 where "u3 = snd (uart_put_char 66 u2)"
  have n: "fst (uart_put_char 65 ex_uart) = 1" "fst (uart_put_char 66 u2) = 1"
    by (simp_all add: u2_def u1_def uart_put_char_def uart_stop_def stm_port_stop_tx_def upd_xmit_def upd_uregs_def ex_uart_def
        uart_circ_chars_free_def CIRC_SPACE_def CIRC_CNT_def UART_XMIT_SIZE_def)
  have "uart_tx_step ex_usart_env (ex_uart, []) (u1, [65])"
    using uart_tx_step.put [of 65 ex_uart 1 u1 ex_usart_env "[]"] n by (simp add: u1_def prod_eq_iff)
  moreover have "uart_tx_step ex_usart_env (u1, [65]) (u2, [65])" unfolding u2_def by (rule uart_tx_step.stop)
  moreover have "uart_tx_step ex_usart_env (u2, [65]) (u3, [65, 66])"
    using uart_tx_step.put [of 66 u2 1 u3 ex_usart_env "[65]"] n by (simp add: u3_def prod_eq_iff)
  ultimately have "(uart_tx_step ex_usart_env)\<^sup>*\<^sup>* (ex_uart, []) (u3, [65, 66])" by (meson rtranclp.rtrancl_refl rtranclp.rtrancl_into_rtrancl)
  from uart_tx_fifo [OF this ex_uart_ok(1)] show ?thesis by (simp add: u3_def u2_def u1_def ex_uart_ok Let_def)
qed

section \<open>Everything written is sent\<close>

text \<open>
  Documented behaviour of the transmitter: while the USART and its transmitter are on and it does not wait for the other
  side (CTS), the transmit register becomes empty.
\<close>

definition tx_enabled :: "usart_regs \<Rightarrow> bool" where
  "tx_enabled r \<longleftrightarrow> flag (us_msk STM32_USART_CR1_TE) (us_cr1 r) \<and> flag (us_msk STM32_USART_CR1_UE) (us_cr1 r)
     \<and> \<not> flag (us_msk STM32_USART_CR3_CTSE) (us_cr3 r)"

definition txe_documented :: "usart_env \<Rightarrow> bool" where
  "txe_documented en \<longleftrightarrow> (\<forall>r. tx_enabled r \<longrightarrow> env_txe en r)"

definition txeie :: "uart \<Rightarrow> bool" where
  "txeie u \<longleftrightarrow> flag (us_msk STM32_USART_CR1_TXEIE) (us_cr1 (uregs u))"

definition tx_on :: "uart \<Rightarrow> bool" where
  "tx_on u \<longleftrightarrow> tx_ok u \<and> tx_enabled (uregs u) \<and> \<not> uart_tx_stopped u"

lemma flag_push: "flag (push_bit k 1) (x :: u32) \<longleftrightarrow> bit x k"
  by (simp add: flag_def and_exp_eq_0_iff_not_bit push_bit_eq_mult)

lemma us_flags [simp]:
  "flag (us_msk STM32_USART_CR1_TE) x \<longleftrightarrow> bit x 3" "flag (us_msk STM32_USART_CR1_UE) x \<longleftrightarrow> bit x 0"
  "flag (us_msk STM32_USART_CR1_TXEIE) x \<longleftrightarrow> bit x 7" "flag (us_msk STM32_USART_CR3_CTSE) x \<longleftrightarrow> bit x 9"
  "flag (us_msk STM32_USART_ISR_IDLE) x \<longleftrightarrow> bit x 4" "flag STM32_USART_ISR_TXE x \<longleftrightarrow> bit x 7"
  by (simp_all only: us_msk.simps STM32_USART_ISR_TXE_def flag_push)

lemma txeie_bits:
  "bit (x OR us_msk STM32_USART_CR1_TXEIE) n \<longleftrightarrow> bit x n \<or> n = 7"
  "bit (x AND NOT (us_msk STM32_USART_CR1_TXEIE)) n \<longleftrightarrow> n \<noteq> 7 \<and> bit x n"
  by (simp_all only: us_msk.simps bit_or_bit bit_clear_bit) simp

lemma side_tx_on:
  assumes "tx_side v = tx_side u"
  shows "tx_on v = tx_on u" "txeie v = txeie u" "xmit v = xmit u" "wire v = wire u"
  using assms by (simp_all add: tx_side_def tx_on_def txeie_def tx_enabled_def tx_ok_def uart_tx_stopped_def)

lemma transmit_live:
  assumes "txe_documented en" "tx_on u"
  shows "\<exists>u'. stm32_transmit en u = Some (Inr u') \<and> tx_on u' \<and>
    (if circ_list (xmit u) = [] then wire u' = wire u \<and> circ_list (xmit u') = [] \<and> \<not> txeie u'
     else wire u' @ circ_list (xmit u') = wire u @ circ_list (xmit u)
       \<and> length (circ_list (xmit u')) = length (circ_list (xmit u)) - 1 \<and> txeie u' = txeie u)"
proof -
  have ok: "circ_ok (xmit u)" "x_char (uport u) = 0" "\<not> uart_tx_stopped u" and txe: "env_txe en (uregs u)"
    using assms by (auto simp: tx_on_def tx_ok_def txe_documented_def)
  show ?thesis
  proof (cases "uart_circ_empty (xmit u)")
    case True
    then have "stm32_transmit en u = Some (Inr (stm_port_stop_tx u))" using ok by (simp add: stm32_transmit_def)
    then show ?thesis using True circ_empty_iff [OF ok(1)] assms(2)
      by (simp add: stm_port_stop_tx_def upd_uregs_def tx_on_def tx_ok_def tx_enabled_def txeie_def txeie_bits uart_tx_stopped_def)
  next
    case False
    obtain page where p: "cb_buf (xmit u) = Some page" "length page = 4096" using circ_cases [OF ok(1)] .
    show ?thesis using False ok txe assms(2) circ_empty_iff [OF ok(1)] circ_take [OF ok(1) False, unfolded p option.sel]
      by (simp add: stm32_transmit_def p stm32_xmit_char_def upd_uregs_def upd_uport_def upd_xmit_def tx_on_def tx_ok_def
          tx_enabled_def txeie_def uart_tx_stopped_def)
  qed
qed

text \<open>Interrupts of the port, each with the environment in between; the transmitter only raises them while it is allowed to.\<close>

primrec tx_irqs :: "usart_env \<Rightarrow> (nat \<Rightarrow> nat \<Rightarrow> uart \<Rightarrow> uart) \<Rightarrow> nat \<Rightarrow> uart \<Rightarrow> (fault + uart) option" where
  "tx_irqs en adv 0 u = Some (Inr u)"
| "tx_irqs en adv (Suc n) u =
     (let u = adv n 6 u in
      if txeie u then run_then (stm32_usart_isr en (adv n) u) (\<lambda>(r, u). tx_irqs en adv n u) else tx_irqs en adv n u)"

lemma isr_live:
  assumes "txe_documented en" "tx_on u" "rx_only adv"
  shows "\<exists>u'. stm32_usart_isr en adv u = Some (Inr (IRQ_HANDLED, u')) \<and> tx_on u' \<and>
    (if circ_list (xmit u) = [] then wire u' = wire u \<and> circ_list (xmit u') = [] \<and> \<not> txeie u'
     else wire u' @ circ_list (xmit u') = wire u @ circ_list (xmit u)
       \<and> length (circ_list (xmit u')) = length (circ_list (xmit u)) - 1 \<and> txeie u' = txeie u)"
proof -
  define v where "v = isr_received adv u"
  have v: "tx_side v = tx_side u" using isr_tx_side [OF assms(3)] by (simp add: v_def)
  note s = side_tx_on [OF v]
  obtain u' where u': "stm32_transmit en v = Some (Inr u') \<and> tx_on u' \<and>
    (if circ_list (xmit v) = [] then wire u' = wire v \<and> circ_list (xmit u') = [] \<and> \<not> txeie u'
     else wire u' @ circ_list (xmit u') = wire v @ circ_list (xmit v)
       \<and> length (circ_list (xmit u')) = length (circ_list (xmit v)) - 1 \<and> txeie u' = txeie v)"
    using transmit_live [OF assms(1), of v] assms(2) s(1) by blast
  have "stm32_usart_isr en adv u = Some (Inr (IRQ_HANDLED, u'))"
    unfolding isr_split v_def [symmetric] using u' by simp
  then show ?thesis using u' unfolding s by blast
qed

lemma tx_irqs_idle:
  assumes "\<And>k. rx_only (adv k)" "\<not> txeie u"
  shows "\<exists>u'. tx_irqs en adv n u = Some (Inr u') \<and> tx_side u' = tx_side u"
  using assms(2)
proof (induction n arbitrary: u)
  case (Suc n)
  have s: "tx_side (adv n 6 u) = tx_side u" using assms(1) by (simp add: rx_only_def)
  have "\<not> txeie (adv n 6 u)" using side_tx_on(2) [OF s] Suc.prems by simp
  then show ?case using Suc.IH [of "adv n 6 u"] s by (auto simp: Let_def)
qed simp

lemma tx_irqs_drain:
  assumes "\<And>k. rx_only (adv k)" "txe_documented en" "tx_on u" "txeie u" "length (circ_list (xmit u)) < n"
  shows "\<exists>u'. tx_irqs en adv n u = Some (Inr u') \<and> wire u' = wire u @ circ_list (xmit u) \<and> circ_list (xmit u') = [] \<and> \<not> txeie u'"
  using assms(3-)
proof (induction n arbitrary: u)
  case (Suc n)
  let ?v = "adv n 6 u"
  have s: "tx_side ?v = tx_side u" using assms(1) by (simp add: rx_only_def)
  note s = side_tx_on [OF s]
  obtain w where w: "stm32_usart_isr en (adv n) ?v = Some (Inr (IRQ_HANDLED, w))" "tx_on w"
    "if circ_list (xmit u) = [] then wire w = wire u \<and> circ_list (xmit w) = [] \<and> \<not> txeie w
     else wire w @ circ_list (xmit w) = wire u @ circ_list (xmit u)
       \<and> length (circ_list (xmit w)) = length (circ_list (xmit u)) - 1 \<and> txeie w = txeie u"
    using isr_live [OF assms(2) _ assms(1), of ?v n] Suc.prems(1) unfolding s by blast
  have step: "tx_irqs en adv (Suc n) u = tx_irqs en adv n w" using w(1) s Suc.prems(2) by (simp add: Let_def)
  show ?case
  proof (cases "circ_list (xmit u) = []")
    case True
    then have "\<not> txeie w" using w(3) by simp
    from tx_irqs_idle [where adv = adv, OF assms(1) this] obtain u' where "tx_irqs en adv n w = Some (Inr u')" "tx_side u' = tx_side w" by blast
    then show ?thesis using side_tx_on [of u' w] w(3) True step by auto
  next
    case False
    have "length (circ_list (xmit w)) < n" using w(3) False Suc.prems(3) by (cases "circ_list (xmit u)") auto
    then obtain u' where "tx_irqs en adv n w = Some (Inr u')" "wire u' = wire w @ circ_list (xmit w)" "circ_list (xmit u') = []" "\<not> txeie u'"
      using Suc.IH [of w] w(2,3) False Suc.prems(2) by auto
    then show ?thesis using w(3) False step by auto
  qed
qed simp

lemma uart_write_live:
  fixes bs :: "u8 list"
  assumes "txe_documented en" "tx_on u"
  defines "n \<equiv> min (length bs) (4095 - length (circ_list (xmit u)))"
  shows "\<exists>u'. uart_write en bs u = Some (Inr (int n, u')) \<and> tx_on u' \<and> (circ_list (xmit u') \<noteq> [] \<longrightarrow> txeie u')
    \<and> wire u' @ circ_list (xmit u') = wire u @ circ_list (xmit u) @ take n bs"
proof -
  have ok: "tx_ok u" using assms(2) by (simp add: tx_on_def)
  obtain v where v: "tx_ok v" "wire v = wire u" "uregs v = uregs u" "uart_tx_stopped v = uart_tx_stopped u"
    "circ_list (xmit v) = circ_list (xmit u) @ take n bs" "uart_write en bs u = map_option (map_sum id (\<lambda>u. (int n, u))) (uart_start en v)"
    by (rule uart_write_ring [OF ok, of bs en]) (auto simp: n_def min_def)
  have on: "tx_on v" "circ_ok (xmit v)" using assms(2) v by (simp_all add: tx_on_def tx_ok_def)
  show ?thesis
  proof (cases "circ_list (xmit v) = []")
    case True
    then have "uart_start en v = Some (Inr v)" using circ_empty_iff [OF on(2)] by (simp add: uart_start_def)
    then show ?thesis using v on True by auto
  next
    case False
    let ?w = "upd_uregs (\<lambda>r. r\<lparr>us_cr1 := us_cr1 r OR us_msk STM32_USART_CR1_TXEIE\<rparr>) v"
    have w: "tx_on ?w" "txeie ?w" "xmit ?w = xmit v" "wire ?w = wire v"
      using on(1) by (simp_all add: tx_on_def tx_ok_def upd_uregs_def tx_enabled_def txeie_def uart_tx_stopped_def txeie_bits)
    have "cb_buf (xmit v) \<noteq> None" using circ_cases [OF on(2)] by blast
    then have "uart_start en v = stm32_transmit en ?w"
      using False circ_empty_iff [OF on(2)] on(1) by (simp add: uart_start_def stm_port_start_tx_def tx_on_def uart_tx_stopped_def)
    then show ?thesis using transmit_live [OF assms(1) w(1)] v False w by auto
  qed
qed

text \<open>C13. What is written is sent: on a port that is switched on, not stopped and not waiting for the other side, \<^verbatim>\<open>uart_write\<close>
  accepts the characters that fit into the ring and returns their number; then the interrupts of the transmitter, whatever is
  received meanwhile, send everything that was queued and after it exactly these characters, and at the end the
  driver switches the transmitter's interrupt off.\<close>

theorem uart_write_sent:
  assumes "txe_documented en" "tx_on u" "\<forall>k. rx_only (adv k)"
  shows "\<exists>n u1 u2. n = min (length bs) (4095 - length (circ_list (xmit u))) \<and> uart_write en bs u = Some (Inr (int n, u1))
    \<and> tx_irqs en adv 4096 u1 = Some (Inr u2) \<and> wire u2 = wire u @ circ_list (xmit u) @ take n bs \<and> circ_list (xmit u2) = [] \<and> \<not> txeie u2"
proof -
  let ?n = "min (length bs) (4095 - length (circ_list (xmit u)))"
  obtain u1 where u1: "uart_write en bs u = Some (Inr (int ?n, u1))" "tx_on u1" "circ_list (xmit u1) \<noteq> [] \<longrightarrow> txeie u1"
    "wire u1 @ circ_list (xmit u1) = wire u @ circ_list (xmit u) @ take ?n bs"
    using uart_write_live [OF assms(1,2), of bs] by blast
  have l: "length (circ_list (xmit u1)) < 4096" using circ_list_length [of "xmit u1"] circ_len_le [of "cb_head (xmit u1)" "cb_tail (xmit u1)"] by simp
  have adv: "\<And>k. rx_only (adv k)" using assms(3) by blast
  obtain u2 where u2: "tx_irqs en adv 4096 u1 = Some (Inr u2)" "wire u2 = wire u1 @ circ_list (xmit u1)" "circ_list (xmit u2) = []" "\<not> txeie u2"
  proof (cases "txeie u1")
    case True
    then show ?thesis using tx_irqs_drain [where adv = adv, OF adv assms(1) u1(2) True l] that by blast
  next
    case False
    obtain w where w: "tx_irqs en adv 4096 u1 = Some (Inr w)" "tx_side w = tx_side u1"
      using tx_irqs_idle [where adv = adv and en = en and n = 4096, OF adv False] by blast
    show ?thesis using that [OF w(1)] side_tx_on [OF w(2)] u1(3) False by simp
  qed
  show ?thesis using u1(1,4) u2 by (intro exI [of _ ?n] exI [of _ u1] exI [of _ u2]) simp
qed

lemma ex_uart_on: "tx_on ex_uart"
  using ex_uart_ok by (simp add: tx_on_def tx_enabled_def uart_tx_stopped_def) (simp add: ex_uart_def bit_iff_odd)

lemma ex_txe: "txe_documented ex_usart_env"
  by (simp add: txe_documented_def ex_usart_env_def)

theorem uart_write_sent_witness:
  "\<exists>u1 u2. uart_write ex_usart_env [65, 84, 13] ex_uart = Some (Inr (3, u1))
    \<and> tx_irqs ex_usart_env (\<lambda>_ _. id) 4096 u1 = Some (Inr u2) \<and> wire u2 = [65, 84, 13] \<and> circ_list (xmit u2) = [] \<and> \<not> txeie u2"
  using uart_write_sent [of ex_usart_env ex_uart "\<lambda>_ _. id" "[65, 84, 13]"] ex_uart_on ex_uart_ok ex_txe
  by (simp add: rx_only_id)

section \<open>The console\<close>






lemma upd_rx_stream_stream [simp]: "rx_stream (upd_rx_stream f u) = f (rx_stream u)"
  by (simp add: rx_stream_def upd_rx_stream_def upd_stm32_dma_def stm32_dma_def upd_iw_soc_def Let_def)






end
