(* ===== verification/Uart_Rx.thy ===== *)
theory Uart_Rx
  imports Uart_Tx
begin

text \<open>
  The receive path of the serial driver: characters arrive in the two DMA buffers while the handlers copy them to the tty layer.
  The first section states what the DMA controller does when a character arrives (documented behaviour in double-buffer mode), the
  next one what the receiver does, and the others show that the driver hands over exactly the arrived characters as long as it is not
  two buffers late, when a character is lost by the read of the receive data register, and when the interrupt is acknowledged too early.
\<close>

section \<open>The DMA stream in double-buffer mode\<close>

definition rx_flag_pos :: "uart \<Rightarrow> nat" where
  "rx_flag_pos u = [4, 10, 20, 26, 4, 10, 20, 26] ! ini_stream (upriv u)"

text \<open>Setting flags; the controller first clears those that the driver has acknowledged.\<close>

definition rx_raise :: "u32 \<Rightarrow> uart \<Rightarrow> uart" where
  "rx_raise f u = upd_stm32_dma (\<lambda>d. if dma_hi (upriv u)
     then d\<lparr>dma_hisr := dma_hisr d AND NOT (dma_hifcr d) OR f, dma_hifcr := 0\<rparr>
     else d\<lparr>dma_lisr := dma_lisr d AND NOT (dma_lifcr d) OR f, dma_lifcr := 0\<rparr>) u"

text \<open>
  An arriving character goes to the current buffer, at the position that the counter gives. When the buffer is half full or full
  a flag is raised; when it is full, the stream changes the buffer and reloads the counter.
\<close>

definition dma_arrive :: "u8 \<Rightarrow> uart \<Rightarrow> uart" where
  "dma_arrive b u =
     (let r = rx_stream u;
          base = (if dma_ct u = 0 then dma_m0ar r else dma_m1ar r);
          u = u\<lparr>umem := (umem u)(base + (512 - dma_ndtr r) := b), arrived := arrived u @ [b]\<rparr>
      in if dma_ndtr r = 1
         then rx_raise (push_bit (rx_flag_pos u + 1) 1)
                (upd_rx_stream (\<lambda>r. r\<lparr>dma_ndtr := 512, dma_cr := dma_cr r XOR dma_msk STM32_DMA_CR_CT\<rparr>) u)
         else rx_raise (if dma_ndtr r = 257 then push_bit (rx_flag_pos u) 1 else 0)
                (upd_rx_stream (\<lambda>r. r\<lparr>dma_ndtr := dma_ndtr r - 1\<rparr>) u))"

definition arrive_all :: "u8 list \<Rightarrow> uart \<Rightarrow> uart" where
  "arrive_all bs u = fold dma_arrive bs u"

text \<open>The interrupt of the stream is pending while a flag is set that was not acknowledged.\<close>

definition rx_irq_pending :: "uart \<Rightarrow> bool" where
  "rx_irq_pending u \<longleftrightarrow>
     (if dma_hi (upriv u) then dma_hisr (stm32_dma u) AND NOT (dma_hifcr (stm32_dma u)) else dma_lisr (stm32_dma u) AND NOT (dma_lifcr (stm32_dma u)))
       AND stm32_dma_isr_bit ! ini_stream (upriv u) \<noteq> 0"

section \<open>The invariant of the hardware\<close>

text \<open>The address of the \<open>i\<close>-th character, and the buffers: they do not overlap.\<close>

definition rx_addr :: "stm32_usart_priv \<Rightarrow> nat \<Rightarrow> u32" where
  "rx_addr p i = rxb p (i div 512 mod 2) + of_nat (i mod 512)"

definition bufs_ok :: "stm32_usart_priv \<Rightarrow> bool" where
  "bufs_ok p \<longleftrightarrow> (\<forall>i < 512. \<forall>j < 512. rxb p 0 + of_nat i \<noteq> rxb p 1 + of_nat j)"

definition rx_hw :: "uart \<Rightarrow> bool" where
  "rx_hw u \<longleftrightarrow> (let w = length (arrived u); r = rx_stream u in
     bufs_ok (upriv u) \<and> dma_m0ar r = rxb (upriv u) 0 \<and> dma_m1ar r = rxb (upriv u) 1
     \<and> dma_ndtr r = of_nat (512 - w mod 512) \<and> dma_ct u = of_nat (w div 512 mod 2)
     \<and> (\<forall>i < w. w \<le> i + 1024 \<longrightarrow> umem u (rx_addr (upriv u) i) = arrived u ! i))"

lemma unat_small: "n \<le> 512 \<Longrightarrow> unat (of_nat n :: u32) = n"
  by (simp add: unat_of_nat)

lemma small_inj: "i \<le> 512 \<Longrightarrow> j \<le> 512 \<Longrightarrow> (of_nat i :: u32) = of_nat j \<longleftrightarrow> i = j"
  using unat_small by metis

lemma rx_addr_inj:
  assumes "bufs_ok p" "i < j" "j < i + 1024"
  shows "rx_addr p i \<noteq> rx_addr p j"
proof
  assume e: "rx_addr p i = rx_addr p j"
  have par: "i div 512 mod 2 = j div 512 mod 2"
  proof (rule ccontr)
    assume "i div 512 mod 2 \<noteq> j div 512 mod 2"
    then consider "i div 512 mod 2 = 0" "j div 512 mod 2 = 1" | "i div 512 mod 2 = 1" "j div 512 mod 2 = 0" by linarith
    then show False
      using e assms(1) by cases (simp_all add: rx_addr_def bufs_ok_def, metis mod_less_divisor zero_less_numeral)
  qed
  then have "(of_nat (i mod 512) :: u32) = of_nat (j mod 512)" using e by (simp add: rx_addr_def)
  moreover have "i mod 512 < 512" "j mod 512 < 512" by simp_all
  ultimately have "i mod 512 = j mod 512" using small_inj [of "i mod 512" "j mod 512"] by simp
  then have "i mod (512 * 2) = j mod (512 * 2)" using par by (simp only: mod_mult2_eq)
  then have "1024 dvd j - i" using mod_eq_dvd_iff_nat [of i j 1024] assms(2) by simp
  then show False using dvd_imp_le [of 1024 "j - i"] assms(2,3) by simp
qed

section \<open>Arrivals keep it\<close>

text \<open>What the driver owns is left alone by arrivals.\<close>

definition rx_own :: "uart \<Rightarrow> stm32_usart_priv \<times> u8 list" where
  "rx_own u = (upriv u, flip u)"

lemma raise_stream [simp]: "rx_stream (rx_raise f u) = rx_stream u" "dma_ct (rx_raise f u) = dma_ct u"
  by (simp_all add: dma_ct_def rx_stream_def rx_raise_def stm32_dma_def upd_stm32_dma_def upd_iw_soc_def Let_def)

lemma raise_other [simp]:
  "umem (rx_raise f u) = umem u" "arrived (rx_raise f u) = arrived u" "upriv (rx_raise f u) = upriv u" "flip (rx_raise f u) = flip u"
  "tx_side (rx_raise f u) = tx_side u"
  by (simp_all add: rx_raise_def upd_stm32_dma_def tx_side_def)

lemma rx_stream_other [simp]:
  "umem (upd_rx_stream f u) = umem u" "arrived (upd_rx_stream f u) = arrived u" "upriv (upd_rx_stream f u) = upriv u"
  "flip (upd_rx_stream f u) = flip u" "tx_side (upd_rx_stream f u) = tx_side u"
  by (simp_all add: upd_rx_stream_def upd_stm32_dma_def tx_side_def)

lemma stream_of [simp]:
  "rx_stream (u\<lparr>umem := m\<rparr>) = rx_stream u" "rx_stream (u\<lparr>arrived := a\<rparr>) = rx_stream u" "rx_stream (u\<lparr>flip := f\<rparr>) = rx_stream u"
  by (simp_all add: rx_stream_def stm32_dma_def Let_def)

lemma ct_toggle: "((x XOR dma_msk STM32_DMA_CR_CT) AND dma_msk STM32_DMA_CR_CT \<noteq> 0) \<longleftrightarrow> x AND dma_msk STM32_DMA_CR_CT = 0"
  using and_exp_eq_0_iff_not_bit [of x 19] and_exp_eq_0_iff_not_bit [of "x XOR 2 ^ 19" 19]
  by (simp add: bit_simps)

lemma arrive_own:
  "rx_own (dma_arrive b u) = rx_own u" "arrived (dma_arrive b u) = arrived u @ [b]" "tx_side (dma_arrive b u) = tx_side u"
  by (simp_all add: dma_arrive_def rx_own_def Let_def) (simp_all add: tx_side_def)

lemma dma_arrive_effect:
  "umem (dma_arrive b u) = (umem u)((if dma_ct u = 0 then dma_m0ar (rx_stream u) else dma_m1ar (rx_stream u)) + (512 - dma_ndtr (rx_stream u)) := b)"
  "rx_stream (dma_arrive b u) = (if dma_ndtr (rx_stream u) = 1
     then (rx_stream u)\<lparr>dma_ndtr := 512, dma_cr := dma_cr (rx_stream u) XOR dma_msk STM32_DMA_CR_CT\<rparr>
     else (rx_stream u)\<lparr>dma_ndtr := dma_ndtr (rx_stream u) - 1\<rparr>)"
  by (simp_all add: dma_arrive_def Let_def del: dma_msk.simps)

lemma arrive_ct: "dma_ct (dma_arrive b u) = (if dma_ndtr (rx_stream u) = 1 then 1 - dma_ct u else dma_ct u)"
  by (simp add: dma_ct_def dma_arrive_effect ct_toggle del: dma_msk.simps)

lemma arrive_hw:
  assumes "rx_hw u"
  shows "rx_hw (dma_arrive b u)"
proof -
  define w where "w = length (arrived u)"
  have h: "bufs_ok (upriv u)" "dma_m0ar (rx_stream u) = rxb (upriv u) 0" "dma_m1ar (rx_stream u) = rxb (upriv u) 1"
    "dma_ndtr (rx_stream u) = of_nat (512 - w mod 512)" "dma_ct u = of_nat (w div 512 mod 2)"
    "\<And>i. i < w \<Longrightarrow> w \<le> i + 1024 \<Longrightarrow> umem u (rx_addr (upriv u) i) = arrived u ! i"
    using assms by (simp_all add: rx_hw_def Let_def w_def)
  have a: "(if dma_ct u = 0 then dma_m0ar (rx_stream u) else dma_m1ar (rx_stream u)) + (512 - dma_ndtr (rx_stream u)) = rx_addr (upriv u) w"
  proof -
    have "512 - dma_ndtr (rx_stream u) = of_nat (w mod 512)" by (simp add: h(4) of_nat_diff)
    then show ?thesis using h(2,3,5) by (cases "w div 512 mod 2 = 0") (auto simp: rx_addr_def mod2_eq_if)
  qed
  have mem: "((umem u)(rx_addr (upriv u) w := b)) (rx_addr (upriv u) i) = (arrived u @ [b]) ! i" if "i < Suc w" "Suc w \<le> i + 1024" for i
    using that h(6) [of i] rx_addr_inj [OF h(1), of i w] by (cases "i = w") (auto simp: nth_append w_def)
  have one: "dma_ndtr (rx_stream u) = 1 \<longleftrightarrow> w mod 512 = 511"
    using small_inj [of "512 - w mod 512" 1] mod_less_divisor [of 512 w] unfolding h(4) by simp linarith
  have o: "upriv (dma_arrive b u) = upriv u" "arrived (dma_arrive b u) = arrived u @ [b]"
    using arrive_own [of b u] by (simp_all add: rx_own_def)
  have ct: "dma_ct (dma_arrive b u) = of_nat (Suc w div 512 mod 2)"
    "dma_ndtr (rx_stream (dma_arrive b u)) = of_nat (512 - Suc w mod 512)"
  proof -
    show "dma_ct (dma_arrive b u) = of_nat (Suc w div 512 mod 2)"
      using h(5) one by (cases "w mod 512 = 511") (auto simp: arrive_ct div_Suc mod_Suc mod2_eq_if)
    show "dma_ndtr (rx_stream (dma_arrive b u)) = of_nat (512 - Suc w mod 512)"
      using h(4) one by (cases "w mod 512 = 511") (simp_all add: dma_arrive_effect mod_Suc of_nat_diff del: dma_msk.simps)
  qed
  show ?thesis
    unfolding rx_hw_def Let_def o ct dma_arrive_effect(1) a length_append
    using h(1-3) mem by (simp add: ct dma_arrive_effect(2) w_def [symmetric] del: dma_msk.simps)
qed

lemma arrive_all_own:
  "rx_own (arrive_all bs u) = rx_own u" "arrived (arrive_all bs u) = arrived u @ bs" "tx_side (arrive_all bs u) = tx_side u"
  by (induction bs arbitrary: u) (simp_all add: arrive_all_def arrive_own)

lemma arrive_all_hw: "rx_hw u \<Longrightarrow> rx_hw (arrive_all bs u)"
  by (induction bs arbitrary: u) (simp_all add: arrive_all_def arrive_hw)

lemma arrive_rx_only: "rx_only (\<lambda>i. arrive_all (bsq i))"
  by (simp add: rx_only_def arrive_all_own)

section \<open>The receiver\<close>

text \<open>
  A character that is complete goes to the receive data register and waits there for the DMA; if one waits already, the new one is dropped
  and the overrun flag is set. A read of the register, by the DMA or by the driver, takes the character out. The idle flag comes
  and goes with the line.
\<close>

definition rxne :: "uart \<Rightarrow> bool" where
  "rxne u \<longleftrightarrow> bit (us_isr (uregs u)) 5"

definition overrun :: "uart \<Rightarrow> bool" where
  "overrun u \<longleftrightarrow> bit (us_isr (uregs u)) 3"

definition rdr_wait :: "uart \<Rightarrow> u8 list" where
  "rdr_wait u = (if rxne u then [ucast (us_rdr (uregs u))] else [])"

datatype rx_event = Shift u8 | Take | Idle bool

fun rx_event_do :: "rx_event \<Rightarrow> uart \<Rightarrow> uart" where
  "rx_event_do (Shift b) u =
     upd_uregs (\<lambda>r. if rxne u then r\<lparr>us_isr := us_isr r OR push_bit 3 1\<rparr>
                    else r\<lparr>us_rdr := ucast b, us_isr := us_isr r OR USART_ISR_RXNE\<rparr>) (u\<lparr>line_in := line_in u @ [b]\<rparr>)"
| "rx_event_do Take u = (if rxne u then read_rdr (dma_arrive (ucast (us_rdr (uregs u))) u) else u)"
| "rx_event_do (Idle f) u =
     upd_uregs (\<lambda>r. r\<lparr>us_isr := if f then us_isr r OR us_msk STM32_USART_ISR_IDLE else us_isr r AND NOT (us_msk STM32_USART_ISR_IDLE)\<rparr>) u"

definition hw_all :: "rx_event list \<Rightarrow> uart \<Rightarrow> uart" where
  "hw_all es u = fold rx_event_do es u"

lemma hw_none [simp]: "hw_all [] = id"
  by (simp add: hw_all_def fun_eq_iff)

text \<open>What the driver relies on while the hardware goes on: it owns its own data, and the DMA only adds characters.\<close>

definition rx_env :: "(nat \<Rightarrow> uart \<Rightarrow> uart) \<Rightarrow> bool" where
  "rx_env adv \<longleftrightarrow> (\<forall>i u. (rx_hw u \<longrightarrow> rx_hw (adv i u)) \<and> rx_own (adv i u) = rx_own u \<and> (\<exists>cs. arrived (adv i u) = arrived u @ cs))"

lemma arrive_env: "rx_env (\<lambda>i. arrive_all (bsq i))"
  by (auto simp: rx_env_def arrive_all_own arrive_all_hw)

lemma arrive_none [simp]: "arrive_all [] = id"
  by (simp add: arrive_all_def fun_eq_iff)

lemma id_env: "rx_env (\<lambda>_. id)"
  by (simp add: rx_env_def)

lemma regs_rx:
  "rx_hw (upd_uregs f u) = rx_hw u" "rx_own (upd_uregs f u) = rx_own u" "arrived (upd_uregs f u) = arrived u"
  "rx_hw (u\<lparr>line_in := l\<rparr>) = rx_hw u" "rx_own (u\<lparr>line_in := l\<rparr>) = rx_own u"
  by (simp_all add: upd_uregs_def rx_hw_def rx_own_def dma_ct_def rx_stream_def stm32_dma_def Let_def)

lemma event_env:
  "rx_hw u \<Longrightarrow> rx_hw (rx_event_do e u)" "rx_own (rx_event_do e u) = rx_own u" "\<exists>cs. arrived (rx_event_do e u) = arrived u @ cs"
  by (cases e; simp add: read_rdr_def regs_rx arrive_hw arrive_own)+

lemma events_env: "rx_env (\<lambda>i. hw_all (evs i))"
proof -
  have "(rx_hw u \<longrightarrow> rx_hw (hw_all es u)) \<and> rx_own (hw_all es u) = rx_own u \<and> (\<exists>cs. arrived (hw_all es u) = arrived u @ cs)" for es u
  proof (induction es arbitrary: u)
    case (Cons e es)
    obtain cs where "arrived (rx_event_do e u) = arrived u @ cs" using event_env(3) by blast
    then show ?case using Cons [of "rx_event_do e u"] event_env(1,2) [where e = e and u = u] by (auto simp: hw_all_def)
  qed simp
  then show ?thesis by (simp add: rx_env_def)
qed

section \<open>The handler\<close>

lemma hw_read:
  assumes "rx_hw u"
  shows "dma_ct u = of_nat (length (arrived u) div 512 mod 2)"
    "STM32_DMA_RX_BUF_LEN - dma_ndtr (rx_stream u) = of_nat (length (arrived u) mod 512)"
  using assms by (simp_all add: rx_hw_def Let_def STM32_DMA_RX_BUF_LEN_def of_nat_diff)

lemma ct_eq: "(of_nat (a mod 2) :: u32) = of_nat (b mod 2) \<longleftrightarrow> a mod 2 = (b mod 2 :: nat)"
  by (rule small_inj) (simp_all add: mod2_eq_if)

lemma parity_eq: "k \<le> x \<Longrightarrow> x \<le> y \<Longrightarrow> y < k + 2 \<Longrightarrow> x mod 2 = y mod 2 \<Longrightarrow> x = (y :: nat)"
  by presburger

lemma same_block:
  assumes "512 * k \<le> a" "a \<le> b" "b < 512 * (k + 2)" "a div 512 mod 2 = b div 512 mod 2"
  shows "a div 512 = (b div 512 :: nat)"
proof -
  have "k \<le> a div 512" "a div 512 \<le> b div 512" "b div 512 < k + 2" using assms(1-3) by (simp_all add: div_le_mono div_less_iff_less_mult less_eq_div_iff_mult_less_eq mult.commute)
  then show ?thesis by (rule parity_eq [OF _ _ _ assms(4)])
qed

text \<open>However the characters fall between its reads, the handler gets a buffer and a position that belong together.\<close>

lemma sample_spec:
  assumes "rx_env adv" "rx_hw u" "512 * k \<le> length (arrived u)" "rx_sample adv u = (b, p, v)" "length (arrived v) < 512 * (k + 2)"
  obtains w cs where "arrived v = arrived u @ cs" "length (arrived u) \<le> w" "w \<le> length (arrived v)"
    "b = of_nat (w div 512 mod 2)" "p = of_nat (w mod 512)" "rx_hw v" "rx_own v = rx_own u"
proof -
  define u0 where "u0 = adv 0 u"
  define u1 where "u1 = adv 1 u0"
  define u2 where "u2 = adv 2 u1"
  define u3 where "u3 = adv 3 u2"
  have env: "rx_hw x \<Longrightarrow> rx_hw (adv i x)" "rx_own (adv i x) = rx_own x" "\<exists>cs. arrived (adv i x) = arrived x @ cs" for i x
    using assms(1) by (simp_all add: rx_env_def)
  have hw: "rx_hw u0" "rx_hw u1" "rx_hw u2" "rx_hw u3" using assms(2) by (simp_all add: u0_def u1_def u2_def u3_def env(1))
  have own: "rx_own u2 = rx_own u" "rx_own u3 = rx_own u" by (simp_all add: u0_def u1_def u2_def u3_def env(2))
  obtain c0 c1 c2 c3 where arr: "arrived u0 = arrived u @ c0" "arrived u1 = arrived u0 @ c1" "arrived u2 = arrived u1 @ c2" "arrived u3 = arrived u2 @ c3"
    using env(3) [of 0 u] env(3) [of 1 u0] env(3) [of 2 u1] env(3) [of 3 u2] unfolding u0_def [symmetric] u1_def [symmetric] u2_def [symmetric] u3_def [symmetric] by blast
  have res: "(b, p, v) = (if dma_ct u0 \<noteq> dma_ct u2 then (dma_ct u2, STM32_DMA_RX_BUF_LEN - dma_ndtr (rx_stream u3), u3)
      else (dma_ct u0, STM32_DMA_RX_BUF_LEN - dma_ndtr (rx_stream u1), u2))"
    using assms(4) unfolding rx_sample_def Let_def u3_def u2_def u1_def u0_def by (rule sym)
  show thesis
  proof (cases "dma_ct u0 = dma_ct u2")
    case True
    then have v: "v = u2" "b = dma_ct u0" "p = of_nat (length (arrived u1) mod 512)" using res hw_read(2) [OF hw(2)] by simp_all
    have par: "length (arrived u0) div 512 mod 2 = length (arrived u2) div 512 mod 2" using True by (simp add: hw_read(1) [OF hw(1)] hw_read(1) [OF hw(3)] ct_eq)
    have le: "512 * k \<le> length (arrived u0)" "length (arrived u0) \<le> length (arrived u1)" "length (arrived u1) \<le> length (arrived u2)" "length (arrived u2) < 512 * (k + 2)"
      using assms(3,5) arr v by simp_all
    have "length (arrived u0) div 512 = length (arrived u2) div 512" by (rule same_block [OF le(1) _ le(4) par]) (use le in linarith)
    then have "length (arrived u1) div 512 = length (arrived u0) div 512" using div_le_mono [OF le(2), of 512] div_le_mono [OF le(3), of 512] by linarith
    then show thesis using that [of "c0 @ c1 @ c2" "length (arrived u1)"] v arr hw own hw_read(1) [OF hw(1)] by simp
  next
    case False
    then have v: "v = u3" "b = dma_ct u2" "p = of_nat (length (arrived u3) mod 512)" using res hw_read(2) [OF hw(4)] by simp_all
    have par: "length (arrived u0) div 512 \<noteq> length (arrived u2) div 512" using False by (auto simp: hw_read(1) [OF hw(1)] hw_read(1) [OF hw(3)])
    have "k \<le> length (arrived u0) div 512" "length (arrived u3) div 512 < k + 2"
      using assms(3,5) arr v by (simp_all add: div_less_iff_less_mult less_eq_div_iff_mult_less_eq mult.commute)
    moreover have "length (arrived u0) div 512 \<le> length (arrived u2) div 512" "length (arrived u2) div 512 \<le> length (arrived u3) div 512"
      by (simp_all add: arr div_le_mono)
    ultimately have "length (arrived u3) div 512 = length (arrived u2) div 512" using par by linarith
    then show thesis using that [of "c0 @ c1 @ c2 @ c3" "length (arrived u3)"] v arr hw own hw_read(1) [OF hw(3)] by simp
  qed
qed

text \<open>The driver has read the first \<open>r\<close> characters of the \<open>k\<close>-th buffer and handed over everything up to there.\<close>

definition drv_at :: "nat \<Rightarrow> nat \<Rightarrow> uart \<Rightarrow> bool" where
  "drv_at k r u \<longleftrightarrow> (let p = upriv u in r \<le> 512 \<and> rpos p = of_nat r \<and> wpos p = of_nat r
     \<and> rbuf p = of_nat (k mod 2) \<and> wbuf p = of_nat (k mod 2)
     \<and> 512 * k + r \<le> length (arrived u) \<and> flip u = take (512 * k + r) (arrived u))"

lemma drv_at_arrive:
  assumes "drv_at k r u" "rx_own u' = rx_own u" "arrived u' = arrived u @ cs"
  shows "drv_at k r u'"
  using assms by (simp add: drv_at_def rx_own_def Let_def)

lemma hw_priv:
  assumes "rxb q = rxb (upriv u)" "reg_dma_base q = reg_dma_base (upriv u)" "ini_stream q = ini_stream (upriv u)"
  shows "rx_hw (u\<lparr>upriv := q\<rparr>) = rx_hw u"
  using assms by (simp add: rx_hw_def dma_ct_def rx_stream_def stm32_dma_def rx_addr_def bufs_ok_def Let_def)

lemma hw_flip [simp]: "rx_hw (u\<lparr>flip := f\<rparr>) = rx_hw u"
  by (simp add: rx_hw_def dma_ct_def Let_def)

lemma hw_ifcr [simp]: "rx_hw (write_dma_ifcr x u) = rx_hw u" "rx_own (write_dma_ifcr x u) = rx_own u" "arrived (write_dma_ifcr x u) = arrived u"
  by (simp_all add: rx_hw_def rx_own_def write_dma_ifcr_def upd_stm32_dma_def dma_ct_def rx_stream_def stm32_dma_def upd_iw_soc_def Let_def)

lemma hw_mem: "rx_hw u \<Longrightarrow> i < length (arrived u) \<Longrightarrow> length (arrived u) \<le> i + 1024 \<Longrightarrow> umem u (rx_addr (upriv u) i) = arrived u ! i"
  by (simp add: rx_hw_def Let_def)

lemma take_append_range: "a \<le> b \<Longrightarrow> b \<le> length xs \<Longrightarrow> take a xs @ map (\<lambda>i. xs ! i) [a..<b] = take b xs"
proof (induction b)
  case (Suc b)
  then show ?case by (cases "a = Suc b") (auto simp: take_Suc_conv_app_nth)
qed simp

lemma fetch_arrived: "rx_env adv \<Longrightarrow> \<exists>cs. arrived (rx_fetch adv i u) = arrived u @ cs"
proof -
  assume "rx_env adv"
  then have "\<exists>cs. arrived (adv i v) = arrived u @ cs" if "\<exists>cs. arrived v = arrived u @ cs" for i v
    using that unfolding rx_env_def by (metis append.assoc)
  moreover have "drv_blind (\<lambda>v. \<exists>cs. arrived v = arrived u @ cs)" by (simp add: drv_blind_def)
  ultimately show ?thesis by (intro fetch_keeps [where Q = "\<lambda>v. \<exists>cs. arrived v = arrived u @ cs"]) simp_all
qed

text \<open>The copying loop from \<open>r\<close> to \<open>s\<close> in buffer \<open>k\<close>, with characters that arrive between the copies.\<close>

lemma fetch_at:
  assumes "rx_env adv" "rx_hw u" "rpos (upriv u) = of_nat r" "wpos (upriv u) = of_nat s" "rbuf (upriv u) = of_nat (k mod 2)" "r \<le> s" "s \<le> 512"
    "512 * k + s \<le> length (arrived u)" "length (arrived (rx_fetch adv i u)) \<le> 512 * k + r + 1024" "flip u = take (512 * k + r) (arrived u)"
  shows "rx_hw (rx_fetch adv i u) \<and> upriv (rx_fetch adv i u) = (upriv u)\<lparr>rpos := of_nat s\<rparr> \<and> flip (rx_fetch adv i u) = take (512 * k + s) (arrived u)"
  using assms(2-)
proof (induction "s - r" arbitrary: u r i)
  case 0
  then have "rx_fetch adv i u = u" "r = s" by (simp_all add: rx_fetch.simps [of adv i u] Let_def)
  moreover have "(upriv u)\<lparr>rpos := of_nat s\<rparr> = upriv u" using 0 by (cases "upriv u") simp
  ultimately show ?case using 0 by simp
next
  case (Suc n)
  let ?p = "upriv u"
  define v where "v = adv i u"
  define x where "x = v\<lparr>upriv := ?p\<lparr>rpos := rpos ?p + 1\<rparr>, flip := flip v @ [umem v (rxb ?p (unat (rbuf ?p)) + rpos ?p)]\<rparr>"
  have lt: "r < s" "rpos ?p < wpos ?p" using Suc.prems Suc.hyps(2) by (simp_all add: word_less_nat_alt unat_small)
  have f: "rx_fetch adv i u = rx_fetch adv (i + 1) x" using lt(2) by (simp add: rx_fetch.simps [of adv i u] Let_def x_def v_def)
  have v: "rx_hw v" "upriv v = ?p" "flip v = flip u" using assms(1) Suc.prems(1) by (simp_all add: rx_env_def rx_own_def v_def)
  obtain cs where cs: "arrived v = arrived u @ cs" using assms(1) by (auto simp: rx_env_def v_def)
  obtain ds where ds: "arrived (rx_fetch adv (i + 1) x) = arrived x @ ds" using fetch_arrived [OF assms(1)] by blast
  have len: "length (arrived v) \<le> 512 * k + r + 1024" using Suc.prems(8) ds unfolding f by (simp add: x_def)
  have rb: "unat (rbuf ?p) = k mod 2" using unat_small [of "k mod 2"] Suc.prems(4) by (simp add: mod2_eq_if)
  have "rx_addr ?p (512 * k + r) = rxb ?p (k mod 2) + of_nat r" using lt(1) Suc.prems(6) by (simp add: rx_addr_def)
  then have "umem v (rxb ?p (unat (rbuf ?p)) + rpos ?p) = arrived u ! (512 * k + r)"
    using hw_mem [OF v(1), of "512 * k + r"] v(2) lt(1) Suc.prems(2,7) len cs by (simp add: rb nth_append)
  then have fl: "flip x = take (512 * k + Suc r) (arrived x)"
    using Suc.prems(7,9) v(3) lt(1) cs by (simp add: x_def take_Suc_conv_app_nth)
  have "rx_hw x" using v hw_priv [of "?p\<lparr>rpos := rpos ?p + 1\<rparr>" v] by (simp add: x_def)
  moreover have "n = s - Suc r" "length (arrived (rx_fetch adv (i + 1) x)) \<le> 512 * k + Suc r + 1024" using Suc.hyps(2) Suc.prems(8) f by simp_all
  ultimately have "rx_hw (rx_fetch adv (i + 1) x) \<and> upriv (rx_fetch adv (i + 1) x) = (upriv x)\<lparr>rpos := of_nat s\<rparr>
      \<and> flip (rx_fetch adv (i + 1) x) = take (512 * k + s) (arrived x)"
    using Suc.hyps(1) [of "Suc r" x "i + 1"] Suc.prems lt(1) cs fl by (simp add: x_def)
  then show ?case unfolding f using Suc.prems(7) cs by (simp add: x_def)
qed

text \<open>What the handler concludes from a sample that belongs to the character count \<open>w\<close>.\<close>

lemma wrap_spec:
  assumes "drv_at k r u" "512 * k + r \<le> w" "w < 512 * (k + 2)" "upriv v = upriv u"
  obtains (same) s where "w = 512 * k + s" "s < 512" "r \<le> s"
      "rx_wrap (of_nat (w div 512 mod 2)) (of_nat (w mod 512)) (upriv v) = (False, (upriv u)\<lparr>wpos := of_nat s\<rparr>)"
  | (nxt) s where "w = 512 * (k + 1) + s" "s < 512" "r = 512"
      "rx_wrap (of_nat (w div 512 mod 2)) (of_nat (w mod 512)) (upriv v)
        = (False, (upriv u)\<lparr>rpos := 0, wpos := of_nat s, rbuf := of_nat ((k + 1) mod 2), wbuf := of_nat ((k + 1) mod 2)\<rparr>)"
  | (rest) "512 * (k + 1) \<le> w" "r < 512"
      "rx_wrap (of_nat (w div 512 mod 2)) (of_nat (w mod 512)) (upriv v) = (True, (upriv u)\<lparr>wpos := 512\<rparr>)"
proof -
  have p: "r \<le> 512" "rpos (upriv u) = of_nat r" "wbuf (upriv u) = of_nat (k mod 2)" using assms(1) by (simp_all add: drv_at_def Let_def)
  have full: "rpos (upriv u) = STM32_DMA_RX_BUF_LEN \<longleftrightarrow> r = 512"
    using small_inj [of r 512] p by (simp add: STM32_DMA_RX_BUF_LEN_def)
  define s where "s = w mod 512"
  have sm: "s < 512" by (simp add: s_def)
  consider "w = 512 * k + s" | "w = 512 * (k + 1) + s"
  proof -
    have "k \<le> w div 512" "w div 512 < k + 2" using assms(2,3) by (simp_all add: div_less_iff_less_mult less_eq_div_iff_mult_less_eq mult.commute)
    then have "w div 512 = k \<or> w div 512 = k + 1" by linarith
    moreover have "w = 512 * (w div 512) + s" unfolding s_def by simp
    ultimately show thesis using that by auto
  qed
  then show thesis
  proof cases
    case 1
    then have "w div 512 = k" using sm by simp
    then have "rx_wrap (of_nat (w div 512 mod 2)) (of_nat (w mod 512)) (upriv v) = (False, (upriv u)\<lparr>wpos := of_nat s\<rparr>)"
      unfolding assms(4) s_def [symmetric] using p(3) by (simp add: rx_wrap_def)
    then show thesis using same [OF 1 sm] 1 assms(2) by simp
  next
    case 2
    have d: "w div 512 = k + 1" using 2 sm by simp
    have ne: "(of_nat ((k + 1) mod 2) :: u32) \<noteq> of_nat (k mod 2)" unfolding ct_eq by presburger
    have wr: "rx_wrap (of_nat (w div 512 mod 2)) (of_nat (w mod 512)) (upriv v) = (if r = 512
        then (False, (upriv u)\<lparr>rpos := 0, wpos := of_nat s, rbuf := of_nat ((k + 1) mod 2), wbuf := of_nat ((k + 1) mod 2)\<rparr>)
        else (True, (upriv u)\<lparr>wpos := STM32_DMA_RX_BUF_LEN\<rparr>))"
      unfolding assms(4) s_def [symmetric] d rx_wrap_def p(3) full by (simp only: ne not_False_eq_True if_True)
    show thesis
    proof (cases "r = 512")
      case True
      then show thesis using nxt [OF 2 sm True] wr by simp
    next
      case False
      then show thesis using rest wr 2 p(1) by (simp add: STM32_DMA_RX_BUF_LEN_def)
    qed
  qed
qed

text \<open>Reading up to \<open>s\<close> in buffer \<open>k'\<close>, with characters arriving before, and before the flags are acknowledged.\<close>

definition rx_ack :: "uart \<Rightarrow> uart" where
  "rx_ack u = (let tmp = rx_dma_isr u AND stm32_dma_isr_bit ! ini_stream (upriv u) in if tmp \<noteq> 0 then write_dma_ifcr tmp u else u)"

lemma ack_same [simp]: "rx_hw (rx_ack u) = rx_hw u" "rx_own (rx_ack u) = rx_own u" "arrived (rx_ack u) = arrived u"
  by (simp_all add: rx_ack_def Let_def)

lemma fetch_to:
  assumes "rx_env adv" "rx_hw v" "rx_own v = rx_own u" "arrived v = arrived u @ cs" "flip u = take (512 * k + r) (arrived u)" "512 * k + r \<le> length (arrived u)"
    "q = (upriv u)\<lparr>rpos := of_nat r, wpos := of_nat s, rbuf := of_nat (k mod 2), wbuf := of_nat (k mod 2)\<rparr>" "r \<le> s" "s \<le> 512"
    "512 * k + s \<le> length (arrived v)" "length (arrived (rx_fetch adv 8 (adv 4 (v\<lparr>upriv := q\<rparr>)))) \<le> 512 * k + r + 1024"
  shows "rx_hw (rx_fetch adv 8 (adv 4 (v\<lparr>upriv := q\<rparr>)))" "drv_at k s (rx_fetch adv 8 (adv 4 (v\<lparr>upriv := q\<rparr>)))"
proof -
  define y where "y = adv 4 (v\<lparr>upriv := q\<rparr>)"
  have o: "upriv v = upriv u" "flip v = flip u" using assms(3) by (simp_all add: rx_own_def)
  have y: "upriv y = q" "flip y = flip u" using assms(1) o by (simp_all add: rx_env_def rx_own_def y_def)
  obtain bs where "arrived (adv 4 (v\<lparr>upriv := q\<rparr>)) = arrived (v\<lparr>upriv := q\<rparr>) @ bs" using assms(1) unfolding rx_env_def by blast
  then have a: "arrived y = arrived v @ bs" by (simp add: y_def)
  have "rx_hw (v\<lparr>upriv := q\<rparr>)" using assms(2) by (subst hw_priv) (simp_all add: assms(7) o)
  then have hw: "rx_hw y" using assms(1) by (simp add: rx_env_def y_def)
  have f: "rx_hw (rx_fetch adv 8 y) \<and> upriv (rx_fetch adv 8 y) = (upriv y)\<lparr>rpos := of_nat s\<rparr> \<and> flip (rx_fetch adv 8 y) = take (512 * k + s) (arrived y)"
    by (rule fetch_at [OF assms(1) hw]) (use assms y a y_def in auto)
  obtain ds where "arrived (rx_fetch adv 8 y) = arrived y @ ds" using fetch_arrived [OF assms(1)] by blast
  then show "rx_hw (rx_fetch adv 8 y)" "drv_at k s (rx_fetch adv 8 y)"
    using f assms(9,10) a by (simp_all add: drv_at_def Let_def y assms(7))
qed

text \<open>While nothing arrives, the copying leaves the DMA alone.\<close>

lemma fetch_dma:
  assumes "\<And>j. i \<le> j \<Longrightarrow> adv j = id"
  shows "stm32_dma (rx_fetch adv i u) = stm32_dma u \<and> dma_hi (upriv (rx_fetch adv i u)) = dma_hi (upriv u)
    \<and> ini_stream (upriv (rx_fetch adv i u)) = ini_stream (upriv u) \<and> arrived (rx_fetch adv i u) = arrived u"
  using assms
proof (induction adv i u rule: rx_fetch.induct)
  case (1 adv i u)
  show ?case
  proof (cases "rpos (upriv u) < wpos (upriv u)")
    case True
    let ?p = "upriv u"
    define x where "x = u\<lparr>upriv := ?p\<lparr>rpos := rpos ?p + 1\<rparr>, flip := flip u @ [umem u (rxb ?p (unat (rbuf ?p)) + rpos ?p)]\<rparr>"
    have id: "adv i u = u" using 1(2) by simp
    have "stm32_dma x = stm32_dma u" "dma_hi (upriv x) = dma_hi ?p" "ini_stream (upriv x) = ini_stream ?p" "arrived x = arrived u"
      by (simp_all add: x_def stm32_dma_def)
    moreover have "rx_fetch adv i u = rx_fetch adv (i + 1) x" using True by (simp add: rx_fetch.simps [of adv i u] id x_def Let_def)
    ultimately show ?thesis using 1(1) [OF refl True refl, unfolded id, folded x_def] 1(2) by simp
  qed (simp add: rx_fetch.simps [of adv i u] Let_def)
qed

lemma arrived_priv: "arrived (u\<lparr>upriv := q\<rparr>) = arrived u"
  by simp

lemma receive_spec:
  assumes "rx_env adv" "rx_hw u" "drv_at k r u" "u' = stm32_receive adv u" "length (arrived u') < 512 * (k + 2)"
  obtains (caught) k' r' z cs where "arrived u' = arrived u @ cs" "rx_hw u'" "drv_at k' r' u'" "length (arrived u) \<le> 512 * k' + r'" "k \<le> k'" "r = 512 \<or> length (arrived u) < 512 * (k + 1)" "u' = rx_ack (adv 5 z)"
      "drv_at k' r' z" "(\<forall>i. i \<noteq> 5 \<longrightarrow> adv i = id) \<longrightarrow> arrived z = arrived u"
  | (again) cs where "arrived u' = arrived u @ cs" "rx_hw u'" "drv_at k 512 u'" "r < 512"
      "(\<forall>i. i \<noteq> 5 \<longrightarrow> adv i = id) \<longrightarrow> 512 * (k + 1) \<le> length (arrived u) \<and> stm32_dma u' = stm32_dma u \<and> rx_irq_pending u' = rx_irq_pending u"
proof -
  obtain b p v where smp: "rx_sample adv u = (b, p, v)" using prod_cases3 .
  obtain wrap q where wq: "rx_wrap b p (upriv v) = (wrap, q)" using prod.exhaust .
  define y where "y = rx_fetch adv 8 (adv 4 (v\<lparr>upriv := q\<rparr>))"
  have u': "u' = (if wrap then y else rx_ack (adv 5 y))"
    by (simp add: assms(4) stm32_receive_def smp wq y_def rx_ack_def Let_def)
  obtain b4 where "arrived (adv 4 (v\<lparr>upriv := q\<rparr>)) = arrived v @ b4" using assms(1) unfolding rx_env_def by (metis (no_types) arrived_priv)
  then obtain ds where ya: "arrived y = arrived v @ ds" using fetch_arrived [OF assms(1), of 8 "adv 4 (v\<lparr>upriv := q\<rparr>)"] by (auto simp: y_def)
  have e5: "rx_hw y \<Longrightarrow> rx_hw (adv 5 y)" "rx_own (adv 5 y) = rx_own y" using assms(1) by (simp_all add: rx_env_def)
  obtain es where es: "arrived (adv 5 y) = arrived y @ es" using assms(1) by (auto simp: rx_env_def)
  have ua: "arrived u' = arrived v @ ds @ (if wrap then [] else es)" by (simp add: u' ya es)
  have d: "512 * k + r \<le> length (arrived u)" "r \<le> 512" "flip u = take (512 * k + r) (arrived u)" "rpos (upriv u) = of_nat r" "rbuf (upriv u) = of_nat (k mod 2)" "wbuf (upriv u) = of_nat (k mod 2)"
    using assms(3) by (simp_all add: drv_at_def Let_def)
  have vl: "length (arrived v) < 512 * (k + 2)" "length (arrived y) < 512 * (k + 2)" using assms(5) ua ya by simp_all
  obtain w cs where v: "arrived v = arrived u @ cs" "length (arrived u) \<le> w" "w \<le> length (arrived v)"
    "b = of_nat (w div 512 mod 2)" "p = of_nat (w mod 512)" "rx_hw v" "rx_own v = rx_own u"
    by (rule sample_spec [OF assms(1,2) _ smp vl(1)]) (use d(1) in auto)
  note ft = fetch_to [OF assms(1) v(6,7,1)]
  have w: "512 * k + r \<le> w" "w < 512 * (k + 2)" "upriv v = upriv u" using d v vl by (simp_all add: rx_own_def)
  have eta: "(upriv u)\<lparr>wpos := x\<rparr> = (upriv u)\<lparr>rpos := of_nat r, wpos := x, rbuf := of_nat (k mod 2), wbuf := of_nat (k mod 2)\<rparr>" for x
    using d by (cases "upriv u") simp
  have vu: "v = u \<and> arrived y = arrived u \<and> stm32_dma y = stm32_dma (u\<lparr>upriv := q\<rparr>) \<and> dma_hi (upriv y) = dma_hi q \<and> ini_stream (upriv y) = ini_stream q"
    if "\<forall>i. i \<noteq> 5 \<longrightarrow> adv i = id"
  proof -
    have "v = u" using smp that by (simp add: rx_sample_def Let_def split: if_splits)
    then show ?thesis using fetch_dma [of 8 adv "u\<lparr>upriv := q\<rparr>"] that by (simp add: y_def)
  qed
  show thesis
    using assms(3) w
  proof (cases rule: wrap_spec)
    case (same s)
    then have q: "q = (upriv u)\<lparr>rpos := of_nat r, wpos := of_nat s, rbuf := of_nat (k mod 2), wbuf := of_nat (k mod 2)\<rparr>" and nw: "\<not> wrap"
      using wq v(4,5) by (simp_all add: eta)
    have "rx_hw y" "drv_at k s y" using ft [OF d(3,1) q \<open>r \<le> s\<close>, folded y_def] same v(3) vl(2) d(2) by simp_all
    then show thesis using caught [of "cs @ ds @ es" k s y] nw u' ua vu v same(1,2) es e5 drv_at_arrive [of k s y "adv 5 y" es] drv_at_arrive [of k s "adv 5 y" u' "[]"] by simp
  next
    case (nxt s)
    then have q: "q = (upriv u)\<lparr>rpos := of_nat 0, wpos := of_nat s, rbuf := of_nat ((k + 1) mod 2), wbuf := of_nat ((k + 1) mod 2)\<rparr>" and nw: "\<not> wrap"
      using wq v d by simp_all
    have k: "flip u = take (512 * (k + 1) + 0) (arrived u)" "512 * (k + 1) + 0 \<le> length (arrived u)" using d(1,3) nxt(3) by (simp_all add: add.commute)
    have "rx_hw y" "drv_at (k + 1) s y" using ft [OF k q, folded y_def] nxt v(3) vl(2) by simp_all
    then show thesis using caught [of "cs @ ds @ es" "k + 1" s y] nw u' ua vu v nxt(1,3) es e5 drv_at_arrive [of "k + 1" s y "adv 5 y" es] drv_at_arrive [of "k + 1" s "adv 5 y" u' "[]"] by simp
  next
    case rest
    then have q: "q = (upriv u)\<lparr>rpos := of_nat r, wpos := of_nat 512, rbuf := of_nat (k mod 2), wbuf := of_nat (k mod 2)\<rparr>" and wr: "wrap"
      using wq v(4,5) by (simp_all add: eta)
    have "rx_hw y" "drv_at k 512 y" using ft [OF d(3,1) q, folded y_def] rest v(3) vl(2) by simp_all
    moreover have "512 * (k + 1) \<le> length (arrived u) \<and> stm32_dma y = stm32_dma u \<and> rx_irq_pending y = rx_irq_pending u" if "\<forall>i. i \<noteq> 5 \<longrightarrow> adv i = id"
      using vu [OF that] v(3) rest(1) by (simp add: rx_irq_pending_def) (simp add: stm32_dma_def q)
    ultimately show thesis using again [of "cs @ ds"] wr u' ua v rest(2) by simp
  qed
qed

lemma late_arrived: "arrived (stm32_receive (\<lambda>i. arrive_all (if i = 5 then bs else [])) u) \<in> {arrived u, arrived u @ bs}"
proof -
  define adv where "adv = (\<lambda>i :: nat. arrive_all (if i = 5 then bs else []))"
  have adv: "adv i = (if i = 5 then arrive_all bs else id)" for i by (simp add: adv_def)
  have "arrived (rx_fetch adv 8 x) = arrived x" for x using fetch_dma [of 8 adv x] adv by simp
  then have "arrived (stm32_receive adv u) \<in> {arrived u, arrived u @ bs}"
    by (simp add: stm32_receive_def rx_sample_def adv arrive_all_own Let_def split: prod.splits)
  then show ?thesis by (simp add: adv_def)
qed

lemma quiet_arrived: "arrived (stm32_receive (\<lambda>_. id) u) = arrived u"
  using late_arrived [of "[]" u] by simp

section \<open>The receive path as a channel\<close>

text \<open>The transmit half of the interrupt handler leaves the receive side alone.\<close>

definition rx_side :: "uart \<Rightarrow> stm32_usart_priv \<times> u8 list \<times> u8 list \<times> (u32 \<Rightarrow> u8) \<times> irq_world" where
  "rx_side u = (upriv u, flip u, arrived u, umem u, uworld u)"

lemma side_rx:
  assumes "rx_side u' = rx_side u"
  shows "rx_hw u' = rx_hw u" "drv_at k r u' = drv_at k r u" "arrived u' = arrived u" "flip u' = flip u" "rx_irq_pending u' = rx_irq_pending u"
  using assms by (simp_all add: rx_side_def rx_hw_def drv_at_def dma_ct_def rx_stream_def stm32_dma_def rx_irq_pending_def Let_def)

lemma transmit_rx_side: "stm32_transmit en u = Some (Inr u') \<Longrightarrow> rx_side u' = rx_side u"
  by (auto simp: stm32_transmit_def stm32_xmit_char_def stm_port_stop_tx_def upd_uregs_def upd_uport_def upd_xmit_def rx_side_def
      split: if_splits option.splits)

lemma isr_rx:
  assumes "stm32_usart_isr en adv u = Some (Inr (r, u'))"
  shows "rx_side u' = rx_side (if flag (us_msk STM32_USART_ISR_IDLE) (us_isr (uregs u)) then stm32_receive adv (read_rdr (adv 7 u)) else u)"
proof -
  have "stm32_transmit en (isr_received adv u) = Some (Inr u')" using assms by (auto simp: isr_split)
  from transmit_rx_side [OF this] show ?thesis by (auto simp: isr_received_def upd_uregs_def rx_side_def)
qed

text \<open>
  The steps: the hardware does something, or one of the two handlers runs while the hardware goes on. The handlers come early enough: when
  they finish, the stream has not filled two buffers since the beginning of the one that the driver reads. The DMA comes early enough: it takes a
  character before the next one is complete, so that there is no overrun, and before the idle handler reads the receive data register.
\<close>

definition in_time :: "uart \<Rightarrow> uart \<Rightarrow> bool" where
  "in_time u u' \<longleftrightarrow> length (arrived u') + unat (rpos (upriv u)) < length (flip u) + 1024"

inductive uart_rx_step :: "usart_env \<Rightarrow> uart \<Rightarrow> uart \<Rightarrow> bool" for en where
  hw: "\<not> overrun (rx_event_do e u) \<Longrightarrow> uart_rx_step en u (rx_event_do e u)"
| dma: "usart_dma_isr (\<lambda>i. hw_all (evs i)) u = (r, u') \<Longrightarrow> in_time u u' \<Longrightarrow> \<not> overrun u' \<Longrightarrow> uart_rx_step en u u'"
| irq: "stm32_usart_isr en (\<lambda>i. hw_all (evs i)) u = Some (Inr (r, u'))
    \<Longrightarrow> (flag (us_msk STM32_USART_ISR_IDLE) (us_isr (uregs u)) \<longrightarrow> \<not> rxne (hw_all (evs 7) u)) \<Longrightarrow> in_time u u' \<Longrightarrow> \<not> overrun u'
    \<Longrightarrow> uart_rx_step en u u'"

definition rx_ok :: "uart \<Rightarrow> bool" where
  "rx_ok u \<longleftrightarrow> rx_hw u \<and> (\<exists>k r. drv_at k r u)"

lemma in_time_at:
  assumes "drv_at k r u"
  shows "in_time u u' \<longleftrightarrow> length (arrived u') < 512 * (k + 2)"
  using assms unat_small [of r] by (auto simp: drv_at_def in_time_def Let_def)

lemma receive_flow:
  assumes "rx_env adv" "rx_ok u" "in_time u (stm32_receive adv u)"
  shows "rx_ok (stm32_receive adv u)" "\<exists>cs. arrived (stm32_receive adv u) = arrived u @ cs" "\<exists>ys. flip (stm32_receive adv u) = flip u @ ys"
proof -
  define u' where "u' = stm32_receive adv u"
  obtain k r where d: "rx_hw u" "drv_at k r u" using assms(2) by (auto simp: rx_ok_def)
  have t: "length (arrived u') < 512 * (k + 2)" using assms(3) in_time_at [OF d(2)] by (simp add: u'_def)
  have "\<exists>k' r' cs. rx_hw u' \<and> arrived u' = arrived u @ cs \<and> drv_at k' r' u' \<and> 512 * k + r \<le> 512 * k' + r'"
    using assms(1) d u'_def t
  proof (cases rule: receive_spec)
    case (caught k' r' z cs)
    then have "512 * k + r \<le> 512 * k' + r'" using d(2) by (simp add: drv_at_def Let_def)
    then show ?thesis using caught(1-3) by blast
  next
    case (again cs)
    then have "512 * k + r \<le> 512 * k + 512" by simp
    then show ?thesis using again(1-3) by blast
  qed
  then obtain k' r' cs where u': "rx_hw u'" "arrived u' = arrived u @ cs" "drv_at k' r' u'" "512 * k + r \<le> 512 * k' + r'" by blast
  have "flip u' = take (512 * k' + r') (arrived u @ cs)" "flip u = take (512 * k + r) (arrived u @ cs)"
    using u'(2,3) d(2) by (simp_all add: drv_at_def Let_def)
  then have "\<exists>ys. flip u' = flip u @ ys" using u'(4) by (metis le_Suc_ex take_add)
  then show "rx_ok u'" "\<exists>cs. arrived u' = arrived u @ cs" "\<exists>ys. flip u' = flip u @ ys" using u' by (auto simp: rx_ok_def)
qed

lemma rx_ok_split: "rx_ok u \<Longrightarrow> arrived u = flip u @ drop (length (flip u)) (arrived u)"
  by (auto simp: rx_ok_def drv_at_def Let_def)

lemma env_ok:
  assumes "rx_ok u" "rx_hw u \<Longrightarrow> rx_hw v" "rx_own v = rx_own u" "arrived v = arrived u @ cs"
  shows "rx_ok v"
  using assms drv_at_arrive [OF _ assms(3,4)] by (auto simp: rx_ok_def)

lemma isr_flow:
  assumes "rx_env adv" "rx_ok u" "stm32_usart_isr en adv u = Some (Inr (r, u'))" "in_time u u'"
  shows "rx_ok u' \<and> (\<exists>ys. flip u' = flip u @ ys)"
proof (cases "flag (us_msk STM32_USART_ISR_IDLE) (us_isr (uregs u))")
  case True
  define v where "v = read_rdr (adv 7 u)"
  obtain cs where cs: "arrived v = arrived u @ cs" using assms(1) by (auto simp: v_def read_rdr_def regs_rx rx_env_def)
  have own: "rx_own v = rx_own u" using assms(1) by (simp add: v_def read_rdr_def regs_rx rx_env_def)
  have ok: "rx_ok v" by (rule env_ok [OF assms(2) _ own cs]) (use assms(1) in \<open>simp add: v_def read_rdr_def regs_rx rx_env_def\<close>)
  have s: "rx_side u' = rx_side (stm32_receive adv v)" using isr_rx [OF assms(3)] True by (simp add: v_def)
  have "in_time v (stm32_receive adv v)" using assms(4) own by (simp add: in_time_def side_rx(3) [OF s] rx_own_def)
  from receive_flow [OF assms(1) ok this] show ?thesis using own by (auto simp: rx_ok_def side_rx [OF s] rx_own_def)
next
  case False
  then have s: "rx_side u' = rx_side u" using isr_rx [OF assms(3)] by simp
  then show ?thesis using assms(2) by (simp add: rx_ok_def side_rx [OF s])
qed

text \<open>What comes in on the line reaches the stream or waits in the register, unless there was an overrun.\<close>

definition rx_gain :: "uart \<Rightarrow> uart \<Rightarrow> bool" where
  "rx_gain u v \<longleftrightarrow> (overrun u \<longrightarrow> overrun v) \<and>
     (overrun v \<or> (\<exists>cs. line_in v = line_in u @ cs \<and> arrived v @ rdr_wait v = arrived u @ rdr_wait u @ cs))"

lemma gain_trans: "rx_gain u v \<Longrightarrow> rx_gain v w \<Longrightarrow> rx_gain u w"
  unfolding rx_gain_def by (metis append.assoc)

lemma gain_same:
  assumes "us_isr (uregs v) = us_isr (uregs u)" "us_rdr (uregs v) = us_rdr (uregs u)" "line_in v = line_in u" "arrived v = arrived u"
  shows "rx_gain u v"
  using assms by (simp add: rx_gain_def overrun_def rdr_wait_def rxne_def)

lemma arrive_regs: "uregs (dma_arrive b u) = uregs u" "line_in (dma_arrive b u) = line_in u"
  by (simp_all add: dma_arrive_def rx_raise_def upd_rx_stream_def upd_stm32_dma_def Let_def)

lemma u8_of_u32: "ucast (ucast (b :: u8) :: u32) = b"
  by (rule bit_word_eqI) (simp add: bit_simps)

lemma event_gain: "rx_gain u (rx_event_do e u)"
  by (cases e) (auto simp: u8_of_u32 rx_gain_def overrun_def rdr_wait_def rxne_def upd_uregs_def read_rdr_def arrive_regs arrive_own USART_ISR_RXNE_def us_msk.simps
      bit_simps simp del: push_bit_of_1 push_bit_numeral)

lemma events_gain: "rx_gain u (hw_all es u)"
proof (induction es arbitrary: u)
  case (Cons e es)
  show ?case using gain_trans [OF event_gain [of u e] Cons [of "rx_event_do e u"]] by (simp add: hw_all_def)
qed (simp add: gain_same)

lemma receive_gain: "rx_gain u v \<Longrightarrow> rx_gain u (stm32_receive (\<lambda>i. hw_all (evs i)) v)"
proof -
  have "drv_blind (rx_gain u)"
    by (simp add: drv_blind_def rx_gain_def overrun_def rdr_wait_def rxne_def write_dma_ifcr_def upd_stm32_dma_def)
  then show "rx_gain u v \<Longrightarrow> ?thesis" by (rule receive_keeps) (rule gain_trans [OF _ events_gain])
qed

lemma transmit_rx_regs:
  assumes "stm32_transmit en u = Some (Inr u')"
  shows "us_isr (uregs u') = us_isr (uregs u)" "us_rdr (uregs u') = us_rdr (uregs u)" "line_in u' = line_in u"
  using assms by (auto simp: stm32_transmit_def stm32_xmit_char_def stm_port_stop_tx_def upd_uregs_def upd_uport_def upd_xmit_def
      split: if_splits option.splits)

lemma isr_gain:
  assumes "stm32_usart_isr en (\<lambda>i. hw_all (evs i)) u = Some (Inr (r, u'))" "flag (us_msk STM32_USART_ISR_IDLE) (us_isr (uregs u)) \<longrightarrow> \<not> rxne (hw_all (evs 7) u)"
  shows "rx_gain u u'"
proof -
  let ?v = "isr_received (\<lambda>i. hw_all (evs i)) u"
  have "stm32_transmit en ?v = Some (Inr u')" using assms(1) by (auto simp: isr_split)
  then have "rx_gain ?v u'" using transmit_rx_regs [of en ?v u'] transmit_rx_side [of en ?v u'] by (intro gain_same) (simp_all add: rx_side_def)
  moreover have "rx_gain u ?v"
  proof (cases "flag (us_msk STM32_USART_ISR_IDLE) (us_isr (uregs u))")
    case True
    let ?w = "hw_all (evs 7) u"
    have "us_isr (uregs ?w) AND NOT USART_ISR_RXNE = us_isr (uregs ?w)"
      using assms(2) True by (intro bit_word_eqI) (auto simp: rxne_def USART_ISR_RXNE_def bit_simps simp del: push_bit_of_1)
    then have "rx_gain ?w (read_rdr ?w)" by (intro gain_same) (simp_all add: read_rdr_def upd_uregs_def)
    from receive_gain [OF gain_trans [OF events_gain this], of evs]
    have "rx_gain u (stm32_receive (\<lambda>i. hw_all (evs i)) (read_rdr ?w))" .
    from gain_trans [OF this] show ?thesis using True by (simp add: isr_received_def) (simp add: gain_same upd_uregs_def)
  qed (simp add: isr_received_def gain_same)
  ultimately show ?thesis using gain_trans by blast
qed

lemma rx_step_flow:
  assumes "uart_rx_step en u u'"
  shows "rx_ok u \<Longrightarrow> rx_ok u' \<and> (\<exists>ys. flip u' = flip u @ ys)"
    and "\<exists>cs. line_in u' = line_in u @ cs \<and> arrived u' @ rdr_wait u' = arrived u @ rdr_wait u @ cs"
proof -
  have "(rx_ok u \<longrightarrow> rx_ok u' \<and> (\<exists>ys. flip u' = flip u @ ys)) \<and> rx_gain u u' \<and> \<not> overrun u'"
    using assms
  proof cases
    case (hw e)
    obtain cs where cs: "arrived (rx_event_do e u) = arrived u @ cs" using event_env(3) by blast
    have "rx_ok u'" if "rx_ok u" unfolding hw(1) by (rule env_ok [OF that event_env(1,2) cs])
    moreover have "flip u' = flip u" using event_env(2) [of e u] by (simp add: hw(1) rx_own_def)
    ultimately show ?thesis using hw event_gain by auto
  next
    case (dma evs r)
    then have u': "u' = stm32_receive (\<lambda>i. hw_all (evs i)) u" by (simp add: usart_dma_isr_def)
    then show ?thesis using receive_flow [OF events_env, of u evs] dma(2,3) receive_gain [of u u evs] by (simp add: gain_same)
  next
    case (irq evs r)
    then show ?thesis using isr_flow [OF events_env _ irq(1)] isr_gain [OF irq(1,2)] by blast
  qed
  then show "rx_ok u \<Longrightarrow> rx_ok u' \<and> (\<exists>ys. flip u' = flip u @ ys)"
    "\<exists>cs. line_in u' = line_in u @ cs \<and> arrived u' @ rdr_wait u' = arrived u @ rdr_wait u @ cs"
    unfolding rx_gain_def by blast+
qed

definition rx_inv :: "uart \<Rightarrow> bool" where
  "rx_inv u \<longleftrightarrow> rx_ok u \<and> line_in u = arrived u @ rdr_wait u"

lemma rx_step_inv:
  assumes "rx_inv u" "uart_rx_step en u u'"
  shows "rx_inv u'"
proof -
  obtain cs where "line_in u' = line_in u @ cs" "arrived u' @ rdr_wait u' = arrived u @ rdr_wait u @ cs" using rx_step_flow(2) [OF assms(2)] by blast
  then show ?thesis using assms(1) rx_step_flow(1) [OF assms(2)] by (simp add: rx_inv_def)
qed

interpretation urx: channel "uart_rx_step en" rx_inv line_in "\<lambda>u. drop (length (flip u)) (line_in u)" flip for en
proof (unfold_locales, goal_cases)
  case (1 u u')
  then show ?case using rx_step_inv by blast
next
  case (2 u u')
  have pre: "line_in v = flip v @ drop (length (flip v)) (line_in v)" if "rx_inv v" for v
    using that rx_ok_split [of v] unfolding rx_inv_def by (metis append.assoc append_eq_conv_conj)
  obtain cs where c: "line_in u' = line_in u @ cs" using rx_step_flow(2) [OF 2(2)] by blast
  obtain ys where y: "flip u' = flip u @ ys" using rx_step_flow(1) [OF 2(2)] 2(1) by (auto simp: rx_inv_def)
  have "flip u @ drop (length (flip u)) (line_in u) @ cs = flip u @ ys @ drop (length (flip u')) (line_in u')"
    using pre [OF 2(1)] pre [OF rx_step_inv [OF 2]] c y by (metis append.assoc)
  then show ?case using c y by (intro exI [of _ cs] exI [of _ ys]) simp
qed

text \<open>C3. What the serial port receives is handed to the tty layer exactly: however the characters fall in time, between the handlers
  and between the single accesses of a running handler, each character that it copies included, and also around the change of the buffers, the
  tty layer has always got the first characters that the DMA stream took, in order, without a gap or a repetition, and the
  stream has taken all that came in on the line but the one that waits in the receive data register. This is provided that the handlers come before two
  buffers are full, that the DMA takes a character before the next one is complete (no overrun), and that it does so
  before the idle handler reads the receive data register: that read takes a waiting character away, as \<open>uart_rx_rdr_lost\<close> shows.\<close>

theorem uart_rx_exact:
  assumes "(uart_rx_step en)\<^sup>*\<^sup>* u u'" "rx_ok u" "line_in u = arrived u @ rdr_wait u"
  shows "(\<exists>rest. arrived u' = flip u' @ rest) \<and> line_in u' = arrived u' @ rdr_wait u'"
proof -
  have "rx_inv u'" using urx.steps_inv [OF assms(1)] assms(2,3) by (simp add: rx_inv_def)
  then show ?thesis using rx_ok_split [of u'] by (auto simp: rx_inv_def)
qed

text \<open>A port just opened.\<close>

definition ex_open :: uart where
  "ex_open = upd_rx_stream (\<lambda>r. r\<lparr>dma_ndtr := 512, dma_m0ar := 0x90040000, dma_m1ar := 0x90041000\<rparr>) ex_uart"

lemma ex_open_ok: "rx_ok ex_open" "drv_at 0 0 ex_open" "flip ex_open = []" "arrived ex_open = []" "rpos (upriv ex_open) = 0"
proof -
  have b: "bufs_ok (upriv ex_uart)"
  proof -
    have "(0x90040000 :: u32) + of_nat i \<noteq> 0x90041000 + of_nat j" if "i < 512" "j < 512" for i j
    proof
      assume "(0x90040000 :: u32) + of_nat i = 0x90041000 + of_nat j"
      then have "unat ((0x90040000 :: u32) + of_nat i) = unat ((0x90041000 :: u32) + of_nat j)" by simp
      then show False using that by (simp add: unat_word_ariths unat_of_nat)
    qed
    then show ?thesis by (simp add: bufs_ok_def ex_uart_def)
  qed
  show "drv_at 0 0 ex_open" "flip ex_open = []" "arrived ex_open = []" "rpos (upriv ex_open) = 0"
    by (simp_all add: drv_at_def ex_open_def ex_uart_def upd_rx_stream_def upd_stm32_dma_def)
  moreover have "rx_hw ex_open"
    using b by (simp add: rx_hw_def ex_open_def dma_ct_def Let_def)
      (simp add: ex_uart_def rx_stream_def stm32_dma_def irq_world_boot_def soc0_def dma0_def STM32_DMA1_BASE_def STM32_DMA2_BASE_def)
  ultimately show "rx_ok ex_open" by (auto simp: rx_ok_def)
qed

lemma ex_open_line: "line_in ex_open = []" "rdr_wait ex_open = []" "us_isr (uregs ex_open) = 0xC0" "tx_on ex_open"
proof -
  show "line_in ex_open = []" "us_isr (uregs ex_open) = 0xC0"
    by (simp_all add: ex_open_def upd_rx_stream_def upd_stm32_dma_def ex_uart_def)
  then show "rdr_wait ex_open = []" by (simp add: rdr_wait_def rxne_def bit_iff_odd)
  show "tx_on ex_open" using ex_uart_on
    by (simp add: tx_on_def tx_ok_def tx_enabled_def uart_tx_stopped_def ex_open_def upd_rx_stream_def upd_stm32_dma_def)
qed

text \<open>A character comes in, is taken by the DMA, and the DMA handler hands it over.\<close>

theorem uart_rx_exact_witness:
  "let u = rx_event_do Take (rx_event_do (Shift 65) ex_open); u' = snd (usart_dma_isr (\<lambda>_. id) u)
   in (\<exists>rest. arrived u' = flip u' @ rest) \<and> line_in u' = arrived u' @ rdr_wait u'"
proof -
  define s where "s = rx_event_do (Shift 65) ex_open"
  define u where "u = rx_event_do Take s"
  define u' where "u' = snd (usart_dma_isr (\<lambda>_. id) u)"
  have s: "us_isr (uregs s) = 0xE0" "rx_own s = rx_own ex_open" "arrived s = []" "rxne s"
    using ex_open_line(3) ex_open_ok(4) by (simp_all add: s_def rxne_def upd_uregs_def rx_own_def USART_ISR_RXNE_def bit_iff_odd)
  have u: "us_isr (uregs u) = 0xC0" "rx_own u = rx_own ex_open" "length (arrived u) = 1"
    using s by (simp_all add: u_def read_rdr_def regs_rx arrive_own) (simp add: upd_uregs_def arrive_regs USART_ISR_RXNE_def)
  have r: "uregs u' = uregs u"
    unfolding u'_def usart_dma_isr_def snd_conv
    by (rule receive_keeps [where Q = "\<lambda>v. uregs v = uregs u"]) (simp_all add: drv_blind_def write_dma_ifcr_def upd_stm32_dma_def)
  have t: "in_time u u'" using u(2,3) ex_open_ok by (simp add: in_time_def u'_def usart_dma_isr_def quiet_arrived rx_own_def)
  have "uart_rx_step ex_usart_env ex_open s"
    using uart_rx_step.hw [of "Shift 65" ex_open ex_usart_env, folded s_def] s(1) by (simp add: overrun_def bit_iff_odd)
  moreover have "uart_rx_step ex_usart_env s u"
    using uart_rx_step.hw [of Take s ex_usart_env, folded u_def] u(1) by (simp add: overrun_def bit_iff_odd)
  moreover have "usart_dma_isr (\<lambda>i. hw_all ((\<lambda>_. []) i)) u = (IRQ_HANDLED, u')" by (simp add: u'_def usart_dma_isr_def)
  then have "uart_rx_step ex_usart_env u u'" by (rule uart_rx_step.dma [OF _ t]) (simp add: r overrun_def u(1) bit_iff_odd)
  ultimately have "(uart_rx_step ex_usart_env)\<^sup>*\<^sup>* ex_open u'" by (meson rtranclp.rtrancl_refl rtranclp.rtrancl_into_rtrancl)
  from uart_rx_exact [OF this ex_open_ok(1)] show ?thesis by (simp add: ex_open_ok ex_open_line u'_def u_def s_def Let_def)
qed

text \<open>C99. The read of the receive data register in the idle handler loses characters: if a character waits there when the handler runs,
  because the line was idle and the next transmission has begun, the read takes it away before the DMA does. Whatever happens later, the tty layer gets
  the characters before it and the characters after it, but not this one. On this chip the read is not needed, the idle flag is cleared through
  the flag clear register.\<close>

theorem uart_rx_rdr_lost:
  assumes "rx_ok u" "in_time u u" "line_in u = arrived u @ [b]" "rdr_wait u = [b]" "flag (us_msk STM32_USART_ISR_IDLE) (us_isr (uregs u))"
    "stm32_usart_isr en (\<lambda>_. id) u = Some (Inr (h, u'))" "(uart_rx_step en)\<^sup>*\<^sup>* u' u''"
  shows "\<exists>cs rest. line_in u'' = arrived u @ [b] @ cs \<and> arrived u'' @ rdr_wait u'' = arrived u @ cs \<and> arrived u'' = flip u'' @ rest"
proof -
  define v where "v = stm32_receive (\<lambda>_. id) (read_rdr u)"
  have s: "rx_side u' = rx_side v" using isr_rx [OF assms(6)] assms(5) by (simp add: v_def)
  have a: "arrived u' = arrived u" by (simp add: side_rx(3) [OF s] v_def quiet_arrived) (simp add: read_rdr_def upd_uregs_def)
  have t: "stm32_transmit en (isr_received (\<lambda>_. id) u) = Some (Inr u')" using assms(6) by (auto simp: isr_split)
  have v: "uregs v = uregs (read_rdr u) \<and> line_in v = line_in u"
    unfolding v_def by (rule receive_keeps [where Q = "\<lambda>v. uregs v = uregs (read_rdr u) \<and> line_in v = line_in u"])
      (simp_all add: drv_blind_def write_dma_ifcr_def upd_stm32_dma_def, simp add: read_rdr_def upd_uregs_def)
  have "\<not> rxne u'"
    using transmit_rx_regs(1) [OF t] assms(5) v by (simp add: isr_received_def v_def [symmetric] rxne_def upd_uregs_def)
      (simp add: read_rdr_def upd_uregs_def USART_ISR_RXNE_def bit_simps del: push_bit_of_1 push_bit_numeral)
  then have e: "rdr_wait u' = []" "line_in u' = arrived u @ [b]"
    using transmit_rx_regs(3) [OF t] assms(3,5) v by (simp_all add: rdr_wait_def isr_received_def v_def [symmetric] upd_uregs_def)
  have "in_time u u'" using assms(2) a by (simp add: in_time_def)
  then have ok: "rx_ok u'" using isr_flow [OF id_env assms(1,6)] by blast
  have "rx_ok u'' \<and> (\<exists>cs. line_in u'' = line_in u' @ cs \<and> arrived u'' @ rdr_wait u'' = arrived u' @ rdr_wait u' @ cs)"
    using assms(7)
  proof (induction rule: rtranclp_induct)
    case (step y z)
    then obtain cs where "rx_ok y" "line_in y = line_in u' @ cs" "arrived y @ rdr_wait y = arrived u' @ rdr_wait u' @ cs" by blast
    moreover obtain ds where "line_in z = line_in y @ ds" "arrived z @ rdr_wait z = arrived y @ rdr_wait y @ ds" using rx_step_flow(2) [OF step.hyps(2)] by blast
    ultimately show ?case using rx_step_flow(1) [OF step.hyps(2)] by (metis append.assoc)
  qed (use ok in simp)
  then show ?thesis using a e rx_ok_split [of u''] by auto
qed

theorem uart_rx_rdr_lost_witness:
  "\<exists>u'. stm32_usart_isr ex_usart_env (\<lambda>_. id) (rx_event_do (Idle True) (rx_event_do (Shift 65) ex_open)) = Some (Inr (IRQ_HANDLED, u'))
    \<and> line_in u' = [65] \<and> arrived u' = [] \<and> rdr_wait u' = []"
proof -
  define u where "u = rx_event_do (Idle True) (rx_event_do (Shift 65) ex_open)"
  have r: "\<not> rxne ex_open" by (simp add: rxne_def ex_open_line(3) bit_iff_odd)
  have isr: "us_isr (uregs u) = 0xF0" "us_rdr (uregs u) = 65" "line_in u = [65]"
    using r by (simp_all add: u_def upd_uregs_def ex_open_line USART_ISR_RXNE_def us_msk.simps)
  have own: "rx_own u = rx_own ex_open" "arrived u = []" and hw: "rx_hw u = rx_hw ex_open"
    by (simp_all add: u_def regs_rx ex_open_ok)
  have w: "rdr_wait u = [65]" by (simp add: rdr_wait_def rxne_def isr bit_iff_odd)
  have "rx_ok u" by (rule env_ok [OF ex_open_ok(1) _ own(1), of "[]"]) (simp_all add: hw own ex_open_ok)
  moreover have "in_time u u" using own ex_open_ok by (simp add: in_time_def rx_own_def)
  moreover have "tx_side u = tx_side ex_open" by (simp add: u_def upd_uregs_def tx_side_def)
  from side_tx_on(1) [OF this] ex_open_line(4) have "tx_on u" by simp
  then obtain u' where u': "stm32_usart_isr ex_usart_env (\<lambda>_. id) u = Some (Inr (IRQ_HANDLED, u'))"
    using isr_live [OF ex_txe _ rx_only_id] by blast
  ultimately have "\<exists>cs rest. line_in u' = arrived u @ [65] @ cs \<and> arrived u' @ rdr_wait u' = arrived u @ cs \<and> arrived u' = flip u' @ rest"
    using uart_rx_rdr_lost [OF _ _ _ w _ u' rtranclp.rtrancl_refl] isr own by (simp add: flag_def us_msk.simps)
  moreover have "line_in u' = line_in u"
  proof -
    have "stm32_transmit ex_usart_env (isr_received (\<lambda>_. id) u) = Some (Inr u')" using u' by (auto simp: isr_split)
    then have "line_in u' = line_in (isr_received (\<lambda>_. id) u)" by (rule transmit_rx_regs(3))
    also have "\<dots> = line_in u"
      using receive_keeps [where Q = "\<lambda>v. line_in v = line_in u" and adv = "\<lambda>_. id" and u = "read_rdr u"]
      by (simp add: isr_received_def upd_uregs_def read_rdr_def drv_blind_def write_dma_ifcr_def upd_stm32_dma_def)
    finally show ?thesis .
  qed
  ultimately show ?thesis unfolding u_def [symmetric] using u' isr(3) own(2) by auto
qed

section \<open>Nothing is left behind, unless the acknowledgement comes too early\<close>

lemma ack_not_pending: "\<not> rx_irq_pending (rx_ack u)"
proof -
  have a: "(x AND NOT (x AND m)) AND m = 0" "x AND m = 0 \<Longrightarrow> (x AND NOT y) AND m = 0" for x y m :: u32
  proof -
    show "(x AND NOT (x AND m)) AND m = 0" by (rule bit_word_eqI) (auto simp: bit_simps)
    assume z: "x AND m = 0"
    have "\<not> (bit x n \<and> bit m n)" for n using bit_and_iff [of x m n] unfolding z by simp
    then show "(x AND NOT y) AND m = 0" by (intro bit_word_eqI) (auto simp: bit_simps)
  qed
  have s: "dma_hisr (stm32_dma (write_dma_ifcr x u)) = dma_hisr (stm32_dma u)" "dma_lisr (stm32_dma (write_dma_ifcr x u)) = dma_lisr (stm32_dma u)"
    "dma_hi (upriv u) \<Longrightarrow> dma_hifcr (stm32_dma (write_dma_ifcr x u)) = x" "\<not> dma_hi (upriv u) \<Longrightarrow> dma_lifcr (stm32_dma (write_dma_ifcr x u)) = x"
    "upriv (write_dma_ifcr x u) = upriv u" for x
    by (simp_all add: write_dma_ifcr_def upd_stm32_dma_def stm32_dma_def upd_iw_soc_def Let_def)
  show ?thesis using a unfolding rx_irq_pending_def rx_ack_def rx_dma_isr_def Let_def
    by (auto simp only: s if_True if_False split: if_split)
qed

lemma drv_at_all: "drv_at k r u \<Longrightarrow> length (arrived u) \<le> 512 * k + r \<Longrightarrow> flip u = arrived u"
  by (simp add: drv_at_def Let_def)

lemma quiet_spec:
  assumes "rx_hw u" "drv_at k r u" "length (arrived u) < 512 * (k + 2)" "u' = stm32_receive (\<lambda>_. id) u"
  obtains (caught) z where "flip u' = arrived u" "\<not> rx_irq_pending u'" "r = 512 \<or> length (arrived u) < 512 * (k + 1)" "u' = rx_ack z"
  | (again) "rx_hw u'" "drv_at k 512 u'" "r < 512" "stm32_dma u' = stm32_dma u" "rx_irq_pending u' = rx_irq_pending u"
proof -
  have a: "arrived u' = arrived u" by (simp add: assms(4) quiet_arrived)
  have t: "length (arrived u') < 512 * (k + 2)" using assms(3) a by simp
  show thesis
    using id_env assms(1,2,4) t
  proof (cases rule: receive_spec)
    case (caught k' r' z cs)
    then have "flip u' = arrived u'" using drv_at_all [of k' r' u'] a by simp
    then show thesis using that(1) [of z] caught a ack_not_pending [of z] by simp
  next
    case (again cs)
    then show thesis using that(2) by simp
  qed
qed


lemma ex_arrived:
  "rx_hw (arrive_all bs ex_open)" "drv_at 0 0 (arrive_all bs ex_open)" "arrived (arrive_all bs ex_open) = bs"
  "rx_ok (arrive_all bs ex_open)" "rpos (upriv (arrive_all bs ex_open)) = 0" "flip (arrive_all bs ex_open) = []"
proof -
  have o: "rx_own (arrive_all bs ex_open) = rx_own ex_open" "arrived (arrive_all bs ex_open) = bs"
    by (simp_all add: arrive_all_own ex_open_ok)
  show hw: "rx_hw (arrive_all bs ex_open)" using ex_open_ok(1) by (simp add: rx_ok_def arrive_all_hw)
  show d: "drv_at 0 0 (arrive_all bs ex_open)" by (rule drv_at_arrive [OF ex_open_ok(2) o(1), of bs]) (simp add: o ex_open_ok)
  show "arrived (arrive_all bs ex_open) = bs" by (rule o)
  show "rx_ok (arrive_all bs ex_open)" using hw d by (auto simp: rx_ok_def)
  show "rpos (upriv (arrive_all bs ex_open)) = 0" "flip (arrive_all bs ex_open) = []" using d by (simp_all add: drv_at_def Let_def)
qed


text \<open>C34. The acknowledgement can come too early: if the stream fills the buffer and goes on in the next one after a handler has
  sampled its position and before it reads the flags, the handler acknowledges the flag of the full buffer without having seen it.
  When the line then falls idle, the idle handler reads the old buffer to its end and relies on that flag to be called again: no interrupt is
  pending any more, and the characters in the new buffer stay there until more characters arrive.\<close>

theorem uart_rx_ack_race:
  assumes "rx_hw u" "drv_at k r u" "length (arrived u) < 512 * (k + 1)"
    "512 * (k + 1) < length (arrived u @ bs)" "length (arrived u @ bs) < 512 * (k + 2)"
    "usart_dma_isr (\<lambda>i. arrive_all (if i = 5 then bs else [])) u = (h, u1)"
    "flag (us_msk STM32_USART_ISR_IDLE) (us_isr regs)" "stm32_usart_isr en (\<lambda>_. id) (u1\<lparr>uregs := regs\<rparr>) = Some (Inr (h', u2))"
  shows "arrived u2 = arrived u @ bs \<and> flip u2 = take (512 * (k + 1)) (arrived u2) \<and> length (flip u2) < length (arrived u2) \<and> \<not> rx_irq_pending u2"
proof -
  define adv where "adv = (\<lambda>i :: nat. arrive_all (if i = 5 then bs else []))"
  have env: "rx_env adv" and adv: "i \<noteq> 5 \<Longrightarrow> adv i = id" "adv 5 = arrive_all bs" for i
    using arrive_env [of "\<lambda>i. if i = 5 then bs else []"] by (simp_all add: adv_def)
  have u1: "u1 = stm32_receive adv u" using assms(6) by (simp add: usart_dma_isr_def adv_def)
  have t: "length (arrived u1) < 512 * (k + 2)" using late_arrived [of bs u] assms(4,5) by (auto simp: u1 adv_def)
  obtain r' where d: "rx_hw u1" "drv_at k r' u1" "r' < 512" "arrived u1 = arrived u @ bs" "\<not> rx_irq_pending u1"
    using env assms(1,2) u1 t
  proof (cases rule: receive_spec)
    case (caught k' r' z cs)
    have z: "arrived z = arrived u" using caught(9) adv by simp
    have a: "arrived u1 = arrived u @ bs" unfolding caught(7) by (simp add: z adv arrive_all_own)
    have np: "\<not> rx_irq_pending u1" unfolding caught(7) by (rule ack_not_pending)
    have "512 * k' + r' = length (arrived u)" using caught(4,8) z by (simp add: drv_at_def Let_def)
    then have "k' = k" "r' < 512" using assms(3) caught(5) by simp_all
    then show thesis using that [OF caught(2) _ _ a np] caught(3) by simp
  next
    case (again cs)
    then show thesis using assms(3) adv by simp
  qed
  define x where "x = read_rdr (u1\<lparr>uregs := regs\<rparr>)"
  define v where "v = stm32_receive (\<lambda>_. id) x"
  have s: "rx_side u2 = rx_side v" using isr_rx [OF assms(8)] assms(7) by (simp add: v_def x_def)
  have w: "rx_side x = rx_side u1" by (simp add: x_def read_rdr_def upd_uregs_def rx_side_def)
  note d' = d [folded side_rx [OF w]]
  have l: "length (arrived x) < 512 * (k + 2)" using d'(4) assms(5) by simp
  have "drv_at k 512 v \<and> \<not> rx_irq_pending v"
    using d'(1,2) l v_def by (cases rule: quiet_spec) (use d' assms(4) d(3) in auto)
  then show ?thesis
    using assms(4) d(4) quiet_arrived [of x] side_rx(3) [OF w] by (simp add: side_rx [OF s] v_def [symmetric]) (simp add: drv_at_def Let_def add.commute)
qed

theorem uart_rx_ack_race_witness:
  "let u = arrive_all (replicate 511 65) ex_open;
       u1 = snd (usart_dma_isr (\<lambda>i. arrive_all (if i = 5 then [66, 67, 68] else [])) u);
       v = u1\<lparr>uregs := (uregs ex_uart)\<lparr>us_isr := 0x10\<rparr>\<rparr>
   in \<exists>u2. stm32_usart_isr ex_usart_env (\<lambda>_. id) v = Some (Inr (IRQ_HANDLED, u2))
     \<and> arrived u2 = replicate 511 65 @ [66, 67, 68] \<and> flip u2 = replicate 511 65 @ [66] \<and> \<not> rx_irq_pending u2"
proof -
  define u where "u = arrive_all (replicate 511 65) ex_open"
  define u1 where "u1 = snd (usart_dma_isr (\<lambda>i. arrive_all (if i = 5 then [66, 67, 68] else [])) u)"
  define v where "v = u1\<lparr>uregs := (uregs ex_uart)\<lparr>us_isr := 0x10\<rparr>\<rparr>"
  have d: "rx_hw u" "drv_at 0 0 u" "arrived u = replicate 511 65" by (simp_all add: u_def ex_arrived)
  have "tx_side u1 = tx_side ex_open"
    using receive_tx_side [OF arrive_rx_only, of "\<lambda>i. if i = 5 then [66, 67, 68] else []" u] by (simp add: u1_def u_def usart_dma_isr_def arrive_all_own)
  then have "tx_on v" using ex_uart_on
    by (simp add: v_def tx_side_def tx_on_def tx_ok_def tx_enabled_def uart_tx_stopped_def ex_open_def upd_rx_stream_def upd_stm32_dma_def)
  then obtain u2 where u2: "stm32_usart_isr ex_usart_env (\<lambda>_. id) v = Some (Inr (IRQ_HANDLED, u2))"
    using isr_live [OF ex_txe _ rx_only_id] by blast
  have "arrived u2 = arrived u @ [66, 67, 68] \<and> flip u2 = take (512 * (0 + 1)) (arrived u2) \<and> length (flip u2) < length (arrived u2) \<and> \<not> rx_irq_pending u2"
    by (rule uart_rx_ack_race [OF d(1,2) _ _ _ _ _ u2 [unfolded v_def]]) (simp_all add: d u1_def usart_dma_isr_def bit_iff_odd)
  then show ?thesis using u2 d(3) by (simp add: u_def [symmetric] u1_def [symmetric] v_def [symmetric] Let_def)
qed

end
