(* ===== verification/Uart_Open.thy ===== *)
theory Uart_Open
  imports Uart_Port Uart_Rx Dmamem_Props Irq_Init
begin

text \<open>
  Opening and closing a serial port: the receive buffers come from the DMA memory (\<open>Dmamem\<close>), the interrupts from the interrupt core (\<open>Irq\<close>).
  Opening makes both data paths ready (the invariants of \<open>Uart_Tx\<close> and \<open>Uart_Rx\<close>); closing does not give the buffers
  back. The last sections are about the line speed and the DMA streams of the ports.
\<close>

section \<open>The buffers\<close>

lemma buf_req: "dm_req H 512 0 \<longleftrightarrow> H + 8704 \<le> 2 ^ 32"
  by (simp add: dm_req_def)

lemma buf_need: "req_need 512 = 4096" "req_align 0 = 4096"
  using unat_dm_align [of 0] by (simp_all add: align_up_def)

lemma page_fits:
  assumes "dm_wf L H d"
  shows "fit 4096 4096 d"
proof -
  have "4096 dvd lo d" "4096 dvd hi d" "lo d < hi d" using assms by (simp_all add: dm_wf_def)
  then have "4096 dvd hi d - lo d" "0 < hi d - lo d" by simp_all
  then have "lo d + 4096 \<le> hi d" using dvd_imp_le [of 4096 "hi d - lo d"] by linarith
  then show ?thesis using align_up_id [of 4096 "lo d"] assms by (simp add: fit_def dm_wf_def)
qed

lemma free_finite: "finite (free_set h)"
  by (simp add: free_set_def blk_def)

text \<open>A page is taken, or nothing is free.\<close>

lemma alloc_page:
  assumes "dm_ok L H h" "H + 8704 \<le> 2 ^ 32"
  obtains (full) "free_set h = {}" "dma_alloc_coherent (True, True) 512 h = Inr (0, h)"
    | (page) b h' d where "dma_alloc_coherent (True, True) 512 h = Inr (b, h')" "b \<noteq> 0" "dm_ok L H h'" "dm_lst_used h' = d # dm_lst_used h"
      "dm_blk_base d = b" "blk d = {unat b ..< unat b + 4096}" "unat b + 4096 < 2 ^ 32" "blk d \<subseteq> free_set h" "free_set h' = free_set h - blk d"
      "dma_free_coherent b h' = h"
proof -
  have r: "dm_req H 512 0" using assms(2) by (simp add: buf_req)
  note f = dm_req_facts [OF r]
  show thesis
  proof (cases rule: dmamem_alloc_cases [OF assms(1) r, of True True, case_names none nomem cut])
    case none
    have "dm_lst_free h = []"
    proof (rule ccontr)
      assume "dm_lst_free h \<noteq> []"
      then obtain d where d: "d \<in> set (dm_lst_free h)" by (cases "dm_lst_free h") auto
      then have "dm_wf L H d" using assms(1) by (simp add: dm_ok_def)
      then show False using none(1) d page_fits buf_need by auto
    qed
    then show thesis using full none(2) by (simp add: free_set_def dma_alloc_coherent_def)
  next
    case (cut b h')
    note c = alloc_cut_ok [OF assms(1) cut(2) f(5,2,6,4)]
    obtain d where d: "dm_lst_used h' = d # dm_lst_used h" "dm_blk_base d = b" "dm_wf L H d" "hi d = lo d + 4096"
      "blk d \<subseteq> free_set h" "free_set h' = free_set h - blk d" using c(2) unfolding buf_need by blast
    have b: "b \<noteq> 0" using d(2,3) assms(1) by (auto simp: dm_wf_def dm_ok_def lo_def)
    have "dmamem_free b h' = h" by (rule alloc_free_inverse [OF assms(1) r cut(1) b])
    moreover have "hi d < 2 ^ 32" using d(3) assms(1) by (simp add: dm_wf_def dm_ok_def)
    ultimately show thesis using page [of b h' d] cut(1) b c(1) d
      by (simp add: dma_alloc_coherent_def dma_free_coherent_def blk_def lo_def)
  qed simp
qed

lemma card_page:
  assumes "blk d = {b ..< b + 4096}" "blk d \<subseteq> free_set h"
  shows "card (free_set h - blk d) + 4096 = card (free_set h)"
proof -
  have "card (free_set h - blk d) = card (free_set h) - card (blk d)" using assms by (intro card_Diff_subset) (simp_all add: blk_def)
  moreover have "card (blk d) = 4096" using assms(1) by simp
  moreover have "card (blk d) \<le> card (free_set h)" using assms(2) free_finite by (intro card_mono) simp_all
  ultimately show ?thesis by linarith
qed

text \<open>Both buffers of a port.\<close>

definition set_bufs :: "u32 \<Rightarrow> u32 \<Rightarrow> stm32_usart_priv \<Rightarrow> stm32_usart_priv" where
  "set_bufs b c p = p\<lparr>rxb := (rxb p)(0 := b, 1 := c), rxb_dma := (rxb_dma p)(0 := b, 1 := c)\<rparr>"

lemma alloc_bufs:
  assumes "dm_ok L H (uheap u)" "H + 8704 \<le> 2 ^ 32" "env_dm en = (\<lambda>_. (True, True))"
  obtains (full) u' where "card (free_set (uheap u)) < 8192" "rxb_alloc en [0, 1] u = Inr (False, u')" "uheap u' = uheap u"
    | (two) b c h where "rxb_alloc en [0, 1] u = Inr (True, (upd_upriv (set_bufs b c) u)\<lparr>uheap := h\<rparr>)" "dm_ok L H h"
      "{unat b ..< unat b + 4096} \<inter> {unat c ..< unat c + 4096} = {}" "unat b + 4096 < 2 ^ 32" "unat c + 4096 < 2 ^ 32"
      "card (free_set h) + 8192 = card (free_set (uheap u))"
proof -
  have l: "STM32_DMA_RX_BUF_LEN = 512" by (simp add: STM32_DMA_RX_BUF_LEN_def)
  show thesis
  proof (cases rule: alloc_page [OF assms(1,2), case_names full page])
    case full
    then show thesis using that(1) by (simp add: assms(3) l upd_upriv_def)
  next
    case (page b h d)
    show thesis
    proof (cases rule: alloc_page [OF page(3) assms(2), case_names full page])
      case full
      have "card (free_set (uheap u) - blk d) = 0" using full(1) page(9) by (metis card.empty)
      then have "card (free_set (uheap u)) = 4096" using card_page [OF page(6,8)] by simp
      then show thesis using that(1) page full
        by (simp add: assms(3) l upd_upriv_def rxb_free_def)
    next
      case (page c h' e)
      note p = \<open>dma_alloc_coherent (True, True) 512 (uheap u) = Inr (b, h)\<close> \<open>b \<noteq> 0\<close> page(1,2)
      have "blk d \<inter> blk e = {}" using page(8) \<open>free_set h = free_set (uheap u) - blk d\<close> by blast
      moreover have "card (free_set h') + 8192 = card (free_set (uheap u))"
        using card_page [OF page(6,8)] card_page [OF \<open>blk d = {unat b ..< unat b + 4096}\<close> \<open>blk d \<subseteq> free_set (uheap u)\<close>]
          page(9) \<open>free_set h = free_set (uheap u) - blk d\<close> by simp
      moreover have "rxb_alloc en [0, 1] u = Inr (True, (upd_upriv (set_bufs b c) u)\<lparr>uheap := h'\<rparr>)"
        using p by (simp add: assms(3) l upd_upriv_def set_bufs_def)
      ultimately show thesis
        using that(2) [where b = b and c = c and h = h'] page \<open>blk d = {unat b ..< unat b + 4096}\<close> \<open>unat b + 4096 < 2 ^ 32\<close> by simp
    qed
  qed
qed

section \<open>Opening\<close>

text \<open>What opening and closing need: memory for the descriptors, interrupts that nobody has, a stream that stops.\<close>

definition open_env :: "usart_env \<Rightarrow> bool" where
  "open_env en \<longleftrightarrow> env_dm en = (\<lambda>_. (True, True)) \<and> env_irqmem en = (\<lambda>_. True) \<and> env_dma_off en"

definition port_closed :: "nat \<Rightarrow> nat \<Rightarrow> uart \<Rightarrow> bool" where
  "port_closed L H u \<longleftrightarrow> dm_ok L H (uheap u) \<and> H + 8704 \<le> 2 ^ 32
     \<and> irq_idle (uworld u) (usart_irq (upriv u)) \<and> irq_idle (uworld u) (dma_irq (upriv u)) \<and> usart_irq (upriv u) \<noteq> dma_irq (upriv u)"

text \<open>The line has one handler, \<open>h\<close>, with the cookie \<open>dev\<close>, and the controller lets it through.\<close>

definition irq_held :: "nat \<Rightarrow> nat \<Rightarrow> u32 \<Rightarrow> irq_world \<Rightarrow> bool" where
  "irq_held irq h dev w \<longleftrightarrow> nvic_line w irq \<and> nvic_on w irq \<and> \<not> bit (status (irq_descs w irq)) 8 \<and> (\<forall>k \<in> {18, 19, 26, 28}. \<not> bit (status (irq_descs w irq)) k)
     \<and> (\<exists>a. action (irq_descs w irq) = [a] \<and> act_handler a = h \<and> act_dev_id a = dev)"

text \<open>The state of an open port: the buffers, the stream and the registers as the startup sets them.\<close>

definition port_opened :: "usart_env \<Rightarrow> nat \<Rightarrow> nat \<Rightarrow> uart \<Rightarrow> uart \<Rightarrow> bool" where
  "port_opened en L H u u' \<longleftrightarrow>
     dm_ok L H (uheap u') \<and> card (free_set (uheap u')) + 8192 = card (free_set (uheap u))
     \<and> irq_held (usart_irq (upriv u)) (env_isr en) (env_dev en) (uworld u') \<and> irq_held (dma_irq (upriv u)) (env_dma_isr en) (env_dev en) (uworld u')
     \<and> (\<exists>b c. {unat b ..< unat b + 4096} \<inter> {unat c ..< unat c + 4096} = {} \<and> unat b + 4096 < 2 ^ 32 \<and> unat c + 4096 < 2 ^ 32
         \<and> upriv u' = (set_bufs b c (upriv u))\<lparr>wbuf := 0, wpos := 0, rbuf := 0, rpos := 0\<rparr>
         \<and> dma_m0ar (rx_stream u') = b \<and> dma_m1ar (rx_stream u') = c)
     \<and> dma_cr (rx_stream u') = rx_dma_cr (upriv u) OR CR_EN \<and> dma_ndtr (rx_stream u') = 512 \<and> dma_par (rx_stream u') = reg_usart_base (upriv u) + 0x24
     \<and> us_cr1 (uregs u') = 0x9D \<and> us_cr2 (uregs u') = 0 \<and> us_cr3 (uregs u') = 0x40
     \<and> line_in u' = line_in u \<and> us_isr (uregs u') = us_isr (uregs u) \<and> us_rdr (uregs u') = us_rdr (uregs u)
     \<and> (uport u', xmit u', wire u', flip u', arrived u', tty_stopped u', hw_stopped u') = (uport u, xmit u, wire u, flip u, arrived u, tty_stopped u, hw_stopped u)"

lemma usart_irqf: "\<not> bit USART_IRQF 13" "\<not> bit USART_IRQF 7"
  by (simp_all add: USART_IRQF_def irqf.simps bit_iff_odd)

lemma request_held:
  assumes "irq_idle w irq"
  obtains v where "request_irq hw True irq (Some h) USART_IRQF dev w = Inr (0, v)" "irq_held irq h dev v" "nr_irqs v = nr_irqs w" "iw_soc v = iw_soc w"
    "\<forall>j. j \<noteq> irq \<longrightarrow> irq_descs v j = irq_descs w j \<and> nvic_on v j = nvic_on w j"
proof -
  have i: "irq < nr_irqs w" "chip_of irq w = Nvic_chip" "handle_irq (irq_descs w irq) = Handle_level_irq" "action (irq_descs w irq) = []"
    "\<forall>k \<in> {18, 19, 26, 28}. \<not> bit (status (irq_descs w irq)) k" using assms by (simp_all add: irq_idle_def)
  have f: "bit USART_IRQF 7 \<longrightarrow> dev \<noteq> 0" using usart_irqf by simp
  show thesis
    by (rule request_nvic [OF i usart_irqf(1) f, where h = h and hw = hw]) (rule that; simp add: irq_held_def)
qed

lemma irq_transfer:
  assumes "j \<noteq> irq" "nr_irqs v = nr_irqs w" "\<forall>j. j \<noteq> irq \<longrightarrow> irq_descs v j = irq_descs w j \<and> nvic_on v j = nvic_on w j"
  shows "irq_idle v j = irq_idle w j" "irq_held j h dev v = irq_held j h dev w"
  using assms by (simp_all add: irq_idle_def irq_held_def nvic_line_def)

lemma held_soc [simp]: "irq_held irq h dev (upd_iw_soc f w) = irq_held irq h dev w" "irq_idle (upd_iw_soc f w) irq = irq_idle w irq"
  by (simp_all add: irq_held_def irq_idle_def nvic_line_def nvic_on_def upd_iw_soc_def)

lemma usart_start_ok:
  obtains brr where "usart_start en u = Inr (u\<lparr>uregs := (uregs u)\<lparr>us_cr1 := 0x9D, us_cr2 := 0, us_cr3 := 0x40, us_brr := brr\<rparr>\<rparr>)"
proof -
  have "\<exists>brr. usart_start en u = Inr (u\<lparr>uregs := (uregs u)\<lparr>us_cr1 := 0x9D, us_cr2 := 0, us_cr3 := 0x40, us_brr := brr\<rparr>\<rparr>)"
  proof (cases "us_brr (uregs u) AND (STM32_USART_BRR_F_MSK OR push_bit STM32_USART_BRR_M_BIT STM32_USART_BRR_M_MSK) = 0")
    case True
    show ?thesis by (rule exI [of _ "ucast (brr_value (port_clock en u) 115200)"])
      (use True in \<open>simp add: usart_start_def stm_set_baud_rate_def upd_uregs_def us_msk.simps port_clock_def Let_def\<close>)
  next
    case False
    show ?thesis by (rule exI [of _ "us_brr (uregs u)"]) (use False in \<open>simp add: usart_start_def upd_uregs_def us_msk.simps Let_def\<close>)
  qed
  then show thesis using that by blast
qed

lemma bufs_other [simp]:
  "usart_irq (set_bufs b c p) = usart_irq p" "dma_irq (set_bufs b c p) = dma_irq p" "reg_dma_base (set_bufs b c p) = reg_dma_base p"
  "ini_stream (set_bufs b c p) = ini_stream p" "ini_chan (set_bufs b c p) = ini_chan p" "reg_usart_base (set_bufs b c p) = reg_usart_base p"
  "rxb_dma (set_bufs b c p) 0 = b" "rxb_dma (set_bufs b c p) (Suc 0) = c" "rxb (set_bufs b c p) 0 = b" "rxb (set_bufs b c p) (Suc 0) = c"
  "dma_hi (set_bufs b c p) = dma_hi p"
  by (simp_all add: set_bufs_def)

lemma stream_other:
  "rx_stream (u\<lparr>uregs := r\<rparr>) = rx_stream u" "irq_held irq h dev (uworld (upd_rx_stream f u)) = irq_held irq h dev (uworld u)" "line_in (upd_rx_stream f u) = line_in u"
  "uregs (upd_rx_stream f u) = uregs u" "uport (upd_rx_stream f u) = uport u" "xmit (upd_rx_stream f u) = xmit u" "wire (upd_rx_stream f u) = wire u"
  "tty_stopped (upd_rx_stream f u) = tty_stopped u" "hw_stopped (upd_rx_stream f u) = hw_stopped u" "uheap (upd_rx_stream f u) = uheap u"
  by (simp_all add: upd_rx_stream_def upd_stm32_dma_def rx_stream_def stm32_dma_def)

lemma opened_state:
  fixes u :: uart and g :: "dma_ch_regs \<Rightarrow> dma_ch_regs"
  defines "v \<equiv> upd_upriv (\<lambda>p. p\<lparr>wbuf := 0, wpos := 0, rbuf := 0, rpos := 0\<rparr>) u"
  defines "x b c h w \<equiv> (upd_upriv (set_bufs b c) v)\<lparr>uheap := h, uworld := w\<rparr>"
  assumes "dm_ok L H h" "card (free_set h) + 8192 = card (free_set (uheap u))"
    "irq_held (usart_irq (upriv u)) (env_isr en) (env_dev en) w" "irq_held (dma_irq (upriv u)) (env_dma_isr en) (env_dev en) w"
    "{unat b ..< unat b + 4096} \<inter> {unat c ..< unat c + 4096} = {}" "unat b + 4096 < 2 ^ 32" "unat c + 4096 < 2 ^ 32"
  defines "y \<equiv> rx_dma_start (upd_rx_stream g (x b c h w))"
  shows "port_opened en L H u (y\<lparr>uregs := (uregs y)\<lparr>us_cr1 := 0x9D, us_cr2 := 0, us_cr3 := 0x40, us_brr := brr\<rparr>\<rparr>)"
proof -
  have p: "upriv (x b c h w) = (set_bufs b c (upriv u))\<lparr>wbuf := 0, wpos := 0, rbuf := 0, rpos := 0\<rparr>" "uheap (x b c h w) = h" "uworld (x b c h w) = w"
    "uregs (x b c h w) = uregs u" "uport (x b c h w) = uport u" "xmit (x b c h w) = xmit u" "wire (x b c h w) = wire u" "flip (x b c h w) = flip u"
    "arrived (x b c h w) = arrived u" "line_in (x b c h w) = line_in u" "tty_stopped (x b c h w) = tty_stopped u" "hw_stopped (x b c h w) = hw_stopped u"
    by (simp_all add: x_def v_def upd_upriv_def set_bufs_def)
  have cr: "rx_dma_cr ((set_bufs b c (upriv u))\<lparr>wbuf := 0, wpos := 0, rbuf := 0, rpos := 0\<rparr>) = rx_dma_cr (upriv u)" by (simp add: rx_dma_cr_def)
  show ?thesis
    unfolding port_opened_def y_def rx_dma_start_def using assms(3-9)
    by (simp add: stream_other p cr STM32_DMA_RX_BUF_LEN_def del: dma_bit.simps dma_msk.simps)
qed

lemma startup_opens:
  assumes "open_env en" "port_closed L H u"
  shows "if card (free_set (uheap u)) < 8192 then \<exists>u'. stm_port_startup en u = Some (Inr (- ENOMEM, u')) \<and> uheap u' = uheap u
    else \<exists>u'. stm_port_startup en u = Some (Inr (0, u')) \<and> port_opened en L H u u'"
proof -
  define v where "v = upd_upriv (\<lambda>p. p\<lparr>wbuf := 0, wpos := 0, rbuf := 0, rpos := 0\<rparr>) u"
  have c: "dm_ok L H (uheap v)" "H + 8704 \<le> 2 ^ 32" "irq_idle (uworld v) (usart_irq (upriv v))" "irq_idle (uworld v) (dma_irq (upriv v))"
    "usart_irq (upriv v) \<noteq> dma_irq (upriv v)" "uheap v = uheap u" using assms(2) by (simp_all add: port_closed_def v_def upd_upriv_def)
  have e: "env_dm en = (\<lambda>_. (True, True))" "env_irqmem en = (\<lambda>_. True)" "env_dma_off en" using assms(1) by (simp_all add: open_env_def)
  show ?thesis
  proof (cases rule: alloc_bufs [OF c(1,2) e(1), case_names full two])
    case (full u')
    then show ?thesis using c(6) by (simp add: stm_port_startup_def v_def [symmetric])
  next
    case (two b c' h)
    obtain w1 where w1: "request_irq (env_pr en) True (usart_irq (upriv v)) (Some (env_isr en)) USART_IRQF (env_dev en) (uworld v) = Inr (0, w1)"
      "irq_held (usart_irq (upriv v)) (env_isr en) (env_dev en) w1" "nr_irqs w1 = nr_irqs (uworld v)" "iw_soc w1 = iw_soc (uworld v)"
      "\<forall>j. j \<noteq> usart_irq (upriv v) \<longrightarrow> irq_descs w1 j = irq_descs (uworld v) j \<and> nvic_on w1 j = nvic_on (uworld v) j"
      by (rule request_held [OF c(3)])
    have "irq_idle w1 (dma_irq (upriv v))" using irq_transfer(1) [OF _ w1(3,5)] c(4,5) by metis
    then obtain w2 where w2: "request_irq (env_pr en) True (dma_irq (upriv v)) (Some (env_dma_isr en)) USART_IRQF (env_dev en) w1 = Inr (0, w2)"
      "irq_held (dma_irq (upriv v)) (env_dma_isr en) (env_dev en) w2" "nr_irqs w2 = nr_irqs w1" "iw_soc w2 = iw_soc w1"
      "\<forall>j. j \<noteq> dma_irq (upriv v) \<longrightarrow> irq_descs w2 j = irq_descs w1 j \<and> nvic_on w2 j = nvic_on w1 j"
      using request_held [where hw = "env_pr en" and h = "env_dma_isr en" and dev = "env_dev en"] by metis
    have held: "irq_held (usart_irq (upriv v)) (env_isr en) (env_dev en) w2" using irq_transfer(2) [OF c(5) w2(3,5)] w1(2) by simp
    define x where "x = (upd_upriv (set_bufs b c') v)\<lparr>uheap := h, uworld := w2\<rparr>"
    define y where "y = rx_dma_start (upd_rx_stream (\<lambda>r. r\<lparr>dma_cr := dma_cr r AND NOT CR_EN\<rparr>) x)"
    obtain brr where brr: "usart_start en y = Inr (y\<lparr>uregs := (uregs y)\<lparr>us_cr1 := 0x9D, us_cr2 := 0, us_cr3 := 0x40, us_brr := brr\<rparr>\<rparr>)" by (rule usart_start_ok)
    have up: "upriv (upd_upriv (set_bufs b c') v) = set_bufs b c' (upriv v)" "uworld (upd_upriv (set_bufs b c') v) = uworld v" by (simp_all add: upd_upriv_def)
    have "stm_port_startup en u = Some (Inr (0, y\<lparr>uregs := (uregs y)\<lparr>us_cr1 := 0x9D, us_cr2 := 0, us_cr3 := 0x40, us_brr := brr\<rparr>\<rparr>))"
      using two(1) w1(1) w2(1) brr e
      by (simp add: stm_port_startup_def v_def [symmetric] up Let_def rx_dma_off_def x_def [symmetric] y_def [symmetric])
    moreover have "port_opened en L H u (y\<lparr>uregs := (uregs y)\<lparr>us_cr1 := 0x9D, us_cr2 := 0, us_cr3 := 0x40, us_brr := brr\<rparr>\<rparr>)"
      unfolding y_def x_def v_def by (rule opened_state) (use two held w2(2) c(6) in \<open>simp_all add: v_def upd_upriv_def\<close>)
    ultimately show ?thesis using two(6) c(6) by auto
  qed
qed

section \<open>An open port is ready\<close>

lemma rx_cr_ct: "\<not> bit (rx_dma_cr p OR CR_EN) 19"
  by (simp add: rx_dma_cr_def CR_EN_def bit_simps)

lemma opened_bufs:
  fixes b c :: u32
  assumes "{unat b ..< unat b + 4096} \<inter> {unat c ..< unat c + 4096} = {}" "unat b + 4096 < 2 ^ 32" "unat c + 4096 < 2 ^ 32"
    "rxb p 0 = b" "rxb p 1 = c"
  shows "bufs_ok p"
  unfolding bufs_ok_def assms(4,5)
proof (intro allI impI)
  fix i j :: nat assume ij: "i < 512" "j < 512"
  have "unat (b + of_nat i) = unat b + i" "unat (c + of_nat j) = unat c + j"
    using ij assms(2,3) by (simp_all add: unat_word_ariths unat_of_nat)
  moreover have "unat b + i \<in> {unat b ..< unat b + 4096}" "unat c + j \<in> {unat c ..< unat c + 4096}" using ij by simp_all
  ultimately show "b + of_nat i \<noteq> c + of_nat j" using assms(1) by (metis IntI empty_iff)
qed

lemma opened_ready:
  assumes "port_opened en L H u u'" "flip u = []" "arrived u = []"
  shows "rx_ok u'" "tx_ok u' = tx_ok u" "tx_enabled (uregs u')" "uart_tx_stopped u' = uart_tx_stopped u"
proof -
  obtain b c where bc: "{unat b ..< unat b + 4096} \<inter> {unat c ..< unat c + 4096} = {}" "unat b + 4096 < 2 ^ 32" "unat c + 4096 < 2 ^ 32"
    "upriv u' = (set_bufs b c (upriv u))\<lparr>wbuf := 0, wpos := 0, rbuf := 0, rpos := 0\<rparr>" "dma_m0ar (rx_stream u') = b" "dma_m1ar (rx_stream u') = c"
    using assms(1) unfolding port_opened_def by blast
  have o: "dma_cr (rx_stream u') = rx_dma_cr (upriv u) OR CR_EN" "dma_ndtr (rx_stream u') = 512" "us_cr1 (uregs u') = 0x9D" "us_cr3 (uregs u') = 0x40"
    "uport u' = uport u" "xmit u' = xmit u" "tty_stopped u' = tty_stopped u" "hw_stopped u' = hw_stopped u" "flip u' = []" "arrived u' = []"
    using assms unfolding port_opened_def by simp_all
  have "dma_ct u' = 0"
    using rx_cr_ct [of "upriv u"] and_exp_eq_0_iff_not_bit [of "rx_dma_cr (upriv u) OR CR_EN" 19] by (simp add: dma_ct_def o(1))
  moreover have "bufs_ok (upriv u')" by (rule opened_bufs [OF bc(1-3)]) (simp_all add: bc(4))
  ultimately have "rx_hw u'" using bc(4-6) o by (simp add: rx_hw_def Let_def)
  moreover have "drv_at 0 0 u'" using bc(4) o by (simp add: drv_at_def)
  ultimately show "rx_ok u'" by (auto simp: rx_ok_def)
  show "tx_ok u' = tx_ok u" "uart_tx_stopped u' = uart_tx_stopped u" using o by (simp_all add: tx_ok_def uart_tx_stopped_def)
  show "tx_enabled (uregs u')" using o by (simp add: tx_enabled_def bit_iff_odd)
qed

text \<open>
  Reception is running, bit by bit from the reference manual: the stream is enabled, moves bytes from the peripheral to memory with an
  address that goes on in memory only, circular and with two buffers, on the channel of the port, with the interrupts of half and complete
  transfers; it reads the receive data register of the USART and writes the two buffers of the driver from the start; the USART is
  enabled, its receiver too, it requests DMA for received characters and interrupts on an idle line.
\<close>

definition rx_running :: "uart \<Rightarrow> bool" where
  "rx_running u \<longleftrightarrow> (let p = upriv u; r = rx_stream u; cr = dma_cr r in
     bit cr 0 \<and> bit cr 3 \<and> bit cr 4 \<and> field 2 6 cr = 0 \<and> bit cr 8 \<and> \<not> bit cr 9 \<and> bit cr 10 \<and> field 4 11 cr = 0 \<and> bit cr 18 \<and> \<not> bit cr 19
     \<and> field 3 25 cr = of_nat (ini_chan p) \<and> dma_ndtr r = 512 \<and> dma_par r = reg_usart_base p + 0x24
     \<and> dma_m0ar r = rxb_dma p 0 \<and> dma_m1ar r = rxb_dma p 1
     \<and> bit (us_cr1 (uregs u)) 0 \<and> bit (us_cr1 (uregs u)) 2 \<and> bit (us_cr1 (uregs u)) 4 \<and> bit (us_cr3 (uregs u)) 6)"

lemma opened_running:
  assumes "port_opened en L H u u'" "ini_chan (upriv u) < 8"
  shows "rx_running u'"
proof -
  let ?cr = "rx_dma_cr (upriv u) OR CR_EN"
  have o: "dma_cr (rx_stream u') = ?cr" "ini_chan (upriv u') = ini_chan (upriv u)" "reg_usart_base (upriv u') = reg_usart_base (upriv u)"
    "dma_m0ar (rx_stream u') = rxb_dma (upriv u') 0" "dma_m1ar (rx_stream u') = rxb_dma (upriv u') 1"
    using assms(1) by (auto simp: port_opened_def)
  have r: "dma_ndtr (rx_stream u') = 512" "dma_par (rx_stream u') = reg_usart_base (upriv u) + 0x24" "us_cr1 (uregs u') = 0x9D" "us_cr3 (uregs u') = 0x40"
    using assms(1) by (simp_all add: port_opened_def)
  have ch: "ini_chan (upriv u) \<in> {0, 1, 2, 3, 4, 5, 6, 7}" using assms(2) by auto
  have cr: "bit ?cr 0 \<and> bit ?cr 3 \<and> bit ?cr 4 \<and> field 2 6 ?cr = 0 \<and> bit ?cr 8 \<and> \<not> bit ?cr 9 \<and> bit ?cr 10 \<and> field 4 11 ?cr = 0 \<and> bit ?cr 18 \<and> \<not> bit ?cr 19
      \<and> field 3 25 ?cr = of_nat (ini_chan (upriv u))"
    using ch unfolding insert_iff empty_iff by (elim disjE) (simp_all add: rx_dma_cr_def CR_EN_def field_def bit_iff_odd drop_bit_eq_div take_bit_eq_mod)
  show ?thesis unfolding rx_running_def Let_def o(1-3) using cr by (simp add: o r bit_iff_odd)
qed

text \<open>C12. Opening a port on a machine with two free pages of DMA memory and both of its interrupts free succeeds, and then the port is ready. Reception is
  running: the stream and the USART are programmed and enabled as listed in \<open>rx_running\<close>, the stream fills the two buffers just allocated and the
  driver reads them from the start, which is the invariant under which reception is exact. The transmitter is on and its ring as the serial core left
  it (the invariant under which transmission is complete). The interrupt of the USART has the USART handler and that of the stream the DMA
  handler, each as the only one, with the port as its cookie, and the controller lets both through. It is assumed that the memory allocations
  succeed, that the stream reports that it has stopped when it is switched off before it is programmed, and that the channel number is below 8.\<close>

theorem uart_open_ready:
  assumes "open_env en" "port_closed L H u" "8192 \<le> card (free_set (uheap u))" "ini_chan (upriv u) < 8"
    and "flip u = []" "arrived u = []" "line_in u = rdr_wait u" "tx_ok u" "\<not> uart_tx_stopped u"
  shows "\<exists>u'. stm_port_startup en u = Some (Inr (0, u')) \<and> rx_running u' \<and> rx_ok u' \<and> line_in u' = arrived u' @ rdr_wait u' \<and> tx_on u'
    \<and> irq_held (usart_irq (upriv u')) (env_isr en) (env_dev en) (uworld u') \<and> irq_held (dma_irq (upriv u')) (env_dma_isr en) (env_dev en) (uworld u')"
proof -
  obtain u' where u': "stm_port_startup en u = Some (Inr (0, u'))" "port_opened en L H u u'"
    using startup_opens [OF assms(1,2)] assms(3) by auto
  then have "usart_irq (upriv u') = usart_irq (upriv u)" "dma_irq (upriv u') = dma_irq (upriv u)"
    "irq_held (usart_irq (upriv u)) (env_isr en) (env_dev en) (uworld u')" "irq_held (dma_irq (upriv u)) (env_dma_isr en) (env_dev en) (uworld u')"
    by (auto simp: port_opened_def)
  moreover have "line_in u' = arrived u' @ rdr_wait u'"
    using u'(2) assms(6,7) by (simp add: port_opened_def rdr_wait_def rxne_def)
  ultimately show ?thesis using u' opened_ready [OF u'(2) assms(5,6)] opened_running [OF u'(2) assms(4)] assms(8,9) by (auto simp: tx_on_def)
qed

section \<open>Closing\<close>

lemma free_held:
  assumes "irq_held irq h dev v"
  obtains w where "free_irq hw irq dev v = Some (Inr w)" "nr_irqs w = nr_irqs v" "irq_idle w irq" "iw_soc w = iw_soc v"
    "\<forall>j. j \<noteq> irq \<longrightarrow> irq_descs w j = irq_descs v j \<and> nvic_on w j = nvic_on v j"
proof -
  obtain a where a: "nvic_line v irq" "action (irq_descs v irq) = [a]" "act_dev_id a = dev" "\<not> bit (status (irq_descs v irq)) 8"
    "\<forall>k \<in> {18, 19, 26, 28}. \<not> bit (status (irq_descs v irq)) k" using assms by (auto simp: irq_held_def)
  show thesis
    by (rule free_nvic [OF a(1-4), where hw = hw]) (rule that, use a(1,5) in \<open>simp_all add: irq_idle_def nvic_line_def\<close>)
qed

lemma shutdown_closes:
  assumes "open_env en" "port_closed L H u" "port_opened en L H u u'"
  obtains u'' where "stm_port_shutdown en u' = Some (Inr u'')" "port_closed L H u''" "uheap u'' = uheap u'"
proof -
  have p: "usart_irq (upriv u') = usart_irq (upriv u)" "dma_irq (upriv u') = dma_irq (upriv u)" using assms(3) by (auto simp: port_opened_def)
  let ?i = "usart_irq (upriv u)" and ?j = "dma_irq (upriv u)"
  have ne: "?i \<noteq> ?j" "H + 8704 \<le> 2 ^ 32" using assms(2) by (simp_all add: port_closed_def)
  have o: "irq_held ?i (env_isr en) (env_dev en) (uworld u')" "irq_held ?j (env_dma_isr en) (env_dev en) (uworld u')" "dm_ok L H (uheap u')" using assms(3) by (simp_all add: port_opened_def)
  define x where "x = upd_uregs (\<lambda>r. r\<lparr>us_cr1 := (us_cr1 r AND NOT (us_msk STM32_USART_CR1_TE OR us_msk STM32_USART_CR1_RE OR us_msk STM32_USART_CR1_UE))
      AND NOT (us_msk STM32_USART_CR1_IDLIE OR us_msk STM32_USART_CR1_TXEIE)\<rparr>) (upd_rx_stream (\<lambda>r. r\<lparr>dma_cr := dma_cr r AND NOT CR_EN\<rparr>) u')"
  have x: "upriv x = upriv u'" "uheap x = uheap u'" "irq_held i h d (uworld x) = irq_held i h d (uworld u')" for i h d
    by (simp_all add: x_def upd_uregs_def stream_other)
  obtain w1 where w1: "free_irq (env_pr en) ?j (env_dev en) (uworld x) = Some (Inr w1)" "nr_irqs w1 = nr_irqs (uworld x)" "irq_idle w1 ?j"
    "\<forall>k. k \<noteq> ?j \<longrightarrow> irq_descs w1 k = irq_descs (uworld x) k \<and> nvic_on w1 k = nvic_on (uworld x) k"
    using o(2) x(3) free_held [where hw = "env_pr en"] by metis
  have "irq_held ?i (env_isr en) (env_dev en) w1" using irq_transfer(2) [OF ne(1) w1(2,4)] o(1) x(3) by simp
  then obtain w2 where w2: "free_irq (env_pr en) ?i (env_dev en) w1 = Some (Inr w2)" "nr_irqs w2 = nr_irqs w1" "irq_idle w2 ?i"
    "\<forall>k. k \<noteq> ?i \<longrightarrow> irq_descs w2 k = irq_descs w1 k \<and> nvic_on w2 k = nvic_on w1 k"
    using free_held [where hw = "env_pr en"] by metis
  have j: "irq_idle w2 ?j" using irq_transfer(1) [OF _ w2(2,4)] ne(1) w1(3) by metis
  have "stm_port_shutdown en u' = Some (Inr (x\<lparr>uworld := w2\<rparr>))"
  proof -
    have off: "rx_dma_off en u' = Some (upd_rx_stream (\<lambda>r. r\<lparr>dma_cr := dma_cr r AND NOT CR_EN\<rparr>) u')" using assms(1) by (simp add: rx_dma_off_def open_env_def)
    show ?thesis unfolding stm_port_shutdown_def off bind.bind_lunit Let_def x_def [symmetric] using w1(1) w2(1) p x(1) by simp
  qed
  moreover have "port_closed L H (x\<lparr>uworld := w2\<rparr>)" using o(3) ne w2(3) j x p by (simp add: port_closed_def)
  ultimately show thesis using that x(2) by simp
qed

text \<open>A number of times opened and closed.\<close>

primrec open_close :: "usart_env \<Rightarrow> nat \<Rightarrow> uart \<Rightarrow> (fault + int \<times> uart) option" where
  "open_close en 0 u = Some (Inr (0, u))"
| "open_close en (Suc k) u =
     run_then (stm_port_startup en u) (\<lambda>(rv, u).
       if rv \<noteq> 0 then Some (Inr (rv, u)) else run_then (stm_port_shutdown en u) (open_close en k))"

lemma open_close_leaks:
  assumes "open_env en" "port_closed L H u" "8192 * k \<le> card (free_set (uheap u))"
  shows "\<exists>u'. open_close en k u = Some (Inr (0, u')) \<and> port_closed L H u' \<and> card (free_set (uheap u')) + 8192 * k = card (free_set (uheap u))"
  using assms(2,3)
proof (induction k arbitrary: u)
  case (Suc k)
  obtain v where v: "stm_port_startup en u = Some (Inr (0, v))" "port_opened en L H u v"
    using startup_opens [OF assms(1) Suc.prems(1)] Suc.prems(2) by auto
  obtain w where w: "stm_port_shutdown en v = Some (Inr w)" "port_closed L H w" "uheap w = uheap v"
    by (rule shutdown_closes [OF assms(1) Suc.prems(1) v(2)])
  have "card (free_set (uheap w)) + 8192 = card (free_set (uheap u))" using v(2) w(3) by (simp add: port_opened_def)
  then obtain u' where "open_close en k w = Some (Inr (0, u'))" "port_closed L H u'" "card (free_set (uheap u')) + 8192 * Suc k = card (free_set (uheap u))"
    using Suc.IH [OF w(2)] Suc.prems(2) by auto
  then show ?case using v(1) w(1) by simp
qed simp

text \<open>C36. Closing a port does not give back the receive buffers that opening allocated: every opening and closing takes two pages from the DMA
  memory for good, so a port can be opened only as often as the free memory has two pages, and after that opening fails with \<^verbatim>\<open>-ENOMEM\<close>.\<close>

theorem uart_open_leak:
  assumes "open_env en" "port_closed L H u"
  defines "n \<equiv> card (free_set (uheap u)) div 8192"
  shows "\<forall>k \<le> n. \<exists>u'. open_close en k u = Some (Inr (0, u')) \<and> card (free_set (uheap u')) + 8192 * k = card (free_set (uheap u))
    \<and> (k = n \<longrightarrow> (\<exists>u''. stm_port_startup en u' = Some (Inr (- ENOMEM, u''))))"
proof (intro allI impI)
  fix k assume k: "k \<le> n"
  have "8192 * k \<le> card (free_set (uheap u))" using k div_times_less_eq_dividend [of "card (free_set (uheap u))" 8192] by (simp add: n_def less_eq_div_iff_mult_less_eq mult.commute)
  then obtain u' where u': "open_close en k u = Some (Inr (0, u'))" "port_closed L H u'" "card (free_set (uheap u')) + 8192 * k = card (free_set (uheap u))"
    using open_close_leaks [OF assms(1,2)] by blast
  have "card (free_set (uheap u')) < 8192" if "k = n"
    using u'(3) mod_less_divisor [of 8192 "card (free_set (uheap u))"] mult_div_mod_eq [of 8192 "card (free_set (uheap u))"] that unfolding n_def by linarith
  then show "\<exists>u'. open_close en k u = Some (Inr (0, u')) \<and> card (free_set (uheap u')) + 8192 * k = card (free_set (uheap u))
    \<and> (k = n \<longrightarrow> (\<exists>u''. stm_port_startup en u' = Some (Inr (- ENOMEM, u''))))"
    using u' startup_opens [OF assms(1) u'(2)] by auto
qed

text \<open>The port of the board, closed, with the DMA memory as at boot.\<close>

definition ex_closed :: uart where
  "ex_closed = ex_uart\<lparr>uheap := dm_booted ex_tag,
     uworld := upd_desc 71 (\<lambda>d. d\<lparr>chip := Nvic_chip, handle_irq := Handle_level_irq\<rparr>)
       (upd_desc 58 (\<lambda>d. d\<lparr>chip := Nvic_chip, handle_irq := Handle_level_irq\<rparr>) (irq_world_boot board_config soc0 (\<lambda>_. 0) (\<lambda>_. 0)))\<rparr>"

lemma ex_closed_ok: "open_env ex_usart_env" "port_closed 0x90040000 0x90100000 ex_closed" "card (free_set (uheap ex_closed)) = 786432"
proof -
  show "open_env ex_usart_env" by (simp add: open_env_def ex_usart_env_def)
  have p: "usart_irq (upriv ex_closed) = 71" "dma_irq (upriv ex_closed) = 58" "uheap ex_closed = dm_booted ex_tag"
    by (simp_all add: ex_closed_def ex_uart_def)
  have "irq_idle (uworld ex_closed) 71" "irq_idle (uworld ex_closed) 58"
    by (simp_all add: ex_closed_def irq_idle_def irq_world_boot_def irq_simps NR_IRQS_def NVIC_IRQS_def irq_desc_init_def irq_st.simps bit_iff_odd)
  then show "port_closed 0x90040000 0x90100000 ex_closed" using ex_booted_ok by (simp add: port_closed_def p)
  show "card (free_set (uheap ex_closed)) = 786432" by (simp add: p free_set_def ex_booted_free blk_def lo_def hi_def)
qed

theorem uart_open_ready_witness:
  "\<exists>u'. stm_port_startup ex_usart_env ex_closed = Some (Inr (0, u')) \<and> rx_running u' \<and> rx_ok u' \<and> tx_on u'
    \<and> irq_held 71 1 0x20001000 (uworld u') \<and> irq_held 58 2 0x20001000 (uworld u')"
proof -
  have "flip ex_closed = []" "arrived ex_closed = []" "\<not> uart_tx_stopped ex_closed" "tx_ok ex_closed" "ini_chan (upriv ex_closed) < 8"
    using ex_uart_ok(1) by (simp_all add: ex_closed_def tx_ok_def uart_tx_stopped_def) (simp_all add: ex_uart_def)
  moreover have "line_in ex_closed = rdr_wait ex_closed" by (simp add: rdr_wait_def rxne_def) (simp add: ex_closed_def ex_uart_def bit_iff_odd)
  ultimately obtain u' where u': "stm_port_startup ex_usart_env ex_closed = Some (Inr (0, u'))" "rx_running u'" "rx_ok u'" "tx_on u'"
    "irq_held (usart_irq (upriv u')) 1 0x20001000 (uworld u')" "irq_held (dma_irq (upriv u')) 2 0x20001000 (uworld u')"
    using uart_open_ready [OF ex_closed_ok(1,2)] ex_closed_ok(3) by (auto simp: ex_usart_env_def)
  moreover have "port_opened ex_usart_env 0x90040000 0x90100000 ex_closed u'" using startup_opens [OF ex_closed_ok(1,2)] ex_closed_ok(3) u'(1) by auto
  then have "usart_irq (upriv u') = 71" "dma_irq (upriv u') = 58" by (auto simp: port_opened_def ex_closed_def ex_uart_def)
  ultimately show ?thesis by auto
qed

theorem uart_open_leak_witness:
  "\<exists>u' u''. open_close ex_usart_env 96 ex_closed = Some (Inr (0, u')) \<and> stm_port_startup ex_usart_env u' = Some (Inr (- ENOMEM, u''))"
proof -
  have "96 \<le> card (free_set (uheap ex_closed)) div 8192" by (simp add: ex_closed_ok(3))
  with uart_open_leak [OF ex_closed_ok(1,2)] show ?thesis unfolding ex_closed_ok(3) by (elim allE [of _ 96]) auto
qed

end
