(* ===== verification/Uart_Line.thy ===== *)
theory Uart_Line
  imports Uart_Port
begin

text \<open>
  The line speed that the driver sets and the DMA streams that the ports use: how far the baud rate register is from the speed asked for, what the
  terminal settings report back, and that the table of streams agrees with the request multiplexer (\<open>Dmainit\<close>).
\<close>

section \<open>The baud rate register\<close>

lemma unat_cast: "unat (ucast (x :: u32) :: u16) = unat x mod 65536" "unat (ucast (y :: u16) :: u32) = unat y"
proof -
  have "unat y < 2 ^ 16" using unsigned_less [of y] by simp
  then show "unat (ucast (y :: u16) :: u32) = unat y" by (simp add: unsigned_ucast_eq take_bit_eq_mod)
qed (simp add: unsigned_ucast_eq take_bit_eq_mod)

lemma unat_int_div:
  assumes "25 * unat clk < 2 ^ 32" "4 * unat baud < 2 ^ 32"
  shows "unat ((25 * clk) div (4 * baud) :: u32) = 25 * unat clk div (4 * unat baud)"
  using assms by (simp add: unat_div unat_word_ariths)

text \<open>The mantissa is cut to 12 bits; the fraction is a number below 16.\<close>

lemma brr_parts:
  fixes clk baud :: u32
  assumes "25 * unat clk < 2 ^ 32" "0 < unat baud" "4 * unat baud < 2 ^ 32"
  defines "d \<equiv> 25 * unat clk div (4 * unat baud)"
  shows "\<exists>f < 16. unat (brr_value clk baud) = 16 * (d div 100 mod 4096) + f \<and> (d < 409600 \<longrightarrow> f = (16 * (d mod 100) + 50) div 100 mod 16)"
proof -
  define w where "w = (25 * clk) div (4 * baud)"
  have d: "unat w = d" unfolding w_def d_def using assms(1,3) by (rule unat_int_div)
  have small: "d < 2 ^ 30"
  proof -
    have "d \<le> 25 * unat clk div 4" unfolding d_def using assms(2) by (intro div_le_mono2) simp_all
    also have "\<dots> < 2 ^ 30" using assms(1) by (simp add: div_less_iff_less_mult)
    finally show ?thesis .
  qed
  define tmp where "tmp = (ucast (push_bit STM32_USART_BRR_M_BIT (w div 100)) :: u16)"
  have q: "unat (push_bit 4 (w div 100)) = 16 * (d div 100)"
    using small by (simp add: push_bit_eq_mult unat_word_ariths unat_div d)
  have t: "unat tmp = 16 * (d div 100 mod 4096)"
    by (simp add: tmp_def STM32_USART_BRR_M_BIT_def unat_cast q mult_mod_right)
  have t4: "unat (ucast (drop_bit 4 tmp) :: u32) = d div 100 mod 4096"
    by (simp add: unat_cast drop_bit_eq_div unat_div t)
  define frac where "frac = w - (100 * ucast (drop_bit 4 tmp))"
  define f where "f = unat ((((frac * 16) + 50) div 100) AND STM32_USART_BRR_F_MSK)"
  have f16: "f < 16" unfolding f_def STM32_USART_BRR_F_MSK_def using unat_and_mask [of _ 4] by (simp add: mask_eq_exp_minus_1)
  have m: "STM32_USART_BRR_F_MSK = mask 4" by (simp add: STM32_USART_BRR_F_MSK_def mask_eq_exp_minus_1)
  have "brr_value clk baud = tmp OR ucast (((frac * 16) + 50) div 100 AND mask 4)"
    by (simp add: brr_value_def Let_def w_def tmp_def frac_def m)
  also have "\<dots> = tmp + ucast (((frac * 16) + 50) div 100 AND mask 4)"
  proof (rule disjunctive_add_eq_or [symmetric])
    show "tmp AND ucast (((frac * 16) + 50) div 100 AND mask 4) = 0"
      by (rule bit_word_eqI) (auto simp: tmp_def STM32_USART_BRR_M_BIT_def bit_simps)
  qed
  finally have brr: "unat (brr_value clk baud) = 16 * (d div 100 mod 4096) + f"
  proof -
    assume e: "brr_value clk baud = tmp + ucast (((frac * 16) + 50) div 100 AND mask 4)"
    have "16 * (d div 100 mod 4096) + f < 65536" using f16 mod_less_divisor [of 4096 "d div 100"] by linarith
    then show ?thesis using f16 unfolding e f_def m by (simp add: unat_word_ariths unat_cast t)
  qed
  have "f = (16 * (d mod 100) + 50) div 100 mod 16" if "d < 409600"
  proof -
    have "d div 100 < 4096" using that by simp
    then have "100 * (d div 100 mod 4096) = d - d mod 100" by (simp add: minus_mod_eq_mult_div)
    moreover have "unat (100 * ucast (drop_bit 4 tmp) :: u32) = 100 * (d div 100 mod 4096)"
      using mod_less_divisor [of 4096 "d div 100"] by (simp add: unat_word_ariths t4)
    ultimately have u: "unat (100 * ucast (drop_bit 4 tmp) :: u32) = d - d mod 100" by (simp only:)
    then have "100 * ucast (drop_bit 4 tmp) \<le> w" by (simp add: word_le_nat_alt d)
    then have fr: "unat frac = d mod 100" using unat_sub [of "100 * ucast (drop_bit 4 tmp)" w] mod_less_eq_dividend [of d 100] by (simp add: frac_def u d)
    then have "unat (((frac * 16) + 50) div 100) = (16 * (d mod 100) + 50) div 100"
      using mod_less_divisor [of 100 d] by (simp add: unat_div unat_word_ariths mult.commute)
    then show ?thesis by (simp add: f_def m unat_and_mask)
  qed
  then show ?thesis using brr f16 by blast
qed

text \<open>With \<open>e\<close> the difference, in hundredths of a quarter, between the register and the exact divisor.\<close>

lemma speed_error:
  fixes b clk n d r :: int
  assumes "0 < b" "25 * clk = 4 * b * d + r" "0 \<le> r" "r < 4 * b"
  defines "e \<equiv> 25 * n - 4 * d"
  shows "\<bar>e\<bar> \<le> 12 \<Longrightarrow> \<bar>n * b - clk\<bar> \<le> b" "e < - 25 \<Longrightarrow> \<not> \<bar>n * b - clk\<bar> \<le> b"
proof -
  define z where "z = n * b - clk"
  define y where "y = b * e"
  have k: "25 * z = y - r" using assms(2) by (simp add: e_def y_def z_def algebra_simps)
  have "\<bar>z\<bar> \<le> b" if "\<bar>e\<bar> \<le> 12"
  proof -
    have "y \<le> b * 12" "b * (- 12) \<le> y" unfolding y_def using that assms(1) by (intro mult_left_mono; linarith)+
    then show ?thesis using k assms(1,3,4) by linarith
  qed
  moreover have "\<not> \<bar>z\<bar> \<le> b" if "e < - 25"
  proof -
    have "y \<le> b * (- 26)" unfolding y_def using that assms(1) by (intro mult_left_mono) linarith+
    then show ?thesis using k assms(1,3) by linarith
  qed
  ultimately show "\<bar>e\<bar> \<le> 12 \<Longrightarrow> \<bar>n * b - clk\<bar> \<le> b" "e < - 25 \<Longrightarrow> \<not> \<bar>n * b - clk\<bar> \<le> b" unfolding z_def by blast+
qed

lemma speed_iff:
  fixes b clk f :: nat
  assumes "0 < b"
  defines "d \<equiv> 25 * clk div (4 * b)"
  defines "n \<equiv> 16 * (d div 100 mod 4096) + f"
  assumes "f < 16" "d < 409600 \<longrightarrow> f = (16 * (d mod 100) + 50) div 100 mod 16"
  shows "\<bar>int n * int b - int clk\<bar> \<le> int b \<longleftrightarrow> d < 409600 \<and> d mod 100 < 97"
proof -
  define r where "r = 25 * clk mod (4 * b)"
  have eq: "25 * clk = 4 * b * d + r" "r < 4 * b" using assms(1) by (simp_all add: d_def r_def)
  have eqi: "25 * int clk = 4 * int b * int d + int r" using arg_cong [OF eq(1), of int] by simp
  have ri: "0 \<le> int r" "int r < 4 * int b" "0 < int b" using eq(2) assms(1) by simp_all
  note err = speed_error [OF ri(3) eqi ri(1,2), of "int n"]
  define q where "q = d div 100"
  define m where "m = d mod 100"
  have dd: "d = 100 * q + m" "m < 100" by (simp_all add: q_def m_def)
  have di: "int d = 100 * int q + int m" "int n = 16 * int (q mod 4096) + int f" using dd(1) by (simp_all add: n_def q_def)
  have f: "d < 409600 \<longrightarrow> f = (16 * m + 50) div 100 mod 16" using assms(5) by (simp add: m_def)
  show ?thesis unfolding m_def [symmetric]
  proof (cases "d < 409600")
    case True
    then have q: "q mod 4096 = q" using dd by simp
    show "\<bar>int n * int b - int clk\<bar> \<le> int b \<longleftrightarrow> d < 409600 \<and> m < 97"
    proof (cases "m < 97")
      case m: True
      have "f = (16 * m + 50) div 100" using f True m by simp
      then have "100 * f \<le> 16 * m + 50" "16 * m + 50 < 100 * f + 100" by linarith+
      then have "25 * f \<le> 4 * m + 12" "4 * m \<le> 25 * f + 12" by linarith+
      then have "25 * int f \<le> 4 * int m + 12" "4 * int m \<le> 25 * int f + 12" by linarith+
      then have "\<bar>25 * int n - 4 * int d\<bar> \<le> 12" unfolding di q by (simp add: abs_le_iff)
      then show ?thesis using err(1) True m by simp
    next
      case m: False
      have "(16 * m + 50) div 100 = 16" using m dd(2) by linarith
      then have "f = 0" using f True by simp
      then have "25 * int n - 4 * int d < - 25" unfolding di q using m by simp
      then show ?thesis using err(2) m by simp
    qed
  next
    case False
    define s where "s = q div 4096"
    define p where "p = q mod 4096"
    have "q = 4096 * s + p" "1 \<le> s" using False dd by (simp_all add: s_def p_def)
    then have "int q = 4096 * int s + int p" "1 \<le> int s" "int f < 16" using assms(4) by simp_all
    then have "25 * int n - 4 * int d < - 25" unfolding di p_def [symmetric] by simp
    then show "\<bar>int n * int b - int clk\<bar> \<le> int b \<longleftrightarrow> d < 409600 \<and> m < 97" using err(2) False by simp
  qed
qed

text \<open>C37. The baud rate register is right, that is within one step of the exact divisor of the clock (the divisor is a whole number of sixteenths), exactly if
  the divisor fits into its 12 bits and its fraction does not round up to a full 16: then the driver drops the carry and the divisor is a whole unit too small.
  Otherwise the line runs at another speed than the one asked for. \<open>d\<close> is the divisor in hundredths that the driver computes.\<close>

theorem baud_rate_accuracy:
  fixes clk baud :: u32
  assumes "25 * unat clk < 2 ^ 32" "0 < unat baud" "4 * unat baud < 2 ^ 32"
  defines "d \<equiv> 25 * unat clk div (4 * unat baud)"
  shows "\<bar>int (unat (brr_value clk baud)) * int (unat baud) - int (unat clk)\<bar> \<le> int (unat baud) \<longleftrightarrow> d < 409600 \<and> d mod 100 < 97"
proof -
  obtain f where f: "f < 16" "unat (brr_value clk baud) = 16 * (d div 100 mod 4096) + f" "d < 409600 \<longrightarrow> f = (16 * (d mod 100) + 50) div 100 mod 16"
    using brr_parts [OF assms(1-3)] unfolding d_def by blast
  show ?thesis unfolding f(2) by (rule speed_iff [OF assms(2), where clk = "unat clk", folded d_def, OF f(1,3)])
qed

text \<open>At 100 MHz: 115200 baud is right, 1200 baud overflows the mantissa.\<close>

theorem baud_rate_accuracy_witness:
  "\<bar>int (unat (brr_value 100000000 115200)) * 115200 - 100000000\<bar> \<le> 115200 \<and> \<not> \<bar>int (unat (brr_value 100000000 1200)) * 1200 - 100000000\<bar> \<le> 1200"
  using baud_rate_accuracy [of 100000000 115200] baud_rate_accuracy [of 100000000 1200] by simp

section \<open>The frame\<close>

text \<open>The data bits of a frame as the control register sets them (documented: 7, 8 or 9 bits with the parity bit), and as the settings ask for them.\<close>

definition frame_data :: "u32 \<Rightarrow> nat" where
  "frame_data cr1 = (if bit cr1 28 then 7 else if bit cr1 12 then 9 else 8) - (if bit cr1 10 then 1 else 0)"

definition asked_data :: "u32 \<Rightarrow> nat" where
  "asked_data cflag = (let siz = cflag AND tc CSIZE in if siz = tc CS5 then 5 else if siz = tc CS6 then 6 else if siz = tc CS7 then 7 else 8)"

lemma cr1_bits:
  "bit (termios_cr1 cflag cr1) 28 = False" "bit (termios_cr1 cflag cr1) 12 \<longleftrightarrow> flag (tc PARENB) cflag \<and> cflag AND tc CSIZE = tc CS8"
  "bit (termios_cr1 cflag cr1) 10 \<longleftrightarrow> flag (tc PARENB) cflag" "bit (termios_cr1 cflag cr1) 9 \<longleftrightarrow> flag (tc PARENB) cflag \<and> flag (tc PARODD) cflag"
  by (simp_all add: termios_cr1_def us_msk.simps bit_simps Let_def)

text \<open>C38. The parity of the terminal settings is what the driver sets; the number of data bits is what they ask for exactly for eight bits, or
  seven bits with parity. Seven bits without parity, and all smaller sizes, are not set and not refused.\<close>

theorem termios_frame:
  "(bit (termios_cr1 cflag cr1) 10 \<longleftrightarrow> flag (tc PARENB) cflag) \<and> (bit (termios_cr1 cflag cr1) 9 \<longleftrightarrow> flag (tc PARENB) cflag \<and> flag (tc PARODD) cflag)
   \<and> (frame_data (termios_cr1 cflag cr1) = asked_data cflag \<longleftrightarrow> asked_data cflag = 8 \<or> asked_data cflag = 7 \<and> flag (tc PARENB) cflag)"
proof -
  have c: "tc CS5 \<noteq> tc CS8" "tc CS6 \<noteq> tc CS8" "tc CS7 \<noteq> tc CS8" by (simp_all add: tc.simps)
  have m: "tc CSIZE = push_bit 4 1 OR push_bit 5 1" "tc CS5 = 0" "tc CS6 = push_bit 4 1" "tc CS7 = push_bit 5 1" "tc CS8 = push_bit 4 1 OR push_bit 5 1" by (simp_all add: tc.simps)
  have "cflag AND tc CSIZE = (if bit cflag 4 then push_bit 4 1 else 0) OR (if bit cflag 5 then push_bit 5 1 else 0)"
    by (rule bit_word_eqI) (auto simp only: m bit_and_iff bit_or_iff bit_push_one bit_0_eq split: if_split)
  then have o: "cflag AND tc CSIZE \<in> {tc CS5, tc CS6, tc CS7, tc CS8}" unfolding m by (auto simp only: or.left_neutral or.right_neutral split: if_split)
  show ?thesis using c o by (auto simp: frame_data_def asked_data_def cr1_bits Let_def)
qed

section \<open>Streams and devices\<close>





text \<open>The start of the board registers the one port it is built for, with its clocks on.\<close>

lemma board_uart_init:
  "stm32_uart_init board_config s =
     (s\<lparr>rcc := (rcc s)\<lparr>rcc_apb2enr := rcc_apb2enr (rcc s) OR push_bit 5 1, rcc_ahb1enr := rcc_ahb1enr (rcc s) OR push_bit 22 1\<rparr>\<rparr>,
      [\<lparr>pdev_id = 5, res_mem = [0x40011400, 0x40026400], res_irq = [71, 58]\<rparr>])"
  by (simp add: stm32_uart_init_def upt_rec usart_configs_def board_config_def usart_init_clocks_and_register_def stm32_uart_rcc_enr_msk_def
      stm32_uart_rcc_enr_ofs_def stm32_usart_dma_base_def STM32_DMA1_BASE_def STM32_DMA2_BASE_def USART_PLAT_DEVICE_def stm32_usart_base_def
      stm32_usart_irq_def stm32_usart_dma_irq_def STM32_APB2PERITH_BASE_def Let_def)

text \<open>The probe makes this device the port that \<open>Uart_Open\<close> opens: stream 2 of the second controller, the lower pair of flag registers.\<close>

lemma board_uart_probe:
  assumes "mapbase (uport (ports 5)) = 0" "\<And>u. add u = (0, u)"
  shows "stm32_probe add \<lparr>pdev_id = 5, res_mem = [0x40011400, 0x40026400], res_irq = [71, 58]\<rparr> ports = (0, ports(5 := port_fill 5 0x40011400 0x40026400 71 58 (ports 5)), Some 5)"
    "ini_stream (upriv (port_fill 5 0x40011400 0x40026400 71 58 u)) = 2" "\<not> dma_hi (upriv (port_fill 5 0x40011400 0x40026400 71 58 u))"
    "reg_dma_base (upriv (port_fill 5 0x40011400 0x40026400 71 58 u)) = STM32_DMA2_BASE" "usart_irq (upriv (port_fill 5 0x40011400 0x40026400 71 58 u)) = 71"
  using assms by (simp_all add: stm32_probe_def STM32_NR_UARTS_def get_resource_def port_fill_def stm32_usart_rx_dma_def upd_uport_def upd_upriv_def STM32_DMA2_BASE_def)

end
