(* ===== verification/Spec2Isabelle.thy ===== *)
theory Spec2Isabelle
  imports Iomux_Init Clock_Refs Dmac_Props Dmainit Dmamem_Props Timer Eth_Open Rtc_Props Uart_Open Uart_Line
begin

text \<open>
  A verification library for the board support of \<^verbatim>\<open>linux-stm32f7-disco\<close>, a port of uClinux 2.6.33 to the STM32F746G-DISCO board.
  It models what the port adds or relies on most: the machine code of \<^verbatim>\<open>arch/arm/mach-stm32\<close>, the parts of \<^verbatim>\<open>arch/arm/common\<close>
  and \<^verbatim>\<open>kernel/irq\<close> it works with, the DMA memory allocator, the clock source arithmetic, the Ethernet driver, the serial driver with the serial core around it, and the driver
  of the real-time clock. All paths below are relative to \<^verbatim>\<open>src/linux-stm32f7-master\<close>.

  \<^bold>\<open>The program.\<close> After the boot loader has set up the PLL and SDRAM, the machine code identifies the platform, configures the pins, computes
  the clock tree from the RCC registers, sets up the interrupt controller, the timers and the DMA request routing, and registers the
  devices. Drivers then ask for their clocks by name, take DMA channels and interrupts, and use coherent DMA memory. Interrupts of
  pins reach their drivers through the external interrupt controller and a chained handler of the GPIO driver. The Ethernet driver keeps its rings
  in on-chip memory that no cache covers. The serial driver receives through a DMA stream it programs itself, into two buffers of the DMA memory, and transmits from the ring of the serial core.

  \<^bold>\<open>Shared ground.\<close>
  \<^item> \<^verbatim>\<open>Prelude\<close>: machine types, error numbers, faults, bit fields, and the interface \<open>reg_bank\<close> of a bank of registers that is configured index by index.
  \<^item> \<^verbatim>\<open>Soc\<close>: the register maps as records, one record \<open>soc\<close> for the chip, the configuration symbols and the shipped \<^verbatim>\<open>.config\<close>, the identification of the platform
    (\<^verbatim>\<open>stm32_platform.c\<close>).
  \<^item> \<^verbatim>\<open>Refcount\<close>: the interface \<open>refcounted\<close> of a resource that is switched when its counter leaves or reaches 0; \<^verbatim>\<open>Dataflow\<close>: the interface \<open>channel\<close> of a data path whose output followed by what it holds is its input.

  \<^bold>\<open>Components.\<close>
  \<^item> Pins (\<^verbatim>\<open>iomux.c\<close>): \<^verbatim>\<open>Iomux\<close> has \<open>stm32f2_gpio_config\<close> and instantiates \<open>reg_bank\<close> for pins, \<^verbatim>\<open>Iomux_Init\<close> has \<open>stm32_iomux_init\<close> block by block. Shown: a call
    writes exactly the fields of its pin or refuses without effect; after initialisation every configured pin has its role, the
    Ethernet pins under every configuration.
  \<^item> Clocks (\<^verbatim>\<open>clock.c\<close>, \<^verbatim>\<open>common/clkdev.c\<close>): \<^verbatim>\<open>Clock\<close>, \<^verbatim>\<open>Clock_Tree\<close>, \<^verbatim>\<open>Clock_Refs\<close> and \<^verbatim>\<open>Clkdev\<close>. Shown: the outcome and the frequencies of
    \<open>stm32_clock_init\<close> against the tree in whole Hz, the 48 MHz of the PLLSAI, that lookups give the most specific entry, that a clock
    somebody holds runs (through \<open>refcounted\<close>), and how the pixel clock stops the 48 MHz domain.
  \<^item> DMA controller (\<^verbatim>\<open>dmac.c\<close>, \<^verbatim>\<open>dmainit.c\<close>): \<^verbatim>\<open>Dmac\<close>, \<^verbatim>\<open>Dmac_Api\<close>, \<^verbatim>\<open>Dmac_Props\<close>, \<^verbatim>\<open>Dmainit\<close>, with the interface \<open>exclusive\<close> of channels that are got and put. Shown:
    one owner per channel, isolation of calls, that a running stream cannot be changed, the exact configuration a sequence of calls leaves,
    the round trip of the interrupt, and the routing of every request source.
  \<^item> DMA memory (\<^verbatim>\<open>mm/dmamem.c\<close>): \<^verbatim>\<open>Dmamem\<close>, \<^verbatim>\<open>Dmamem_Inv\<close>, \<^verbatim>\<open>Dmamem_Free\<close>, \<^verbatim>\<open>Dmamem_Props\<close>, with the interface \<open>allocator\<close>. Shown: blocks in use are disjoint, the
    contract of an allocation, the round trip with a free, no lasting fragmentation, and two kinds of requests the size arithmetic lets through.
  \<^item> Interrupts (\<^verbatim>\<open>kernel/irq\<close>, \<^verbatim>\<open>arch/arm/kernel/irq.c\<close>, \<^verbatim>\<open>common/nvic.c\<close>, \<^verbatim>\<open>exti.c\<close>, \<^verbatim>\<open>gpio.c\<close>): \<^verbatim>\<open>Irq_Desc\<close>, \<^verbatim>\<open>Irq\<close>, \<^verbatim>\<open>Exti\<close>, \<^verbatim>\<open>Gpio\<close> are the models, \<^verbatim>\<open>Irq_Nest\<close>, \<^verbatim>\<open>Irq_Gpio\<close>,
    \<^verbatim>\<open>Gpio_Props\<close> and \<^verbatim>\<open>Irq_Init\<close> the lemmas. Shown: an interrupt runs exactly when nobody holds it disabled (through \<open>refcounted\<close>), the
    descriptors after boot, the round trip of request and free, and the way of an edge from the pin to the handler of its driver, with the pins where it fails.
  \<^item> Time (\<^verbatim>\<open>timer.c\<close>, \<^verbatim>\<open>common/cortexm3.c\<close>, \<^verbatim>\<open>kernel/time\<close>): \<^verbatim>\<open>Clocksource\<close> and \<^verbatim>\<open>Timer\<close>. Shown: the conversion to nanoseconds with its error across the wrap-around of the
    counter, the tick that \<open>stm32_timer_init\<close> leaves running on top of clocks and interrupts, and that each tick is delivered and acknowledged.
  \<^item> Ethernet (\<^verbatim>\<open>drivers/net/arm/stm32_eth.c\<close>, \<^verbatim>\<open>eth.c\<close>): \<^verbatim>\<open>Eth\<close> has the state, the data paths and the interrupt handler, \<^verbatim>\<open>Eth_Hw\<close> the set-up of board, memory, MAC and PHY.
    \<^verbatim>\<open>Eth_Tx\<close> shows that the transmit ring with its DMA is a FIFO (a \<open>channel\<close>), and the race that loses a frame; \<^verbatim>\<open>Eth_Rx\<close> that
    receiving is exact and that the poll ends and strands no frame; \<^verbatim>\<open>Eth_Open\<close> that opening gives disjoint rings in their initial states, and what closing leaks.
  \<^item> Serial ports (\<^verbatim>\<open>drivers/serial/stm32_usart.c\<close>, \<^verbatim>\<open>drivers/serial/serial_core.c\<close>, \<^verbatim>\<open>drivers/char/tty_ioctl.c\<close>, \<^verbatim>\<open>mach-stm32/uart.c\<close>): \<^verbatim>\<open>Termios\<close> has the line speeds of terminals, \<^verbatim>\<open>Uart\<close> the state, the data paths
    and the interrupt handlers, \<^verbatim>\<open>Uart_Port\<close> opening, closing, line settings, the console and the devices of the board. \<^verbatim>\<open>Uart_Tx\<close> shows that transmission is a \<open>channel\<close>, that what is written is sent,
    and what the console sends; \<^verbatim>\<open>Uart_Rx\<close> that reception through the two buffers is a \<open>channel\<close> however the stream moves between the accesses of the handler, that nothing is left behind, and the
    acknowledgement that comes too early; \<^verbatim>\<open>Uart_Open\<close> that opening establishes the invariants of both paths, on top of DMA memory and interrupts, and what closing leaks; \<^verbatim>\<open>Uart_Line\<close> when the
    baud rate register is right, which frames are set, and that the streams are those of the request table.
  \<^item> Real-time clock (\<^verbatim>\<open>drivers/rtc/rtc-stm32f2.c\<close>, \<^verbatim>\<open>lib/bcd.c\<close>): \<^verbatim>\<open>Rtc\<close> and \<^verbatim>\<open>Rtc_Props\<close>. Shown: the round trips of time and alarm, the inverted clearing of the
    alarm event, and that removal leaves the handlers installed. The shipped configuration of the board does not build this driver.

  \<^bold>\<open>Conventions.\<close> Structures are records, enumerations and groups of macros datatypes (for macros with a function that gives the value), \<^verbatim>\<open>u32\<close> and pointers 32-bit words, so that arithmetic wraps as in C; signed quantities
  that the code keeps in range are integers. Every operation is a function on an explicit state with the branches and early returns of the code. A result
  \<open>fault + 'a\<close> has what C leaves undefined, and a failed \<^verbatim>\<open>BUG_ON\<close>, as a value; \<open>None\<close> of an option is a function that does not return. Spinlocks and masked interrupts
  make the code between them one step; where the code releases them, the model interleaves other steps there.

  \<^bold>\<open>Hardware.\<close> What the chip does by itself is a parameter with named hypotheses: the pending register (\<open>pr_hw\<close>), the lock of the PLLSAI (\<open>pllsai_locks\<close>),
  the timer (\<open>tim_documented\<close>), the MAC (\<open>mac_responds\<close>), the status register of the real-time clock (\<open>rtc_documented\<close>), the transmitter of a USART (\<open>txe_documented\<close>),
  the clocks and the stream at the opening of a port (\<open>open_env\<close>). The receiving stream is the function \<open>dma_arrive\<close>: it stores a character, counts, changes the buffer and raises the flags. Each has a concrete instance in the witnesses.

  \<^bold>\<open>Loops and fuel.\<close> Loops over lists and counters are structural or have a termination proof. Polls of a flag are bounded as in the code, or a
  parameter says whether the flag comes. Only the receive poll has fuel: \<open>Suc budget\<close> rounds, shown to be enough because every round but the last takes a frame.
  That writing to a port ends is shown with 4096 interrupts, the size of the ring.

  \<^bold>\<open>Not modelled.\<close> The build for STM32F1 and for other families; caches (memory is coherent); threaded interrupt handlers, probing and
  power management of interrupts; the Ethernet driver's address parsing, removal and \<^verbatim>\<open>ioctl\<close>; the ioctls and the registration of the serial core; the drivers for I2C, SPI, frame
  buffer, SD card, USB and flash, which work through kernel cores that are not modelled (their pins, clocks and DMA routes are); the rest of the kernel, user space and host tools.
\<close>

end
